(* ===== verification/Prelude.thy ===== *)
theory Prelude
  imports Main "HOL-Library.Signed_Division"
begin

text \<open>
  Shared vocabulary of the development: Go's 64-bit integers and times, the string
  functions of the Go standard library that the services call, and the generic lemmas on
  lists and sums that the component theories share.

  \<^item> A Go \<open>int64\<close> is an \<^typ>\<open>int\<close> in the range of \<open>fits\<close>; an arithmetic
    operation that Go performs modulo \<open>2 ^ 64\<close> is written with \<open>i64\<close>.
  \<^item> Go's \<open>/\<close> and \<open>%\<close> truncate towards zero: \<open>sdiv\<close> and \<open>smod\<close> of
    \<^verbatim>\<open>HOL-Library.Signed_Division\<close>.
  \<^item> A \<open>time.Time\<close> is the number of nanoseconds since the epoch.
\<close>

named_theorems run_simps \<open>inversion of successful runs of the store monad\<close>
named_theorems step_simps \<open>forward evaluation of the store monad\<close>

section \<open>Machine integers and times\<close>

type_synonym time = int
type_synonym uuid = nat

definition max_i64 :: int where
  "max_i64 = 9223372036854775807"

definition min_i64 :: int where
  "min_i64 = -9223372036854775808"

definition fits :: "int \<Rightarrow> bool" where
  "fits x \<longleftrightarrow> min_i64 \<le> x \<and> x \<le> max_i64"

definition i64 :: "int \<Rightarrow> int" where
  "i64 x = (x + 9223372036854775808) mod 18446744073709551616 - 9223372036854775808"

lemmas i64_bounds = max_i64_def min_i64_def fits_def

lemma i64_fits [simp]: "fits x \<Longrightarrow> i64 x = x"
  by (simp add: i64_def i64_bounds)

lemma fits_i64 [simp]: "fits (i64 x)"
proof -
  have "0 \<le> (x + 9223372036854775808) mod 18446744073709551616"
    and "(x + 9223372036854775808) mod 18446744073709551616 < 18446744073709551616"
    by simp_all
  then show ?thesis by (simp add: i64_def i64_bounds)
qed

lemma i64_le_nonneg: "0 \<le> x \<Longrightarrow> i64 x \<le> x"
proof (cases "x \<le> max_i64")
  case True
  moreover assume "0 \<le> x"
  ultimately have "fits x" by (simp add: i64_bounds)
  then show ?thesis by simp
next
  case False
  moreover from fits_i64 [of x] have "i64 x \<le> max_i64" by (simp add: fits_def)
  ultimately show ?thesis by simp
qed

definition second :: int where
  "second = 1000000000"

definition minute :: int where
  "minute = 60 * second"

definition hour :: int where
  "hour = 60 * minute"

definition millisecond :: int where
  "millisecond = 1000000"

lemmas time_units = second_def minute_def hour_def millisecond_def

text \<open>\<open>t.Sub(u)\<close> saturates at the ends of the range of a \<open>time.Duration\<close>.\<close>

definition time_sub :: "time \<Rightarrow> time \<Rightarrow> int" where
  "time_sub t u = max min_i64 (min max_i64 (t - u))"

lemma fits_time_sub [simp]: "fits (time_sub t u)"
  by (auto simp: time_sub_def i64_bounds)

text \<open>Division of non-negative integers, as the services use it.\<close>

lemma sdiv_nonneg: "0 \<le> a \<Longrightarrow> 0 < b \<Longrightarrow> (a::int) sdiv b = a div b"
  by (simp add: signed_divide_int_def sgn_if)

lemma smod_nonneg: "0 \<le> a \<Longrightarrow> 0 < b \<Longrightarrow> (a::int) smod b = a mod b"
  by (cases "a = 0") (simp_all add: signed_modulo_int_def)

section \<open>Strings of bytes\<close>

text \<open>
  A Go string is a sequence of bytes. \<open>utf8.RuneCountInString\<close> counts the runes that
  decoding finds; a byte that starts no well-formed sequence counts as one rune.
\<close>

definition cont :: "nat \<Rightarrow> nat \<Rightarrow> char \<Rightarrow> bool" where
  "cont lo hi c \<longleftrightarrow> lo \<le> of_char c \<and> of_char c \<le> hi"

fun RuneCountInString :: "string \<Rightarrow> nat" where
  "RuneCountInString [] = 0"
| "RuneCountInString (a # b # c # d # s) =
     (if cont 194 223 a \<and> cont 128 191 b then Suc (RuneCountInString (c # d # s))
      else if cont 128 191 c \<and>
        (cont 224 224 a \<and> cont 160 191 b \<or> cont 225 236 a \<and> cont 128 191 b \<or>
         cont 237 237 a \<and> cont 128 159 b \<or> cont 238 239 a \<and> cont 128 191 b)
        then Suc (RuneCountInString (d # s))
      else if cont 128 191 c \<and> cont 128 191 d \<and>
        (cont 240 240 a \<and> cont 144 191 b \<or> cont 241 243 a \<and> cont 128 191 b \<or>
         cont 244 244 a \<and> cont 128 143 b)
        then Suc (RuneCountInString s)
      else Suc (RuneCountInString (b # c # d # s)))"
| "RuneCountInString [a, b, c] =
     (if cont 194 223 a \<and> cont 128 191 b then Suc (RuneCountInString [c])
      else if cont 128 191 c \<and>
        (cont 224 224 a \<and> cont 160 191 b \<or> cont 225 236 a \<and> cont 128 191 b \<or>
         cont 237 237 a \<and> cont 128 159 b \<or> cont 238 239 a \<and> cont 128 191 b)
        then 1
      else Suc (RuneCountInString [b, c]))"
| "RuneCountInString [a, b] =
     (if cont 194 223 a \<and> cont 128 191 b then 1 else Suc (RuneCountInString [b]))"
| "RuneCountInString [a] = 1"

lemma RuneCount_le_length: "RuneCountInString s \<le> length s"
  by (induction s rule: RuneCountInString.induct) auto

text \<open>\<open>strings.Contains\<close>, \<open>strings.HasPrefix\<close> and \<open>strings.ToLower\<close> on ASCII.\<close>

fun HasPrefix :: "string \<Rightarrow> string \<Rightarrow> bool" where
  "HasPrefix s [] = True"
| "HasPrefix [] (p # ps) = False"
| "HasPrefix (c # s) (p # ps) = (c = p \<and> HasPrefix s ps)"

fun Contains :: "string \<Rightarrow> string \<Rightarrow> bool" where
  "Contains [] sub = (sub = [])"
| "Contains (c # s) sub = (HasPrefix (c # s) sub \<or> Contains s sub)"

definition lower_char :: "char \<Rightarrow> char" where
  "lower_char c = (if cont 65 90 c then char_of (of_char c + (32::nat)) else c)"

definition ToLower :: "string \<Rightarrow> string" where
  "ToLower = map lower_char"

lemma HasPrefix_append: "HasPrefix (p @ s) p"
  by (induction p) auto

lemma HasPrefix_iff: "HasPrefix s p \<longleftrightarrow> (\<exists>t. s = p @ t)"
  by (induction s p rule: HasPrefix.induct) auto

section \<open>Lists\<close>

lemma sum_list_map_filter_split:
  "sum_list (map f xs) = sum_list (map f (filter P xs)) + sum_list (map f (filter (\<lambda>x. \<not> P x) xs))"
  for f :: "'a \<Rightarrow> int"
  by (induction xs) auto

text \<open>
  \<open>first_by key P rows\<close> is what \<open>ORDER BY key LIMIT 1\<close> returns over the rows that
  satisfy \<open>P\<close>, if there is one.
\<close>

definition first_by :: "('r \<Rightarrow> 'k::linorder) \<Rightarrow> ('r \<Rightarrow> bool) \<Rightarrow> 'r list \<Rightarrow> 'r option" where
  "first_by key P rows =
     (case sort_key key (filter P rows) of [] \<Rightarrow> None | r # _ \<Rightarrow> Some r)"

lemma first_by_None [simp]: "first_by key P rows = None \<longleftrightarrow> (\<forall>r \<in> set rows. \<not> P r)"
proof -
  have "sort_key key (filter P rows) = [] \<longleftrightarrow> set (sort_key key (filter P rows)) = {}"
    by (simp only: set_empty)
  also have "\<dots> \<longleftrightarrow> (\<forall>r \<in> set rows. \<not> P r)" unfolding set_sort by auto
  finally show ?thesis by (auto simp: first_by_def split: list.splits)
qed

lemma first_by_SomeD:
  assumes "first_by key P rows = Some r"
  shows "r \<in> set rows" and "P r" and "\<forall>x \<in> set rows. P x \<longrightarrow> key r \<le> key x"
proof -
  from assms obtain rs where eq: "sort_key key (filter P rows) = r # rs"
    by (auto simp: first_by_def split: list.splits)
  then have "set (r # rs) = {x \<in> set rows. P x}"
    by (metis set_filter set_sort)
  then show "r \<in> set rows" and "P r" by auto
  have "sorted (map key (r # rs))" using eq by (metis sorted_sort_key)
  with \<open>set (r # rs) = _\<close> show "\<forall>x \<in> set rows. P x \<longrightarrow> key r \<le> key x"
    by (auto simp: set_eq_iff)
qed

lemma first_by_cong:
  "(\<And>x. x \<in> set rows \<Longrightarrow> P x = Q x) \<Longrightarrow> first_by key P rows = first_by key Q rows"
  unfolding first_by_def by (metis filter_cong)

text \<open>Under a unique key the row found is the row with that key.\<close>

lemma first_by_unique:
  assumes "r \<in> set rows" and "P r" and "\<And>x. x \<in> set rows \<Longrightarrow> P x \<Longrightarrow> x = r"
  shows "first_by key P rows = Some r"
proof (cases "first_by key P rows")
  case None
  with assms(1,2) show ?thesis by auto
next
  case (Some x)
  from first_by_SomeD(1,2) [OF this] assms(3) Some show ?thesis by auto
qed

lemma distinct_map_unique:
  "distinct (map f xs) \<Longrightarrow> x \<in> set xs \<Longrightarrow> y \<in> set xs \<Longrightarrow> f x = f y \<Longrightarrow> x = y"
  by (auto simp: distinct_map inj_on_def)

text \<open>The same for a lookup by a unique key without an order.\<close>

lemma find_unique:
  "r \<in> set rows \<Longrightarrow> P r \<Longrightarrow> (\<And>x. x \<in> set rows \<Longrightarrow> P x \<Longrightarrow> x = r) \<Longrightarrow> find P rows = Some r"
proof (induction rows)
  case (Cons a rows)
  show ?case
  proof (cases "P a")
    case True
    with Cons.prems(3) [of a] show ?thesis by simp
  next
    case False
    with Cons.prems(1,2) have "r \<in> set rows" by auto
    then have "find P rows = Some r" by (rule Cons.IH [OF _ Cons.prems(2) Cons.prems(3) [OF list.set_intros(2)]])
    with False show ?thesis by simp
  qed
qed simp

lemma find_SomeD: "find P rows = Some r \<Longrightarrow> r \<in> set rows \<and> P r"
  by (induction rows) (auto split: if_splits)

text \<open>Updating the rows of a table in place.\<close>

definition update_rows :: "('r \<Rightarrow> bool) \<Rightarrow> ('r \<Rightarrow> 'r) \<Rightarrow> 'r list \<Rightarrow> 'r list" where
  "update_rows P f rows = map (\<lambda>r. if P r then f r else r) rows"

lemma set_update_rows:
  "x \<in> set (update_rows P f rows) \<longleftrightarrow>
    (\<exists>r \<in> set rows. (P r \<and> x = f r) \<or> (\<not> P r \<and> x = r))"
  by (auto simp: update_rows_def)

lemma map_update_rows:
  "(\<And>r. P r \<Longrightarrow> g (f r) = g r) \<Longrightarrow> map g (update_rows P f rows) = map g rows"
  by (auto simp: update_rows_def)

lemma sum_update_rows:
  "sum_list (map g (update_rows P f rows)) =
    sum_list (map g rows) + sum_list (map (\<lambda>r. g (f r) - g r) (filter P rows))"
  for g :: "'r \<Rightarrow> int"
  by (induction rows) (auto simp: update_rows_def)

lemma update_rows_id [simp]: "update_rows P f [] = []"
  by (simp add: update_rows_def)

lemma update_rows_none: "(\<And>r. r \<in> set rows \<Longrightarrow> \<not> P r) \<Longrightarrow> update_rows P f rows = rows"
  by (auto simp: update_rows_def intro: map_idI)

lemma filter_unique:
  assumes "distinct (map k rows)" and "r \<in> set rows" and "k r = v"
  shows "filter (\<lambda>x. k x = v) rows = [r]"
  using assms
proof (induction rows)
  case (Cons a rows)
  show ?case
  proof (cases "k a = v")
    case True
    with Cons.prems have "\<forall>x \<in> set rows. k x \<noteq> v" by (auto simp: rev_image_eqI)
    then have "filter (\<lambda>x. k x = v) rows = []" by (simp add: filter_empty_conv)
    moreover have "a = r"
      using True Cons.prems by (auto simp: rev_image_eqI)
    ultimately show ?thesis using True by simp
  next
    case False
    with Cons show ?thesis by auto
  qed
qed simp

end
