(* ===== verification/Schema.thy ===== *)
theory Schema
  imports Prelude
begin

text \<open>
  The data of the program: one \<^theory_text>\<open>record\<close> per struct of
  \<^verbatim>\<open>services/api/internal/models\<close>, one \<^theory_text>\<open>datatype\<close> per Go
  enumeration, the database as a record of tables (a table is the list of its rows), and
  the errors that the services return. A field \<open>F\<close> of the struct \<open>PointsLedger\<close> is
  \<open>PL_F\<close>. A pointer field is an \<^typ>\<open>'a option\<close>. Associations that GORM preloads
  are not columns and are joined explicitly where the code preloads them. An
  \<open>UpdatedAt\<close> column is kept where a service writes it itself.
\<close>

section \<open>Identity\<close>

datatype UserRole = RoleViewer | RoleStreamer | RoleAgency | RoleAdmin

datatype CharacterKind =
  CharacterCrab | CharacterDolphin | CharacterTurtle | CharacterWhale | CharacterCapybara

record User =
  U_ID :: uuid
  U_Username :: "string option"
  U_Email :: "string option"
  U_PasswordHash :: "string option"
  U_AvatarURL :: "string option"
  U_Role :: UserRole
  U_IsActive :: bool
  U_EmailVerified :: bool
  U_ActiveCharacter :: CharacterKind
  U_SwitchCooldownUntil :: "time option"
  U_CreatedAt :: time
  U_DeletedAt :: "time option"

datatype ProviderType =
  ProviderTwitch | ProviderGoogle | ProviderWeb3 | ProviderEmail | ProviderOther string

record AuthProvider =
  AP_ID :: uuid
  AP_UserID :: uuid
  AP_Provider :: ProviderType
  AP_ProviderID :: string
  AP_AccessToken :: "string option"
  AP_RefreshToken :: "string option"
  AP_TokenExpiresAt :: "time option"
  AP_CreatedAt :: time
  AP_DeletedAt :: "time option"

record RefreshToken =
  RT_ID :: uuid
  RT_UserID :: uuid
  RT_TokenHash :: string
  RT_ExpiresAt :: time
  RT_CreatedAt :: time

record Web3Nonce =
  WN_ID :: uuid
  WN_Nonce :: string
  WN_Address :: string
  WN_ExpiresAt :: time
  WN_CreatedAt :: time

record EmailVerification =
  EV_ID :: uuid
  EV_UserID :: uuid
  EV_TokenHash :: string
  EV_ExpiresAt :: time
  EV_CreatedAt :: time

record PasswordReset =
  PR_ID :: uuid
  PR_Email :: string
  PR_TokenHash :: string
  PR_ExpiresAt :: time
  PR_CreatedAt :: time

record ShippingAddress =
  SA_ID :: uuid
  SA_UserID :: uuid
  SA_RecipientName :: string
  SA_Phone :: "string option"
  SA_AddressLine1 :: string
  SA_AddressLine2 :: "string option"
  SA_City :: string
  SA_District :: "string option"
  SA_PostalCode :: "string option"
  SA_Country :: string
  SA_IsDefault :: bool
  SA_CreatedAt :: time
  SA_DeletedAt :: "time option"

section \<open>Points and watch time\<close>

datatype TxSource =
  TxSourceBits | TxSourceTPoint | TxSourceWatchTime | TxSourceClick | TxSourceSpend |
  TxSourceClaim | TxSourceAirdrop

record PointsLedger =
  PL_ID :: uuid
  PL_UserID :: uuid
  PL_ChannelID :: string
  PL_CumulativeTotal :: int
  PL_SpendableBalance :: int
  PL_CreatedAt :: time
  PL_UpdatedAt :: time

record PointsTransaction =
  PT_ID :: uuid
  PT_LedgerID :: uuid
  PT_WatchSessionID :: "uuid option"
  PT_Source :: TxSource
  PT_Delta :: int
  PT_BalanceAfter :: int
  PT_SKU :: "string option"
  PT_Note :: "string option"
  PT_ExternalTransactionID :: "string option"
  PT_CreatedAt :: time

record WatchSession =
  WS_ID :: uuid
  WS_UserID :: uuid
  WS_ChannelID :: string
  WS_AccumulatedSeconds :: int
  WS_RewardedSeconds :: int
  WS_LastHeartbeatAt :: time
  WS_ClickCooldownUntil :: time
  WS_IsActive :: bool
  WS_EndedAt :: "time option"
  WS_CreatedAt :: time

record WatchTimeStat =
  WT_ID :: uuid
  WT_UserID :: uuid
  WT_ChannelID :: string
  WT_TotalWatchSeconds :: int
  WT_CreatedAt :: time
  WT_UpdatedAt :: time

record BroadcastTimeStat =
  BS_ID :: uuid
  BS_StreamerID :: uuid
  BS_ChannelID :: string
  BS_TotalBroadcastSeconds :: int
  BS_CreatedAt :: time
  BS_UpdatedAt :: time

record BroadcastTimeLog =
  BL_ID :: uuid
  BL_StreamerID :: uuid
  BL_ChannelID :: string
  BL_Seconds :: int
  BL_RecordedAt :: time

record ChannelConfig =
  CC_ChannelID :: string
  CC_SecondsPerPoint :: int
  CC_Multiplier :: int
  CC_DailyAirdropLimit :: int
  CC_CreatedAt :: time

record Streamer =
  ST_ID :: uuid
  ST_UserID :: uuid
  ST_AgencyUserID :: "uuid option"
  ST_ChannelID :: string
  ST_DisplayName :: string
  ST_CreatedAt :: time

record AgencyStreamer =
  AS_ID :: uuid
  AS_AgencyID :: uuid
  AS_ChannelID :: string
  AS_CreatedAt :: time

section \<open>Claims and coupons\<close>

datatype ClaimStatus =
  ClaimStatusPending | ClaimStatusBroadcast | ClaimStatusConfirmed | ClaimStatusFailed |
  ClaimStatusFinalizeFailed

record TachiBalance =
  TB_ID :: uuid
  TB_UserID :: uuid
  TB_Balance :: int
  TB_UpdatedAt :: time

record Claim =
  CL_ID :: uuid
  CL_UserID :: uuid
  CL_WalletAddr :: string
  CL_Amount :: int
  CL_Status :: ClaimStatus
  CL_TxHash :: "string option"
  CL_ErrorMessage :: "string option"
  CL_BroadcastAt :: "time option"
  CL_ConfirmedAt :: "time option"
  CL_FailedAt :: "time option"
  CL_FinalizeFailedAt :: "time option"
  CL_CreatedAt :: time
  CL_UpdatedAt :: time

record ClaimItem =
  CI_ID :: uuid
  CI_ClaimID :: uuid
  CI_ClaimUserID :: uuid
  CI_LedgerID :: uuid
  CI_PointsTransactionID :: uuid
  CI_Amount :: int
  CI_CreatedAt :: time

datatype CouponRedemptionStatus =
  CouponRedemptionPending | CouponRedemptionRedeemed | CouponRedemptionCompensationNeeded

record CouponRedemption =
  CR_ID :: uuid
  CR_UserID :: uuid
  CR_CouponID :: string
  CR_Amount :: int
  CR_TxHash :: string
  CR_Status :: CouponRedemptionStatus
  CR_VoucherCode :: "string option"
  CR_ErrorMessage :: "string option"
  CR_CreatedAt :: time
  CR_UpdatedAt :: time

section \<open>Raffles\<close>

datatype RaffleStatus = RaffleStatusDraft | RaffleStatusActive | RaffleStatusCompleted

datatype RaffleSource =
  RaffleSourceCSV | RaffleSourceTwitchAPI | RaffleSourceExtensionButton

datatype RaffleMode = RaffleModePublic | RaffleModeSubscribers

record Raffle =
  RF_ID :: uuid
  RF_UserID :: uuid
  RF_Title :: string
  RF_Status :: RaffleStatus
  RF_Source :: RaffleSource
  RF_Mode :: RaffleMode
  RF_WinnerCount :: int
  RF_EntryOpen :: bool
  RF_ScheduledAt :: "time option"
  RF_DiscordWebhookURL :: "string option"
  RF_CreatedAt :: time

record RaffleEntry =
  RE_ID :: uuid
  RE_RaffleID :: uuid
  RE_UserID :: "uuid option"
  RE_TwitchLogin :: string
  RE_DisplayName :: string
  RE_Source :: string
  RE_Eligible :: bool
  RE_IneligibleReason :: string
  RE_CreatedAt :: time

record RaffleDraw =
  RD_ID :: uuid
  RD_RaffleID :: uuid
  RD_EntryID :: uuid
  RD_ClaimToken :: string
  RD_ClaimExpiresAt :: time
  RD_DrawnAt :: time
  RD_PrizeTierID :: "uuid option"

record RaffleClaim =
  RC_ID :: uuid
  RC_DrawID :: uuid
  RC_RecipientName :: string
  RC_Phone :: string
  RC_AddressLine1 :: string
  RC_AddressLine2 :: string
  RC_City :: string
  RC_PostalCode :: string
  RC_Country :: string
  RC_SubmittedAt :: time

record RafflePrizeTier =
  TI_ID :: uuid
  TI_RaffleID :: uuid
  TI_Name :: string
  TI_PrizeDescription :: string
  TI_WinnerCount :: int
  TI_DrawnCount :: int
  TI_Position :: int
  TI_CreatedAt :: time

section \<open>The database\<close>

record db =
  t_users :: "User list"
  t_auth_providers :: "AuthProvider list"
  t_refresh_tokens :: "RefreshToken list"
  t_web3_nonces :: "Web3Nonce list"
  t_email_verifications :: "EmailVerification list"
  t_password_resets :: "PasswordReset list"
  t_shipping_addresses :: "ShippingAddress list"
  t_points_ledgers :: "PointsLedger list"
  t_points_transactions :: "PointsTransaction list"
  t_watch_sessions :: "WatchSession list"
  t_watch_time_stats :: "WatchTimeStat list"
  t_broadcast_time_stats :: "BroadcastTimeStat list"
  t_broadcast_time_logs :: "BroadcastTimeLog list"
  t_channel_configs :: "ChannelConfig list"
  t_streamers :: "Streamer list"
  t_agency_streamers :: "AgencyStreamer list"
  t_tachi_balances :: "TachiBalance list"
  t_claims :: "Claim list"
  t_claim_items :: "ClaimItem list"
  t_coupon_redemptions :: "CouponRedemption list"
  t_raffles :: "Raffle list"
  t_raffle_entries :: "RaffleEntry list"
  t_raffle_draws :: "RaffleDraw list"
  t_raffle_claims :: "RaffleClaim list"
  t_raffle_prize_tiers :: "RafflePrizeTier list"

definition empty_db :: db where
  "empty_db = \<lparr>t_users = [], t_auth_providers = [], t_refresh_tokens = [], t_web3_nonces = [],
     t_email_verifications = [], t_password_resets = [], t_shipping_addresses = [],
     t_points_ledgers = [], t_points_transactions = [], t_watch_sessions = [],
     t_watch_time_stats = [], t_broadcast_time_stats = [], t_broadcast_time_logs = [],
     t_channel_configs = [], t_streamers = [], t_agency_streamers = [], t_tachi_balances = [],
     t_claims = [], t_claim_items = [], t_coupon_redemptions = [], t_raffles = [],
     t_raffle_entries = [], t_raffle_draws = [], t_raffle_claims = [],
     t_raffle_prize_tiers = []\<rparr>"

section \<open>Errors\<close>

text \<open>
  What a database statement can fail with: the translated \<open>gorm.ErrDuplicatedKey\<close>, a
  PostgreSQL error with its SQLSTATE code, constraint name and message, or an error of the driver or
  of the context with its message.
\<close>

datatype db_error =
  ErrDuplicatedKey
| PgError string string string
| DriverError string

datatype points_error =
  ErrInsufficientBalance | ErrLedgerNotFound | ErrInvalidPointsAmount | ErrInvalidSKU |
  ErrInvalidExternalTransactionID | ErrPointsDeltaOverflow

datatype watch_error = ErrNoActiveSession | ErrClickOnCooldown int

datatype airdrop_error =
  ErrNoActiveViewers | DailyAirdropExceededError int int int int

datatype claim_error =
  ErrClaimAmountInvalid | ErrClaimInsufficientBalance | ErrClaimWalletNotLinked |
  ErrClaimContractConfig | ErrMintReceiptStatusFailed

datatype spend_error =
  ErrSpendAmountInvalid | ErrSpendInsufficientBalance | ErrSpendWalletNotLinked |
  ErrSpendContractConfig | ErrTachiyaRedeemFailed

datatype raffle_error =
  ErrRaffleNotFound | ErrRaffleForbidden | ErrRaffleExhausted | ErrRaffleCompleted |
  ErrRaffleNotDraft | ErrClaimTokenExpired | ErrClaimNotFound | ErrClaimAlreadyDone |
  ErrClaimForbidden | ErrTwitchTokenMissing | ErrTwitchInsufficientScope |
  ErrUnsupportedRaffleSource | ErrInvalidDiscordWebhookURL | ErrPrizeTierNotFound |
  ErrPrizeTierHasDraws | ErrPrizeTierExhausted | ErrPrizeTierInvalidCount |
  ErrRaffleNotActive | ErrEntryNotOpen | ErrAlreadyJoined | ErrNotSubscriber |
  ErrViewerNotLinked

datatype auth_error =
  ErrUserNotFound | ErrInvalidCredentials | ErrEmailExists | ErrUsernameExists |
  ErrInvalidToken | errRefreshTokenExpired | ErrProviderLinked | ErrInvalidNonce |
  ErrInvalidSignature | ErrLastProvider | ErrAlreadyVerified | ErrInvalidVerifyToken |
  ErrInvalidResetToken | ErrPasswordResetEmailSend | ErrInvalidWalletAddress |
  ErrOAuthTokenEncryptionKeyMissing

datatype account_error =
  ErrAddressNotFound | ErrAgencyEmailTaken | ErrAgencyNameTaken | ErrAgencyNameTooLong |
  ErrAgencyNotFound | ErrDuplicateChannelID | ErrStreamerNotFound | ErrChannelNotOwned |
  ErrAgencyUserInvalid

datatype extension_error =
  ErrInvalidExtJWT | ErrInvalidReceipt | ErrExtSecretMissing | ErrDuplicateTransaction |
  ErrInvalidReceiptAmount | ErrInvalidReceiptType

text \<open>
  \<open>Wrap e s\<close> is \<open>fmt.Errorf("\<dots>%w\<dots>")\<close>: an error that \<open>errors.Is\<close> sees
  through to \<open>e\<close>, with the text \<open>s\<close> around it. \<open>Errorf s\<close> wraps nothing.
  \<open>RecordNotFound\<close> is \<open>gorm.ErrRecordNotFound\<close> where a function returns it as it is.
\<close>

datatype err =
  DbE db_error
| RecordNotFound
| PointsE points_error
| WatchE watch_error
| AirdropE airdrop_error
| ClaimE claim_error
| SpendE spend_error
| RaffleE raffle_error
| AuthE auth_error
| AccountE account_error
| ExtensionE extension_error
| Wrap err string
| Errorf string
| Panic

text \<open>\<open>errors.Is\<close>: follow the wrapped errors.\<close>

fun unwrap :: "err \<Rightarrow> err" where
  "unwrap (Wrap e s) = unwrap e"
| "unwrap e = e"

definition errors_is :: "err \<Rightarrow> err \<Rightarrow> bool" where
  "errors_is e t \<longleftrightarrow> unwrap e = t"

text \<open>The message of an error: the texts the \<open>var\<close> blocks of the services give.\<close>

fun db_error_text :: "db_error \<Rightarrow> string" where
  "db_error_text ErrDuplicatedKey = ''duplicated key not allowed''"
| "db_error_text (PgError code con msg) = ''ERROR: '' @ msg @ '' (SQLSTATE '' @ code @ '')''"
| "db_error_text (DriverError s) = s"

fun points_error_text :: "points_error \<Rightarrow> string" where
  "points_error_text ErrInsufficientBalance = ''insufficient spendable balance''"
| "points_error_text ErrLedgerNotFound = ''points ledger not found''"
| "points_error_text ErrInvalidPointsAmount = ''amount must be greater than zero''"
| "points_error_text ErrInvalidSKU = ''sku length must be <= 255 characters''"
| "points_error_text ErrInvalidExternalTransactionID = ''external transaction id length must be <= 255 characters''"
| "points_error_text ErrPointsDeltaOverflow = ''points delta overflow''"

fun watch_error_text :: "watch_error \<Rightarrow> string" where
  "watch_error_text ErrNoActiveSession = ''no active session''"
| "watch_error_text (ErrClickOnCooldown ms) = ''click on cooldown''"

fun airdrop_error_text :: "airdrop_error \<Rightarrow> string" where
  "airdrop_error_text ErrNoActiveViewers = ''no active viewers''"
| "airdrop_error_text (DailyAirdropExceededError l t r m) = ''daily airdrop limit exceeded''"

fun claim_error_text :: "claim_error \<Rightarrow> string" where
  "claim_error_text ErrClaimAmountInvalid = ''claim amount must be greater than zero''"
| "claim_error_text ErrClaimInsufficientBalance = ''insufficient spendable balance to claim''"
| "claim_error_text ErrClaimWalletNotLinked = ''web3 wallet not linked''"
| "claim_error_text ErrClaimContractConfig = ''claim contract config is incomplete''"
| "claim_error_text ErrMintReceiptStatusFailed = ''mint receipt status failed''"

fun spend_error_text :: "spend_error \<Rightarrow> string" where
  "spend_error_text ErrSpendAmountInvalid = ''spend amount must be greater than zero''"
| "spend_error_text ErrSpendInsufficientBalance = ''insufficient tachi balance''"
| "spend_error_text ErrSpendWalletNotLinked = ''web3 wallet not linked''"
| "spend_error_text ErrSpendContractConfig = ''spend contract config is incomplete''"
| "spend_error_text ErrTachiyaRedeemFailed = ''tachiya coupon redeem failed after successful burn''"

fun raffle_error_text :: "raffle_error \<Rightarrow> string" where
  "raffle_error_text ErrRaffleNotFound = ''raffle not found''"
| "raffle_error_text ErrRaffleForbidden = ''raffle does not belong to this user''"
| "raffle_error_text ErrRaffleExhausted = ''all entries have been drawn''"
| "raffle_error_text ErrRaffleCompleted = ''raffle is already completed''"
| "raffle_error_text ErrRaffleNotDraft = ''raffle is not in draft status''"
| "raffle_error_text ErrClaimTokenExpired = ''claim token has expired''"
| "raffle_error_text ErrClaimNotFound = ''claim token not found''"
| "raffle_error_text ErrClaimAlreadyDone = ''claim already submitted''"
| "raffle_error_text ErrClaimForbidden = ''claim forbidden: not the winner''"
| "raffle_error_text ErrTwitchTokenMissing = ''no twitch access token: streamer must log in via twitch''"
| "raffle_error_text ErrTwitchInsufficientScope = ''twitch token lacks channel:read:subscriptions scope''"
| "raffle_error_text ErrUnsupportedRaffleSource = ''raffle source does not support twitch sync''"
| "raffle_error_text ErrInvalidDiscordWebhookURL = ''invalid Discord webhook URL: must start with https://discord.com/api/webhooks/''"
| "raffle_error_text ErrPrizeTierNotFound = ''prize tier not found''"
| "raffle_error_text ErrPrizeTierHasDraws = ''prize tier already has draws, cannot delete''"
| "raffle_error_text ErrPrizeTierExhausted = ''prize tier winner count reached''"
| "raffle_error_text ErrPrizeTierInvalidCount = ''winner_count must be at least 1''"
| "raffle_error_text ErrRaffleNotActive = ''raffle is not active''"
| "raffle_error_text ErrEntryNotOpen = ''raffle entry not open''"
| "raffle_error_text ErrAlreadyJoined = ''already joined''"
| "raffle_error_text ErrNotSubscriber = ''not a subscriber''"
| "raffle_error_text ErrViewerNotLinked = ''viewer has no linked tachigo account''"

fun auth_error_text :: "auth_error \<Rightarrow> string" where
  "auth_error_text ErrUserNotFound = ''user not found''"
| "auth_error_text ErrInvalidCredentials = ''invalid credentials''"
| "auth_error_text ErrEmailExists = ''email already registered''"
| "auth_error_text ErrUsernameExists = ''username already taken''"
| "auth_error_text ErrInvalidToken = ''invalid or expired token''"
| "auth_error_text errRefreshTokenExpired = ''refresh token expired''"
| "auth_error_text ErrProviderLinked = ''provider already linked to another account''"
| "auth_error_text ErrInvalidNonce = ''invalid or expired nonce''"
| "auth_error_text ErrInvalidSignature = ''invalid wallet signature''"
| "auth_error_text ErrLastProvider = ''cannot unlink the only login method''"
| "auth_error_text ErrAlreadyVerified = ''email already verified''"
| "auth_error_text ErrInvalidVerifyToken = ''invalid or expired verification token''"
| "auth_error_text ErrInvalidResetToken = ''invalid or expired password reset token''"
| "auth_error_text ErrPasswordResetEmailSend = ''failed to send password reset email''"
| "auth_error_text ErrInvalidWalletAddress = ''invalid wallet address''"
| "auth_error_text ErrOAuthTokenEncryptionKeyMissing = ''oauth token encryption key is missing''"

fun account_error_text :: "account_error \<Rightarrow> string" where
  "account_error_text ErrAddressNotFound = ''address not found''"
| "account_error_text ErrAgencyEmailTaken = ''email already registered''"
| "account_error_text ErrAgencyNameTaken = ''name already taken''"
| "account_error_text ErrAgencyNameTooLong = ''agency name exceeds 50 characters''"
| "account_error_text ErrAgencyNotFound = ''agency not found''"
| "account_error_text ErrDuplicateChannelID = ''channel_id maps to multiple streamer users''"
| "account_error_text ErrStreamerNotFound = ''streamer not found''"
| "account_error_text ErrChannelNotOwned = ''channel not owned by user''"
| "account_error_text ErrAgencyUserInvalid = ''agency user invalid''"

fun extension_error_text :: "extension_error \<Rightarrow> string" where
  "extension_error_text ErrInvalidExtJWT = ''invalid extension JWT''"
| "extension_error_text ErrInvalidReceipt = ''invalid transaction receipt''"
| "extension_error_text ErrExtSecretMissing = ''TWITCH_EXTENSION_SECRET not configured''"
| "extension_error_text ErrDuplicateTransaction = ''transaction already processed''"
| "extension_error_text ErrInvalidReceiptAmount = ''receipt amount must be greater than zero''"
| "extension_error_text ErrInvalidReceiptType = ''receipt type must be bits''"

fun errText :: "err \<Rightarrow> string" where
  "errText (DbE e) = db_error_text e"
| "errText RecordNotFound = ''record not found''"
| "errText (PointsE e) = points_error_text e"
| "errText (WatchE e) = watch_error_text e"
| "errText (AirdropE e) = airdrop_error_text e"
| "errText (ClaimE e) = claim_error_text e"
| "errText (SpendE e) = spend_error_text e"
| "errText (RaffleE e) = raffle_error_text e"
| "errText (AuthE e) = auth_error_text e"
| "errText (AccountE e) = account_error_text e"
| "errText (ExtensionE e) = extension_error_text e"
| "errText (Wrap e s) = s"
| "errText (Errorf s) = s"
| "errText Panic = ''panic''"

end
