(* ===== verification/Store.thy ===== *)
theory Store
  imports Schema
begin

text \<open>
  The world a request runs in, and the monad of the service methods.

  A method is a function from the world to a result (\<open>Inl\<close> an error, \<open>Inr\<close> a value)
  and the world afterwards. What the code does not decide is an environment, a parameter of
  every run: at each tick (each statement sent to the database, each reading of the clock,
  each generated identifier) \<open>env_fault\<close> says whether that step fails and with which
  error, \<open>env_clock\<close> what \<open>time.Now\<close> returns, \<open>env_uuid\<close> which identifier
  \<open>uuid.NewV7\<close> returns and \<open>env_rand\<close> which row \<open>ORDER BY RANDOM()\<close> puts first. A cancelled context, a lost connection, a serialization failure
  or a commit that fails are all faults. \<open>env_detached\<close> says the same of the statements that are sent with a
  context that the caller's cancellation does not reach (\<^verbatim>\<open>context.WithoutCancel\<close>, \<open>detached\<close>). Every theorem
  that does not fix the environment holds for every schedule of failures.

  \<open>transaction\<close> is GORM's \<open>db.Transaction\<close>: the tables are put back when the body
  or the commit fails. Primary keys and the unique indexes of the migrations are checked by
  the statements that insert and update rows.
\<close>

section \<open>World and monad\<close>

record env =
  env_fault :: "nat \<Rightarrow> db_error option"
  env_detached :: "nat \<Rightarrow> db_error option"
  env_clock :: "nat \<Rightarrow> time"
  env_uuid :: "nat \<Rightarrow> uuid"
  env_rand :: "nat \<Rightarrow> nat"

record world =
  w_db :: db
  w_tick :: nat
  w_env :: env

type_synonym 'a m = "world \<Rightarrow> (err + 'a) \<times> world"

definition tick :: "world \<Rightarrow> world" where
  "tick w = w\<lparr>w_tick := Suc (w_tick w)\<rparr>"

definition ret :: "'a \<Rightarrow> 'a m" where
  "ret a w = (Inr a, w)"

definition fail :: "err \<Rightarrow> 'a m" where
  "fail e w = (Inl e, w)"

definition bnd :: "'a m \<Rightarrow> ('a \<Rightarrow> 'b m) \<Rightarrow> 'b m" where
  "bnd x f w = (case x w of (Inl e, w') \<Rightarrow> (Inl e, w') | (Inr a, w') \<Rightarrow> f a w')"

definition seq :: "'a m \<Rightarrow> 'b m \<Rightarrow> 'b m" where
  "seq x y = bnd x (\<lambda>_. y)"

text \<open>\<open>handle x f g\<close> is \<open>if v, err := x; err != nil { f err } else { g v }\<close>.\<close>

definition handle :: "'a m \<Rightarrow> (err \<Rightarrow> 'b m) \<Rightarrow> ('a \<Rightarrow> 'b m) \<Rightarrow> 'b m" where
  "handle x f g w = (case x w of (Inl e, w') \<Rightarrow> f e w' | (Inr a, w') \<Rightarrow> g a w')"

definition now :: "time m" where
  "now w = (Inr (env_clock (w_env w) (w_tick w)), tick w)"

definition newUUID :: "uuid m" where
  "newUUID w = (Inr (env_uuid (w_env w) (w_tick w)), tick w)"

text \<open>\<open>uuid.NewV7\<close> where its error is returned to the caller.\<close>

definition NewV7 :: "uuid m" where
  "NewV7 w = (case env_fault (w_env w) (w_tick w) of
     Some e \<Rightarrow> (Inl (DbE e), tick w)
   | None \<Rightarrow> (Inr (env_uuid (w_env w) (w_tick w)), tick w))"

text \<open>
  A statement: it fails with the scheduled fault, or with the constraint it violates, or
  yields a value and the new tables. \<open>f\<close> sees the clock and the identifier of this tick,
  which GORM uses for \<open>CreatedAt\<close> and the \<open>BeforeCreate\<close> hooks for the key.
\<close>

definition stmt :: "(time \<Rightarrow> uuid \<Rightarrow> db \<Rightarrow> db_error + 'a \<times> db) \<Rightarrow> 'a m" where
  "stmt f w = (case env_fault (w_env w) (w_tick w) of
     Some e \<Rightarrow> (Inl (DbE e), tick w)
   | None \<Rightarrow>
      (case f (env_clock (w_env w) (w_tick w)) (env_uuid (w_env w) (w_tick w)) (w_db w) of
         Inl e \<Rightarrow> (Inl (DbE e), tick w)
       | Inr (a, d) \<Rightarrow> (Inr a, (tick w)\<lparr>w_db := d\<rparr>)))"

definition query :: "(db \<Rightarrow> 'a) \<Rightarrow> 'a m" where
  "query f = stmt (\<lambda>_ _ d. Inr (f d, d))"

definition commit :: "unit m" where
  "commit = stmt (\<lambda>_ _ d. Inr ((), d))"

definition transaction :: "'a m \<Rightarrow> 'a m" where
  "transaction x w = (case bnd x (\<lambda>a. seq commit (ret a)) w of
     (Inl e, w') \<Rightarrow> (Inl e, w'\<lparr>w_db := w_db w\<rparr>)
   | (Inr a, w') \<Rightarrow> (Inr a, w'))"

text \<open>
  \<^verbatim>\<open>context.WithoutCancel\<close>, and the faults under \<^verbatim>\<open>context.WithDeadline\<close>: a statement that is sent when the
  deadline is over fails with the context's error.
\<close>

definition detached :: "'a m \<Rightarrow> 'a m" where
  "detached x w = (case x (w\<lparr>w_env := (w_env w)\<lparr>env_fault := env_detached (w_env w)\<rparr>\<rparr>) of
     (r, w') \<Rightarrow> (r, w'\<lparr>w_env := w_env w\<rparr>))"

definition deadline_exceeded :: string where
  "deadline_exceeded = ''context deadline exceeded''"

definition by_deadline :: "time \<Rightarrow> env \<Rightarrow> env" where
  "by_deadline d e = e\<lparr>env_fault := (\<lambda>n. if d \<le> env_clock e n then Some (DriverError deadline_exceeded)
     else env_fault e n)\<rparr>"

text \<open>\<open>ORDER BY RANDOM() LIMIT 1\<close>: one of the rows that match, if there are any.\<close>

definition query_random :: "(db \<Rightarrow> 'r list) \<Rightarrow> 'r option m" where
  "query_random f w = (case env_fault (w_env w) (w_tick w) of
     Some e \<Rightarrow> (Inl (DbE e), tick w)
   | None \<Rightarrow> (Inr (if f (w_db w) = [] then None
        else Some (f (w_db w) ! (env_rand (w_env w) (w_tick w) mod length (f (w_db w))))), tick w))"

section \<open>Statements\<close>

text \<open>
  A table is addressed by its field of \<^typ>\<open>db\<close> and that field's update. \<open>insert_row\<close>
  is \<open>Create\<close>: \<open>bad rows r\<close> says whether the row violates a unique index or a check.
\<close>

definition insert_row ::
  "(db \<Rightarrow> 'r list) \<Rightarrow> (('r list \<Rightarrow> 'r list) \<Rightarrow> db \<Rightarrow> db) \<Rightarrow>
   ('r list \<Rightarrow> 'r \<Rightarrow> db_error option) \<Rightarrow> (time \<Rightarrow> uuid \<Rightarrow> 'r) \<Rightarrow> 'r m" where
  "insert_row get upd bad row = stmt (\<lambda>t i d.
     case bad (get d) (row t i) of
       Some e \<Rightarrow> Inl e
     | None \<Rightarrow> Inr (row t i, upd (\<lambda>rows. rows @ [row t i]) d))"

text \<open>
  \<open>UPDATE \<dots> SET f WHERE P\<close>: the number of rows affected. \<open>bad rows\<close> is the check of the
  table's constraints on the rows afterwards.
\<close>

definition update_where ::
  "(db \<Rightarrow> 'r list) \<Rightarrow> (('r list \<Rightarrow> 'r list) \<Rightarrow> db \<Rightarrow> db) \<Rightarrow>
   ('r list \<Rightarrow> db_error option) \<Rightarrow> ('r \<Rightarrow> bool) \<Rightarrow> (time \<Rightarrow> 'r \<Rightarrow> 'r) \<Rightarrow> nat m" where
  "update_where get upd bad P f = stmt (\<lambda>t i d.
     case bad (update_rows P (f t) (get d)) of
       Some e \<Rightarrow> Inl e
     | None \<Rightarrow> Inr (length (filter P (get d)), upd (update_rows P (f t)) d))"

definition delete_where ::
  "(db \<Rightarrow> 'r list) \<Rightarrow> (('r list \<Rightarrow> 'r list) \<Rightarrow> db \<Rightarrow> db) \<Rightarrow> ('r \<Rightarrow> bool) \<Rightarrow> nat m" where
  "delete_where get upd P = stmt (\<lambda>_ _ d.
     Inr (length (filter P (get d)), upd (filter (\<lambda>r. \<not> P r)) d))"

text \<open>Constraints.\<close>

definition no_check :: "'r list \<Rightarrow> db_error option" where
  "no_check rows = None"

definition dup_if :: "bool \<Rightarrow> db_error option" where
  "dup_if b = (if b then Some ErrDuplicatedKey else None)"

definition check_fails :: "string \<Rightarrow> db_error" where
  "check_fails con = PgError ''23514'' con ''new row violates check constraint''"

definition out_of_range :: db_error where
  "out_of_range = PgError ''22003'' [] ''bigint out of range''"

text \<open>The widths of columns, and the first violation of several.\<close>

definition varchars :: "(nat \<times> string) list \<Rightarrow> db_error option" where
  "varchars fs = (if list_ex (\<lambda>(n, s). RuneCountInString s > n) fs
     then Some (PgError ''22001'' [] ''value too long for type character varying'') else None)"

definition fits_int4 :: "int \<Rightarrow> bool" where
  "fits_int4 x \<longleftrightarrow> -2147483648 \<le> x \<and> x \<le> 2147483647"

definition int4_range :: "int list \<Rightarrow> db_error option" where
  "int4_range xs = (if list_all fits_int4 xs then None
     else Some (PgError ''22003'' [] ''integer out of range''))"

text \<open>The first violation that is found.\<close>

fun first_violation :: "db_error option list \<Rightarrow> db_error option" where
  "first_violation [] = None"
| "first_violation (None # es) = first_violation es"
| "first_violation (Some e # es) = Some e"

lemma first_violation_None [simp]: "first_violation es = None \<longleftrightarrow> (\<forall>e \<in> set es. e = None)"
  by (induction es rule: first_violation.induct) auto

text \<open>
  A call of something outside the program (a blockchain node, a mail server, another
  service): it may depend on when it is made and answers with a value or an error, and it
  does not touch the tables.
\<close>

definition external :: "(nat \<Rightarrow> err + 'a) \<Rightarrow> 'a m" where
  "external f w = (f (w_tick w), tick w)"

text \<open>The texts of numbers and identifiers in messages: \<open>%d\<close> and \<open>%s\<close> of a UUID.\<close>

fun natText :: "nat \<Rightarrow> string" where
  "natText n = (if n < 10 then [char_of (48 + n)] else natText (n div 10) @ [char_of (48 + n mod 10)])"

declare natText.simps [simp del]

definition intText :: "int \<Rightarrow> string" where
  "intText i = (if i < 0 then ''-'' @ natText (nat (- i)) else natText (nat i))"

primrec hexDigits :: "nat \<Rightarrow> nat \<Rightarrow> string" where
  "hexDigits 0 n = []"
| "hexDigits (Suc k) n = hexDigits k (n div 16) @
     [char_of (if n mod 16 < 10 then 48 + n mod 16 else 87 + n mod 16)]"

definition uuidText :: "uuid \<Rightarrow> string" where
  "uuidText u = (let h = hexDigits 32 u in take 8 h @ ''-'' @ take 4 (drop 8 h) @ ''-'' @
     take 4 (drop 12 h) @ ''-'' @ take 4 (drop 16 h) @ ''-'' @ drop 20 h)"

section \<open>Running methods\<close>

text \<open>Inversion: what a run that returned a value did, step by step.\<close>

lemma ret_Inr [run_simps]: "ret a w = (Inr b, w') \<longleftrightarrow> b = a \<and> w' = w"
  by (auto simp: ret_def)

lemma fail_Inr [run_simps]: "fail e w = (Inr b, w') \<longleftrightarrow> False"
  by (simp add: fail_def)

lemma bnd_Inr [run_simps]:
  "bnd x f w = (Inr b, w') \<longleftrightarrow> (\<exists>a w1. x w = (Inr a, w1) \<and> f a w1 = (Inr b, w'))"
  by (auto simp: bnd_def split: prod.splits sum.splits)

lemma seq_Inr [run_simps]:
  "seq x y w = (Inr b, w') \<longleftrightarrow> (\<exists>a w1. x w = (Inr a, w1) \<and> y w1 = (Inr b, w'))"
  by (simp add: seq_def bnd_Inr)

lemma handle_Inr [run_simps]:
  "handle x f g w = (Inr b, w') \<longleftrightarrow>
    (\<exists>e w1. x w = (Inl e, w1) \<and> f e w1 = (Inr b, w')) \<or>
    (\<exists>a w1. x w = (Inr a, w1) \<and> g a w1 = (Inr b, w'))"
  by (auto simp: handle_def split: prod.splits sum.splits)

lemma now_Inr [run_simps]:
  "now w = (Inr t, w') \<longleftrightarrow> t = env_clock (w_env w) (w_tick w) \<and> w' = tick w"
  by (auto simp: now_def)

lemma newUUID_Inr [run_simps]:
  "newUUID w = (Inr i, w') \<longleftrightarrow> i = env_uuid (w_env w) (w_tick w) \<and> w' = tick w"
  by (auto simp: newUUID_def)

lemma stmt_Inr [run_simps]:
  "stmt f w = (Inr a, w') \<longleftrightarrow>
    env_fault (w_env w) (w_tick w) = None \<and>
    (\<exists>d. f (env_clock (w_env w) (w_tick w)) (env_uuid (w_env w) (w_tick w)) (w_db w) = Inr (a, d) \<and>
      w' = (tick w)\<lparr>w_db := d\<rparr>)"
  by (auto simp: stmt_def split: option.splits sum.splits prod.splits)

lemma query_Inr [run_simps]:
  "query f w = (Inr a, w') \<longleftrightarrow>
    env_fault (w_env w) (w_tick w) = None \<and> a = f (w_db w) \<and> w' = tick w"
  by (auto simp: query_def stmt_Inr tick_def)

lemma query_random_Inr:
  "query_random f w = (Inr r, w') \<Longrightarrow> w' = tick w \<and> env_fault (w_env w) (w_tick w) = None \<and>
    (case r of None \<Rightarrow> f (w_db w) = [] | Some x \<Rightarrow> x \<in> set (f (w_db w)))"
  by (auto simp: query_random_def split: option.splits if_splits)

lemma transaction_Inr:
  "transaction x w = (Inr a, w') \<Longrightarrow> \<exists>w1. x w = (Inr a, w1) \<and> w_db w' = w_db w1"
  by (auto simp: transaction_def commit_def run_simps tick_def bnd_def seq_def stmt_def ret_def
      split: prod.splits sum.splits option.splits)

text \<open>The runs of a composition with any outcome.\<close>

lemma bnd_run:
  "bnd x f w = (y, w') \<longleftrightarrow> (\<exists>e. x w = (Inl e, w') \<and> y = Inl e) \<or>
    (\<exists>a w1. x w = (Inr a, w1) \<and> f a w1 = (y, w'))"
  by (auto simp: bnd_def split: prod.splits sum.splits)

lemma handle_run:
  "handle x f g w = (y, w') \<longleftrightarrow> (\<exists>e w1. x w = (Inl e, w1) \<and> f e w1 = (y, w')) \<or>
    (\<exists>a w1. x w = (Inr a, w1) \<and> g a w1 = (y, w'))"
  by (auto simp: handle_def split: prod.splits sum.splits)

lemma ret_run: "ret a w = (y, w') \<longleftrightarrow> y = Inr a \<and> w' = w"
  by (auto simp: ret_def)

lemma fail_run: "fail e w = (y, w') \<longleftrightarrow> y = Inl e \<and> w' = w"
  by (auto simp: fail_def)

lemma external_run: "external f w = (y, w') \<longleftrightarrow> y = f (w_tick w) \<and> w' = tick w"
  by (auto simp: external_def)

text \<open>Atomicity: a transaction that fails leaves the tables as they were.\<close>

lemma transaction_Inl: "transaction x w = (Inl e, w') \<Longrightarrow> w_db w' = w_db w"
  by (auto simp: transaction_def split: prod.splits sum.splits)

text \<open>A successful transaction, with the tables its body left.\<close>

lemma transaction_cases:
  assumes "transaction x w = (y, w')"
  obtains e where "y = Inl e" "w_db w' = w_db w"
    | a w1 where "y = Inr a" "x w = (Inr a, w1)" "w_db w' = w_db w1"
proof (cases y)
  case (Inl e)
  show thesis by (rule that(1) [OF Inl transaction_Inl [OF assms [unfolded Inl]]])
next
  case (Inr a)
  from transaction_Inr [OF assms [unfolded Inr]] obtain w1 where "x w = (Inr a, w1)" "w_db w' = w_db w1" by blast
  then show thesis by (rule that(2) [OF Inr])
qed

lemma tick_sel [simp]:
  "w_db (tick w) = w_db w" "w_env (tick w) = w_env w" "w_tick (tick w) = Suc (w_tick w)"
  by (simp_all add: tick_def)

text \<open>\<open>First\<close> with \<open>gorm.ErrRecordNotFound\<close> turned into the error \<open>e\<close>.\<close>

definition orElse :: "'a option m \<Rightarrow> err \<Rightarrow> 'a m" where
  "orElse x e = bnd x (\<lambda>r. case r of None \<Rightarrow> fail e | Some a \<Rightarrow> ret a)"

lemma orElse_Inr [run_simps]:
  "orElse x e w = (Inr a, w') \<longleftrightarrow> x w = (Inr (Some a), w')"
  by (auto simp: orElse_def run_simps split: option.splits)

lemma orElse_query_Inr [run_simps]:
  "orElse (query f) e w = (Inr a, w') \<longleftrightarrow>
    env_fault (w_env w) (w_tick w) = None \<and> f (w_db w) = Some a \<and> w' = tick w"
  by (auto simp: orElse_Inr query_Inr)

text \<open>A sum that the driver scans into an \<open>int64\<close>.\<close>

definition query_sum :: "(db \<Rightarrow> int) \<Rightarrow> int m" where
  "query_sum f = stmt (\<lambda>_ _ d. if fits (f d) then Inr (f d, d) else Inl out_of_range)"

lemma query_sum_Inr [run_simps]:
  "query_sum f w = (Inr a, w') \<longleftrightarrow>
    env_fault (w_env w) (w_tick w) = None \<and> a = f (w_db w) \<and> fits a \<and> w' = tick w"
  by (auto simp: query_sum_def stmt_Inr tick_def)

lemma insert_row_Inr [run_simps]:
  "insert_row get upd bad row w = (Inr r, w') \<longleftrightarrow>
    env_fault (w_env w) (w_tick w) = None \<and>
    r = row (env_clock (w_env w) (w_tick w)) (env_uuid (w_env w) (w_tick w)) \<and>
    bad (get (w_db w)) r = None \<and>
    w' = (tick w)\<lparr>w_db := upd (\<lambda>rows. rows @ [r]) (w_db w)\<rparr>"
  by (auto simp: insert_row_def stmt_Inr split: option.splits)

lemma update_where_Inr [run_simps]:
  "update_where get upd bad P f w = (Inr n, w') \<longleftrightarrow>
    env_fault (w_env w) (w_tick w) = None \<and>
    n = length (filter P (get (w_db w))) \<and>
    bad (update_rows P (f (env_clock (w_env w) (w_tick w))) (get (w_db w))) = None \<and>
    w' = (tick w)\<lparr>w_db := upd (update_rows P (f (env_clock (w_env w) (w_tick w)))) (w_db w)\<rparr>"
  by (auto simp: update_where_def stmt_Inr split: option.splits)

lemma delete_where_Inr [run_simps]:
  "delete_where get upd P w = (Inr n, w') \<longleftrightarrow>
    env_fault (w_env w) (w_tick w) = None \<and>
    n = length (filter P (get (w_db w))) \<and>
    w' = (tick w)\<lparr>w_db := upd (filter (\<lambda>r. \<not> P r)) (w_db w)\<rparr>"
  by (auto simp: delete_where_def stmt_Inr)

lemma external_Inr [run_simps]:
  "external f w = (Inr a, w') \<longleftrightarrow> f (w_tick w) = Inr a \<and> w' = tick w"
  by (auto simp: external_def)

lemma no_check_None [simp]: "no_check rows = None"
  by (simp add: no_check_def)

lemma dup_if_None [simp]: "dup_if b = None \<longleftrightarrow> \<not> b"
  by (simp add: dup_if_def)

section \<open>Invariants of the tables\<close>

text \<open>
  \<open>preserves I x\<close>: whatever the outcome and whatever fails, \<open>x\<close> keeps \<open>I\<close>. The
  rules follow the structure of a method; for a transaction only the runs that succeed
  matter.
\<close>

definition preserves :: "(db \<Rightarrow> bool) \<Rightarrow> 'a m \<Rightarrow> bool" where
  "preserves I x \<longleftrightarrow> (\<forall>w. I (w_db w) \<longrightarrow> I (w_db (snd (x w))))"

named_theorems preserves_intros \<open>rules for methods that keep an invariant\<close>

lemma preservesD: "preserves I x \<Longrightarrow> I (w_db w) \<Longrightarrow> x w = (r, w') \<Longrightarrow> I (w_db w')"
  by (metis preserves_def snd_conv)

lemma preserves_ret [preserves_intros]: "preserves I (ret a)"
  by (simp add: preserves_def ret_def)

lemma preserves_fail [preserves_intros]: "preserves I (fail e)"
  by (simp add: preserves_def fail_def)

lemma preserves_bnd [preserves_intros]:
  "preserves I x \<Longrightarrow> (\<And>a. preserves I (f a)) \<Longrightarrow> preserves I (bnd x f)"
  unfolding preserves_def bnd_def by (fastforce split: prod.splits sum.splits)

lemma preserves_seq [preserves_intros]:
  "preserves I x \<Longrightarrow> preserves I y \<Longrightarrow> preserves I (seq x y)"
  by (simp add: seq_def preserves_bnd)

lemma preserves_handle [preserves_intros]:
  "preserves I x \<Longrightarrow> (\<And>e. preserves I (f e)) \<Longrightarrow> (\<And>a. preserves I (g a)) \<Longrightarrow>
    preserves I (handle x f g)"
  unfolding preserves_def handle_def by (fastforce split: prod.splits sum.splits)

lemma preserves_now [preserves_intros]: "preserves I now"
  by (simp add: preserves_def now_def)

lemma preserves_newUUID [preserves_intros]: "preserves I newUUID"
  by (simp add: preserves_def newUUID_def)

lemma preserves_NewV7 [preserves_intros]: "preserves I NewV7"
  by (simp add: preserves_def NewV7_def split: option.split)

lemma preserves_external [preserves_intros]: "preserves I (external f)"
  by (simp add: preserves_def external_def)

lemma preserves_stmt:
  "(\<And>t i d a d'. I d \<Longrightarrow> f t i d = Inr (a, d') \<Longrightarrow> I d') \<Longrightarrow> preserves I (stmt f)"
  unfolding preserves_def stmt_def by (auto split: option.splits sum.splits prod.splits)

lemma preserves_query [preserves_intros]: "preserves I (query f)"
  by (auto simp: query_def intro: preserves_stmt)

lemma preserves_query_sum [preserves_intros]: "preserves I (query_sum f)"
  by (auto simp: query_sum_def intro: preserves_stmt split: if_splits)

lemma preserves_query_random [preserves_intros]: "preserves I (query_random f)"
  by (auto simp: preserves_def query_random_def split: option.splits)

lemma preserves_detached [preserves_intros]: "preserves I x \<Longrightarrow> preserves I (detached x)"
  unfolding preserves_def detached_def by (auto split: prod.split) (metis snd_conv world.select_convs(1)
    world.surjective world.update_convs(3))

lemma preserves_orElse [preserves_intros]: "preserves I x \<Longrightarrow> preserves I (orElse x e)"
  by (auto simp: orElse_def intro!: preserves_intros split: option.split)

lemma preserves_if [preserves_intros]:
  "(b \<Longrightarrow> preserves I x) \<Longrightarrow> (\<not> b \<Longrightarrow> preserves I y) \<Longrightarrow> preserves I (if b then x else y)"
  by simp

lemma preserves_option [preserves_intros]:
  "preserves I x \<Longrightarrow> (\<And>a. r = Some a \<Longrightarrow> preserves I (f a)) \<Longrightarrow>
    preserves I (case r of None \<Rightarrow> x | Some a \<Rightarrow> f a)"
  by (simp split: option.split)

lemma preserves_prod [preserves_intros]:
  "(\<And>a b. p = (a, b) \<Longrightarrow> preserves I (f a b)) \<Longrightarrow> preserves I (case p of (a, b) \<Rightarrow> f a b)"
  by (simp split: prod.split)

lemma preserves_Let [preserves_intros]: "preserves I (f x) \<Longrightarrow> preserves I (Let x f)"
  by simp

lemma preserves_transaction:
  assumes "\<And>w a w'. I (w_db w) \<Longrightarrow> x w = (Inr a, w') \<Longrightarrow> I (w_db w')"
  shows "preserves I (transaction x)"
  unfolding preserves_def
proof (intro allI impI)
  fix w :: world
  assume I: "I (w_db w)"
  obtain r w' where run: "transaction x w = (r, w')" by fastforce
  show "I (w_db (snd (transaction x w)))"
  proof (cases r)
    case (Inl e)
    with run I show ?thesis by (simp add: transaction_Inl)
  next
    case (Inr a)
    with run obtain w1 where "x w = (Inr a, w1)" and "w_db w' = w_db w1"
      by (auto dest: transaction_Inr)
    with run assms [OF I] show ?thesis by simp
  qed
qed

lemma preserves_on_success: "preserves I x \<Longrightarrow> preserves I (transaction x)"
  by (rule preserves_transaction) (rule preservesD)

text \<open>A statement on one table keeps what does not depend on that table.\<close>

lemma preserves_insert_row:
  "(\<And>d t i. I d \<Longrightarrow> bad (get d) (row t i) = None \<Longrightarrow> I (upd (\<lambda>rows. rows @ [row t i]) d)) \<Longrightarrow>
    preserves I (insert_row get upd bad row)"
  unfolding insert_row_def by (rule preserves_stmt) (auto split: option.splits)

lemma preserves_update_where:
  "(\<And>d t. I d \<Longrightarrow> bad (update_rows P (f t) (get d)) = None \<Longrightarrow> I (upd (update_rows P (f t)) d)) \<Longrightarrow>
    preserves I (update_where get upd bad P f)"
  unfolding update_where_def by (rule preserves_stmt) (auto split: option.splits)

lemma preserves_delete_where:
  "(\<And>d. I d \<Longrightarrow> I (upd (filter (\<lambda>r. \<not> P r)) d)) \<Longrightarrow> preserves I (delete_where get upd P)"
  unfolding delete_where_def by (rule preserves_stmt) auto

section \<open>Invariants inside a transaction\<close>

text \<open>
  \<open>keeps I x\<close>: a run of \<open>x\<close> that returns a value keeps \<open>I\<close>. Inside a transaction
  this is enough, because a run that fails is rolled back.
\<close>

definition keeps :: "(db \<Rightarrow> bool) \<Rightarrow> 'a m \<Rightarrow> bool" where
  "keeps I x \<longleftrightarrow> (\<forall>w a w'. I (w_db w) \<longrightarrow> x w = (Inr a, w') \<longrightarrow> I (w_db w'))"

named_theorems keeps_intros \<open>rules for methods that keep an invariant when they succeed\<close>

lemma keepsD: "keeps I x \<Longrightarrow> I (w_db w) \<Longrightarrow> x w = (Inr a, w') \<Longrightarrow> I (w_db w')"
  by (auto simp: keeps_def)

lemma preserves_keeps: "preserves I x \<Longrightarrow> keeps I x"
  by (auto simp: keeps_def dest: preservesD)

lemma preserves_transaction_keeps: "keeps I x \<Longrightarrow> preserves I (transaction x)"
  by (rule preserves_transaction) (rule keepsD)

lemma keeps_atoms [keeps_intros]:
  "keeps I (ret a)" "keeps I (fail e)" "keeps I now" "keeps I newUUID" "keeps I NewV7"
  "keeps I (query f)" "keeps I (query_sum g)" "keeps I (query_random h)"
  by (simp_all add: preserves_keeps preserves_query_random preserves_ret preserves_fail preserves_now preserves_newUUID
      preserves_NewV7 preserves_query preserves_query_sum)

lemma keeps_bnd [keeps_intros]: "keeps I x \<Longrightarrow> (\<And>a. keeps I (f a)) \<Longrightarrow> keeps I (bnd x f)"
  unfolding keeps_def bnd_Inr by (metis)

lemma keeps_seq [keeps_intros]: "keeps I x \<Longrightarrow> keeps I y \<Longrightarrow> keeps I (seq x y)"
  by (simp add: seq_def keeps_bnd)

lemma keeps_handle [keeps_intros]:
  "preserves I x \<Longrightarrow> (\<And>e. keeps I (f e)) \<Longrightarrow> (\<And>a. keeps I (g a)) \<Longrightarrow> keeps I (handle x f g)"
  unfolding keeps_def handle_Inr by (metis preservesD)

lemma keeps_orElse [keeps_intros]: "keeps I x \<Longrightarrow> keeps I (orElse x e)"
  by (auto simp: keeps_def orElse_Inr)

lemma keeps_if [keeps_intros]:
  "(b \<Longrightarrow> keeps I x) \<Longrightarrow> (\<not> b \<Longrightarrow> keeps I y) \<Longrightarrow> keeps I (if b then x else y)"
  by simp

lemma keeps_option [keeps_intros]:
  "keeps I x \<Longrightarrow> (\<And>a. r = Some a \<Longrightarrow> keeps I (f a)) \<Longrightarrow> keeps I (case r of None \<Rightarrow> x | Some a \<Rightarrow> f a)"
  by (simp split: option.split)

lemma keeps_prod [keeps_intros]:
  "(\<And>a b. p = (a, b) \<Longrightarrow> keeps I (f a b)) \<Longrightarrow> keeps I (case p of (a, b) \<Rightarrow> f a b)"
  by (simp split: prod.split)

lemma keeps_Let [keeps_intros]: "keeps I (f x) \<Longrightarrow> keeps I (Let x f)"
  by simp

text \<open>A method that undoes everything when it fails.\<close>

lemma preserves_atomic:
  assumes "\<And>w e w'. x w = (Inl e, w') \<Longrightarrow> w_db w' = w_db w" and "keeps I x"
  shows "preserves I x"
  unfolding preserves_def
proof (intro allI impI)
  fix w :: world
  assume I: "I (w_db w)"
  obtain r w' where run: "x w = (r, w')" by fastforce
  then show "I (w_db (snd (x w)))"
    using I assms(1) keepsD [where I = I and x = x, OF assms(2) I] by (cases r) (metis snd_conv)+
qed

section \<open>Request sequences\<close>

text \<open>
  The contract of a service: each request it serves keeps its invariant. A server that
  serves any sequence of requests, each of them failing or not, then stays inside it.
\<close>

definition serve :: "('r \<Rightarrow> unit m) \<Rightarrow> 'r list \<Rightarrow> world \<Rightarrow> world" where
  "serve op rs w = fold (\<lambda>r w. snd (op r w)) rs w"

locale service =
  fixes op :: "'r \<Rightarrow> unit m" and inv :: "db \<Rightarrow> bool"
  assumes op_inv: "preserves inv (op r)"
begin

lemma serve_inv: "inv (w_db w) \<Longrightarrow> inv (w_db (serve op rs w))"
  unfolding serve_def
proof (induction rs arbitrary: w)
  case (Cons r rs)
  then show ?case using op_inv by (simp add: preserves_def)
qed simp

end

text \<open>
  The same for events that need not return: a step yields the world afterwards, or \<open>None\<close> when
  it runs for ever. Requests are the events that always return.
\<close>

fun serve_events :: "('e \<Rightarrow> world \<Rightarrow> world option) \<Rightarrow> 'e list \<Rightarrow> world \<Rightarrow> world option" where
  "serve_events step [] w = Some w"
| "serve_events step (e # es) w = (case step e w of None \<Rightarrow> None | Some w' \<Rightarrow> serve_events step es w')"

locale event_service =
  fixes step :: "'e \<Rightarrow> world \<Rightarrow> world option" and inv :: "db \<Rightarrow> bool"
  assumes step_inv: "inv (w_db w) \<Longrightarrow> step e w = Some w' \<Longrightarrow> inv (w_db w')"
begin

lemma events_inv: "inv (w_db w) \<Longrightarrow> serve_events step es w = Some w' \<Longrightarrow> inv (w_db w')"
  by (induction es arbitrary: w) (auto split: option.splits dest: step_inv)

end

sublocale service \<subseteq> requests: event_service "\<lambda>r w. Some (snd (op r w))" inv
  by unfold_locales (use op_inv in \<open>auto simp: preserves_def\<close>)

text \<open>
  A service whose tables only move along a relation, as long as the invariant holds: no event takes back what an
  earlier one established.
\<close>

locale evolving_service = event_service step inv for step :: "'e \<Rightarrow> world \<Rightarrow> world option" and inv +
  fixes rel :: "db \<Rightarrow> db \<Rightarrow> bool"
  assumes rel_refl: "rel d d"
    and step_rel: "inv (w_db w) \<Longrightarrow> rel d (w_db w) \<Longrightarrow> step e w = Some w' \<Longrightarrow> rel d (w_db w')"
begin

lemma events_rel_from:
  "inv (w_db w) \<Longrightarrow> rel d (w_db w) \<Longrightarrow> serve_events step es w = Some w' \<Longrightarrow> rel d (w_db w')"
proof (induction es arbitrary: w)
  case (Cons e es)
  then obtain w1 where "step e w = Some w1" "serve_events step es w1 = Some w'" by (auto split: option.splits)
  with Cons step_inv step_rel show ?case by blast
qed simp

lemma events_rel: "inv (w_db w) \<Longrightarrow> serve_events step es w = Some w' \<Longrightarrow> rel (w_db w) (w_db w')"
  by (rule events_rel_from [OF _ rel_refl])

end

definition void :: "'a m \<Rightarrow> unit m" where
  "void x = bnd x (\<lambda>_. ret ())"

lemma preserves_void [preserves_intros]: "preserves I x \<Longrightarrow> preserves I (void x)"
  by (auto simp: void_def intro!: preserves_intros)

section \<open>Time\<close>

text \<open>\<open>timed x\<close>: a run of \<open>x\<close> stays in its environment, and the ticks only go on.\<close>

definition timed :: "'a m \<Rightarrow> bool" where
  "timed x \<longleftrightarrow> (\<forall>w. w_env (snd (x w)) = w_env w \<and> w_tick w \<le> w_tick (snd (x w)))"

named_theorems timed_intros \<open>rules for methods that stay in their environment\<close>

lemma timedD: "timed x \<Longrightarrow> x w = (r, w') \<Longrightarrow> w_env w' = w_env w \<and> w_tick w \<le> w_tick w'"
  by (metis timed_def snd_conv)

lemma timedI:
  "(\<And>w r w'. x w = (r, w') \<Longrightarrow> w_env w' = w_env w \<and> w_tick w \<le> w_tick w') \<Longrightarrow> timed x"
  by (metis timed_def prod.collapse)

lemma timed_stmt: "timed (stmt f)"
  by (simp add: timed_def stmt_def split: option.split sum.split prod.split)

lemma timed_atoms [timed_intros]:
  "timed (ret a)" "timed (fail e)" "timed now" "timed newUUID" "timed NewV7" "timed (query f)" "timed (query_sum g)"
  "timed (query_random h)" "timed (external k)" "timed (insert_row get upd bad row)"
  "timed (update_where get upd ok P l)" "timed (delete_where get upd P)" "timed commit"
  by (simp_all add: query_def query_sum_def insert_row_def update_where_def delete_where_def commit_def timed_stmt)
    (simp_all add: timed_def ret_def fail_def now_def newUUID_def NewV7_def query_random_def external_def split: option.split)

lemma timed_bnd [timed_intros]:
  assumes "timed x" and "\<And>a. timed (f a)"
  shows "timed (bnd x f)"
proof (rule timedI)
  fix w r w' assume "bnd x f w = (r, w')"
  then consider e where "x w = (Inl e, w')" | a w1 where "x w = (Inr a, w1)" "f a w1 = (r, w')"
    by (auto simp: bnd_run)
  then show "w_env w' = w_env w \<and> w_tick w \<le> w_tick w'"
    by cases (use timedD [OF assms(1)] timedD [OF assms(2)] in \<open>fastforce intro: le_trans\<close>)+
qed

lemma timed_seq [timed_intros]: "timed x \<Longrightarrow> timed y \<Longrightarrow> timed (seq x y)"
  by (simp add: seq_def timed_bnd)

lemma timed_handle [timed_intros]:
  assumes "timed x" and "\<And>e. timed (f e)" and "\<And>a. timed (g a)"
  shows "timed (handle x f g)"
proof (rule timedI)
  fix w r w' assume "handle x f g w = (r, w')"
  then consider e w1 where "x w = (Inl e, w1)" "f e w1 = (r, w')" | a w1 where "x w = (Inr a, w1)" "g a w1 = (r, w')"
    by (auto simp: handle_run)
  then show "w_env w' = w_env w \<and> w_tick w \<le> w_tick w'"
    by cases (use timedD [OF assms(1)] timedD [OF assms(2)] timedD [OF assms(3)] in \<open>fastforce intro: le_trans\<close>)+
qed

lemma timed_orElse [timed_intros]: "timed x \<Longrightarrow> timed (orElse x e)"
  by (auto simp: orElse_def intro!: timed_intros split: option.split)

lemma timed_transaction [timed_intros]:
  assumes "timed x"
  shows "timed (transaction x)"
proof -
  have "timed (bnd x (\<lambda>a. seq commit (ret a)))" by (intro timed_intros assms)
  then show ?thesis unfolding timed_def transaction_def by (auto split: prod.split sum.split) (metis snd_conv)+
qed

lemma timed_detached [timed_intros]: "timed x \<Longrightarrow> timed (detached x)"
  unfolding timed_def detached_def by (auto split: prod.split) (metis snd_conv world.select_convs(2)
    world.surjective world.update_convs(3))

lemma timed_if [timed_intros]: "(b \<Longrightarrow> timed x) \<Longrightarrow> (\<not> b \<Longrightarrow> timed y) \<Longrightarrow> timed (if b then x else y)"
  by simp

lemma timed_option [timed_intros]:
  "timed x \<Longrightarrow> (\<And>a. r = Some a \<Longrightarrow> timed (f a)) \<Longrightarrow> timed (case r of None \<Rightarrow> x | Some a \<Rightarrow> f a)"
  by (simp split: option.split)

lemma timed_prod [timed_intros]:
  "(\<And>a b. p = (a, b) \<Longrightarrow> timed (f a b)) \<Longrightarrow> timed (case p of (a, b) \<Rightarrow> f a b)"
  by (simp split: prod.split)

lemma timed_Let [timed_intros]: "timed (f x) \<Longrightarrow> timed (Let x f)"
  by simp

lemma timed_void [timed_intros]: "timed x \<Longrightarrow> timed (void x)"
  by (auto simp: void_def intro!: timed_intros)

lemma timed_serve: "(\<And>r. timed (op r)) \<Longrightarrow> w_env (serve op rs w) = w_env w \<and> w_tick w \<le> w_tick (serve op rs w)"
proof (induction rs arbitrary: w)
  case (Cons r rs)
  from Cons.prems [of r] have "w_env (snd (op r w)) = w_env w \<and> w_tick w \<le> w_tick (snd (op r w))"
    by (simp add: timed_def)
  with Cons.IH [OF Cons.prems, of "snd (op r w)"] show ?case by (simp add: serve_def)
qed (simp add: serve_def)

section \<open>Runs without failures\<close>

text \<open>For what a method returns when nothing fails, the definitions are unfolded forwards.\<close>

definition no_faults :: "world \<Rightarrow> bool" where
  "no_faults w \<longleftrightarrow> (\<forall>n. env_fault (w_env w) n = None)"

lemma no_faultsD [simp]: "no_faults w \<Longrightarrow> env_fault (w_env w) n = None"
  by (simp add: no_faults_def)

lemma no_faults_tick [simp]: "no_faults (tick w) = no_faults w"
  by (simp add: no_faults_def)

lemmas run_defs = ret_def fail_def bnd_def seq_def handle_def now_def newUUID_def NewV7_def
  stmt_def query_def query_sum_def external_def orElse_def transaction_def commit_def insert_row_def
  update_where_def delete_where_def

text \<open>A body that succeeds commits when nothing fails.\<close>

lemma transaction_calm:
  assumes "x w = (Inr a, w1)" and "no_faults w1"
  shows "transaction x w = (Inr a, tick w1)"
  using assms by (simp add: transaction_def commit_def run_defs tick_def)

text \<open>A fixed environment for the concrete runs of the witnesses.\<close>

definition calm :: "(nat \<Rightarrow> time) \<Rightarrow> env" where
  "calm clock = \<lparr>env_fault = (\<lambda>_. None), env_detached = (\<lambda>_. None), env_clock = clock,
     env_uuid = (\<lambda>n. 1000 + n), env_rand = (\<lambda>_. 0)\<rparr>"

definition start :: "(nat \<Rightarrow> time) \<Rightarrow> db \<Rightarrow> world" where
  "start clock d = \<lparr>w_db = d, w_tick = 0, w_env = calm clock\<rparr>"

lemma start_sel [simp]:
  "w_db (start clock d) = d" "w_tick (start clock d) = 0" "env_fault (w_env (start clock d)) n = None"
  "env_uuid (w_env (start clock d)) n = 1000 + n" "env_clock (w_env (start clock d)) n = clock n"
  "no_faults (start clock d)"
  by (simp_all add: start_def calm_def no_faults_def)

end
