(* ===== verification/Points.thy ===== *)
theory Points
  imports Store
begin

text \<open>
  \<^verbatim>\<open>services/points_service.go\<close>: the per-channel points ledger of a viewer, the log
  of its transactions, and the watch and broadcast time counters. \<open>ledger_ok\<close> is the
  invariant of the ledger: one row per viewer and channel, no negative balance, and every
  balance the sum of its logged transactions.
\<close>

section \<open>Balances\<close>

definition ledger_key :: "uuid \<Rightarrow> string \<Rightarrow> PointsLedger \<Rightarrow> bool" where
  "ledger_key uid ch l \<longleftrightarrow> PL_UserID l = uid \<and> PL_ChannelID l = ch"

definition find_ledger :: "uuid \<Rightarrow> string \<Rightarrow> db \<Rightarrow> PointsLedger option" where
  "find_ledger uid ch d = first_by PL_ID (ledger_key uid ch) (t_points_ledgers d)"

record PointsBalance =
  PB_CumulativeTotal :: int
  PB_SpendableBalance :: int

text \<open>\<open>WatchService.GetBalanceContext\<close>, which \<open>PointsService.GetBalanceContext\<close> wraps.\<close>

definition watchGetBalance :: "uuid \<Rightarrow> string \<Rightarrow> (int \<times> int) m" where
  "watchGetBalance uid ch =
     bnd (query (find_ledger uid ch)) (\<lambda>r.
     case r of
       None \<Rightarrow> ret (0, 0)
     | Some l \<Rightarrow> ret (PL_SpendableBalance l, PL_CumulativeTotal l))"

definition GetBalanceContext :: "uuid \<Rightarrow> string \<Rightarrow> PointsBalance m" where
  "GetBalanceContext uid ch =
     bnd (watchGetBalance uid ch) (\<lambda>(spendable, cumulative).
     ret \<lparr>PB_CumulativeTotal = cumulative, PB_SpendableBalance = spendable\<rparr>)"

text \<open>\<open>ORDER BY k1 DESC, k2 DESC\<close> and \<open>ORDER BY k1 ASC, k2 ASC\<close>.\<close>

definition order_asc2 :: "('r \<Rightarrow> 'a::linorder) \<Rightarrow> ('r \<Rightarrow> 'b::linorder) \<Rightarrow> 'r list \<Rightarrow> 'r list" where
  "order_asc2 k1 k2 rows = sort_key k1 (sort_key k2 rows)"

definition order_desc2 :: "('r \<Rightarrow> 'a::linorder) \<Rightarrow> ('r \<Rightarrow> 'b::linorder) \<Rightarrow> 'r list \<Rightarrow> 'r list" where
  "order_desc2 k1 k2 rows = rev (order_asc2 k1 k2 rows)"

definition ListTransactionsContext :: "uuid \<Rightarrow> string \<Rightarrow> PointsTransaction list m" where
  "ListTransactionsContext uid ch =
     bnd (query (find_ledger uid ch)) (\<lambda>r.
     case r of
       None \<Rightarrow> ret []
     | Some l \<Rightarrow> query (\<lambda>d. take 50 (order_desc2 PT_CreatedAt PT_ID
         (filter (\<lambda>t. PT_LedgerID t = PL_ID l) (t_points_transactions d)))))"

section \<open>Credits and deductions\<close>

definition validatePositivePointsAmount :: "int \<Rightarrow> unit m" where
  "validatePositivePointsAmount amount =
     (if amount \<le> 0 then fail (PointsE ErrInvalidPointsAmount) else ret ())"

record PointsCreditMeta =
  PM_SKU :: "string option"
  PM_Note :: "string option"
  PM_ExternalTransactionID :: "string option"

definition no_meta :: PointsCreditMeta where
  "no_meta = \<lparr>PM_SKU = None, PM_Note = None, PM_ExternalTransactionID = None\<rparr>"

text \<open>
  Constraints of \<^verbatim>\<open>points_transactions\<close>: the primary key and the unique index on
  \<open>external_transaction_id\<close> (migration 018).
\<close>

definition ptx_conflict :: "PointsTransaction list \<Rightarrow> PointsTransaction \<Rightarrow> db_error option" where
  "ptx_conflict rows t = dup_if (PT_ID t \<in> PT_ID ` set rows \<or>
     PT_ExternalTransactionID t \<noteq> None \<and>
     PT_ExternalTransactionID t \<in> PT_ExternalTransactionID ` set rows)"

definition create_ptx :: "(time \<Rightarrow> uuid \<Rightarrow> PointsTransaction) \<Rightarrow> PointsTransaction m" where
  "create_ptx row = insert_row t_points_transactions t_points_transactions_update ptx_conflict row"

text \<open>
  The upsert that credits a ledger:
  \<^verbatim>\<open>INSERT INTO points_ledgers \<dots> ON CONFLICT (user_id, channel_id) DO UPDATE SET
  spendable_balance = points_ledgers.spendable_balance + EXCLUDED.spendable_balance, \<dots>\<close>;
  PostgreSQL refuses a sum outside the range of a \<^verbatim>\<open>bigint\<close>.
\<close>

definition credit_row :: "int \<Rightarrow> time \<Rightarrow> PointsLedger \<Rightarrow> PointsLedger" where
  "credit_row amount at l = l\<lparr>PL_SpendableBalance := PL_SpendableBalance l + amount,
     PL_CumulativeTotal := PL_CumulativeTotal l + amount, PL_UpdatedAt := at\<rparr>"

definition fresh_ledger :: "uuid \<Rightarrow> uuid \<Rightarrow> string \<Rightarrow> int \<Rightarrow> time \<Rightarrow> PointsLedger" where
  "fresh_ledger i uid ch amount at = \<lparr>PL_ID = i, PL_UserID = uid, PL_ChannelID = ch,
     PL_CumulativeTotal = amount, PL_SpendableBalance = amount,
     PL_CreatedAt = at, PL_UpdatedAt = at\<rparr>"

definition upsert_ledger :: "uuid \<Rightarrow> uuid \<Rightarrow> string \<Rightarrow> int \<Rightarrow> time \<Rightarrow> unit m" where
  "upsert_ledger i uid ch amount at = stmt (\<lambda>_ _ d.
     if list_ex (ledger_key uid ch) (t_points_ledgers d) then
       if list_ex (\<lambda>l. ledger_key uid ch l \<and>
            \<not> (fits (PL_SpendableBalance l + amount) \<and> fits (PL_CumulativeTotal l + amount)))
            (t_points_ledgers d)
       then Inl out_of_range
       else Inr ((), d\<lparr>t_points_ledgers :=
              update_rows (ledger_key uid ch) (credit_row amount at) (t_points_ledgers d)\<rparr>)
     else if i \<in> PL_ID ` set (t_points_ledgers d) then Inl ErrDuplicatedKey
     else Inr ((), d\<lparr>t_points_ledgers :=
            t_points_ledgers d @ [fresh_ledger i uid ch amount at]\<rparr>))"

definition addPointsWithMetaAt ::
  "time \<Rightarrow> uuid \<Rightarrow> string \<Rightarrow> TxSource \<Rightarrow> int \<Rightarrow> PointsCreditMeta \<Rightarrow> unit m" where
  "addPointsWithMetaAt at uid ch source amount meta =
     bnd newUUID (\<lambda>ledgerID.
     seq (upsert_ledger ledgerID uid ch amount at) (
     bnd (orElse (query (find_ledger uid ch)) RecordNotFound) (\<lambda>ledger.
     bnd (create_ptx (\<lambda>_ i.
       \<lparr>PT_ID = i, PT_LedgerID = PL_ID ledger, PT_WatchSessionID = None, PT_Source = source,
        PT_Delta = amount, PT_BalanceAfter = PL_SpendableBalance ledger, PT_SKU = PM_SKU meta,
        PT_Note = PM_Note meta, PT_ExternalTransactionID = PM_ExternalTransactionID meta,
        PT_CreatedAt = at\<rparr>)) (\<lambda>_.
     ret ()))))"

definition addPointsWithMeta ::
  "uuid \<Rightarrow> string \<Rightarrow> TxSource \<Rightarrow> int \<Rightarrow> PointsCreditMeta \<Rightarrow> unit m" where
  "addPointsWithMeta uid ch source amount meta =
     bnd now (\<lambda>at. addPointsWithMetaAt at uid ch source amount meta)"

definition AddPointsWithMetaContext ::
  "uuid \<Rightarrow> string \<Rightarrow> TxSource \<Rightarrow> int \<Rightarrow> PointsCreditMeta \<Rightarrow> unit m" where
  "AddPointsWithMetaContext uid ch source amount meta =
     seq (validatePositivePointsAmount amount) (
     if (case PM_SKU meta of None \<Rightarrow> False | Some s \<Rightarrow> RuneCountInString s > 255)
     then fail (PointsE ErrInvalidSKU)
     else if (case PM_ExternalTransactionID meta of None \<Rightarrow> False
              | Some s \<Rightarrow> RuneCountInString s > 255)
     then fail (PointsE ErrInvalidExternalTransactionID)
     else transaction (addPointsWithMeta uid ch source amount meta))"

definition AddPoints :: "uuid \<Rightarrow> string \<Rightarrow> TxSource \<Rightarrow> int \<Rightarrow> unit m" where
  "AddPoints uid ch source amount =
     seq (validatePositivePointsAmount amount)
       (AddPointsWithMetaContext uid ch source amount no_meta)"

definition DeductPointsContext :: "uuid \<Rightarrow> string \<Rightarrow> int \<Rightarrow> string \<Rightarrow> unit m" where
  "DeductPointsContext uid ch amount note =
     seq (validatePositivePointsAmount amount) (
     transaction (
       bnd (orElse (query (find_ledger uid ch)) (PointsE ErrInsufficientBalance)) (\<lambda>ledger.
       if PL_SpendableBalance ledger < amount then fail (PointsE ErrInsufficientBalance)
       else
         let newBalance = i64 (PL_SpendableBalance ledger - amount) in
         bnd now (\<lambda>t.
         bnd (update_where t_points_ledgers t_points_ledgers_update no_check
                (\<lambda>l. PL_ID l = PL_ID ledger)
                (\<lambda>_ l. l\<lparr>PL_SpendableBalance := newBalance, PL_UpdatedAt := t\<rparr>)) (\<lambda>_.
         bnd (create_ptx (\<lambda>t i.
           \<lparr>PT_ID = i, PT_LedgerID = PL_ID ledger, PT_WatchSessionID = None,
            PT_Source = TxSourceSpend, PT_Delta = i64 (- amount), PT_BalanceAfter = newBalance,
            PT_SKU = None, PT_Note = Some note, PT_ExternalTransactionID = None,
            PT_CreatedAt = t\<rparr>)) (\<lambda>_.
         ret ()))))))"

section \<open>Watch and broadcast time\<close>

definition watch_key :: "uuid \<Rightarrow> string \<Rightarrow> WatchTimeStat \<Rightarrow> bool" where
  "watch_key uid ch r \<longleftrightarrow> WT_UserID r = uid \<and> WT_ChannelID r = ch"

definition addWatchTime :: "uuid \<Rightarrow> string \<Rightarrow> int \<Rightarrow> unit m" where
  "addWatchTime uid ch seconds =
     bnd now (\<lambda>t.
     bnd newUUID (\<lambda>i.
     stmt (\<lambda>_ _ d.
       if list_ex (watch_key uid ch) (t_watch_time_stats d) then
         if list_ex (\<lambda>r. watch_key uid ch r \<and> \<not> fits (WT_TotalWatchSeconds r + seconds))
              (t_watch_time_stats d)
         then Inl out_of_range
         else Inr ((), d\<lparr>t_watch_time_stats := update_rows (watch_key uid ch)
                (\<lambda>r. r\<lparr>WT_TotalWatchSeconds := WT_TotalWatchSeconds r + seconds,
                       WT_UpdatedAt := t\<rparr>) (t_watch_time_stats d)\<rparr>)
       else if i \<in> WT_ID ` set (t_watch_time_stats d) then Inl ErrDuplicatedKey
       else Inr ((), d\<lparr>t_watch_time_stats := t_watch_time_stats d @
              [\<lparr>WT_ID = i, WT_UserID = uid, WT_ChannelID = ch, WT_TotalWatchSeconds = seconds,
                WT_CreatedAt = t, WT_UpdatedAt = t\<rparr>]\<rparr>))))"

definition AddWatchTimeContext :: "uuid \<Rightarrow> string \<Rightarrow> int \<Rightarrow> unit m" where
  "AddWatchTimeContext = addWatchTime"

definition GetWatchStatsContext :: "uuid \<Rightarrow> string \<Rightarrow> int m" where
  "GetWatchStatsContext uid ch = query (\<lambda>d.
     case filter (watch_key uid ch) (t_watch_time_stats d) of
       [] \<Rightarrow> 0 | r # _ \<Rightarrow> WT_TotalWatchSeconds r)"

text \<open>Rows that GORM has soft-deleted are invisible to its queries.\<close>

definition twitch_provider :: "string \<Rightarrow> db \<Rightarrow> AuthProvider option" where
  "twitch_provider ch d = first_by AP_ID
     (\<lambda>p. AP_Provider p = ProviderTwitch \<and> AP_ProviderID p = ch \<and> AP_DeletedAt p = None)
     (t_auth_providers d)"

definition broadcast_key :: "uuid \<Rightarrow> string \<Rightarrow> BroadcastTimeStat \<Rightarrow> bool" where
  "broadcast_key sid ch r \<longleftrightarrow> BS_StreamerID r = sid \<and> BS_ChannelID r = ch"

definition addBroadcastTime :: "string \<Rightarrow> int \<Rightarrow> unit m" where
  "addBroadcastTime ch seconds =
     bnd (query (twitch_provider ch)) (\<lambda>r.
     case r of
       None \<Rightarrow> ret ()
     | Some provider \<Rightarrow>
         let streamerID = AP_UserID provider in
         bnd now (\<lambda>t.
         bnd newUUID (\<lambda>i.
         seq (stmt (\<lambda>_ _ d.
           if list_ex (broadcast_key streamerID ch) (t_broadcast_time_stats d) then
             if list_ex (\<lambda>r. broadcast_key streamerID ch r \<and>
                  \<not> fits (BS_TotalBroadcastSeconds r + seconds)) (t_broadcast_time_stats d)
             then Inl out_of_range
             else Inr ((), d\<lparr>t_broadcast_time_stats := update_rows (broadcast_key streamerID ch)
                    (\<lambda>r. r\<lparr>BS_TotalBroadcastSeconds := BS_TotalBroadcastSeconds r + seconds,
                           BS_UpdatedAt := t\<rparr>) (t_broadcast_time_stats d)\<rparr>)
           else if i \<in> BS_ID ` set (t_broadcast_time_stats d) then Inl ErrDuplicatedKey
           else Inr ((), d\<lparr>t_broadcast_time_stats := t_broadcast_time_stats d @
                  [\<lparr>BS_ID = i, BS_StreamerID = streamerID, BS_ChannelID = ch,
                    BS_TotalBroadcastSeconds = seconds, BS_CreatedAt = t, BS_UpdatedAt = t\<rparr>]\<rparr>)))
         (bnd (insert_row t_broadcast_time_logs t_broadcast_time_logs_update
                (\<lambda>rows l. dup_if (BL_ID l \<in> BL_ID ` set rows))
                (\<lambda>_ i. \<lparr>BL_ID = i, BL_StreamerID = streamerID, BL_ChannelID = ch,
                         BL_Seconds = seconds, BL_RecordedAt = t\<rparr>)) (\<lambda>_.
          ret ())))))"

definition AddBroadcastTimeContext :: "string \<Rightarrow> int \<Rightarrow> unit m" where
  "AddBroadcastTimeContext = addBroadcastTime"

definition AddHeartbeatTimeContext :: "uuid \<Rightarrow> string \<Rightarrow> int \<Rightarrow> unit m" where
  "AddHeartbeatTimeContext uid ch seconds = transaction (
     seq (addWatchTime uid ch seconds)
         (addBroadcastTime ch seconds))"

record BroadcastStats =
  CurrentSessionSeconds :: int
  DailySeconds :: int
  MonthlySeconds :: int
  YearlySeconds :: int

text \<open>
  \<open>time.Date(now.Year(), now.Month(), now.Day(), 0, \<dots>, now.Location())\<close> and its month and
  year forms depend on the server's time zone: the three calendar functions are a parameter.
\<close>

record calendar =
  startOfDay :: "time \<Rightarrow> time"
  startOfMonth :: "time \<Rightarrow> time"
  startOfYear :: "time \<Rightarrow> time"

definition broadcast_since :: "uuid \<Rightarrow> string \<Rightarrow> time \<Rightarrow> db \<Rightarrow> int" where
  "broadcast_since sid ch since d = sum_list (map BL_Seconds (filter
     (\<lambda>l. BL_StreamerID l = sid \<and> BL_ChannelID l = ch \<and> BL_RecordedAt l \<ge> since)
     (t_broadcast_time_logs d)))"

definition labelled :: "string \<Rightarrow> 'a m \<Rightarrow> 'a m" where
  "labelled label x = handle x (\<lambda>e. fail (Wrap (unwrap e) (label @ '': '' @ errText e))) ret"

definition GetBroadcastStatsContext :: "calendar \<Rightarrow> uuid \<Rightarrow> string \<Rightarrow> BroadcastStats m" where
  "GetBroadcastStatsContext cal sid ch =
     bnd now (\<lambda>t.
     bnd (labelled ''query current broadcast session seconds'' (query_sum (\<lambda>d.
       sum_list (map WS_AccumulatedSeconds
         (filter (\<lambda>s. WS_ChannelID s = ch \<and> WS_IsActive s) (t_watch_sessions d)))))) (\<lambda>cur.
     bnd (labelled ''query daily broadcast seconds''
       (query_sum (broadcast_since sid ch (startOfDay cal t)))) (\<lambda>daily.
     bnd (labelled ''query monthly broadcast seconds''
       (query_sum (broadcast_since sid ch (startOfMonth cal t)))) (\<lambda>monthly.
     bnd (labelled ''query yearly broadcast seconds''
       (query_sum (broadcast_since sid ch (startOfYear cal t)))) (\<lambda>yearly.
     ret \<lparr>CurrentSessionSeconds = cur, DailySeconds = daily,
          MonthlySeconds = monthly, YearlySeconds = yearly\<rparr>)))))"

section \<open>The ledger invariant\<close>

definition deltas :: "PointsTransaction list \<Rightarrow> uuid \<Rightarrow> int" where
  "deltas ts lid = sum_list (map PT_Delta (filter (\<lambda>t. PT_LedgerID t = lid) ts))"

definition ledgers_ok :: "PointsLedger list \<Rightarrow> PointsTransaction list \<Rightarrow> bool" where
  "ledgers_ok ls ts \<longleftrightarrow>
     distinct (map PL_ID ls) \<and>
     distinct (map (\<lambda>l. (PL_UserID l, PL_ChannelID l)) ls) \<and>
     (\<forall>l \<in> set ls. 0 \<le> PL_SpendableBalance l \<and> fits (PL_SpendableBalance l) \<and>
        fits (PL_CumulativeTotal l) \<and> PL_SpendableBalance l = deltas ts (PL_ID l)) \<and>
     distinct (map PT_ID ts) \<and>
     PT_LedgerID ` set ts \<subseteq> PL_ID ` set ls"

definition ledger_ok :: "db \<Rightarrow> bool" where
  "ledger_ok d \<longleftrightarrow> ledgers_ok (t_points_ledgers d) (t_points_transactions d)"

lemma deltas_append [simp]: "deltas (ts @ us) lid = deltas ts lid + deltas us lid"
  by (simp add: deltas_def)

lemma deltas_single [simp]: "deltas [t] lid = (if PT_LedgerID t = lid then PT_Delta t else 0)"
  by (simp add: deltas_def)

lemma deltas_Nil [simp]: "deltas [] lid = 0"
  by (simp add: deltas_def)

lemma deltas_none: "lid \<notin> PT_LedgerID ` set ts \<Longrightarrow> deltas ts lid = 0"
  by (induction ts) (auto simp: deltas_def)

lemma ledger_unique:
  "ledgers_ok ls ts \<Longrightarrow> l \<in> set ls \<Longrightarrow> l' \<in> set ls \<Longrightarrow> PL_ID l = PL_ID l' \<Longrightarrow> l = l'"
  by (auto simp: ledgers_ok_def dest: distinct_map_unique)

lemma ledger_key_unique:
  "ledgers_ok ls ts \<Longrightarrow> l \<in> set ls \<Longrightarrow> l' \<in> set ls \<Longrightarrow> ledger_key u c l \<Longrightarrow> ledger_key u c l' \<Longrightarrow> l = l'"
  unfolding ledgers_ok_def ledger_key_def
  by (metis (mono_tags, lifting) distinct_map_unique)

lemma find_ledger_SomeD:
  assumes "find_ledger u c d = Some l"
  shows "l \<in> set (t_points_ledgers d)" and "ledger_key u c l"
    and "PL_UserID l = u" and "PL_ChannelID l = c"
  using first_by_SomeD(1,2) [OF assms [unfolded find_ledger_def]] by (auto simp: ledger_key_def)

lemma find_ledger_iff:
  assumes "ledger_ok d"
  shows "find_ledger u c d = Some l \<longleftrightarrow> l \<in> set (t_points_ledgers d) \<and> ledger_key u c l"
proof
  assume "l \<in> set (t_points_ledgers d) \<and> ledger_key u c l"
  then show "find_ledger u c d = Some l"
    unfolding find_ledger_def
    by (intro first_by_unique) (use ledger_key_unique assms [unfolded ledger_ok_def] in blast)+
qed (auto dest: find_ledger_SomeD)

text \<open>
  Posting a transaction: one ledger changes by what the log gains. Every service that moves
  points ends in this step.
\<close>

lemma ledgers_ok_post:
  assumes ok: "ledgers_ok ls ts" and l: "l \<in> set ls"
    and t: "PT_LedgerID t = PL_ID l" "PT_ID t \<notin> PT_ID ` set ts"
    and keys: "\<And>x. PL_ID (f x) = PL_ID x" "\<And>x. PL_UserID (f x) = PL_UserID x"
      "\<And>x. PL_ChannelID (f x) = PL_ChannelID x"
    and val: "PL_SpendableBalance (f l) = PL_SpendableBalance l + PT_Delta t"
      "0 \<le> PL_SpendableBalance (f l)" "fits (PL_SpendableBalance (f l))" "fits (PL_CumulativeTotal (f l))"
    and P: "\<And>x. x \<in> set ls \<Longrightarrow> P x \<longleftrightarrow> x = l"
  shows "ledgers_ok (update_rows P f ls) (ts @ [t])"
  unfolding ledgers_ok_def
proof (intro conjI ballI)
  show "distinct (map PL_ID (update_rows P f ls))"
    using ok keys(1) by (simp add: map_update_rows ledgers_ok_def)
  show "distinct (map (\<lambda>l. (PL_UserID l, PL_ChannelID l)) (update_rows P f ls))"
    using ok keys by (simp add: map_update_rows ledgers_ok_def)
  show "distinct (map PT_ID (ts @ [t]))" using ok t(2) by (simp add: ledgers_ok_def)
  have "PL_ID ` set (update_rows P f ls) = PL_ID ` set ls"
    by (metis keys(1) list.set_map map_update_rows)
  then show "PT_LedgerID ` set (ts @ [t]) \<subseteq> PL_ID ` set (update_rows P f ls)"
    using ok l t(1) by (auto simp: ledgers_ok_def)
next
  fix x assume "x \<in> set (update_rows P f ls)"
  then consider "x = f l" | "x \<in> set ls" "x \<noteq> l"
    using P by (auto simp: set_update_rows)
  then have "0 \<le> PL_SpendableBalance x \<and> fits (PL_SpendableBalance x) \<and>
    fits (PL_CumulativeTotal x) \<and> PL_SpendableBalance x = deltas (ts @ [t]) (PL_ID x)"
  proof cases
    case 1
    with val ok l t(1) keys(1) show ?thesis by (auto simp: ledgers_ok_def)
  next
    case 2
    with ok l have "PL_ID x \<noteq> PL_ID l" by (auto dest: ledger_unique)
    with 2 ok t(1) show ?thesis by (auto simp: ledgers_ok_def)
  qed
  then show "0 \<le> PL_SpendableBalance x" "fits (PL_SpendableBalance x)"
    "fits (PL_CumulativeTotal x)" "PL_SpendableBalance x = deltas (ts @ [t]) (PL_ID x)"
    by auto
qed

lemma ledgers_ok_open:
  assumes ok: "ledgers_ok ls ts" and l: "PL_ID l \<notin> PL_ID ` set ls"
    "(PL_UserID l, PL_ChannelID l) \<notin> (\<lambda>l. (PL_UserID l, PL_ChannelID l)) ` set ls"
    and t: "PT_LedgerID t = PL_ID l" "PT_ID t \<notin> PT_ID ` set ts"
    and val: "PL_SpendableBalance l = PT_Delta t" "0 \<le> PL_SpendableBalance l"
      "fits (PL_SpendableBalance l)" "fits (PL_CumulativeTotal l)"
  shows "ledgers_ok (ls @ [l]) (ts @ [t])"
proof -
  have "deltas ts (PL_ID l) = 0"
    using ok l(1) by (intro deltas_none) (auto simp: ledgers_ok_def)
  moreover have "PL_ID x \<noteq> PL_ID l" if "x \<in> set ls" for x
    using l(1) that by (metis image_eqI)
  ultimately show ?thesis
    using assms by (fastforce simp: ledgers_ok_def)
qed

section \<open>The credit step\<close>

text \<open>
  What the three statements \<open>upsert; SELECT; INSERT INTO points_transactions\<close> do when they
  all succeed, in the words of a specification: the balance that \<open>credited\<close> describes, and
  a log entry that carries the new balance.
\<close>

definition spendable :: "db \<Rightarrow> uuid \<Rightarrow> string \<Rightarrow> int" where
  "spendable d u c = (case find_ledger u c d of None \<Rightarrow> 0 | Some l \<Rightarrow> PL_SpendableBalance l)"

definition cumulative :: "db \<Rightarrow> uuid \<Rightarrow> string \<Rightarrow> int" where
  "cumulative d u c = (case find_ledger u c d of None \<Rightarrow> 0 | Some l \<Rightarrow> PL_CumulativeTotal l)"

definition user_spendable :: "db \<Rightarrow> uuid \<Rightarrow> int" where
  "user_spendable d u = sum_list (map PL_SpendableBalance
     (filter (\<lambda>l. PL_UserID l = u) (t_points_ledgers d)))"

lemma credit_row_sel [simp]:
  "PL_ID (credit_row a t l) = PL_ID l" "PL_UserID (credit_row a t l) = PL_UserID l"
  "PL_ChannelID (credit_row a t l) = PL_ChannelID l"
  "PL_SpendableBalance (credit_row a t l) = PL_SpendableBalance l + a"
  "PL_CumulativeTotal (credit_row a t l) = PL_CumulativeTotal l + a"
  "ledger_key u c (credit_row a t l) = ledger_key u c l"
  by (simp_all add: credit_row_def ledger_key_def)

lemma fresh_ledger_sel [simp]:
  "PL_ID (fresh_ledger i u c a t) = i" "PL_UserID (fresh_ledger i u c a t) = u"
  "PL_ChannelID (fresh_ledger i u c a t) = c" "PL_SpendableBalance (fresh_ledger i u c a t) = a"
  "PL_CumulativeTotal (fresh_ledger i u c a t) = a"
  by (simp_all add: fresh_ledger_def)

lemma upsert_ledger_Inr [run_simps]:
  "upsert_ledger i u c a t w = (Inr x, w') \<longleftrightarrow>
    env_fault (w_env w) (w_tick w) = None \<and>
    ((\<exists>l \<in> set (t_points_ledgers (w_db w)). ledger_key u c l) \<and>
     (\<forall>l \<in> set (t_points_ledgers (w_db w)). ledger_key u c l \<longrightarrow>
        fits (PL_SpendableBalance l + a) \<and> fits (PL_CumulativeTotal l + a)) \<and>
     w' = (tick w)\<lparr>w_db := (w_db w)\<lparr>t_points_ledgers :=
        update_rows (ledger_key u c) (credit_row a t) (t_points_ledgers (w_db w))\<rparr>\<rparr> \<or>
     (\<forall>l \<in> set (t_points_ledgers (w_db w)). \<not> ledger_key u c l) \<and>
     i \<notin> PL_ID ` set (t_points_ledgers (w_db w)) \<and>
     w' = (tick w)\<lparr>w_db := (w_db w)\<lparr>t_points_ledgers :=
        t_points_ledgers (w_db w) @ [fresh_ledger i u c a t]\<rparr>\<rparr>)"
  by (auto simp: upsert_ledger_def stmt_Inr list_ex_iff split: if_splits)

lemma create_ptx_Inr [run_simps]:
  "create_ptx row w = (Inr r, w') \<longleftrightarrow>
    env_fault (w_env w) (w_tick w) = None \<and>
    r = row (env_clock (w_env w) (w_tick w)) (env_uuid (w_env w) (w_tick w)) \<and>
    ptx_conflict (t_points_transactions (w_db w)) r = None \<and>
    w' = (tick w)\<lparr>w_db := (w_db w)\<lparr>t_points_transactions := t_points_transactions (w_db w) @ [r]\<rparr>\<rparr>"
  by (auto simp: create_ptx_def insert_row_Inr)

definition credited :: "uuid \<Rightarrow> string \<Rightarrow> int \<Rightarrow> time \<Rightarrow> PointsTransaction \<Rightarrow> db \<Rightarrow> db \<Rightarrow> bool" where
  "credited u c a at t d d' \<longleftrightarrow>
     d' = d\<lparr>t_points_ledgers := t_points_ledgers d', t_points_transactions := t_points_transactions d @ [t]\<rparr> \<and>
     PT_Delta t = a \<and> PT_ID t \<notin> PT_ID ` set (t_points_transactions d) \<and>
     (\<exists>l. find_ledger u c d' = Some l \<and> PT_LedgerID t = PL_ID l \<and>
          PT_BalanceAfter t = PL_SpendableBalance l) \<and>
     ((\<exists>l \<in> set (t_points_ledgers d). ledger_key u c l \<and>
         fits (PL_SpendableBalance l + a) \<and> fits (PL_CumulativeTotal l + a)) \<and>
      t_points_ledgers d' = update_rows (ledger_key u c) (credit_row a at) (t_points_ledgers d) \<or>
      (\<exists>i. (\<forall>l \<in> set (t_points_ledgers d). \<not> ledger_key u c l) \<and>
        i \<notin> PL_ID ` set (t_points_ledgers d) \<and>
        t_points_ledgers d' = t_points_ledgers d @ [fresh_ledger i u c a at]))"

lemma find_ledger_tx [simp]:
  "find_ledger u c (d\<lparr>t_points_transactions := ts\<rparr>) = find_ledger u c d"
  by (simp add: find_ledger_def)

lemma credit_step:
  assumes "upsert_ledger i u c a t w = (Inr x, w1)"
    and "find_ledger u c (w_db w1) = Some l"
    and "PT_LedgerID r = PL_ID l" "PT_BalanceAfter r = PL_SpendableBalance l" "PT_Delta r = a"
    and "ptx_conflict (t_points_transactions (w_db w1)) r = None"
    and "d' = (w_db w1)\<lparr>t_points_transactions := t_points_transactions (w_db w1) @ [r]\<rparr>"
  shows "credited u c a t r (w_db w) d'"
proof -
  from assms(1) have tx: "t_points_transactions (w_db w1) = t_points_transactions (w_db w)"
    by (auto simp: run_simps)
  from assms(1) obtain ls where db: "w_db w1 = (w_db w)\<lparr>t_points_ledgers := ls\<rparr>"
    by (auto simp: run_simps)
  from assms(6) tx have "PT_ID r \<notin> PT_ID ` set (t_points_transactions (w_db w))"
    by (simp add: ptx_conflict_def)
  moreover have "find_ledger u c d' = Some l" using assms(2,7) by simp
  moreover have "t_points_ledgers d' = t_points_ledgers (w_db w1)" using assms(7) by simp
  moreover have "d' = (w_db w)\<lparr>t_points_ledgers := t_points_ledgers d',
      t_points_transactions := t_points_transactions (w_db w) @ [r]\<rparr>"
    unfolding assms(7) tx by (simp add: db)
  ultimately show ?thesis
    using assms(1,3,4,5) unfolding credited_def by (auto simp: run_simps)
qed

lemma credited_ledger_ok:
  assumes ok: "ledger_ok d" and cr: "credited u c a at t d d'" and a: "0 \<le> a" "fits a"
  shows "ledger_ok d'"
proof -
  let ?ls = "t_points_ledgers d" and ?ts = "t_points_transactions d"
  from cr obtain l where l: "find_ledger u c d' = Some l" "PT_LedgerID t = PL_ID l"
    and new: "PT_Delta t = a" "PT_ID t \<notin> PT_ID ` set ?ts"
    and ts: "t_points_transactions d' = ?ts @ [t]"
    by (auto simp: credited_def dest: arg_cong [where f = t_points_transactions])
  from l(1) have lin: "l \<in> set (t_points_ledgers d')" and key: "ledger_key u c l"
    by (auto dest: find_ledger_SomeD)
  from ok have oks: "ledgers_ok ?ls ?ts" by (simp add: ledger_ok_def)
  from cr consider
    (old) l0 where "l0 \<in> set ?ls" "ledger_key u c l0"
      "fits (PL_SpendableBalance l0 + a)" "fits (PL_CumulativeTotal l0 + a)"
      "t_points_ledgers d' = update_rows (ledger_key u c) (credit_row a at) ?ls"
  | (new) i where "\<forall>l \<in> set ?ls. \<not> ledger_key u c l" "i \<notin> PL_ID ` set ?ls"
      "t_points_ledgers d' = ?ls @ [fresh_ledger i u c a at]"
    unfolding credited_def by blast
  then show ?thesis
  proof cases
    case old
    have uniq: "x \<in> set ?ls \<Longrightarrow> ledger_key u c x \<longleftrightarrow> x = l0" for x
      using ledger_key_unique [OF oks] old(1,2) by blast
    from lin key old(5) uniq have "l = credit_row a at l0"
      by (auto simp: set_update_rows)
    then have "PT_LedgerID t = PL_ID l0" using l(2) by simp
    moreover from oks old(1) have "0 \<le> PL_SpendableBalance l0" by (auto simp: ledgers_ok_def)
    ultimately show ?thesis
      unfolding ledger_ok_def ts old(5)
      using oks old new a uniq by (intro ledgers_ok_post [where l = l0]) auto
  next
    case new2: new
    from lin key new2(1,3) have "l = fresh_ledger i u c a at" by auto
    moreover have "(u, c) \<notin> (\<lambda>l. (PL_UserID l, PL_ChannelID l)) ` set ?ls"
      using new2(1) by (auto simp: ledger_key_def)
    ultimately show ?thesis
      unfolding ledger_ok_def ts new2(3)
      using oks new2 new a l(2) by (intro ledgers_ok_open) auto
  qed
qed

text \<open>The balances after a credit: the viewer's ledger gains \<open>a\<close>, no other changes.\<close>

lemma find_ledger_update_other:
  assumes "\<And>x. P x \<Longrightarrow> \<not> ledger_key u c x" and "\<And>x. P x \<Longrightarrow> \<not> ledger_key u c (f x)"
  shows "find_ledger u c (d\<lparr>t_points_ledgers := update_rows P f (t_points_ledgers d)\<rparr>) = find_ledger u c d"
proof -
  have "filter (ledger_key u c) (update_rows P f ls) = filter (ledger_key u c) ls" for ls
    using assms by (induction ls) (auto simp: update_rows_def)
  then show ?thesis by (simp add: find_ledger_def first_by_def)
qed

lemma find_ledger_append_other:
  "\<not> ledger_key u c l \<Longrightarrow>
    find_ledger u c (d\<lparr>t_points_ledgers := t_points_ledgers d @ [l]\<rparr>) = find_ledger u c d"
  by (simp add: find_ledger_def first_by_def)


lemma find_ledger_update_same:
  assumes ok: "ledger_ok d" and l: "l \<in> set (t_points_ledgers d)" and key: "ledger_key u c l"
    and f: "\<And>x. PL_ID (f x) = PL_ID x" "\<And>x u' c'. ledger_key u' c' (f x) = ledger_key u' c' x"
    and P: "\<And>x. x \<in> set (t_points_ledgers d) \<Longrightarrow> P x \<longleftrightarrow> x = l"
  shows "find_ledger u c (d\<lparr>t_points_ledgers := update_rows P f (t_points_ledgers d)\<rparr>) = Some (f l)"
  unfolding find_ledger_def
proof (rule first_by_unique)
  let ?rows = "t_points_ledgers (d\<lparr>t_points_ledgers := update_rows P f (t_points_ledgers d)\<rparr>)"
  show "f l \<in> set ?rows" using l P by (auto simp: set_update_rows)
  show "ledger_key u c (f l)" using f(2) key by simp
  fix x assume "x \<in> set ?rows" "ledger_key u c x"
  then obtain y where y: "y \<in> set (t_points_ledgers d)" "P y \<and> x = f y \<or> \<not> P y \<and> x = y"
    by (auto simp: set_update_rows)
  then have "ledger_key u c y" using f(2) \<open>ledger_key u c x\<close> by auto
  then have "y = l" using ledger_key_unique ok key l y(1) unfolding ledger_ok_def by blast
  with y P show "x = f l" by auto
qed

text \<open>
  The abstract ledger: the pair of balances of each viewer and channel. A ledger table that
  satisfies \<open>ledger_ok\<close> is a map from viewer and channel to balances, zero where there is
  no row.
\<close>

type_synonym balances = "uuid \<times> string \<Rightarrow> int \<times> int"

definition balances :: "db \<Rightarrow> balances" where
  "balances d = (\<lambda>(u, c). (spendable d u c, cumulative d u c))"

definition credit :: "uuid \<Rightarrow> string \<Rightarrow> int \<Rightarrow> balances \<Rightarrow> balances" where
  "credit u c a b = b((u, c) := (fst (b (u, c)) + a, snd (b (u, c)) + a))"

definition debit :: "uuid \<Rightarrow> string \<Rightarrow> int \<Rightarrow> balances \<Rightarrow> balances" where
  "debit u c a b = b((u, c) := (fst (b (u, c)) - a, snd (b (u, c))))"

lemma balances_eqI:
  assumes "\<And>u c. spendable d u c = fst (b (u, c))" and "\<And>u c. cumulative d u c = snd (b (u, c))"
  shows "balances d = b"
  by (rule ext) (auto simp: balances_def assms split: prod.splits)

lemma balances_of_find:
  assumes "find_ledger u c d' = Some l'" and "\<And>u' c'. (u', c') \<noteq> (u, c) \<Longrightarrow> find_ledger u' c' d' = find_ledger u' c' d"
  shows "balances d' = (balances d)((u, c) := (PL_SpendableBalance l', PL_CumulativeTotal l'))"
  using assms by (auto simp: balances_def spendable_def cumulative_def fun_eq_iff)

lemma credited_find:
  assumes ok: "ledger_ok d" and cr: "credited u c a at t d d'"
  shows "balances d' = credit u c a (balances d)"
proof -
  let ?ls = "t_points_ledgers d"
  from ok have oks: "ledgers_ok ?ls (t_points_transactions d)" by (simp add: ledger_ok_def)
  have d': "find_ledger x y d' = find_ledger x y (d\<lparr>t_points_ledgers := t_points_ledgers d'\<rparr>)" for x y
    by (simp add: find_ledger_def)
  from cr consider
    (old) l0 where "l0 \<in> set ?ls" "ledger_key u c l0"
      "t_points_ledgers d' = update_rows (ledger_key u c) (credit_row a at) ?ls"
  | (new) i where "\<forall>l \<in> set ?ls. \<not> ledger_key u c l"
      "t_points_ledgers d' = ?ls @ [fresh_ledger i u c a at]"
    unfolding credited_def by blast
  then show ?thesis
  proof cases
    case old
    have uniq: "x \<in> set ?ls \<Longrightarrow> ledger_key u c x \<longleftrightarrow> x = l0" for x
      using ledger_key_unique [OF oks] old(1,2) by blast
    have "find_ledger u c d = Some l0" using ok old(1,2) by (simp add: find_ledger_iff)
    moreover have "find_ledger u c d' = Some (credit_row a at l0)"
      unfolding d' old(3)
      using find_ledger_update_same [OF ok old(1,2)] uniq by simp
    moreover have "find_ledger u' c' d' = find_ledger u' c' d" if "(u', c') \<noteq> (u, c)" for u' c'
      unfolding d' old(3) using that
      by (intro find_ledger_update_other) (auto simp: ledger_key_def)
    ultimately show ?thesis
      by (subst balances_of_find) (auto simp: credit_def balances_def spendable_def cumulative_def)
  next
    case new
    have "find_ledger u c d = None" using new(1) by (simp add: find_ledger_def)
    moreover have "find_ledger u c d' = Some (fresh_ledger i u c a at)"
      unfolding find_ledger_def new(2)
      by (rule first_by_unique) (use new(1) in \<open>auto simp: ledger_key_def\<close>)
    moreover have "find_ledger u' c' d' = find_ledger u' c' d" if "(u', c') \<noteq> (u, c)" for u' c'
      unfolding d' new(2) using that
      by (intro find_ledger_append_other) (auto simp: ledger_key_def)
    ultimately show ?thesis
      by (subst balances_of_find) (auto simp: credit_def balances_def spendable_def cumulative_def)
  qed
qed

lemma credited_other_tables:
  assumes "credited u c a at t d d'"
  shows "t_points_transactions d' = t_points_transactions d @ [t]"
    and "d' = d\<lparr>t_points_ledgers := t_points_ledgers d', t_points_transactions := t_points_transactions d'\<rparr>"
proof -
  from assms have eq: "d' = d\<lparr>t_points_ledgers := t_points_ledgers d',
      t_points_transactions := t_points_transactions d @ [t]\<rparr>"
    by (simp add: credited_def)
  from arg_cong [OF this, of t_points_transactions]
  show tx: "t_points_transactions d' = t_points_transactions d @ [t]" by simp
  from eq show "d' = d\<lparr>t_points_ledgers := t_points_ledgers d', t_points_transactions := t_points_transactions d'\<rparr>"
    unfolding tx .
qed


lemma balances_cong: "t_points_ledgers d = t_points_ledgers d' \<Longrightarrow> balances d = balances d'"
  by (simp add: balances_def spendable_def cumulative_def find_ledger_def)

lemma ledger_ok_cong:
  "t_points_ledgers d = t_points_ledgers d' \<Longrightarrow> t_points_transactions d = t_points_transactions d' \<Longrightarrow>
    ledger_ok d = ledger_ok d'"
  by (simp add: ledger_ok_def)

lemma spendable_eq: "spendable d u c = fst (balances d (u, c))"
  by (simp add: balances_def)

lemma cumulative_eq: "cumulative d u c = snd (balances d (u, c))"
  by (simp add: balances_def)

lemma balances_update_ledger:
  assumes ok: "ledger_ok d" and l: "l \<in> set (t_points_ledgers d)"
    and f: "\<And>x. PL_ID (f x) = PL_ID x" "\<And>x u c. ledger_key u c (f x) = ledger_key u c x"
    and P: "\<And>x. x \<in> set (t_points_ledgers d) \<Longrightarrow> P x \<longleftrightarrow> PL_ID x = PL_ID l"
    and ls: "t_points_ledgers d' = update_rows P f (t_points_ledgers d)"
  shows "balances d' = (balances d)((PL_UserID l, PL_ChannelID l) :=
    (PL_SpendableBalance (f l), PL_CumulativeTotal (f l)))"
proof -
  let ?u = "PL_UserID l" and ?c = "PL_ChannelID l"
  have d': "find_ledger u c d' =
      find_ledger u c (d\<lparr>t_points_ledgers := update_rows P f (t_points_ledgers d)\<rparr>)" for u c
    by (simp add: find_ledger_def ls)
  have one: "P x \<longleftrightarrow> x = l" if "x \<in> set (t_points_ledgers d)" for x
    using P ledger_unique ok l that unfolding ledger_ok_def by blast
  have key: "ledger_key ?u ?c l" by (simp add: ledger_key_def)
  show ?thesis
  proof (rule balances_of_find)
    show "find_ledger ?u ?c d' = Some (f l)"
      unfolding d' by (rule find_ledger_update_same [OF ok l key f one])
  next
    fix u c assume ne: "(u, c) \<noteq> (?u, ?c)"
    define P' where "P' x = (P x \<and> PL_ID x = PL_ID l \<and> ledger_key ?u ?c x)" for x
    have "update_rows P f (t_points_ledgers d) = update_rows P' f (t_points_ledgers d)"
      unfolding update_rows_def P'_def using one key by (intro map_cong) auto
    moreover have "find_ledger u c (d\<lparr>t_points_ledgers := update_rows P' f (t_points_ledgers d)\<rparr>)
        = find_ledger u c d"
      using ne f(2) by (intro find_ledger_update_other) (auto simp: P'_def ledger_key_def)
    ultimately show "find_ledger u c d' = find_ledger u c d" unfolding d' by simp
  qed
qed

lemma ledger_ok_post:
  assumes ok: "ledger_ok d" and l: "l \<in> set (t_points_ledgers d)"
    and t: "PT_LedgerID t = PL_ID l" "PT_ID t \<notin> PT_ID ` set (t_points_transactions d)"
    and keys: "\<And>x. PL_ID (f x) = PL_ID x" "\<And>x. PL_UserID (f x) = PL_UserID x"
      "\<And>x. PL_ChannelID (f x) = PL_ChannelID x"
    and val: "PL_SpendableBalance (f l) = PL_SpendableBalance l + PT_Delta t"
      "0 \<le> PL_SpendableBalance (f l)" "fits (PL_SpendableBalance (f l))" "fits (PL_CumulativeTotal (f l))"
    and P: "\<And>x. x \<in> set (t_points_ledgers d) \<Longrightarrow> P x \<longleftrightarrow> PL_ID x = PL_ID l"
    and d': "t_points_ledgers d' = update_rows P f (t_points_ledgers d)"
      "t_points_transactions d' = t_points_transactions d @ [t]"
  shows "ledger_ok d'"
proof -
  have "P x \<longleftrightarrow> x = l" if "x \<in> set (t_points_ledgers d)" for x
    using P ledger_unique ok l that unfolding ledger_ok_def by blast
  then show ?thesis
    unfolding ledger_ok_def d'
    using ok l t keys val by (intro ledgers_ok_post) (auto simp: ledger_ok_def)
qed

lemma ledger_bounds:
  "ledger_ok d \<Longrightarrow> l \<in> set (t_points_ledgers d) \<Longrightarrow>
    0 \<le> PL_SpendableBalance l \<and> fits (PL_SpendableBalance l) \<and> fits (PL_CumulativeTotal l)"
  by (auto simp: ledger_ok_def ledgers_ok_def)

section \<open>What the operations do\<close>

lemma addPointsWithMetaAt_Inr:
  assumes "addPointsWithMetaAt at u c src a meta w = (Inr x, w')"
  obtains t where "credited u c a at t (w_db w) (w_db w')"
    and "PT_Source t = src" "PT_WatchSessionID t = None" "PT_SKU t = PM_SKU meta"
    and "PT_Note t = PM_Note meta" "PT_ExternalTransactionID t = PM_ExternalTransactionID meta"
    and "PT_CreatedAt t = at"
proof -
  from assms obtain i w1 w2 l r where
    up: "upsert_ledger i u c a at w1 = (Inr (), w2)" and w1: "w_db w1 = w_db w"
    and l: "find_ledger u c (w_db w2) = Some l"
    and r: "r = \<lparr>PT_ID = PT_ID r, PT_LedgerID = PL_ID l, PT_WatchSessionID = None, PT_Source = src,
        PT_Delta = a, PT_BalanceAfter = PL_SpendableBalance l, PT_SKU = PM_SKU meta,
        PT_Note = PM_Note meta, PT_ExternalTransactionID = PM_ExternalTransactionID meta,
        PT_CreatedAt = at\<rparr>"
    and c: "ptx_conflict (t_points_transactions (w_db w2)) r = None"
    and w': "w_db w' = (w_db w2)\<lparr>t_points_transactions := t_points_transactions (w_db w2) @ [r]\<rparr>"
    unfolding addPointsWithMetaAt_def bnd_Inr seq_Inr orElse_Inr query_Inr newUUID_Inr create_ptx_Inr ret_Inr
    by (elim exE conjE) (simp, metis PointsTransaction.select_convs(1) tick_sel(1))
  have "credited u c a at r (w_db w) (w_db w')"
    using credit_step [OF up l _ _ _ c w'] r unfolding w1
    by (metis PointsTransaction.select_convs(2,5,6))
  moreover from r have "PT_Source r = src" "PT_WatchSessionID r = None" "PT_SKU r = PM_SKU meta"
    "PT_Note r = PM_Note meta" "PT_ExternalTransactionID r = PM_ExternalTransactionID meta"
    "PT_CreatedAt r = at"
    by (metis PointsTransaction.select_convs)+
  ultimately show thesis by (rule that)
qed


text \<open>The other tables are no part of the ledger.\<close>

lemma ledger_ok_frame [simp]:
  "ledger_ok (t_users_update f1 d) = ledger_ok d"
  "ledger_ok (t_auth_providers_update f2 d) = ledger_ok d"
  "ledger_ok (t_refresh_tokens_update f3 d) = ledger_ok d"
  "ledger_ok (t_web3_nonces_update f4 d) = ledger_ok d"
  "ledger_ok (t_email_verifications_update f5 d) = ledger_ok d"
  "ledger_ok (t_password_resets_update f6 d) = ledger_ok d"
  "ledger_ok (t_shipping_addresses_update f7 d) = ledger_ok d"
  "ledger_ok (t_watch_sessions_update f8 d) = ledger_ok d"
  "ledger_ok (t_watch_time_stats_update f9 d) = ledger_ok d"
  "ledger_ok (t_broadcast_time_stats_update f10 d) = ledger_ok d"
  "ledger_ok (t_broadcast_time_logs_update f11 d) = ledger_ok d"
  "ledger_ok (t_channel_configs_update f12 d) = ledger_ok d"
  "ledger_ok (t_streamers_update f13 d) = ledger_ok d"
  "ledger_ok (t_agency_streamers_update f14 d) = ledger_ok d"
  "ledger_ok (t_tachi_balances_update f15 d) = ledger_ok d"
  "ledger_ok (t_claims_update f16 d) = ledger_ok d"
  "ledger_ok (t_claim_items_update f17 d) = ledger_ok d"
  "ledger_ok (t_coupon_redemptions_update f18 d) = ledger_ok d"
  "ledger_ok (t_raffles_update f19 d) = ledger_ok d"
  "ledger_ok (t_raffle_entries_update f20 d) = ledger_ok d"
  "ledger_ok (t_raffle_draws_update f21 d) = ledger_ok d"
  "ledger_ok (t_raffle_claims_update f22 d) = ledger_ok d"
  "ledger_ok (t_raffle_prize_tiers_update f23 d) = ledger_ok d"
  by (simp_all add: ledger_ok_def)

lemma balances_frame [simp]:
  "balances (t_users_update f24 d) = balances d"
  "balances (t_auth_providers_update f25 d) = balances d"
  "balances (t_refresh_tokens_update f26 d) = balances d"
  "balances (t_web3_nonces_update f27 d) = balances d"
  "balances (t_email_verifications_update f28 d) = balances d"
  "balances (t_password_resets_update f29 d) = balances d"
  "balances (t_shipping_addresses_update f30 d) = balances d"
  "balances (t_watch_sessions_update f31 d) = balances d"
  "balances (t_watch_time_stats_update f32 d) = balances d"
  "balances (t_broadcast_time_stats_update f33 d) = balances d"
  "balances (t_broadcast_time_logs_update f34 d) = balances d"
  "balances (t_channel_configs_update f35 d) = balances d"
  "balances (t_streamers_update f36 d) = balances d"
  "balances (t_agency_streamers_update f37 d) = balances d"
  "balances (t_tachi_balances_update f38 d) = balances d"
  "balances (t_claims_update f39 d) = balances d"
  "balances (t_claim_items_update f40 d) = balances d"
  "balances (t_coupon_redemptions_update f41 d) = balances d"
  "balances (t_raffles_update f42 d) = balances d"
  "balances (t_raffle_entries_update f43 d) = balances d"
  "balances (t_raffle_draws_update f44 d) = balances d"
  "balances (t_raffle_claims_update f45 d) = balances d"
  "balances (t_raffle_prize_tiers_update f46 d) = balances d"
  "balances (t_points_transactions_update f47 d) = balances d"
  by (simp_all add: balances_def spendable_def cumulative_def find_ledger_def)

lemma addPointsWithMetaAt_ledger_ok:
  "ledger_ok (w_db w) \<Longrightarrow> addPointsWithMetaAt at u c src a meta w = (Inr x, w') \<Longrightarrow> 0 \<le> a \<Longrightarrow> fits a \<Longrightarrow>
    ledger_ok (w_db w')"
  by (metis addPointsWithMetaAt_Inr credited_ledger_ok)

lemma addPointsWithMetaAt_balances:
  "ledger_ok (w_db w) \<Longrightarrow> addPointsWithMetaAt at u c src a meta w = (Inr x, w') \<Longrightarrow>
    balances (w_db w') = credit u c a (balances (w_db w))"
  by (metis addPointsWithMetaAt_Inr credited_find)

lemma addPointsWithMeta_Inr [run_simps]:
  "addPointsWithMeta u c src a meta w = (Inr x, w') \<longleftrightarrow>
    addPointsWithMetaAt (env_clock (w_env w) (w_tick w)) u c src a meta (tick w) = (Inr x, w')"
  by (simp add: addPointsWithMeta_def run_simps)

lemma validatePositive_Inr [run_simps]:
  "validatePositivePointsAmount a w = (Inr x, w') \<longleftrightarrow> 0 < a \<and> w' = w"
  by (auto simp: validatePositivePointsAmount_def run_simps)

lemma validatePositive_run: "0 < a \<Longrightarrow> validatePositivePointsAmount a w = (Inr (), w)"
  by (simp add: validatePositivePointsAmount_def ret_def)

lemma validatePositive_fail: "a \<le> 0 \<Longrightarrow> validatePositivePointsAmount a w = (Inl (PointsE ErrInvalidPointsAmount), w)"
  by (simp add: validatePositivePointsAmount_def fail_def)

lemma AddPointsWithMetaContext_Inr:
  assumes "AddPointsWithMetaContext u c src a meta w = (Inr x, w')"
  obtains w1 w2 where "0 < a" "addPointsWithMeta u c src a meta w1 = (Inr x, w2)"
    "w_db w1 = w_db w" "w_db w' = w_db w2"
    "\<And>s. PM_SKU meta = Some s \<Longrightarrow> RuneCountInString s \<le> 255"
    "\<And>s. PM_ExternalTransactionID meta = Some s \<Longrightarrow> RuneCountInString s \<le> 255"
proof -
  from assms have a: "0 < a"
    and len: "\<not> (case PM_SKU meta of None \<Rightarrow> False | Some s \<Rightarrow> RuneCountInString s > 255)"
      "\<not> (case PM_ExternalTransactionID meta of None \<Rightarrow> False | Some s \<Rightarrow> RuneCountInString s > 255)"
    and run: "transaction (addPointsWithMeta u c src a meta) w = (Inr x, w')"
    by (auto simp: AddPointsWithMetaContext_def run_simps split: if_splits)
  from transaction_Inr [OF run] obtain w2 where
    "addPointsWithMeta u c src a meta w = (Inr x, w2)" "w_db w' = w_db w2" by auto
  with a len show thesis by (intro that [of w w2]) (auto split: option.splits)
qed

lemma preserves_validatePositive [preserves_intros]: "preserves I (validatePositivePointsAmount a)"
  by (auto simp: validatePositivePointsAmount_def intro!: preserves_intros)

lemma preserves_AddPointsWithMetaContext:
  "fits a \<Longrightarrow> preserves ledger_ok (AddPointsWithMetaContext u c src a meta)"
proof (cases "0 < a")
  case True
  assume "fits a"
  with True have "preserves ledger_ok (transaction (addPointsWithMeta u c src a meta))"
    by (intro preserves_transaction) (auto simp: run_simps elim!: addPointsWithMetaAt_ledger_ok [rotated])
  then show ?thesis
    unfolding AddPointsWithMetaContext_def by (intro preserves_intros)
next
  case False
  then show ?thesis
    by (simp add: preserves_def AddPointsWithMetaContext_def seq_def bnd_def validatePositive_fail)
qed

lemma preserves_AddPoints: "fits a \<Longrightarrow> preserves ledger_ok (AddPoints u c src a)"
  unfolding AddPoints_def by (intro preserves_intros preserves_AddPointsWithMetaContext)

section \<open>Deductions\<close>

lemma DeductPoints_body:
  assumes ok: "ledger_ok (w_db w)"
    and run: "DeductPointsContext u c a note w = (Inr x, w')"
  obtains t where "0 < a" "a \<le> spendable (w_db w) u c"
    "ledger_ok (w_db w')" "balances (w_db w') = debit u c a (balances (w_db w))"
    "t_points_transactions (w_db w') = t_points_transactions (w_db w) @ [t]"
    "PT_Source t = TxSourceSpend" "PT_Delta t = - a" "PT_Note t = Some note"
    "PT_BalanceAfter t = spendable (w_db w') u c"
proof -
  from run have a: "0 < a" by (simp add: DeductPointsContext_def run_simps)
  from run obtain l at i ct where
    l: "Some l = find_ledger u c (w_db w)" and enough: "a \<le> PL_SpendableBalance l"
    and conf: "ptx_conflict (t_points_transactions (w_db w))
       \<lparr>PT_ID = i, PT_LedgerID = PL_ID l, PT_WatchSessionID = None, PT_Source = TxSourceSpend,
        PT_Delta = i64 (- a), PT_BalanceAfter = i64 (PL_SpendableBalance l - a), PT_SKU = None,
        PT_Note = Some note, PT_ExternalTransactionID = None, PT_CreatedAt = ct\<rparr> = None"
    and w': "w_db w' = t_points_transactions_update (\<lambda>rows. rows @
         [\<lparr>PT_ID = i, PT_LedgerID = PL_ID l, PT_WatchSessionID = None, PT_Source = TxSourceSpend,
        PT_Delta = i64 (- a), PT_BalanceAfter = i64 (PL_SpendableBalance l - a), PT_SKU = None,
        PT_Note = Some note, PT_ExternalTransactionID = None, PT_CreatedAt = ct\<rparr>])
       (t_points_ledgers_update (update_rows (\<lambda>x. PL_ID x = PL_ID l)
          (\<lambda>x. x\<lparr>PL_SpendableBalance := i64 (PL_SpendableBalance l - a), PL_UpdatedAt := at\<rparr>))
          (w_db w))"
    by (auto simp: DeductPointsContext_def Let_def run_simps not_less create_ptx_def dest!: transaction_Inr
        split: if_splits)
  define r where "r = \<lparr>PT_ID = i, PT_LedgerID = PL_ID l, PT_WatchSessionID = None, PT_Source = TxSourceSpend,
        PT_Delta = i64 (- a), PT_BalanceAfter = i64 (PL_SpendableBalance l - a), PT_SKU = None,
        PT_Note = Some note, PT_ExternalTransactionID = None, PT_CreatedAt = ct\<rparr>"
  note l = l [symmetric] and r = conf [folded r_def] and w' = w' [folded r_def]
  note lin = find_ledger_SomeD [OF l]
  from ledger_bounds [OF ok lin(1)] a enough
  have [simp]: "i64 (PL_SpendableBalance l - a) = PL_SpendableBalance l - a" "i64 (- a) = - a"
    by (auto simp: i64_bounds intro!: i64_fits)
  let ?f = "\<lambda>x. x\<lparr>PL_SpendableBalance := PL_SpendableBalance l - a, PL_UpdatedAt := at\<rparr>"
  have "balances (w_db w') = (balances (w_db w))((PL_UserID l, PL_ChannelID l) :=
      (PL_SpendableBalance (?f l), PL_CumulativeTotal (?f l)))"
    by (rule balances_update_ledger [OF ok lin(1), where P = "\<lambda>x. PL_ID x = PL_ID l"])
      (auto simp: w' ledger_key_def)
  with l lin have bal: "balances (w_db w') = debit u c a (balances (w_db w))"
    by (simp add: debit_def balances_def spendable_def cumulative_def)
  have ok': "ledger_ok (w_db w')"
    using r enough a ledger_bounds [OF ok lin(1)]
    by (intro ledger_ok_post [OF ok lin(1), of r]) (auto simp: w' r_def ptx_conflict_def i64_bounds)
  show thesis
  proof (rule that [of r])
    show "a \<le> spendable (w_db w) u c" using l enough by (simp add: spendable_def)
    show "PT_BalanceAfter r = spendable (w_db w') u c"
      unfolding spendable_eq bal using l by (simp add: r_def debit_def balances_def spendable_def)
    show "t_points_transactions (w_db w') = t_points_transactions (w_db w) @ [r]" by (simp add: w')
  qed (use a ok' bal in \<open>simp_all add: r_def\<close>)
qed

section \<open>Time counters\<close>

lemma preserves_addWatchTime: "(\<And>d f. I (t_watch_time_stats_update f d) = I d) \<Longrightarrow> preserves I (addWatchTime u c s)"
proof -
  assume I: "\<And>d f. I (t_watch_time_stats_update f d) = I d"
  show ?thesis
    unfolding addWatchTime_def
    by (intro preserves_intros preserves_stmt) (auto simp: I split: if_splits)
qed

lemma preserves_addBroadcastTime:
  assumes I: "\<And>d f. I (t_broadcast_time_stats_update f d) = I d"
    "\<And>d f. I (t_broadcast_time_logs_update f d) = I d"
  shows "preserves I (addBroadcastTime c s)"
  unfolding addBroadcastTime_def
  by (intro preserves_intros preserves_stmt preserves_insert_row) (auto simp: I split: if_splits)

lemma preserves_DeductPointsContext: "preserves ledger_ok (DeductPointsContext u c a note)"
  unfolding preserves_def
proof (intro allI impI)
  fix w :: world
  assume ok: "ledger_ok (w_db w)"
  obtain r w' where run: "DeductPointsContext u c a note w = (r, w')" by fastforce
  show "ledger_ok (w_db (snd (DeductPointsContext u c a note w)))"
  proof (cases r)
    case (Inl e)
    with run have "w_db w' = w_db w"
      by (auto simp: DeductPointsContext_def seq_def bnd_def validatePositivePointsAmount_def
          fail_def ret_def split: if_splits dest: transaction_Inl)
    with run ok show ?thesis by simp
  next
    case (Inr x)
    with run ok show ?thesis by (auto elim: DeductPoints_body)
  qed
qed

section \<open>Properties\<close>

text \<open>C10. Whatever fails and whatever the outcome, every operation of the points service that writes
  keeps the ledger invariant: one row per viewer and channel, no negative balance, and
  every spendable balance the sum of the deltas logged for it.\<close>

theorem points_ledger_invariant:
  assumes "fits amount"
  shows "preserves ledger_ok (AddPoints u c src amount) \<and>
    preserves ledger_ok (AddPointsWithMetaContext u c src amount meta) \<and>
    preserves ledger_ok (DeductPointsContext u c amount note) \<and>
    preserves ledger_ok (AddWatchTimeContext u c secs) \<and>
    preserves ledger_ok (AddBroadcastTimeContext c secs) \<and>
    preserves ledger_ok (AddHeartbeatTimeContext u c secs)"
proof -
  have w: "preserves ledger_ok (addWatchTime u c secs)" by (rule preserves_addWatchTime) simp
  have b: "preserves ledger_ok (addBroadcastTime c secs)" by (rule preserves_addBroadcastTime) simp_all
  have "preserves ledger_ok (AddHeartbeatTimeContext u c secs)"
    unfolding AddHeartbeatTimeContext_def by (intro preserves_on_success preserves_seq w b)
  with w b assms show ?thesis
    by (simp add: AddWatchTimeContext_def AddBroadcastTimeContext_def preserves_AddPoints
        preserves_AddPointsWithMetaContext preserves_DeductPointsContext)
qed

theorem points_ledger_invariant_witness:
  "preserves ledger_ok (AddPoints 1 ''c'' TxSourceTPoint 5)"
  using points_ledger_invariant [of 5] by (simp add: i64_bounds)

text \<open>C8. Crediting points: on success the abstract ledger gains exactly the amount
  at that viewer and channel, in both balances, and one transaction carrying the source, the
  amount, the new balance and the metadata is appended to the log; on failure nothing in the
  database has changed.\<close>

theorem AddPoints_refines_credit:
  assumes "ledger_ok (w_db w)" and "AddPointsWithMetaContext u c src a meta w = (r, w')"
  shows "case r of
      Inl e \<Rightarrow> w_db w' = w_db w
    | Inr _ \<Rightarrow> 0 < a \<and> balances (w_db w') = credit u c a (balances (w_db w)) \<and>
        (\<exists>t. t_points_transactions (w_db w') = t_points_transactions (w_db w) @ [t] \<and>
           PT_Source t = src \<and> PT_Delta t = a \<and> PT_BalanceAfter t = spendable (w_db w') u c \<and>
           PT_SKU t = PM_SKU meta \<and> PT_Note t = PM_Note meta \<and>
           PT_ExternalTransactionID t = PM_ExternalTransactionID meta)"
proof (cases r)
  case (Inl e)
  with assms(2) show ?thesis
    by (auto simp: AddPointsWithMetaContext_def seq_def bnd_def validatePositivePointsAmount_def
        fail_def ret_def split: if_splits dest: transaction_Inl)
next
  case (Inr x)
  from AddPointsWithMetaContext_Inr [OF assms(2) [unfolded Inr]] obtain w1 w2 where a: "0 < a"
    and run: "addPointsWithMeta u c src a meta w1 = (Inr x, w2)"
    and w: "w_db w1 = w_db w" "w_db w' = w_db w2" by metis
  from run obtain at where run: "addPointsWithMetaAt at u c src a meta (tick w1) = (Inr x, w2)"
    by (auto simp: run_simps)
  from addPointsWithMetaAt_Inr [OF run] obtain t where cr: "credited u c a at t (w_db w) (w_db w')"
    and t: "PT_Source t = src" "PT_SKU t = PM_SKU meta" "PT_Note t = PM_Note meta"
      "PT_ExternalTransactionID t = PM_ExternalTransactionID meta"
    using w by (metis tick_sel(1))
  from credited_other_tables(1) [OF cr] credited_find [OF assms(1) cr] cr
  show ?thesis unfolding Inr using a t by (auto simp: credited_def spendable_def)
qed

theorem AddPoints_refines_credit_witness:
  "\<exists>w'. AddPointsWithMetaContext 1 ''c'' TxSourceTPoint 7 no_meta (start (\<lambda>n. int n) empty_db) = (Inr (), w') \<and>
     balances (w_db w') = credit 1 ''c'' 7 (balances empty_db)"
proof -
  let ?w = "start (\<lambda>n. int n) empty_db"
  have ok: "ledger_ok (w_db ?w)" by (simp add: ledger_ok_def ledgers_ok_def empty_db_def)
  have run: "\<exists>w'. AddPointsWithMetaContext 1 ''c'' TxSourceTPoint 7 no_meta ?w = (Inr (), w')"
    by (simp add: AddPointsWithMetaContext_def no_meta_def validatePositive_run addPointsWithMeta_def
        addPointsWithMetaAt_def upsert_ledger_def create_ptx_def ptx_conflict_def run_defs empty_db_def
        find_ledger_def first_by_def ledger_key_def fresh_ledger_def dup_if_def)
  then obtain w' where "AddPointsWithMetaContext 1 ''c'' TxSourceTPoint 7 no_meta ?w = (Inr (), w')" ..
  with AddPoints_refines_credit [OF ok this] show ?thesis by auto
qed

lemma DeductPoints_Inl: "DeductPointsContext u c a note w = (Inl e, w') \<Longrightarrow> w_db w' = w_db w"
  by (auto simp: DeductPointsContext_def seq_def bnd_def validatePositivePointsAmount_def
      fail_def ret_def split: if_splits dest: transaction_Inl)

text \<open>C9. Deducting points: on success the viewer had at least the amount, the spendable balance
  of that channel drops by exactly the amount, the cumulative total stays, and one transaction
  with the negated amount, the note and the balance left is logged; on failure nothing has changed.\<close>

theorem DeductPoints_refines_debit:
  assumes "ledger_ok (w_db w)" and "DeductPointsContext u c a note w = (r, w')"
  shows "case r of
      Inl e \<Rightarrow> w_db w' = w_db w
    | Inr _ \<Rightarrow> 0 < a \<and> a \<le> spendable (w_db w) u c \<and>
        balances (w_db w') = debit u c a (balances (w_db w)) \<and>
        (\<exists>t. t_points_transactions (w_db w') = t_points_transactions (w_db w) @ [t] \<and>
           PT_Source t = TxSourceSpend \<and> PT_Delta t = - a \<and> PT_Note t = Some note \<and>
           PT_BalanceAfter t = spendable (w_db w') u c)"
proof (cases r)
  case (Inl e)
  with assms(2) show ?thesis by (simp add: DeductPoints_Inl)
next
  case (Inr x)
  show ?thesis
    unfolding Inr sum.case
    by (rule DeductPoints_body [OF assms(1) assms(2) [unfolded Inr]]) blast
qed

definition ledger_7 :: db where
  "ledger_7 = empty_db\<lparr>
     t_points_ledgers := [\<lparr>PL_ID = 11, PL_UserID = 3, PL_ChannelID = ''c'', PL_CumulativeTotal = 9,
       PL_SpendableBalance = 7, PL_CreatedAt = 0, PL_UpdatedAt = 0\<rparr>],
     t_points_transactions := [\<lparr>PT_ID = 2, PT_LedgerID = 11, PT_WatchSessionID = None,
       PT_Source = TxSourceTPoint, PT_Delta = 7, PT_BalanceAfter = 7, PT_SKU = None, PT_Note = None,
       PT_ExternalTransactionID = Some ''x'', PT_CreatedAt = 0\<rparr>]\<rparr>"

lemma ledger_7_ok: "ledger_ok ledger_7"
  by (simp add: ledger_7_def ledger_ok_def ledgers_ok_def deltas_def i64_bounds)

lemma spendable_ledger_7: "spendable ledger_7 3 ''c'' = 7"
  by (simp add: ledger_7_def spendable_def find_ledger_def first_by_def ledger_key_def)

theorem DeductPoints_refines_debit_witness:
  "\<exists>w'. DeductPointsContext 3 ''c'' 3 ''n'' (start (\<lambda>n. int n) ledger_7) = (Inr (), w') \<and>
     balances (w_db w') = debit 3 ''c'' 3 (balances ledger_7)"
proof -
  let ?w = "start (\<lambda>n. int n) ledger_7"
  have "\<exists>w'. DeductPointsContext 3 ''c'' 3 ''n'' ?w = (Inr (), w')"
    by (simp add: DeductPointsContext_def validatePositive_run create_ptx_def ptx_conflict_def run_defs
        ledger_7_def find_ledger_def first_by_def ledger_key_def dup_if_def Let_def)
  then obtain w' where "DeductPointsContext 3 ''c'' 3 ''n'' ?w = (Inr (), w')" ..
  with DeductPoints_refines_debit [OF _ this] ledger_7_ok show ?thesis by auto
qed

text \<open>When nothing fails, the outcome of a deduction is decided by the amount and the balance alone:
  an amount that is not positive and a balance that is too small (or no ledger at all) are
  refused with their own errors, and every other deduction succeeds.\<close>

theorem DeductPoints_decides:
  assumes "no_faults w"
    and "\<And>n. env_uuid (w_env w) n \<notin> PT_ID ` set (t_points_transactions (w_db w))"
  shows "fst (DeductPointsContext u c a note w) =
    (if a \<le> 0 then Inl (PointsE ErrInvalidPointsAmount)
     else if spendable (w_db w) u c < a then Inl (PointsE ErrInsufficientBalance)
     else Inr ())"
proof (cases "a \<le> 0")
  case True
  then show ?thesis by (simp add: DeductPointsContext_def seq_def bnd_def validatePositive_fail)
next
  case False
  with assms show ?thesis
    by (cases "find_ledger u c (w_db w)")
      (auto simp: DeductPointsContext_def validatePositive_run run_defs spendable_def Let_def
        create_ptx_def ptx_conflict_def dup_if_def)
qed

theorem DeductPoints_decides_witness:
  "fst (DeductPointsContext 3 ''c'' 8 ''n'' (start (\<lambda>n. int n) ledger_7)) =
    Inl (PointsE ErrInsufficientBalance)"
  by (subst DeductPoints_decides) (simp_all add: spendable_ledger_7, simp add: ledger_7_def)

text \<open>An external transaction is credited at most once: when the log already holds its identifier,
  every further credit that carries it fails and leaves the database as it was.\<close>

theorem AddPoints_external_once:
  assumes "t \<in> set (t_points_transactions (w_db w))" and "PT_ExternalTransactionID t = Some x"
    and "PM_ExternalTransactionID meta = Some x"
    and "AddPointsWithMetaContext u c src a meta w = (r, w')"
  shows "(\<exists>e. r = Inl e) \<and> w_db w' = w_db w"
proof (cases r)
  case (Inl e)
  with assms(4) show ?thesis
    by (auto simp: AddPointsWithMetaContext_def seq_def bnd_def validatePositivePointsAmount_def
        fail_def ret_def split: if_splits dest: transaction_Inl)
next
  case (Inr y)
  from AddPointsWithMetaContext_Inr [OF assms(4) [unfolded Inr]] obtain w1 w2 where
    run: "addPointsWithMeta u c src a meta w1 = (Inr y, w2)" and w1: "w_db w1 = w_db w" by metis
  from run assms(1-3) w1 have False
    by (auto simp: addPointsWithMeta_def addPointsWithMetaAt_def run_simps ptx_conflict_def rev_image_eqI)
  then show ?thesis ..
qed

theorem AddPoints_external_once_witness:
  "\<exists>e w'. AddPointsWithMetaContext 5 ''d'' TxSourceTPoint 7 (no_meta\<lparr>PM_ExternalTransactionID := Some ''x''\<rparr>)
     (start (\<lambda>n. int n) ledger_7) = (Inl e, w') \<and> w_db w' = ledger_7"
proof -
  let ?run = "AddPointsWithMetaContext 5 ''d'' TxSourceTPoint 7 (no_meta\<lparr>PM_ExternalTransactionID := Some ''x''\<rparr>)
     (start (\<lambda>n. int n) ledger_7)"
  obtain r w' where run: "?run = (r, w')" by fastforce
  from AddPoints_external_once [OF _ _ _ run] run show ?thesis
    by (auto simp: ledger_7_def no_meta_def)
qed

text \<open>The broadcast statistics of a streamer are nested: the seconds counted since the start of the day,
  of the month and of the year never exceed one another, for any calendar whose day starts
  within its month and whose month starts within its year.\<close>

definition broadcast_logs_ok :: "db \<Rightarrow> bool" where
  "broadcast_logs_ok d \<longleftrightarrow> (\<forall>l \<in> set (t_broadcast_time_logs d). 0 \<le> BL_Seconds l)"

lemma broadcast_since_mono:
  assumes "broadcast_logs_ok d" and "s \<le> s'"
  shows "0 \<le> broadcast_since sid ch s' d" and "broadcast_since sid ch s' d \<le> broadcast_since sid ch s d"
proof -
  have nonneg: "0 \<le> sum_list (map BL_Seconds ls)" if "\<forall>l \<in> set ls. 0 \<le> BL_Seconds l" for ls
    using that by (induction ls) auto
  with assms(1) show "0 \<le> broadcast_since sid ch s' d"
    unfolding broadcast_since_def broadcast_logs_ok_def by (intro nonneg) auto
  have "sum_list (map BL_Seconds (filter (\<lambda>l. Q l \<and> s' \<le> BL_RecordedAt l) ls)) \<le>
      sum_list (map BL_Seconds (filter (\<lambda>l. Q l \<and> s \<le> BL_RecordedAt l) ls))"
    if "\<forall>l \<in> set ls. 0 \<le> BL_Seconds l" for Q ls
    using that assms(2) by (induction ls) auto
  from this [of _ "\<lambda>l. BL_StreamerID l = sid \<and> BL_ChannelID l = ch"] assms(1)
  show "broadcast_since sid ch s' d \<le> broadcast_since sid ch s d"
    by (simp add: broadcast_since_def broadcast_logs_ok_def conj_assoc)
qed

lemma labelled_Inr [run_simps]: "labelled s x w = (Inr a, w') \<longleftrightarrow> x w = (Inr a, w')"
  by (auto simp: labelled_def run_simps)

theorem broadcast_stats_nested:
  assumes "broadcast_logs_ok (w_db w)" and "GetBroadcastStatsContext cal sid ch w = (Inr s, w')"
    and "\<And>t. startOfYear cal t \<le> startOfMonth cal t \<and> startOfMonth cal t \<le> startOfDay cal t"
  shows "0 \<le> DailySeconds s \<and> DailySeconds s \<le> MonthlySeconds s \<and> MonthlySeconds s \<le> YearlySeconds s \<and>
    w_db w' = w_db w"
  using assms
  by (auto simp: GetBroadcastStatsContext_def run_simps intro!: broadcast_since_mono)

definition utc_days :: calendar where
  "utc_days = \<lparr>startOfDay = (\<lambda>t. t - t mod (24 * hour)), startOfMonth = (\<lambda>t. t - t mod (24 * hour)),
     startOfYear = (\<lambda>t. t - t mod (24 * hour))\<rparr>"

theorem broadcast_stats_nested_witness:
  "\<exists>s w'. GetBroadcastStatsContext utc_days 1 ''c'' (start (\<lambda>n. int n) empty_db) = (Inr s, w') \<and>
     DailySeconds s \<le> MonthlySeconds s"
proof -
  let ?w = "start (\<lambda>n. int n) empty_db"
  have "\<exists>s w'. GetBroadcastStatsContext utc_days 1 ''c'' ?w = (Inr s, w')"
    by (simp add: GetBroadcastStatsContext_def labelled_def broadcast_since_def empty_db_def run_defs i64_bounds)
  then obtain s w' where run: "GetBroadcastStatsContext utc_days 1 ''c'' ?w = (Inr s, w')" by blast
  have "broadcast_logs_ok (w_db ?w)" by (simp add: broadcast_logs_ok_def empty_db_def)
  from broadcast_stats_nested [OF this run] run show ?thesis by (auto simp: utc_days_def)
qed

lemma preserves_broadcast_logs: "0 \<le> s \<Longrightarrow> preserves broadcast_logs_ok (addBroadcastTime c s)"
  unfolding addBroadcastTime_def
  by (intro preserves_intros preserves_stmt preserves_insert_row)
    (auto simp: broadcast_logs_ok_def split: if_splits)

end
