(* ===== verification/Claims.thy ===== *)
theory Claims
  imports Points
begin

text \<open>
  \<^verbatim>\<open>services/claim_service.go\<close> and \<^verbatim>\<open>services/token_units.go\<close>: a viewer's points of all
  channels are turned into tokens. A claim reserves points in one transaction, mints on
  chain, and settles in further transactions, each of which may fail on its own. The chain
  and the address functions of go-ethereum are parameters.
\<close>

section \<open>The world outside\<close>

record EthLib =
  IsHexAddress :: "string \<Rightarrow> bool"
  HexToAddress :: "string \<Rightarrow> nat"
  AddressHex :: "nat \<Rightarrow> string"
  HexToECDSA :: "string \<Rightarrow> err + nat"

record TokenContract =
  MintBroadcast :: "nat \<Rightarrow> nat \<Rightarrow> int \<Rightarrow> nat \<Rightarrow> err + string"
  WaitMintReceipt :: "string \<Rightarrow> nat \<Rightarrow> err + unit"
  Burn :: "nat \<Rightarrow> nat \<Rightarrow> int \<Rightarrow> nat \<Rightarrow> string \<times> err option"

record MintCaller =
  MintBroadcastOnChain :: "string \<Rightarrow> int \<Rightarrow> nat \<Rightarrow> err + string"
  WaitMintReceiptOnChain :: "string \<Rightarrow> nat \<Rightarrow> err + unit"

record ClaimService =
  CS_eth :: EthLib
  CS_signerKey :: string
  CS_tachiToken :: "TokenContract option"

definition tachiTokenRawUnit :: int where
  "tachiTokenRawUnit = 10 ^ 18"

definition tachiWholeTokensToRawUnits :: "int \<Rightarrow> int" where
  "tachiWholeTokensToRawUnits amount = amount * tachiTokenRawUnit"

definition TrimPrefix :: "string \<Rightarrow> string \<Rightarrow> string" where
  "TrimPrefix s p = (if HasPrefix s p then drop (length p) s else s)"

definition parseSignerKey :: "EthLib \<Rightarrow> string \<Rightarrow> err + nat" where
  "parseSignerKey eth rawKey =
     (case HexToECDSA eth (TrimPrefix rawKey ''0x'') of
        Inl e \<Rightarrow> Inl (Wrap e (''parse signer key: '' @ errText e))
      | Inr k \<Rightarrow> Inr k)"

text \<open>\<open>ClaimService\<close> is its own \<open>MintCaller\<close>.\<close>

definition svcMintBroadcastOnChain :: "ClaimService \<Rightarrow> string \<Rightarrow> int \<Rightarrow> nat \<Rightarrow> err + string" where
  "svcMintBroadcastOnChain s toAddr amount at =
     (case CS_tachiToken s of
        None \<Rightarrow> Inl (ClaimE ErrClaimContractConfig)
      | Some token \<Rightarrow>
          if \<not> IsHexAddress (CS_eth s) toAddr then Inl (Errorf (''invalid wallet address: '' @ toAddr))
          else if amount \<le> 0 then Inl (ClaimE ErrClaimAmountInvalid)
          else
            (case parseSignerKey (CS_eth s) (CS_signerKey s) of
               Inl e \<Rightarrow> Inl e
             | Inr signerKey \<Rightarrow>
                 MintBroadcast token at (HexToAddress (CS_eth s) toAddr)
                   (tachiWholeTokensToRawUnits amount) signerKey))"

definition svcWaitMintReceiptOnChain :: "ClaimService \<Rightarrow> string \<Rightarrow> nat \<Rightarrow> err + unit" where
  "svcWaitMintReceiptOnChain s txHash at =
     (case CS_tachiToken s of
        None \<Rightarrow> Inl (ClaimE ErrClaimContractConfig)
      | Some token \<Rightarrow> WaitMintReceipt token txHash at)"

definition svcMintCaller :: "ClaimService \<Rightarrow> MintCaller" where
  "svcMintCaller s = \<lparr>MintBroadcastOnChain = svcMintBroadcastOnChain s,
     WaitMintReceiptOnChain = svcWaitMintReceiptOnChain s\<rparr>"

definition MintOnChain :: "ClaimService \<Rightarrow> string \<Rightarrow> int \<Rightarrow> nat \<Rightarrow> string \<times> err option" where
  "MintOnChain s toAddr amount at =
     (case svcMintBroadcastOnChain s toAddr amount at of
        Inl e \<Rightarrow> ([], Some e)
      | Inr txHash \<Rightarrow>
          (case svcWaitMintReceiptOnChain s txHash (Suc at) of
             Inl e \<Rightarrow> (txHash, Some e)
           | Inr _ \<Rightarrow> (txHash, None)))"

text \<open>
  The oldest linked wallet of a user. \<open>notLinked\<close> is the error of the service that asks;
  \<^verbatim>\<open>spend_service.go\<close> has the same method.
\<close>

definition web3_provider :: "uuid \<Rightarrow> db \<Rightarrow> AuthProvider option" where
  "web3_provider uid d =
     (case order_asc2 AP_CreatedAt AP_ID (filter (\<lambda>p. AP_UserID p = uid \<and>
        AP_Provider p = ProviderWeb3 \<and> AP_DeletedAt p = None) (t_auth_providers d)) of
        [] \<Rightarrow> None | p # _ \<Rightarrow> Some p)"

definition resolveWalletAddress :: "EthLib \<Rightarrow> err \<Rightarrow> uuid \<Rightarrow> string m" where
  "resolveWalletAddress eth notLinked uid =
     bnd (orElse (query (web3_provider uid)) notLinked) (\<lambda>authProvider.
     if \<not> IsHexAddress eth (AP_ProviderID authProvider)
     then fail (Errorf (''invalid linked wallet address: '' @ AP_ProviderID authProvider))
     else ret (AddressHex eth (HexToAddress eth (AP_ProviderID authProvider))))"

section \<open>Balances\<close>

text \<open>
  \<^verbatim>\<open>tachi_balances.balance\<close> is \<^verbatim>\<open>numeric(20,6)\<close>, fourteen digits before the point; the
  services only write whole tokens.
\<close>

definition max_tachi :: int where
  "max_tachi = 100000000000000"

definition find_tachi :: "uuid \<Rightarrow> db \<Rightarrow> TachiBalance option" where
  "find_tachi uid d = find (\<lambda>b. TB_UserID b = uid) (t_tachi_balances d)"

definition loadTachiBalanceValue :: "uuid \<Rightarrow> int m" where
  "loadTachiBalanceValue uid =
     bnd (orElse (query (find_tachi uid)) RecordNotFound) (\<lambda>b. ret (TB_Balance b))"

definition GetTachiBalanceContext :: "uuid \<Rightarrow> int m" where
  "GetTachiBalanceContext uid =
     handle (loadTachiBalanceValue uid)
       (\<lambda>e. if errors_is e RecordNotFound then ret 0 else fail e) ret"

section \<open>Reserving points\<close>

record ClaimReservationItem =
  IT_ledgerID :: uuid
  IT_transactionID :: uuid
  IT_amount :: int

record ClaimReservation =
  RS_userID :: uuid
  RS_toAddr :: string
  RS_amount :: int
  RS_claimID :: uuid
  RS_items :: "ClaimReservationItem list"

text \<open>
  Constraints of \<^verbatim>\<open>claims\<close>: the primary key, the partial unique index on the transaction hash and
  the check on the amount; of \<^verbatim>\<open>claim_items\<close>: the primary key, one item per points transaction,
  the check on the amount.
\<close>

definition claim_conflict :: "Claim list \<Rightarrow> Claim \<Rightarrow> db_error option" where
  "claim_conflict rows c =
     (if CL_ID c \<in> CL_ID ` set rows \<or> CL_TxHash c \<noteq> None \<and> CL_TxHash c \<in> CL_TxHash ` set rows
      then Some ErrDuplicatedKey
      else if CL_Amount c \<le> 0 then Some (check_fails ''chk_claim_amount_gt_0'') else None)"

definition claims_check :: "Claim list \<Rightarrow> db_error option" where
  "claims_check rows = dup_if (\<not> distinct (filter (\<lambda>h. h \<noteq> None) (map CL_TxHash rows)))"

definition claim_item_conflict :: "ClaimItem list \<Rightarrow> ClaimItem \<Rightarrow> db_error option" where
  "claim_item_conflict rows i =
     (if CI_ID i \<in> CI_ID ` set rows \<or> CI_PointsTransactionID i \<in> CI_PointsTransactionID ` set rows
      then Some ErrDuplicatedKey
      else if CI_Amount i \<le> 0 then Some (check_fails ''chk_claim_item_amount_gt_0'') else None)"

definition set_ledger_balance :: "uuid \<Rightarrow> int \<Rightarrow> time \<Rightarrow> nat m" where
  "set_ledger_balance lid balance at =
     update_where t_points_ledgers t_points_ledgers_update no_check (\<lambda>l. PL_ID l = lid)
       (\<lambda>_ l. l\<lparr>PL_SpendableBalance := balance, PL_UpdatedAt := at\<rparr>)"

fun reserveLedgers :: "uuid \<Rightarrow> uuid \<Rightarrow> time \<Rightarrow> int \<Rightarrow> PointsLedger list \<Rightarrow> ClaimReservationItem list m" where
  "reserveLedgers claimID userID at remaining [] = ret []"
| "reserveLedgers claimID userID at remaining (ledger # ledgers) =
     (if remaining = 0 then ret []
      else
        let deduct = (if PL_SpendableBalance ledger > remaining then remaining
              else PL_SpendableBalance ledger);
            newLedgerBalance = i64 (PL_SpendableBalance ledger - deduct)
        in
        bnd (set_ledger_balance (PL_ID ledger) newLedgerBalance at) (\<lambda>_.
        bnd (create_ptx (\<lambda>t i. \<lparr>PT_ID = i, PT_LedgerID = PL_ID ledger, PT_WatchSessionID = None,
           PT_Source = TxSourceClaim, PT_Delta = i64 (- deduct), PT_BalanceAfter = newLedgerBalance,
           PT_SKU = None, PT_Note = None, PT_ExternalTransactionID = None, PT_CreatedAt = t\<rparr>)) (\<lambda>txRecord.
        bnd (insert_row t_claim_items t_claim_items_update claim_item_conflict
           (\<lambda>t i. \<lparr>CI_ID = i, CI_ClaimID = claimID, CI_ClaimUserID = userID, CI_LedgerID = PL_ID ledger,
              CI_PointsTransactionID = PT_ID txRecord, CI_Amount = deduct, CI_CreatedAt = t\<rparr>)) (\<lambda>_.
        bnd (reserveLedgers claimID userID at (i64 (remaining - deduct)) ledgers) (\<lambda>rest.
        ret (\<lparr>IT_ledgerID = PL_ID ledger, IT_transactionID = PT_ID txRecord, IT_amount = deduct\<rparr> # rest))))))"

definition reserveAmount :: "EthLib \<Rightarrow> uuid \<Rightarrow> int \<Rightarrow> PointsLedger list \<Rightarrow> ClaimReservation m" where
  "reserveAmount eth userID claimAmount ledgers =
     bnd (resolveWalletAddress eth (ClaimE ErrClaimWalletNotLinked) userID) (\<lambda>toAddr.
     bnd (insert_row t_claims t_claims_update claim_conflict
        (\<lambda>t i. \<lparr>CL_ID = i, CL_UserID = userID, CL_WalletAddr = toAddr, CL_Amount = claimAmount,
           CL_Status = ClaimStatusPending, CL_TxHash = None, CL_ErrorMessage = None,
           CL_BroadcastAt = None, CL_ConfirmedAt = None, CL_FailedAt = None,
           CL_FinalizeFailedAt = None, CL_CreatedAt = t, CL_UpdatedAt = t\<rparr>)) (\<lambda>claim.
     bnd now (\<lambda>t.
     bnd (reserveLedgers (CL_ID claim) userID t claimAmount ledgers) (\<lambda>items.
     ret \<lparr>RS_userID = userID, RS_toAddr = toAddr, RS_amount = claimAmount,
          RS_claimID = CL_ID claim, RS_items = items\<rparr>))))"

text \<open>The rows \<open>SELECT \<dots> FOR UPDATE\<close> returns: the ledgers with points, oldest first.\<close>

definition spendable_ledgers :: "uuid \<Rightarrow> db \<Rightarrow> PointsLedger list" where
  "spendable_ledgers userID d = order_asc2 PL_CreatedAt PL_ID
     (filter (\<lambda>l. PL_UserID l = userID \<and> PL_SpendableBalance l > 0) (t_points_ledgers d))"

definition reserveClaim :: "EthLib \<Rightarrow> uuid \<Rightarrow> int \<Rightarrow> ClaimReservation m" where
  "reserveClaim eth userID amount =
     bnd (query (spendable_ledgers userID)) (\<lambda>ledgers.
     let totalSpendable = foldl (\<lambda>t l. i64 (t + PL_SpendableBalance l)) 0 ledgers;
         claimAmount = (if amount = 0 then totalSpendable else amount)
     in
     if claimAmount \<le> 0 then fail (ClaimE ErrClaimAmountInvalid)
     else if totalSpendable < claimAmount then fail (ClaimE ErrClaimInsufficientBalance)
     else reserveAmount eth userID claimAmount ledgers)"

section \<open>Settling a claim\<close>

definition update_claim :: "ClaimReservation \<Rightarrow> (Claim \<Rightarrow> bool) \<Rightarrow> (Claim \<Rightarrow> Claim) \<Rightarrow> nat m" where
  "update_claim r P f = update_where t_claims t_claims_update claims_check
     (\<lambda>c. CL_ID c = RS_claimID r \<and> CL_UserID c = RS_userID r \<and> P c) (\<lambda>_. f)"

definition markClaimBroadcast :: "ClaimReservation \<Rightarrow> string \<Rightarrow> unit m" where
  "markClaimBroadcast r mintTxHash =
     bnd now (\<lambda>t.
     bnd (update_claim r (\<lambda>_. True) (\<lambda>c. c\<lparr>CL_Status := ClaimStatusBroadcast, CL_TxHash := Some mintTxHash,
        CL_BroadcastAt := Some t, CL_ErrorMessage := None, CL_UpdatedAt := t\<rparr>)) (\<lambda>_.
     ret ()))"

text \<open>Deleting a claim cascades to its items; \<open>uuid.Nil\<close> is 0.\<close>

definition delete_claim :: "uuid \<Rightarrow> unit m" where
  "delete_claim cid = stmt (\<lambda>_ _ d.
     Inr ((), d\<lparr>t_claims := filter (\<lambda>c. CL_ID c \<noteq> cid) (t_claims d),
                t_claim_items := filter (\<lambda>i. CI_ClaimID i \<noteq> cid) (t_claim_items d)\<rparr>))"

definition ledgers_in_range :: "PointsLedger list \<Rightarrow> db_error option" where
  "ledgers_in_range rows =
     (if list_ex (\<lambda>l. \<not> fits (PL_SpendableBalance l)) rows then Some out_of_range else None)"

fun restoreLedgers :: "time \<Rightarrow> ClaimReservationItem list \<Rightarrow> unit m" where
  "restoreLedgers at [] = ret ()"
| "restoreLedgers at (item # items) =
     bnd (update_where t_points_ledgers t_points_ledgers_update ledgers_in_range
            (\<lambda>l. PL_ID l = IT_ledgerID item)
            (\<lambda>_ l. l\<lparr>PL_SpendableBalance := PL_SpendableBalance l + IT_amount item, PL_UpdatedAt := at\<rparr>)) (\<lambda>_.
     bnd (delete_where t_points_transactions t_points_transactions_update
            (\<lambda>t. PT_ID t = IT_transactionID item)) (\<lambda>_.
     restoreLedgers at items))"

definition rollbackClaimReservation :: "ClaimReservation \<Rightarrow> unit m" where
  "rollbackClaimReservation r =
     seq (if RS_claimID r \<noteq> 0 then delete_claim (RS_claimID r) else ret ()) (
     bnd now (\<lambda>t.
     restoreLedgers t (RS_items r)))"

definition recordClaimReceiptUnknown :: "ClaimReservation \<Rightarrow> string \<Rightarrow> err \<Rightarrow> unit m" where
  "recordClaimReceiptUnknown r mintTxHash waitErr =
     bnd now (\<lambda>t.
     bnd (update_claim r (\<lambda>_. True) (\<lambda>c. c\<lparr>CL_Status := ClaimStatusBroadcast, CL_TxHash := Some mintTxHash,
        CL_ErrorMessage := Some (errText waitErr), CL_UpdatedAt := t\<rparr>)) (\<lambda>_.
     ret ()))"

fun compensateLedgers :: "uuid \<Rightarrow> time \<Rightarrow> ClaimReservationItem list \<Rightarrow> unit m" where
  "compensateLedgers claimID at [] = ret ()"
| "compensateLedgers claimID at (item # items) =
     bnd (orElse (query (\<lambda>d. find (\<lambda>l. PL_ID l = IT_ledgerID item) (t_points_ledgers d))) RecordNotFound) (\<lambda>ledger.
     let balanceAfter = i64 (PL_SpendableBalance ledger + IT_amount item) in
     bnd (set_ledger_balance (PL_ID ledger) balanceAfter at) (\<lambda>_.
     bnd (create_ptx (\<lambda>t i. \<lparr>PT_ID = i, PT_LedgerID = IT_ledgerID item, PT_WatchSessionID = None,
        PT_Source = TxSourceClaim, PT_Delta = IT_amount item, PT_BalanceAfter = balanceAfter,
        PT_SKU = None, PT_Note = Some (''claim failed compensation for claim '' @ uuidText claimID),
        PT_ExternalTransactionID = None, PT_CreatedAt = t\<rparr>)) (\<lambda>_.
     compensateLedgers claimID at items)))"

definition markClaimFailedAndCompensate :: "ClaimReservation \<Rightarrow> string \<Rightarrow> err \<Rightarrow> unit m" where
  "markClaimFailedAndCompensate r mintTxHash mintErr =
     bnd now (\<lambda>t.
     bnd (update_claim r (\<lambda>_. True) (\<lambda>c. c\<lparr>CL_Status := ClaimStatusFailed, CL_TxHash := Some mintTxHash,
        CL_ErrorMessage := Some (errText mintErr), CL_FailedAt := Some t, CL_UpdatedAt := t\<rparr>)) (\<lambda>_.
     compensateLedgers (RS_claimID r) t (RS_items r)))"

fun claimStatusText :: "ClaimStatus \<Rightarrow> string" where
  "claimStatusText ClaimStatusPending = ''pending''"
| "claimStatusText ClaimStatusBroadcast = ''broadcast''"
| "claimStatusText ClaimStatusConfirmed = ''confirmed''"
| "claimStatusText ClaimStatusFailed = ''failed''"
| "claimStatusText ClaimStatusFinalizeFailed = ''finalize_failed''"

text \<open>The condition under which a claim may be settled: it was broadcast, under this hash if any.\<close>

definition settleable :: "string \<Rightarrow> Claim \<Rightarrow> bool" where
  "settleable mintTxHash c \<longleftrightarrow>
     (CL_Status c = ClaimStatusBroadcast \<or> CL_Status c = ClaimStatusFinalizeFailed) \<and>
     (mintTxHash \<noteq> [] \<longrightarrow> CL_TxHash c = None \<or> CL_TxHash c = Some mintTxHash)"

definition find_claim :: "ClaimReservation \<Rightarrow> db \<Rightarrow> Claim option" where
  "find_claim r d = find (\<lambda>c. CL_ID c = RS_claimID r \<and> CL_UserID c = RS_userID r) (t_claims d)"

definition hash_mismatch :: "string \<Rightarrow> Claim \<Rightarrow> bool" where
  "hash_mismatch mintTxHash c \<longleftrightarrow> mintTxHash \<noteq> [] \<and> CL_TxHash c \<noteq> None \<and> CL_TxHash c \<noteq> Some mintTxHash"

definition markFinalizeFailedClaim :: "ClaimReservation \<Rightarrow> string \<Rightarrow> err \<Rightarrow> unit m" where
  "markFinalizeFailedClaim r mintTxHash finalizeErr =
     bnd now (\<lambda>t.
     bnd (update_claim r (settleable mintTxHash) (\<lambda>c. c\<lparr>CL_Status := ClaimStatusFinalizeFailed,
        CL_ErrorMessage := Some (errText finalizeErr), CL_FinalizeFailedAt := Some t, CL_UpdatedAt := t,
        CL_TxHash := (if mintTxHash \<noteq> [] then Some mintTxHash else CL_TxHash c)\<rparr>)) (\<lambda>rowsAffected.
     if rowsAffected = 0 then
       handle (orElse (query (find_claim r)) RecordNotFound)
         (\<lambda>e. fail (Wrap e (''markFinalizeFailedClaim: load claim after skipped mark: '' @ errText e)))
         (\<lambda>existing.
         if hash_mismatch mintTxHash existing
         then fail (Errorf (''markFinalizeFailedClaim: tx_hash mismatch existing='' @
           the (CL_TxHash existing) @ '' retry='' @ mintTxHash))
         else if CL_Status existing = ClaimStatusConfirmed then ret ()
         else fail (Errorf (''markFinalizeFailedClaim: invalid claim status '' @
           claimStatusText (CL_Status existing))))
     else ret ()))"

definition upsert_tachi :: "uuid \<Rightarrow> uuid \<Rightarrow> int \<Rightarrow> time \<Rightarrow> unit m" where
  "upsert_tachi i uid amount at = stmt (\<lambda>_ _ d.
     case find_tachi uid d of
       Some b \<Rightarrow>
         if \<bar>TB_Balance b + amount\<bar> \<ge> max_tachi then Inl (PgError ''22003'' [] ''numeric field overflow'')
         else if TB_Balance b + amount < 0 then Inl (check_fails ''chk_tachi_balance_gte_0'')
         else Inr ((), d\<lparr>t_tachi_balances := update_rows (\<lambda>b. TB_UserID b = uid)
                (\<lambda>b. b\<lparr>TB_Balance := TB_Balance b + amount, TB_UpdatedAt := at\<rparr>) (t_tachi_balances d)\<rparr>)
     | None \<Rightarrow>
         if \<bar>amount\<bar> \<ge> max_tachi then Inl (PgError ''22003'' [] ''numeric field overflow'')
         else if amount < 0 then Inl (check_fails ''chk_tachi_balance_gte_0'')
         else if i \<in> TB_ID ` set (t_tachi_balances d) then Inl ErrDuplicatedKey
         else Inr ((), d\<lparr>t_tachi_balances := t_tachi_balances d @
                [\<lparr>TB_ID = i, TB_UserID = uid, TB_Balance = amount, TB_UpdatedAt = at\<rparr>]\<rparr>))"

text \<open>No row was updated: only a claim that is confirmed already has a result.\<close>

definition finalizeSkipped :: "ClaimReservation \<Rightarrow> string \<Rightarrow> int m" where
  "finalizeSkipped r mintTxHash =
     handle (orElse (query (find_claim r)) RecordNotFound)
       (\<lambda>e. fail (Wrap e (''finalizeClaim: load claim after skipped finalize: '' @ errText e)))
       (\<lambda>existing.
       if hash_mismatch mintTxHash existing
       then fail (Errorf (''finalizeClaim: tx_hash mismatch existing='' @
         the (CL_TxHash existing) @ '' retry='' @ mintTxHash))
       else if CL_Status existing = ClaimStatusConfirmed then
         handle (loadTachiBalanceValue (RS_userID r))
           (\<lambda>e. fail (Wrap e (''finalizeClaim: confirmed claim missing tachi balance: '' @ errText e)))
           ret
       else fail (Errorf (''finalizeClaim: invalid claim status '' @ claimStatusText (CL_Status existing))))"

definition creditTachi :: "ClaimReservation \<Rightarrow> time \<Rightarrow> int m" where
  "creditTachi r t =
     bnd newUUID (\<lambda>i.
     seq (upsert_tachi i (RS_userID r) (RS_amount r) t)
         (loadTachiBalanceValue (RS_userID r)))"

definition finalizeClaim :: "ClaimReservation \<Rightarrow> string \<Rightarrow> int m" where
  "finalizeClaim r mintTxHash =
     bnd now (\<lambda>t.
     bnd (update_claim r (settleable mintTxHash) (\<lambda>c. c\<lparr>CL_Status := ClaimStatusConfirmed,
        CL_ConfirmedAt := Some t, CL_ErrorMessage := None, CL_UpdatedAt := t,
        CL_TxHash := (if mintTxHash \<noteq> [] then Some mintTxHash else CL_TxHash c)\<rparr>)) (\<lambda>rowsAffected.
     if rowsAffected = 0 then finalizeSkipped r mintTxHash else creditTachi r t))"

section \<open>The claim\<close>

text \<open>After a successful broadcast: record it, wait for the receipt, settle.\<close>

definition settleClaim :: "MintCaller \<Rightarrow> ClaimReservation \<Rightarrow> string \<Rightarrow> int m" where
  "settleClaim caller r mintTxHash =
     handle (external (WaitMintReceiptOnChain caller mintTxHash))
       (\<lambda>err.
        if errors_is err (ClaimE ErrMintReceiptStatusFailed) then
          handle (transaction (markClaimFailedAndCompensate r mintTxHash err))
            (\<lambda>failedErr. fail (Wrap err (errText err @ ''; mark claim failed: '' @ errText failedErr)))
            (\<lambda>_. fail err)
        else
          handle (transaction (recordClaimReceiptUnknown r mintTxHash err))
            (\<lambda>recordErr. fail (Wrap err (errText err @ ''; record claim receipt unknown: '' @ errText recordErr)))
            (\<lambda>_. fail err))
       (\<lambda>_.
        handle (transaction (finalizeClaim r mintTxHash))
          (\<lambda>finalizeErr.
           handle (transaction (markFinalizeFailedClaim r mintTxHash finalizeErr))
             (\<lambda>markErr. fail (Wrap finalizeErr (errText finalizeErr @ ''; mark finalize failed: '' @ errText markErr)))
             (\<lambda>_. fail finalizeErr))
          ret)"

definition Claim :: "EthLib \<Rightarrow> MintCaller \<Rightarrow> uuid \<Rightarrow> int \<Rightarrow> int m" where
  "Claim eth caller userID amount =
     bnd (transaction (reserveClaim eth userID amount)) (\<lambda>reservation.
     handle (external (MintBroadcastOnChain caller (RS_toAddr reservation) (RS_amount reservation)))
       (\<lambda>err.
        handle (transaction (rollbackClaimReservation reservation))
          (\<lambda>rollbackErr. fail (Wrap err (errText err @ ''; rollback claim reservation: '' @ errText rollbackErr)))
          (\<lambda>_. fail err))
       (\<lambda>mintTxHash.
        handle (transaction (markClaimBroadcast reservation mintTxHash))
          (\<lambda>err. fail (Wrap err (''record claim broadcast failed: claim_id='' @ uuidText (RS_claimID reservation) @
             '' user_id='' @ uuidText (RS_userID reservation) @ '' tx_hash='' @ mintTxHash @ '': '' @ errText err)))
          (\<lambda>_. settleClaim caller reservation mintTxHash)))"

section \<open>Posting to a ledger by its key\<close>

definition ledger_keys :: "db \<Rightarrow> (uuid \<times> uuid \<times> string \<times> int) list" where
  "ledger_keys d = map (\<lambda>l. (PL_ID l, PL_UserID l, PL_ChannelID l, PL_CumulativeTotal l)) (t_points_ledgers d)"

lemma user_spendable_eq:
  "user_spendable d v = sum_list (map (\<lambda>l. if PL_UserID l = v then PL_SpendableBalance l else 0) (t_points_ledgers d))"
proof -
  have "sum_list (map PL_SpendableBalance (filter (\<lambda>l. PL_UserID l = v) ls)) =
    sum_list (map (\<lambda>l. if PL_UserID l = v then PL_SpendableBalance l else 0) ls)" for ls
    by (induction ls) auto
  then show ?thesis by (simp add: user_spendable_def)
qed

lemma user_spendable_update_ledger:
  assumes ok: "ledger_ok d" and l: "l \<in> set (t_points_ledgers d)"
    and f: "\<And>x. PL_UserID (f x) = PL_UserID x"
    and d': "t_points_ledgers d' = update_rows (\<lambda>x. PL_ID x = PL_ID l) f (t_points_ledgers d)"
  shows "user_spendable d' v = user_spendable d v +
    (if PL_UserID l = v then PL_SpendableBalance (f l) - PL_SpendableBalance l else 0)"
proof -
  have "filter (\<lambda>x. PL_ID x = PL_ID l) (t_points_ledgers d) = [l]"
    using ok l by (intro filter_unique) (auto simp: ledger_ok_def ledgers_ok_def)
  then show ?thesis
    by (simp add: user_spendable_eq d' sum_update_rows f)
qed

lemma ledger_keys_update:
  assumes "\<And>x. PL_ID (f x) = PL_ID x" "\<And>x. PL_UserID (f x) = PL_UserID x"
    "\<And>x. PL_ChannelID (f x) = PL_ChannelID x" "\<And>x. PL_CumulativeTotal (f x) = PL_CumulativeTotal x"
    and "t_points_ledgers d' = update_rows P f (t_points_ledgers d)"
  shows "ledger_keys d' = ledger_keys d"
  unfolding ledger_keys_def assms(5) by (rule map_update_rows) (simp add: assms)

text \<open>One ledger gets the balance \<open>b\<close> and the log an entry for the difference.\<close>

lemma adjust_step:
  assumes ok: "ledger_ok d" and l: "l \<in> set (t_points_ledgers d)" and b: "0 \<le> b" "fits b"
    and t: "PT_LedgerID t = PL_ID l" "PT_Delta t = b - PL_SpendableBalance l"
      "PT_ID t \<notin> PT_ID ` set (t_points_transactions d)"
    and d': "t_points_ledgers d' = update_rows (\<lambda>x. PL_ID x = PL_ID l)
        (\<lambda>x. x\<lparr>PL_SpendableBalance := b, PL_UpdatedAt := at\<rparr>) (t_points_ledgers d)"
      "t_points_transactions d' = t_points_transactions d @ [t]"
  shows "ledger_ok d'" and "ledger_keys d' = ledger_keys d"
    and "user_spendable d' v = user_spendable d v + (if PL_UserID l = v then b - PL_SpendableBalance l else 0)"
proof -
  show "ledger_ok d'"
    by (rule ledger_ok_post [OF ok l t(1,3) _ _ _ _ _ _ _ _ d']) (use b t ledger_bounds [OF ok l] in auto)
  show "ledger_keys d' = ledger_keys d" by (rule ledger_keys_update [OF _ _ _ _ d'(1)]) simp_all
  show "user_spendable d' v = user_spendable d v + (if PL_UserID l = v then b - PL_SpendableBalance l else 0)"
    by (subst user_spendable_update_ledger [OF ok l _ d'(1)]) simp_all
qed

text \<open>The inverse: a log entry is deleted and its ledger gets the difference back.\<close>

lemma deltas_remove:
  assumes "distinct (map PT_ID ts)" and "t \<in> set ts"
  shows "deltas (filter (\<lambda>x. PT_ID x \<noteq> PT_ID t) ts) lid =
    deltas ts lid - (if PT_LedgerID t = lid then PT_Delta t else 0)"
proof -
  have "filter (\<lambda>x. PT_ID x = PT_ID t) ts = [t]" using assms by (intro filter_unique) auto
  then have "sum_list (map (\<lambda>x. if PT_LedgerID x = lid then PT_Delta x else 0) ts) =
      (if PT_LedgerID t = lid then PT_Delta t else 0) +
      sum_list (map (\<lambda>x. if PT_LedgerID x = lid then PT_Delta x else 0) (filter (\<lambda>x. PT_ID x \<noteq> PT_ID t) ts))"
    using sum_list_map_filter_split [of _ ts "\<lambda>x. PT_ID x = PT_ID t"] by simp
  moreover have "deltas us lid = sum_list (map (\<lambda>x. if PT_LedgerID x = lid then PT_Delta x else 0) us)" for us
    by (induction us) (auto simp: deltas_def)
  ultimately show ?thesis by simp
qed

lemma unpost_step:
  assumes ok: "ledger_ok d" and l: "l \<in> set (t_points_ledgers d)" and t: "t \<in> set (t_points_transactions d)"
    "PT_LedgerID t = PL_ID l" "PT_Delta t = - a" and a: "0 \<le> a" "fits (PL_SpendableBalance l + a)"
    and d': "t_points_ledgers d' = update_rows (\<lambda>x. PL_ID x = PL_ID l)
        (\<lambda>x. x\<lparr>PL_SpendableBalance := PL_SpendableBalance x + a, PL_UpdatedAt := at\<rparr>) (t_points_ledgers d)"
      "t_points_transactions d' = filter (\<lambda>x. PT_ID x \<noteq> PT_ID t) (t_points_transactions d)"
  shows "ledger_ok d'" and "ledger_keys d' = ledger_keys d"
    and "user_spendable d' v = user_spendable d v + (if PL_UserID l = v then a else 0)"
proof -
  let ?f = "\<lambda>x. x\<lparr>PL_SpendableBalance := PL_SpendableBalance x + a, PL_UpdatedAt := at\<rparr>"
  let ?P = "\<lambda>x. PL_ID x = PL_ID l"
  let ?ls = "t_points_ledgers d" and ?ts = "t_points_transactions d"
  have oks: "ledgers_ok ?ls ?ts" using ok by (simp add: ledger_ok_def)
  then have dt: "distinct (map PT_ID ?ts)" by (simp add: ledgers_ok_def)
  note rem = deltas_remove [OF dt t(1)]
  have same: "map PL_ID (update_rows ?P ?f ?ls) = map PL_ID ?ls"
    "map (\<lambda>l. (PL_UserID l, PL_ChannelID l)) (update_rows ?P ?f ?ls) = map (\<lambda>l. (PL_UserID l, PL_ChannelID l)) ?ls"
    by (simp_all add: map_update_rows)
  show "ledger_ok d'"
    unfolding ledger_ok_def ledgers_ok_def d'
  proof (intro conjI ballI)
    fix x assume "x \<in> set (update_rows ?P ?f ?ls)"
    then obtain y where y: "y \<in> set ?ls" "x = (if PL_ID y = PL_ID l then ?f y else y)"
      by (auto simp: set_update_rows)
    have "y = l" if "PL_ID y = PL_ID l" using ledger_unique [OF oks y(1) l that] .
    then show "0 \<le> PL_SpendableBalance x" "fits (PL_SpendableBalance x)" "fits (PL_CumulativeTotal x)"
      "PL_SpendableBalance x = deltas (filter (\<lambda>x. PT_ID x \<noteq> PT_ID t) ?ts) (PL_ID x)"
      using y oks a t(2,3) by (auto simp: ledgers_ok_def rem)
  next
    have "PL_ID ` set (update_rows ?P ?f ?ls) = PL_ID ` set ?ls"
      using arg_cong [OF same(1), of set] by simp
    then show "PT_LedgerID ` set (filter (\<lambda>x. PT_ID x \<noteq> PT_ID t) ?ts) \<subseteq> PL_ID ` set (update_rows ?P ?f ?ls)"
      using oks by (auto simp: ledgers_ok_def)
  qed (use oks same in \<open>auto simp: ledgers_ok_def distinct_map_filter\<close>)
  show "ledger_keys d' = ledger_keys d" by (rule ledger_keys_update [OF _ _ _ _ d'(1)]) simp_all
  show "user_spendable d' v = user_spendable d v + (if PL_UserID l = v then a else 0)"
    by (subst user_spendable_update_ledger [OF ok l _ d'(1)]) simp_all
qed

end
