(* ===== verification/Sha256.thy ===== *)
theory Sha256
  imports Store "HOL-Library.Word"
begin

text \<open>
  \<^verbatim>\<open>crypto/sha256\<close> and \<^verbatim>\<open>encoding/hex\<close> of the Go library, which the services use to keep only
  digests of their secrets: the claim token of a raffle, refresh tokens, the tokens of the
  verification and reset mails. Words are 32 bits wide, addition wraps.
\<close>

unbundle bit_operations_syntax

section \<open>SHA-256\<close>

type_synonym w32 = "32 word"

definition rotr :: "nat \<Rightarrow> w32 \<Rightarrow> w32" where
  "rotr n x = drop_bit n x OR push_bit (32 - n) x"

definition big_sigma0 :: "w32 \<Rightarrow> w32" where
  "big_sigma0 x = rotr 2 x XOR rotr 13 x XOR rotr 22 x"

definition big_sigma1 :: "w32 \<Rightarrow> w32" where
  "big_sigma1 x = rotr 6 x XOR rotr 11 x XOR rotr 25 x"

definition small_sigma0 :: "w32 \<Rightarrow> w32" where
  "small_sigma0 x = rotr 7 x XOR rotr 18 x XOR drop_bit 3 x"

definition small_sigma1 :: "w32 \<Rightarrow> w32" where
  "small_sigma1 x = rotr 17 x XOR rotr 19 x XOR drop_bit 10 x"

definition choose_bits :: "w32 \<Rightarrow> w32 \<Rightarrow> w32 \<Rightarrow> w32" where
  "choose_bits x y z = (x AND y) XOR (NOT x AND z)"

definition majority :: "w32 \<Rightarrow> w32 \<Rightarrow> w32 \<Rightarrow> w32" where
  "majority x y z = (x AND y) XOR (x AND z) XOR (y AND z)"

text \<open>
  The constants of the algorithm: the first 32 bits of the fractional parts of the square and
  cube roots of the first primes. \<open>root_bits k b acc n\<close> adds to \<open>acc\<close> the bits below \<open>2 ^ b\<close> of the
  integer \<open>k\<close>-th root of \<open>n\<close>.
\<close>

primrec root_bits :: "nat \<Rightarrow> nat \<Rightarrow> int \<Rightarrow> int \<Rightarrow> int" where
  "root_bits k 0 acc n = acc"
| "root_bits k (Suc b) acc n = root_bits k b (if (acc + 2 ^ b) ^ k \<le> n then acc + 2 ^ b else acc) n"

definition small_primes :: "int list" where
  "small_primes = filter (\<lambda>n. list_all (\<lambda>d. n mod d \<noteq> 0) [2..n - 1]) [2..311]"

definition frac_root :: "nat \<Rightarrow> int \<Rightarrow> w32" where
  "frac_root k p = of_int (root_bits k 38 0 (p * 2 ^ (32 * k)))"

definition round_constants :: "w32 list" where
  "round_constants = map (frac_root 3) small_primes"

type_synonym sha_state = "w32 \<times> w32 \<times> w32 \<times> w32 \<times> w32 \<times> w32 \<times> w32 \<times> w32"

definition initial_state :: sha_state where
  "initial_state = (case map (frac_root 2) (take 8 small_primes) of
     [a, b, c, d, e, f, g, h] \<Rightarrow> (a, b, c, d, e, f, g, h) | _ \<Rightarrow> (0, 0, 0, 0, 0, 0, 0, 0))"

text \<open>The message schedule, newest word first.\<close>

primrec expand_schedule :: "nat \<Rightarrow> w32 list \<Rightarrow> w32 list" where
  "expand_schedule 0 ws = ws"
| "expand_schedule (Suc n) ws = expand_schedule n
     ((small_sigma1 (ws ! 1) + ws ! 6 + small_sigma0 (ws ! 14) + ws ! 15) # ws)"

definition sha_round :: "sha_state \<Rightarrow> w32 \<times> w32 \<Rightarrow> sha_state" where
  "sha_round st kw = (case (st, kw) of ((a, b, c, d, e, f, g, h), (k, w)) \<Rightarrow>
     let t1 = h + big_sigma1 e + choose_bits e f g + k + w;
         t2 = big_sigma0 a + majority a b c
     in (t1 + t2, a, b, c, d + t1, e, f, g))"

definition add_states :: "sha_state \<Rightarrow> sha_state \<Rightarrow> sha_state" where
  "add_states st st' = (case (st, st') of ((a, b, c, d, e, f, g, h), (a', b', c', d', e', f', g', h')) \<Rightarrow>
     (a + a', b + b', c + c', d + d', e + e', f + f', g + g', h + h'))"

definition sha_block :: "sha_state \<Rightarrow> w32 list \<Rightarrow> sha_state" where
  "sha_block st block = add_states st
     (foldl sha_round st (zip round_constants (rev (expand_schedule 48 (rev block)))))"

definition be_word :: "nat list \<Rightarrow> w32" where
  "be_word bs = foldl (\<lambda>w b. push_bit 8 w OR of_nat b) 0 bs"

function be_words :: "nat list \<Rightarrow> w32 list" where
  "be_words bs = (if bs = [] then [] else be_word (take 4 bs) # be_words (drop 4 bs))"
  by pat_completeness auto
termination by (relation "measure length") auto

declare be_words.simps [simp del]

primrec be_bytes :: "nat \<Rightarrow> nat \<Rightarrow> nat list" where
  "be_bytes 0 n = []"
| "be_bytes (Suc k) n = be_bytes k (n div 256) @ [n mod 256]"

definition sha_pad :: "nat list \<Rightarrow> nat list" where
  "sha_pad bs = bs @ [128] @ replicate (nat ((55 - int (length bs)) mod 64)) 0 @ be_bytes 8 (8 * length bs)"

function sha_blocks :: "sha_state \<Rightarrow> w32 list \<Rightarrow> sha_state" where
  "sha_blocks st ws = (if ws = [] then st else sha_blocks (sha_block st (take 16 ws)) (drop 16 ws))"
  by pat_completeness auto
termination by (relation "measure (\<lambda>(st, ws). length ws)") auto

declare sha_blocks.simps [simp del]

definition Sum256 :: "string \<Rightarrow> w32 list" where
  "Sum256 s = (case sha_blocks initial_state (be_words (sha_pad (map of_char s))) of
     (a, b, c, d, e, f, g, h) \<Rightarrow> [a, b, c, d, e, f, g, h])"

primrec hexWord :: "nat \<Rightarrow> w32 \<Rightarrow> string" where
  "hexWord 0 w = []"
| "hexWord (Suc k) w = hexDigits 1 (unat (drop_bit (4 * k) w AND 15)) @ hexWord k w"

definition sha256_hex :: "string \<Rightarrow> string" where
  "sha256_hex s = concat (map (hexWord 8) (Sum256 s))"

section \<open>The digest\<close>

lemma length_hexDigits [simp]: "length (hexDigits k n) = k"
  by (induction k arbitrary: n) auto

lemma length_hexWord [simp]: "length (hexWord k w) = k"
  by (induction k) auto


lemma length_sha256_hex [simp]: "length (sha256_hex s) = 64"
proof -
  obtain a b c d e f g h where "Sum256 s = [a, b, c, d, e, f, g, h]"
    unfolding Sum256_def by (cases "sha_blocks initial_state (be_words (sha_pad (map of_char s)))") (auto simp only: prod.case)
  then show ?thesis by (simp add: sha256_hex_def del: hexWord.simps)
qed
end
