(* ===== verification/GoText.thy ===== *)
theory GoText
  imports Schema
begin

text \<open>
  The text functions of the Go library that the raffles use on uploaded files and on error
  messages: \<open>strings.TrimSpace\<close> and the reader of \<^verbatim>\<open>encoding/csv\<close> with
  \<open>FieldsPerRecord = -1\<close>. Strings are bytes; white space outside ASCII is recognised by its
  UTF-8 encoding.
\<close>

section \<open>White space\<close>

definition byte :: "nat \<Rightarrow> char" where
  "byte n = char_of n"

definition ascii_space :: "char \<Rightarrow> bool" where
  "ascii_space c \<longleftrightarrow> cont 9 13 c \<or> c = CHR '' ''"

text \<open>The two and three byte encodings of white space (\<open>unicode.IsSpace\<close>).\<close>

definition space2 :: "char \<Rightarrow> char \<Rightarrow> bool" where
  "space2 a b \<longleftrightarrow> a = byte 194 \<and> (b = byte 133 \<or> b = byte 160)"

definition space3 :: "char \<Rightarrow> char \<Rightarrow> char \<Rightarrow> bool" where
  "space3 a b c \<longleftrightarrow>
     a = byte 225 \<and> b = byte 154 \<and> c = byte 128 \<or>
     a = byte 226 \<and> b = byte 128 \<and> (cont 128 138 c \<or> c = byte 168 \<or> c = byte 169 \<or> c = byte 175) \<or>
     a = byte 226 \<and> b = byte 129 \<and> c = byte 159 \<or>
     a = byte 227 \<and> b = byte 128 \<and> c = byte 128"

definition leading_space :: "string \<Rightarrow> nat" where
  "leading_space s = (case s of
     [] \<Rightarrow> 0
   | a # r \<Rightarrow>
       if ascii_space a then 1
       else (case r of
           [] \<Rightarrow> 0
         | b # q \<Rightarrow>
             if space2 a b then 2
             else (case q of [] \<Rightarrow> 0 | c # _ \<Rightarrow> if space3 a b c then 3 else 0)))"

definition trailing_space :: "string \<Rightarrow> nat" where
  "trailing_space rs = (case rs of
     [] \<Rightarrow> 0
   | a # r \<Rightarrow>
       if ascii_space a then 1
       else (case r of
           [] \<Rightarrow> 0
         | b # q \<Rightarrow>
             if space2 b a then 2
             else (case q of [] \<Rightarrow> 0 | c # _ \<Rightarrow> if space3 c b a then 3 else 0)))"

function strip_front :: "(string \<Rightarrow> nat) \<Rightarrow> string \<Rightarrow> string" where
  "strip_front f s = (if f s = 0 \<or> s = [] then s else strip_front f (drop (f s) s))"
  by pat_completeness auto
termination by (relation "measure (\<lambda>(f, s). length s)") auto

declare strip_front.simps [simp del]

definition TrimSpace :: "string \<Rightarrow> string" where
  "TrimSpace s = rev (strip_front trailing_space (rev (strip_front leading_space s)))"

lemma strip_front_suffix: "\<exists>n. strip_front f s = drop n s"
proof (induction f s rule: strip_front.induct)
  case (1 f s)
  show ?case
  proof (cases "f s = 0 \<or> s = []")
    case True
    then show ?thesis by (subst strip_front.simps) (auto intro: exI [of _ 0])
  next
    case False
    with 1 obtain n where "strip_front f (drop (f s) s) = drop n (drop (f s) s)" by blast
    with False show ?thesis by (subst strip_front.simps) (auto simp: drop_drop)
  qed
qed

lemma strip_front_zero: "strip_front f s \<noteq> [] \<Longrightarrow> f (strip_front f s) = 0"
proof (induction f s rule: strip_front.induct)
  case (1 f s)
  then show ?case by (cases "f s = 0 \<or> s = []") (subst (asm) strip_front.simps, subst strip_front.simps, auto)+
qed

section \<open>Reading CSV\<close>

datatype csv_error = ErrBareQuote | ErrQuote

fun csv_error_text :: "csv_error \<Rightarrow> string" where
  "csv_error_text ErrBareQuote = ''bare \" in non-quoted field''"
| "csv_error_text ErrQuote = ''extraneous or missing \" in quoted-field''"

text \<open>
  \<open>readLine\<close>: the lines of the input with their newline, \<^verbatim>\<open>\r\n\<close> read as a newline, a carriage return
  before the end of the input dropped.
\<close>

fun csv_lines :: "string \<Rightarrow> string list" where
  "csv_lines [] = []"
| "csv_lines [c] = (if c = CHR 0x0D then [] else [[c]])"
| "csv_lines (c # d # s) =
     (if c = CHR 0x0A then [c] # csv_lines (d # s)
      else if c = CHR 0x0D \<and> d = CHR 0x0A then [d] # csv_lines s
      else (case csv_lines (d # s) of [] \<Rightarrow> [[c]] | l # ls \<Rightarrow> (c # l) # ls))"

definition drop_newline :: "string \<Rightarrow> string" where
  "drop_newline s = (if s \<noteq> [] \<and> last s = CHR 0x0A then butlast s else s)"

text \<open>A quoted field: its text, the rest of its line if a comma follows, and the lines left.\<close>

fun csv_quoted :: "string \<Rightarrow> string list \<Rightarrow> csv_error + string \<times> string option \<times> string list" where
  "csv_quoted [] [] = Inl ErrQuote"
| "csv_quoted [] (l # ls) = csv_quoted l ls"
| "csv_quoted (c # cs) ls =
     (if c \<noteq> CHR 0x22 then
        (case csv_quoted cs ls of Inl e \<Rightarrow> Inl e | Inr (f, r) \<Rightarrow> Inr (c # f, r))
      else
        (case cs of
           [] \<Rightarrow> Inr ([], None, ls)
         | d # cs' \<Rightarrow>
             if d = CHR 0x22 then (case csv_quoted cs' ls of Inl e \<Rightarrow> Inl e | Inr (f, r) \<Rightarrow> Inr (d # f, r))
             else if d = CHR '','' then Inr ([], Some cs', ls)
             else if d = CHR 0x0A \<and> cs' = [] then Inr ([], None, ls)
             else Inl ErrQuote))"

lemma csv_quoted_shorter:
  "csv_quoted cs ls = Inr (f, r, ls') \<Longrightarrow>
    (case r of None \<Rightarrow> 0 | Some cs' \<Rightarrow> length cs') + length (concat ls') \<le> length cs + length (concat ls) \<and>
    length ls' \<le> length ls"
proof (induction cs ls arbitrary: f r ls' rule: csv_quoted.induct)
  case (3 c cs ls)
  show ?case
  proof (cases "c = CHR 0x22")
    case True
    show ?thesis
    proof (cases cs)
      case Nil
      with True 3(3) show ?thesis by auto
    next
      case (Cons d cs')
      with True 3 show ?thesis by (fastforce split: if_splits sum.splits)
    qed
  next
    case False
    with 3 show ?thesis by (fastforce split: sum.splits)
  qed
qed fastforce+

text \<open>The fields of a record that starts with the given rest of a line.\<close>

function csv_fields :: "string \<Rightarrow> string list \<Rightarrow> csv_error + string list \<times> string list" where
  "csv_fields line ls =
     (if line \<noteq> [] \<and> hd line = CHR 0x22 then
        (case csv_quoted (tl line) ls of
           Inl e \<Rightarrow> Inl e
         | Inr (f, None, ls') \<Rightarrow> Inr ([f], ls')
         | Inr (f, Some rest, ls') \<Rightarrow>
             (case csv_fields rest ls' of Inl e \<Rightarrow> Inl e | Inr (fs, ls'') \<Rightarrow> Inr (f # fs, ls'')))
      else
        let field = takeWhile (\<lambda>c. c \<noteq> CHR '','') line;
            rest = dropWhile (\<lambda>c. c \<noteq> CHR '','') line
        in
        if CHR 0x22 \<in> set field then Inl ErrBareQuote
        else (case rest of
            [] \<Rightarrow> Inr ([drop_newline field], ls)
          | _ # line' \<Rightarrow>
              (case csv_fields line' ls of Inl e \<Rightarrow> Inl e | Inr (fs, ls') \<Rightarrow> Inr (field # fs, ls'))))"
  by pat_completeness auto
termination
proof (relation "measure (\<lambda>(line, ls). length line + length (concat ls))", goal_cases)
  case 2
  then show ?case by (fastforce dest!: csv_quoted_shorter simp: neq_Nil_conv)
next
  case (3 line ls field rest c line')
  then have "length (c # line') \<le> length line" by (metis length_dropWhile_le)
  then show ?case by simp
qed simp

declare csv_fields.simps [simp del]

lemma csv_fields_lines: "csv_fields line ls = Inr (fs, ls') \<Longrightarrow> length ls' \<le> length ls"
proof (induction line ls arbitrary: fs ls' rule: csv_fields.induct)
  case (1 line ls)
  show ?case
  proof (cases "line \<noteq> [] \<and> hd line = CHR 0x22")
    case True
    with 1(3) obtain f r lsq where q: "csv_quoted (tl line) ls = Inr (f, r, lsq)"
      by (subst (asm) csv_fields.simps) (auto split: sum.splits)
    note le = csv_quoted_shorter [OF q]
    show ?thesis
    proof (cases r)
      case None
      with 1(3) True q le show ?thesis by (subst (asm) csv_fields.simps) auto
    next
      case (Some rest)
      with 1(3) True q obtain fs' where "csv_fields rest lsq = Inr (fs', ls')"
        by (subst (asm) csv_fields.simps) (auto split: sum.splits)
      with 1(1) [OF True q refl refl Some this] le show ?thesis by simp
    qed
  next
    case False
    show ?thesis
    proof (cases "dropWhile (\<lambda>c. c \<noteq> CHR '','') line")
      case Nil
      with 1(3) False show ?thesis
        by (subst (asm) csv_fields.simps) (auto simp: Let_def split: if_splits)
    next
      case (Cons c line')
      with 1(3) False obtain fs' where nq: "CHR 0x22 \<notin> set (takeWhile (\<lambda>c. c \<noteq> CHR '','') line)"
        and "csv_fields line' ls = Inr (fs', ls')"
        by (subst (asm) csv_fields.simps) (auto simp: Let_def split: if_splits sum.splits)
      from 1(2) [OF False refl refl nq Cons this(2)] show ?thesis .
    qed
  qed
qed

text \<open>All records, up to the first malformed one.\<close>

function csv_records :: "string list \<Rightarrow> string list list \<times> csv_error option" where
  "csv_records [] = ([], None)"
| "csv_records (l # ls) =
     (if drop_newline l = [] then csv_records ls
      else (case csv_fields l ls of
          Inl e \<Rightarrow> ([], Some e)
        | Inr (r, ls') \<Rightarrow> (let (rs, e) = csv_records ls' in (r # rs, e))))"
  by pat_completeness auto
termination
  by (relation "measure length") (auto dest: csv_fields_lines)

definition csv_parse :: "string \<Rightarrow> string list list \<times> csv_error option" where
  "csv_parse s = csv_records (csv_lines s)"

text \<open>\<open>strings.TrimRight(s, "/")\<close>.\<close>

fun TrimRightSlash :: "string \<Rightarrow> string" where
  "TrimRightSlash s = rev (dropWhile (\<lambda>c. c = CHR ''/'') (rev s))"

end
