(* ===== verification/Raffles.thy ===== *)
theory Raffles
  imports Claims Sha256 GoText
begin

text \<open>
  \<^verbatim>\<open>services/raffle_service.go\<close>, first part: raffles and their state machine, participants from a
  file, draws with claim tokens, prize tiers with quotas, and the winner's claim. What the code
  starts in the background after a draw (the mail, the Discord message) is returned as a list of
  jobs; \<^verbatim>\<open>RaffleSync\<close> models the jobs, the Twitch interface and the scheduler.
\<close>

section \<open>Constraints of the tables\<close>

definition raffle_conflict :: "Raffle list \<Rightarrow> Raffle \<Rightarrow> db_error option" where
  "raffle_conflict rows r = first_violation [varchars [(255, RF_Title r)], dup_if (RF_ID r \<in> RF_ID ` set rows)]"

definition webhooks_check :: "Raffle list \<Rightarrow> db_error option" where
  "webhooks_check rows = varchars (map (\<lambda>r. (512, case RF_DiscordWebhookURL r of None \<Rightarrow> [] | Some u \<Rightarrow> u)) rows)"

definition same_entry :: "RaffleEntry \<Rightarrow> RaffleEntry \<Rightarrow> bool" where
  "same_entry e e' \<longleftrightarrow> RE_RaffleID e = RE_RaffleID e' \<and> RE_TwitchLogin e = RE_TwitchLogin e'"

definition entry_widths :: "RaffleEntry \<Rightarrow> db_error option" where
  "entry_widths e = varchars [(255, RE_TwitchLogin e), (255, RE_DisplayName e)]"

definition entry_conflict :: "RaffleEntry list \<Rightarrow> RaffleEntry \<Rightarrow> db_error option" where
  "entry_conflict rows e = first_violation [entry_widths e,
     dup_if (RE_ID e \<in> RE_ID ` set rows \<or> list_ex (same_entry e) rows)]"

definition draw_conflict :: "RaffleDraw list \<Rightarrow> RaffleDraw \<Rightarrow> db_error option" where
  "draw_conflict rows d = dup_if (RD_ID d \<in> RD_ID ` set rows \<or> RD_ClaimToken d \<in> RD_ClaimToken ` set rows \<or>
     list_ex (\<lambda>x. RD_RaffleID x = RD_RaffleID d \<and> RD_EntryID x = RD_EntryID d) rows)"

definition raffle_claim_conflict :: "RaffleClaim list \<Rightarrow> RaffleClaim \<Rightarrow> db_error option" where
  "raffle_claim_conflict rows c = first_violation [varchars [(255, RC_RecipientName c), (50, RC_Phone c),
       (255, RC_AddressLine1 c), (255, RC_AddressLine2 c), (100, RC_City c), (20, RC_PostalCode c), (10, RC_Country c)],
     dup_if (RC_ID c \<in> RC_ID ` set rows \<or> RC_DrawID c \<in> RC_DrawID ` set rows)]"

definition tier_row_check :: "RafflePrizeTier \<Rightarrow> db_error option" where
  "tier_row_check t = first_violation [varchars [(255, TI_Name t)],
     int4_range [TI_WinnerCount t, TI_DrawnCount t, TI_Position t],
     (if TI_WinnerCount t \<le> 0 then Some (check_fails ''raffle_prize_tiers_winner_count_check'') else None)]"

definition tier_conflict :: "RafflePrizeTier list \<Rightarrow> RafflePrizeTier \<Rightarrow> db_error option" where
  "tier_conflict rows t = first_violation [tier_row_check t, dup_if (TI_ID t \<in> TI_ID ` set rows)]"

definition tiers_check :: "RafflePrizeTier list \<Rightarrow> db_error option" where
  "tiers_check rows = first_violation (map tier_row_check rows)"

section \<open>Raffles\<close>

text \<open>A column with a default gets it when the struct's field is zero: mode, winner count, entry flag.\<close>

definition RaffleCreateContext :: "uuid \<Rightarrow> string \<Rightarrow> Raffle m" where
  "RaffleCreateContext userID title =
     insert_row t_raffles t_raffles_update raffle_conflict
       (\<lambda>t i. \<lparr>RF_ID = i, RF_UserID = userID, RF_Title = title, RF_Status = RaffleStatusDraft,
          RF_Source = RaffleSourceCSV, RF_Mode = RaffleModePublic, RF_WinnerCount = 1, RF_EntryOpen = False,
          RF_ScheduledAt = None, RF_DiscordWebhookURL = None, RF_CreatedAt = t\<rparr>)"

definition find_raffle :: "uuid \<Rightarrow> db \<Rightarrow> Raffle option" where
  "find_raffle rid d = find (\<lambda>r. RF_ID r = rid) (t_raffles d)"

definition GetByIDContext :: "uuid \<Rightarrow> uuid \<Rightarrow> Raffle m" where
  "GetByIDContext rid userID =
     bnd (orElse (query (find_raffle rid)) (RaffleE ErrRaffleNotFound)) (\<lambda>raffle.
     if RF_UserID raffle \<noteq> userID then fail (RaffleE ErrRaffleForbidden) else ret raffle)"

definition ListByStreamerContext :: "uuid \<Rightarrow> Raffle list m" where
  "ListByStreamerContext userID = query (\<lambda>d. rev (sort_key RF_CreatedAt
     (filter (\<lambda>r. RF_UserID r = userID) (t_raffles d))))"

definition update_raffles :: "(Raffle list \<Rightarrow> db_error option) \<Rightarrow> (Raffle \<Rightarrow> bool) \<Rightarrow> (Raffle \<Rightarrow> Raffle) \<Rightarrow> nat m" where
  "update_raffles bad P f = update_where t_raffles t_raffles_update bad P (\<lambda>_. f)"

definition SetDiscordWebhookContext :: "uuid \<Rightarrow> uuid \<Rightarrow> string \<Rightarrow> Raffle m" where
  "SetDiscordWebhookContext rid userID webhookURL =
     bnd (GetByIDContext rid userID) (\<lambda>raffle.
     if webhookURL \<noteq> [] \<and> \<not> HasPrefix webhookURL ''https://discord.com/api/webhooks/'' \<and>
        \<not> HasPrefix webhookURL ''https://discordapp.com/api/webhooks/''
     then fail (RaffleE ErrInvalidDiscordWebhookURL)
     else
       let val = (if webhookURL \<noteq> [] then Some webhookURL else None) in
       bnd (update_raffles webhooks_check (\<lambda>r. RF_ID r = RF_ID raffle)
          (\<lambda>r. r\<lparr>RF_DiscordWebhookURL := val\<rparr>)) (\<lambda>_.
       ret (raffle\<lparr>RF_DiscordWebhookURL := val\<rparr>)))"

definition ActivateContext :: "uuid \<Rightarrow> uuid \<Rightarrow> Raffle m" where
  "ActivateContext rid userID =
     bnd (GetByIDContext rid userID) (\<lambda>raffle.
     bnd (update_raffles no_check (\<lambda>r. RF_ID r = RF_ID raffle \<and> RF_Status r = RaffleStatusDraft)
        (\<lambda>r. r\<lparr>RF_Status := RaffleStatusActive\<rparr>)) (\<lambda>rowsAffected.
     if rowsAffected = 0 then fail (RaffleE ErrRaffleNotDraft)
     else ret (raffle\<lparr>RF_Status := RaffleStatusActive\<rparr>)))"

definition CompleteContext :: "uuid \<Rightarrow> uuid \<Rightarrow> Raffle m" where
  "CompleteContext rid userID =
     bnd (GetByIDContext rid userID) (\<lambda>raffle.
     if RF_Status raffle = RaffleStatusCompleted then ret raffle
     else
       bnd (update_raffles no_check (\<lambda>r. RF_ID r = RF_ID raffle) (\<lambda>r. r\<lparr>RF_Status := RaffleStatusCompleted\<rparr>)) (\<lambda>_.
       ret (raffle\<lparr>RF_Status := RaffleStatusCompleted\<rparr>)))"

definition SetModeContext :: "uuid \<Rightarrow> uuid \<Rightarrow> RaffleMode \<Rightarrow> Raffle m" where
  "SetModeContext rid userID mode =
     bnd (GetByIDContext rid userID) (\<lambda>raffle.
     bnd (update_raffles no_check (\<lambda>r. RF_ID r = RF_ID raffle \<and> RF_Status r = RaffleStatusDraft)
        (\<lambda>r. r\<lparr>RF_Mode := mode\<rparr>)) (\<lambda>rowsAffected.
     if rowsAffected = 0 then fail (RaffleE ErrRaffleNotDraft) else ret (raffle\<lparr>RF_Mode := mode\<rparr>)))"

definition SetEntryOpenContext :: "uuid \<Rightarrow> uuid \<Rightarrow> bool \<Rightarrow> Raffle m" where
  "SetEntryOpenContext rid userID isOpen =
     bnd (GetByIDContext rid userID) (\<lambda>raffle.
     bnd (update_raffles no_check (\<lambda>r. RF_ID r = RF_ID raffle \<and> RF_Status r = RaffleStatusActive)
        (\<lambda>r. r\<lparr>RF_EntryOpen := isOpen\<rparr>)) (\<lambda>rowsAffected.
     if rowsAffected = 0 then fail (RaffleE ErrRaffleNotActive) else ret (raffle\<lparr>RF_EntryOpen := isOpen\<rparr>)))"

section \<open>Participants from a file\<close>

record ImportCSVResult =
  IR_Imported :: int
  IR_Skipped :: int

text \<open>The Twitch account of a user that is not deleted, found by the user's name or by the Twitch id.\<close>

definition live_user :: "(User \<Rightarrow> bool) \<Rightarrow> uuid \<Rightarrow> db \<Rightarrow> bool" where
  "live_user P uid d = list_ex (\<lambda>u. U_ID u = uid \<and> U_DeletedAt u = None \<and> P u) (t_users d)"

definition twitch_account :: "(AuthProvider \<Rightarrow> bool) \<Rightarrow> (User \<Rightarrow> bool) \<Rightarrow> db \<Rightarrow> AuthProvider option" where
  "twitch_account Q P d = first_by AP_ID (\<lambda>p. AP_Provider p = ProviderTwitch \<and> AP_DeletedAt p = None \<and> Q p \<and>
     live_user P (AP_UserID p) d) (t_auth_providers d)"

definition new_entry :: "uuid \<Rightarrow> uuid \<Rightarrow> string \<Rightarrow> string \<Rightarrow> string \<Rightarrow> time \<Rightarrow> uuid \<Rightarrow> RaffleEntry" where
  "new_entry rid uid login name source t i = \<lparr>RE_ID = i, RE_RaffleID = rid, RE_UserID = Some uid,
     RE_TwitchLogin = login, RE_DisplayName = name, RE_Source = source, RE_Eligible = True,
     RE_IneligibleReason = [], RE_CreatedAt = t\<rparr>"

definition importRow :: "uuid \<Rightarrow> string list \<Rightarrow> ImportCSVResult \<Rightarrow> ImportCSVResult m" where
  "importRow rid rec result =
     (if rec = [] then ret result
      else
        let twitchLogin = TrimSpace (hd rec);
            displayName = (if length rec > 1 then TrimSpace (rec ! 1) else [])
        in
        if twitchLogin = [] \<or> ToLower twitchLogin = ''twitch_login'' then ret result
        else
          bnd (query (\<lambda>d. length (filter (\<lambda>e. RE_RaffleID e = rid \<and> RE_TwitchLogin e = twitchLogin)
             (t_raffle_entries d)))) (\<lambda>count.
          if count > 0 then ret (result\<lparr>IR_Skipped := IR_Skipped result + 1\<rparr>)
          else
            bnd (query (twitch_account (\<lambda>_. True) (\<lambda>u. U_Username u = Some twitchLogin))) (\<lambda>provider.
            case provider of
              None \<Rightarrow> ret (result\<lparr>IR_Skipped := IR_Skipped result + 1\<rparr>)
            | Some p \<Rightarrow>
                bnd (insert_row t_raffle_entries t_raffle_entries_update entry_conflict
                   (new_entry rid (AP_UserID p) twitchLogin displayName [])) (\<lambda>_.
                ret (result\<lparr>IR_Imported := IR_Imported result + 1\<rparr>)))))"

fun importRows :: "uuid \<Rightarrow> string list list \<Rightarrow> csv_error option \<Rightarrow> ImportCSVResult \<Rightarrow> ImportCSVResult m" where
  "importRows rid [] None result = ret result"
| "importRows rid [] (Some e) result = fail (Errorf (csv_error_text e))"
| "importRows rid (r # rs) e result = bnd (importRow rid r result) (importRows rid rs e)"

definition ImportCSVContext :: "uuid \<Rightarrow> uuid \<Rightarrow> string \<Rightarrow> ImportCSVResult m" where
  "ImportCSVContext rid userID file =
     bnd (GetByIDContext rid userID) (\<lambda>raffle.
     if RF_Status raffle \<noteq> RaffleStatusDraft then fail (RaffleE ErrRaffleNotDraft)
     else (case csv_parse file of (rows, e) \<Rightarrow>
       importRows rid rows e \<lparr>IR_Imported = 0, IR_Skipped = 0\<rparr>))"

section \<open>Draws\<close>

definition claimTokenTTL :: int where
  "claimTokenTTL = 7 * 24 * hour"

definition hashClaimToken :: "string \<Rightarrow> string" where
  "hashClaimToken raw = sha256_hex raw"

text \<open>A draw as it is returned: with the raw token, the winning entry and the tier.\<close>

record DrawResult =
  DW_draw :: RaffleDraw
  DW_raw :: string
  DW_entry :: RaffleEntry
  DW_tier :: "RafflePrizeTier option"

datatype Job =
  SendWinnerEmail DrawResult
| SendDiscordNotification DrawResult string

definition drawJobs :: "bool \<Rightarrow> Raffle \<Rightarrow> DrawResult \<Rightarrow> Job list" where
  "drawJobs hasMailer raffle result =
     (if hasMailer then [SendWinnerEmail result] else []) @
     (case RF_DiscordWebhookURL raffle of None \<Rightarrow> [] | Some url \<Rightarrow> [SendDiscordNotification result url])"

definition drawn_entries :: "uuid \<Rightarrow> db \<Rightarrow> uuid list" where
  "drawn_entries rid d = map RD_EntryID (filter (\<lambda>x. RD_RaffleID x = rid) (t_raffle_draws d))"

definition undrawn :: "uuid \<Rightarrow> db \<Rightarrow> RaffleEntry list" where
  "undrawn rid d = filter (\<lambda>e. RE_RaffleID e = rid \<and> RE_ID e \<notin> set (drawn_entries rid d)) (t_raffle_entries d)"

definition drawMaxRetries :: nat where
  "drawMaxRetries = 5"

text \<open>A new token for the entry, and the draw that carries its digest.\<close>

definition recordDraw :: "uuid \<Rightarrow> uuid option \<Rightarrow> RaffleEntry \<Rightarrow> (RaffleDraw \<times> string) m" where
  "recordDraw rid tierID entry =
     bnd NewV7 (\<lambda>rawToken.
     bnd now (\<lambda>t1.
     bnd now (\<lambda>t2.
     bnd (insert_row t_raffle_draws t_raffle_draws_update draw_conflict
        (\<lambda>_ i. \<lparr>RD_ID = i, RD_RaffleID = rid, RD_EntryID = RE_ID entry,
           RD_ClaimToken = hashClaimToken (uuidText rawToken), RD_ClaimExpiresAt = t1 + claimTokenTTL,
           RD_DrawnAt = t2, RD_PrizeTierID = tierID\<rparr>)) (\<lambda>d.
     ret (d, uuidText rawToken)))))"

definition drawAttempt :: "uuid \<Rightarrow> DrawResult m" where
  "drawAttempt rid =
     bnd (query_random (undrawn rid)) (\<lambda>r.
     case r of
       None \<Rightarrow> fail (RaffleE ErrRaffleExhausted)
     | Some entry \<Rightarrow>
         if RE_ID entry = 0 then fail (RaffleE ErrRaffleExhausted)
         else
           bnd (recordDraw rid None entry) (\<lambda>(d, raw).
           ret \<lparr>DW_draw = d, DW_raw = raw, DW_entry = entry, DW_tier = None\<rparr>))"

fun drawLoop :: "nat \<Rightarrow> DrawResult m \<Rightarrow> (err \<Rightarrow> bool) \<Rightarrow> DrawResult m" where
  "drawLoop 0 attempt stop = fail (RaffleE ErrRaffleExhausted)"
| "drawLoop (Suc n) attempt stop =
     handle (transaction attempt)
       (\<lambda>txErr. if stop txErr then fail txErr
         else if errors_is txErr (DbE ErrDuplicatedKey) then drawLoop n attempt stop
         else fail txErr)
       ret"

definition DrawNext :: "bool \<Rightarrow> uuid \<Rightarrow> uuid \<Rightarrow> (DrawResult \<times> Job list) m" where
  "DrawNext hasMailer rid userID =
     bnd (GetByIDContext rid userID) (\<lambda>raffle.
     if RF_Status raffle = RaffleStatusCompleted then fail (RaffleE ErrRaffleCompleted)
     else
       bnd (drawLoop drawMaxRetries (drawAttempt rid) (\<lambda>e. errors_is e (RaffleE ErrRaffleExhausted))) (\<lambda>result.
       ret (result, drawJobs hasMailer raffle result)))"

text \<open>\<open>Preload("Entry")\<close> joins on the entry and the raffle.\<close>

definition entry_of :: "RaffleDraw \<Rightarrow> db \<Rightarrow> RaffleEntry option" where
  "entry_of x d = find (\<lambda>e. RE_ID e = RD_EntryID x \<and> RE_RaffleID e = RD_RaffleID x) (t_raffle_entries d)"

definition GetDrawsByRafflePublicContext :: "uuid \<Rightarrow> (RaffleDraw \<times> RaffleEntry option) list m" where
  "GetDrawsByRafflePublicContext rid = query (\<lambda>d. map (\<lambda>x. (x, entry_of x d))
     (rev (sort_key RD_DrawnAt (filter (\<lambda>x. RD_RaffleID x = rid) (t_raffle_draws d)))))"

definition ListDrawsContext :: "uuid \<Rightarrow> uuid \<Rightarrow> (RaffleDraw \<times> RaffleEntry option) list m" where
  "ListDrawsContext rid userID =
     bnd (GetByIDContext rid userID) (\<lambda>_.
     query (\<lambda>d. map (\<lambda>x. (x, entry_of x d))
       (rev (sort_key RD_DrawnAt (filter (\<lambda>x. RD_RaffleID x = rid) (t_raffle_draws d))))))"

section \<open>The winner's claim\<close>

definition GetDrawByTokenContext :: "string \<Rightarrow> (RaffleDraw \<times> RaffleEntry option) m" where
  "GetDrawByTokenContext token =
     bnd (orElse (query (\<lambda>d. map_option (\<lambda>x. (x, entry_of x d))
        (first_by RD_ID (\<lambda>x. RD_ClaimToken x = hashClaimToken token) (t_raffle_draws d))))
        (RaffleE ErrClaimNotFound)) (\<lambda>draw.
     bnd now (\<lambda>t.
     if t > RD_ClaimExpiresAt (fst draw) then fail (RaffleE ErrClaimTokenExpired) else ret draw))"

record ClaimInput =
  CN_RecipientName :: string
  CN_Phone :: string
  CN_AddressLine1 :: string
  CN_AddressLine2 :: string
  CN_City :: string
  CN_PostalCode :: string
  CN_Country :: string

definition SubmitClaimContext :: "string \<Rightarrow> uuid \<Rightarrow> ClaimInput \<Rightarrow> RaffleClaim m" where
  "SubmitClaimContext token userID input =
     bnd (GetDrawByTokenContext token) (\<lambda>(draw, entry).
     if (case entry of None \<Rightarrow> None | Some e \<Rightarrow> RE_UserID e) \<noteq> Some userID then fail (RaffleE ErrClaimForbidden)
     else
       let country = (if CN_Country input = [] then ''TW'' else CN_Country input) in
       bnd now (\<lambda>t.
       handle (insert_row t_raffle_claims t_raffle_claims_update raffle_claim_conflict
          (\<lambda>_ i. \<lparr>RC_ID = i, RC_DrawID = RD_ID draw, RC_RecipientName = CN_RecipientName input,
             RC_Phone = CN_Phone input, RC_AddressLine1 = CN_AddressLine1 input,
             RC_AddressLine2 = CN_AddressLine2 input, RC_City = CN_City input,
             RC_PostalCode = CN_PostalCode input, RC_Country = country, RC_SubmittedAt = t\<rparr>))
         (\<lambda>e. if errors_is e (DbE ErrDuplicatedKey) then fail (RaffleE ErrClaimAlreadyDone) else fail e)
         ret))"

end
