(* ===== verification/Tiers.thy ===== *)
theory Tiers
  imports Raffles
begin

text \<open>
  \<^verbatim>\<open>services/raffle_service.go\<close>, second part: the prize tiers of a raffle with their quotas, draws
  from a tier, and the statistics of the participants.
\<close>

section \<open>Prize tiers\<close>

record CreatePrizeTierInput =
  CP_Name :: string
  CP_PrizeDescription :: string
  CP_WinnerCount :: int

record UpdatePrizeTierInput =
  UP_Name :: "string option"
  UP_PrizeDescription :: "string option"
  UP_WinnerCount :: "int option"

definition tiers_of :: "uuid \<Rightarrow> db \<Rightarrow> RafflePrizeTier list" where
  "tiers_of rid d = filter (\<lambda>t. TI_RaffleID t = rid) (t_raffle_prize_tiers d)"

definition find_tier :: "uuid \<Rightarrow> uuid \<Rightarrow> db \<Rightarrow> RafflePrizeTier option" where
  "find_tier rid tid d = find (\<lambda>t. TI_ID t = tid \<and> TI_RaffleID t = rid) (t_raffle_prize_tiers d)"

text \<open>\<open>COALESCE(MAX(position), 0)\<close>\<close>

definition max_position :: "RafflePrizeTier list \<Rightarrow> int" where
  "max_position ts = (case ts of [] \<Rightarrow> 0 | t # r \<Rightarrow> foldl (\<lambda>m x. max m (TI_Position x)) (TI_Position t) r)"

definition CreatePrizeTierContext :: "uuid \<Rightarrow> uuid \<Rightarrow> CreatePrizeTierInput \<Rightarrow> RafflePrizeTier m" where
  "CreatePrizeTierContext rid userID input =
     (if CP_WinnerCount input < 1 then fail (RaffleE ErrPrizeTierInvalidCount)
      else
        bnd (GetByIDContext rid userID) (\<lambda>_.
        bnd (query (\<lambda>d. max_position (tiers_of rid d))) (\<lambda>maxPos.
        insert_row t_raffle_prize_tiers t_raffle_prize_tiers_update tier_conflict
          (\<lambda>t i. \<lparr>TI_ID = i, TI_RaffleID = rid, TI_Name = CP_Name input,
             TI_PrizeDescription = CP_PrizeDescription input, TI_WinnerCount = CP_WinnerCount input,
             TI_DrawnCount = 0, TI_Position = i64 (maxPos + 1), TI_CreatedAt = t\<rparr>))))"

definition ListPrizeTiersContext :: "uuid \<Rightarrow> uuid \<Rightarrow> RafflePrizeTier list m" where
  "ListPrizeTiersContext rid userID =
     bnd (GetByIDContext rid userID) (\<lambda>_.
     query (\<lambda>d. sort_key TI_Position (tiers_of rid d)))"

text \<open>The tier as it was read, and the tier that \<open>Save\<close> writes, with every column.\<close>

definition loadTier :: "uuid \<Rightarrow> uuid \<Rightarrow> RafflePrizeTier m" where
  "loadTier rid tid = orElse (query (find_tier rid tid)) (RaffleE ErrPrizeTierNotFound)"

definition edited :: "UpdatePrizeTierInput \<Rightarrow> RafflePrizeTier \<Rightarrow> RafflePrizeTier" where
  "edited input tier = tier\<lparr>
     TI_WinnerCount := (case UP_WinnerCount input of None \<Rightarrow> TI_WinnerCount tier | Some n \<Rightarrow> n),
     TI_Name := (case UP_Name input of None \<Rightarrow> TI_Name tier | Some n \<Rightarrow> n),
     TI_PrizeDescription := (case UP_PrizeDescription input of None \<Rightarrow> TI_PrizeDescription tier | Some n \<Rightarrow> n)\<rparr>"

definition saveTier :: "RafflePrizeTier \<Rightarrow> unit m" where
  "saveTier tier = stmt (\<lambda>_ _ d.
     let rows = t_raffle_prize_tiers d;
         rows' = (if TI_ID tier \<in> TI_ID ` set rows then update_rows (\<lambda>t. TI_ID t = TI_ID tier) (\<lambda>_. tier) rows
            else rows @ [tier])
     in case tier_row_check tier of Some e \<Rightarrow> Inl e
        | None \<Rightarrow> Inr ((), d\<lparr>t_raffle_prize_tiers := rows'\<rparr>))"

definition UpdatePrizeTierContext :: "uuid \<Rightarrow> uuid \<Rightarrow> uuid \<Rightarrow> UpdatePrizeTierInput \<Rightarrow> RafflePrizeTier m" where
  "UpdatePrizeTierContext rid tid userID input =
     bnd (GetByIDContext rid userID) (\<lambda>_.
     bnd (loadTier rid tid) (\<lambda>tier.
     if (case UP_WinnerCount input of None \<Rightarrow> False | Some n \<Rightarrow> n < 1 \<or> n < TI_DrawnCount tier)
     then fail (RaffleE ErrPrizeTierInvalidCount)
     else
       bnd (saveTier (edited input tier)) (\<lambda>_.
       ret (edited input tier))))"

definition DeletePrizeTierContext :: "uuid \<Rightarrow> uuid \<Rightarrow> uuid \<Rightarrow> unit m" where
  "DeletePrizeTierContext rid tid userID =
     bnd (GetByIDContext rid userID) (\<lambda>_.
     bnd (loadTier rid tid) (\<lambda>_.
     bnd (delete_where t_raffle_prize_tiers t_raffle_prize_tiers_update
        (\<lambda>t. TI_ID t = tid \<and> TI_RaffleID t = rid \<and> TI_DrawnCount t = 0)) (\<lambda>rowsAffected.
     if rowsAffected = 0 then fail (RaffleE ErrPrizeTierHasDraws) else ret ())))"

section \<open>Draws from a tier\<close>

definition takeSlot :: "uuid \<Rightarrow> nat m" where
  "takeSlot tid = update_where t_raffle_prize_tiers t_raffle_prize_tiers_update tiers_check
     (\<lambda>t. TI_ID t = tid \<and> TI_DrawnCount t < TI_WinnerCount t)
     (\<lambda>_ t. t\<lparr>TI_DrawnCount := TI_DrawnCount t + 1\<rparr>)"

definition tierAttempt :: "uuid \<Rightarrow> RafflePrizeTier \<Rightarrow> DrawResult m" where
  "tierAttempt rid tier =
     bnd (query (drawn_entries rid)) (\<lambda>wonIDs.
     bnd (orElse (query_random (\<lambda>d. filter (\<lambda>e. RE_RaffleID e = rid \<and> RE_ID e \<notin> set wonIDs) (t_raffle_entries d)))
        (RaffleE ErrRaffleExhausted)) (\<lambda>entry.
     bnd (recordDraw rid (Some (TI_ID tier)) entry) (\<lambda>(d, raw).
     bnd (takeSlot (TI_ID tier)) (\<lambda>rowsAffected.
     if rowsAffected = 0 then fail (RaffleE ErrPrizeTierExhausted)
     else ret \<lparr>DW_draw = d, DW_raw = raw, DW_entry = entry,
            DW_tier = Some (tier\<lparr>TI_DrawnCount := i64 (TI_DrawnCount tier + 1)\<rparr>)\<rparr>))))"

definition DrawFromTierContext :: "bool \<Rightarrow> uuid \<Rightarrow> uuid \<Rightarrow> uuid \<Rightarrow> (DrawResult \<times> Job list) m" where
  "DrawFromTierContext hasMailer rid tid userID =
     bnd (GetByIDContext rid userID) (\<lambda>raffle.
     if RF_Status raffle \<noteq> RaffleStatusActive then fail (RaffleE ErrRaffleNotActive)
     else
       bnd (loadTier rid tid) (\<lambda>tier.
       if TI_DrawnCount tier \<ge> TI_WinnerCount tier then fail (RaffleE ErrPrizeTierExhausted)
       else
         bnd (drawLoop drawMaxRetries (tierAttempt rid tier)
            (\<lambda>e. errors_is e (RaffleE ErrRaffleExhausted) \<or> errors_is e (RaffleE ErrPrizeTierExhausted))) (\<lambda>result.
         ret (result, drawJobs hasMailer raffle result))))"

section \<open>Statistics\<close>

record EntryStats =
  ES_EligibleCount :: int
  ES_IneligibleCount :: int
  ES_IneligibleReasons :: "string \<Rightarrow> int option"
  ES_TotalJoined :: int

definition count_entries :: "uuid \<Rightarrow> (RaffleEntry \<Rightarrow> bool) \<Rightarrow> db \<Rightarrow> int" where
  "count_entries rid P d = int (length (filter (\<lambda>e. RE_RaffleID e = rid \<and> P e) (t_raffle_entries d)))"

definition GetEntryStatsContext :: "uuid \<Rightarrow> uuid \<Rightarrow> EntryStats m" where
  "GetEntryStatsContext rid userID =
     bnd (GetByIDContext rid userID) (\<lambda>_.
     bnd (query (count_entries rid (\<lambda>_. True))) (\<lambda>total_count.
     bnd (query (count_entries rid RE_Eligible)) (\<lambda>eligible.
     bnd (query (\<lambda>d s. count_entries rid (\<lambda>e. \<not> RE_Eligible e \<and> RE_IneligibleReason e = s) d)) (\<lambda>rows.
     ret \<lparr>ES_EligibleCount = eligible, ES_IneligibleCount = total_count - eligible,
        ES_IneligibleReasons = (\<lambda>s. if s \<noteq> [] \<and> rows s > 0 then Some (rows s) else None),
        ES_TotalJoined = total_count\<rparr>))))"

end
