(* ===== verification/RaffleSync.thy ===== *)
theory RaffleSync
  imports Tiers
begin

text \<open>
  \<^verbatim>\<open>services/raffle_service.go\<close>, third part, and \<^verbatim>\<open>services/raffle_scheduler.go\<close>: joining a raffle
  from the extension, importing the subscribers of a channel page by page, the scheduled
  snapshots, and the jobs that follow a draw. The HTTP interface of Twitch, the decryption of
  stored tokens, the mailer and the webhook are parameters.
\<close>

section \<open>The Twitch interface\<close>

record TwitchSubscription =
  TS_UserID :: string
  TS_UserLogin :: string
  TS_UserName :: string

text \<open>An answer is a status and the decoding of the body: subscriptions and the cursor of the next page.\<close>

type_synonym SubsPage = "TwitchSubscription list \<times> string"
type_synonym Helix = "string \<Rightarrow> string \<Rightarrow> string \<Rightarrow> nat \<Rightarrow> err + nat \<times> (err + SubsPage)"

record RaffleServices =
  SV_subscription :: Helix
  SV_subscriptions :: Helix
  SV_decrypt :: "string \<Rightarrow> err + string"
  SV_send :: "string \<Rightarrow> string \<Rightarrow> string \<Rightarrow> nat \<Rightarrow> err + unit"
  SV_post :: "string \<Rightarrow> string list \<Rightarrow> nat \<Rightarrow> err + nat"
  SV_frontendURL :: string
  SV_formatTime :: "time \<Rightarrow> string"

definition fetchTwitchSubscription :: "RaffleServices \<Rightarrow> string \<Rightarrow> string \<Rightarrow> string \<Rightarrow> nat \<Rightarrow> err + bool" where
  "fetchTwitchSubscription s accessToken broadcasterID userID at =
     (case SV_subscription s accessToken broadcasterID userID at of
        Inl e \<Rightarrow> Inl e
      | Inr (status, body) \<Rightarrow>
          if status = 401 then Inl (RaffleE ErrTwitchTokenMissing)
          else if status = 403 then Inl (RaffleE ErrTwitchInsufficientScope)
          else if status = 404 then Inr False
          else if status \<noteq> 200 then Inl (Errorf (''twitch api: unexpected status '' @ natText status))
          else (case body of Inl e \<Rightarrow> Inl e | Inr (subs, _) \<Rightarrow> Inr (subs \<noteq> [])))"

definition fetchTwitchSubsPage :: "RaffleServices \<Rightarrow> string \<Rightarrow> string \<Rightarrow> string \<Rightarrow> nat \<Rightarrow> err + SubsPage" where
  "fetchTwitchSubsPage s accessToken broadcasterID cursor at =
     (case SV_subscriptions s accessToken broadcasterID cursor at of
        Inl e \<Rightarrow> Inl e
      | Inr (status, body) \<Rightarrow>
          if status = 401 \<or> status = 403 then Inl (RaffleE ErrTwitchInsufficientScope)
          else if status \<noteq> 200 then Inl (Errorf (''twitch api: unexpected status '' @ natText status))
          else body)"

definition decryptedProviderAccessToken :: "RaffleServices \<Rightarrow> AuthProvider \<Rightarrow> string m" where
  "decryptedProviderAccessToken s ap =
     (case AP_AccessToken ap of
        None \<Rightarrow> ret []
      | Some stored \<Rightarrow> (case SV_decrypt s stored of Inl e \<Rightarrow> fail e | Inr t \<Rightarrow> ret t))"

text \<open>The tokens are cleared with a context that the caller's cancellation and deadline do not reach.\<close>

definition clearProviderTokensContext :: "uuid \<Rightarrow> unit m" where
  "clearProviderTokensContext providerID =
     (if providerID = 0 then ret ()
      else
        handle (detached (update_where t_auth_providers t_auth_providers_update no_check
            (\<lambda>p. AP_ID p = providerID \<and> AP_DeletedAt p = None)
            (\<lambda>_ p. p\<lparr>AP_AccessToken := None, AP_RefreshToken := None, AP_TokenExpiresAt := None\<rparr>)))
          (\<lambda>_. ret ()) (\<lambda>_. ret ()))"

definition user_twitch :: "uuid \<Rightarrow> db \<Rightarrow> AuthProvider option" where
  "user_twitch uid d = first_by AP_ID (\<lambda>p. AP_UserID p = uid \<and> AP_Provider p = ProviderTwitch \<and>
     AP_DeletedAt p = None) (t_auth_providers d)"

text \<open>\<open>INSERT \<dots> ON CONFLICT (raffle_id, twitch_login) DO NOTHING\<close>: whether the row is new.\<close>

definition insert_entry :: "(time \<Rightarrow> uuid \<Rightarrow> RaffleEntry) \<Rightarrow> RaffleEntry option m" where
  "insert_entry row = stmt (\<lambda>t i d.
     let e = row t i in
     case entry_widths e of
       Some err \<Rightarrow> Inl err
     | None \<Rightarrow>
         if list_ex (same_entry e) (t_raffle_entries d) then Inr (None, d)
         else if i \<in> RE_ID ` set (t_raffle_entries d) then Inl ErrDuplicatedKey
         else Inr (Some e, d\<lparr>t_raffle_entries := t_raffle_entries d @ [e]\<rparr>))"

section \<open>Joining from the extension\<close>

text \<open>The subscription check of a raffle for subscribers, with the broadcaster's token.\<close>

definition requireSubscriber :: "RaffleServices \<Rightarrow> Raffle \<Rightarrow> string \<Rightarrow> unit m" where
  "requireSubscriber s raffle twitchUserID =
     bnd (orElse (query (user_twitch (RF_UserID raffle))) (RaffleE ErrTwitchTokenMissing)) (\<lambda>broadcaster.
     bnd (decryptedProviderAccessToken s broadcaster) (\<lambda>accessToken.
     if accessToken = [] then
       seq (clearProviderTokensContext (AP_ID broadcaster)) (fail (RaffleE ErrTwitchTokenMissing))
     else
       bnd (case AP_TokenExpiresAt broadcaster of None \<Rightarrow> ret False
            | Some expiry \<Rightarrow> bnd now (\<lambda>t. ret (t > expiry))) (\<lambda>expired.
       if expired then
         seq (clearProviderTokensContext (AP_ID broadcaster)) (fail (RaffleE ErrTwitchTokenMissing))
       else
         handle (external (fetchTwitchSubscription s accessToken (AP_ProviderID broadcaster) twitchUserID))
           (\<lambda>e. if errors_is e (RaffleE ErrTwitchInsufficientScope)
             then seq (clearProviderTokensContext (AP_ID broadcaster)) (fail e) else fail e)
           (\<lambda>ok. if \<not> ok then fail (RaffleE ErrNotSubscriber) else ret ()))))"

definition viewer_login :: "string \<Rightarrow> uuid \<Rightarrow> db \<Rightarrow> string" where
  "viewer_login twitchUserID uid d =
     (case find (\<lambda>u. U_ID u = uid \<and> U_DeletedAt u = None) (t_users d) of
        None \<Rightarrow> twitchUserID
      | Some u \<Rightarrow> (case U_Username u of None \<Rightarrow> twitchUserID | Some name \<Rightarrow> name))"

definition JoinRaffle :: "RaffleServices \<Rightarrow> uuid \<Rightarrow> string \<Rightarrow> RaffleEntry m" where
  "JoinRaffle s rid twitchUserID =
     bnd (orElse (query (find_raffle rid)) (RaffleE ErrRaffleNotFound)) (\<lambda>raffle.
     if \<not> RF_EntryOpen raffle then fail (RaffleE ErrEntryNotOpen)
     else
       bnd (orElse (query (\<lambda>d. map_option (\<lambda>p. (p, viewer_login twitchUserID (AP_UserID p) d))
            (twitch_account (\<lambda>p. AP_ProviderID p = twitchUserID) (\<lambda>_. True) d)))
          (RaffleE ErrViewerNotLinked)) (\<lambda>(viewer, twitchLogin).
       bnd (if RF_Mode raffle = RaffleModeSubscribers then requireSubscriber s raffle twitchUserID else ret ()) (\<lambda>_.
       bnd (insert_entry (new_entry rid (AP_UserID viewer) twitchLogin twitchLogin ''extension_button'')) (\<lambda>r.
       case r of None \<Rightarrow> fail (RaffleE ErrAlreadyJoined) | Some entry \<Rightarrow> ret entry))))"

section \<open>Importing subscribers\<close>

record SyncFromTwitchResult =
  SY_Imported :: int
  SY_Skipped :: int

fun importSubs :: "uuid \<Rightarrow> TwitchSubscription list \<Rightarrow> SyncFromTwitchResult \<Rightarrow> SyncFromTwitchResult m" where
  "importSubs rid [] result = ret result"
| "importSubs rid (sub # subs) result =
     bnd (query (twitch_account (\<lambda>p. AP_ProviderID p = TS_UserID sub) (\<lambda>_. True))) (\<lambda>provider.
     case provider of
       None \<Rightarrow> importSubs rid subs (result\<lparr>SY_Skipped := SY_Skipped result + 1\<rparr>)
     | Some p \<Rightarrow>
         bnd (insert_entry (new_entry rid (AP_UserID p) (TS_UserLogin sub) (TS_UserName sub) [])) (\<lambda>r.
         case r of
           None \<Rightarrow> importSubs rid subs (result\<lparr>SY_Skipped := SY_Skipped result + 1\<rparr>)
         | Some _ \<Rightarrow> importSubs rid subs (result\<lparr>SY_Imported := SY_Imported result + 1\<rparr>)))"

text \<open>
  A method with a loop that the code does not bound: \<open>None\<close> when it does not return.
\<close>

type_synonym 'a looping = "world \<Rightarrow> ((err + 'a) \<times> world) option"

definition next_loop :: "'a m \<Rightarrow> ('a \<Rightarrow> 'b looping) \<Rightarrow> 'b looping" where
  "next_loop x f w = (case x w of (Inl e, w') \<Rightarrow> Some (Inl e, w') | (Inr a, w') \<Rightarrow> f a w')"

text \<open>One page: fetch it and import its subscribers. The result carries the next cursor.\<close>

definition syncPage :: "RaffleServices \<Rightarrow> uuid \<Rightarrow> AuthProvider \<Rightarrow> string \<Rightarrow> string \<Rightarrow> SyncFromTwitchResult \<Rightarrow>
    (SyncFromTwitchResult \<times> string) m" where
  "syncPage s rid ap accessToken cursor result =
     handle (external (fetchTwitchSubsPage s accessToken (AP_ProviderID ap) cursor))
       (\<lambda>e. if errors_is e (RaffleE ErrTwitchInsufficientScope)
         then seq (clearProviderTokensContext (AP_ID ap)) (fail e) else fail e)
       (\<lambda>(subs, nextCursor).
        bnd (importSubs rid subs result) (\<lambda>result'.
        ret (result', nextCursor)))"

partial_function (option) syncPages :: "RaffleServices \<Rightarrow> uuid \<Rightarrow> AuthProvider \<Rightarrow> string \<Rightarrow> string \<Rightarrow>
    SyncFromTwitchResult \<Rightarrow> world \<Rightarrow> ((err + SyncFromTwitchResult) \<times> world) option" where
  "syncPages s rid ap accessToken cursor result w =
     (case syncPage s rid ap accessToken cursor result w of
        (Inl e, w') \<Rightarrow> Some (Inl e, w')
      | (Inr (result', nextCursor), w') \<Rightarrow>
          if nextCursor = [] then Some (Inr result', w')
          else syncPages s rid ap accessToken nextCursor result' w')"

declare syncPages.simps [code]

text \<open>What is done before the first page: the owner, the source, and a token that has not expired.\<close>

definition syncToken :: "RaffleServices \<Rightarrow> uuid \<Rightarrow> uuid \<Rightarrow> (AuthProvider \<times> string) m" where
  "syncToken s rid userID =
     bnd (GetByIDContext rid userID) (\<lambda>raffle.
     if RF_Source raffle \<noteq> RaffleSourceTwitchAPI then fail (RaffleE ErrUnsupportedRaffleSource)
     else
       bnd (orElse (query (user_twitch userID)) (RaffleE ErrTwitchTokenMissing)) (\<lambda>ap.
       bnd (decryptedProviderAccessToken s ap) (\<lambda>accessToken.
       if accessToken = [] then fail (RaffleE ErrTwitchTokenMissing)
       else
         bnd (case AP_TokenExpiresAt ap of None \<Rightarrow> ret False
              | Some expiry \<Rightarrow> bnd now (\<lambda>t. ret (t > expiry))) (\<lambda>expired.
         if expired then
           seq (clearProviderTokensContext (AP_ID ap)) (fail (RaffleE ErrTwitchTokenMissing))
         else ret (ap, accessToken)))))"

definition SyncFromTwitchAPI :: "RaffleServices \<Rightarrow> uuid \<Rightarrow> uuid \<Rightarrow> SyncFromTwitchResult looping" where
  "SyncFromTwitchAPI s rid userID =
     next_loop (syncToken s rid userID) (\<lambda>(ap, accessToken).
     syncPages s rid ap accessToken [] \<lparr>SY_Imported = 0, SY_Skipped = 0\<rparr>)"

section \<open>Scheduled snapshots\<close>

definition scheduledSnapshotBatchLimit :: nat where
  "scheduledSnapshotBatchLimit = 500"

definition snapshotCheckInterval :: int where
  "snapshotCheckInterval = 5 * minute"

fun sourceText :: "RaffleSource \<Rightarrow> string" where
  "sourceText RaffleSourceCSV = ''csv''"
| "sourceText RaffleSourceTwitchAPI = ''twitch_api''"
| "sourceText RaffleSourceExtensionButton = ''extension_button''"

definition promote :: "uuid \<Rightarrow> unit m" where
  "promote rid = bnd (update_raffles no_check (\<lambda>r. RF_ID r = rid \<and> RF_Status r = RaffleStatusDraft)
     (\<lambda>r. r\<lparr>RF_Status := RaffleStatusActive\<rparr>)) (\<lambda>_. ret ())"

definition snapshotOne :: "RaffleServices \<Rightarrow> Raffle \<Rightarrow> unit looping" where
  "snapshotOne s r w =
     (case RF_Source r of
        RaffleSourceTwitchAPI \<Rightarrow>
          (case SyncFromTwitchAPI s (RF_ID r) (RF_UserID r) w of
             None \<Rightarrow> None
           | Some (Inl e, w') \<Rightarrow> Some (Inl e, w')
           | Some (Inr _, w') \<Rightarrow> Some (promote (RF_ID r) w'))
      | source \<Rightarrow> Some (Inl (Errorf (''unsupported snapshot source: '' @ sourceText source)), w))"

text \<open>The batch goes on after an error; the number of failures decides the metric.\<close>

fun snapshotAll :: "RaffleServices \<Rightarrow> Raffle list \<Rightarrow> nat \<Rightarrow> nat looping" where
  "snapshotAll s [] failed w = Some (Inr failed, w)"
| "snapshotAll s (r # rs) failed w =
     (case snapshotOne s r w of
        None \<Rightarrow> None
      | Some (Inl e, w') \<Rightarrow> snapshotAll s rs (Suc failed) w'
      | Some (Inr _, w') \<Rightarrow> snapshotAll s rs failed w')"

definition due_raffles :: "time \<Rightarrow> db \<Rightarrow> Raffle list" where
  "due_raffles window d = take scheduledSnapshotBatchLimit (sort_key (\<lambda>r. the (RF_ScheduledAt r)) (sort_key RF_ID
     (filter (\<lambda>r. RF_Status r = RaffleStatusDraft \<and> RF_Source r \<noteq> RaffleSourceCSV \<and>
        RF_ScheduledAt r \<noteq> None \<and> the (RF_ScheduledAt r) \<le> window) (t_raffles d))))"

datatype RunResult = RunSuccess | RunFailure | RunPartialFailure

definition run_result :: "nat \<Rightarrow> nat \<Rightarrow> RunResult" where
  "run_result failed candidates = (if failed = 0 then RunSuccess
     else if failed = candidates then RunFailure else RunPartialFailure)"

definition RunScheduledSnapshots :: "RaffleServices \<Rightarrow> time \<Rightarrow> RunResult looping" where
  "RunScheduledSnapshots s at =
     next_loop (query (due_raffles (at + 10 * minute))) (\<lambda>raffles w.
     case snapshotAll s raffles 0 w of
       None \<Rightarrow> None
     | Some (Inl e, w') \<Rightarrow> Some (Inl e, w')
     | Some (Inr failed, w') \<Rightarrow> Some (Inr (run_result failed (length raffles)), w'))"

text \<open>
  One tick of the scheduler. The run has five minutes: under the deadline every statement that is sent
  later fails, and so does every request to Twitch. The error of the batch is only logged.
\<close>

definition runTimeout :: int where
  "runTimeout = 5 * minute"

definition with_deadline :: "time \<Rightarrow> env \<Rightarrow> RaffleServices \<Rightarrow> RaffleServices" where
  "with_deadline d e s = s\<lparr>
     SV_subscription := (\<lambda>accessToken broadcasterID userID n.
       if d \<le> env_clock e n then Inl (Errorf deadline_exceeded) else SV_subscription s accessToken broadcasterID userID n),
     SV_subscriptions := (\<lambda>accessToken broadcasterID cursor n.
       if d \<le> env_clock e n then Inl (Errorf deadline_exceeded) else SV_subscriptions s accessToken broadcasterID cursor n)\<rparr>"

definition runOnce :: "RaffleServices \<Rightarrow> world \<Rightarrow> world option" where
  "runOnce s w =
     (let deadline = env_clock (w_env w) (w_tick w) + runTimeout;
          at = env_clock (w_env w) (Suc (w_tick w));
          runCtx = (tick (tick w))\<lparr>w_env := by_deadline deadline (w_env w)\<rparr>
      in case RunScheduledSnapshots (with_deadline deadline (w_env w) s) at runCtx of
           None \<Rightarrow> None
         | Some (_, w') \<Rightarrow> Some (w'\<lparr>w_env := w_env w\<rparr>))"

section \<open>Messages\<close>

definition secret_markers :: "string list" where
  "secret_markers = [''access_token'', ''refresh_token'', ''authorization'', ''bearer '', ''client_secret'',
     ''private_key'', ''signer_key'', ''voucher'', ''receipt'']"

definition to_blank :: "char \<Rightarrow> char" where
  "to_blank c = (if c = CHR 0x0A \<or> c = CHR 0x0D \<or> c = CHR 0x09 then CHR '' '' else c)"

text \<open>\<open>quote\<close> is \<open>%q\<close>.\<close>

definition safeScheduledJobError :: "(string \<Rightarrow> string) \<Rightarrow> err option \<Rightarrow> string" where
  "safeScheduledJobError quote e =
     (case e of
        None \<Rightarrow> ''-''
      | Some err \<Rightarrow>
          let msg = errText err; lower = ToLower msg in
          if list_ex (Contains lower) secret_markers then ''[redacted]''
          else
            let msg = map to_blank msg in
            if length msg > 512 then take 512 msg else quote msg)"

text \<open>The mail to the winner, with the raw token in its link. The literal text is a parameter of the send.\<close>

definition sendWinnerEmail :: "RaffleServices \<Rightarrow> DrawResult \<Rightarrow> unit m" where
  "sendWinnerEmail s r =
     (case RE_UserID (DW_entry r) of
        None \<Rightarrow> ret ()
      | Some uid \<Rightarrow>
          handle (orElse (query (\<lambda>d. find (\<lambda>u. U_ID u = uid \<and> U_DeletedAt u = None) (t_users d))) RecordNotFound)
            (\<lambda>_. ret ())
            (\<lambda>user.
             case U_Email user of
               None \<Rightarrow> ret ()
             | Some email \<Rightarrow>
                 let link = TrimRightSlash (SV_frontendURL s) @ ''/claim/'' @ DW_raw r in
                 handle (external (SV_send s email (SV_formatTime s (RD_ClaimExpiresAt (DW_draw r))) link))
                   (\<lambda>_. ret ()) (\<lambda>_. ret ())))"

text \<open>The fields of the public Discord message: tier, winner, prize and expiry. The token is not among them.\<close>

definition discordContent :: "RaffleServices \<Rightarrow> DrawResult \<Rightarrow> string list" where
  "discordContent s r =
     (let twitchLogin = RE_TwitchLogin (DW_entry r);
          expiry = SV_formatTime s (RD_ClaimExpiresAt (DW_draw r))
      in case DW_tier r of
           Some tier \<Rightarrow> [TI_Name tier, twitchLogin, TI_PrizeDescription tier, expiry]
         | None \<Rightarrow> [twitchLogin, expiry])"

definition sendDiscordNotification :: "RaffleServices \<Rightarrow> DrawResult \<Rightarrow> string \<Rightarrow> unit m" where
  "sendDiscordNotification s r webhookURL =
     handle (external (SV_post s webhookURL (discordContent s r))) (\<lambda>_. ret ()) (\<lambda>_. ret ())"

fun runJob :: "RaffleServices \<Rightarrow> Job \<Rightarrow> unit m" where
  "runJob s (SendWinnerEmail r) = sendWinnerEmail s r"
| "runJob s (SendDiscordNotification r url) = sendDiscordNotification s r url"

end
