(* ===== verification/RaffleFacts.thy ===== *)
theory RaffleFacts
  imports RaffleSync
begin

text \<open>
  The tables of the raffles stay consistent: no participant twice, no participant drawn twice in a
  raffle, every draw of a participant of its raffle, no token twice, and the count of every prize
  tier equal to its draws and within its quota.
\<close>

section \<open>The invariant\<close>

definition entries_ok :: "RaffleEntry list \<Rightarrow> bool" where
  "entries_ok es \<longleftrightarrow> distinct (map RE_ID es) \<and> distinct (map (\<lambda>e. (RE_RaffleID e, RE_TwitchLogin e)) es)"

definition draws_ok :: "RaffleEntry list \<Rightarrow> RaffleDraw list \<Rightarrow> bool" where
  "draws_ok es ds \<longleftrightarrow> distinct (map RD_ID ds) \<and> distinct (map RD_ClaimToken ds) \<and>
     distinct (map (\<lambda>x. (RD_RaffleID x, RD_EntryID x)) ds) \<and>
     (\<lambda>x. (RD_RaffleID x, RD_EntryID x)) ` set ds \<subseteq> (\<lambda>e. (RE_RaffleID e, RE_ID e)) ` set es"

definition tier_draws :: "RaffleDraw list \<Rightarrow> uuid \<Rightarrow> int" where
  "tier_draws ds tid = int (length (filter (\<lambda>x. RD_PrizeTierID x = Some tid) ds))"

definition tiers_ok :: "RaffleDraw list \<Rightarrow> RafflePrizeTier list \<Rightarrow> bool" where
  "tiers_ok ds ts \<longleftrightarrow> distinct (map TI_ID ts) \<and>
     (\<forall>t \<in> set ts. TI_DrawnCount t \<le> TI_WinnerCount t \<and> TI_DrawnCount t = tier_draws ds (TI_ID t)) \<and>
     (\<forall>x \<in> set ds. \<forall>tid. RD_PrizeTierID x = Some tid \<longrightarrow> tid \<in> TI_ID ` set ts)"

definition raffle_ok :: "db \<Rightarrow> bool" where
  "raffle_ok d \<longleftrightarrow> distinct (map RF_ID (t_raffles d)) \<and> entries_ok (t_raffle_entries d) \<and>
     draws_ok (t_raffle_entries d) (t_raffle_draws d) \<and> tiers_ok (t_raffle_draws d) (t_raffle_prize_tiers d) \<and>
     distinct (map RC_DrawID (t_raffle_claims d))"

lemma tier_draws_append [simp]:
  "tier_draws (ds @ [x]) tid = tier_draws ds tid + (if RD_PrizeTierID x = Some tid then 1 else 0)"
  by (simp add: tier_draws_def)

lemma tier_draws_none: "(\<And>x. x \<in> set ds \<Longrightarrow> RD_PrizeTierID x \<noteq> Some tid) \<Longrightarrow> tier_draws ds tid = 0"
  by (simp add: tier_draws_def filter_empty_conv)

lemma tier_draws_zero: "tier_draws ds tid = 0 \<Longrightarrow> x \<in> set ds \<Longrightarrow> RD_PrizeTierID x \<noteq> Some tid"
  by (auto simp: tier_draws_def filter_empty_conv)

section \<open>Requests on raffles\<close>

lemma GetByID_Inr [run_simps]:
  "GetByIDContext rid u w = (Inr r, w') \<longleftrightarrow> env_fault (w_env w) (w_tick w) = None \<and>
     find_raffle rid (w_db w) = Some r \<and> RF_UserID r = u \<and> w' = tick w"
  by (auto simp: GetByIDContext_def bnd_Inr orElse_query_Inr fail_Inr ret_Inr split: if_split_asm)

lemma find_raffleD: "find_raffle rid d = Some r \<Longrightarrow> r \<in> set (t_raffles d) \<and> RF_ID r = rid"
  by (auto simp: find_raffle_def dest: find_SomeD)

lemma preserves_GetByID [preserves_intros]: "preserves I (GetByIDContext rid u)"
  by (simp add: GetByIDContext_def preserves_bnd preserves_orElse preserves_query preserves_if preserves_fail preserves_ret)

lemma distinct_raffle_update:
  "(\<And>r. RF_ID (f r) = RF_ID r) \<Longrightarrow> distinct (map RF_ID (update_rows P f rs)) = distinct (map RF_ID rs)"
  by (simp add: map_update_rows)

lemma preserves_update_raffles:
  "(\<And>r. RF_ID (f r) = RF_ID r) \<Longrightarrow> preserves raffle_ok (update_raffles bad P f)"
  unfolding update_raffles_def
  by (rule preserves_update_where) (simp add: raffle_ok_def distinct_raffle_update)

lemma preserves_raffle_settings:
  "preserves raffle_ok (SetDiscordWebhookContext rid u url)"
  "preserves raffle_ok (ActivateContext rid u)"
  "preserves raffle_ok (CompleteContext rid u)"
  "preserves raffle_ok (SetModeContext rid u mode)"
  "preserves raffle_ok (SetEntryOpenContext rid u isOpen)"
  "preserves raffle_ok (promote rid)"
  unfolding SetDiscordWebhookContext_def ActivateContext_def CompleteContext_def SetModeContext_def
    SetEntryOpenContext_def promote_def Let_def
  by (intro preserves_intros preserves_update_raffles; simp)+

lemma preserves_RaffleCreate: "preserves raffle_ok (RaffleCreateContext u title)"
  unfolding RaffleCreateContext_def
  by (rule preserves_insert_row) (auto simp: raffle_ok_def raffle_conflict_def)

section \<open>Participants\<close>

lemma entries_ok_append:
  "entries_ok es \<Longrightarrow> RE_ID e \<notin> RE_ID ` set es \<Longrightarrow> \<not> list_ex (same_entry e) es \<Longrightarrow> entries_ok (es @ [e])"
  by (auto simp: entries_ok_def list_ex_iff same_entry_def)

lemma draws_ok_append_entry: "draws_ok es ds \<Longrightarrow> draws_ok (es @ [e]) ds"
  by (auto simp: draws_ok_def)

lemma preserves_importRow: "preserves raffle_ok (importRow rid rec res)"
  unfolding importRow_def Let_def
  by (intro preserves_intros preserves_insert_row)
    (auto simp: raffle_ok_def entry_conflict_def intro: entries_ok_append draws_ok_append_entry)

lemma preserves_importRows: "preserves raffle_ok (importRows rid rows e res)"
  by (induction rid rows e res rule: importRows.induct)
    (auto intro!: preserves_ret preserves_fail preserves_bnd preserves_importRow)

lemma preserves_ImportCSV: "preserves raffle_ok (ImportCSVContext rid u file)"
  unfolding ImportCSVContext_def by (intro preserves_intros preserves_importRows)

lemma insert_entry_Inr [run_simps]:
  "insert_entry row w = (Inr r, w') \<longleftrightarrow> env_fault (w_env w) (w_tick w) = None \<and>
    (let e = row (env_clock (w_env w) (w_tick w)) (env_uuid (w_env w) (w_tick w)); es = t_raffle_entries (w_db w) in
     entry_widths e = None \<and>
     (if list_ex (same_entry e) es then r = None \<and> w' = tick w
      else env_uuid (w_env w) (w_tick w) \<notin> RE_ID ` set es \<and> r = Some e \<and>
        w' = (tick w)\<lparr>w_db := (w_db w)\<lparr>t_raffle_entries := es @ [e]\<rparr>\<rparr>))"
  by (auto simp: insert_entry_def stmt_Inr Let_def tick_def split: option.splits if_splits)

lemma preserves_insert_entry:
  "(\<And>t i. RE_ID (row t i) = i) \<Longrightarrow> preserves raffle_ok (insert_entry row)"
  unfolding insert_entry_def
  by (rule preserves_stmt)
    (auto simp: raffle_ok_def Let_def split: option.splits if_splits intro: entries_ok_append draws_ok_append_entry)

lemma new_entry_sel [simp]:
  "RE_ID (new_entry rid uid l n s t i) = i" "RE_RaffleID (new_entry rid uid l n s t i) = rid"
  "RE_TwitchLogin (new_entry rid uid l n s t i) = l" "RE_UserID (new_entry rid uid l n s t i) = Some uid"
  "RE_Eligible (new_entry rid uid l n s t i)"
  by (simp_all add: new_entry_def)

lemma preserves_clearTokens:
  "(\<And>d f. I (t_auth_providers_update f d) = I d) \<Longrightarrow> preserves I (clearProviderTokensContext pid)"
  unfolding clearProviderTokensContext_def by (intro preserves_intros preserves_update_where) simp

lemma preserves_decrypted [preserves_intros]: "preserves I (decryptedProviderAccessToken s ap)"
  by (auto simp: decryptedProviderAccessToken_def intro!: preserves_intros split: option.split sum.split)

lemma preserves_requireSubscriber:
  "(\<And>d f. I (t_auth_providers_update f d) = I d) \<Longrightarrow> preserves I (requireSubscriber s r tw)"
  unfolding requireSubscriber_def by (intro preserves_intros preserves_clearTokens)

lemma raffle_ok_auth [simp]: "raffle_ok (t_auth_providers_update f d) = raffle_ok d"
  by (simp add: raffle_ok_def)

lemma preserves_JoinRaffle: "preserves raffle_ok (JoinRaffle s rid tw)"
  unfolding JoinRaffle_def
  by (intro preserves_intros preserves_requireSubscriber preserves_insert_entry) simp_all

lemma preserves_importSubs: "preserves raffle_ok (importSubs rid subs res)"
  by (induction rid subs res rule: importSubs.induct)
    (auto intro!: preserves_intros preserves_insert_entry split: option.split)

lemma preserves_syncPage: "preserves raffle_ok (syncPage s rid ap tok cur res)"
  unfolding syncPage_def by (intro preserves_intros preserves_clearTokens preserves_importSubs raffle_ok_auth)

section \<open>Draws\<close>

lemma recordDraw_Inr [run_simps]:
  "recordDraw rid tid e w = (Inr (x, raw), w') \<longleftrightarrow>
    (\<exists>tok t1 t2 i. raw = uuidText tok \<and>
       env_fault (w_env w) (w_tick w) = None \<and> tok = env_uuid (w_env w) (w_tick w) \<and>
       t1 = env_clock (w_env w) (Suc (w_tick w)) \<and> t2 = env_clock (w_env w) (Suc (Suc (w_tick w))) \<and>
       i = env_uuid (w_env w) (Suc (Suc (Suc (w_tick w)))) \<and>
       env_fault (w_env w) (Suc (Suc (Suc (w_tick w)))) = None \<and>
       x = \<lparr>RD_ID = i, RD_RaffleID = rid, RD_EntryID = RE_ID e, RD_ClaimToken = hashClaimToken raw,
         RD_ClaimExpiresAt = t1 + claimTokenTTL, RD_DrawnAt = t2, RD_PrizeTierID = tid\<rparr> \<and>
       draw_conflict (t_raffle_draws (w_db w)) x = None \<and>
       w' = (tick (tick (tick (tick w))))\<lparr>w_db := t_raffle_draws_update (\<lambda>ds. ds @ [x]) (w_db w)\<rparr>)"
proof -
  have NewV7: "NewV7 w = (Inr i, w1) \<longleftrightarrow>
      env_fault (w_env w) (w_tick w) = None \<and> i = env_uuid (w_env w) (w_tick w) \<and> w1 = tick w" for w i w1
    by (auto simp: NewV7_def split: option.splits)
  show ?thesis
    by (auto simp: recordDraw_def bnd_Inr NewV7 now_Inr insert_row_Inr ret_Inr tick_def)
qed

lemma query_random_iff:
  "query_random f w = (Inr r, w') \<longleftrightarrow> env_fault (w_env w) (w_tick w) = None \<and> w' = tick w \<and>
     r = (if f (w_db w) = [] then None else Some (f (w_db w) ! (env_rand (w_env w) (w_tick w) mod length (f (w_db w)))))"
  by (auto simp: query_random_def split: option.splits)

text \<open>What a draw does: one row, for an entry of the raffle that was not drawn.\<close>

definition drew :: "uuid \<Rightarrow> uuid option \<Rightarrow> DrawResult \<Rightarrow> db \<Rightarrow> db \<Rightarrow> bool" where
  "drew rid tid r d d' \<longleftrightarrow> DW_entry r \<in> set (undrawn rid d) \<and>
     RD_RaffleID (DW_draw r) = rid \<and> RD_EntryID (DW_draw r) = RE_ID (DW_entry r) \<and>
     RD_ClaimToken (DW_draw r) = hashClaimToken (DW_raw r) \<and> RD_PrizeTierID (DW_draw r) = tid \<and>
     draw_conflict (t_raffle_draws d) (DW_draw r) = None \<and>
     t_raffle_draws d' = t_raffle_draws d @ [DW_draw r] \<and>
     t_raffle_entries d' = t_raffle_entries d \<and> t_raffles d' = t_raffles d \<and> t_raffle_claims d' = t_raffle_claims d"

lemma drawAttempt_Inr:
  assumes "drawAttempt rid w = (Inr r, w')"
  shows "drew rid None r (w_db w) (w_db w') \<and> t_raffle_prize_tiers (w_db w') = t_raffle_prize_tiers (w_db w)"
proof -
  from assms obtain e w1 x raw where q: "query_random (undrawn rid) w = (Inr (Some e), w1)"
    and rec: "recordDraw rid None e w1 = (Inr (x, raw), w')"
    and r: "r = \<lparr>DW_draw = x, DW_raw = raw, DW_entry = e, DW_tier = None\<rparr>"
    by (auto simp: drawAttempt_def bnd_Inr fail_Inr ret_Inr split: option.splits if_split_asm)
  from query_random_Inr [OF q] have "w1 = tick w" "e \<in> set (undrawn rid (w_db w))" by auto
  with rec show ?thesis by (auto simp: recordDraw_Inr drew_def r)
qed

lemma tierAttempt_Inr:
  assumes "tierAttempt rid tier w = (Inr r, w')"
  shows "drew rid (Some (TI_ID tier)) r (w_db w) (w_db w') \<and>
    t_raffle_prize_tiers (w_db w') = update_rows (\<lambda>t. TI_ID t = TI_ID tier \<and> TI_DrawnCount t < TI_WinnerCount t)
      (\<lambda>t. t\<lparr>TI_DrawnCount := TI_DrawnCount t + 1\<rparr>) (t_raffle_prize_tiers (w_db w)) \<and>
    (\<exists>t \<in> set (t_raffle_prize_tiers (w_db w)). TI_ID t = TI_ID tier \<and> TI_DrawnCount t < TI_WinnerCount t)"
proof -
  from assms obtain wonIDs w0 e w1 x raw w2 n where won: "query (drawn_entries rid) w = (Inr wonIDs, w0)"
    and q: "query_random (\<lambda>d. filter (\<lambda>e. RE_RaffleID e = rid \<and> RE_ID e \<notin> set wonIDs) (t_raffle_entries d)) w0 = (Inr (Some e), w1)"
    and rec: "recordDraw rid (Some (TI_ID tier)) e w1 = (Inr (x, raw), w2)"
    and slot: "takeSlot (TI_ID tier) w2 = (Inr n, w')" "n \<noteq> 0"
    and r: "DW_draw r = x" "DW_raw r = raw" "DW_entry r = e"
    unfolding tierAttempt_def bnd_Inr orElse_Inr by (fastforce simp: fail_Inr ret_Inr bnd_Inr split: if_split_asm)
  from won have w0: "w0 = tick w" "wonIDs = drawn_entries rid (w_db w)" by (auto simp: query_Inr)
  from query_random_Inr [OF q] have "w1 = tick w0" "e \<in> set (undrawn rid (w_db w))" by (auto simp: w0 undrawn_def)
  with rec slot w0 show ?thesis
    by (auto simp: recordDraw_Inr drew_def r takeSlot_def update_where_Inr filter_empty_conv)
qed

lemma drawLoop_run:
  assumes "drawLoop n attempt stop w = (x, w')"
  shows "case x of Inl e \<Rightarrow> w_db w' = w_db w
    | Inr r \<Rightarrow> \<exists>w1 w2. attempt w1 = (Inr r, w2) \<and> w_db w1 = w_db w \<and> w_db w' = w_db w2"
  using assms
proof (induction n arbitrary: w)
  case 0
  then show ?case by (auto simp: fail_def)
next
  case (Suc n)
  obtain y w1 where t: "transaction attempt w = (y, w1)" by fastforce
  show ?case
  proof (cases y)
    case (Inl e)
    with t transaction_Inl have same: "w_db w1 = w_db w" by blast
    show ?thesis
    proof (cases "\<not> stop e \<and> errors_is e (DbE ErrDuplicatedKey)")
      case True
      with Suc.prems t Inl have "drawLoop n attempt stop w1 = (x, w')" by (simp add: handle_def)
      from Suc.IH [OF this] same show ?thesis by (auto split: sum.splits)
    next
      case False
      with Suc.prems t Inl have "x = Inl e" "w' = w1" by (auto simp: handle_def fail_def split: if_split_asm)
      with same show ?thesis by simp
    qed
  next
    case (Inr r)
    with Suc.prems t have x: "x = Inr r" "w' = w1" by (auto simp: handle_def ret_def)
    from transaction_Inr [OF t [unfolded Inr]] show ?thesis unfolding x by auto
  qed
qed

lemma drawn_entries_set: "x \<in> set (t_raffle_draws d) \<Longrightarrow> RD_RaffleID x = rid \<Longrightarrow> RD_EntryID x \<in> set (drawn_entries rid d)"
  by (auto simp: drawn_entries_def)

lemma drew_draws_ok:
  assumes "draws_ok (t_raffle_entries d) (t_raffle_draws d)" and "drew rid tid r d d'"
  shows "draws_ok (t_raffle_entries d') (t_raffle_draws d')"
proof -
  let ?x = "DW_draw r"
  from assms(2) have e: "DW_entry r \<in> set (t_raffle_entries d)" "RE_RaffleID (DW_entry r) = rid"
    "RD_RaffleID ?x = rid" "RD_EntryID ?x = RE_ID (DW_entry r)"
    and c: "draw_conflict (t_raffle_draws d) ?x = None"
    and d': "t_raffle_draws d' = t_raffle_draws d @ [?x]" "t_raffle_entries d' = t_raffle_entries d"
    by (auto simp: drew_def undrawn_def)
  from c have fresh: "RD_ID ?x \<notin> RD_ID ` set (t_raffle_draws d)" "RD_ClaimToken ?x \<notin> RD_ClaimToken ` set (t_raffle_draws d)"
    "(RD_RaffleID ?x, RD_EntryID ?x) \<notin> (\<lambda>x. (RD_RaffleID x, RD_EntryID x)) ` set (t_raffle_draws d)"
    by (auto simp: draw_conflict_def list_ex_iff)
  have "(RD_RaffleID ?x, RD_EntryID ?x) \<in> (\<lambda>e. (RE_RaffleID e, RE_ID e)) ` set (t_raffle_entries d)"
    using e by (intro image_eqI [of _ _ "DW_entry r"]) simp_all
  with assms(1) fresh show ?thesis by (simp add: draws_ok_def d')
qed

lemma drew_raffle_ok:
  assumes ok: "raffle_ok d" and drew: "drew rid None r d d'" and "t_raffle_prize_tiers d' = t_raffle_prize_tiers d"
  shows "raffle_ok d'"
proof -
  from drew have "t_raffle_draws d' = t_raffle_draws d @ [DW_draw r]" "RD_PrizeTierID (DW_draw r) = None"
    by (simp_all add: drew_def)
  then have "tiers_ok (t_raffle_draws d') (t_raffle_prize_tiers d')"
    using ok assms(3) by (auto simp: raffle_ok_def tiers_ok_def)
  then show ?thesis using ok drew drew_draws_ok [OF _ drew] by (simp add: raffle_ok_def drew_def)
qed

text \<open>A draw from a tier takes one of its slots.\<close>

lemma tier_drew_raffle_ok:
  assumes ok: "raffle_ok d" and drew: "drew rid (Some tid) r d d'"
    and ts: "t_raffle_prize_tiers d' = update_rows (\<lambda>t. TI_ID t = tid \<and> TI_DrawnCount t < TI_WinnerCount t)
      (\<lambda>t. t\<lparr>TI_DrawnCount := TI_DrawnCount t + 1\<rparr>) (t_raffle_prize_tiers d)"
    and slot: "\<exists>t \<in> set (t_raffle_prize_tiers d). TI_ID t = tid \<and> TI_DrawnCount t < TI_WinnerCount t"
  shows "raffle_ok d'"
proof -
  let ?ts = "t_raffle_prize_tiers d" and ?ds = "t_raffle_draws d"
  let ?P = "\<lambda>t. TI_ID t = tid \<and> TI_DrawnCount t < TI_WinnerCount t"
  let ?f = "\<lambda>t. t\<lparr>TI_DrawnCount := TI_DrawnCount t + 1\<rparr>"
  from drew have ds: "t_raffle_draws d' = ?ds @ [DW_draw r]" "RD_PrizeTierID (DW_draw r) = Some tid"
    by (simp_all add: drew_def)
  from ok have tok: "tiers_ok ?ds ?ts" by (simp add: raffle_ok_def)
  from slot obtain s where s: "s \<in> set ?ts" "?P s" by blast
  have P: "?P t" if "t \<in> set ?ts" "TI_ID t = tid" for t
    using tok s that distinct_map_unique [of TI_ID ?ts t s] by (auto simp: tiers_ok_def)
  have ids: "map TI_ID (update_rows ?P ?f ?ts) = map TI_ID ?ts" by (rule map_update_rows) simp
  have "tiers_ok (t_raffle_draws d') (t_raffle_prize_tiers d')"
    unfolding tiers_ok_def ds ts
  proof (intro conjI ballI allI impI)
    fix t assume "t \<in> set (update_rows ?P ?f ?ts)"
    then obtain u where u: "u \<in> set ?ts" "t = (if ?P u then ?f u else u)" by (auto simp: set_update_rows)
    show "TI_DrawnCount t \<le> TI_WinnerCount t" using u tok by (auto simp: tiers_ok_def)
    show "TI_DrawnCount t = tier_draws (?ds @ [DW_draw r]) (TI_ID t)"
      using u tok P [OF u(1)] ds(2) by (auto simp: tiers_ok_def)
  next
    fix x i assume "x \<in> set (?ds @ [DW_draw r])" "RD_PrizeTierID x = Some i"
    then have "i \<in> TI_ID ` set ?ts" using tok s ds(2) by (auto simp: tiers_ok_def)
    then show "i \<in> TI_ID ` set (update_rows ?P ?f ?ts)" using arg_cong [OF ids, of set] by simp
  qed (use tok ids in \<open>simp add: tiers_ok_def\<close>)
  then show ?thesis using ok drew drew_draws_ok [OF _ drew] by (simp add: raffle_ok_def drew_def)
qed

text \<open>The whole operations.\<close>

lemma DrawNext_run:
  assumes "DrawNext hm rid u w = (x, w')"
  shows "case x of Inl e \<Rightarrow> w_db w' = w_db w
    | Inr (r, jobs) \<Rightarrow> drew rid None r (w_db w) (w_db w') \<and> t_raffle_prize_tiers (w_db w') = t_raffle_prize_tiers (w_db w) \<and>
        (\<exists>rf. find_raffle rid (w_db w) = Some rf \<and> RF_UserID rf = u \<and> RF_Status rf \<noteq> RaffleStatusCompleted \<and>
          jobs = drawJobs hm rf r)"
proof (cases "GetByIDContext rid u w")
  case (Pair y w1)
  show ?thesis
  proof (cases y)
    case (Inl e)
    have "w_db w1 = w_db w"
      using preservesD [OF preserves_GetByID, of "\<lambda>d. d = w_db w" w rid u y w1] Pair by simp
    with Inl Pair assms show ?thesis by (auto simp: DrawNext_def bnd_def)
  next
    case (Inr rf)
    with Pair have g: "find_raffle rid (w_db w) = Some rf" "RF_UserID rf = u" "w_db w1 = w_db w"
      by (auto simp: GetByID_Inr)
    show ?thesis
    proof (cases "RF_Status rf = RaffleStatusCompleted")
      case True
      with assms Pair Inr g show ?thesis by (auto simp: DrawNext_def bnd_def fail_def)
    next
      case False
      obtain z w2 where l: "drawLoop drawMaxRetries (drawAttempt rid) (\<lambda>e. errors_is e (RaffleE ErrRaffleExhausted)) w1 = (z, w2)"
        by fastforce
      note L = drawLoop_run [OF l]
      show ?thesis
      proof (cases z)
        case (Inl e)
        with assms Pair Inr False l L g show ?thesis by (auto simp: DrawNext_def bnd_def)
      next
        case r: (Inr r)
        with assms Pair Inr False l have x: "x = Inr (r, drawJobs hm rf r)" "w' = w2"
          by (auto simp: DrawNext_def bnd_def ret_def)
        from L r obtain wa wb where "drawAttempt rid wa = (Inr r, wb)" "w_db wa = w_db w1" "w_db w2 = w_db wb" by auto
        with drawAttempt_Inr [OF this(1)] g False show ?thesis by (simp add: x)
      qed
    qed
  qed
qed

lemma preserves_DrawNext: "preserves raffle_ok (void (DrawNext hm rid u))"
proof (rule preserves_void, unfold preserves_def, intro allI impI)
  fix w :: world
  assume ok: "raffle_ok (w_db w)"
  obtain x w' where run: "DrawNext hm rid u w = (x, w')" by fastforce
  from DrawNext_run [OF run] drew_raffle_ok [OF ok] ok show "raffle_ok (w_db (snd (DrawNext hm rid u w)))"
    by (auto simp: run split: sum.splits prod.splits)
qed

lemma loadTier_Inr [run_simps]:
  "loadTier rid tid w = (Inr t, w') \<longleftrightarrow> env_fault (w_env w) (w_tick w) = None \<and> find_tier rid tid (w_db w) = Some t \<and> w' = tick w"
  by (simp add: loadTier_def orElse_query_Inr)

lemma preserves_loadTier [preserves_intros]: "preserves I (loadTier rid tid)"
  by (simp add: loadTier_def preserves_orElse preserves_query)

lemma find_tierD: "find_tier rid tid d = Some t \<Longrightarrow> t \<in> set (t_raffle_prize_tiers d) \<and> TI_ID t = tid \<and> TI_RaffleID t = rid"
  by (auto simp: find_tier_def dest: find_SomeD)

lemma keeps_drawLoop:
  assumes "keeps I attempt"
  shows "preserves I (drawLoop n attempt stop)"
  by (induction n) (auto intro!: preserves_intros preserves_transaction_keeps assms)

lemma keeps_tierAttempt: "keeps raffle_ok (tierAttempt rid tier)"
  unfolding keeps_def using tierAttempt_Inr tier_drew_raffle_ok by blast

lemma preserves_DrawFromTier: "preserves raffle_ok (DrawFromTierContext hm rid tid u)"
  unfolding DrawFromTierContext_def by (intro preserves_intros keeps_drawLoop keeps_tierAttempt)

section \<open>Prize tiers\<close>

lemma tiers_ok_append:
  assumes "tiers_ok ds ts" and "TI_ID t \<notin> TI_ID ` set ts" and "TI_DrawnCount t = 0" and "0 \<le> TI_WinnerCount t"
  shows "tiers_ok ds (ts @ [t])"
proof -
  have "tier_draws ds (TI_ID t) = 0" using assms(1,2) by (intro tier_draws_none) (auto simp: tiers_ok_def)
  with assms show ?thesis by (auto simp: tiers_ok_def)
qed

lemma preserves_CreatePrizeTier: "preserves raffle_ok (CreatePrizeTierContext rid u input)"
  unfolding CreatePrizeTierContext_def
  by (intro preserves_intros preserves_insert_row)
    (auto simp: raffle_ok_def tier_conflict_def intro!: tiers_ok_append)

lemma tiers_ok_delete:
  assumes "tiers_ok ds ts"
  shows "tiers_ok ds (filter (\<lambda>t. \<not> (TI_ID t = tid \<and> TI_RaffleID t = rid \<and> TI_DrawnCount t = 0)) ts)"
  unfolding tiers_ok_def
proof (intro conjI ballI allI impI)
  fix x i assume x: "x \<in> set ds" "RD_PrizeTierID x = Some i"
  with assms have "i \<in> TI_ID ` set ts" by (auto simp: tiers_ok_def)
  then obtain t where t: "t \<in> set ts" "TI_ID t = i" by auto
  with assms have "TI_DrawnCount t = tier_draws ds i" by (auto simp: tiers_ok_def)
  with x tier_draws_zero [of ds i x] have "TI_DrawnCount t \<noteq> 0" by auto
  with t show "i \<in> TI_ID ` set (filter (\<lambda>t. \<not> (TI_ID t = tid \<and> TI_RaffleID t = rid \<and> TI_DrawnCount t = 0)) ts)" by auto
qed (use assms in \<open>auto simp: tiers_ok_def distinct_map_filter\<close>)

lemma preserves_DeletePrizeTier: "preserves raffle_ok (DeletePrizeTierContext rid tid u)"
  unfolding DeletePrizeTierContext_def
  by (intro preserves_intros preserves_delete_where) (auto simp: raffle_ok_def intro: tiers_ok_delete [simplified])

lemma saveTier_Inr [run_simps]:
  "saveTier t w = (Inr u, w') \<longleftrightarrow> env_fault (w_env w) (w_tick w) = None \<and> tier_row_check t = None \<and>
    w' = (tick w)\<lparr>w_db := (w_db w)\<lparr>t_raffle_prize_tiers :=
      (if TI_ID t \<in> TI_ID ` set (t_raffle_prize_tiers (w_db w))
       then update_rows (\<lambda>x. TI_ID x = TI_ID t) (\<lambda>_. t) (t_raffle_prize_tiers (w_db w))
       else t_raffle_prize_tiers (w_db w) @ [t])\<rparr>\<rparr>"
  by (auto simp: saveTier_def stmt_Inr Let_def split: option.splits)

lemma tiers_ok_save:
  assumes ok: "tiers_ok ds ts" and s: "s \<in> set ts" and t: "TI_ID t = TI_ID s" "TI_DrawnCount t = TI_DrawnCount s"
    "TI_DrawnCount t \<le> TI_WinnerCount t"
  shows "tiers_ok ds (update_rows (\<lambda>x. TI_ID x = TI_ID t) (\<lambda>_. t) ts)"
proof -
  have "map TI_ID (update_rows (\<lambda>x. TI_ID x = TI_ID t) (\<lambda>_. t) ts) = map TI_ID ts" by (rule map_update_rows) simp
  moreover from this have "TI_ID ` set (update_rows (\<lambda>x. TI_ID x = TI_ID t) (\<lambda>_. t) ts) = TI_ID ` set ts"
    by (metis set_map)
  ultimately show ?thesis using ok s t by (auto simp: tiers_ok_def set_update_rows)
qed

lemma keeps_UpdatePrizeTier: "keeps raffle_ok (UpdatePrizeTierContext rid tid u input)"
  unfolding keeps_def
proof (intro allI impI)
  fix w a w' assume ok: "raffle_ok (w_db w)" and run: "UpdatePrizeTierContext rid tid u input w = (Inr a, w')"
  from run obtain s where s: "find_tier rid tid (w_db w) = Some s"
    and n: "\<not> (case UP_WinnerCount input of None \<Rightarrow> False | Some n \<Rightarrow> n < 1 \<or> n < TI_DrawnCount s)"
    and w': "w_db w' = (w_db w)\<lparr>t_raffle_prize_tiers := (if TI_ID s \<in> TI_ID ` set (t_raffle_prize_tiers (w_db w))
       then update_rows (\<lambda>x. TI_ID x = TI_ID (edited input s)) (\<lambda>_. edited input s) (t_raffle_prize_tiers (w_db w))
       else t_raffle_prize_tiers (w_db w) @ [edited input s])\<rparr>"
    by (auto simp: UpdatePrizeTierContext_def bnd_Inr GetByID_Inr loadTier_Inr saveTier_Inr fail_Inr ret_Inr edited_def
        split: if_split_asm)
  from find_tierD [OF s] have "s \<in> set (t_raffle_prize_tiers (w_db w))" by blast
  moreover have "TI_DrawnCount (edited input s) \<le> TI_WinnerCount (edited input s)"
    using ok calculation n by (auto simp: raffle_ok_def tiers_ok_def edited_def split: option.splits)
  ultimately show "raffle_ok (w_db w')"
    using ok tiers_ok_save [of _ _ s "edited input s"] by (auto simp: raffle_ok_def w' edited_def)
qed

lemma UpdatePrizeTier_Inl: "UpdatePrizeTierContext rid tid u input w = (Inl e, w') \<Longrightarrow> w_db w' = w_db w"
proof -
  assume run: "UpdatePrizeTierContext rid tid u input w = (Inl e, w')"
  have g: "w_db w1 = w_db w0" if "GetByIDContext rid u w0 = (y, w1)" for y w0 w1
    using preservesD [OF preserves_GetByID, of "\<lambda>d. d = w_db w0" w0 rid u y w1] that by simp
  have l: "w_db w1 = w_db w0" if "loadTier rid tid w0 = (y, w1)" for y w0 w1
    using preservesD [OF preserves_loadTier, of "\<lambda>d. d = w_db w0" w0 rid tid y w1] that by simp
  have s: "w_db w1 = w_db w0" if "saveTier t w0 = (Inl e', w1)" for t e' w0 w1
    using that by (auto simp: saveTier_def stmt_def Let_def split: option.splits)
  from run show ?thesis
    unfolding UpdatePrizeTierContext_def bnd_run
    by (auto simp: bnd_run fail_run ret_run split: if_split_asm dest!: g l s)
qed

lemma preserves_UpdatePrizeTier: "preserves raffle_ok (UpdatePrizeTierContext rid tid u input)"
  by (rule preserves_atomic [OF UpdatePrizeTier_Inl keeps_UpdatePrizeTier])

section \<open>The winner's claim\<close>

lemma preserves_GetDrawByToken [preserves_intros]: "preserves I (GetDrawByTokenContext tok)"
  unfolding GetDrawByTokenContext_def by (intro preserves_intros)

lemma preserves_SubmitClaim: "preserves raffle_ok (SubmitClaimContext tok u input)"
  unfolding SubmitClaimContext_def Let_def
  by (intro preserves_intros preserves_insert_row) (auto simp: raffle_ok_def raffle_claim_conflict_def)

section \<open>Every request\<close>

datatype raffle_request =
  CreateRaffle uuid string
| SetDiscordWebhook uuid uuid string
| Activate uuid uuid
| Complete uuid uuid
| SetMode uuid uuid RaffleMode
| SetEntryOpen uuid uuid bool
| ImportCSV uuid uuid string
| Draw uuid uuid
| SubmitClaim string uuid ClaimInput
| CreatePrizeTier uuid uuid CreatePrizeTierInput
| UpdatePrizeTier uuid uuid uuid UpdatePrizeTierInput
| DeletePrizeTier uuid uuid uuid
| DrawFromTier uuid uuid uuid
| Join uuid string

fun raffle_op :: "RaffleServices \<Rightarrow> bool \<Rightarrow> raffle_request \<Rightarrow> unit m" where
  "raffle_op s hm (CreateRaffle u title) = void (RaffleCreateContext u title)"
| "raffle_op s hm (SetDiscordWebhook r u url) = void (SetDiscordWebhookContext r u url)"
| "raffle_op s hm (Activate r u) = void (ActivateContext r u)"
| "raffle_op s hm (Complete r u) = void (CompleteContext r u)"
| "raffle_op s hm (SetMode r u mode) = void (SetModeContext r u mode)"
| "raffle_op s hm (SetEntryOpen r u isOpen) = void (SetEntryOpenContext r u isOpen)"
| "raffle_op s hm (ImportCSV r u file) = void (ImportCSVContext r u file)"
| "raffle_op s hm (Draw r u) = void (DrawNext hm r u)"
| "raffle_op s hm (SubmitClaim token u input) = void (SubmitClaimContext token u input)"
| "raffle_op s hm (CreatePrizeTier r u input) = void (CreatePrizeTierContext r u input)"
| "raffle_op s hm (UpdatePrizeTier r t u input) = void (UpdatePrizeTierContext r t u input)"
| "raffle_op s hm (DeletePrizeTier r t u) = void (DeletePrizeTierContext r t u)"
| "raffle_op s hm (DrawFromTier r t u) = void (DrawFromTierContext hm r t u)"
| "raffle_op s hm (Join r tw) = void (JoinRaffle s r tw)"

lemmas raffle_preserves = preserves_void preserves_RaffleCreate preserves_raffle_settings preserves_ImportCSV
  preserves_DrawNext preserves_SubmitClaim preserves_CreatePrizeTier preserves_UpdatePrizeTier
  preserves_DeletePrizeTier preserves_DrawFromTier preserves_JoinRaffle

lemma raffle_op_ok: "preserves raffle_ok (raffle_op s hm r)"
  by (cases r) (simp_all add: raffle_preserves)

interpretation raffle_requests: service "raffle_op s hm" raffle_ok for s hm
  by unfold_locales (rule raffle_op_ok)

section \<open>Every event\<close>

text \<open>
  Besides the requests, the snapshots write the tables of the raffles: the one that a streamer asks for, and
  the scheduler's run. A scheduler's run takes a while and its statements interleave with requests, so that its
  parts are events as well: the snapshot of one raffle, as the run read it some time before, the import of one page
  of subscribers, and the promotion at the end.
\<close>

datatype raffle_event =
  RaffleRequest raffle_request
| Snapshot uuid uuid
| SchedulerRun
| SnapshotOne Raffle
| SubscribersPage uuid AuthProvider string string SyncFromTwitchResult
| Promote uuid

fun raffle_step :: "RaffleServices \<Rightarrow> bool \<Rightarrow> raffle_event \<Rightarrow> world \<Rightarrow> world option" where
  "raffle_step s hm (RaffleRequest r) w = Some (snd (raffle_op s hm r w))"
| "raffle_step s hm (Snapshot rid u) w = map_option snd (SyncFromTwitchAPI s rid u w)"
| "raffle_step s hm SchedulerRun w = runOnce s w"
| "raffle_step s hm (SnapshotOne r) w = map_option snd (snapshotOne s r w)"
| "raffle_step s hm (SubscribersPage rid ap accessToken cursor result) w =
     Some (snd (syncPage s rid ap accessToken cursor result w))"
| "raffle_step s hm (Promote rid) w = Some (snd (promote rid w))"

text \<open>\<open>snapshots I\<close>: the statements of a snapshot keep \<open>I\<close>. Then so does every snapshot that returns.\<close>

definition snapshots :: "(db \<Rightarrow> bool) \<Rightarrow> bool" where
  "snapshots I \<longleftrightarrow> (\<forall>s rid ap accessToken cursor result. preserves I (syncPage s rid ap accessToken cursor result)) \<and>
     (\<forall>rid. preserves I (promote rid)) \<and> (\<forall>d f. I (t_auth_providers_update f d) = I d)"

lemma snapshotsD:
  "snapshots I \<Longrightarrow> preserves I (syncPage s rid ap accessToken cursor result)"
  "snapshots I \<Longrightarrow> preserves I (promote rid)"
  "snapshots I \<Longrightarrow> I (t_auth_providers_update f d) = I d"
  by (auto simp: snapshots_def)

lemma syncPages_inv:
  assumes page: "\<And>cursor res. preserves I (syncPage s rid ap tok cursor res)"
    and run: "syncPages s rid ap tok cursor res w = Some (r, w')" and I: "I (w_db w)"
  shows "I (w_db w')"
proof -
  have "I (w_db w) \<longrightarrow> I (w_db (snd (r, w')))"
  proof (rule syncPages.raw_induct [where P = "\<lambda>s' rid' ap' tok' cursor res w y.
      s' = s \<and> rid' = rid \<and> ap' = ap \<and> tok' = tok \<longrightarrow> I (w_db w) \<longrightarrow> I (w_db (snd y))", OF _ run, THEN mp])
    fix f s' rid' ap' tok' cursor res w y
    assume IH: "\<And>s' rid' ap' tok' cursor res w y. f s' rid' ap' tok' cursor res w = Some y \<Longrightarrow>
        s' = s \<and> rid' = rid \<and> ap' = ap \<and> tok' = tok \<longrightarrow> I (w_db w) \<longrightarrow> I (w_db (snd y))"
      and step: "(case syncPage s' rid' ap' tok' cursor res w of
          (Inl e, w') \<Rightarrow> Some (Inl e, w')
        | (Inr (result', nextCursor), w') \<Rightarrow>
            if nextCursor = [] then Some (Inr result', w')
            else f s' rid' ap' tok' nextCursor result' w') = Some y"
    show "s' = s \<and> rid' = rid \<and> ap' = ap \<and> tok' = tok \<longrightarrow> I (w_db w) \<longrightarrow> I (w_db (snd y))"
    proof (intro impI)
      assume eq: "s' = s \<and> rid' = rid \<and> ap' = ap \<and> tok' = tok" and I: "I (w_db w)"
      obtain x w1 where one: "syncPage s rid ap tok cursor res w = (x, w1)" by fastforce
      have I1: "I (w_db w1)" by (rule preservesD [where I = I, OF page I one])
      with step eq one show "I (w_db (snd y))"
        by (auto split: sum.splits prod.splits if_splits dest: IH)
    qed
  qed simp
  with I show ?thesis by simp
qed

lemma preserves_syncToken:
  "(\<And>d f. I (t_auth_providers_update f d) = I d) \<Longrightarrow> preserves I (syncToken s rid u)"
  unfolding syncToken_def by (intro preserves_intros preserves_clearTokens)

lemma Sync_inv:
  assumes "snapshots I" and run: "SyncFromTwitchAPI s rid u w = Some (r, w')" and I: "I (w_db w)"
  shows "I (w_db w')"
proof -
  obtain x w1 where tok: "syncToken s rid u w = (x, w1)" by fastforce
  have I1: "I (w_db w1)"
    by (rule preservesD [where I = I, OF preserves_syncToken [OF snapshotsD(3) [OF assms(1)]] I tok])
  show ?thesis
    using run tok I1 syncPages_inv [where I = I, OF snapshotsD(1) [OF assms(1)] _ I1]
    by (auto simp: SyncFromTwitchAPI_def next_loop_def split: sum.splits prod.splits)
qed

lemma snapshotOne_cases:
  assumes "snapshotOne s r w = Some (y, w')"
  obtains (other) e where "RF_Source r \<noteq> RaffleSourceTwitchAPI" "y = Inl e" "w' = w"
  | (failed) e where "SyncFromTwitchAPI s (RF_ID r) (RF_UserID r) w = Some (Inl e, w')" "y = Inl e"
  | (synced) res w1 where "SyncFromTwitchAPI s (RF_ID r) (RF_UserID r) w = Some (Inr res, w1)" "promote (RF_ID r) w1 = (y, w')"
proof (cases "RF_Source r")
  case RaffleSourceTwitchAPI
  with assms failed synced show thesis by (auto simp: snapshotOne_def split: option.splits sum.splits)
qed (use assms other in \<open>auto simp: snapshotOne_def\<close>)

lemma snapshotOne_inv:
  assumes "snapshots I" and run: "snapshotOne s r w = Some (y, w')" and I: "I (w_db w)"
  shows "I (w_db w')"
  using run
proof (cases rule: snapshotOne_cases)
  case (synced res w1)
  from Sync_inv [where I = I, OF assms(1) synced(1) I] have "I (w_db w1)" .
  from preservesD [where I = I, OF snapshotsD(2) [OF assms(1)] this synced(2)] show ?thesis .
qed (use I Sync_inv [where I = I, OF assms(1)] in auto)

lemma snapshotAll_inv:
  assumes "snapshots I"
  shows "snapshotAll s rs failed w = Some (y, w') \<Longrightarrow> I (w_db w) \<Longrightarrow> I (w_db w')"
proof (induction s rs failed w rule: snapshotAll.induct)
  case (2 s r rs failed w)
  then show ?case
    by (auto split: option.splits sum.splits dest: snapshotOne_inv [OF assms])
qed auto

lemma runOnce_inv:
  assumes "snapshots I" and run: "runOnce s w = Some w'" and I: "I (w_db w)"
  shows "I (w_db w')"
proof -
  define d where "d = env_clock (w_env w) (w_tick w) + runTimeout"
  define w0 where "w0 = (tick (tick w))\<lparr>w_env := by_deadline d (w_env w)\<rparr>"
  have I0: "I (w_db w0)" using I by (simp add: w0_def)
  from run obtain y w1 where run1: "RunScheduledSnapshots (with_deadline d (w_env w) s)
      (env_clock (w_env w) (Suc (w_tick w))) w0 = Some (y, w1)" and w': "w_db w' = w_db w1"
    by (auto simp: runOnce_def Let_def d_def w0_def split: option.splits)
  obtain x w2 where q: "query (due_raffles (env_clock (w_env w) (Suc (w_tick w)) + 10 * minute)) w0 = (x, w2)" by fastforce
  have I2: "I (w_db w2)" by (rule preservesD [where I = I, OF preserves_query I0 q])
  from run1 q I2 have "I (w_db w1)"
    by (auto simp: RunScheduledSnapshots_def next_loop_def split: sum.splits option.splits dest: snapshotAll_inv [OF assms(1)])
  then show ?thesis by (simp add: w')
qed

lemma raffle_step_inv:
  assumes "snapshots I" and "\<And>r. preserves I (raffle_op s hm r)" and I: "I (w_db w)" and "raffle_step s hm e w = Some w'"
  shows "I (w_db w')"
proof (cases e)
  case (RaffleRequest r)
  with assms(4) assms(2) [of r] I show ?thesis by (auto simp: preserves_def)
next
  case (SubscribersPage rid ap tok cursor res)
  with assms(4) snapshotsD(1) [OF assms(1), of s rid ap tok cursor res] I show ?thesis by (auto simp: preserves_def)
next
  case (Promote rid)
  with assms(4) snapshotsD(2) [OF assms(1), of rid] I show ?thesis by (auto simp: preserves_def)
qed (use assms(4) I in \<open>auto dest: Sync_inv [OF assms(1)] runOnce_inv [OF assms(1)] snapshotOne_inv [OF assms(1)]\<close>)

lemma raffle_ok_snapshots: "snapshots raffle_ok"
  by (simp add: snapshots_def preserves_syncPage preserves_raffle_settings)

interpretation raffles: event_service "raffle_step s hm" raffle_ok for s hm
  by unfold_locales (rule raffle_step_inv [OF raffle_ok_snapshots raffle_op_ok])

section \<open>The state machine\<close>

inductive status_step :: "RaffleStatus \<Rightarrow> RaffleStatus \<Rightarrow> bool" where
  activate: "status_step RaffleStatusDraft RaffleStatusActive"
| skip: "status_step RaffleStatusDraft RaffleStatusCompleted"
| complete: "status_step RaffleStatusActive RaffleStatusCompleted"

inductive_cases status_step_completed: "status_step RaffleStatusCompleted s"
inductive_cases status_step_draft: "status_step s RaffleStatusDraft"

lemma completed_final: "status_step\<^sup>*\<^sup>* RaffleStatusCompleted s \<Longrightarrow> s = RaffleStatusCompleted"
  by (induction rule: rtranclp_induct) (auto elim: status_step_completed)

lemma to_completed: "status_step\<^sup>*\<^sup>* s RaffleStatusCompleted"
  by (cases s) (auto intro: status_step.intros)

definition evolves :: "db \<Rightarrow> db \<Rightarrow> bool" where
  "evolves d0 d \<longleftrightarrow> (\<forall>r \<in> set (t_raffles d0). \<exists>r' \<in> set (t_raffles d).
     RF_ID r' = RF_ID r \<and> RF_UserID r' = RF_UserID r \<and> status_step\<^sup>*\<^sup>* (RF_Status r) (RF_Status r'))"

lemma evolves_refl: "evolves d d"
  by (auto simp: evolves_def)

lemma evolves_cong: "t_raffles d' = t_raffles d \<Longrightarrow> evolves d0 d' = evolves d0 d"
  by (simp add: evolves_def)

lemma evolves_frame [simp]:
  "evolves d0 (t_raffle_entries_update f d) = evolves d0 d" "evolves d0 (t_raffle_draws_update g d) = evolves d0 d"
  "evolves d0 (t_raffle_claims_update h d) = evolves d0 d" "evolves d0 (t_raffle_prize_tiers_update i d) = evolves d0 d"
  "evolves d0 (t_auth_providers_update j d) = evolves d0 d"
  by (simp_all add: evolves_def)

lemma preserves_evolves_update:
  assumes "\<And>r. RF_ID (f r) = RF_ID r" and "\<And>r. RF_UserID (f r) = RF_UserID r"
    and "\<And>r. P r \<Longrightarrow> status_step\<^sup>*\<^sup>* (RF_Status r) (RF_Status (f r))"
  shows "preserves (evolves d0) (update_raffles bad P f)"
  unfolding update_raffles_def
proof (rule preserves_update_where)
  fix d t assume "evolves d0 d"
  show "evolves d0 (t_raffles_update (update_rows P f) d)"
    unfolding evolves_def
  proof
    fix r assume "r \<in> set (t_raffles d0)"
    with \<open>evolves d0 d\<close> obtain r1 where r1: "r1 \<in> set (t_raffles d)" "RF_ID r1 = RF_ID r" "RF_UserID r1 = RF_UserID r"
      "status_step\<^sup>*\<^sup>* (RF_Status r) (RF_Status r1)" by (auto simp: evolves_def)
    let ?r = "if P r1 then f r1 else r1"
    have "?r \<in> set (t_raffles (t_raffles_update (update_rows P f) d))" using r1(1) by (auto simp: set_update_rows)
    moreover have "RF_ID ?r = RF_ID r" "RF_UserID ?r = RF_UserID r" using r1 assms(1,2) by auto
    moreover have "status_step\<^sup>*\<^sup>* (RF_Status r) (RF_Status ?r)" using r1(4) assms(3) [of r1] by (auto intro: rtranclp_trans)
    ultimately show "\<exists>r' \<in> set (t_raffles (t_raffles_update (update_rows P f) d)).
      RF_ID r' = RF_ID r \<and> RF_UserID r' = RF_UserID r \<and> status_step\<^sup>*\<^sup>* (RF_Status r) (RF_Status r')" by blast
  qed
qed

lemma evolves_settings:
  "preserves (evolves d0) (SetDiscordWebhookContext rid u url)"
  "preserves (evolves d0) (ActivateContext rid u)"
  "preserves (evolves d0) (CompleteContext rid u)"
  "preserves (evolves d0) (SetModeContext rid u mode)"
  "preserves (evolves d0) (SetEntryOpenContext rid u isOpen)"
  "preserves (evolves d0) (promote rid)"
  unfolding SetDiscordWebhookContext_def ActivateContext_def CompleteContext_def SetModeContext_def
    SetEntryOpenContext_def promote_def Let_def
  by (intro preserves_intros preserves_evolves_update; auto intro: status_step.intros to_completed)+

lemma evolves_create: "preserves (evolves d0) (RaffleCreateContext u title)"
  unfolding RaffleCreateContext_def by (rule preserves_insert_row) (auto simp: evolves_def)

lemma evolves_importRow: "preserves (evolves d0) (importRow rid rec res)"
  unfolding importRow_def Let_def by (intro preserves_intros preserves_insert_row) simp

lemma evolves_importRows: "preserves (evolves d0) (importRows rid rows e res)"
  by (induction rid rows e res rule: importRows.induct)
    (auto intro!: preserves_ret preserves_fail preserves_bnd evolves_importRow)

lemma evolves_import: "preserves (evolves d0) (ImportCSVContext rid u file)"
  unfolding ImportCSVContext_def by (intro preserves_intros evolves_importRows)

lemma evolves_insert_entry: "preserves (evolves d0) (insert_entry row)"
  unfolding insert_entry_def
  by (rule preserves_stmt) (auto simp: Let_def split: option.splits if_splits)

lemma evolves_join: "preserves (evolves d0) (JoinRaffle s rid tw)"
  unfolding JoinRaffle_def
  by (intro preserves_intros preserves_requireSubscriber evolves_insert_entry) simp_all

lemma keepsI: "(\<And>w r w'. I (w_db w) \<Longrightarrow> x w = (Inr r, w') \<Longrightarrow> I (w_db w')) \<Longrightarrow> keeps I x"
  unfolding keeps_def by blast

lemma drew_raffles: "drew rid tid r d d' \<Longrightarrow> t_raffles d' = t_raffles d"
  by (simp add: drew_def)

lemma evolves_attempts: "keeps (evolves d0) (drawAttempt rid)" "keeps (evolves d0) (tierAttempt rid t)"
proof -
  show "keeps (evolves d0) (drawAttempt rid)"
  proof (rule keepsI)
    fix w w' :: world and r assume e: "evolves d0 (w_db w)" and "drawAttempt rid w = (Inr r, w')"
    from evolves_cong [OF drew_raffles [OF conjunct1 [OF drawAttempt_Inr [OF this(2)]]]] e show "evolves d0 (w_db w')" by blast
  qed
  show "keeps (evolves d0) (tierAttempt rid t)"
  proof (rule keepsI)
    fix w w' :: world and r assume e: "evolves d0 (w_db w)" and "tierAttempt rid t w = (Inr r, w')"
    from evolves_cong [OF drew_raffles [OF conjunct1 [OF tierAttempt_Inr [OF this(2)]]]] e show "evolves d0 (w_db w')" by blast
  qed
qed

lemma evolves_draws:
  "preserves (evolves d0) (void (DrawNext hm rid u))" "preserves (evolves d0) (DrawFromTierContext hm rid tid u)"
  unfolding DrawNext_def DrawFromTierContext_def by (intro preserves_intros keeps_drawLoop evolves_attempts; assumption)+

lemma evolves_tiers:
  "preserves (evolves d0) (CreatePrizeTierContext rid u input)"
  "preserves (evolves d0) (UpdatePrizeTierContext rid tid u input')"
  "preserves (evolves d0) (DeletePrizeTierContext rid tid u)"
  "preserves (evolves d0) (SubmitClaimContext tok u input'')"
proof -
  have "preserves (evolves d0) (saveTier t)" for t
    unfolding saveTier_def by (rule preserves_stmt) (auto simp: Let_def split: option.splits)
  then show "preserves (evolves d0) (UpdatePrizeTierContext rid tid u input')"
    unfolding UpdatePrizeTierContext_def by (intro preserves_intros)
qed (unfold CreatePrizeTierContext_def DeletePrizeTierContext_def SubmitClaimContext_def Let_def,
    (intro preserves_intros preserves_insert_row preserves_delete_where; simp)+)

lemmas raffle_evolves = preserves_void evolves_settings evolves_create evolves_import evolves_join evolves_draws evolves_tiers

lemma raffle_op_evolves: "preserves (evolves d0) (raffle_op s hm r)"
  by (cases r) (simp_all add: raffle_evolves)

lemma evolves_importSubs: "preserves (evolves d0) (importSubs rid subs res)"
  by (induction rid subs res rule: importSubs.induct)
    (auto intro!: preserves_intros evolves_insert_entry split: option.split)

lemma evolves_syncPage: "preserves (evolves d0) (syncPage s rid ap tok cur res)"
  unfolding syncPage_def by (intro preserves_intros preserves_clearTokens evolves_importSubs evolves_frame)

lemma evolves_snapshots: "snapshots (evolves d0)"
  by (simp add: snapshots_def evolves_syncPage evolves_settings)

interpretation raffle_status: evolving_service "raffle_step s hm" raffle_ok evolves for s hm
  by unfold_locales (use raffle_step_inv [OF evolves_snapshots raffle_op_evolves] evolves_refl in blast)+

section \<open>Counting\<close>

definition raffle_draws :: "uuid \<Rightarrow> db \<Rightarrow> RaffleDraw list" where
  "raffle_draws rid d = filter (\<lambda>x. RD_RaffleID x = rid) (t_raffle_draws d)"

definition raffle_entries :: "uuid \<Rightarrow> db \<Rightarrow> RaffleEntry list" where
  "raffle_entries rid d = filter (\<lambda>e. RE_RaffleID e = rid) (t_raffle_entries d)"

lemma draws_account:
  assumes "raffle_ok d"
  shows "length (raffle_draws rid d) + length (undrawn rid d) = length (raffle_entries rid d)"
proof -
  let ?E = "raffle_entries rid d" and ?D = "raffle_draws rid d"
  have de: "distinct (map RE_ID ?E)" and dd: "distinct (map RD_EntryID ?D)"
  proof -
    show "distinct (map RE_ID ?E)" using assms by (auto simp: raffle_ok_def entries_ok_def raffle_entries_def distinct_map_filter)
    have "distinct (map (\<lambda>x. (RD_RaffleID x, RD_EntryID x)) ?D)"
      using assms by (auto simp: raffle_ok_def draws_ok_def raffle_draws_def distinct_map_filter)
    then show "distinct (map RD_EntryID ?D)" by (auto simp: distinct_map inj_on_def raffle_draws_def)
  qed
  have sub: "RD_EntryID ` set ?D \<subseteq> RE_ID ` set ?E"
    using assms by (force simp: raffle_ok_def draws_ok_def raffle_draws_def raffle_entries_def image_iff subset_iff)
  have "undrawn rid d = filter (\<lambda>e. RE_ID e \<notin> RD_EntryID ` set ?D) ?E"
    by (auto simp: undrawn_def raffle_entries_def drawn_entries_def raffle_draws_def intro!: filter_cong)
  then have "length (undrawn rid d) = card (RE_ID ` set (filter (\<lambda>e. RE_ID e \<notin> RD_EntryID ` set ?D) ?E))"
    using de by (metis distinct_card distinct_map_filter length_map set_map)
  also have "RE_ID ` set (filter (\<lambda>e. RE_ID e \<notin> RD_EntryID ` set ?D) ?E) = RE_ID ` set ?E - RD_EntryID ` set ?D"
    by auto
  also have "card \<dots> = card (RE_ID ` set ?E) - card (RD_EntryID ` set ?D)"
    using sub by (simp add: card_Diff_subset)
  also have "card (RE_ID ` set ?E) = length ?E" using de by (metis distinct_card length_map set_map)
  also have "card (RD_EntryID ` set ?D) = length ?D" using dd by (metis distinct_card length_map set_map)
  finally have "length (undrawn rid d) = length ?E - length ?D" .
  moreover have "length ?D \<le> length ?E"
    using card_mono [OF _ sub] de dd by (metis List.finite_set finite_imageI distinct_card length_map set_map)
  ultimately show ?thesis by simp
qed

end
