(* ===== verification/RaffleProps.thy ===== *)
theory RaffleProps
  imports RaffleFacts
begin

text \<open>
  The properties of the raffles that follow from the invariant and the state machine of
  \<^verbatim>\<open>RaffleFacts\<close>: who can win, what a draw and a tier draw change, that a draw succeeds as long as
  somebody is left, who may submit a claim, who may join, and what one run of the scheduler does before it returns.
\<close>

section \<open>A raffle\<close>

text \<open>Raffle 7 of streamer 1 is active and open, has the entries of two viewers and one prize.\<close>

definition raffle_7 :: db where
  "raffle_7 = empty_db\<lparr>
     t_raffles := [\<lparr>RF_ID = 7, RF_UserID = 11, RF_Title = ''keys'', RF_Status = RaffleStatusActive,
       RF_Source = RaffleSourceTwitchAPI, RF_Mode = RaffleModePublic, RF_WinnerCount = 2, RF_EntryOpen = True,
       RF_ScheduledAt = None, RF_DiscordWebhookURL = None, RF_CreatedAt = 0\<rparr>],
     t_raffle_entries := [new_entry 7 5 ''ann'' ''Ann'' [] 0 20, new_entry 7 6 ''bob'' ''Bob'' [] 0 21],
     t_raffle_prize_tiers := [\<lparr>TI_ID = 40, TI_RaffleID = 7, TI_Name = ''gold'', TI_PrizeDescription = ''key'',
       TI_WinnerCount = 3, TI_DrawnCount = 0, TI_Position = 3, TI_CreatedAt = 0\<rparr>]\<rparr>"

lemma raffle_7_ok: "raffle_ok raffle_7"
  by (simp add: raffle_ok_def entries_ok_def draws_ok_def tiers_ok_def tier_draws_def raffle_7_def empty_db_def new_entry_def)

lemma raffle_7_sel [simp]:
  "find_raffle 7 raffle_7 = Some (t_raffles raffle_7 ! 0)" "RF_UserID (t_raffles raffle_7 ! 0) = 11"
  "RF_Status (t_raffles raffle_7 ! 0) = RaffleStatusActive" "t_raffle_draws raffle_7 = []"
  "undrawn 7 raffle_7 = t_raffle_entries raffle_7" "length (t_raffle_entries raffle_7) = 2"
  by (simp_all add: find_raffle_def undrawn_def drawn_entries_def raffle_7_def empty_db_def new_entry_def)

section \<open>Sequences of requests\<close>

text \<open>C12. Whatever happens to the raffles - requests, snapshots that a streamer asks for, runs of the scheduler and
  parts of them between requests - and whatever fails in it, nobody is drawn twice in a raffle, so that
  the draws of a raffle and the entries that are left add up to its entries, and every prize tier
  has exactly as many draws as its counter says and never more than its quota.\<close>

theorem raffle_requests_invariant:
  assumes "raffle_ok (w_db w)" and "serve_events (raffle_step s hm) es w = Some w'"
  shows "let d = w_db w' in
     raffle_ok d \<and>
     (\<forall>rid. length (raffle_draws rid d) + length (undrawn rid d) = length (raffle_entries rid d)) \<and>
     (\<forall>t \<in> set (t_raffle_prize_tiers d). tier_draws (t_raffle_draws d) (TI_ID t) = TI_DrawnCount t \<and>
        TI_DrawnCount t \<le> TI_WinnerCount t)"
proof -
  have "raffle_ok (w_db w')" by (rule raffles.events_inv [OF assms])
  then show ?thesis unfolding Let_def
    by (intro conjI allI ballI draws_account) (auto simp: raffle_ok_def tiers_ok_def)
qed

theorem raffle_requests_invariant_witness:
  "\<forall>s hm. \<exists>w'. serve_events (raffle_step s hm) [RaffleRequest (Draw 7 11), Promote 7, RaffleRequest (DrawFromTier 7 40 11)]
       (start (\<lambda>n. int n) raffle_7) = Some w' \<and> raffle_ok (w_db w')"
proof (intro allI)
  fix s hm
  let ?es = "[RaffleRequest (Draw 7 11), Promote 7, RaffleRequest (DrawFromTier 7 40 11)]"
  obtain w' where run: "serve_events (raffle_step s hm) ?es (start (\<lambda>n. int n) raffle_7) = Some w'" by simp
  have "raffle_ok (w_db (start (\<lambda>n. int n) raffle_7))" by (simp add: raffle_7_ok)
  from raffle_requests_invariant [OF this run]
  show "\<exists>w'. serve_events (raffle_step s hm) ?es (start (\<lambda>n. int n) raffle_7) = Some w' \<and> raffle_ok (w_db w')"
    using run unfolding Let_def by blast
qed

lemma find_raffle_unique: "raffle_ok d \<Longrightarrow> r \<in> set (t_raffles d) \<Longrightarrow> find_raffle (RF_ID r) d = Some r"
  unfolding find_raffle_def raffle_ok_def by (rule find_unique) (auto dest: distinct_map_unique)

text \<open>C13. A raffle is never lost and never changes its owner, and its status only moves from draft to
  active to completed or from draft to completed, whatever requests, snapshots and parts of scheduler runs follow each other:
  a completed raffle stays completed, also when a run that read it as a draft promotes it afterwards.\<close>

theorem raffle_status_forward:
  assumes "raffle_ok (w_db w)" and "find_raffle rid (w_db w) = Some r"
    and "serve_events (raffle_step s hm) es w = Some w'"
  shows "\<exists>r'. find_raffle rid (w_db w') = Some r' \<and> RF_UserID r' = RF_UserID r \<and>
    status_step\<^sup>*\<^sup>* (RF_Status r) (RF_Status r') \<and>
    (RF_Status r = RaffleStatusCompleted \<longrightarrow> RF_Status r' = RaffleStatusCompleted)"
proof -
  have ok: "raffle_ok (w_db w')" by (rule raffles.events_inv [OF assms(1,3)])
  have "evolves (w_db w) (w_db w')" by (rule raffle_status.events_rel [OF assms(1,3)])
  with find_raffleD [OF assms(2)] obtain r' where r': "r' \<in> set (t_raffles (w_db w'))" "RF_ID r' = rid"
    "RF_UserID r' = RF_UserID r" "status_step\<^sup>*\<^sup>* (RF_Status r) (RF_Status r')"
    by (auto simp: evolves_def)
  from find_raffle_unique [OF ok r'(1)] r' completed_final show ?thesis by auto
qed

theorem raffle_status_forward_witness:
  "\<forall>s hm. \<exists>w' r'. serve_events (raffle_step s hm) [RaffleRequest (Complete 7 11), Promote 7] (start (\<lambda>n. int n) raffle_7) = Some w' \<and>
     find_raffle 7 (w_db w') = Some r' \<and> status_step\<^sup>*\<^sup>* RaffleStatusActive (RF_Status r')"
proof (intro allI)
  fix s hm
  let ?es = "[RaffleRequest (Complete 7 11), Promote 7]"
  obtain w' where run: "serve_events (raffle_step s hm) ?es (start (\<lambda>n. int n) raffle_7) = Some w'" by simp
  have "raffle_ok (w_db (start (\<lambda>n. int n) raffle_7))"
    "find_raffle 7 (w_db (start (\<lambda>n. int n) raffle_7)) = Some (t_raffles raffle_7 ! 0)" by (simp_all add: raffle_7_ok)
  from raffle_status_forward [OF this run] run
  show "\<exists>w' r'. serve_events (raffle_step s hm) ?es (start (\<lambda>n. int n) raffle_7) = Some w' \<and>
     find_raffle 7 (w_db w') = Some r' \<and> status_step\<^sup>*\<^sup>* RaffleStatusActive (RF_Status r')" by auto
qed

section \<open>Draws\<close>

lemma drew_undrawn:
  assumes "drew rid tid r d d'" and "entries_ok (t_raffle_entries d)"
  shows "undrawn rid d' = filter (\<lambda>e. e \<noteq> DW_entry r) (undrawn rid d)"
proof -
  from assms(1) have mem: "DW_entry r \<in> set (t_raffle_entries d)" by (auto simp: drew_def undrawn_def)
  have eq: "RE_ID e = RE_ID (DW_entry r) \<longleftrightarrow> e = DW_entry r" if "e \<in> set (t_raffle_entries d)" for e
    using assms(2) mem that by (auto simp: entries_ok_def dest: distinct_map_unique)
  have "drawn_entries rid d' = drawn_entries rid d @ [RE_ID (DW_entry r)]"
    using assms(1) by (simp add: drawn_entries_def drew_def)
  then show ?thesis
    using assms(1) eq by (auto simp: undrawn_def drew_def intro!: filter_cong)
qed

text \<open>C14. A draw picks somebody who entered the raffle and was not drawn before, and takes exactly this
  entry out of those that are left; only the owner can draw and not after the raffle is completed.
  The table holds the digest of the token and the raw token goes to the winner. A draw that fails
  changes nothing.\<close>

theorem DrawNext_picks:
  assumes "raffle_ok (w_db w)" and "DrawNext hm rid u w = (x, w')"
  shows "case x of Inl e \<Rightarrow> w_db w' = w_db w
    | Inr (r, jobs) \<Rightarrow>
        (\<exists>rf. find_raffle rid (w_db w) = Some rf \<and> RF_UserID rf = u \<and> RF_Status rf \<noteq> RaffleStatusCompleted \<and>
           jobs = drawJobs hm rf r) \<and>
        DW_entry r \<in> set (undrawn rid (w_db w)) \<and>
        undrawn rid (w_db w') = filter (\<lambda>e. e \<noteq> DW_entry r) (undrawn rid (w_db w)) \<and>
        t_raffle_draws (w_db w') = t_raffle_draws (w_db w) @ [DW_draw r] \<and>
        RD_EntryID (DW_draw r) = RE_ID (DW_entry r) \<and> RD_ClaimToken (DW_draw r) = hashClaimToken (DW_raw r) \<and>
        RD_PrizeTierID (DW_draw r) = None \<and> t_raffle_prize_tiers (w_db w') = t_raffle_prize_tiers (w_db w)"
proof -
  from assms(1) have "entries_ok (t_raffle_entries (w_db w))" by (simp add: raffle_ok_def)
  with DrawNext_run [OF assms(2)] drew_undrawn show ?thesis
    by (auto simp: drew_def split: sum.splits prod.splits)
qed

text \<open>Without failures a draw is decided by whether somebody is left, as long as the new identifiers are new.\<close>

definition fresh_draws :: "world \<Rightarrow> bool" where
  "fresh_draws w \<longleftrightarrow> (\<forall>n. env_uuid (w_env w) n \<notin> RD_ID ` set (t_raffle_draws (w_db w)) \<and>
     hashClaimToken (uuidText (env_uuid (w_env w) n)) \<notin> RD_ClaimToken ` set (t_raffle_draws (w_db w)))"

lemma fresh_draws_tick [simp]: "fresh_draws (tick w) = fresh_draws w"
  by (simp add: fresh_draws_def)

lemma recordDraw_fresh:
  assumes "no_faults w" and "fresh_draws w" and "e \<in> set (undrawn rid (w_db w))"
  shows "\<exists>x raw w1. recordDraw rid tid e w = (Inr (x, raw), w1) \<and> t_raffle_prize_tiers (w_db w1) = t_raffle_prize_tiers (w_db w) \<and> w_env w1 = w_env w"
proof -
  let ?x = "\<lparr>RD_ID = env_uuid (w_env w) (Suc (Suc (Suc (w_tick w)))), RD_RaffleID = rid, RD_EntryID = RE_ID e,
    RD_ClaimToken = hashClaimToken (uuidText (env_uuid (w_env w) (w_tick w))),
    RD_ClaimExpiresAt = env_clock (w_env w) (Suc (w_tick w)) + claimTokenTTL,
    RD_DrawnAt = env_clock (w_env w) (Suc (Suc (w_tick w))), RD_PrizeTierID = tid\<rparr>"
  have "draw_conflict (t_raffle_draws (w_db w)) ?x = None"
    using assms(2,3) by (auto simp: draw_conflict_def fresh_draws_def list_ex_iff undrawn_def dest: drawn_entries_set)
  with assms(1) have "recordDraw rid tid e w = (Inr (?x, uuidText (env_uuid (w_env w) (w_tick w))),
      (tick (tick (tick (tick w))))\<lparr>w_db := t_raffle_draws_update (\<lambda>ds. ds @ [?x]) (w_db w)\<rparr>)"
    by (simp add: recordDraw_Inr)
  then show ?thesis by simp
qed

lemma drawAttempt_fresh:
  assumes "no_faults w" and "fresh_draws w" and "undrawn rid (w_db w) \<noteq> []" and "\<forall>e \<in> set (undrawn rid (w_db w)). RE_ID e \<noteq> 0"
  shows "\<exists>r w1. drawAttempt rid w = (Inr r, w1) \<and> w_env w1 = w_env w"
proof -
  let ?es = "undrawn rid (w_db w)"
  let ?e = "?es ! (env_rand (w_env w) (w_tick w) mod length ?es)"
  have e: "?e \<in> set ?es" using assms(3) by simp
  have q: "query_random (undrawn rid) w = (Inr (Some ?e), tick w)" using assms(1,3) by (simp add: query_random_def)
  from recordDraw_fresh [of "tick w" ?e rid None] assms(1,2) e obtain x raw w1 where
    "recordDraw rid None ?e (tick w) = (Inr (x, raw), w1)" "w_env w1 = w_env w" by auto
  moreover have "RE_ID ?e \<noteq> 0" using e assms(4) by blast
  ultimately show ?thesis using q by (simp add: drawAttempt_def bnd_def ret_def)
qed

lemma no_faults_env: "w_env w1 = w_env w \<Longrightarrow> no_faults w1 = no_faults w"
  by (simp add: no_faults_def)

lemma transaction_fails: "x w = (Inl e, w1) \<Longrightarrow> \<exists>w2. transaction x w = (Inl e, w2)"
  by (simp add: transaction_def bnd_def)

lemma drawLoop_stop:
  "transaction attempt w = (Inl e, w') \<Longrightarrow> stop e \<Longrightarrow> fst (drawLoop (Suc n) attempt stop w) = Inl e"
  by (simp add: handle_def fail_def)

lemma drawLoop_got: "transaction attempt w = (Inr r, w') \<Longrightarrow> drawLoop (Suc n) attempt stop w = (Inr r, w')"
  by (simp add: handle_def ret_def)

lemma drawMaxRetries_Suc: "drawMaxRetries = Suc 4"
  by (simp add: drawMaxRetries_def)

lemma DrawNext_result:
  assumes "no_faults w" and "find_raffle rid (w_db w) = Some rf" and "RF_UserID rf = u" and "RF_Status rf \<noteq> RaffleStatusCompleted"
  shows "fst (DrawNext hm rid u w) =
    (case fst (drawLoop drawMaxRetries (drawAttempt rid) (\<lambda>e. errors_is e (RaffleE ErrRaffleExhausted)) (tick w)) of
       Inl e \<Rightarrow> Inl e | Inr r \<Rightarrow> Inr (r, drawJobs hm rf r))"
proof -
  have "GetByIDContext rid u w = (Inr rf, tick w)" using assms by (simp add: GetByID_Inr)
  then show ?thesis using assms(4) by (simp add: DrawNext_def bnd_def ret_def split: prod.split sum.split)
qed

lemma DrawNext_calm:
  assumes "no_faults w" and "fresh_draws w" and "find_raffle rid (w_db w) = Some rf" and "RF_UserID rf = u"
    and "RF_Status rf \<noteq> RaffleStatusCompleted" and "\<forall>e \<in> set (undrawn rid (w_db w)). RE_ID e \<noteq> 0"
    and "undrawn rid (w_db w) \<noteq> []"
  shows "\<exists>r. fst (DrawNext hm rid u w) = Inr (r, drawJobs hm rf r)"
proof -
  obtain r w1 where a: "drawAttempt rid (tick w) = (Inr r, w1)" "w_env w1 = w_env w"
    using drawAttempt_fresh [of "tick w" rid] assms by auto
  from transaction_calm [of "drawAttempt rid", OF a(1)] a(2) assms(1) have "transaction (drawAttempt rid) (tick w) = (Inr r, tick w1)"
    by (simp add: no_faults_env [OF a(2)])
  from drawLoop_got [OF this] show ?thesis
    by (simp only: DrawNext_result [OF assms(1,3,4,5)] drawMaxRetries_Suc fst_conv sum.case) blast
qed

text \<open>C16. When nothing fails, the owner of a raffle that is not completed gets a winner exactly as long as
  somebody is left, and is told that the raffle is exhausted when everybody was drawn, if the
  identifiers and tokens that are generated are new.\<close>

theorem DrawNext_decides:
  assumes "no_faults w" and "fresh_draws w" and "find_raffle rid (w_db w) = Some rf" and "RF_UserID rf = u"
    and "RF_Status rf \<noteq> RaffleStatusCompleted" and "\<forall>e \<in> set (undrawn rid (w_db w)). RE_ID e \<noteq> 0"
  shows "if undrawn rid (w_db w) = [] then fst (DrawNext hm rid u w) = Inl (RaffleE ErrRaffleExhausted)
    else \<exists>r. fst (DrawNext hm rid u w) = Inr (r, drawJobs hm rf r)"
proof (cases "undrawn rid (w_db w) = []")
  case True
  then have "drawAttempt rid (tick w) = (Inl (RaffleE ErrRaffleExhausted), tick (tick w))"
    using assms(1) by (simp add: drawAttempt_def query_random_def bnd_def fail_def)
  from transaction_fails [of "drawAttempt rid", OF this] obtain w2 where
    "transaction (drawAttempt rid) (tick w) = (Inl (RaffleE ErrRaffleExhausted), w2)" by blast
  note stop = drawLoop_stop [OF this, of "\<lambda>e. errors_is e (RaffleE ErrRaffleExhausted)" 4]
  show ?thesis
    using True stop by (simp only: DrawNext_result [OF assms(1,3,4,5)] drawMaxRetries_Suc) (simp add: errors_is_def)
next
  case False
  with DrawNext_calm [OF assms] show ?thesis by simp
qed

lemma raffle_7_draw:
  "no_faults (start (\<lambda>n. int n) raffle_7)" "fresh_draws (start (\<lambda>n. int n) raffle_7)"
  "find_raffle 7 (w_db (start (\<lambda>n. int n) raffle_7)) = Some (t_raffles raffle_7 ! 0)"
  "RF_UserID (t_raffles raffle_7 ! 0) = 11" "RF_Status (t_raffles raffle_7 ! 0) \<noteq> RaffleStatusCompleted"
  "\<forall>e \<in> set (undrawn 7 (w_db (start (\<lambda>n. int n) raffle_7))). RE_ID e \<noteq> 0"
  "undrawn 7 (w_db (start (\<lambda>n. int n) raffle_7)) \<noteq> []"
  by (simp_all add: fresh_draws_def) (simp_all add: raffle_7_def new_entry_def)

theorem DrawNext_decides_witness:
  "\<exists>r. fst (DrawNext True 7 11 (start (\<lambda>n. int n) raffle_7)) = Inr (r, drawJobs True (t_raffles raffle_7 ! 0) r)"
  using DrawNext_decides [OF raffle_7_draw(1-6), of True] raffle_7_draw(7) by simp

theorem DrawNext_picks_witness:
  "\<exists>r w'. DrawNext True 7 11 (start (\<lambda>n. int n) raffle_7) = (Inr r, w') \<and>
     DW_entry (fst r) \<in> set (undrawn 7 raffle_7) \<and>
     undrawn 7 (w_db w') = filter (\<lambda>e. e \<noteq> DW_entry (fst r)) (undrawn 7 raffle_7)"
proof -
  from DrawNext_calm [OF raffle_7_draw, of True] obtain r jobs w' where
    run: "DrawNext True 7 11 (start (\<lambda>n. int n) raffle_7) = (Inr (r, jobs), w')" by (metis prod.collapse)
  from DrawNext_picks [OF _ run] show ?thesis by (simp add: raffle_7_ok run)
qed

lemma DrawFromTier_run:
  assumes "raffle_ok (w_db w)" and "DrawFromTierContext hm rid tid u w = (x, w')"
  shows "case x of Inl e \<Rightarrow> w_db w' = w_db w
    | Inr (r, jobs) \<Rightarrow>
        (\<exists>rf. find_raffle rid (w_db w) = Some rf \<and> RF_UserID rf = u \<and> RF_Status rf = RaffleStatusActive \<and>
           jobs = drawJobs hm rf r) \<and>
        (\<exists>t. find_tier rid tid (w_db w) = Some t \<and> TI_DrawnCount t < TI_WinnerCount t \<and>
           t_raffle_prize_tiers (w_db w') =
             update_rows (\<lambda>s. TI_ID s = tid) (\<lambda>s. s\<lparr>TI_DrawnCount := TI_DrawnCount s + 1\<rparr>) (t_raffle_prize_tiers (w_db w))) \<and>
        drew rid (Some tid) r (w_db w) (w_db w')"
proof -
  have frame: "w_db w1 = w_db w0" if "GetByIDContext rid u w0 = (y, w1)" for y w0 w1
    using preservesD [OF preserves_GetByID, of "\<lambda>d. d = w_db w0" w0 rid u y w1] that by simp
  have frame2: "w_db w1 = w_db w0" if "loadTier rid tid w0 = (y, w1)" for y w0 w1
    using preservesD [OF preserves_loadTier, of "\<lambda>d. d = w_db w0" w0 rid tid y w1] that by simp
  show ?thesis
  proof (cases x)
    case (Inl e)
    have "w_db w' = w_db w"
      using assms(2) unfolding Inl DrawFromTierContext_def bnd_run
      by (auto simp: bnd_run fail_run ret_run split: if_split_asm dest!: frame frame2 drawLoop_run)
    with Inl show ?thesis by simp
  next
    case (Inr y)
    obtain r jobs where y: "y = (r, jobs)" by fastforce
    from assms(2) obtain rf t where g: "find_raffle rid (w_db w) = Some rf" "RF_UserID rf = u" "RF_Status rf = RaffleStatusActive"
      and t: "find_tier rid tid (w_db w) = Some t" "TI_DrawnCount t < TI_WinnerCount t" and jobs: "jobs = drawJobs hm rf r"
      and l: "drawLoop drawMaxRetries (tierAttempt rid t) (\<lambda>e. errors_is e (RaffleE ErrRaffleExhausted) \<or>
         errors_is e (RaffleE ErrPrizeTierExhausted)) (tick (tick w)) = (Inr r, w')"
      unfolding Inr y DrawFromTierContext_def bnd_Inr
      by (auto simp: bnd_Inr GetByID_Inr loadTier_Inr fail_Inr ret_Inr split: if_split_asm)
    from find_tierD [OF t(1)] have id: "TI_ID t = tid" "t \<in> set (t_raffle_prize_tiers (w_db w))" by simp_all
    from drawLoop_run [OF l] obtain w1 w2 where a: "tierAttempt rid t w1 = (Inr r, w2)" "w_db w1 = w_db w" "w_db w' = w_db w2" by auto
    note T = tierAttempt_Inr [OF a(1), unfolded id(1) a(2)]
    have tok: "distinct (map TI_ID (t_raffle_prize_tiers (w_db w)))" using assms(1) by (simp add: raffle_ok_def tiers_ok_def)
    have "update_rows (\<lambda>s. TI_ID s = tid \<and> TI_DrawnCount s < TI_WinnerCount s) f (t_raffle_prize_tiers (w_db w)) =
        update_rows (\<lambda>s. TI_ID s = tid) f (t_raffle_prize_tiers (w_db w))" for f
      unfolding update_rows_def using distinct_map_unique [OF tok _ id(2)] t(2) id(1) by (intro map_cong) auto
    then show ?thesis using g t jobs T a(3) by (auto simp: Inr y)
  qed
qed

text \<open>C15. A draw from a tier needs an active raffle and a free slot of this tier; it takes exactly one slot,
  records the tier with the draw and takes the winner out of those that are left. A tier draw that
  fails changes nothing.\<close>

theorem DrawFromTier_takes_slot:
  assumes "raffle_ok (w_db w)" and "DrawFromTierContext hm rid tid u w = (x, w')"
  shows "case x of Inl e \<Rightarrow> w_db w' = w_db w
    | Inr (r, jobs) \<Rightarrow>
        (\<exists>rf. find_raffle rid (w_db w) = Some rf \<and> RF_UserID rf = u \<and> RF_Status rf = RaffleStatusActive \<and>
           jobs = drawJobs hm rf r) \<and>
        (\<exists>t. find_tier rid tid (w_db w) = Some t \<and> TI_DrawnCount t < TI_WinnerCount t \<and>
           t_raffle_prize_tiers (w_db w') =
             update_rows (\<lambda>s. TI_ID s = tid) (\<lambda>s. s\<lparr>TI_DrawnCount := TI_DrawnCount s + 1\<rparr>) (t_raffle_prize_tiers (w_db w))) \<and>
        DW_entry r \<in> set (undrawn rid (w_db w)) \<and>
        undrawn rid (w_db w') = filter (\<lambda>e. e \<noteq> DW_entry r) (undrawn rid (w_db w)) \<and>
        t_raffle_draws (w_db w') = t_raffle_draws (w_db w) @ [DW_draw r] \<and> RD_PrizeTierID (DW_draw r) = Some tid"
proof -
  from assms(1) have "entries_ok (t_raffle_entries (w_db w))" by (simp add: raffle_ok_def)
  with DrawFromTier_run [OF assms] drew_undrawn show ?thesis
    by (auto simp: drew_def split: sum.splits prod.splits)
qed

lemma raffle_7_tier:
  "\<exists>r w'. DrawFromTierContext False 7 40 11 (start (\<lambda>n. int n) raffle_7) = (Inr r, w')"
proof -
  let ?w = "start (\<lambda>n. int n) raffle_7"
  have g: "GetByIDContext 7 11 ?w = (Inr (t_raffles raffle_7 ! 0), tick ?w)" by (simp add: GetByID_Inr)
  have l: "loadTier 7 40 (tick ?w) = (Inr (t_raffle_prize_tiers raffle_7 ! 0), tick (tick ?w))"
    by (simp add: loadTier_Inr) (simp add: find_tier_def raffle_7_def)
  have "\<exists>r w1. tierAttempt 7 (t_raffle_prize_tiers raffle_7 ! 0) (tick (tick ?w)) = (Inr r, w1) \<and> no_faults w1"
    by (simp add: tierAttempt_def query_random_def recordDraw_def takeSlot_def draw_conflict_def drawn_entries_def
      dup_if_def update_rows_def run_defs)
      (simp add: cont_def ret_def tiers_check_def tier_row_check_def varchars_def int4_range_def fits_int4_def raffle_7_def empty_db_def new_entry_def update_rows_def no_faults_def start_def calm_def)
  then obtain r w1 where a: "tierAttempt 7 (t_raffle_prize_tiers raffle_7 ! 0) (tick (tick ?w)) = (Inr r, w1)" "no_faults w1" by blast
  note got = drawLoop_got [OF transaction_calm [of "tierAttempt 7 (t_raffle_prize_tiers raffle_7 ! 0)", OF a], of 4]
  have "TI_DrawnCount (t_raffle_prize_tiers raffle_7 ! 0) < TI_WinnerCount (t_raffle_prize_tiers raffle_7 ! 0)"
    by (simp add: raffle_7_def)
  then show ?thesis using g l got by (simp add: DrawFromTierContext_def bnd_def ret_def drawMaxRetries_Suc del: drawLoop.simps)
qed


theorem DrawFromTier_takes_slot_witness:
  "\<exists>r jobs w'. DrawFromTierContext False 7 40 11 (start (\<lambda>n. int n) raffle_7) = (Inr (r, jobs), w') \<and>
     RD_PrizeTierID (DW_draw r) = Some 40 \<and> map TI_DrawnCount (t_raffle_prize_tiers (w_db w')) = [1]"
proof -
  obtain r jobs w' where run: "DrawFromTierContext False 7 40 11 (start (\<lambda>n. int n) raffle_7) = (Inr (r, jobs), w')"
    using raffle_7_tier by (metis prod.collapse)
  from DrawFromTier_takes_slot [OF _ run] have "RD_PrizeTierID (DW_draw r) = Some 40"
    "t_raffle_prize_tiers (w_db w') = update_rows (\<lambda>s. TI_ID s = 40) (\<lambda>s. s\<lparr>TI_DrawnCount := TI_DrawnCount s + 1\<rparr>)
       (t_raffle_prize_tiers raffle_7)"
    by (auto simp: raffle_7_ok)
  with run show ?thesis by (simp add: update_rows_def raffle_7_def)
qed

section \<open>The winner's claim\<close>

lemma GetDrawByToken_Inr [run_simps]:
  "GetDrawByTokenContext tok w = (Inr (x, e), w') \<longleftrightarrow>
    env_fault (w_env w) (w_tick w) = None \<and> w' = tick (tick w) \<and>
    first_by RD_ID (\<lambda>x. RD_ClaimToken x = hashClaimToken tok) (t_raffle_draws (w_db w)) = Some x \<and>
    e = entry_of x (w_db w) \<and> env_clock (w_env w) (Suc (w_tick w)) \<le> RD_ClaimExpiresAt x"
  by (auto simp: GetDrawByTokenContext_def bnd_Inr orElse_query_Inr now_Inr fail_Inr ret_Inr split: if_split_asm)
    (rule exI [of _ x], simp)

lemma SubmitClaim_Inr:
  assumes "SubmitClaimContext tok u input w = (Inr c, w')"
  shows "\<exists>x e. first_by RD_ID (\<lambda>x. RD_ClaimToken x = hashClaimToken tok) (t_raffle_draws (w_db w)) = Some x \<and>
    entry_of x (w_db w) = Some e \<and> RE_UserID e = Some u \<and>
    env_clock (w_env w) (Suc (w_tick w)) \<le> RD_ClaimExpiresAt x \<and>
    RC_DrawID c = RD_ID x \<and> RC_RecipientName c = CN_RecipientName input \<and>
    RC_Country c = (if CN_Country input = [] then ''TW'' else CN_Country input) \<and>
    RD_ID x \<notin> RC_DrawID ` set (t_raffle_claims (w_db w)) \<and>
    w_db w' = (w_db w)\<lparr>t_raffle_claims := t_raffle_claims (w_db w) @ [c]\<rparr>"
  using assms
  by (auto simp: SubmitClaimContext_def bnd_Inr GetDrawByToken_Inr now_Inr handle_Inr insert_row_Inr fail_Inr ret_Inr
      raffle_claim_conflict_def split: if_split_asm option.splits)

text \<open>C17. Only the winner can submit a claim, with the token of the draw and before it expires, and only
  once: the claim is recorded for this draw, and as long as it is on record every further
  submission with the token fails, whoever makes it.\<close>

theorem SubmitClaim_rules:
  assumes "SubmitClaimContext tok u input w = (Inr c, w')"
  shows "\<exists>x e. x \<in> set (t_raffle_draws (w_db w)) \<and> RD_ClaimToken x = hashClaimToken tok \<and>
    e \<in> set (t_raffle_entries (w_db w)) \<and> RE_ID e = RD_EntryID x \<and> RE_UserID e = Some u \<and>
    env_clock (w_env w) (Suc (w_tick w)) \<le> RD_ClaimExpiresAt x \<and>
    RC_DrawID c = RD_ID x \<and> RD_ID x \<notin> RC_DrawID ` set (t_raffle_claims (w_db w)) \<and>
    w_db w' = (w_db w)\<lparr>t_raffle_claims := t_raffle_claims (w_db w) @ [c]\<rparr> \<and>
    (\<forall>w2 v input2. t_raffle_draws (w_db w2) = t_raffle_draws (w_db w') \<and> c \<in> set (t_raffle_claims (w_db w2)) \<longrightarrow>
       (\<exists>e. fst (SubmitClaimContext tok v input2 w2) = Inl e))"
proof -
  from SubmitClaim_Inr [OF assms] obtain x e where
    x: "first_by RD_ID (\<lambda>x. RD_ClaimToken x = hashClaimToken tok) (t_raffle_draws (w_db w)) = Some x"
    and e: "entry_of x (w_db w) = Some e" "RE_UserID e = Some u" and c: "RC_DrawID c = RD_ID x"
    and d: "w_db w' = (w_db w)\<lparr>t_raffle_claims := t_raffle_claims (w_db w) @ [c]\<rparr>"
    and rest: "env_clock (w_env w) (Suc (w_tick w)) \<le> RD_ClaimExpiresAt x"
      "RD_ID x \<notin> RC_DrawID ` set (t_raffle_claims (w_db w))" by blast
  have "\<exists>e. fst (SubmitClaimContext tok v input2 w2) = Inl e"
    if "t_raffle_draws (w_db w2) = t_raffle_draws (w_db w')" "c \<in> set (t_raffle_claims (w_db w2))" for w2 v input2
  proof (cases "SubmitClaimContext tok v input2 w2")
    case (Pair y w3)
    show ?thesis
    proof (cases y)
      case (Inr c2)
      from SubmitClaim_Inr [OF Pair [unfolded Inr]] x that(1) have "RD_ID x \<notin> RC_DrawID ` set (t_raffle_claims (w_db w2))"
        by (auto simp: d)
      with imageI [OF that(2), of RC_DrawID] c show ?thesis by simp
    qed (simp add: Pair)
  qed
  moreover have "e \<in> set (t_raffle_entries (w_db w))" "RE_ID e = RD_EntryID x"
    using e(1) by (auto simp: entry_of_def dest: find_SomeD)
  ultimately show ?thesis using first_by_SomeD(1,2) [OF x] e(2) c d rest by blast
qed

text \<open>The draw of an entry of raffle 7 with the token \<open>tok\<close>.\<close>

definition drawn_7 :: db where
  "drawn_7 = raffle_7\<lparr>t_raffle_draws := [\<lparr>RD_ID = 30, RD_RaffleID = 7, RD_EntryID = 20,
     RD_ClaimToken = hashClaimToken ''tok'', RD_ClaimExpiresAt = 99, RD_DrawnAt = 0, RD_PrizeTierID = None\<rparr>]\<rparr>"

definition home :: ClaimInput where
  "home = \<lparr>CN_RecipientName = ''Ann'', CN_Phone = ''5'', CN_AddressLine1 = ''a'', CN_AddressLine2 = [],
     CN_City = ''c'', CN_PostalCode = [], CN_Country = []\<rparr>"

theorem SubmitClaim_rules_witness:
  "\<exists>c w'. SubmitClaimContext ''tok'' 5 home (start (\<lambda>n. int n) drawn_7) = (Inr c, w') \<and> RC_DrawID c = 30 \<and>
     (\<exists>e. fst (SubmitClaimContext ''tok'' 5 home w') = Inl e)"
proof -
  let ?w = "start (\<lambda>n. int n) drawn_7"
  have "\<exists>c w'. SubmitClaimContext ''tok'' 5 home ?w = (Inr c, w')"
    by (simp add: SubmitClaimContext_def GetDrawByTokenContext_def first_by_def entry_of_def drawn_7_def Let_def dup_if_def run_defs)
      (simp add: raffle_7_def new_entry_def empty_db_def home_def ret_def dup_if_def raffle_claim_conflict_def varchars_def cont_def)
  then obtain c w' where run: "SubmitClaimContext ''tok'' 5 home ?w = (Inr c, w')" by blast
  note S = SubmitClaim_rules [OF run]
  from S have "RC_DrawID c = 30" by (auto simp: drawn_7_def)
  moreover from S have "\<exists>e. fst (SubmitClaimContext ''tok'' 5 home w') = Inl e" by fastforce
  ultimately show ?thesis using run by blast
qed

section \<open>Joining\<close>

lemma requireSubscriber_Inr:
  assumes "requireSubscriber s r tw w = (Inr u, w')"
  shows "w_db w' = w_db w \<and> (\<exists>b stored tok n. user_twitch (RF_UserID r) (w_db w) = Some b \<and> AP_AccessToken b = Some stored \<and>
    SV_decrypt s stored = Inr tok \<and> fetchTwitchSubscription s tok (AP_ProviderID b) tw n = Inr True)"
  using assms
  by (auto simp: requireSubscriber_def decryptedProviderAccessToken_def bnd_Inr orElse_query_Inr seq_Inr fail_Inr ret_Inr now_Inr
      handle_Inr external_Inr split: if_split_asm option.splits sum.splits)

lemma JoinRaffle_Inr:
  assumes "JoinRaffle s rid tw w = (Inr e, w')"
  shows "\<exists>rf p. find_raffle rid (w_db w) = Some rf \<and> RF_EntryOpen rf \<and>
    twitch_account (\<lambda>p. AP_ProviderID p = tw) (\<lambda>_. True) (w_db w) = Some p \<and>
    (RF_Mode rf = RaffleModeSubscribers \<longrightarrow> (\<exists>b stored tok n. user_twitch (RF_UserID rf) (w_db w) = Some b \<and>
       AP_AccessToken b = Some stored \<and> SV_decrypt s stored = Inr tok \<and>
       fetchTwitchSubscription s tok (AP_ProviderID b) tw n = Inr True)) \<and>
    RE_RaffleID e = rid \<and> RE_UserID e = Some (AP_UserID p) \<and> RE_Eligible e \<and>
    RE_TwitchLogin e = viewer_login tw (AP_UserID p) (w_db w) \<and>
    \<not> list_ex (same_entry e) (t_raffle_entries (w_db w)) \<and>
    w_db w' = (w_db w)\<lparr>t_raffle_entries := t_raffle_entries (w_db w) @ [e]\<rparr>"
proof -
  define sub where "sub rf = (if RF_Mode rf = RaffleModeSubscribers then requireSubscriber s rf tw else ret ())" for rf
  from assms obtain rf p w1 w2 where rf: "find_raffle rid (w_db w) = Some rf" "RF_EntryOpen rf"
    and p: "twitch_account (\<lambda>p. AP_ProviderID p = tw) (\<lambda>_. True) (w_db w) = Some p"
    and sub: "sub rf w1 = (Inr (), w2)" "w_db w1 = w_db w"
    and ins: "insert_entry (new_entry rid (AP_UserID p) (viewer_login tw (AP_UserID p) (w_db w))
        (viewer_login tw (AP_UserID p) (w_db w)) ''extension_button'') w2 = (Inr (Some e), w')"
    unfolding JoinRaffle_def sub_def [symmetric] bnd_Inr orElse_query_Inr
    by (auto simp: bnd_Inr orElse_query_Inr fail_Inr ret_Inr split: if_split_asm option.splits)
  have "w_db w2 = w_db w" "RF_Mode rf = RaffleModeSubscribers \<Longrightarrow> requireSubscriber s rf tw w1 = (Inr (), w2)"
    using sub requireSubscriber_Inr by (auto simp: sub_def ret_Inr split: if_split_asm)
  with rf p ins sub(2) requireSubscriber_Inr [of s rf tw w1 "()" w2] show ?thesis
    by (auto simp: insert_entry_Inr Let_def split: if_split_asm)
qed

text \<open>A join that fails adds no entry; it may clear tokens of the owner that do not work any more.\<close>

lemma preserves_entries_requireSubscriber:
  "preserves (\<lambda>d. t_raffle_entries d = es) (requireSubscriber s r tw)"
  by (rule preserves_requireSubscriber) simp

lemma JoinRaffle_Inl:
  assumes "JoinRaffle s rid tw w = (Inl err, w')"
  shows "t_raffle_entries (w_db w') = t_raffle_entries (w_db w)"
proof -
  let ?I = "\<lambda>d. t_raffle_entries d = t_raffle_entries (w_db w)"
  have ins: "t_raffle_entries (w_db w2) = t_raffle_entries (w_db w1)"
    if "insert_entry row w1 = (x, w2)" "x = Inl y \<or> x = Inr None" for row w1 x w2 y
    using that by (auto simp: insert_entry_def stmt_def Let_def split: option.splits if_splits sum.splits)
  have q: "w_db w2 = w_db w1" if "orElse (query f) e w1 = (x, w2)" for f :: "db \<Rightarrow> 'b option" and e w1 x w2
    using preservesD [where I = "\<lambda>d. d = w_db w1", OF preserves_orElse [OF preserves_query] refl that] .
  have r: "t_raffle_entries (w_db w2) = t_raffle_entries (w_db w1)" if "requireSubscriber s rf tw w1 = (x, w2)" for rf w1 x w2
    by (rule preservesD [where I = "\<lambda>d. t_raffle_entries d = t_raffle_entries (w_db w1)",
      OF preserves_entries_requireSubscriber refl that])
  from assms show ?thesis
    unfolding JoinRaffle_def bnd_run
    by (auto simp: bnd_run fail_run ret_run split: if_split_asm option.splits dest!: q r dest: ins)
qed

text \<open>C18. Joining needs an open raffle and a Twitch account that is linked here, and for a subscribers-only
  raffle an answer of Twitch that the viewer subscribes to the owner's channel. It adds exactly one
  eligible entry of this user and changes nothing else. At any later time, whatever happened in between, joining again
  fails and adds no entry as long as that entry is there and the account still belongs to a user of the same name:
  the name is the key of an entry, and a viewer who takes another name can join once more (\<open>JoinRaffle_after_rename\<close>).\<close>

theorem JoinRaffle_joins_once:
  assumes "JoinRaffle s rid tw w = (Inr e, w')"
  shows "\<exists>rf p. find_raffle rid (w_db w) = Some rf \<and> RF_EntryOpen rf \<and>
    twitch_account (\<lambda>p. AP_ProviderID p = tw) (\<lambda>_. True) (w_db w) = Some p \<and>
    (RF_Mode rf = RaffleModeSubscribers \<longrightarrow> (\<exists>b stored tok n. user_twitch (RF_UserID rf) (w_db w) = Some b \<and>
       AP_AccessToken b = Some stored \<and> SV_decrypt s stored = Inr tok \<and>
       fetchTwitchSubscription s tok (AP_ProviderID b) tw n = Inr True)) \<and>
    RE_RaffleID e = rid \<and> RE_UserID e = Some (AP_UserID p) \<and> RE_Eligible e \<and>
    RE_TwitchLogin e = viewer_login tw (AP_UserID p) (w_db w) \<and>
    w_db w' = (w_db w)\<lparr>t_raffle_entries := t_raffle_entries (w_db w) @ [e]\<rparr> \<and>
    (\<forall>s2 w2 p2. e \<in> set (t_raffle_entries (w_db w2)) \<and>
       twitch_account (\<lambda>p. AP_ProviderID p = tw) (\<lambda>_. True) (w_db w2) = Some p2 \<and>
       viewer_login tw (AP_UserID p2) (w_db w2) = viewer_login tw (AP_UserID p) (w_db w) \<longrightarrow>
       (\<exists>err w3. JoinRaffle s2 rid tw w2 = (Inl err, w3) \<and> t_raffle_entries (w_db w3) = t_raffle_entries (w_db w2)))"
proof -
  note J = JoinRaffle_Inr [OF assms]
  then obtain p where p: "twitch_account (\<lambda>p. AP_ProviderID p = tw) (\<lambda>_. True) (w_db w) = Some p"
    "RE_RaffleID e = rid" "RE_TwitchLogin e = viewer_login tw (AP_UserID p) (w_db w)" by blast
  have "\<exists>err w3. JoinRaffle s2 rid tw w2 = (Inl err, w3) \<and> t_raffle_entries (w_db w3) = t_raffle_entries (w_db w2)"
    if "e \<in> set (t_raffle_entries (w_db w2))"
      "twitch_account (\<lambda>p. AP_ProviderID p = tw) (\<lambda>_. True) (w_db w2) = Some p2"
      "viewer_login tw (AP_UserID p2) (w_db w2) = viewer_login tw (AP_UserID p) (w_db w)" for s2 w2 p2
  proof (cases "JoinRaffle s2 rid tw w2")
    case (Pair y w3)
    show ?thesis
    proof (cases y)
      case (Inl err)
      with JoinRaffle_Inl [OF Pair [unfolded Inl]] Pair show ?thesis by blast
    next
      case (Inr e2)
      from JoinRaffle_Inr [OF Pair [unfolded Inr]] that(2) have
        "RE_RaffleID e2 = rid" "RE_TwitchLogin e2 = viewer_login tw (AP_UserID p2) (w_db w2)"
        "\<not> list_ex (same_entry e2) (t_raffle_entries (w_db w2))" by auto
      with p that show ?thesis by (auto simp: same_entry_def list_ex_iff)
    qed
  qed
  with J p show ?thesis by (elim exE conjE) (intro exI conjI; fastforce)
qed

text \<open>The Twitch viewer \<open>t9\<close> is user 9.\<close>

definition joinable_7 :: db where
  "joinable_7 = raffle_7\<lparr>t_users := [\<lparr>U_ID = 9, U_Username = Some ''vi'', U_Email = None, U_PasswordHash = None,
       U_AvatarURL = None, U_Role = RoleViewer, U_IsActive = True, U_EmailVerified = True,
       U_ActiveCharacter = CharacterCrab, U_SwitchCooldownUntil = None, U_CreatedAt = 0, U_DeletedAt = None\<rparr>],
     t_auth_providers := [\<lparr>AP_ID = 50, AP_UserID = 9, AP_Provider = ProviderTwitch,
       AP_ProviderID = ''t9'', AP_AccessToken = None, AP_RefreshToken = None, AP_TokenExpiresAt = None,
       AP_CreatedAt = 0, AP_DeletedAt = None\<rparr>]\<rparr>"

section \<open>The scheduler\<close>



lemma timed_insert_entry [timed_intros]: "timed (insert_entry row)"
  by (simp add: insert_entry_def timed_stmt)









text \<open>What a snapshot of one raffle does to the table of the raffles: it promotes a draft when it succeeds.\<close>

definition promoted :: "uuid set \<Rightarrow> Raffle list \<Rightarrow> Raffle list" where
  "promoted ids = update_rows (\<lambda>r. RF_ID r \<in> ids \<and> RF_Status r = RaffleStatusDraft) (\<lambda>r. r\<lparr>RF_Status := RaffleStatusActive\<rparr>)"

lemma promoted_empty [simp]: "promoted {} rs = rs"
  by (simp add: promoted_def update_rows_none)

lemma promoted_promoted [simp]: "promoted A (promoted B rs) = promoted (A \<union> B) rs"
  by (auto simp: promoted_def update_rows_def)






text \<open>A Twitch interface with two pages.\<close>

definition two_pages :: RaffleServices where
  "two_pages = \<lparr>SV_subscription = (\<lambda>_ _ _ _. Inr (404, Inr ([], []))),
     SV_subscriptions = (\<lambda>_ _ cursor _. Inr (200, Inr ([], if cursor = [] then ''p2'' else []))),
     SV_decrypt = Inr, SV_send = (\<lambda>_ _ _ _. Inr ()), SV_post = (\<lambda>_ _ _. Inr 204), SV_frontendURL = [],
     SV_formatTime = (\<lambda>_. [])\<rparr>"






lemma joinable_7_joins:
  "\<exists>e w'. JoinRaffle two_pages 7 ''t9'' (start (\<lambda>n. int n) joinable_7) = (Inr e, w') \<and> RE_UserID e = Some 9"
  by (simp add: JoinRaffle_def insert_entry_def twitch_account_def live_user_def viewer_login_def first_by_def find_raffle_def
    joinable_7_def entry_widths_def varchars_def same_entry_def Let_def run_defs
    raffle_7_def empty_db_def new_entry_def cont_def)

theorem JoinRaffle_joins_once_witness:
  "\<exists>e w'. JoinRaffle two_pages 7 ''t9'' (start (\<lambda>n. int n) joinable_7) = (Inr e, w') \<and> RE_UserID e = Some 9 \<and>
     (\<exists>err. fst (JoinRaffle two_pages 7 ''t9'' w') = Inl err)"
proof -
  let ?w = "start (\<lambda>n. int n) joinable_7"
  from joinable_7_joins obtain e w' where run: "JoinRaffle two_pages 7 ''t9'' ?w = (Inr e, w')" "RE_UserID e = Some 9" by blast
  from JoinRaffle_joins_once [OF run(1)] obtain p where
    p: "twitch_account (\<lambda>p. AP_ProviderID p = ''t9'') (\<lambda>_. True) joinable_7 = Some p"
      "w_db w' = joinable_7\<lparr>t_raffle_entries := t_raffle_entries joinable_7 @ [e]\<rparr>"
    and again: "\<forall>s2 w2 p2. e \<in> set (t_raffle_entries (w_db w2)) \<and>
       twitch_account (\<lambda>p. AP_ProviderID p = ''t9'') (\<lambda>_. True) (w_db w2) = Some p2 \<and>
       viewer_login ''t9'' (AP_UserID p2) (w_db w2) = viewer_login ''t9'' (AP_UserID p) joinable_7 \<longrightarrow>
       (\<exists>err w3. JoinRaffle s2 7 ''t9'' w2 = (Inl err, w3) \<and> t_raffle_entries (w_db w3) = t_raffle_entries (w_db w2))"
    unfolding start_sel by blast
  have "e \<in> set (t_raffle_entries (w_db w')) \<and>
      twitch_account (\<lambda>p. AP_ProviderID p = ''t9'') (\<lambda>_. True) (w_db w') = Some p \<and>
      viewer_login ''t9'' (AP_UserID p) (w_db w') = viewer_login ''t9'' (AP_UserID p) joinable_7"
    using p by (simp add: twitch_account_def live_user_def viewer_login_def)
  with again have "\<exists>err w3. JoinRaffle two_pages 7 ''t9'' w' = (Inl err, w3)" by blast
  with run show ?thesis by auto
qed

section \<open>Findings\<close>

text \<open>The key of an entry is the name of the user: after \<open>PUT /users/me\<close> has changed the name the same viewer joins again,
  and then has two entries, and two chances, in the raffle.\<close>

definition renamed_7 :: db where
  "renamed_7 = joinable_7\<lparr>t_raffle_entries := [new_entry 7 9 ''old-name'' ''old-name'' ''extension_button'' 0 20]\<rparr>"

lemma JoinRaffle_after_rename:
  "\<exists>e w'. JoinRaffle two_pages 7 ''t9'' (start (\<lambda>n. int n) renamed_7) = (Inr e, w') \<and>
     map RE_UserID (t_raffle_entries (w_db w')) = [Some 9, Some 9]"
  by (simp add: JoinRaffle_def insert_entry_def twitch_account_def live_user_def viewer_login_def first_by_def find_raffle_def
    renamed_7_def joinable_7_def entry_widths_def varchars_def same_entry_def Let_def run_defs
    raffle_7_def empty_db_def new_entry_def cont_def)

text \<open>An edit of a tier that overlaps a draw from it: the tier is read, a draw takes its last slot, and the
  edit writes the whole row back, with the counter it read. The slot is free again although its
  draw is on record, so that the tier no longer has as many draws as its counter says.\<close>

lemma UpdatePrizeTier_loses_draw:
  assumes "raffle_ok (w_db w)" and "loadTier rid tid w = (Inr t, w1)"
    and "DrawFromTierContext hm rid tid u w1 = (Inr r, w2)" and "saveTier (edited input t) w2 = (Inr (), w3)"
  shows "\<not> raffle_ok (w_db w3)"
proof
  assume bad: "raffle_ok (w_db w3)"
  from assms(2) have t: "find_tier rid tid (w_db w) = Some t" "w_db w1 = w_db w" by (auto simp: loadTier_Inr)
  from find_tierD [OF t(1)] have t_in: "t \<in> set (t_raffle_prize_tiers (w_db w))" "TI_ID t = tid" by simp_all
  obtain x jobs where r: "r = (x, jobs)" by fastforce
  from DrawFromTier_run [OF _ assms(3)] assms(1) t(2) have "drew rid (Some tid) x (w_db w) (w_db w2)" by (auto simp: r)
  then have "tier_draws (t_raffle_draws (w_db w2)) tid = tier_draws (t_raffle_draws (w_db w)) tid + 1"
    by (simp add: drew_def)
  moreover have "tier_draws (t_raffle_draws (w_db w)) tid = TI_DrawnCount t"
    using assms(1) t_in by (auto simp: raffle_ok_def tiers_ok_def)
  moreover have "t_raffle_draws (w_db w3) = t_raffle_draws (w_db w2)" "edited input t \<in> set (t_raffle_prize_tiers (w_db w3))"
    using assms(4) by (auto simp: saveTier_Inr set_update_rows)
  moreover have "TI_ID (edited input t) = tid" "TI_DrawnCount (edited input t) = TI_DrawnCount t"
    using t_in(2) by (simp_all add: edited_def)
  ultimately show False using bad by (auto simp: raffle_ok_def tiers_ok_def)
qed

text \<open>A header that a client logs with a tabulator after the scheme is not redacted.\<close>

lemma bearer_tab_not_redacted:
  "safeScheduledJobError (\<lambda>s. s) (Some (Errorf (''Bearer'' @ [CHR 0x09] @ ''s3cr3t''))) = ''Bearer s3cr3t''"
  by (simp add: safeScheduledJobError_def secret_markers_def ToLower_def lower_char_def cont_def to_blank_def)

end
