(* ===== verification/RaffleOwner.thy ===== *)
theory RaffleOwner
  imports RaffleProps
begin

text \<open>
  A streamer's requests on a raffle touch the rows of that raffle and nothing else, and only when the
  raffle is the streamer's. The snapshot of the subscribers may besides clear the tokens of the streamer's own
  Twitch account, when they do not work any more.
\<close>

section \<open>The rows of the other raffles\<close>

definition own_twitch :: "uuid \<Rightarrow> AuthProvider \<Rightarrow> bool" where
  "own_twitch v p \<longleftrightarrow> AP_UserID p = v \<and> AP_Provider p = ProviderTwitch"

definition without_tokens :: "AuthProvider \<Rightarrow> AuthProvider" where
  "without_tokens p = p\<lparr>AP_AccessToken := None, AP_RefreshToken := None, AP_TokenExpiresAt := None\<rparr>"

text \<open>Everything but the rows of raffle \<open>rid\<close> and the tokens of the Twitch account of user \<open>v\<close>.\<close>

definition elsewhere :: "uuid \<Rightarrow> uuid \<Rightarrow> db \<Rightarrow> db" where
  "elsewhere rid v d = d\<lparr>t_auth_providers := update_rows (own_twitch v) without_tokens (t_auth_providers d),
     t_raffles := filter (\<lambda>r. RF_ID r \<noteq> rid) (t_raffles d),
     t_raffle_entries := filter (\<lambda>e. RE_RaffleID e \<noteq> rid) (t_raffle_entries d),
     t_raffle_draws := filter (\<lambda>x. RD_RaffleID x \<noteq> rid) (t_raffle_draws d),
     t_raffle_prize_tiers := filter (\<lambda>t. TI_RaffleID t \<noteq> rid) (t_raffle_prize_tiers d)\<rparr>"

definition tier_ids :: "db \<Rightarrow> uuid list" where
  "tier_ids d = map TI_ID (t_raffle_prize_tiers d)"

definition aside :: "uuid \<Rightarrow> uuid \<Rightarrow> db \<Rightarrow> db \<Rightarrow> bool" where
  "aside rid v d0 d \<longleftrightarrow> elsewhere rid v d = d0 \<and> distinct (tier_ids d)"

definition aside_tier :: "uuid \<Rightarrow> uuid \<Rightarrow> uuid \<Rightarrow> db \<Rightarrow> db \<Rightarrow> bool" where
  "aside_tier rid v tid d0 d \<longleftrightarrow> aside rid v d0 d \<and> (\<forall>t \<in> set (t_raffle_prize_tiers d). TI_ID t = tid \<longrightarrow> TI_RaffleID t = rid)"

lemma filter_update_rows:
  "(\<And>r. r \<in> set rs \<Longrightarrow> P r \<Longrightarrow> \<not> Q r \<and> \<not> Q (f r)) \<Longrightarrow> filter Q (update_rows P f rs) = filter Q rs"
  by (induction rs) (auto simp: update_rows_def)

lemma aside_update_raffles:
  assumes "\<And>r. P r \<Longrightarrow> RF_ID r = rid" and "\<And>r. RF_ID (f r) = RF_ID r"
  shows "preserves (aside rid v d0) (update_raffles bad P f)"
  unfolding update_raffles_def
proof (rule preserves_update_where)
  fix d t assume "aside rid v d0 d"
  moreover have "filter (\<lambda>r. RF_ID r \<noteq> rid) (update_rows P f (t_raffles d)) = filter (\<lambda>r. RF_ID r \<noteq> rid) (t_raffles d)"
    using assms by (intro filter_update_rows) auto
  ultimately show "aside rid v d0 (t_raffles_update (update_rows P f) d)" by (simp add: aside_def elsewhere_def tier_ids_def)
qed

lemma preserves_after_GetByID:
  "(\<And>r. RF_ID r = rid \<Longrightarrow> preserves I (f r)) \<Longrightarrow> preserves I (bnd (GetByIDContext rid u) f)"
  unfolding preserves_def
proof (intro allI impI)
  fix w :: world
  assume f: "\<And>r. RF_ID r = rid \<Longrightarrow> \<forall>w. I (w_db w) \<longrightarrow> I (w_db (snd (f r w)))" and I: "I (w_db w)"
  obtain y w1 where g: "GetByIDContext rid u w = (y, w1)" by fastforce
  from preservesD [where I = I, OF preserves_GetByID I g] have I1: "I (w_db w1)" .
  show "I (w_db (snd (bnd (GetByIDContext rid u) f w)))"
  proof (cases y)
    case (Inr r)
    with g have "RF_ID r = rid" by (auto simp: GetByID_Inr dest: find_raffleD)
    with f I1 g Inr show ?thesis by (simp add: bnd_def)
  qed (use g I1 in \<open>simp add: bnd_def\<close>)
qed

lemma preserves_after_loadTier:
  assumes f: "\<And>t. TI_ID t = tid \<Longrightarrow> TI_RaffleID t = rid \<Longrightarrow> preserves (aside_tier rid v tid d0) (f t)"
  shows "preserves (aside rid v d0) (bnd (loadTier rid tid) f)"
  unfolding preserves_def
proof (intro allI impI)
  fix w :: world
  assume I: "aside rid v d0 (w_db w)"
  obtain y w1 where g: "loadTier rid tid w = (y, w1)" by fastforce
  from preservesD [OF preserves_loadTier, of "\<lambda>d. d = w_db w", OF refl g] have w1: "w_db w1 = w_db w" .
  show "aside rid v d0 (w_db (snd (bnd (loadTier rid tid) f w)))"
  proof (cases y)
    case (Inr t)
    with g have t: "t \<in> set (t_raffle_prize_tiers (w_db w))" "TI_ID t = tid" "TI_RaffleID t = rid"
      by (auto simp: loadTier_Inr dest: find_tierD)
    with I have "aside_tier rid v tid d0 (w_db w1)"
      using distinct_map_unique [of TI_ID "t_raffle_prize_tiers (w_db w)"] by (auto simp: w1 aside_tier_def aside_def tier_ids_def)
    with f [OF t(2,3)] have "aside_tier rid v tid d0 (w_db (snd (f t w1)))" by (simp add: preserves_def)
    with g Inr show ?thesis by (simp add: bnd_def aside_tier_def)
  qed (use g I w1 in \<open>simp add: bnd_def\<close>)
qed

lemma aside_settings:
  "preserves (aside rid v d0) (SetDiscordWebhookContext rid u url)"
  "preserves (aside rid v d0) (ActivateContext rid u)"
  "preserves (aside rid v d0) (CompleteContext rid u)"
  "preserves (aside rid v d0) (SetModeContext rid u mode)"
  "preserves (aside rid v d0) (SetEntryOpenContext rid u isOpen)"
  unfolding SetDiscordWebhookContext_def ActivateContext_def CompleteContext_def SetModeContext_def
    SetEntryOpenContext_def Let_def
  by (intro preserves_after_GetByID preserves_intros aside_update_raffles; simp)+

lemma aside_entry:
  "RE_RaffleID e = rid \<Longrightarrow> aside rid v d0 (t_raffle_entries_update (\<lambda>es. es @ [e]) d) = aside rid v d0 d"
  by (simp add: aside_def elsewhere_def tier_ids_def)

lemma aside_importRow: "preserves (aside rid v d0) (importRow rid rec res)"
  unfolding importRow_def Let_def by (intro preserves_intros preserves_insert_row) (simp add: aside_entry)

lemma aside_importRows: "preserves (aside rid v d0) (importRows rid rows e res)"
  by (induction rid rows e res rule: importRows.induct)
    (auto intro!: preserves_ret preserves_fail preserves_bnd aside_importRow)

lemma aside_import: "preserves (aside rid v d0) (ImportCSVContext rid u file)"
  unfolding ImportCSVContext_def by (intro preserves_intros aside_importRows)

lemma aside_recordDraw:
  "(\<And>x d. RD_RaffleID x = rid \<Longrightarrow> I (t_raffle_draws_update (\<lambda>ds. ds @ [x]) d) = I d) \<Longrightarrow> preserves I (recordDraw rid tid e)"
  unfolding recordDraw_def by (intro preserves_intros preserves_insert_row) simp

lemma aside_draw [simp]:
  "RD_RaffleID x = rid \<Longrightarrow> aside rid v d0 (t_raffle_draws_update (\<lambda>ds. ds @ [x]) d) = aside rid v d0 d"
  "RD_RaffleID x = rid \<Longrightarrow> aside_tier rid v tid d0 (t_raffle_draws_update (\<lambda>ds. ds @ [x]) d) = aside_tier rid v tid d0 d"
  by (simp_all add: aside_def aside_tier_def elsewhere_def tier_ids_def)

lemma aside_drawLoop: "preserves I attempt \<Longrightarrow> preserves I (drawLoop n attempt stop)"
  by (rule keeps_drawLoop) (rule preserves_keeps)

lemma aside_DrawNext: "preserves (aside rid v d0) (DrawNext hm rid u)"
  unfolding DrawNext_def drawAttempt_def by (intro preserves_intros aside_drawLoop aside_recordDraw) simp

lemma aside_tier_update:
  assumes "aside_tier rid v tid d0 d" and "\<And>t. P t \<Longrightarrow> TI_ID t = tid"
    and "\<And>t. TI_ID t = tid \<Longrightarrow> TI_RaffleID t = rid \<Longrightarrow> TI_ID (f t) = tid \<and> TI_RaffleID (f t) = rid"
  shows "aside_tier rid v tid d0 (t_raffle_prize_tiers_update (update_rows P f) d)"
proof -
  let ?ts = "t_raffle_prize_tiers d"
  from assms have P: "TI_ID t = tid \<and> TI_RaffleID t = rid \<and> TI_ID (f t) = tid \<and> TI_RaffleID (f t) = rid"
    if "t \<in> set ?ts" "P t" for t using that by (auto simp: aside_tier_def)
  then have "filter (\<lambda>t. TI_RaffleID t \<noteq> rid) (update_rows P f ?ts) = filter (\<lambda>t. TI_RaffleID t \<noteq> rid) ?ts"
    by (intro filter_update_rows) auto
  moreover have "map TI_ID (update_rows P f ?ts) = map TI_ID ?ts" using P by (auto simp: update_rows_def)
  moreover have "\<forall>t \<in> set (update_rows P f ?ts). TI_ID t = tid \<longrightarrow> TI_RaffleID t = rid"
  proof (intro ballI impI)
    fix t assume "t \<in> set (update_rows P f ?ts)" "TI_ID t = tid"
    then obtain s where "s \<in> set ?ts" "t = (if P s then f s else s)" by (auto simp: set_update_rows)
    with P [of s] assms(1) \<open>TI_ID t = tid\<close> show "TI_RaffleID t = rid" by (auto simp: aside_tier_def split: if_split_asm)
  qed
  ultimately show ?thesis using assms(1) unfolding aside_tier_def aside_def elsewhere_def tier_ids_def by simp
qed

lemma aside_DrawFromTier: "preserves (aside rid v d0) (DrawFromTierContext hm rid tid u)"
  unfolding DrawFromTierContext_def tierAttempt_def takeSlot_def
  by (intro preserves_after_GetByID preserves_intros preserves_after_loadTier aside_drawLoop aside_recordDraw preserves_update_where)
    (auto intro!: aside_tier_update)

lemma preserves_from: "(\<And>d. I d \<Longrightarrow> J d) \<Longrightarrow> (\<And>d. J d \<Longrightarrow> I d) \<Longrightarrow> preserves J x \<Longrightarrow> preserves I x"
  by (auto simp: preserves_def)

lemma aside_saveTier:
  assumes "TI_ID t = tid" and "TI_RaffleID t = rid"
  shows "preserves (aside_tier rid v tid d0) (saveTier t)"
  unfolding saveTier_def
proof (rule preserves_stmt)
  fix c i d a d'
  assume I: "aside_tier rid v tid d0 d"
    and "(let rows = t_raffle_prize_tiers d;
         rows' = (if TI_ID t \<in> TI_ID ` set rows then update_rows (\<lambda>x. TI_ID x = TI_ID t) (\<lambda>_. t) rows else rows @ [t])
     in case tier_row_check t of Some e \<Rightarrow> Inl e | None \<Rightarrow> Inr ((), d\<lparr>t_raffle_prize_tiers := rows'\<rparr>)) = Inr (a, d')"
  then have d': "d' = d\<lparr>t_raffle_prize_tiers := (if tid \<in> TI_ID ` set (t_raffle_prize_tiers d)
      then update_rows (\<lambda>x. TI_ID x = tid) (\<lambda>_. t) (t_raffle_prize_tiers d) else t_raffle_prize_tiers d @ [t])\<rparr>"
    by (auto simp: Let_def assms(1) split: option.splits)
  show "aside_tier rid v tid d0 d'"
  proof (cases "tid \<in> TI_ID ` set (t_raffle_prize_tiers d)")
    case True
    have "aside_tier rid v tid d0 (t_raffle_prize_tiers_update (update_rows (\<lambda>x. TI_ID x = tid) (\<lambda>_. t)) d)"
      using assms by (intro aside_tier_update I) auto
    with True show ?thesis unfolding d' by (cases d) simp
  next
    case False
    with I assms show ?thesis by (auto simp: d' aside_tier_def aside_def elsewhere_def tier_ids_def)
  qed
qed

lemma aside_tiers:
  "preserves (aside rid v d0) (CreatePrizeTierContext rid u input)"
  "preserves (aside rid v d0) (UpdatePrizeTierContext rid tid u input')"
  "preserves (aside rid v d0) (DeletePrizeTierContext rid tid u)"
proof -
  show "preserves (aside rid v d0) (CreatePrizeTierContext rid u input)"
    unfolding CreatePrizeTierContext_def
    by (intro preserves_intros preserves_insert_row)
      (auto simp: aside_def elsewhere_def tier_ids_def tier_conflict_def split: if_splits)
  show "preserves (aside rid v d0) (UpdatePrizeTierContext rid tid u input')"
    unfolding UpdatePrizeTierContext_def
    by (intro preserves_after_GetByID preserves_after_loadTier preserves_intros aside_saveTier) (simp_all add: edited_def)
  have "aside rid v d0 (t_raffle_prize_tiers_update (filter (\<lambda>t. \<not> (TI_ID t = tid \<and> TI_RaffleID t = rid \<and> TI_DrawnCount t = 0))) d)"
    if "aside rid v d0 d" for d
  proof -
    let ?Q = "\<lambda>t. \<not> (TI_ID t = tid \<and> TI_RaffleID t = rid \<and> TI_DrawnCount t = 0)"
    have "filter (\<lambda>t. TI_RaffleID t \<noteq> rid) (filter ?Q (t_raffle_prize_tiers d)) =
        filter (\<lambda>t. TI_RaffleID t \<noteq> rid) (t_raffle_prize_tiers d)" unfolding filter_filter by (rule filter_cong) auto
    then have "elsewhere rid v (t_raffle_prize_tiers_update (filter ?Q) d) = elsewhere rid v d"
      unfolding elsewhere_def by (cases d) (simp del: filter_filter)
    with that show ?thesis unfolding aside_def tier_ids_def by (simp add: distinct_map_filter)
  qed
  then show "preserves (aside rid v d0) (DeletePrizeTierContext rid tid u)"
    unfolding DeletePrizeTierContext_def by (intro preserves_intros preserves_delete_where)
qed

section \<open>Only the owner\<close>

lemma not_owner_unchanged:
  assumes "\<forall>rf. find_raffle rid d0 = Some rf \<longrightarrow> RF_UserID rf \<noteq> u"
  shows "preserves (\<lambda>d. d = d0) (bnd (GetByIDContext rid u) f)"
  unfolding preserves_def
proof (intro allI impI)
  fix w :: world
  assume w: "w_db w = d0"
  obtain y w1 where g: "GetByIDContext rid u w = (y, w1)" by fastforce
  from preservesD [OF preserves_GetByID, of "\<lambda>d. d = d0", OF w g] g assms show "w_db (snd (bnd (GetByIDContext rid u) f w)) = d0"
    by (cases y) (auto simp: bnd_def GetByID_Inr w)
qed

text \<open>The raffle and the user of a request that a streamer makes on a raffle.\<close>

fun owner_request :: "raffle_request \<Rightarrow> (uuid \<times> uuid) option" where
  "owner_request (SetDiscordWebhook r u url) = Some (r, u)"
| "owner_request (Activate r u) = Some (r, u)"
| "owner_request (Complete r u) = Some (r, u)"
| "owner_request (SetMode r u mode) = Some (r, u)"
| "owner_request (SetEntryOpen r u isOpen) = Some (r, u)"
| "owner_request (ImportCSV r u file) = Some (r, u)"
| "owner_request (Draw r u) = Some (r, u)"
| "owner_request (CreatePrizeTier r u input) = Some (r, u)"
| "owner_request (UpdatePrizeTier r t u input) = Some (r, u)"
| "owner_request (DeletePrizeTier r t u) = Some (r, u)"
| "owner_request (DrawFromTier r t u) = Some (r, u)"
| "owner_request _ = None"

fun_cases owner_requestE: "owner_request r = Some (rid, u)"

lemma owner_aside: "owner_request r = Some (rid, u) \<Longrightarrow> preserves (aside rid v d0) (raffle_op s hm r)"
  by (elim owner_requestE) (auto intro!: preserves_void aside_settings aside_import aside_DrawNext aside_DrawFromTier aside_tiers)

lemma providers_raffle_updates:
  "preserves (\<lambda>d. t_auth_providers d = ps) (SetDiscordWebhookContext rid u url)"
  "preserves (\<lambda>d. t_auth_providers d = ps) (ActivateContext rid u)"
  "preserves (\<lambda>d. t_auth_providers d = ps) (CompleteContext rid u)"
  "preserves (\<lambda>d. t_auth_providers d = ps) (SetModeContext rid u mode)"
  "preserves (\<lambda>d. t_auth_providers d = ps) (SetEntryOpenContext rid u isOpen)"
  "preserves (\<lambda>d. t_auth_providers d = ps) (CreatePrizeTierContext rid u input)"
  "preserves (\<lambda>d. t_auth_providers d = ps) (DeletePrizeTierContext rid tid u)"
  unfolding SetDiscordWebhookContext_def ActivateContext_def CompleteContext_def SetModeContext_def
    SetEntryOpenContext_def CreatePrizeTierContext_def DeletePrizeTierContext_def update_raffles_def Let_def
  by (intro preserves_intros preserves_update_where preserves_insert_row preserves_delete_where; simp)+

lemma providers_draws:
  "preserves (\<lambda>d. t_auth_providers d = ps) (ImportCSVContext rid u file)"
  "preserves (\<lambda>d. t_auth_providers d = ps) (DrawNext hm rid u)"
  "preserves (\<lambda>d. t_auth_providers d = ps) (DrawFromTierContext hm rid tid u)"
  "preserves (\<lambda>d. t_auth_providers d = ps) (UpdatePrizeTierContext rid tid u input')"
proof -
  have row: "preserves (\<lambda>d. t_auth_providers d = ps) (importRow rid' rec res)" for rid' rec res
    unfolding importRow_def Let_def by (intro preserves_intros preserves_insert_row) simp
  have "preserves (\<lambda>d. t_auth_providers d = ps) (importRows rid rows e res)" for rows e res
    by (induction rid rows e res rule: importRows.induct) (auto intro!: preserves_ret preserves_fail preserves_bnd row)
  then show "preserves (\<lambda>d. t_auth_providers d = ps) (ImportCSVContext rid u file)"
    unfolding ImportCSVContext_def by (intro preserves_intros)
  show "preserves (\<lambda>d. t_auth_providers d = ps) (DrawNext hm rid u)"
    unfolding DrawNext_def drawAttempt_def by (intro preserves_intros aside_drawLoop aside_recordDraw) simp
  show "preserves (\<lambda>d. t_auth_providers d = ps) (DrawFromTierContext hm rid tid u)"
    unfolding DrawFromTierContext_def tierAttempt_def takeSlot_def
    by (intro preserves_intros preserves_loadTier aside_drawLoop aside_recordDraw preserves_update_where) auto
  have "preserves (\<lambda>d. t_auth_providers d = ps) (saveTier t)" for t
    unfolding saveTier_def by (rule preserves_stmt) (auto simp: Let_def split: option.splits)
  then show "preserves (\<lambda>d. t_auth_providers d = ps) (UpdatePrizeTierContext rid tid u input')"
    unfolding UpdatePrizeTierContext_def by (intro preserves_intros)
qed

lemma owner_providers: "owner_request r = Some (rid, u) \<Longrightarrow> preserves (\<lambda>d. t_auth_providers d = ps) (raffle_op s hm r)"
  by (elim owner_requestE) (auto intro!: preserves_void providers_raffle_updates providers_draws)

lemma stranger_unchanged:
  assumes "owner_request r = Some (rid, u)" and n: "\<forall>rf. find_raffle rid d0 = Some rf \<longrightarrow> RF_UserID rf \<noteq> u"
  shows "preserves (\<lambda>d. d = d0) (raffle_op s hm r)"
  using assms(1)
  by (elim owner_requestE) (auto simp: SetDiscordWebhookContext_def ActivateContext_def CompleteContext_def SetModeContext_def
    SetEntryOpenContext_def ImportCSVContext_def DrawNext_def CreatePrizeTierContext_def UpdatePrizeTierContext_def
    DeletePrizeTierContext_def DrawFromTierContext_def intro!: preserves_void preserves_fail not_owner_unchanged n)

section \<open>The snapshot\<close>

text \<open>The account whose tokens a snapshot uses, and may clear, is the streamer's.\<close>

definition aside_account :: "uuid \<Rightarrow> uuid \<Rightarrow> AuthProvider \<Rightarrow> db \<Rightarrow> db \<Rightarrow> bool" where
  "aside_account rid v ap d0 d \<longleftrightarrow> aside rid v d0 d \<and>
     (\<forall>p \<in> set (t_auth_providers d). AP_ID p = AP_ID ap \<longrightarrow> own_twitch v p)"

lemma clear_own:
  "(\<And>p. p \<in> set ps \<Longrightarrow> P p \<Longrightarrow> own_twitch v p) \<Longrightarrow>
    update_rows (own_twitch v) without_tokens (update_rows P without_tokens ps) = update_rows (own_twitch v) without_tokens ps"
  by (auto simp: update_rows_def without_tokens_def own_twitch_def)

lemma aside_clear: "preserves (aside_account rid v ap d0) (clearProviderTokensContext (AP_ID ap))"
proof -
  have "aside_account rid v ap d0 (t_auth_providers_update (update_rows (\<lambda>p. AP_ID p = AP_ID ap \<and> AP_DeletedAt p = None) without_tokens) d)"
    if "aside_account rid v ap d0 d" for d
    using that clear_own [of "t_auth_providers d" "\<lambda>p. AP_ID p = AP_ID ap \<and> AP_DeletedAt p = None" v]
    by (auto simp: aside_account_def aside_def elsewhere_def tier_ids_def set_update_rows own_twitch_def without_tokens_def)
  then show ?thesis
    unfolding clearProviderTokensContext_def without_tokens_def [symmetric]
    by (intro preserves_intros preserves_update_where)
qed

lemma aside_importSubs: "preserves (aside_account rid v ap d0) (importSubs rid subs res)"
proof -
  have "preserves (aside_account rid v ap d0) (insert_entry (new_entry rid u l n src))" for u l n src
    unfolding insert_entry_def
    by (rule preserves_stmt)
      (auto simp: Let_def aside_account_def aside_def elsewhere_def tier_ids_def split: option.splits if_splits)
  then show ?thesis
    by (induction rid subs res rule: importSubs.induct) (auto intro!: preserves_intros split: option.split)
qed

lemma aside_syncPage: "preserves (aside_account rid v ap d0) (syncPage s rid ap tok cur res)"
  unfolding syncPage_def by (intro preserves_intros aside_clear aside_importSubs)

lemma user_twitchD: "user_twitch u d = Some ap \<Longrightarrow> ap \<in> set (t_auth_providers d) \<and> own_twitch u ap"
  unfolding user_twitch_def own_twitch_def using first_by_SomeD(1,2) by fastforce

lemma syncToken_aside:
  assumes start: "\<And>ap. user_twitch u (w_db w) = Some ap \<Longrightarrow> aside_account rid u ap (elsewhere rid u (w_db w)) (w_db w)"
    and run: "syncToken s rid u w = (z, w')"
  shows "case z of Inl e \<Rightarrow> elsewhere rid u (w_db w') = elsewhere rid u (w_db w)
    | Inr (ap, t) \<Rightarrow> aside_account rid u ap (elsewhere rid u (w_db w)) (w_db w')"
proof -
  have g: "w_db w2 = w_db w1" if "GetByIDContext rid u w1 = (y, w2)" for y w1 w2
    by (rule preservesD [where I = "\<lambda>d. d = w_db w1", OF preserves_GetByID refl that])
  have d: "w_db w2 = w_db w1" if "decryptedProviderAccessToken s ap w1 = (y, w2)" for ap y w1 w2
    by (rule preservesD [where I = "\<lambda>d. d = w_db w1", OF preserves_decrypted refl that])
  have q: "w_db w2 = w_db w1 \<and> (\<forall>ap. y = Inr ap \<longrightarrow> user_twitch u (w_db w1) = Some ap)"
    if "orElse (query (user_twitch u)) er w1 = (y, w2)" for er y w1 w2
    using that by (auto simp: orElse_def bnd_run query_def stmt_def ret_run fail_run split: option.splits)
  have n: "w_db w2 = w_db w1" if "(case o' of None \<Rightarrow> ret False | Some expiry \<Rightarrow> bnd now (\<lambda>t. ret (t > expiry))) w1 = (y, w2)"
    for o' :: "time option" and y w1 w2
    using that by (auto simp: ret_def bnd_def now_def split: option.splits)
  have c: "elsewhere rid u (w_db w2) = elsewhere rid u (w_db w)"
    if "clearProviderTokensContext (AP_ID ap) w1 = (y, w2)" "user_twitch u (w_db w) = Some ap" "w_db w1 = w_db w" for ap y w1 w2
  proof -
    from start [OF that(2)] have "aside_account rid u ap (elsewhere rid u (w_db w)) (w_db w1)" by (simp add: that(3))
    from preservesD [where I = "aside_account rid u ap (elsewhere rid u (w_db w))", OF aside_clear this that(1)]
    show ?thesis by (simp add: aside_account_def aside_def)
  qed
  from run show ?thesis
    unfolding syncToken_def bnd_run seq_def
    by (auto simp: bnd_run seq_def fail_run ret_run split: if_split_asm dest!: g d q n dest: start c)
qed

lemma Sync_aside:
  assumes "raffle_ok (w_db w)" and "distinct (map AP_ID (t_auth_providers (w_db w)))"
    and run: "SyncFromTwitchAPI s rid u w = Some (x, w')"
  shows "elsewhere rid u (w_db w') = elsewhere rid u (w_db w) \<and>
    (w_db w' \<noteq> w_db w \<longrightarrow> (\<exists>rf. find_raffle rid (w_db w) = Some rf \<and> RF_UserID rf = u))"
proof -
  let ?d = "w_db w"
  obtain y w1 where g: "GetByIDContext rid u w = (y, w1)" by fastforce
  have w1: "w_db w1 = ?d" by (rule preservesD [where I = "\<lambda>d. d = ?d", OF preserves_GetByID refl g])
  show ?thesis
  proof (cases y)
    case (Inl e)
    with run g w1 show ?thesis by (simp add: SyncFromTwitchAPI_def next_loop_def syncToken_def bnd_def)
  next
    case (Inr rf)
    with g have rf: "find_raffle rid ?d = Some rf" "RF_UserID rf = u" by (auto simp: GetByID_Inr)
    have start: "aside_account rid u ap (elsewhere rid u ?d) ?d" if "user_twitch u ?d = Some ap" for ap
    proof -
      from user_twitchD [OF that] have ap: "ap \<in> set (t_auth_providers ?d)" "own_twitch u ap" by simp_all
      have "own_twitch u p" if "p \<in> set (t_auth_providers ?d)" "AP_ID p = AP_ID ap" for p
        using distinct_map_unique [OF assms(2) that(1) ap(1) that(2)] ap(2) by simp
      with assms(1) show ?thesis by (auto simp: aside_account_def aside_def tier_ids_def raffle_ok_def tiers_ok_def)
    qed
    obtain z w2 where tok: "syncToken s rid u w = (z, w2)" by fastforce
    have after: "case z of Inl e \<Rightarrow> elsewhere rid u (w_db w2) = elsewhere rid u ?d
        | Inr (ap, t) \<Rightarrow> aside_account rid u ap (elsewhere rid u ?d) (w_db w2)"
      using syncToken_aside [OF start tok] .
    have "elsewhere rid u (w_db w') = elsewhere rid u ?d"
    proof (cases z)
      case (Inl e)
      with run tok after show ?thesis by (simp add: SyncFromTwitchAPI_def next_loop_def)
    next
      case (Inr p)
      with run tok after syncPages_inv [where I = "aside_account rid u (fst p) (elsewhere rid u ?d)", OF aside_syncPage]
      show ?thesis by (auto simp: SyncFromTwitchAPI_def next_loop_def aside_account_def aside_def split: prod.splits)
    qed
    with rf show ?thesis by blast
  qed
qed

text \<open>The raffle and the user of what a streamer does with a raffle, the snapshot included.\<close>

fun owner_event :: "raffle_event \<Rightarrow> (uuid \<times> uuid) option" where
  "owner_event (RaffleRequest r) = owner_request r"
| "owner_event (Snapshot rid u) = Some (rid, u)"
| "owner_event _ = None"

text \<open>C24. What a streamer does with a raffle, the snapshot of the subscribers included, changes nothing at all unless the
  raffle is the streamer's, and then only rows of that raffle: every other raffle with its entries, draws and tiers and every
  other table stays as it is, except that a snapshot may clear the tokens of the streamer's own Twitch account.\<close>

theorem raffle_requests_own:
  assumes "raffle_ok (w_db w)" and "distinct (map AP_ID (t_auth_providers (w_db w)))"
    and ev: "owner_event e = Some (rid, u)" and run: "raffle_step s hm e w = Some w'"
  shows "elsewhere rid u (w_db w') = elsewhere rid u (w_db w) \<and>
    (e \<noteq> Snapshot rid u \<longrightarrow> t_auth_providers (w_db w') = t_auth_providers (w_db w)) \<and>
    (w_db w' \<noteq> w_db w \<longrightarrow> (\<exists>rf. find_raffle rid (w_db w) = Some rf \<and> RF_UserID rf = u))"
proof (cases e)
  case (Snapshot rid' u')
  with ev run obtain x where "SyncFromTwitchAPI s rid u w = Some (x, w')" "e = Snapshot rid u" by auto
  with Sync_aside [OF assms(1,2)] show ?thesis by blast
next
  case (RaffleRequest r)
  with ev have r: "owner_request r = Some (rid, u)" by simp
  obtain x where run: "raffle_op s hm r w = (x, w')"
    using run by (cases "raffle_op s hm r w") (auto simp: RaffleRequest simp del: raffle_op.simps)
  have "aside rid u (elsewhere rid u (w_db w)) (w_db w)"
    using assms(1) by (simp add: aside_def tier_ids_def raffle_ok_def tiers_ok_def)
  from preservesD [OF owner_aside [OF r] this run] have "elsewhere rid u (w_db w') = elsewhere rid u (w_db w)"
    by (simp add: aside_def)
  moreover have "t_auth_providers (w_db w') = t_auth_providers (w_db w)"
    by (rule preservesD [where I = "\<lambda>d. t_auth_providers d = t_auth_providers (w_db w)", OF owner_providers [OF r] refl run])
  moreover have "w_db w' \<noteq> w_db w \<longrightarrow> (\<exists>rf. find_raffle rid (w_db w) = Some rf \<and> RF_UserID rf = u)"
    using preservesD [OF stranger_unchanged [OF r, of "w_db w"], where w = w, OF _ refl run] by blast
  ultimately show ?thesis by blast
qed (use ev in auto)

theorem raffle_requests_own_witness:
  "\<forall>s hm. w_db (snd (raffle_op s hm (Draw 7 12) (start (\<lambda>n. int n) raffle_7))) = raffle_7 \<and>
     elsewhere 7 11 (w_db (snd (raffle_op s hm (Draw 7 11) (start (\<lambda>n. int n) raffle_7)))) = elsewhere 7 11 raffle_7"
proof (intro allI)
  fix s hm
  let ?w = "start (\<lambda>n. int n) raffle_7"
  have ok: "raffle_ok (w_db ?w)" "distinct (map AP_ID (t_auth_providers (w_db ?w)))"
    by (simp_all add: raffle_7_ok) (simp add: raffle_7_def empty_db_def)
  have draw: "raffle_step s hm (RaffleRequest r) ?w = Some (snd (raffle_op s hm r ?w))" for r by simp
  from raffle_requests_own [OF ok _ draw [of "Draw 7 12"], of 7 12] raffle_requests_own [OF ok _ draw [of "Draw 7 11"], of 7 11]
  show "w_db (snd (raffle_op s hm (Draw 7 12) ?w)) = raffle_7 \<and>
     elsewhere 7 11 (w_db (snd (raffle_op s hm (Draw 7 11) ?w))) = elsewhere 7 11 raffle_7" by (auto simp del: raffle_op.simps)
qed

end
