(* ===== verification/TokenCrypto.thy ===== *)
theory TokenCrypto
  imports Sha256
begin

text \<open>
  \<^verbatim>\<open>services/oauth_token_crypto.go\<close> with what it uses of the Go library: AES-256 in Galois/counter mode
  (\<^verbatim>\<open>crypto/aes\<close>, \<^verbatim>\<open>crypto/cipher\<close>) and base64 (\<^verbatim>\<open>encoding/base64\<close>). Everything is executable. The
  nonce of an encryption is drawn from the environment's random source.
\<close>

type_synonym w8 = "8 word"

section \<open>AES-256\<close>

text \<open>Arithmetic modulo \<open>x^8 + x^4 + x^3 + x + 1\<close>.\<close>

definition xtime :: "w8 \<Rightarrow> w8" where
  "xtime x = push_bit 1 x XOR (if bit x 7 then 27 else 0)"

primrec gmul_bits :: "nat \<Rightarrow> w8 \<Rightarrow> w8 \<Rightarrow> w8" where
  "gmul_bits 0 x y = 0"
| "gmul_bits (Suc k) x y = (if bit y 0 then x else 0) XOR gmul_bits k (xtime x) (drop_bit 1 y)"

definition gmul :: "w8 \<Rightarrow> w8 \<Rightarrow> w8" where
  "gmul = gmul_bits 8"

primrec gpow :: "w8 \<Rightarrow> nat \<Rightarrow> w8" where
  "gpow x 0 = 1"
| "gpow x (Suc n) = gmul x (gpow x n)"

definition rotl8 :: "nat \<Rightarrow> w8 \<Rightarrow> w8" where
  "rotl8 n x = push_bit n x OR drop_bit (8 - n) x"

definition sub_byte :: "w8 \<Rightarrow> w8" where
  "sub_byte x = (let y = gpow x 254 in y XOR rotl8 1 y XOR rotl8 2 y XOR rotl8 3 y XOR rotl8 4 y XOR 99)"

definition xor_bytes :: "w8 list \<Rightarrow> w8 list \<Rightarrow> w8 list" where
  "xor_bytes xs ys = map (\<lambda>(x, y). x XOR y) (zip xs ys)"

text \<open>The key schedule, newest word first; \<open>i\<close> is the index of the next word.\<close>

primrec key_words :: "nat \<Rightarrow> nat \<Rightarrow> w8 list list \<Rightarrow> w8 list list" where
  "key_words 0 i ws = ws"
| "key_words (Suc n) i ws =
     (let t = hd ws;
          t' = (if i mod 8 = 0 then xor_bytes (map sub_byte (rotate1 t)) [gpow 2 (i div 8 - 1), 0, 0, 0]
             else if i mod 8 = 4 then map sub_byte t else t)
      in key_words n (Suc i) (xor_bytes (ws ! 7) t' # ws))"

fun chunks :: "nat \<Rightarrow> 'a list \<Rightarrow> 'a list list" where
  "chunks n xs = (if n = 0 \<or> xs = [] then [] else take n xs # chunks n (drop n xs))"

declare chunks.simps [simp del]

definition round_keys :: "w8 list \<Rightarrow> w8 list list" where
  "round_keys key = chunks 16 (concat (rev (key_words 52 8 (rev (chunks 4 key)))))"

definition shift_rows :: "w8 list \<Rightarrow> w8 list" where
  "shift_rows s = map (\<lambda>i. s ! ((i + 4 * (i mod 4)) mod 16)) [0..<16]"

definition mix_column :: "w8 list \<Rightarrow> w8 list" where
  "mix_column c = map (\<lambda>i. gmul 2 (c ! i) XOR gmul 3 (c ! ((i + 1) mod 4)) XOR c ! ((i + 2) mod 4) XOR
     c ! ((i + 3) mod 4)) [0..<4]"

definition aes_round :: "w8 list \<Rightarrow> w8 list \<Rightarrow> w8 list" where
  "aes_round s k = xor_bytes (concat (map mix_column (chunks 4 (shift_rows (map sub_byte s))))) k"

definition aes_encrypt :: "w8 list \<Rightarrow> w8 list \<Rightarrow> w8 list" where
  "aes_encrypt key block = (let ks = round_keys key in
     xor_bytes (shift_rows (map sub_byte (foldl aes_round (xor_bytes block (hd ks)) (butlast (tl ks))))) (last ks))"

section \<open>Galois/counter mode\<close>

type_synonym w128 = "128 word"

primrec block_mul_bits :: "nat \<Rightarrow> w128 \<Rightarrow> w128 \<Rightarrow> w128 \<Rightarrow> w128" where
  "block_mul_bits 0 x v z = z"
| "block_mul_bits (Suc k) x v z = block_mul_bits k x
     (if bit v 0 then drop_bit 1 v XOR push_bit 120 225 else drop_bit 1 v) (if bit x k then z XOR v else z)"

definition block_mul :: "w128 \<Rightarrow> w128 \<Rightarrow> w128" where
  "block_mul x y = block_mul_bits 128 x y 0"

definition of_block :: "w8 list \<Rightarrow> w128" where
  "of_block bs = foldl (\<lambda>x b. push_bit 8 x OR ucast b) 0 (bs @ replicate (16 - length bs) 0)"

definition to_block :: "w128 \<Rightarrow> w8 list" where
  "to_block x = map (\<lambda>i. ucast (drop_bit (8 * (15 - i)) x)) [0..<16]"

definition ghash :: "w128 \<Rightarrow> w8 list \<Rightarrow> w128" where
  "ghash h ct = block_mul h (foldl (\<lambda>y b. block_mul h (y XOR of_block b)) 0 (chunks 16 ct) XOR of_nat (8 * length ct))"

definition counter_block :: "w8 list \<Rightarrow> nat \<Rightarrow> w8 list" where
  "counter_block nonce i = nonce @ map of_nat (be_bytes 4 i)"

text \<open>The key stream of \<open>n\<close> blocks from counter \<open>i\<close>, cut to the length of the text.\<close>

primrec key_stream :: "w8 list \<Rightarrow> w8 list \<Rightarrow> nat \<Rightarrow> nat \<Rightarrow> w8 list" where
  "key_stream key nonce i 0 = []"
| "key_stream key nonce i (Suc n) = aes_encrypt key (counter_block nonce i) @ key_stream key nonce (Suc i) n"

definition ctr :: "w8 list \<Rightarrow> w8 list \<Rightarrow> w8 list \<Rightarrow> w8 list" where
  "ctr key nonce text = xor_bytes text (key_stream key nonce 2 ((length text + 15) div 16))"

definition gcm_tag :: "w8 list \<Rightarrow> w8 list \<Rightarrow> w8 list \<Rightarrow> w8 list" where
  "gcm_tag key nonce ct = to_block (ghash (of_block (aes_encrypt key (replicate 16 0))) ct XOR
     of_block (aes_encrypt key (counter_block nonce 1)))"

definition gcm_seal :: "w8 list \<Rightarrow> w8 list \<Rightarrow> w8 list \<Rightarrow> w8 list" where
  "gcm_seal key nonce text = (let ct = ctr key nonce text in ct @ gcm_tag key nonce ct)"

definition gcm_open :: "w8 list \<Rightarrow> w8 list \<Rightarrow> w8 list \<Rightarrow> err + w8 list" where
  "gcm_open key nonce sealed =
     (if length sealed < 16 then Inl (Errorf ''cipher: message authentication failed'')
      else let n = length sealed - 16; ct = take n sealed in
        if drop n sealed \<noteq> gcm_tag key nonce ct then Inl (Errorf ''cipher: message authentication failed'')
        else Inr (ctr key nonce ct))"

section \<open>Base64\<close>

text \<open>
  \<open>url\<close> chooses between \<open>RawURLEncoding\<close>, without padding, and \<open>StdEncoding\<close>. Decoding skips line
  breaks and does not look at the unused bits of the last character. An error is reported without
  its offset.
\<close>

definition b64_char :: "bool \<Rightarrow> nat \<Rightarrow> char" where
  "b64_char url i = (if i < 26 then char_of (65 + i) else if i < 52 then char_of (71 + i)
     else if i < 62 then char_of (i - 4) else if i = 62 then (if url then CHR ''-'' else CHR ''+'')
     else (if url then CHR ''_'' else CHR ''/''))"

definition b64_value :: "bool \<Rightarrow> char \<Rightarrow> nat option" where
  "b64_value url c = (if cont 65 90 c then Some (of_char c - 65) else if cont 97 122 c then Some (of_char c - 71)
     else if cont 48 57 c then Some (of_char c + 4)
     else if c = (if url then CHR ''-'' else CHR ''+'') then Some 62
     else if c = (if url then CHR ''_'' else CHR ''/'') then Some 63 else None)"

definition b64_digits :: "nat \<Rightarrow> string" where
  "b64_digits n = map (b64_char True) [n div 262144 mod 64, n div 4096 mod 64, n div 64 mod 64, n mod 64]"

fun b64_encode :: "w8 list \<Rightarrow> string" where
  "b64_encode [] = []"
| "b64_encode [a] = take 2 (b64_digits (unat a * 65536))"
| "b64_encode [a, b] = take 3 (b64_digits (unat a * 65536 + unat b * 256))"
| "b64_encode (a # b # c # r) = b64_digits (unat a * 65536 + unat b * 256 + unat c) @ b64_encode r"

definition b64_group :: "nat list \<Rightarrow> w8 list" where
  "b64_group vs = (let n = foldl (\<lambda>n v. n * 64 + v) 0 (vs @ replicate (4 - length vs) 0) in
     take (length vs - 1) [of_nat (n div 65536), of_nat (n div 256), of_nat n])"

fun those_values :: "bool \<Rightarrow> string \<Rightarrow> nat list option" where
  "those_values url [] = Some []"
| "those_values url (c # s) = (case b64_value url c of None \<Rightarrow> None
     | Some v \<Rightarrow> (case those_values url s of None \<Rightarrow> None | Some vs \<Rightarrow> Some (v # vs)))"

definition b64_last :: "bool \<Rightarrow> string \<Rightarrow> w8 list option" where
  "b64_last url s = (if length s < 2 then None else map_option b64_group (those_values url s))"

fun b64_decode_groups :: "bool \<Rightarrow> string \<Rightarrow> w8 list option" where
  "b64_decode_groups url [] = Some []"
| "b64_decode_groups url (a # b # c # d # r) =
     (if \<not> url \<and> r = [] \<and> d = CHR ''='' then b64_last url (if c = CHR ''='' then [a, b] else [a, b, c])
      else (case those_values url [a, b, c, d] of None \<Rightarrow> None
        | Some vs \<Rightarrow> (case b64_decode_groups url r of None \<Rightarrow> None | Some bs \<Rightarrow> Some (b64_group vs @ bs))))"
| "b64_decode_groups url s = (if url then b64_last url s else None)"

definition b64_decode :: "bool \<Rightarrow> string \<Rightarrow> err + w8 list" where
  "b64_decode url s =
     (case b64_decode_groups url (filter (\<lambda>c. c \<noteq> CHR 0x0A \<and> c \<noteq> CHR 0x0D) s) of
        None \<Rightarrow> Inl (Errorf ''illegal base64 data'') | Some bs \<Rightarrow> Inr bs)"

section \<open>Secrets\<close>

definition randomNat :: "nat m" where
  "randomNat w = (case env_fault (w_env w) (w_tick w) of
     Some e \<Rightarrow> (Inl (DbE e), tick w)
   | None \<Rightarrow> (Inr (env_rand (w_env w) (w_tick w)), tick w))"

definition generateNonce :: "string m" where
  "generateNonce = bnd randomNat (\<lambda>r. ret (hexDigits 64 r))"

definition hashToken :: "string \<Rightarrow> string" where
  "hashToken raw = sha256_hex raw"

section \<open>The cipher of the stored tokens\<close>

definition encryptedOAuthTokenPrefix :: string where
  "encryptedOAuthTokenPrefix = ''enc:v1:''"

definition digest_bytes :: "string \<Rightarrow> w8 list" where
  "digest_bytes s = concat (map (\<lambda>x. map (\<lambda>i. ucast (drop_bit (8 * (3 - i)) x)) [0..<4]) (Sum256 s))"

text \<open>A cipher is its key; without a secret there is none.\<close>

definition newOAuthTokenCipher :: "string \<Rightarrow> w8 list" where
  "newOAuthTokenCipher secret = (if secret = [] then [] else digest_bytes secret)"

definition text_bytes :: "string \<Rightarrow> w8 list" where
  "text_bytes s = map (\<lambda>c. of_nat (of_char c)) s"

definition bytes_text :: "w8 list \<Rightarrow> string" where
  "bytes_text bs = map (\<lambda>b. char_of (unat b)) bs"

definition encrypt :: "w8 list \<Rightarrow> string \<Rightarrow> string m" where
  "encrypt key plaintext =
     (if plaintext = [] then ret []
      else if key = [] then fail (AuthE ErrOAuthTokenEncryptionKeyMissing)
      else
        bnd randomNat (\<lambda>r.
        let nonce = map of_nat (be_bytes 12 r) in
        ret (encryptedOAuthTokenPrefix @ b64_encode (nonce @ gcm_seal key nonce (text_bytes plaintext)))))"

definition decrypt :: "w8 list \<Rightarrow> string \<Rightarrow> err + string" where
  "decrypt key stored =
     (if stored = [] then Inr []
      else if \<not> HasPrefix stored encryptedOAuthTokenPrefix then Inr stored
      else if key = [] then Inl (AuthE ErrOAuthTokenEncryptionKeyMissing)
      else (case b64_decode True (drop (length encryptedOAuthTokenPrefix) stored) of
          Inl e \<Rightarrow> Inl e
        | Inr raw \<Rightarrow>
            if length raw < 12 then Inl (Errorf ''encrypted oauth token is too short'')
            else (case gcm_open key (take 12 raw) (drop 12 raw) of
                Inl e \<Rightarrow> Inl e | Inr plaintext \<Rightarrow> Inr (bytes_text plaintext))))"

section \<open>Round trips\<close>

lemma b64_value_char: "i < 64 \<Longrightarrow> b64_value u (b64_char u i) = Some i"
proof -
  have "\<forall>i \<in> set [0..<64]. b64_value u (b64_char u i) = Some i" for u
    by (cases u; simp add: upt_rec b64_value_def b64_char_def cont_def del: upt_Suc)
  then show "i < 64 \<Longrightarrow> ?thesis" by simp
qed

lemma b64_char_plain: "i < 64 \<Longrightarrow> b64_char u i \<noteq> CHR 0x0A \<and> b64_char u i \<noteq> CHR 0x0D"
  using b64_value_char [of i u] by (auto simp: b64_value_def cont_def split: if_splits)

lemma those_values_chars: "\<forall>v \<in> set vs. v < 64 \<Longrightarrow> those_values True (map (b64_char True) vs) = Some vs"
  by (induction vs) (auto simp: b64_value_char)

lemma digits_sum: "n < 16777216 \<Longrightarrow> ((n div 262144 mod 64 * 64 + n div 4096 mod 64) * 64 + n div 64 mod 64) * 64 + n mod 64 = (n::nat)"
proof -
  assume n: "n < 16777216"
  have q: "n div 4096 = n div 64 div 64" "n div 262144 = n div 64 div 64 div 64" by (simp_all add: div_mult2_eq [symmetric])
  have "n div 262144 < 64" using n by simp
  then show ?thesis unfolding q by simp
qed

lemma b64_digits_group: "n < 16777216 \<Longrightarrow> b64_group [n div 262144 mod 64, n div 4096 mod 64, n div 64 mod 64, n mod 64] =
    [of_nat (n div 65536), of_nat (n div 256), of_nat n]"
  using digits_sum [of n] by (simp add: b64_group_def)

lemma w8_256 [simp]: "(256 :: w8) = 0" "(65536 :: w8) = 0"
  by (simp_all add: word_eq_iff_unsigned)

lemma unat_w8: "unat (a :: w8) < 256"
  using unsigned_less [of a] by simp

lemma group_bytes:
  fixes a b c :: w8
  defines "n \<equiv> unat a * 65536 + unat b * 256 + unat c"
  shows "n < 16777216" and "(of_nat (n div 65536) :: w8) = a" and "(of_nat (n div 256) :: w8) = b" and "(of_nat n :: w8) = c"
proof -
  note ub = unat_w8 [of a] unat_w8 [of b] unat_w8 [of c]
  show "n < 16777216" using ub by (simp add: n_def)
  have "n div 65536 = unat a" "n div 256 = unat a * 256 + unat b" using ub by (simp_all add: n_def)
  then show "(of_nat (n div 65536) :: w8) = a" "(of_nat (n div 256) :: w8) = b" "(of_nat n :: w8) = c"
    by (simp_all add: n_def)
qed

lemma b64_digits_values:
  assumes "n < 16777216" and "k \<le> 4"
  shows "those_values True (take k (b64_digits n)) = Some (take k [n div 262144 mod 64, n div 4096 mod 64, n div 64 mod 64, n mod 64])"
proof -
  let ?vs = "[n div 262144 mod 64, n div 4096 mod 64, n div 64 mod 64, n mod 64]"
  have "\<forall>v \<in> set (take k ?vs). v < 64" using set_take_subset [of k ?vs] by auto
  then show ?thesis unfolding b64_digits_def take_map by (rule those_values_chars)
qed

lemma b64_encode_plain: "filter (\<lambda>c. c \<noteq> CHR 0x0A \<and> c \<noteq> CHR 0x0D) (b64_encode bs) = b64_encode bs"
proof (induction bs rule: b64_encode.induct)
qed (auto simp: b64_digits_def b64_char_plain)

lemma b64_group_short: "b64_group [x, y] = take 1 (b64_group [x, y, 0, 0])" "b64_group [x, y, z] = take 2 (b64_group [x, y, z, 0])"
  by (simp_all add: b64_group_def Let_def numeral_2_eq_2)

lemma shifted_mods:
  "(x * 65536) mod 64 = (0::nat)" "(x * 65536) div 64 mod 64 = (0::nat)" "(x * 65536 + y * 256) mod 64 = (0::nat)"
proof -
  have x: "x * 65536 = 64 * (64 * (x * 16))" and xy: "x * 65536 + y * 256 = 64 * (x * 1024 + y * 4)" by simp_all
  show "(x * 65536) mod 64 = 0" "(x * 65536) div 64 mod 64 = 0" unfolding x by (simp_all only: mod_mult_self1_is_0) simp
  show "(x * 65536 + y * 256) mod 64 = 0" unfolding xy by (simp only: mod_mult_self1_is_0)
qed

lemma b64_groups: "b64_decode_groups True (b64_encode bs) = Some bs"
proof (induction bs rule: b64_encode.induct)
  case (2 a)
  note g = group_bytes [of a 0 0]
  let ?n = "unat a * 65536"
  note n = shifted_mods(1,2) [of "unat a"]
  have "b64_group [?n div 262144 mod 64, ?n div 4096 mod 64] = [a]"
    unfolding b64_group_short using b64_digits_group [of ?n] g n by simp
  then show ?case using b64_digits_values [of ?n 2] g(1) by (simp add: b64_digits_def b64_last_def)
next
  case (3 a b)
  note g = group_bytes [of a b 0]
  let ?n = "unat a * 65536 + unat b * 256"
  note n = shifted_mods(3) [of "unat a" "unat b"]
  have "b64_group [?n div 262144 mod 64, ?n div 4096 mod 64, ?n div 64 mod 64] = [a, b]"
    unfolding b64_group_short using b64_digits_group [of ?n] g n by simp
  then show ?case using b64_digits_values [of ?n 3] g(1) by (simp add: b64_digits_def b64_last_def)
next
  case (4 a b c r)
  note g = group_bytes [of a b c]
  show ?case
    using 4 b64_digits_values [OF g(1), of 4] b64_digits_group [OF g(1)] g(2-) by (simp add: b64_digits_def)
qed simp

lemma b64_roundtrip: "b64_decode True (b64_encode bs) = Inr bs"
  by (simp add: b64_decode_def b64_encode_plain b64_groups)

lemma length_chunks: "0 < n \<Longrightarrow> length xs = n * k \<Longrightarrow> length (chunks n xs) = k \<and> (\<forall>c \<in> set (chunks n xs). length c = n)"
proof (induction k arbitrary: xs)
  case 0
  then show ?case by (simp add: chunks.simps)
next
  case (Suc k)
  then have "xs \<noteq> []" by auto
  then have "chunks n xs = take n xs # chunks n (drop n xs)" using Suc.prems(1) by (subst chunks.simps) simp
  moreover have "length (chunks n (drop n xs)) = k \<and> (\<forall>c \<in> set (chunks n (drop n xs)). length c = n)"
    using Suc.prems by (intro Suc.IH) simp_all
  ultimately show ?case using Suc.prems by simp
qed

lemma length_xor_bytes [simp]: "length (xor_bytes xs ys) = min (length xs) (length ys)"
  by (simp add: xor_bytes_def)

lemma key_words_shape:
  "\<forall>w \<in> set ws. length w = 4 \<Longrightarrow> 8 \<le> length ws \<Longrightarrow>
    length (key_words n i ws) = n + length ws \<and> (\<forall>w \<in> set (key_words n i ws). length w = 4)"
proof (induction n arbitrary: i ws)
  case (Suc n)
  define t where "t = (if i mod 8 = 0 then xor_bytes (map sub_byte (rotate1 (hd ws))) [gpow 2 (i div 8 - 1), 0, 0, 0]
    else if i mod 8 = 4 then map sub_byte (hd ws) else hd ws)"
  from Suc.prems have "hd ws \<in> set ws" "ws ! 7 \<in> set ws" by (auto intro: hd_in_set)
  with Suc.prems have "length (hd ws) = 4" "length (ws ! 7) = 4" by blast+
  then have "length (xor_bytes (ws ! 7) t) = 4" by (simp add: t_def)
  then have "\<forall>w \<in> set (xor_bytes (ws ! 7) t # ws). length w = 4" "8 \<le> length (xor_bytes (ws ! 7) t # ws)"
    using Suc.prems by simp_all
  from Suc.IH [OF this, of "Suc i"] have IH: "length (key_words n (Suc i) (xor_bytes (ws ! 7) t # ws)) = Suc n + length ws \<and>
      (\<forall>w \<in> set (key_words n (Suc i) (xor_bytes (ws ! 7) t # ws)). length w = 4)" by simp
  have "key_words (Suc n) i ws = key_words n (Suc i) (xor_bytes (ws ! 7) t # ws)" by (simp only: key_words.simps Let_def t_def)
  with IH show ?case by simp
qed simp

lemma length_concat_const: "\<forall>w \<in> set ws. length w = k \<Longrightarrow> length (concat ws) = k * length ws"
  by (induction ws) auto

lemma round_keys_shape:
  assumes "length key = 32"
  shows "length (round_keys key) = 15 \<and> (\<forall>k \<in> set (round_keys key). length k = 16)"
proof -
  have c: "length (rev (chunks 4 key)) = 8 \<and> (\<forall>w \<in> set (rev (chunks 4 key)). length w = 4)"
    using length_chunks [of 4 key 8] assms by simp
  from key_words_shape [of "rev (chunks 4 key)" 52 8] c
  have "length (concat (rev (key_words 52 8 (rev (chunks 4 key))))) = 16 * 15"
    by (subst length_concat_const [where k = 4]) auto
  from length_chunks [OF _ this] show ?thesis unfolding round_keys_def by simp
qed

lemma length_shift_rows [simp]: "length (shift_rows s) = 16"
  by (simp add: shift_rows_def)

lemma length_aes_encrypt: "length key = 32 \<Longrightarrow> length (aes_encrypt key block) = 16"
proof -
  assume k: "length key = 32"
  then have "round_keys key \<noteq> []" using round_keys_shape [OF k] by auto
  then have "length (last (round_keys key)) = 16" using round_keys_shape [OF k] by auto
  then show ?thesis by (simp add: aes_encrypt_def Let_def)
qed

lemma length_key_stream: "length key = 32 \<Longrightarrow> length (key_stream key nonce i n) = 16 * n"
  by (induction n arbitrary: i) (simp_all add: length_aes_encrypt)

lemma xor_bytes_twice: "length xs \<le> length ks \<Longrightarrow> xor_bytes (xor_bytes xs ks) ks = xs"
proof (induction xs arbitrary: ks)
  case (Cons x xs)
  then show ?case by (cases ks) (auto simp: xor_bytes_def xor.assoc)
qed (simp add: xor_bytes_def)

lemma length_ctr: "length key = 32 \<Longrightarrow> length (ctr key nonce text) = length text"
  by (simp add: ctr_def length_key_stream)

lemma ctr_twice: "length key = 32 \<Longrightarrow> ctr key nonce (ctr key nonce text) = text"
  unfolding ctr_def [of key nonce "ctr key nonce text"] length_ctr
  by (simp add: ctr_def xor_bytes_twice length_key_stream)

lemma gcm_roundtrip:
  assumes "length key = 32"
  shows "gcm_open key nonce (gcm_seal key nonce text) = Inr text"
proof -
  have "length (gcm_tag key nonce ct) = 16" for ct by (simp add: gcm_tag_def to_block_def)
  then show ?thesis by (simp add: gcm_open_def gcm_seal_def Let_def ctr_twice assms)
qed

lemma bytes_text_bytes [simp]: "bytes_text (text_bytes s) = s"
  by (induction s) (auto simp: bytes_text_def text_bytes_def unat_of_nat)

lemma length_newOAuthTokenCipher: "secret \<noteq> [] \<Longrightarrow> length (newOAuthTokenCipher secret) = 32"
proof -
  have eight: "length (Sum256 secret) = 8"
    unfolding Sum256_def by (cases "sha_blocks initial_state (be_words (sha_pad (map of_char secret)))") (auto simp only: prod.case list.size)
  have "length (digest_bytes secret) = 4 * length (Sum256 secret)"
    unfolding digest_bytes_def by (subst length_concat_const [where k = 4]) auto
  then show "secret \<noteq> [] \<Longrightarrow> ?thesis" by (simp add: newOAuthTokenCipher_def eight)
qed

lemma length_be_bytes [simp]: "length (be_bytes k n) = k"
  by (induction k arbitrary: n) auto

lemma randomNat_Inr [run_simps]:
  "randomNat w = (Inr r, w') \<longleftrightarrow> env_fault (w_env w) (w_tick w) = None \<and> r = env_rand (w_env w) (w_tick w) \<and> w' = tick w"
  by (auto simp: randomNat_def split: option.splits)

lemma encrypt_Inr:
  "encrypt key token w = (Inr stored, w') \<longleftrightarrow> (token = [] \<and> stored = [] \<and> w' = w) \<or>
     (token \<noteq> [] \<and> key \<noteq> [] \<and> env_fault (w_env w) (w_tick w) = None \<and> w' = tick w \<and>
      stored = (let nonce = map of_nat (be_bytes 12 (env_rand (w_env w) (w_tick w))) in
        encryptedOAuthTokenPrefix @ b64_encode (nonce @ gcm_seal key nonce (text_bytes token))))"
  by (auto simp: encrypt_def ret_Inr fail_Inr bnd_Inr randomNat_Inr Let_def)

text \<open>C30. What is stored for a provider token is decrypted to the token again by a cipher with the same
  secret; a token that is not empty is never stored without the prefix of the encrypted format.\<close>

theorem oauth_token_roundtrip:
  assumes "encrypt (newOAuthTokenCipher secret) token w = (Inr stored, w')"
  shows "decrypt (newOAuthTokenCipher secret) stored = Inr token \<and>
    (token \<noteq> [] \<longrightarrow> HasPrefix stored encryptedOAuthTokenPrefix)"
proof (cases "token = []")
  case True
  with assms show ?thesis by (simp add: encrypt_Inr decrypt_def)
next
  case False
  define key where "key = newOAuthTokenCipher secret"
  define nonce :: "w8 list" where "nonce = map of_nat (be_bytes 12 (env_rand (w_env w) (w_tick w)))"
  from False assms have k: "key \<noteq> []"
    and stored: "stored = encryptedOAuthTokenPrefix @ b64_encode (nonce @ gcm_seal key nonce (text_bytes token))"
    by (simp_all add: encrypt_Inr key_def nonce_def Let_def)
  from k have "secret \<noteq> []" by (auto simp: key_def newOAuthTokenCipher_def)
  then have len: "length key = 32" unfolding key_def by (rule length_newOAuthTokenCipher)
  have "length nonce = 12" by (simp add: nonce_def)
  then have "decrypt key stored = Inr token"
    using k by (simp add: decrypt_def stored HasPrefix_append b64_roundtrip gcm_roundtrip [OF len] encryptedOAuthTokenPrefix_def)
  then show ?thesis by (simp add: key_def stored HasPrefix_append)
qed

theorem oauth_token_roundtrip_witness:
  "\<exists>stored w'. encrypt (newOAuthTokenCipher ''k'') ''t0k'' (start (\<lambda>n. int n) empty_db) = (Inr stored, w') \<and>
     decrypt (newOAuthTokenCipher ''k'') stored = Inr ''t0k''"
proof -
  have "newOAuthTokenCipher ''k'' \<noteq> []" using length_newOAuthTokenCipher [of "''k''"] by auto
  then obtain stored w' where run: "encrypt (newOAuthTokenCipher ''k'') ''t0k'' (start (\<lambda>n. int n) empty_db) = (Inr stored, w')"
    by (auto simp: encrypt_Inr)
  from oauth_token_roundtrip [OF run] run show ?thesis by blast
qed
end
