(* ===== verification/Auth.thy ===== *)
theory Auth
  imports TokenCrypto Claims GoText
begin

text \<open>
  \<^verbatim>\<open>services/auth_service.go\<close>, \<^verbatim>\<open>services/siwe.go\<close> and \<^verbatim>\<open>services/twitch_client.go\<close>: registration,
  login, the rotation of refresh tokens, login through Twitch, Google and a wallet, and unlinking.
  bcrypt, the JWT library, OAuth, the HTTP interfaces of the providers and the recovery of a
  signer are parameters. Email addresses and user names are unique over all users, a provider
  account over the ones that are not deleted.
\<close>

section \<open>The world outside\<close>

record AccessClaims =
  AC_UserID :: string
  AC_Role :: UserRole
  AC_ExpiresAt :: time
  AC_IssuedAt :: time
  AC_Subject :: string

record OAuthToken =
  OT_AccessToken :: string
  OT_Expiry :: "time option"

record TwitchUserInfo =
  TU_ID :: string
  TU_Login :: string
  TU_Email :: string
  TU_ProfileURL :: "string option"

record GoogleUserInfo =
  GU_Sub :: string
  GU_Name :: string
  GU_Email :: string
  GU_EmailVerified :: bool
  GU_Picture :: string

text \<open>
  \<open>LB_jwtParse token key now\<close> is \<^verbatim>\<open>jwt.ParseWithClaims\<close>: \<open>key\<close> answers whether the token's method
  is HMAC with a key or refuses. The result has the claims and the \<open>Valid\<close> flag. \<open>LB_recover\<close> is the
  address that signed a message of \<^verbatim>\<open>personal_sign\<close>, from the 65 bytes of the signature.
\<close>

record AuthLib =
  LB_eth :: EthLib
  LB_bcryptHash :: "string \<Rightarrow> nat \<Rightarrow> err + string"
  LB_bcryptCompare :: "string \<Rightarrow> string \<Rightarrow> bool"
  LB_jwtSign :: "string \<Rightarrow> AccessClaims \<Rightarrow> err + string"
  LB_jwtParse :: "string \<Rightarrow> (bool \<Rightarrow> err + string) \<Rightarrow> time \<Rightarrow> err + AccessClaims \<times> bool"
  LB_recover :: "string \<Rightarrow> w8 list \<Rightarrow> string option"
  LB_rfc3339 :: "time \<Rightarrow> string"
  LB_twitchExchange :: "string \<Rightarrow> nat \<Rightarrow> err + OAuthToken"
  LB_googleExchange :: "string \<Rightarrow> nat \<Rightarrow> err + OAuthToken"
  LB_twitchUsers :: "OAuthToken \<Rightarrow> nat \<Rightarrow> err + nat \<times> (err + TwitchUserInfo list)"
  LB_googleUserinfo :: "OAuthToken \<Rightarrow> nat \<Rightarrow> err + nat \<times> (err + GoogleUserInfo)"

record AuthService =
  AU_lib :: AuthLib
  AU_accessSecret :: string
  AU_refreshSecret :: string
  AU_accessTTL :: int
  AU_refreshTTL :: int
  AU_tokenEncryptionKey :: string

record TokenPair =
  TP_AccessToken :: string
  TP_RefreshToken :: string
  TP_ExpiresIn :: int

section \<open>Constraints of the tables\<close>

definition opt_width :: "nat \<Rightarrow> string option \<Rightarrow> nat \<times> string" where
  "opt_width n s = (n, case s of None \<Rightarrow> [] | Some x \<Rightarrow> x)"

definition user_widths :: "User \<Rightarrow> db_error option" where
  "user_widths u = varchars [opt_width 50 (U_Username u), opt_width 255 (U_Email u), opt_width 255 (U_PasswordHash u)]"

text \<open>Two users clash in a column that is not NULL.\<close>

definition users_clash :: "User \<Rightarrow> User \<Rightarrow> bool" where
  "users_clash u v \<longleftrightarrow> U_Username u \<noteq> None \<and> U_Username u = U_Username v \<or> U_Email u \<noteq> None \<and> U_Email u = U_Email v"

definition user_conflict :: "User list \<Rightarrow> User \<Rightarrow> db_error option" where
  "user_conflict rows u = first_violation [user_widths u,
     dup_if (U_ID u \<in> U_ID ` set rows \<or> list_ex (users_clash u) rows)]"

text \<open>The partial indexes: rows that are not deleted share no provider account and no wallet owner.\<close>

definition providers_clash :: "AuthProvider \<Rightarrow> AuthProvider \<Rightarrow> bool" where
  "providers_clash p q \<longleftrightarrow> AP_DeletedAt p = None \<and> AP_DeletedAt q = None \<and> AP_Provider p = AP_Provider q \<and>
     (AP_ProviderID p = AP_ProviderID q \<or> AP_Provider p = ProviderWeb3 \<and> AP_UserID p = AP_UserID q)"

definition provider_widths :: "AuthProvider \<Rightarrow> db_error option" where
  "provider_widths p = varchars [(255, AP_ProviderID p)]"

definition provider_conflict :: "AuthProvider list \<Rightarrow> AuthProvider \<Rightarrow> db_error option" where
  "provider_conflict rows p = first_violation [provider_widths p,
     dup_if (AP_ID p \<in> AP_ID ` set rows \<or> list_ex (providers_clash p) rows)]"

definition refresh_conflict :: "RefreshToken list \<Rightarrow> RefreshToken \<Rightarrow> db_error option" where
  "refresh_conflict rows r = dup_if (RT_ID r \<in> RT_ID ` set rows \<or> RT_TokenHash r \<in> RT_TokenHash ` set rows)"

definition nonce_conflict :: "Web3Nonce list \<Rightarrow> Web3Nonce \<Rightarrow> db_error option" where
  "nonce_conflict rows n = first_violation [varchars [(42, WN_Address n)],
     dup_if (WN_ID n \<in> WN_ID ` set rows \<or> WN_Nonce n \<in> WN_Nonce ` set rows)]"

section \<open>Rows\<close>

definition live :: "User \<Rightarrow> bool" where
  "live u \<longleftrightarrow> U_DeletedAt u = None"

definition live_provider :: "AuthProvider \<Rightarrow> bool" where
  "live_provider p \<longleftrightarrow> AP_DeletedAt p = None"

definition user_by_id :: "uuid \<Rightarrow> db \<Rightarrow> User option" where
  "user_by_id uid d = first_by U_ID (\<lambda>u. U_ID u = uid \<and> live u) (t_users d)"

definition user_by_email :: "string \<Rightarrow> db \<Rightarrow> User option" where
  "user_by_email email d = first_by U_ID (\<lambda>u. U_Email u = Some email \<and> live u) (t_users d)"

definition count_users :: "(User \<Rightarrow> bool) \<Rightarrow> db \<Rightarrow> nat" where
  "count_users P d = length (filter (\<lambda>u. P u \<and> live u) (t_users d))"

definition provider_account :: "ProviderType \<Rightarrow> string \<Rightarrow> db \<Rightarrow> AuthProvider option" where
  "provider_account provider pid d = first_by AP_ID (\<lambda>p. AP_Provider p = provider \<and> AP_ProviderID p = pid \<and>
     live_provider p) (t_auth_providers d)"

text \<open>A row for \<open>Create\<close>: the columns with defaults get them.\<close>

definition new_user :: "string option \<Rightarrow> string option \<Rightarrow> string option \<Rightarrow> string option \<Rightarrow> UserRole \<Rightarrow> bool \<Rightarrow> time \<Rightarrow> uuid \<Rightarrow> User" where
  "new_user username email password avatar role verified t i = \<lparr>U_ID = i, U_Username = username, U_Email = email,
     U_PasswordHash = password, U_AvatarURL = avatar, U_Role = role, U_IsActive = True, U_EmailVerified = verified,
     U_ActiveCharacter = CharacterCrab, U_SwitchCooldownUntil = None, U_CreatedAt = t, U_DeletedAt = None\<rparr>"

definition new_provider :: "uuid \<Rightarrow> ProviderType \<Rightarrow> string \<Rightarrow> time \<Rightarrow> uuid \<Rightarrow> AuthProvider" where
  "new_provider uid provider pid t i = \<lparr>AP_ID = i, AP_UserID = uid, AP_Provider = provider, AP_ProviderID = pid,
     AP_AccessToken = None, AP_RefreshToken = None, AP_TokenExpiresAt = None, AP_CreatedAt = t, AP_DeletedAt = None\<rparr>"

definition create_user :: "(time \<Rightarrow> uuid \<Rightarrow> User) \<Rightarrow> User m" where
  "create_user row = insert_row t_users t_users_update user_conflict row"

definition create_provider :: "(time \<Rightarrow> uuid \<Rightarrow> AuthProvider) \<Rightarrow> AuthProvider m" where
  "create_provider row = insert_row t_auth_providers t_auth_providers_update provider_conflict row"

section \<open>Token pairs\<close>

text \<open>\<open>jwt.NewNumericDate\<close> keeps whole seconds.\<close>

definition numeric_date :: "time \<Rightarrow> time" where
  "numeric_date t = t div second * second"

definition issueTokenPairTx :: "AuthService \<Rightarrow> User \<Rightarrow> TokenPair m" where
  "issueTokenPairTx s user =
     bnd now (\<lambda>t1.
     bnd now (\<lambda>t2.
     case LB_jwtSign (AU_lib s) (AU_accessSecret s) \<lparr>AC_UserID = uuidText (U_ID user), AC_Role = U_Role user,
        AC_ExpiresAt = numeric_date (t1 + AU_accessTTL s), AC_IssuedAt = numeric_date t2, AC_Subject = uuidText (U_ID user)\<rparr> of
       Inl e \<Rightarrow> fail e
     | Inr accessToken \<Rightarrow>
         bnd generateNonce (\<lambda>rawRefresh.
         bnd now (\<lambda>t3.
         bnd (insert_row t_refresh_tokens t_refresh_tokens_update refresh_conflict
            (\<lambda>t i. \<lparr>RT_ID = i, RT_UserID = U_ID user, RT_TokenHash = hashToken rawRefresh,
               RT_ExpiresAt = t3 + AU_refreshTTL s, RT_CreatedAt = t\<rparr>)) (\<lambda>_.
         ret \<lparr>TP_AccessToken = accessToken, TP_RefreshToken = rawRefresh,
            TP_ExpiresIn = AU_accessTTL s sdiv second\<rparr>)))))"

definition ValidateAccessToken :: "AuthService \<Rightarrow> string \<Rightarrow> AccessClaims m" where
  "ValidateAccessToken s tokenStr =
     bnd now (\<lambda>t.
     case LB_jwtParse (AU_lib s) tokenStr
       (\<lambda>hmac. if hmac then Inr (AU_accessSecret s) else Inl (Errorf ''unexpected signing method'')) t of
       Inl e \<Rightarrow> fail (AuthE ErrInvalidToken)
     | Inr (claims, valid) \<Rightarrow> if \<not> valid then fail (AuthE ErrInvalidToken) else ret claims)"

definition refresh_by_hash :: "string \<Rightarrow> db \<Rightarrow> RefreshToken option" where
  "refresh_by_hash hash d = first_by RT_ID (\<lambda>r. RT_TokenHash r = hash) (t_refresh_tokens d)"

definition delete_tokens :: "(RefreshToken \<Rightarrow> bool) \<Rightarrow> nat m" where
  "delete_tokens P = delete_where t_refresh_tokens t_refresh_tokens_update P"

text \<open>The transaction of a refresh: the token is looked up, deleted and replaced.\<close>

definition rotate_token :: "AuthService \<Rightarrow> string \<Rightarrow> TokenPair m" where
  "rotate_token s hash =
     handle (orElse (query (refresh_by_hash hash)) RecordNotFound) (\<lambda>_. fail (AuthE ErrInvalidToken)) (\<lambda>stored.
     bnd now (\<lambda>t.
     if t > RT_ExpiresAt stored then fail (AuthE errRefreshTokenExpired)
     else
       handle (orElse (query (user_by_id (RT_UserID stored))) RecordNotFound) (\<lambda>_. fail (AuthE ErrUserNotFound)) (\<lambda>user.
       bnd (delete_tokens (\<lambda>r. RT_ID r = RT_ID stored)) (\<lambda>rowsAffected.
       if rowsAffected = 0 then fail (AuthE ErrInvalidToken) else issueTokenPairTx s user))))"

definition RefreshContext :: "AuthService \<Rightarrow> string \<Rightarrow> TokenPair m" where
  "RefreshContext s raw =
     (let hash = hashToken raw in
      handle (transaction (rotate_token s hash))
        (\<lambda>e. if errors_is e (AuthE errRefreshTokenExpired)
          then bnd (delete_tokens (\<lambda>r. RT_TokenHash r = hash)) (\<lambda>_. fail (AuthE ErrInvalidToken))
          else fail e)
        ret)"

definition LogoutContext :: "string \<Rightarrow> unit m" where
  "LogoutContext raw = bnd (delete_tokens (\<lambda>r. RT_TokenHash r = hashToken raw)) (\<lambda>_. ret ())"

definition DeleteExpiredRefreshTokensContext :: "nat m" where
  "DeleteExpiredRefreshTokensContext = bnd now (\<lambda>t. delete_tokens (\<lambda>r. RT_ExpiresAt r < t))"

section \<open>Email and password\<close>

record RegisterInput =
  RI_Username :: string
  RI_Email :: string
  RI_Password :: string

definition register_rows :: "AuthService \<Rightarrow> RegisterInput \<Rightarrow> string \<Rightarrow> (User \<times> TokenPair) m" where
  "register_rows s input hash =
     bnd (create_user (new_user (Some (RI_Username input)) (Some (RI_Email input)) (Some hash) None RoleViewer False)) (\<lambda>user.
     bnd (create_provider (new_provider (U_ID user) ProviderEmail (RI_Email input))) (\<lambda>_.
     bnd (issueTokenPairTx s user) (\<lambda>tokens.
     ret (user, tokens))))"

definition RegisterContext :: "AuthService \<Rightarrow> RegisterInput \<Rightarrow> (User \<times> TokenPair) m" where
  "RegisterContext s input =
     bnd (query (count_users (\<lambda>u. U_Email u = Some (RI_Email input)))) (\<lambda>count.
     if count > 0 then fail (AuthE ErrEmailExists)
     else
       bnd (query (count_users (\<lambda>u. U_Username u = Some (RI_Username input)))) (\<lambda>count.
       if count > 0 then fail (AuthE ErrUsernameExists)
       else
         bnd (external (LB_bcryptHash (AU_lib s) (RI_Password input))) (\<lambda>hash.
         transaction (register_rows s input hash))))"

definition LoginContext :: "AuthService \<Rightarrow> string \<Rightarrow> string \<Rightarrow> (User \<times> TokenPair) m" where
  "LoginContext s email password =
     handle (orElse (query (user_by_email email)) RecordNotFound) (\<lambda>_. fail (AuthE ErrInvalidCredentials)) (\<lambda>user.
     case U_PasswordHash user of
       None \<Rightarrow> fail (AuthE ErrInvalidCredentials)
     | Some hash \<Rightarrow>
         if \<not> LB_bcryptCompare (AU_lib s) hash password then fail (AuthE ErrInvalidCredentials)
         else bnd (issueTokenPairTx s user) (\<lambda>tokens. ret (user, tokens)))"

section \<open>The providers' interfaces\<close>

definition fetchTwitchUser :: "AuthLib \<Rightarrow> OAuthToken \<Rightarrow> nat \<Rightarrow> err + TwitchUserInfo" where
  "fetchTwitchUser lib token at =
     (case LB_twitchUsers lib token at of
        Inl e \<Rightarrow> Inl (Wrap e (''twitch user fetch: '' @ errText e))
      | Inr (status, body) \<Rightarrow>
          if status \<noteq> 200 then Inl (Errorf (''twitch API returned '' @ natText status))
          else (case body of
              Inl e \<Rightarrow> Inl e
            | Inr [] \<Rightarrow> Inl (Errorf ''no twitch user data'')
            | Inr (user # _) \<Rightarrow> Inr user))"

definition fetchGoogleUser :: "AuthLib \<Rightarrow> OAuthToken \<Rightarrow> nat \<Rightarrow> err + GoogleUserInfo" where
  "fetchGoogleUser lib token at =
     (case LB_googleUserinfo lib token at of
        Inl e \<Rightarrow> Inl (Wrap e (''google user fetch: '' @ errText e))
      | Inr (status, body) \<Rightarrow>
          if status < 200 \<or> status \<ge> 300 then Inl (Errorf (''google API returned '' @ natText status))
          else (case body of
              Inl e \<Rightarrow> Inl e
            | Inr info \<Rightarrow>
                if TrimSpace (GU_Sub info) = [] then Inl (Errorf ''google user missing sub'')
                else if TrimSpace (GU_Email info) = [] then Inl (Errorf ''google user missing email'')
                else Inr info))"

section \<open>OAuth accounts\<close>

definition oauthTokenEncryptionSecret :: "AuthService \<Rightarrow> string" where
  "oauthTokenEncryptionSecret s =
     (if AU_tokenEncryptionKey s \<noteq> [] then AU_tokenEncryptionKey s else AU_refreshSecret s)"

definition assignProviderTokens :: "AuthService \<Rightarrow> AuthProvider \<Rightarrow> ProviderType \<Rightarrow> OAuthToken option \<Rightarrow> AuthProvider m" where
  "assignProviderTokens s ap provider token =
     (let ap0 = ap\<lparr>AP_AccessToken := None, AP_RefreshToken := None, AP_TokenExpiresAt := None\<rparr> in
      case token of
        None \<Rightarrow> ret ap0
      | Some tok \<Rightarrow>
          if provider \<noteq> ProviderTwitch \<or> OT_AccessToken tok = [] then ret ap0
          else
            bnd (encrypt (newOAuthTokenCipher (oauthTokenEncryptionSecret s)) (OT_AccessToken tok)) (\<lambda>encrypted.
            ret (ap0\<lparr>AP_AccessToken := Some encrypted, AP_TokenExpiresAt := OT_Expiry tok\<rparr>)))"

definition save_provider :: "AuthProvider \<Rightarrow> nat m" where
  "save_provider ap = update_where t_auth_providers t_auth_providers_update no_check
     (\<lambda>p. AP_ID p = AP_ID ap \<and> live_provider p) (\<lambda>_ _. ap)"

definition finishExistingOAuthProviderTx :: "AuthService \<Rightarrow> AuthProvider \<Rightarrow> ProviderType \<Rightarrow> OAuthToken option \<Rightarrow>
    (User \<times> TokenPair) m" where
  "finishExistingOAuthProviderTx s ap provider token =
     bnd (if token \<noteq> None then
        bnd (assignProviderTokens s ap provider token) (\<lambda>ap'.
        bnd (save_provider ap') (\<lambda>_. ret ap'))
      else ret ap) (\<lambda>ap'.
     handle (orElse (query (user_by_id (AP_UserID ap'))) RecordNotFound) (\<lambda>_. fail (AuthE ErrUserNotFound)) (\<lambda>user.
     bnd (issueTokenPairTx s user) (\<lambda>tokens.
     ret (user, tokens))))"

text \<open>The user that gets a new provider account: one with the verified address, or a new one.\<close>

definition oauthUser :: "string \<Rightarrow> string \<Rightarrow> bool \<Rightarrow> string option \<Rightarrow> User m" where
  "oauthUser username email verified avatarURL =
     bnd (if email \<noteq> [] then
        bnd (query (user_by_email email)) (\<lambda>r.
        if r \<noteq> None \<and> \<not> verified then fail (AuthE ErrEmailExists) else ret r)
      else ret None) (\<lambda>r.
     case r of
       Some user \<Rightarrow> ret user
     | None \<Rightarrow> create_user (new_user (if username \<noteq> [] then Some username else None)
         (if email \<noteq> [] then Some email else None) None avatarURL RoleViewer (email \<noteq> [] \<and> verified)))"

definition upsertOAuthUserTx :: "AuthService \<Rightarrow> ProviderType \<Rightarrow> string \<Rightarrow> string \<Rightarrow> string \<Rightarrow> bool \<Rightarrow> string option \<Rightarrow>
    OAuthToken option \<Rightarrow> (User \<times> TokenPair) m" where
  "upsertOAuthUserTx s provider providerID username email verified avatarURL token =
     bnd (query (provider_account provider providerID)) (\<lambda>r.
     case r of
       Some ap \<Rightarrow> finishExistingOAuthProviderTx s ap provider token
     | None \<Rightarrow>
         bnd (oauthUser username email verified avatarURL) (\<lambda>user.
         bnd (assignProviderTokens s (new_provider (U_ID user) provider providerID 0 0) provider token) (\<lambda>newAP.
         bnd (create_provider (\<lambda>t i. newAP\<lparr>AP_ID := i, AP_CreatedAt := t\<rparr>)) (\<lambda>_.
         bnd (issueTokenPairTx s user) (\<lambda>tokens.
         ret (user, tokens))))))"

definition recoverOAuthProviderConflict :: "AuthService \<Rightarrow> ProviderType \<Rightarrow> string \<Rightarrow> OAuthToken option \<Rightarrow>
    (User \<times> TokenPair) m" where
  "recoverOAuthProviderConflict s provider providerID token =
     transaction (bnd (orElse (query (provider_account provider providerID)) RecordNotFound) (\<lambda>ap.
       finishExistingOAuthProviderTx s ap provider token))"

definition isDuplicatedKeyError :: "err \<Rightarrow> bool" where
  "isDuplicatedKeyError e \<longleftrightarrow> errors_is e (DbE ErrDuplicatedKey) \<or>
     Contains (errText e) ''UNIQUE constraint failed'' \<or> Contains (errText e) ''duplicate key'' \<or>
     Contains (errText e) ''duplicated key''"

definition taken :: "string \<Rightarrow> (User \<Rightarrow> bool) \<Rightarrow> bool m" where
  "taken text P = (if text = [] then ret False
     else handle (query (count_users P)) (\<lambda>_. ret False) (\<lambda>count. ret (count > 0)))"

definition mapOAuthUserUniqueError :: "string \<Rightarrow> string \<Rightarrow> err \<Rightarrow> err m" where
  "mapOAuthUserUniqueError username email fallback =
     bnd (taken email (\<lambda>u. U_Email u = Some email)) (\<lambda>b.
     if b then ret (AuthE ErrEmailExists)
     else
       bnd (taken username (\<lambda>u. U_Username u = Some username)) (\<lambda>b.
       if b then ret (AuthE ErrUsernameExists)
       else if Contains (errText fallback) ''email'' then ret (AuthE ErrEmailExists)
       else if Contains (errText fallback) ''username'' then ret (AuthE ErrUsernameExists)
       else ret fallback))"

text \<open>A user name that is taken is given up, once: the second attempt has none.\<close>

function upsertOAuthUser :: "AuthService \<Rightarrow> ProviderType \<Rightarrow> string \<Rightarrow> string \<Rightarrow> string \<Rightarrow> bool \<Rightarrow> string option \<Rightarrow>
    OAuthToken option \<Rightarrow> (User \<times> TokenPair) m" where
  "upsertOAuthUser s provider providerID username email verified avatarURL token =
     handle (transaction (upsertOAuthUserTx s provider providerID username email verified avatarURL token))
       (\<lambda>e. if \<not> isDuplicatedKeyError e then fail e
         else
           handle (recoverOAuthProviderConflict s provider providerID token)
             (\<lambda>recoverErr. if \<not> errors_is recoverErr RecordNotFound then fail recoverErr
               else
                 bnd (mapOAuthUserUniqueError username email e) (\<lambda>mappedErr.
                 if username \<noteq> [] \<and> errors_is mappedErr (AuthE ErrUsernameExists)
                 then upsertOAuthUser s provider providerID [] email verified avatarURL token
                 else fail mappedErr))
             ret)
       ret"
  by pat_completeness auto
termination
  by (relation "measure (\<lambda>(s, p, i, username, e, v, a, t). length username)") auto

declare upsertOAuthUser.simps [simp del]

definition TwitchCallback :: "AuthService \<Rightarrow> string \<Rightarrow> (User \<times> TokenPair) m" where
  "TwitchCallback s code =
     handle (external (LB_twitchExchange (AU_lib s) code))
       (\<lambda>e. fail (Wrap e (''twitch token exchange: '' @ errText e))) (\<lambda>token.
     bnd (external (fetchTwitchUser (AU_lib s) token)) (\<lambda>info.
     upsertOAuthUser s ProviderTwitch (TU_ID info) (TU_Login info) (TU_Email info) False (TU_ProfileURL info) (Some token)))"

definition GoogleCallback :: "AuthService \<Rightarrow> string \<Rightarrow> (User \<times> TokenPair) m" where
  "GoogleCallback s code =
     handle (external (LB_googleExchange (AU_lib s) code))
       (\<lambda>e. fail (Wrap e (''google token exchange: '' @ errText e))) (\<lambda>token.
     bnd (external (fetchGoogleUser (AU_lib s) token)) (\<lambda>info.
     upsertOAuthUser s ProviderGoogle (GU_Sub info) (GU_Name info) (GU_Email info) (GU_EmailVerified info)
       (Some (GU_Picture info)) (Some token)))"

section \<open>Wallets\<close>

definition siweMessage :: "string \<Rightarrow> string \<Rightarrow> string \<Rightarrow> string" where
  "siweMessage address nonce issuedAt =
     ''tachigo.io wants you to sign in with your Ethereum account:'' @ [CHR 0x0A] @ address @
     [CHR 0x0A, CHR 0x0A] @ ''Sign in to Tachigo'' @ [CHR 0x0A, CHR 0x0A] @ ''Nonce: '' @ nonce @
     [CHR 0x0A] @ ''Issued At: '' @ issuedAt"

definition hex_value :: "char \<Rightarrow> nat option" where
  "hex_value c = (if cont 48 57 c then Some (of_char c - 48) else if cont 97 102 c then Some (of_char c - 87)
     else if cont 65 70 c then Some (of_char c - 55) else None)"

fun hexDecodeString :: "string \<Rightarrow> w8 list option" where
  "hexDecodeString [] = Some []"
| "hexDecodeString [c] = None"
| "hexDecodeString (c # d # s) = (case (hex_value c, hex_value d, hexDecodeString s) of
     (Some x, Some y, Some bs) \<Rightarrow> Some (of_nat (16 * x + y) # bs) | _ \<Rightarrow> None)"

definition verifyEthSignature :: "AuthLib \<Rightarrow> string \<Rightarrow> string \<Rightarrow> string \<Rightarrow> bool" where
  "verifyEthSignature lib message sigHex expectedAddress =
     (case hexDecodeString (TrimPrefix sigHex ''0x'') of
        None \<Rightarrow> False
      | Some sig \<Rightarrow>
          if length sig \<noteq> 65 then False
          else
            let sig' = (if sig ! 64 \<ge> 27 then sig[64 := sig ! 64 - 27] else sig) in
            (case LB_recover lib ([CHR 0x19] @ ''Ethereum Signed Message:'' @ [CHR 0x0A] @
                natText (length message) @ message) sig' of
               None \<Rightarrow> False
             | Some signer \<Rightarrow> ToLower signer = ToLower expectedAddress))"

definition nonce_of :: "string \<Rightarrow> string \<Rightarrow> db \<Rightarrow> Web3Nonce option" where
  "nonce_of nonce address d = first_by WN_ID (\<lambda>n. WN_Nonce n = nonce \<and> WN_Address n = address) (t_web3_nonces d)"

definition delete_nonces :: "(Web3Nonce \<Rightarrow> bool) \<Rightarrow> nat m" where
  "delete_nonces P = delete_where t_web3_nonces t_web3_nonces_update P"

definition Web3NonceContext :: "AuthService \<Rightarrow> string \<Rightarrow> (string \<times> time) m" where
  "Web3NonceContext s rawAddress =
     (let eth = LB_eth (AU_lib s); address = ToLower (AddressHex eth (HexToAddress eth rawAddress)) in
      bnd generateNonce (\<lambda>nonce.
      bnd now (\<lambda>t.
      bnd (transaction (bnd (delete_nonces (\<lambda>n. WN_Address n = address)) (\<lambda>_.
         insert_row t_web3_nonces t_web3_nonces_update nonce_conflict
           (\<lambda>c i. \<lparr>WN_ID = i, WN_Nonce = nonce, WN_Address = address, WN_ExpiresAt = t + 5 * minute,
              WN_CreatedAt = c\<rparr>)))) (\<lambda>record.
      ret (nonce, WN_CreatedAt record)))))"

record Web3VerifyInput =
  VI_Address :: string
  VI_Signature :: string
  VI_Nonce :: string

definition Web3VerifyContext :: "AuthService \<Rightarrow> Web3VerifyInput \<Rightarrow> (User \<times> TokenPair) m" where
  "Web3VerifyContext s input =
     (let eth = LB_eth (AU_lib s); address = ToLower (VI_Address input) in
      bnd (orElse (query (nonce_of (VI_Nonce input) address)) (AuthE ErrInvalidNonce)) (\<lambda>nonceRecord.
      bnd now (\<lambda>t.
      if t > WN_ExpiresAt nonceRecord then
        handle (delete_nonces (\<lambda>n. WN_ID n = WN_ID nonceRecord))
          (\<lambda>_. fail (AuthE ErrInvalidNonce)) (\<lambda>_. fail (AuthE ErrInvalidNonce))
      else if \<not> verifyEthSignature (AU_lib s) (siweMessage address (VI_Nonce input)
           (LB_rfc3339 (AU_lib s) (WN_CreatedAt nonceRecord))) (VI_Signature input) address
      then fail (AuthE ErrInvalidSignature)
      else
        transaction (bnd (delete_nonces (\<lambda>n. WN_ID n = WN_ID nonceRecord)) (\<lambda>rowsAffected.
          if rowsAffected \<noteq> 1 then fail (AuthE ErrInvalidNonce)
          else upsertOAuthUser s ProviderWeb3 (AddressHex eth (HexToAddress eth (VI_Address input))) [] [] False None None)))))"

section \<open>Unlinking\<close>

definition live_providers :: "uuid \<Rightarrow> db \<Rightarrow> AuthProvider list" where
  "live_providers uid d = filter (\<lambda>p. AP_UserID p = uid \<and> live_provider p) (t_auth_providers d)"

definition delete_providers :: "(AuthProvider \<Rightarrow> bool) \<Rightarrow> nat m" where
  "delete_providers P = update_where t_auth_providers t_auth_providers_update no_check
     (\<lambda>p. P p \<and> live_provider p) (\<lambda>t p. p\<lparr>AP_DeletedAt := Some t\<rparr>)"

text \<open>The provider is the text of the request: \<open>None\<close> when it names none of the four.\<close>

definition UnlinkProviderContext :: "uuid \<Rightarrow> ProviderType option \<Rightarrow> unit m" where
  "UnlinkProviderContext userID provider =
     bnd (query (\<lambda>d. length (live_providers userID d))) (\<lambda>count.
     bnd (orElse (query (user_by_id userID)) RecordNotFound) (\<lambda>user.
     if count \<le> 1 \<and> U_PasswordHash user = None then fail (AuthE ErrLastProvider)
     else bnd (delete_providers (\<lambda>p. AP_UserID p = userID \<and> Some (AP_Provider p) = provider)) (\<lambda>_. ret ())))"
end
