(* ===== verification/EmailAuth.thy ===== *)
theory EmailAuth
  imports Auth
begin

text \<open>
  \<^verbatim>\<open>services/email_auth_service.go\<close>: the verification of an email address and the reset of a password
  through one-time tokens. The tables hold digests of the tokens, the mails carry the tokens. The
  mailer is a parameter; of a mail's body only the link is modelled.
\<close>

definition verifyTokenTTL :: int where
  "verifyTokenTTL = 24 * hour"

definition resetTokenTTL :: int where
  "resetTokenTTL = 1 * hour"

definition passwordResetCooldown :: int where
  "passwordResetCooldown = 5 * minute"

record EmailAuthService =
  ES_auth :: AuthLib
  ES_frontendURL :: string
  ES_send :: "string \<Rightarrow> string \<Rightarrow> string \<Rightarrow> nat \<Rightarrow> err + unit"

definition verification_conflict :: "EmailVerification list \<Rightarrow> EmailVerification \<Rightarrow> db_error option" where
  "verification_conflict rows v = dup_if (EV_ID v \<in> EV_ID ` set rows \<or> EV_TokenHash v \<in> EV_TokenHash ` set rows)"

definition reset_conflict :: "PasswordReset list \<Rightarrow> PasswordReset \<Rightarrow> db_error option" where
  "reset_conflict rows r = first_violation [varchars [(255, PR_Email r)],
     dup_if (PR_ID r \<in> PR_ID ` set rows \<or> PR_TokenHash r \<in> PR_TokenHash ` set rows)]"

definition delete_verifications :: "(EmailVerification \<Rightarrow> bool) \<Rightarrow> nat m" where
  "delete_verifications P = delete_where t_email_verifications t_email_verifications_update P"

definition delete_resets :: "(PasswordReset \<Rightarrow> bool) \<Rightarrow> nat m" where
  "delete_resets P = delete_where t_password_resets t_password_resets_update P"

definition update_users :: "(User list \<Rightarrow> db_error option) \<Rightarrow> (User \<Rightarrow> bool) \<Rightarrow> (User \<Rightarrow> User) \<Rightarrow> nat m" where
  "update_users bad P f = update_where t_users t_users_update bad (\<lambda>u. P u \<and> live u) (\<lambda>_. f)"

section \<open>Verification of the address\<close>

definition SendVerificationEmail :: "EmailAuthService \<Rightarrow> uuid \<Rightarrow> unit m" where
  "SendVerificationEmail s userID =
     bnd (orElse (query (user_by_id userID)) (AuthE ErrUserNotFound)) (\<lambda>user.
     if U_EmailVerified user then fail (AuthE ErrAlreadyVerified)
     else (case U_Email user of
         None \<Rightarrow> fail (Errorf ''user has no email address'')
       | Some email \<Rightarrow>
           bnd generateNonce (\<lambda>rawToken.
           bnd (delete_verifications (\<lambda>v. EV_UserID v = userID)) (\<lambda>_.
           bnd now (\<lambda>t.
           bnd (insert_row t_email_verifications t_email_verifications_update verification_conflict
              (\<lambda>c i. \<lparr>EV_ID = i, EV_UserID = userID, EV_TokenHash = hashToken rawToken,
                 EV_ExpiresAt = t + verifyTokenTTL, EV_CreatedAt = c\<rparr>)) (\<lambda>_.
           external (ES_send s email ''Verify your Tachigo email''
             (ES_frontendURL s @ ''/verify-email?token='' @ rawToken)))))))) "

definition verification_by_hash :: "string \<Rightarrow> db \<Rightarrow> EmailVerification option" where
  "verification_by_hash hash d = first_by EV_ID (\<lambda>v. EV_TokenHash v = hash) (t_email_verifications d)"

definition VerifyEmail :: "string \<Rightarrow> unit m" where
  "VerifyEmail rawToken =
     bnd (orElse (query (verification_by_hash (hashToken rawToken))) (AuthE ErrInvalidVerifyToken)) (\<lambda>record.
     bnd now (\<lambda>t.
     if t > EV_ExpiresAt record then
       bnd (delete_verifications (\<lambda>v. EV_ID v = EV_ID record)) (\<lambda>_. fail (AuthE ErrInvalidVerifyToken))
     else
       transaction (
         bnd (update_users no_check (\<lambda>u. U_ID u = EV_UserID record) (\<lambda>u. u\<lparr>U_EmailVerified := True\<rparr>)) (\<lambda>_.
         bnd (delete_verifications (\<lambda>v. EV_ID v = EV_ID record)) (\<lambda>_. ret ())))))"

section \<open>Reset of the password\<close>

definition last_reset :: "string \<Rightarrow> db \<Rightarrow> PasswordReset option" where
  "last_reset email d = (case rev (sort_key PR_CreatedAt (filter (\<lambda>r. PR_Email r = email) (t_password_resets d))) of
     [] \<Rightarrow> None | r # _ \<Rightarrow> Some r)"

definition sendReset :: "EmailAuthService \<Rightarrow> string \<Rightarrow> unit m" where
  "sendReset s email =
     bnd generateNonce (\<lambda>rawToken.
     bnd now (\<lambda>t.
     bnd (insert_row t_password_resets t_password_resets_update reset_conflict
        (\<lambda>c i. \<lparr>PR_ID = i, PR_Email = email, PR_TokenHash = hashToken rawToken,
           PR_ExpiresAt = t + resetTokenTTL, PR_CreatedAt = c\<rparr>)) (\<lambda>reset.
     handle (external (ES_send s email ''Reset your Tachigo password''
          (ES_frontendURL s @ ''/reset-password?token='' @ rawToken)))
       (\<lambda>e. handle (detached (delete_resets (\<lambda>r. PR_ID r = PR_ID reset)))
          (\<lambda>deleteErr. fail (Wrap (AuthE ErrPasswordResetEmailSend) (errText (AuthE ErrPasswordResetEmailSend) @
             '': '' @ errText e @ ''; failed to clear unsent reset token: '' @ errText deleteErr)))
          (\<lambda>_. fail (Wrap (AuthE ErrPasswordResetEmailSend) (errText (AuthE ErrPasswordResetEmailSend) @ '': '' @ errText e))))
       (\<lambda>_. bnd (delete_resets (\<lambda>r. PR_Email r = email \<and> PR_ID r \<noteq> PR_ID reset)) (\<lambda>_. ret ())))))"

definition ForgotPassword :: "EmailAuthService \<Rightarrow> string \<Rightarrow> unit m" where
  "ForgotPassword s email =
     bnd (query (user_by_email email)) (\<lambda>user.
     case user of
       None \<Rightarrow> ret ()
     | Some _ \<Rightarrow>
         bnd (query (last_reset email)) (\<lambda>lastReset.
         bnd (case lastReset of
              None \<Rightarrow> ret False
            | Some r \<Rightarrow> bnd now (\<lambda>t. ret (time_sub t (PR_CreatedAt r) < passwordResetCooldown))) (\<lambda>throttled.
         if throttled then ret () else sendReset s email)))"

definition reset_by_hash :: "string \<Rightarrow> db \<Rightarrow> PasswordReset option" where
  "reset_by_hash hash d = first_by PR_ID (\<lambda>r. PR_TokenHash r = hash) (t_password_resets d)"

definition passwords_check :: "User list \<Rightarrow> db_error option" where
  "passwords_check rows = varchars (map (\<lambda>u. opt_width 255 (U_PasswordHash u)) rows)"

definition ResetPassword :: "EmailAuthService \<Rightarrow> string \<Rightarrow> string \<Rightarrow> unit m" where
  "ResetPassword s rawToken newPassword =
     bnd (orElse (query (reset_by_hash (hashToken rawToken))) (AuthE ErrInvalidResetToken)) (\<lambda>record.
     bnd now (\<lambda>t.
     if t > PR_ExpiresAt record then
       bnd (delete_resets (\<lambda>r. PR_ID r = PR_ID record)) (\<lambda>_. fail (AuthE ErrInvalidResetToken))
     else
       bnd (external (LB_bcryptHash (ES_auth s) newPassword)) (\<lambda>hashed.
       transaction (
         bnd (update_users passwords_check (\<lambda>u. U_Email u = Some (PR_Email record))
           (\<lambda>u. u\<lparr>U_PasswordHash := Some hashed\<rparr>)) (\<lambda>_.
         bnd (delete_resets (\<lambda>r. PR_ID r = PR_ID record)) (\<lambda>_. ret ()))))))"

end
