(* ===== verification/Accounts.thy ===== *)
theory Accounts
  imports EmailAuth
begin

text \<open>
  The accounts of viewers, agencies and streamers: \<^verbatim>\<open>services/address_service.go\<close>,
  \<^verbatim>\<open>user_service.go\<close>, \<^verbatim>\<open>agency_service.go\<close> and \<^verbatim>\<open>streamer_service.go\<close>. A row that is deleted
  keeps its place with the time of its deletion, and no query without \<open>Unscoped\<close> sees it.
\<close>

section \<open>Shipping addresses\<close>

record AddressInput =
  AI_RecipientName :: string
  AI_Phone :: "string option"
  AI_AddressLine1 :: string
  AI_AddressLine2 :: "string option"
  AI_City :: string
  AI_District :: "string option"
  AI_PostalCode :: "string option"
  AI_Country :: string
  AI_IsDefault :: bool

definition address_widths :: "ShippingAddress \<Rightarrow> db_error option" where
  "address_widths a = varchars [(100, SA_RecipientName a), opt_width 20 (SA_Phone a), (255, SA_AddressLine1 a),
     opt_width 255 (SA_AddressLine2 a), (100, SA_City a), opt_width 100 (SA_District a),
     opt_width 20 (SA_PostalCode a), (50, SA_Country a)]"

definition address_conflict :: "ShippingAddress list \<Rightarrow> ShippingAddress \<Rightarrow> db_error option" where
  "address_conflict rows a = first_violation [address_widths a, dup_if (SA_ID a \<in> SA_ID ` set rows)]"

definition addresses_check :: "ShippingAddress list \<Rightarrow> db_error option" where
  "addresses_check rows = first_violation (map address_widths rows)"

definition live_address :: "ShippingAddress \<Rightarrow> bool" where
  "live_address a \<longleftrightarrow> SA_DeletedAt a = None"

definition update_addresses :: "(ShippingAddress \<Rightarrow> bool) \<Rightarrow> (time \<Rightarrow> ShippingAddress \<Rightarrow> ShippingAddress) \<Rightarrow> nat m" where
  "update_addresses P f = update_where t_shipping_addresses t_shipping_addresses_update addresses_check
     (\<lambda>a. P a \<and> live_address a) f"

definition find_address :: "uuid \<Rightarrow> uuid \<Rightarrow> db \<Rightarrow> ShippingAddress option" where
  "find_address uid aid d = first_by SA_ID (\<lambda>a. SA_ID a = aid \<and> SA_UserID a = uid \<and> live_address a) (t_shipping_addresses d)"

definition AddressListContext :: "uuid \<Rightarrow> ShippingAddress list m" where
  "AddressListContext userID = query (\<lambda>d.
     sort_key (\<lambda>a. \<not> SA_IsDefault a) (sort_key SA_CreatedAt
       (filter (\<lambda>a. SA_UserID a = userID \<and> live_address a) (t_shipping_addresses d))))"

definition AddressCreateContext :: "uuid \<Rightarrow> AddressInput \<Rightarrow> ShippingAddress m" where
  "AddressCreateContext userID input =
     (let country = (if AI_Country input = [] then ''TW'' else AI_Country input) in
      transaction (
        bnd (if AI_IsDefault input then update_addresses (\<lambda>a. SA_UserID a = userID) (\<lambda>_ a. a\<lparr>SA_IsDefault := False\<rparr>)
          else ret 0) (\<lambda>_.
        insert_row t_shipping_addresses t_shipping_addresses_update address_conflict
          (\<lambda>t i. \<lparr>SA_ID = i, SA_UserID = userID, SA_RecipientName = AI_RecipientName input, SA_Phone = AI_Phone input,
             SA_AddressLine1 = AI_AddressLine1 input, SA_AddressLine2 = AI_AddressLine2 input, SA_City = AI_City input,
             SA_District = AI_District input, SA_PostalCode = AI_PostalCode input, SA_Country = country,
             SA_IsDefault = AI_IsDefault input, SA_CreatedAt = t, SA_DeletedAt = None\<rparr>))))"

text \<open>\<open>Save\<close>: the row of this key gets every column.\<close>

definition save_address :: "ShippingAddress \<Rightarrow> nat m" where
  "save_address addr = update_addresses (\<lambda>a. SA_ID a = SA_ID addr) (\<lambda>_ _. addr)"

definition AddressUpdateContext :: "uuid \<Rightarrow> uuid \<Rightarrow> AddressInput \<Rightarrow> ShippingAddress m" where
  "AddressUpdateContext userID addrID input =
     bnd (orElse (query (find_address userID addrID)) (AccountE ErrAddressNotFound)) (\<lambda>addr.
     let addr' = addr\<lparr>SA_RecipientName := AI_RecipientName input, SA_Phone := AI_Phone input,
           SA_AddressLine1 := AI_AddressLine1 input, SA_AddressLine2 := AI_AddressLine2 input, SA_City := AI_City input,
           SA_District := AI_District input, SA_PostalCode := AI_PostalCode input,
           SA_Country := (if AI_Country input \<noteq> [] then AI_Country input else SA_Country addr),
           SA_IsDefault := AI_IsDefault input\<rparr>
     in transaction (
       bnd (if AI_IsDefault input \<and> \<not> SA_IsDefault addr
         then update_addresses (\<lambda>a. SA_UserID a = userID \<and> SA_ID a \<noteq> addrID) (\<lambda>_ a. a\<lparr>SA_IsDefault := False\<rparr>)
         else ret 0) (\<lambda>_.
       bnd (save_address addr') (\<lambda>_. ret addr'))))"

definition AddressDeleteContext :: "uuid \<Rightarrow> uuid \<Rightarrow> unit m" where
  "AddressDeleteContext userID addrID =
     bnd (update_addresses (\<lambda>a. SA_ID a = addrID \<and> SA_UserID a = userID) (\<lambda>t a. a\<lparr>SA_DeletedAt := Some t\<rparr>)) (\<lambda>rowsAffected.
     if rowsAffected = 0 then fail (AccountE ErrAddressNotFound) else ret ())"

definition SetDefaultContext :: "uuid \<Rightarrow> uuid \<Rightarrow> ShippingAddress m" where
  "SetDefaultContext userID addrID =
     bnd (orElse (query (find_address userID addrID)) (AccountE ErrAddressNotFound)) (\<lambda>addr.
     transaction (
       bnd (update_addresses (\<lambda>a. SA_UserID a = userID \<and> SA_ID a \<noteq> addrID) (\<lambda>_ a. a\<lparr>SA_IsDefault := False\<rparr>)) (\<lambda>_.
       bnd (save_address (addr\<lparr>SA_IsDefault := True\<rparr>)) (\<lambda>_. ret (addr\<lparr>SA_IsDefault := True\<rparr>)))))"

section \<open>Users\<close>

record UpdateProfileInput =
  UI_Username :: "string option"
  UI_AvatarURL :: "string option"

record LinkWalletInput =
  LW_Address :: string
  LW_Nonce :: string
  LW_Signature :: string

definition UserGetByIDContext :: "uuid \<Rightarrow> User m" where
  "UserGetByIDContext uid = orElse (query (user_by_id uid)) (AuthE ErrUserNotFound)"

text \<open>What the unique indexes and widths of the table say about all its rows.\<close>

definition users_check :: "User list \<Rightarrow> db_error option" where
  "users_check rows = first_violation [first_violation (map user_widths rows),
     dup_if (list_ex (\<lambda>u. list_ex (\<lambda>v. U_ID u \<noteq> U_ID v \<and> users_clash u v) rows) rows)]"

definition save_user :: "User \<Rightarrow> nat m" where
  "save_user user = update_users users_check (\<lambda>u. U_ID u = U_ID user) (\<lambda>_. user)"

definition UpdateProfileContext :: "uuid \<Rightarrow> UpdateProfileInput \<Rightarrow> User m" where
  "UpdateProfileContext uid input =
     bnd (orElse (query (user_by_id uid)) (AuthE ErrUserNotFound)) (\<lambda>user.
     bnd (case UI_Username input of
          None \<Rightarrow> ret user
        | Some name \<Rightarrow>
            bnd (query (count_users (\<lambda>u. U_Username u = Some name \<and> U_ID u \<noteq> uid))) (\<lambda>count.
            if count > 0 then fail (AuthE ErrUsernameExists) else ret (user\<lparr>U_Username := Some name\<rparr>))) (\<lambda>user'.
     let user'' = (case UI_AvatarURL input of None \<Rightarrow> user' | Some url \<Rightarrow> user'\<lparr>U_AvatarURL := Some url\<rparr>) in
     bnd (save_user user'') (\<lambda>_.
     ret user'')))"

definition ListProvidersContext :: "uuid \<Rightarrow> AuthProvider list m" where
  "ListProvidersContext uid = query (live_providers uid)"

definition providers_check :: "AuthProvider list \<Rightarrow> db_error option" where
  "providers_check rows = dup_if (list_ex (\<lambda>p. list_ex (\<lambda>q. AP_ID p \<noteq> AP_ID q \<and> providers_clash p q) rows) rows)"

definition link_errors :: "'a m \<Rightarrow> unit m" where
  "link_errors x = handle x (\<lambda>e. if errors_is e (DbE ErrDuplicatedKey) then fail (AuthE ErrProviderLinked) else fail e) (\<lambda>_. ret ())"

text \<open>The transaction of a link: the nonce is used up, the wallet replaces the one of before.\<close>

definition link_rows :: "uuid \<Rightarrow> string \<Rightarrow> string \<Rightarrow> string \<Rightarrow> unit m" where
  "link_rows userID nonce lookupAddr checksumAddr =
     bnd (delete_nonces (\<lambda>n. WN_Nonce n = nonce \<and> WN_Address n = lookupAddr)) (\<lambda>rowsAffected.
     if rowsAffected \<noteq> 1 then fail (AuthE ErrInvalidNonce)
     else
       bnd (query (\<lambda>d. length (filter (\<lambda>p. AP_Provider p = ProviderWeb3 \<and> AP_ProviderID p = checksumAddr \<and>
          live_provider p \<and> AP_UserID p \<noteq> userID) (t_auth_providers d)))) (\<lambda>count.
       if count > 0 then fail (AuthE ErrProviderLinked)
       else
         bnd now (\<lambda>t.
         bnd (update_where t_auth_providers t_auth_providers_update no_check
            (\<lambda>p. AP_UserID p = userID \<and> AP_Provider p = ProviderWeb3 \<and> live_provider p)
            (\<lambda>_ p. p\<lparr>AP_DeletedAt := Some t\<rparr>)) (\<lambda>_.
         bnd (query (\<lambda>d. first_by AP_ID (\<lambda>p. AP_UserID p = userID \<and> AP_Provider p = ProviderWeb3 \<and>
            AP_ProviderID p = checksumAddr) (t_auth_providers d))) (\<lambda>found.
         case found of
           Some ap \<Rightarrow> link_errors (update_where t_auth_providers t_auth_providers_update providers_check
             (\<lambda>p. AP_ID p = AP_ID ap) (\<lambda>_ p. p\<lparr>AP_DeletedAt := None\<rparr>))
         | None \<Rightarrow> link_errors (create_provider (new_provider userID ProviderWeb3 checksumAddr)))))))"

definition LinkWalletContext :: "AuthLib \<Rightarrow> uuid \<Rightarrow> LinkWalletInput \<Rightarrow> string m" where
  "LinkWalletContext lib userID input =
     (if \<not> IsHexAddress (LB_eth lib) (LW_Address input) then fail (AuthE ErrInvalidWalletAddress)
      else
        let checksumAddr = AddressHex (LB_eth lib) (HexToAddress (LB_eth lib) (LW_Address input));
            lookupAddr = ToLower checksumAddr
        in
        bnd (orElse (query (nonce_of (LW_Nonce input) lookupAddr)) (AuthE ErrInvalidNonce)) (\<lambda>nonceRecord.
        bnd now (\<lambda>t.
        if t > WN_ExpiresAt nonceRecord then fail (AuthE ErrInvalidNonce)
        else if \<not> verifyEthSignature lib (siweMessage checksumAddr (LW_Nonce input)
             (LB_rfc3339 lib (WN_CreatedAt nonceRecord))) (LW_Signature input) checksumAddr
        then fail (AuthE ErrInvalidSignature)
        else
          bnd (transaction (link_rows userID (LW_Nonce input) lookupAddr checksumAddr)) (\<lambda>_.
          ret checksumAddr))))"

end
