(* ===== verification/ChannelConfigs.thy ===== *)
theory ChannelConfigs
  imports Store
begin

text \<open>
  \<^verbatim>\<open>services/channel_config_service.go\<close>: the earning settings of a channel. A missing row
  and a setting that is not positive both mean the default, which is what keeps the
  heartbeat's division by \<open>seconds_per_point\<close> defined. An update writes the settings that
  are not zero (GORM leaves zero fields of an assigned struct alone).
\<close>

definition DefaultSecondsPerPoint :: int where
  "DefaultSecondsPerPoint = 60"

definition find_config :: "string \<Rightarrow> db \<Rightarrow> ChannelConfig option" where
  "find_config ch d = find (\<lambda>c. CC_ChannelID c = ch) (t_channel_configs d)"

definition GetContext :: "string \<Rightarrow> ChannelConfig option m" where
  "GetContext ch = query (find_config ch)"

definition EffectiveMultiplierContext :: "string \<Rightarrow> int m" where
  "EffectiveMultiplierContext ch =
     bnd (GetContext ch) (\<lambda>cfg.
     case cfg of
       None \<Rightarrow> ret 1
     | Some c \<Rightarrow> ret (if CC_Multiplier c \<le> 0 then 1 else CC_Multiplier c))"

text \<open>\<open>Where(\<dots>).Assign(\<dots>).FirstOrCreate(cfg)\<close>: the column default of
  \<open>daily_airdrop_limit\<close> fills a created row.\<close>

definition config_conflict :: "ChannelConfig list \<Rightarrow> ChannelConfig \<Rightarrow> db_error option" where
  "config_conflict rows c = dup_if (CC_ChannelID c \<in> CC_ChannelID ` set rows)"

definition assign_config :: "int \<Rightarrow> int \<Rightarrow> ChannelConfig \<Rightarrow> ChannelConfig" where
  "assign_config spp mult c = c\<lparr>
     CC_SecondsPerPoint := (if spp = 0 then CC_SecondsPerPoint c else spp),
     CC_Multiplier := (if mult = 0 then CC_Multiplier c else mult)\<rparr>"

definition UpdateChannelConfigContext :: "string \<Rightarrow> int \<Rightarrow> int \<Rightarrow> ChannelConfig m" where
  "UpdateChannelConfigContext ch secondsPerPoint multiplier =
     bnd (GetContext ch) (\<lambda>found.
     let cfg = (case found of
           Some c \<Rightarrow> c
         | None \<Rightarrow> \<lparr>CC_ChannelID = ch, CC_SecondsPerPoint = DefaultSecondsPerPoint,
             CC_Multiplier = 1, CC_DailyAirdropLimit = 0, CC_CreatedAt = 0\<rparr>);
         spp = (if secondsPerPoint > 0 then secondsPerPoint else CC_SecondsPerPoint cfg);
         mult = (if multiplier > 0 then multiplier else CC_Multiplier cfg)
     in
     bnd (query (find_config ch)) (\<lambda>row.
     case row of
       None \<Rightarrow> insert_row t_channel_configs t_channel_configs_update config_conflict
         (\<lambda>t _. \<lparr>CC_ChannelID = ch, CC_SecondsPerPoint = spp, CC_Multiplier = mult,
            CC_DailyAirdropLimit = (if CC_DailyAirdropLimit cfg = 0 then 5000 else CC_DailyAirdropLimit cfg),
            CC_CreatedAt = t\<rparr>)
     | Some c \<Rightarrow>
         bnd (update_where t_channel_configs t_channel_configs_update no_check
                (\<lambda>r. CC_ChannelID r = ch) (\<lambda>_. assign_config spp mult)) (\<lambda>_.
         ret (assign_config spp mult c))))"

text \<open>The settings that take effect: what \<open>getChannelConfig\<close> of the watch service and
  \<open>EffectiveMultiplier\<close> compute from the row.\<close>

definition effective_spp :: "ChannelConfig option \<Rightarrow> int" where
  "effective_spp cfg = (case cfg of None \<Rightarrow> DefaultSecondsPerPoint
     | Some c \<Rightarrow> if CC_SecondsPerPoint c \<le> 0 then DefaultSecondsPerPoint else CC_SecondsPerPoint c)"

definition effective_multiplier :: "ChannelConfig option \<Rightarrow> int" where
  "effective_multiplier cfg = (case cfg of None \<Rightarrow> 1
     | Some c \<Rightarrow> if CC_Multiplier c \<le> 0 then 1 else CC_Multiplier c)"

lemma effective_pos [simp]: "0 < effective_spp cfg" "0 < effective_multiplier cfg"
  by (auto simp: effective_spp_def effective_multiplier_def DefaultSecondsPerPoint_def split: option.split)

definition configs_ok :: "db \<Rightarrow> bool" where
  "configs_ok d \<longleftrightarrow> distinct (map CC_ChannelID (t_channel_configs d)) \<and>
     (\<forall>c \<in> set (t_channel_configs d). fits (CC_SecondsPerPoint c) \<and> fits (CC_Multiplier c))"

lemma find_config_SomeD:
  "find_config ch d = Some c \<Longrightarrow> c \<in> set (t_channel_configs d) \<and> CC_ChannelID c = ch"
  by (auto simp: find_config_def find_Some_iff in_set_conv_nth)

lemma find_config_None: "find_config ch d = None \<longleftrightarrow> ch \<notin> CC_ChannelID ` set (t_channel_configs d)"
  by (auto simp: find_config_def find_None_iff)

lemma find_config_append:
  "find_config ch d = None \<Longrightarrow>
    find_config ch' (t_channel_configs_update (\<lambda>rows. rows @ [c]) d) =
     (case find_config ch' d of None \<Rightarrow> if CC_ChannelID c = ch' then Some c else None | Some x \<Rightarrow> Some x)"
proof -
  have "find P (xs @ [c]) = (case find P xs of None \<Rightarrow> if P c then Some c else None | Some x \<Rightarrow> Some x)"
    for P and xs :: "ChannelConfig list" by (induction xs) auto
  then show ?thesis by (simp add: find_config_def)
qed

lemma find_config_update:
  assumes "\<And>c. CC_ChannelID (f c) = CC_ChannelID c"
  shows "find_config ch' (t_channel_configs_update (update_rows (\<lambda>r. CC_ChannelID r = ch) f) d) =
     map_option (\<lambda>c. if ch' = ch then f c else c) (find_config ch' d)"
proof -
  have "find (\<lambda>c. CC_ChannelID c = ch') (update_rows (\<lambda>r. CC_ChannelID r = ch) f xs) =
      map_option (\<lambda>c. if ch' = ch then f c else c) (find (\<lambda>c. CC_ChannelID c = ch') xs)" for xs
    using assms by (induction xs) (auto simp: update_rows_def)
  then show ?thesis by (simp add: find_config_def)
qed

lemma update_find_config:
  assumes "UpdateChannelConfigContext ch spp mult w = (Inr cfg, w')"
  shows "find_config ch (w_db w') = Some cfg"
    and "effective_spp (Some cfg) = (if spp > 0 then spp else effective_spp (find_config ch (w_db w)))"
    and "effective_multiplier (Some cfg) = (if mult > 0 then mult else effective_multiplier (find_config ch (w_db w)))"
    and "ch' \<noteq> ch \<Longrightarrow> find_config ch' (w_db w') = find_config ch' (w_db w)"
proof -
  let ?old = "find_config ch (w_db w)"
  have "find_config ch (w_db w') = Some cfg \<and>
    effective_spp (Some cfg) = (if spp > 0 then spp else effective_spp ?old) \<and>
    effective_multiplier (Some cfg) = (if mult > 0 then mult else effective_multiplier ?old) \<and>
    (ch' \<noteq> ch \<longrightarrow> find_config ch' (w_db w') = find_config ch' (w_db w))"
  proof (cases ?old)
    case None
    with assms show ?thesis
      by (auto simp: UpdateChannelConfigContext_def GetContext_def Let_def run_simps find_config_append
          effective_spp_def effective_multiplier_def DefaultSecondsPerPoint_def split: option.splits)
  next
    case (Some c)
    with assms show ?thesis
      by (auto simp: UpdateChannelConfigContext_def GetContext_def Let_def run_simps find_config_update
          assign_config_def effective_spp_def effective_multiplier_def DefaultSecondsPerPoint_def
          option.map_comp o_def split: if_splits intro!: option.map_ident_strong)
  qed
  then show "find_config ch (w_db w') = Some cfg"
    and "effective_spp (Some cfg) = (if spp > 0 then spp else effective_spp (find_config ch (w_db w)))"
    and "effective_multiplier (Some cfg) = (if mult > 0 then mult else effective_multiplier (find_config ch (w_db w)))"
    and "ch' \<noteq> ch \<Longrightarrow> find_config ch' (w_db w') = find_config ch' (w_db w)"
    by auto
qed

text \<open>Updating a channel's settings: a positive setting takes effect as given and any other value keeps
  the setting in effect before, the row returned is the row stored, other channels keep their
  settings, and the settings in effect are always positive.\<close>

theorem UpdateChannelConfig_effective:
  assumes "UpdateChannelConfigContext ch spp mult w = (Inr cfg, w')"
  shows "find_config ch (w_db w') = Some cfg \<and>
    effective_spp (Some cfg) = (if spp > 0 then spp else effective_spp (find_config ch (w_db w))) \<and>
    effective_multiplier (Some cfg) =
      (if mult > 0 then mult else effective_multiplier (find_config ch (w_db w))) \<and>
    0 < effective_spp (Some cfg) \<and> 0 < effective_multiplier (Some cfg) \<and>
    (\<forall>ch'. ch' \<noteq> ch \<longrightarrow> find_config ch' (w_db w') = find_config ch' (w_db w))"
  using update_find_config [OF assms] by (auto simp del: effective_pos simp: effective_pos)

theorem UpdateChannelConfig_effective_witness:
  "\<exists>cfg w'. UpdateChannelConfigContext ''c'' 30 0 (start (\<lambda>n. int n) empty_db) = (Inr cfg, w') \<and>
     effective_spp (Some cfg) = 30 \<and> effective_multiplier (Some cfg) = 1"
proof -
  let ?w = "start (\<lambda>n. int n) empty_db"
  have "\<exists>cfg w'. UpdateChannelConfigContext ''c'' 30 0 ?w = (Inr cfg, w')"
    by (simp add: UpdateChannelConfigContext_def GetContext_def run_defs Let_def find_config_def
        empty_db_def config_conflict_def dup_if_def)
  then obtain cfg w' where run: "UpdateChannelConfigContext ''c'' 30 0 ?w = (Inr cfg, w')" by blast
  have "find_config ''c'' (w_db ?w) = None" by (simp add: find_config_def empty_db_def)
  with UpdateChannelConfig_effective [OF run] run show ?thesis
    by (auto simp: effective_multiplier_def)
qed

end
