(* ===== verification/Watch.thy ===== *)
theory Watch
  imports Points ChannelConfigs
begin

text \<open>
  \<^verbatim>\<open>services/watch_service.go\<close>: watch sessions, the heartbeat that turns watched seconds into
  points, and the click reward. \<open>sessions_ok\<close> is the invariant of the sessions: at most one
  active session per viewer and channel, and never more seconds rewarded than accumulated.
\<close>

section \<open>Sessions\<close>

definition staleThreshold :: int where
  "staleThreshold = 2 * minute"

definition clickCooldown :: int where
  "clickCooldown = 5 * second"

definition clickPointsPerClick :: int where
  "clickPointsPerClick = 1"

definition session_key :: "uuid \<Rightarrow> string \<Rightarrow> WatchSession \<Rightarrow> bool" where
  "session_key u c s \<longleftrightarrow> WS_UserID s = u \<and> WS_ChannelID s = c \<and> WS_IsActive s"

definition find_session :: "uuid \<Rightarrow> string \<Rightarrow> db \<Rightarrow> WatchSession option" where
  "find_session u c d = first_by WS_ID (session_key u c) (t_watch_sessions d)"

text \<open>
  The primary key and the partial unique index
  \<^verbatim>\<open>(user_id, channel_id) WHERE is_active\<close> (migration 003).
\<close>

definition session_conflict :: "WatchSession list \<Rightarrow> WatchSession \<Rightarrow> db_error option" where
  "session_conflict rows s = dup_if (WS_ID s \<in> WS_ID ` set rows \<or>
     WS_IsActive s \<and> list_ex (session_key (WS_UserID s) (WS_ChannelID s)) rows)"

definition fresh_session :: "uuid \<Rightarrow> uuid \<Rightarrow> string \<Rightarrow> time \<Rightarrow> time \<Rightarrow> WatchSession" where
  "fresh_session i u c beat at = \<lparr>WS_ID = i, WS_UserID = u, WS_ChannelID = c,
     WS_AccumulatedSeconds = 0, WS_RewardedSeconds = 0, WS_LastHeartbeatAt = beat,
     WS_ClickCooldownUntil = 0, WS_IsActive = True, WS_EndedAt = None, WS_CreatedAt = at\<rparr>"

definition update_session :: "WatchSession \<Rightarrow> (WatchSession \<Rightarrow> WatchSession) \<Rightarrow> nat m" where
  "update_session session f = update_where t_watch_sessions t_watch_sessions_update no_check
     (\<lambda>s. WS_ID s = WS_ID session) (\<lambda>_. f)"

text \<open>
  The part of \<open>StartSessionContext\<close> after a stale session was closed. The savepoint makes a
  failed \<open>Create\<close> leave nothing behind, as every failing statement of the model does.
\<close>

definition openSession :: "uuid \<Rightarrow> string \<Rightarrow> WatchSession m" where
  "openSession userID channelID =
     bnd newUUID (\<lambda>i.
     bnd now (\<lambda>t.
     handle (insert_row t_watch_sessions t_watch_sessions_update session_conflict
               (\<lambda>at _. fresh_session i userID channelID t at))
       (\<lambda>err. handle (orElse (query (find_session userID channelID)) RecordNotFound)
          (\<lambda>_. fail err)
          (\<lambda>existing. ret existing))
       (\<lambda>newSession. ret newSession)))"

definition StartSessionContext :: "uuid \<Rightarrow> string \<Rightarrow> WatchSession m" where
  "StartSessionContext userID channelID = transaction (
     bnd (query (find_session userID channelID)) (\<lambda>found.
     case found of
       Some session \<Rightarrow>
         bnd now (\<lambda>t.
         if time_sub t (WS_LastHeartbeatAt session) \<le> staleThreshold then ret session
         else
           bnd now (\<lambda>now'.
           bnd (update_session session (\<lambda>s. s\<lparr>WS_IsActive := False, WS_EndedAt := Some now'\<rparr>)) (\<lambda>_.
           openSession userID channelID)))
     | None \<Rightarrow> openSession userID channelID))"

definition EndSessionContext :: "uuid \<Rightarrow> string \<Rightarrow> unit m" where
  "EndSessionContext userID channelID =
     bnd now (\<lambda>t.
     bnd (update_where t_watch_sessions t_watch_sessions_update no_check
            (session_key userID channelID)
            (\<lambda>_ s. s\<lparr>WS_IsActive := False, WS_EndedAt := Some t\<rparr>)) (\<lambda>_.
     ret ()))"

section \<open>Heartbeats\<close>

text \<open>
  The statements by which both \<open>HeartbeatContext\<close> and \<open>RecordClickContext\<close> credit a
  ledger: upsert, read back, log with the session's identifier.
\<close>

definition creditSession :: "uuid \<Rightarrow> string \<Rightarrow> WatchSession \<Rightarrow> TxSource \<Rightarrow> int \<Rightarrow> PointsLedger m" where
  "creditSession userID channelID session source amount =
     bnd newUUID (\<lambda>ledgerID.
     bnd now (\<lambda>upsertTime.
     seq (upsert_ledger ledgerID userID channelID amount upsertTime) (
     bnd (orElse (query (find_ledger userID channelID)) RecordNotFound) (\<lambda>ledger.
     bnd (create_ptx (\<lambda>at i. \<lparr>PT_ID = i, PT_LedgerID = PL_ID ledger,
        PT_WatchSessionID = Some (WS_ID session), PT_Source = source,
        PT_Delta = amount, PT_BalanceAfter = PL_SpendableBalance ledger,
        PT_SKU = None, PT_Note = None, PT_ExternalTransactionID = None,
        PT_CreatedAt = at\<rparr>)) (\<lambda>_.
     ret ledger)))))"

record HeartbeatResult =
  HR_Session :: WatchSession
  HR_PointsEarned :: int
  HR_DeltaSeconds :: int

definition getChannelConfig :: "string \<Rightarrow> ChannelConfig m" where
  "getChannelConfig ch =
     bnd (query (find_config ch)) (\<lambda>found.
     case found of
       None \<Rightarrow> ret \<lparr>CC_ChannelID = ch, CC_SecondsPerPoint = DefaultSecondsPerPoint,
           CC_Multiplier = 1, CC_DailyAirdropLimit = 0, CC_CreatedAt = 0\<rparr>
     | Some cfg \<Rightarrow>
         let cfg = (if CC_SecondsPerPoint cfg \<le> 0
               then cfg\<lparr>CC_SecondsPerPoint := DefaultSecondsPerPoint\<rparr> else cfg);
             cfg = (if CC_Multiplier cfg \<le> 0 then cfg\<lparr>CC_Multiplier := 1\<rparr> else cfg)
         in ret cfg)"

text \<open>The body of \<open>HeartbeatContext\<close> once the heartbeat counts for \<open>deltaSeconds\<close>.\<close>

definition advanceSession :: "uuid \<Rightarrow> string \<Rightarrow> WatchSession \<Rightarrow> time \<Rightarrow> int \<Rightarrow> HeartbeatResult m" where
  "advanceSession userID channelID session t deltaSeconds =
     bnd (getChannelConfig channelID) (\<lambda>cfg.
     let secondsPerPoint = CC_SecondsPerPoint cfg; multiplier = CC_Multiplier cfg in
     if WS_AccumulatedSeconds session > i64 (max_i64 - deltaSeconds)
     then fail (PointsE ErrPointsDeltaOverflow)
     else
       let newAccumulated = i64 (WS_AccumulatedSeconds session + deltaSeconds);
           pendingSeconds = i64 (newAccumulated - WS_RewardedSeconds session);
           basePoints = pendingSeconds sdiv secondsPerPoint
       in
       if basePoints > 0 \<and> multiplier > max_i64 sdiv basePoints
       then fail (PointsE ErrPointsDeltaOverflow)
       else
         let pointsToAward = i64 (basePoints * multiplier);
             newRewarded = i64 (WS_RewardedSeconds session + i64 (basePoints * secondsPerPoint));
             advance = (\<lambda>s. s\<lparr>WS_AccumulatedSeconds := newAccumulated,
               WS_RewardedSeconds := newRewarded, WS_LastHeartbeatAt := t\<rparr>)
         in
         bnd (update_session session advance) (\<lambda>_.
         seq (if pointsToAward > 0 then
                bnd (creditSession userID channelID session TxSourceWatchTime pointsToAward) (\<lambda>_. ret ())
              else ret ())
         (ret \<lparr>HR_Session = advance session, HR_PointsEarned = pointsToAward,
                HR_DeltaSeconds = deltaSeconds\<rparr>)))"

definition HeartbeatContext :: "uuid \<Rightarrow> string \<Rightarrow> HeartbeatResult m" where
  "HeartbeatContext userID channelID = transaction (
     bnd (orElse (query (find_session userID channelID)) (WatchE ErrNoActiveSession)) (\<lambda>session.
     bnd now (\<lambda>t.
     let delta = time_sub t (WS_LastHeartbeatAt session) in
     if delta < 20 * second
     then ret \<lparr>HR_Session = session, HR_PointsEarned = 0, HR_DeltaSeconds = 0\<rparr>
     else
       let delta = (if delta > 30 * second then 30 * second else delta);
           deltaSeconds = delta sdiv second
       in advanceSession userID channelID session t deltaSeconds)))"

section \<open>Clicks\<close>

record ClickResult =
  CK_BalanceAfter :: int
  CK_Delta :: int

definition RecordClickContext :: "uuid \<Rightarrow> string \<Rightarrow> ClickResult m" where
  "RecordClickContext userID channelID = transaction (
     bnd (orElse (query (find_session userID channelID)) (WatchE ErrNoActiveSession)) (\<lambda>session.
     bnd now (\<lambda>t.
     if t < WS_ClickCooldownUntil session then
       bnd now (\<lambda>t'.
       fail (WatchE (ErrClickOnCooldown (time_sub (WS_ClickCooldownUntil session) t' sdiv millisecond))))
     else
       bnd now (\<lambda>t'.
       bnd (update_session session (\<lambda>s. s\<lparr>WS_ClickCooldownUntil := t' + clickCooldown\<rparr>)) (\<lambda>_.
       bnd (creditSession userID channelID session TxSourceClick clickPointsPerClick) (\<lambda>ledger.
       ret \<lparr>CK_BalanceAfter = PL_SpendableBalance ledger, CK_Delta = clickPointsPerClick\<rparr>))))))"

section \<open>The session invariant\<close>

definition sessions_ok :: "db \<Rightarrow> bool" where
  "sessions_ok d \<longleftrightarrow>
     distinct (map WS_ID (t_watch_sessions d)) \<and>
     distinct (map (\<lambda>s. (WS_UserID s, WS_ChannelID s)) (filter WS_IsActive (t_watch_sessions d))) \<and>
     (\<forall>s \<in> set (t_watch_sessions d). 0 \<le> WS_RewardedSeconds s \<and>
        WS_RewardedSeconds s \<le> WS_AccumulatedSeconds s \<and> WS_AccumulatedSeconds s \<le> max_i64)"

definition watch_ok :: "db \<Rightarrow> bool" where
  "watch_ok d \<longleftrightarrow> ledger_ok d \<and> sessions_ok d"

lemma sessions_ok_frame [simp]:
  "sessions_ok (t_points_ledgers_update f d) = sessions_ok d"
  "sessions_ok (t_points_transactions_update g d) = sessions_ok d"
  by (simp_all add: sessions_ok_def)

lemma find_session_SomeD:
  "find_session u c d = Some s \<Longrightarrow> s \<in> set (t_watch_sessions d) \<and> session_key u c s"
  by (auto simp: find_session_def dest: first_by_SomeD)

lemma active_unique:
  assumes "distinct (map g (filter P xs))" and "x \<in> set xs" "y \<in> set xs" "P x" "P y" "g x = g y"
  shows "x = y"
  using distinct_map_unique [OF assms(1), of x y] assms(2-) by simp

lemma session_unique:
  assumes "sessions_ok d" "s \<in> set (t_watch_sessions d)" "s' \<in> set (t_watch_sessions d)"
    "session_key u c s" "session_key u c s'"
  shows "s = s'"
proof (rule active_unique [where P = WS_IsActive and xs = "t_watch_sessions d"])
  show "distinct (map (\<lambda>s. (WS_UserID s, WS_ChannelID s)) (filter WS_IsActive (t_watch_sessions d)))"
    using assms(1) by (simp add: sessions_ok_def)
qed (use assms in \<open>auto simp: session_key_def\<close>)

lemma find_session_iff:
  assumes "sessions_ok d"
  shows "find_session u c d = Some s \<longleftrightarrow> s \<in> set (t_watch_sessions d) \<and> session_key u c s"
proof
  assume "s \<in> set (t_watch_sessions d) \<and> session_key u c s"
  then show "find_session u c d = Some s"
    unfolding find_session_def by (intro first_by_unique) (use assms session_unique in blast)+
qed (auto dest: find_session_SomeD)

lemma find_session_None: "find_session u c d = None \<longleftrightarrow> (\<forall>s \<in> set (t_watch_sessions d). \<not> session_key u c s)"
  by (simp add: find_session_def)

lemma distinct_map_filter_shrink:
  assumes "distinct (map g (filter Q xs))"
    and "\<And>x. P x \<Longrightarrow> g (f x) = g x" and "\<And>x. x \<in> set xs \<Longrightarrow> P x \<Longrightarrow> Q (f x) \<Longrightarrow> Q x"
  shows "distinct (map g (filter Q (update_rows P f xs)))"
  using assms
proof (induction xs)
  case (Cons x xs)
  have sub: "g ` set (filter Q (update_rows P f xs)) \<subseteq> g ` set (filter Q xs)"
    using Cons.prems(2,3) by (force simp: set_update_rows)
  have IH: "distinct (map g (filter Q (update_rows P f xs)))"
    using Cons.prems by (intro Cons.IH) (auto split: if_splits)
  define y where "y = (if P x then f x else x)"
  have y: "g y = g x" "Q y \<Longrightarrow> Q x"
    using Cons.prems(2) [of x] Cons.prems(3) [of x] by (auto simp: y_def split: if_splits)
  have "update_rows P f (x # xs) = y # update_rows P f xs" by (simp add: update_rows_def y_def)
  moreover have "g y \<notin> g ` set (filter Q (update_rows P f xs))" if "Q y"
    using sub y that Cons.prems(1) by auto
  ultimately show ?case using IH by simp
qed simp

text \<open>Changing rows of sessions: counters stay in order and no session becomes active.\<close>

lemma sessions_ok_update:
  assumes "sessions_ok d"
    and "\<And>s. WS_ID (f s) = WS_ID s" "\<And>s. WS_UserID (f s) = WS_UserID s"
      "\<And>s. WS_ChannelID (f s) = WS_ChannelID s" "\<And>s. WS_IsActive (f s) \<Longrightarrow> WS_IsActive s"
    and "\<And>s. s \<in> set (t_watch_sessions d) \<Longrightarrow> P s \<Longrightarrow> 0 \<le> WS_RewardedSeconds (f s) \<and>
      WS_RewardedSeconds (f s) \<le> WS_AccumulatedSeconds (f s) \<and> WS_AccumulatedSeconds (f s) \<le> max_i64"
  shows "sessions_ok (t_watch_sessions_update (update_rows P f) d)"
proof -
  have "distinct (map WS_ID (update_rows P f (t_watch_sessions d)))"
    using assms by (simp add: map_update_rows sessions_ok_def)
  moreover have "distinct (map (\<lambda>s. (WS_UserID s, WS_ChannelID s)) (filter WS_IsActive (update_rows P f (t_watch_sessions d))))"
    using assms by (intro distinct_map_filter_shrink) (auto simp: sessions_ok_def)
  ultimately show ?thesis
    using assms(1,6) by (auto simp: sessions_ok_def set_update_rows)
qed

lemma sessions_ok_insert:
  assumes "sessions_ok d" and "session_conflict (t_watch_sessions d) s = None"
    and "0 \<le> WS_RewardedSeconds s" "WS_RewardedSeconds s \<le> WS_AccumulatedSeconds s"
      "WS_AccumulatedSeconds s \<le> max_i64"
  shows "sessions_ok (t_watch_sessions_update (\<lambda>rows. rows @ [s]) d)"
  using assms by (auto simp: sessions_ok_def session_conflict_def list_ex_iff session_key_def)

section \<open>The arithmetic of a heartbeat\<close>

text \<open>
  What the counters and the award are meant to be, without machine integers: the pending
  seconds are paid in whole units of \<open>spp\<close> seconds, the rest is carried over.
\<close>

definition base_points :: "int \<Rightarrow> WatchSession \<Rightarrow> int \<Rightarrow> int" where
  "base_points spp s delta = (WS_AccumulatedSeconds s + delta - WS_RewardedSeconds s) div spp"

definition beat :: "int \<Rightarrow> int \<Rightarrow> time \<Rightarrow> WatchSession \<Rightarrow> WatchSession" where
  "beat spp delta t s = s\<lparr>WS_AccumulatedSeconds := WS_AccumulatedSeconds s + delta,
     WS_RewardedSeconds := WS_RewardedSeconds s + base_points spp s delta * spp,
     WS_LastHeartbeatAt := t\<rparr>"

lemma mult_le_div:
  fixes a b m :: int
  assumes "0 < b" and "a \<le> m div b"
  shows "b * a \<le> m"
  using assms by (smt (verit) mult.commute mult_left_mono pos_mod_sign minus_mod_eq_mult_div)

lemma heartbeat_arith:
  assumes s: "0 \<le> WS_RewardedSeconds s" "WS_RewardedSeconds s \<le> WS_AccumulatedSeconds s"
      "WS_AccumulatedSeconds s \<le> max_i64"
    and d: "0 \<le> delta" "delta \<le> 30" and spp: "0 < spp" and mult: "0 < mult"
    and ovf: "WS_AccumulatedSeconds s \<le> i64 (max_i64 - delta)"
  defines "acc \<equiv> i64 (WS_AccumulatedSeconds s + delta)"
  defines "base \<equiv> i64 (acc - WS_RewardedSeconds s) sdiv spp"
  assumes ovf2: "\<not> (base > 0 \<and> mult > max_i64 sdiv base)"
  shows "acc = WS_AccumulatedSeconds s + delta" and "base = base_points spp s delta"
    and "0 \<le> base" and "i64 (base * mult) = base * mult" and "0 \<le> base * mult" and "base * mult \<le> max_i64"
    and "i64 (WS_RewardedSeconds s + i64 (base * spp)) = WS_RewardedSeconds s + base * spp"
    and "WS_RewardedSeconds s + base * spp \<le> acc" and "acc \<le> max_i64"
    and "acc - (WS_RewardedSeconds s + base * spp) < spp"
proof -
  have m: "i64 (max_i64 - delta) = max_i64 - delta" using d by (auto simp: i64_bounds intro!: i64_fits)
  then have "fits (WS_AccumulatedSeconds s + delta)" using s d ovf by (simp add: i64_bounds)
  then show acc: "acc = WS_AccumulatedSeconds s + delta" by (simp add: acc_def)
  with ovf m show acc_max: "acc \<le> max_i64" by simp
  define pend where "pend = acc - WS_RewardedSeconds s"
  have pend: "0 \<le> pend" "pend \<le> max_i64" using s d acc acc_max by (simp_all add: pend_def)
  then have "i64 pend = pend" by (auto simp: i64_bounds intro!: i64_fits)
  then have base: "base = pend div spp" using pend spp by (simp add: base_def pend_def sdiv_nonneg)
  then show "base = base_points spp s delta" by (simp add: base_points_def acc pend_def)
  show nonneg: "0 \<le> base" using base pend spp by (simp add: pos_imp_zdiv_nonneg_iff)
  have bs: "base * spp \<le> pend" "pend - base * spp < spp"
    using spp unfolding base by (smt (verit) minus_mod_eq_div_mult pos_mod_bound pos_mod_sign)+
  show "0 \<le> base * mult" using nonneg mult by simp
  show bm: "base * mult \<le> max_i64"
  proof (cases "0 < base")
    case True
    then have "mult \<le> max_i64 div base" using ovf2 by (simp add: sdiv_nonneg max_i64_def)
    with True show ?thesis by (rule mult_le_div)
  qed (use nonneg in \<open>auto simp: max_i64_def\<close>)
  then show "i64 (base * mult) = base * mult"
    using \<open>0 \<le> base * mult\<close> by (auto simp: i64_bounds intro!: i64_fits)
  have bs0: "0 \<le> base * spp" using nonneg spp by simp
  then have "i64 (base * spp) = base * spp"
    using bs pend by (auto simp: i64_bounds intro!: i64_fits)
  moreover show le: "WS_RewardedSeconds s + base * spp \<le> acc" using bs by (simp add: pend_def)
  ultimately show "i64 (WS_RewardedSeconds s + i64 (base * spp)) = WS_RewardedSeconds s + base * spp"
    using bs0 s acc_max by (auto simp: i64_bounds intro!: i64_fits)
  show "acc - (WS_RewardedSeconds s + base * spp) < spp" using bs by (simp add: pend_def)
qed

lemma getChannelConfig_Inr [run_simps]:
  "getChannelConfig ch w = (Inr cfg, w') \<Longrightarrow>
    w' = tick w \<and> CC_SecondsPerPoint cfg = effective_spp (find_config ch (w_db w)) \<and>
    CC_Multiplier cfg = effective_multiplier (find_config ch (w_db w))"
  by (auto simp: getChannelConfig_def run_simps effective_spp_def effective_multiplier_def
      DefaultSecondsPerPoint_def Let_def split: option.splits if_splits)

text \<open>A credit whose log entry carries the session.\<close>

lemma creditSession_Inr:
  assumes "creditSession u c s src a w = (Inr l, w')"
  obtains at t where "credited u c a at t (w_db w) (w_db w')" "PT_Source t = src"
    "PT_WatchSessionID t = Some (WS_ID s)" "PT_BalanceAfter t = PL_SpendableBalance l"
    "PL_SpendableBalance l = spendable (w_db w') u c"
proof -
  from assms obtain i at w1 w2 r where
    up: "upsert_ledger i u c a at w1 = (Inr (), w2)" and w1: "w_db w1 = w_db w"
    and l: "find_ledger u c (w_db w2) = Some l"
    and r: "r = \<lparr>PT_ID = PT_ID r, PT_LedgerID = PL_ID l, PT_WatchSessionID = Some (WS_ID s), PT_Source = src,
        PT_Delta = a, PT_BalanceAfter = PL_SpendableBalance l, PT_SKU = None, PT_Note = None,
        PT_ExternalTransactionID = None, PT_CreatedAt = PT_CreatedAt r\<rparr>"
    and c: "ptx_conflict (t_points_transactions (w_db w2)) r = None"
    and w': "w_db w' = (w_db w2)\<lparr>t_points_transactions := t_points_transactions (w_db w2) @ [r]\<rparr>"
    unfolding creditSession_def bnd_Inr seq_Inr orElse_Inr query_Inr newUUID_Inr create_ptx_Inr ret_Inr now_Inr
    by (elim exE conjE) (simp, metis PointsTransaction.select_convs(1,10) tick_sel(1))
  from w' l have "find_ledger u c (w_db w') = Some l" by simp
  then have "PL_SpendableBalance l = spendable (w_db w') u c" by (simp add: spendable_def)
  moreover have "credited u c a at r (w_db w) (w_db w')"
    using credit_step [OF up l _ _ _ c w'] r unfolding w1
    by (metis PointsTransaction.select_convs(2,5,6))
  moreover from r have "PT_Source r = src" "PT_WatchSessionID r = Some (WS_ID s)"
    "PT_BalanceAfter r = PL_SpendableBalance l"
    by (metis PointsTransaction.select_convs)+
  ultimately show thesis by (intro that)
qed

section \<open>What the operations do\<close>

lemma update_session_Inr [run_simps]:
  "update_session s f w = (Inr n, w') \<longleftrightarrow>
    env_fault (w_env w) (w_tick w) = None \<and>
    n = length (filter (\<lambda>x. WS_ID x = WS_ID s) (t_watch_sessions (w_db w))) \<and>
    w' = (tick w)\<lparr>w_db := t_watch_sessions_update (update_rows (\<lambda>x. WS_ID x = WS_ID s) f) (w_db w)\<rparr>"
  by (simp add: update_session_def run_simps)

text \<open>A heartbeat that counts: the session advances by \<open>delta\<close> and the points due are paid.\<close>

definition counted ::
  "uuid \<Rightarrow> string \<Rightarrow> WatchSession \<Rightarrow> int \<Rightarrow> time \<Rightarrow> int \<Rightarrow> db \<Rightarrow> db \<Rightarrow> bool" where
  "counted u c s delta t points d d' \<longleftrightarrow>
     (let spp = effective_spp (find_config c d);
          d1 = t_watch_sessions_update (update_rows (\<lambda>x. WS_ID x = WS_ID s)
                 (\<lambda>x. x\<lparr>WS_AccumulatedSeconds := WS_AccumulatedSeconds (beat spp delta t s),
                    WS_RewardedSeconds := WS_RewardedSeconds (beat spp delta t s),
                    WS_LastHeartbeatAt := t\<rparr>)) d
      in points = base_points spp s delta * effective_multiplier (find_config c d) \<and>
         0 \<le> points \<and> points \<le> max_i64 \<and>
         (if points = 0 then d' = d1
          else \<exists>at p. credited u c points at p d1 d' \<and> PT_Source p = TxSourceWatchTime \<and>
            PT_WatchSessionID p = Some (WS_ID s)))"

lemma advanceSession_Inr:
  assumes s: "0 \<le> WS_RewardedSeconds s" "WS_RewardedSeconds s \<le> WS_AccumulatedSeconds s"
      "WS_AccumulatedSeconds s \<le> max_i64"
    and delta: "0 \<le> delta" "delta \<le> 30"
    and run: "advanceSession u c s t delta w = (Inr r, w')"
  shows "HR_Session r = beat (effective_spp (find_config c (w_db w))) delta t s"
    and "HR_DeltaSeconds r = delta" and "counted u c s delta t (HR_PointsEarned r) (w_db w) (w_db w')"
    and "0 \<le> base_points (effective_spp (find_config c (w_db w))) s delta"
    and "WS_RewardedSeconds (HR_Session r) \<le> WS_AccumulatedSeconds (HR_Session r)"
    and "WS_AccumulatedSeconds (HR_Session r) \<le> max_i64"
    and "WS_AccumulatedSeconds (HR_Session r) - WS_RewardedSeconds (HR_Session r)
      < effective_spp (find_config c (w_db w))"
proof -
  let ?spp = "effective_spp (find_config c (w_db w))"
  let ?mult = "effective_multiplier (find_config c (w_db w))"
  let ?acc = "i64 (WS_AccumulatedSeconds s + delta)"
  let ?base = "i64 (?acc - WS_RewardedSeconds s) sdiv ?spp"
  from run obtain cfg w1 where cfg: "getChannelConfig c w = (Inr cfg, w1)"
    by (auto simp: advanceSession_def bnd_Inr)
  note eff = getChannelConfig_Inr [OF cfg]
  from run cfg eff have guards: "WS_AccumulatedSeconds s \<le> i64 (max_i64 - delta)"
    "\<not> (?base > 0 \<and> ?mult > max_i64 sdiv ?base)"
    by (auto simp: advanceSession_def Let_def run_simps split: if_splits)
  note ar = heartbeat_arith [OF s delta effective_pos guards]
  let ?rew = "WS_RewardedSeconds s + base_points ?spp s delta * ?spp"
  let ?pts = "base_points ?spp s delta * ?mult"
  let ?adv = "\<lambda>x. x\<lparr>WS_AccumulatedSeconds := WS_AccumulatedSeconds s + delta,
      WS_RewardedSeconds := ?rew, WS_LastHeartbeatAt := t\<rparr>"
  have run': "bnd (update_session s ?adv) (\<lambda>_.
      seq (if ?pts > 0 then bnd (creditSession u c s TxSourceWatchTime ?pts) (\<lambda>_. ret ()) else ret ())
      (ret \<lparr>HR_Session = ?adv s, HR_PointsEarned = ?pts, HR_DeltaSeconds = delta\<rparr>)) w1 = (Inr r, w')"
    using run cfg eff guards ar(1,2,4,7)
    by (simp add: advanceSession_def Let_def bnd_Inr cong: if_cong split: if_splits)
  have adv: "?adv s = beat ?spp delta t s" by (simp add: beat_def)
  from run' obtain n w2 where up: "update_session s ?adv w1 = (Inr n, w2)"
    and pay: "seq (if ?pts > 0 then bnd (creditSession u c s TxSourceWatchTime ?pts) (\<lambda>_. ret ()) else ret ())
      (ret \<lparr>HR_Session = beat ?spp delta t s, HR_PointsEarned = ?pts, HR_DeltaSeconds = delta\<rparr>) w2 = (Inr r, w')"
    unfolding adv bnd_Inr [of "update_session s ?adv"] by blast
  from up eff have w2: "w_db w2 = t_watch_sessions_update (update_rows (\<lambda>x. WS_ID x = WS_ID s) ?adv) (w_db w)"
    by (simp add: update_session_Inr)
  from pay have r: "r = \<lparr>HR_Session = beat ?spp delta t s, HR_PointsEarned = ?pts, HR_DeltaSeconds = delta\<rparr>"
    by (simp add: run_simps)
  then show "HR_Session r = beat ?spp delta t s" and "HR_DeltaSeconds r = delta" by simp_all
  show "0 \<le> base_points ?spp s delta" using ar(2,3) by simp
  from r ar(1,2,8-10) show "WS_RewardedSeconds (HR_Session r) \<le> WS_AccumulatedSeconds (HR_Session r)"
    "WS_AccumulatedSeconds (HR_Session r) \<le> max_i64"
    "WS_AccumulatedSeconds (HR_Session r) - WS_RewardedSeconds (HR_Session r) < ?spp"
    by (simp_all add: beat_def)
  have pts: "0 \<le> ?pts" "?pts \<le> max_i64" using ar(2,5,6) by simp_all
  let ?f = "\<lambda>x. x\<lparr>WS_AccumulatedSeconds := WS_AccumulatedSeconds (beat ?spp delta t s),
      WS_RewardedSeconds := WS_RewardedSeconds (beat ?spp delta t s), WS_LastHeartbeatAt := t\<rparr>"
  have f: "?f = ?adv" by (simp add: beat_def)
  have "if ?pts = 0 then w_db w' = w_db w2
    else \<exists>at p. credited u c ?pts at p (w_db w2) (w_db w') \<and> PT_Source p = TxSourceWatchTime \<and>
      PT_WatchSessionID p = Some (WS_ID s)"
  proof (cases "?pts = 0")
    case True
    with pay show ?thesis by (simp add: run_simps)
  next
    case False
    with pts have "?pts > 0" by linarith
    with pay obtain l where "creditSession u c s TxSourceWatchTime ?pts w2 = (Inr l, w')"
      by (auto simp: run_simps)
    from creditSession_Inr [OF this] False show ?thesis by metis
  qed
  with pts r show "counted u c s delta t (HR_PointsEarned r) (w_db w) (w_db w')"
    unfolding counted_def Let_def f w2 by simp
qed

lemma HeartbeatContext_Inr:
  assumes ok: "sessions_ok (w_db w)" and run: "HeartbeatContext u c w = (Inr r, w')"
  obtains (early) s t where "find_session u c (w_db w) = Some s"
    "t = env_clock (w_env w) (Suc (w_tick w))" "time_sub t (WS_LastHeartbeatAt s) < 20 * second"
    "r = \<lparr>HR_Session = s, HR_PointsEarned = 0, HR_DeltaSeconds = 0\<rparr>" "w_db w' = w_db w"
  | (count) s t delta where "find_session u c (w_db w) = Some s"
    "20 \<le> delta" "delta \<le> 30" "delta = min 30 (time_sub t (WS_LastHeartbeatAt s) div second)"
    "HR_Session r = beat (effective_spp (find_config c (w_db w))) delta t s" "HR_DeltaSeconds r = delta"
    "counted u c s delta t (HR_PointsEarned r) (w_db w) (w_db w')"
    "0 \<le> base_points (effective_spp (find_config c (w_db w))) s delta"
    "WS_RewardedSeconds (HR_Session r) \<le> WS_AccumulatedSeconds (HR_Session r)"
    "WS_AccumulatedSeconds (HR_Session r) \<le> max_i64"
    "WS_AccumulatedSeconds (HR_Session r) - WS_RewardedSeconds (HR_Session r) < effective_spp (find_config c (w_db w))"
    "t = env_clock (w_env w) (Suc (w_tick w))" "\<not> time_sub t (WS_LastHeartbeatAt s) < 20 * second"
proof -
  define body where "body = (\<lambda>session t. let delta = time_sub t (WS_LastHeartbeatAt session) in
     if delta < 20 * second
     then ret \<lparr>HR_Session = session, HR_PointsEarned = 0, HR_DeltaSeconds = 0\<rparr>
     else
       let delta = (if delta > 30 * second then 30 * second else delta);
           deltaSeconds = delta sdiv second
       in advanceSession u c session t deltaSeconds)"
  have "HeartbeatContext u c = transaction (
     bnd (orElse (query (find_session u c)) (WatchE ErrNoActiveSession)) (\<lambda>session.
     bnd now (body session)))"
    unfolding HeartbeatContext_def body_def ..
  with run obtain w2 s t w1 where s: "find_session u c (w_db w) = Some s"
    and t: "t = env_clock (w_env w) (Suc (w_tick w))"
    and body: "body s t w1 = (Inr r, w2)" and w1: "w_db w1 = w_db w" "w_db w' = w_db w2"
    by (auto simp: run_simps dest!: transaction_Inr) (metis tick_sel(1))
  let ?el = "time_sub t (WS_LastHeartbeatAt s)"
  show thesis
  proof (cases "?el < 20 * second")
    case True
    with t body w1 s early show thesis by (simp add: body_def Let_def run_simps)
  next
    case False
    define delta where "delta = (if ?el > 30 * second then 30 * second else ?el) sdiv second"
    from False have delta: "20 \<le> delta" "delta \<le> 30" "delta = min 30 (?el div second)"
      by (auto simp: delta_def sdiv_nonneg second_def min_def)
    from body False have adv: "advanceSession u c s t delta w1 = (Inr r, w2)"
      by (simp add: body_def Let_def delta_def)
    from find_session_SomeD [OF s] ok have cnt: "0 \<le> WS_RewardedSeconds s"
      "WS_RewardedSeconds s \<le> WS_AccumulatedSeconds s" "WS_AccumulatedSeconds s \<le> max_i64"
      by (auto simp: sessions_ok_def)
    from delta have "0 \<le> delta" by simp
    note facts = advanceSession_Inr [OF cnt this delta(2) adv, unfolded w1(1), folded w1(2)]
    show thesis by (rule count [OF s delta facts t False])
  qed
qed

lemma credited_sessions:
  assumes "credited u c a at t d d'"
  shows "t_watch_sessions d' = t_watch_sessions d" and "t_channel_configs d' = t_channel_configs d"
    and "sessions_ok d' = sessions_ok d"
proof -
  from credited_other_tables(2) [OF assms] obtain ls ts where
    "d' = d\<lparr>t_points_ledgers := ls, t_points_transactions := ts\<rparr>" by blast
  then show "t_watch_sessions d' = t_watch_sessions d" "t_channel_configs d' = t_channel_configs d"
    "sessions_ok d' = sessions_ok d" by simp_all
qed

lemma keeps_credit_session:
  "0 \<le> a \<Longrightarrow> fits a \<Longrightarrow> keeps watch_ok (creditSession u c s src a)"
  unfolding keeps_def watch_ok_def
  by (auto elim!: creditSession_Inr simp: credited_sessions credited_ledger_ok)

lemma watch_ok_sessions_update:
  assumes "watch_ok d"
    and "\<And>s. WS_ID (f s) = WS_ID s" "\<And>s. WS_UserID (f s) = WS_UserID s"
      "\<And>s. WS_ChannelID (f s) = WS_ChannelID s" "\<And>s. WS_IsActive (f s) \<Longrightarrow> WS_IsActive s"
    and "\<And>s. s \<in> set (t_watch_sessions d) \<Longrightarrow> P s \<Longrightarrow> 0 \<le> WS_RewardedSeconds (f s) \<and>
      WS_RewardedSeconds (f s) \<le> WS_AccumulatedSeconds (f s) \<and> WS_AccumulatedSeconds (f s) \<le> max_i64"
  shows "watch_ok (t_watch_sessions_update (update_rows P f) d)"
  using assms by (auto simp: watch_ok_def intro!: sessions_ok_update)

lemma sessions_okD:
  "sessions_ok d \<Longrightarrow> s \<in> set (t_watch_sessions d) \<Longrightarrow> 0 \<le> WS_RewardedSeconds s \<and>
    WS_RewardedSeconds s \<le> WS_AccumulatedSeconds s \<and> WS_AccumulatedSeconds s \<le> max_i64"
  by (auto simp: sessions_ok_def)

lemma preserves_openSession: "preserves watch_ok (openSession u c)"
  unfolding openSession_def
  by (intro preserves_intros preserves_insert_row)
    (auto simp: watch_ok_def fresh_session_def max_i64_def intro!: sessions_ok_insert)

lemma preserves_update_session:
  assumes "\<And>s. WS_ID (f s) = WS_ID s" "\<And>s. WS_UserID (f s) = WS_UserID s"
      "\<And>s. WS_ChannelID (f s) = WS_ChannelID s" "\<And>s. WS_IsActive (f s) \<Longrightarrow> WS_IsActive s"
      "\<And>s. WS_RewardedSeconds (f s) = WS_RewardedSeconds s"
      "\<And>s. WS_AccumulatedSeconds (f s) = WS_AccumulatedSeconds s"
  shows "preserves watch_ok (update_session s f)"
  unfolding update_session_def using assms
  by (intro preserves_update_where watch_ok_sessions_update) (auto simp: watch_ok_def dest: sessions_okD)

lemma preserves_StartSessionContext: "preserves watch_ok (StartSessionContext u c)"
  unfolding StartSessionContext_def
  by (intro preserves_on_success preserves_intros preserves_openSession preserves_update_session) auto

lemma preserves_EndSessionContext: "preserves watch_ok (EndSessionContext u c)"
  unfolding EndSessionContext_def
  by (intro preserves_intros preserves_update_where watch_ok_sessions_update)
    (auto simp: watch_ok_def dest: sessions_okD)

lemma preserves_RecordClickContext: "preserves watch_ok (RecordClickContext u c)"
  unfolding RecordClickContext_def
  by (intro preserves_transaction_keeps keeps_intros keeps_credit_session
      preserves_keeps [OF preserves_update_session])
    (auto simp: clickPointsPerClick_def i64_bounds)

lemma HeartbeatContext_Inl: "HeartbeatContext u c w = (Inl e, w') \<Longrightarrow> w_db w' = w_db w"
  unfolding HeartbeatContext_def by (rule transaction_Inl)

lemma find_session_update:
  assumes ok: "sessions_ok d" and s: "find_session u c d = Some s"
    and f: "\<And>x. WS_ID (f x) = WS_ID x" "session_key u c (f s)"
  shows "find_session u c (t_watch_sessions_update (update_rows (\<lambda>x. WS_ID x = WS_ID s) f) d) = Some (f s)"
proof -
  from find_session_SomeD [OF s] have sin: "s \<in> set (t_watch_sessions d)" and key: "session_key u c s" by auto
  have same: "x = s" if "x \<in> set (t_watch_sessions d)" "WS_ID x = WS_ID s" for x
    using ok sin that by (auto simp: sessions_ok_def dest: distinct_map_unique)
  show ?thesis
    unfolding find_session_def
  proof (rule first_by_unique)
    show "f s \<in> set (t_watch_sessions (t_watch_sessions_update (update_rows (\<lambda>x. WS_ID x = WS_ID s) f) d))"
      using sin by (auto simp: set_update_rows)
    show "session_key u c (f s)" by (rule f)
    fix x assume "x \<in> set (t_watch_sessions (t_watch_sessions_update (update_rows (\<lambda>x. WS_ID x = WS_ID s) f) d))"
      and kx: "session_key u c x"
    then obtain y where y: "y \<in> set (t_watch_sessions d)" "WS_ID y = WS_ID s \<and> x = f y \<or> WS_ID y \<noteq> WS_ID s \<and> x = y"
      by (auto simp: set_update_rows)
    show "x = f s"
    proof (cases "WS_ID y = WS_ID s")
      case True
      with y same show ?thesis by auto
    next
      case False
      with y kx have "session_key u c y" by auto
      with session_unique [OF ok y(1) sin] key False show ?thesis by auto
    qed
  qed
qed

lemma counted_sound:
  assumes ok: "watch_ok d" and s: "find_session u c d = Some s" and cnt: "counted u c s delta t pts d d'"
    and b: "0 \<le> base_points spp s delta" "WS_RewardedSeconds (beat spp delta t s) \<le> WS_AccumulatedSeconds (beat spp delta t s)"
      "WS_AccumulatedSeconds (beat spp delta t s) \<le> max_i64" and spp: "spp = effective_spp (find_config c d)"
  shows "watch_ok d'" and "find_session u c d' = Some (beat spp delta t s)"
    and "balances d' = credit u c pts (balances d)"
    and "pts = base_points spp s delta * effective_multiplier (find_config c d)"
proof -
  define f where "f = (\<lambda>x::WatchSession. x\<lparr>WS_AccumulatedSeconds := WS_AccumulatedSeconds (beat spp delta t s),
      WS_RewardedSeconds := WS_RewardedSeconds (beat spp delta t s), WS_LastHeartbeatAt := t\<rparr>)"
  define d1 where "d1 = t_watch_sessions_update (update_rows (\<lambda>x. WS_ID x = WS_ID s) f) d"
  from cnt show pts: "pts = base_points spp s delta * effective_multiplier (find_config c d)"
    by (simp add: counted_def Let_def spp)
  have paid: "if pts = 0 then d' = d1
          else \<exists>at p. credited u c pts at p d1 d' \<and> PT_Source p = TxSourceWatchTime \<and>
            PT_WatchSessionID p = Some (WS_ID s)"
    and range: "0 \<le> pts" "pts \<le> max_i64"
    using cnt unfolding counted_def Let_def d1_def f_def spp by blast+
  have sok: "sessions_ok d" and lok: "ledger_ok d" using ok by (simp_all add: watch_ok_def)
  from find_session_SomeD [OF s] have sin: "s \<in> set (t_watch_sessions d)" "session_key u c s" by auto
  have rew: "0 \<le> WS_RewardedSeconds (beat spp delta t s)"
    using mult_nonneg_nonneg [OF b(1), of spp] sessions_okD [OF sok sin(1)] by (simp add: beat_def spp less_imp_le)
  have ok1: "watch_ok d1"
    unfolding d1_def using ok b rew
    by (intro watch_ok_sessions_update) (auto simp: f_def)
  have fs: "f s = beat spp delta t s" by (simp add: f_def beat_def)
  have s1: "find_session u c d1 = Some (beat spp delta t s)"
    unfolding d1_def fs [symmetric]
    by (rule find_session_update [OF sok s]) (use sin in \<open>simp_all add: f_def session_key_def\<close>)
  have bal1: "balances d1 = balances d" by (simp add: d1_def)
  show "watch_ok d'" "find_session u c d' = Some (beat spp delta t s)"
    "balances d' = credit u c pts (balances d)"
  proof (atomize (full), cases "pts = 0")
    case True
    with paid ok1 s1 bal1 show "watch_ok d' \<and> find_session u c d' = Some (beat spp delta t s) \<and>
        balances d' = credit u c pts (balances d)"
      by (simp add: credit_def)
  next
    case False
    with paid obtain at p where cr: "credited u c pts at p d1 d'" by auto
    from ok1 range have "ledger_ok d'"
      by (intro credited_ledger_ok [OF _ cr]) (auto simp: watch_ok_def i64_bounds)
    moreover have "find_session u c d' = find_session u c d1"
      using credited_sessions(1) [OF cr] by (simp add: find_session_def)
    ultimately show "watch_ok d' \<and> find_session u c d' = Some (beat spp delta t s) \<and>
        balances d' = credit u c pts (balances d)"
      using credited_find [OF _ cr] ok1 s1 bal1 credited_sessions(3) [OF cr] by (simp add: watch_ok_def)
  qed
qed

lemma preserves_HeartbeatContext: "preserves watch_ok (HeartbeatContext u c)"
proof (rule preserves_atomic)
  show "keeps watch_ok (HeartbeatContext u c)"
    unfolding keeps_def
  proof (intro allI impI)
    fix w a w'
    assume ok: "watch_ok (w_db w)" and run: "HeartbeatContext u c w = (Inr a, w')"
    from ok have sok: "sessions_ok (w_db w)" by (simp add: watch_ok_def)
    show "watch_ok (w_db w')"
      using run
    proof (cases rule: HeartbeatContext_Inr [OF sok run])
      case 1
      with ok show ?thesis by simp
    next
      case 2
      from counted_sound(1) [OF ok 2(1) 2(7) 2(8) _ _ refl] 2(5,9,10) show ?thesis by simp
    qed
  qed
qed (rule HeartbeatContext_Inl)

datatype watch_request =
  ReqStart uuid string | ReqHeartbeat uuid string | ReqEnd uuid string | ReqClick uuid string

fun watch_op :: "watch_request \<Rightarrow> unit m" where
  "watch_op (ReqStart u c) = void (StartSessionContext u c)"
| "watch_op (ReqHeartbeat u c) = void (HeartbeatContext u c)"
| "watch_op (ReqEnd u c) = EndSessionContext u c"
| "watch_op (ReqClick u c) = void (RecordClickContext u c)"

interpretation watch: service watch_op watch_ok
proof
  fix r show "preserves watch_ok (watch_op r)"
    by (cases r) (auto intro!: preserves_void preserves_StartSessionContext preserves_HeartbeatContext
        preserves_EndSessionContext preserves_RecordClickContext)
qed

lemma RecordClickContext_Inr:
  assumes ok: "watch_ok (w_db w)" and run: "RecordClickContext u c w = (Inr r, w')"
  obtains s t where "find_session u c (w_db w) = Some s"
    "t = env_clock (w_env w) (w_tick w + 2)"
    "WS_ClickCooldownUntil s \<le> env_clock (w_env w) (w_tick w + 1)"
    "find_session u c (w_db w') = Some (s\<lparr>WS_ClickCooldownUntil := t + clickCooldown\<rparr>)"
    "balances (w_db w') = credit u c 1 (balances (w_db w))"
    "t_watch_sessions (w_db w') = update_rows (\<lambda>x. WS_ID x = WS_ID s) (\<lambda>x. x\<lparr>WS_ClickCooldownUntil := t + clickCooldown\<rparr>)
       (t_watch_sessions (w_db w))"
    "r = \<lparr>CK_BalanceAfter = spendable (w_db w') u c, CK_Delta = 1\<rparr>"
proof -
  define t where "t = env_clock (w_env w) (Suc (Suc (w_tick w)))"
  let ?d1 = "\<lambda>s. t_watch_sessions_update (update_rows (\<lambda>x. WS_ID x = WS_ID s)
        (\<lambda>x. x\<lparr>WS_ClickCooldownUntil := t + clickCooldown\<rparr>)) (w_db w)"
  from run obtain s l w2 where s: "Some s = find_session u c (w_db w)"
    and cd: "\<not> env_clock (w_env w) (Suc (w_tick w)) < WS_ClickCooldownUntil s"
    and pay: "creditSession u c s TxSourceClick clickPointsPerClick
        ((tick (tick (tick (tick w))))\<lparr>w_db := ?d1 s\<rparr>) = (Inr l, w2)"
    and r: "r = \<lparr>CK_BalanceAfter = PL_SpendableBalance l, CK_Delta = clickPointsPerClick\<rparr>"
    and w': "w_db w' = w_db w2"
    unfolding RecordClickContext_def t_def
    by (auto simp: run_simps split: if_splits dest!: transaction_Inr)
  note s = s [symmetric]
  from ok have sok: "sessions_ok (w_db w)" and lok: "ledger_ok (w_db w)" by (simp_all add: watch_ok_def)
  from pay obtain at p where
    cr: "credited u c 1 at p (?d1 s) (w_db w')"
    and l: "PL_SpendableBalance l = spendable (w_db w') u c"
    unfolding w' clickPointsPerClick_def by (rule creditSession_Inr) simp
  have "find_session u c (w_db w') = find_session u c (?d1 s)"
    using credited_sessions(1) [OF cr] by (simp add: find_session_def)
  also have "\<dots> = Some (s\<lparr>WS_ClickCooldownUntil := t + clickCooldown\<rparr>)"
    using find_session_SomeD [OF s] by (intro find_session_update [OF sok s]) (auto simp: session_key_def)
  finally have s': "find_session u c (w_db w') = Some (s\<lparr>WS_ClickCooldownUntil := t + clickCooldown\<rparr>)" .
  have bal: "balances (w_db w') = credit u c 1 (balances (w_db w))"
    using credited_find [OF _ cr] lok by simp
  show thesis
    by (rule that [OF s _ _ s' bal]) (use cd r l credited_sessions(1) [OF cr] in \<open>auto simp: t_def clickPointsPerClick_def\<close>)
qed

lemma RecordClickContext_Inl: "RecordClickContext u c w = (Inl e, w') \<Longrightarrow> w_db w' = w_db w"
  unfolding RecordClickContext_def by (rule transaction_Inl)

lemma StartSessionContext_Inl: "StartSessionContext u c w = (Inl e, w') \<Longrightarrow> w_db w' = w_db w"
  unfolding StartSessionContext_def by (rule transaction_Inl)

text \<open>C11. A server that handles any sequence of session, heartbeat and click requests, of any viewers,
  with any failures in between, keeps the ledger invariant and the session invariant:
  at most one active session per viewer and channel and never more seconds rewarded than watched.\<close>

theorem watch_requests_invariant:
  assumes "watch_ok (w_db w)"
  shows "watch_ok (w_db (serve watch_op rs w))"
  using assms by (rule watch.serve_inv)

theorem watch_requests_invariant_witness:
  "watch_ok (w_db (serve watch_op [ReqStart 3 ''c'', ReqClick 3 ''c'', ReqHeartbeat 3 ''c'', ReqEnd 3 ''c'']
     (start (\<lambda>n. int n) ledger_7)))"
  by (rule watch_requests_invariant)
    (use ledger_7_ok in \<open>simp add: watch_ok_def sessions_ok_def ledger_7_def empty_db_def\<close>)

text \<open>C2. What a heartbeat earns, by the clock: less than twenty seconds after the last one that counted it changes
  nothing; from then on it counts the whole seconds since then, thirty at most, moves the session's last heartbeat to
  now, pays the channel's multiplier for every full unit of seconds not yet rewarded, carries less than one
  unit over, and credits exactly the points it reports to that viewer in that channel.\<close>

theorem Heartbeat_awards:
  assumes "watch_ok (w_db w)" and "HeartbeatContext u c w = (Inr r, w')"
  shows "\<exists>s. find_session u c (w_db w) = Some s \<and>
    (let t = env_clock (w_env w) (w_tick w + 1); elapsed = time_sub t (WS_LastHeartbeatAt s) in
     if elapsed < 20 * second
     then HR_DeltaSeconds r = 0 \<and> HR_PointsEarned r = 0 \<and> HR_Session r = s \<and> w_db w' = w_db w
     else HR_DeltaSeconds r = min 30 (elapsed div second) \<and> 20 \<le> HR_DeltaSeconds r \<and>
       (let spp = effective_spp (find_config c (w_db w));
            pending = WS_AccumulatedSeconds s + HR_DeltaSeconds r - WS_RewardedSeconds s
        in HR_PointsEarned r = pending div spp * effective_multiplier (find_config c (w_db w)) \<and>
           find_session u c (w_db w') = Some (HR_Session r) \<and> WS_LastHeartbeatAt (HR_Session r) = t \<and>
           WS_AccumulatedSeconds (HR_Session r) = WS_AccumulatedSeconds s + HR_DeltaSeconds r \<and>
           WS_AccumulatedSeconds (HR_Session r) - WS_RewardedSeconds (HR_Session r) = pending mod spp \<and>
           balances (w_db w') = credit u c (HR_PointsEarned r) (balances (w_db w))))"
proof -
  from assms(1) have sok: "sessions_ok (w_db w)" by (simp add: watch_ok_def)
  show ?thesis
  proof (cases rule: HeartbeatContext_Inr [OF sok assms(2)])
    case (1 s t)
    then show ?thesis by (simp add: Let_def)
  next
    case (2 s t delta)
    let ?spp = "effective_spp (find_config c (w_db w))"
    from counted_sound [OF assms(1) 2(1) 2(7) 2(8) _ _ refl] 2(5,9,10)
    have "find_session u c (w_db w') = Some (HR_Session r)"
      "balances (w_db w') = credit u c (HR_PointsEarned r) (balances (w_db w))"
      "HR_PointsEarned r = base_points ?spp s (HR_DeltaSeconds r) * effective_multiplier (find_config c (w_db w))"
      using 2(6) by simp_all
    with 2 show ?thesis
      by (simp add: Let_def base_points_def beat_def minus_div_mult_eq_mod [symmetric])
  qed
qed

definition watching :: "time \<Rightarrow> int \<Rightarrow> int \<Rightarrow> db" where
  "watching beat_at acc rew = ledger_7\<lparr>t_watch_sessions := [\<lparr>WS_ID = 21, WS_UserID = 3, WS_ChannelID = ''c'',
     WS_AccumulatedSeconds = acc, WS_RewardedSeconds = rew, WS_LastHeartbeatAt = beat_at,
     WS_ClickCooldownUntil = 0, WS_IsActive = True, WS_EndedAt = None, WS_CreatedAt = 0\<rparr>]\<rparr>"

lemma watching_ok: "0 \<le> rew \<Longrightarrow> rew \<le> acc \<Longrightarrow> acc \<le> max_i64 \<Longrightarrow> watch_ok (watching t acc rew)"
  using ledger_7_ok by (simp add: watch_ok_def sessions_ok_def watching_def)

text \<open>A session with 100 seconds watched and none rewarded, whose last heartbeat is half a minute old, earns two points.\<close>

theorem Heartbeat_awards_witness:
  "\<exists>r w'. HeartbeatContext 3 ''c'' (start (\<lambda>_. 30 * second) (watching 0 100 0)) = (Inr r, w') \<and>
     HR_DeltaSeconds r = 30 \<and> HR_PointsEarned r = 2 \<and> WS_LastHeartbeatAt (HR_Session r) = 30 * second \<and>
     balances (w_db w') = credit 3 ''c'' 2 (balances (watching 0 100 0))"
proof -
  let ?w = "start (\<lambda>_. 30 * second) (watching 0 100 0)"
  have ok: "watch_ok (w_db ?w)" by (simp add: watching_ok max_i64_def)
  have "\<exists>r w'. HeartbeatContext 3 ''c'' ?w = (Inr r, w') \<and> HR_DeltaSeconds r = 30 \<and> HR_PointsEarned r = 2"
    by (simp add: HeartbeatContext_def advanceSession_def getChannelConfig_def creditSession_def run_defs Let_def
        find_session_def find_config_def find_ledger_def session_key_def ledger_key_def first_by_def
        time_sub_def i64_bounds time_units DefaultSecondsPerPoint_def update_session_def upsert_ledger_def
        update_rows_def sdiv_nonneg i64_def create_ptx_def ptx_conflict_def dup_if_def credit_row_def
        watching_def ledger_7_def empty_db_def)
  then obtain r w' where run: "HeartbeatContext 3 ''c'' ?w = (Inr r, w')"
    and "HR_DeltaSeconds r = 30" "HR_PointsEarned r = 2" by blast
  with Heartbeat_awards [OF ok run] show ?thesis by (auto simp: Let_def split: if_splits)
qed

text \<open>The cooldown of a session: whatever the watch requests do later, they do not shorten it as long as the clock does not go back.\<close>

definition cooled :: "uuid \<Rightarrow> time \<Rightarrow> db \<Rightarrow> bool" where
  "cooled i until d \<longleftrightarrow> (\<exists>s \<in> set (t_watch_sessions d). WS_ID s = i \<and> until \<le> WS_ClickCooldownUntil s)"

lemma cooled_update:
  assumes "cooled i until d" and "\<And>s. WS_ID (f s) = WS_ID s"
    and "\<And>s. until \<le> WS_ClickCooldownUntil s \<Longrightarrow> until \<le> WS_ClickCooldownUntil (f s)"
  shows "cooled i until (t_watch_sessions_update (update_rows P f) d)"
proof -
  from assms(1) obtain s where s: "s \<in> set (t_watch_sessions d)" "WS_ID s = i" "until \<le> WS_ClickCooldownUntil s"
    by (auto simp: cooled_def)
  then show ?thesis using assms(2,3)
    unfolding cooled_def by (intro bexI [of _ "if P s then f s else s"]) (auto simp: set_update_rows)
qed

lemma cooled_cong: "t_watch_sessions d' = t_watch_sessions d \<Longrightarrow> cooled i until d' = cooled i until d"
  by (simp add: cooled_def)

lemma cooled_openSession: "preserves (cooled i until) (openSession u c)"
  unfolding openSession_def by (intro preserves_intros preserves_insert_row) (auto simp: cooled_def)

lemma cooled_update_session:
  "(\<And>s. WS_ID (f s) = WS_ID s \<and> WS_ClickCooldownUntil (f s) = WS_ClickCooldownUntil s) \<Longrightarrow>
    preserves (cooled i until) (update_session s f)"
  unfolding update_session_def by (intro preserves_update_where cooled_update) simp_all

lemma cooled_credit: "keeps (cooled i until) (creditSession u c s src a)"
  unfolding keeps_def by (auto elim!: creditSession_Inr simp: cooled_cong [OF credited_sessions(1)])

lemma cooled_ops:
  "preserves (cooled i until) (StartSessionContext u c)" "preserves (cooled i until) (EndSessionContext u c)"
  "preserves (cooled i until) (HeartbeatContext u c)"
proof -
  show "preserves (cooled i until) (StartSessionContext u c)"
    unfolding StartSessionContext_def
    by (intro preserves_on_success preserves_intros cooled_openSession cooled_update_session) simp
  show "preserves (cooled i until) (EndSessionContext u c)"
    unfolding EndSessionContext_def by (intro preserves_intros preserves_update_where cooled_update) simp_all
  show "preserves (cooled i until) (HeartbeatContext u c)"
    unfolding HeartbeatContext_def advanceSession_def getChannelConfig_def Let_def
    by (intro preserves_transaction_keeps keeps_intros cooled_credit preserves_keeps [OF cooled_update_session]) simp
qed

lemma cooled_click:
  assumes "watch_ok (w_db w)" and "cooled i (t + clickCooldown) (w_db w)" and "\<forall>n \<ge> w_tick w. t \<le> env_clock (w_env w) n"
  shows "cooled i (t + clickCooldown) (w_db (snd (RecordClickContext u c w)))"
proof -
  obtain x w' where run: "RecordClickContext u c w = (x, w')" by fastforce
  show ?thesis
  proof (cases x)
    case (Inl e)
    have "w_db w' = w_db w" using run unfolding Inl RecordClickContext_def by (rule transaction_Inl)
    with assms(2) run show ?thesis by simp
  next
    case (Inr r)
    obtain s t' where "find_session u c (w_db w) = Some s" and t': "t' = env_clock (w_env w) (w_tick w + 2)"
      and rows: "t_watch_sessions (w_db w') = update_rows (\<lambda>x. WS_ID x = WS_ID s)
        (\<lambda>x. x\<lparr>WS_ClickCooldownUntil := t' + clickCooldown\<rparr>) (t_watch_sessions (w_db w))"
      by (rule RecordClickContext_Inr [OF assms(1) run [unfolded Inr]])
    let ?d = "t_watch_sessions_update (update_rows (\<lambda>x. WS_ID x = WS_ID s)
        (\<lambda>x. x\<lparr>WS_ClickCooldownUntil := t' + clickCooldown\<rparr>)) (w_db w)"
    have "t \<le> t'" using assms(3) by (simp add: t')
    then have "cooled i (t + clickCooldown) ?d" by (intro cooled_update assms(2)) simp_all
    then show ?thesis using run rows by (simp add: cooled_def)
  qed
qed

lemma timed_session_parts [timed_intros]:
  "timed (openSession u c)" "timed (update_session s f)" "timed (creditSession u c s src a)" "timed (getChannelConfig c)"
  unfolding openSession_def update_session_def creditSession_def upsert_ledger_def create_ptx_def getChannelConfig_def Let_def
  by (intro timed_intros timed_stmt)+

lemma timed_advance [timed_intros]: "timed (advanceSession u c s t delta)"
  unfolding advanceSession_def Let_def by (intro timed_intros)

lemma timed_watch:
  "timed (StartSessionContext u c)" "timed (HeartbeatContext u c)" "timed (EndSessionContext u c)" "timed (RecordClickContext u c)"
  unfolding StartSessionContext_def HeartbeatContext_def EndSessionContext_def RecordClickContext_def Let_def
  by (intro timed_intros)+

lemma timed_watch_op: "timed (watch_op r)"
  by (cases r) (simp_all add: timed_void timed_watch)

lemma cooled_serve:
  assumes "watch_ok (w_db w)" and "cooled i (t + clickCooldown) (w_db w)" and "\<forall>n \<ge> w_tick w. t \<le> env_clock (w_env w) n"
  shows "cooled i (t + clickCooldown) (w_db (serve watch_op rs w))"
  using assms
proof (induction rs arbitrary: w)
  case (Cons r rs)
  let ?w = "snd (watch_op r w)"
  have env: "w_env ?w = w_env w" "w_tick w \<le> w_tick ?w" using timed_watch_op [of r] by (simp_all add: timed_def)
  have void: "w_db (snd (void x w)) = w_db (snd (x w))" for x :: "'x m"
    by (simp add: void_def bnd_def ret_def split: prod.split sum.split)
  have "cooled i (t + clickCooldown) (w_db ?w)"
    using Cons.prems(2) cooled_ops cooled_click [OF Cons.prems] by (cases r) (auto simp: void preserves_def)
  moreover have "watch_ok (w_db ?w)" using Cons.prems(1) watch.op_inv [of r] by (simp add: preserves_def)
  ultimately show ?case using Cons.IH [of ?w] Cons.prems(3) env by (simp add: serve_def)
qed (simp add: serve_def)

text \<open>C23. A click pays one point and starts a cooldown of five seconds: it needs an active session whose
  cooldown is over, and as long as the clock does not go back, no further click in that session succeeds or changes anything
  before the five seconds are over, whatever watch requests of anybody come in between and whatever fails. The cooldown
  belongs to the session: a viewer who ends it and starts a new one clicks again at once (\<open>new_session_no_cooldown\<close>).\<close>

theorem RecordClick_cooldown:
  assumes "watch_ok (w_db w)" and "RecordClickContext u c w = (Inr r, w1)"
    and clock: "\<forall>n \<ge> w_tick w1. env_clock (w_env w) (w_tick w + 2) \<le> env_clock (w_env w1) n"
  shows "\<exists>s. find_session u c (w_db w) = Some s \<and>
    WS_ClickCooldownUntil s \<le> env_clock (w_env w) (w_tick w + 1) \<and>
    balances (w_db w1) = credit u c 1 (balances (w_db w)) \<and>
    CK_Delta r = 1 \<and> CK_BalanceAfter r = spendable (w_db w1) u c \<and>
    (\<forall>rs w2 s2. w_db w2 = w_db (serve watch_op rs w1) \<and> find_session u c (w_db w2) = Some s2 \<and> WS_ID s2 = WS_ID s \<and>
       env_clock (w_env w2) (w_tick w2 + 1) < env_clock (w_env w) (w_tick w + 2) + 5 * second \<longrightarrow>
       (\<exists>e w3. RecordClickContext u c w2 = (Inl e, w3) \<and> w_db w3 = w_db w2))"
proof -
  obtain s t where s: "find_session u c (w_db w) = Some s" "t = env_clock (w_env w) (w_tick w + 2)"
      "WS_ClickCooldownUntil s \<le> env_clock (w_env w) (w_tick w + 1)"
      "find_session u c (w_db w1) = Some (s\<lparr>WS_ClickCooldownUntil := t + clickCooldown\<rparr>)"
      "balances (w_db w1) = credit u c 1 (balances (w_db w))"
      "r = \<lparr>CK_BalanceAfter = spendable (w_db w1) u c, CK_Delta = 1\<rparr>" by (rule RecordClickContext_Inr [OF assms(1,2)])
  have ok1: "watch_ok (w_db w1)"
    using preservesD [OF preserves_RecordClickContext assms(1,2)] .
  have cooled1: "cooled (WS_ID s) (t + clickCooldown) (w_db w1)"
    unfolding cooled_def using find_session_SomeD [OF s(4)]
    by (intro bexI [of _ "s\<lparr>WS_ClickCooldownUntil := t + clickCooldown\<rparr>"]) auto
  have blocked: "\<exists>e w3. RecordClickContext u c w2 = (Inl e, w3) \<and> w_db w3 = w_db w2"
    if "w_db w2 = w_db (serve watch_op rs w1)" "find_session u c (w_db w2) = Some s2" "WS_ID s2 = WS_ID s"
      "env_clock (w_env w2) (w_tick w2 + 1) < t + 5 * second" for rs w2 s2
  proof -
    have ok2: "watch_ok (w_db w2)" unfolding that(1) by (rule watch.serve_inv [OF ok1])
    have "cooled (WS_ID s) (t + clickCooldown) (w_db w2)"
      unfolding that(1) by (rule cooled_serve [OF ok1 cooled1]) (use clock s(2) in simp)
    with find_session_SomeD [OF that(2)] that(3) ok2 have cool: "t + clickCooldown \<le> WS_ClickCooldownUntil s2"
      by (auto simp: cooled_def watch_ok_def sessions_ok_def dest: distinct_map_unique)
    obtain x w3 where run: "RecordClickContext u c w2 = (x, w3)" by fastforce
    have "\<exists>e. x = Inl e"
    proof (cases x)
      case (Inr y)
      obtain s3 where "find_session u c (w_db w2) = Some s3"
        "WS_ClickCooldownUntil s3 \<le> env_clock (w_env w2) (w_tick w2 + 1)"
        by (rule RecordClickContext_Inr [OF ok2 run [unfolded Inr]])
      with that(2,4) cool show ?thesis by (simp add: clickCooldown_def)
    qed simp
    with run show ?thesis by (auto dest: RecordClickContext_Inl)
  qed
  show ?thesis
    using s blocked by (intro exI [of _ s]) (auto simp: s(2) [symmetric])
qed

definition clicked :: world where
  "clicked = snd (RecordClickContext 3 ''c'' (start (\<lambda>_. 7) (watching 0 100 0)))"

lemma click_eval:
  "\<exists>r. RecordClickContext 3 ''c'' (start (\<lambda>_. 7) (watching 0 100 0)) = (Inr r, clicked)"
  unfolding clicked_def
  by (simp add: RecordClickContext_def creditSession_def run_defs
    find_session_def find_ledger_def session_key_def ledger_key_def first_by_def
    i64_bounds update_session_def upsert_ledger_def clickPointsPerClick_def
    update_rows_def create_ptx_def ptx_conflict_def dup_if_def credit_row_def
    watching_def ledger_7_def empty_db_def)

lemma clicked_env: "w_env clicked = calm (\<lambda>_. 7)"
  using click_eval timedD [OF timed_watch(4)] by (fastforce simp: start_def)

theorem RecordClick_cooldown_witness:
  "\<exists>r. RecordClickContext 3 ''c'' (start (\<lambda>_. 7) (watching 0 100 0)) = (Inr r, clicked) \<and>
     CK_Delta r = 1 \<and> balances (w_db clicked) = credit 3 ''c'' 1 (balances (watching 0 100 0)) \<and>
     (\<exists>e w3. RecordClickContext 3 ''c'' clicked = (Inl e, w3) \<and> w_db w3 = w_db clicked)"
proof -
  let ?w = "start (\<lambda>_. 7) (watching 0 100 0)"
  have ok: "watch_ok (w_db ?w)" by (simp add: watching_ok max_i64_def)
  from click_eval obtain r where run: "RecordClickContext 3 ''c'' ?w = (Inr r, clicked)" by blast
  have clock: "env_clock (w_env clicked) n = 7" for n by (simp add: clicked_env calm_def)
  obtain s where s: "find_session 3 ''c'' (w_db ?w) = Some s" "CK_Delta r = 1"
      "balances (w_db clicked) = credit 3 ''c'' 1 (balances (w_db ?w))"
    and cool: "\<forall>rs w2 s2. w_db w2 = w_db (serve watch_op rs clicked) \<and> find_session 3 ''c'' (w_db w2) = Some s2 \<and> WS_ID s2 = WS_ID s \<and>
       env_clock (w_env w2) (w_tick w2 + 1) < env_clock (w_env ?w) (w_tick ?w + 2) + 5 * second \<longrightarrow>
       (\<exists>e w3. RecordClickContext 3 ''c'' w2 = (Inl e, w3) \<and> w_db w3 = w_db w2)"
    using RecordClick_cooldown [OF ok run] clock by auto
  obtain s1 where s1: "find_session 3 ''c'' (w_db clicked) = Some s1" "WS_ID s1 = WS_ID s"
  proof -
    obtain x t where "find_session 3 ''c'' (w_db ?w) = Some x"
      "find_session 3 ''c'' (w_db clicked) = Some (x\<lparr>WS_ClickCooldownUntil := t + clickCooldown\<rparr>)"
      by (rule RecordClickContext_Inr [OF ok run])
    with s(1) that show thesis by simp
  qed
  have "w_db clicked = w_db (serve watch_op [] clicked)" by (simp add: serve_def)
  with cool s1 have "\<exists>e w3. RecordClickContext 3 ''c'' clicked = (Inl e, w3) \<and> w_db w3 = w_db clicked"
    by (auto simp: clock second_def)
  with run s show ?thesis by simp
qed

text \<open>A viewer who ends the session and starts a new one clicks twice at the same time.\<close>

lemma new_session_no_cooldown:
  "\<exists>r. fst (RecordClickContext 3 ''c'' (serve watch_op [ReqEnd 3 ''c'', ReqStart 3 ''c''] clicked)) = Inr r"
  by (simp add: serve_def clicked_def void_def StartSessionContext_def openSession_def EndSessionContext_def
    RecordClickContext_def creditSession_def run_defs session_conflict_def fresh_session_def
    find_session_def find_ledger_def session_key_def ledger_key_def first_by_def
    i64_bounds update_session_def upsert_ledger_def clickPointsPerClick_def clickCooldown_def
    update_rows_def create_ptx_def ptx_conflict_def dup_if_def credit_row_def
    watching_def ledger_7_def empty_db_def)

lemma openSession_Inr:
  assumes "openSession u c w = (Inr s, w')" and "find_session u c (w_db w) = None"
  shows "\<exists>i t at. s = fresh_session i u c t at \<and>
    w_db w' = t_watch_sessions_update (\<lambda>rows. rows @ [s]) (w_db w)"
proof -
  have err: "insert_row t_watch_sessions t_watch_sessions_update session_conflict row w1 = (Inl e, w2) \<Longrightarrow>
      w_db w2 = w_db w1" for row w1 e w2
    by (auto simp: insert_row_def stmt_def split: option.splits sum.splits)
  from assms show ?thesis
    by (auto simp: openSession_def run_simps dest: err)
qed

lemma find_session_append:
  assumes "\<forall>x \<in> set (t_watch_sessions d). \<not> session_key u c x" and "session_key u c s"
  shows "find_session u c (t_watch_sessions_update (\<lambda>rows. rows @ [s]) d) = Some s"
  unfolding find_session_def by (rule first_by_unique) (use assms in auto)

text \<open>Starting a session: on success the returned session is the viewer's only active session in that
  channel and is stored; it is either the one that was already active, heard from at most two
  minutes before and left as it was, or a new one with nothing accumulated; points do not move.\<close>

theorem StartSession_active:
  assumes "watch_ok (w_db w)" and "StartSessionContext u c w = (Inr s, w')"
  shows "find_session u c (w_db w') = Some s \<and>
    (\<forall>x \<in> set (t_watch_sessions (w_db w')). session_key u c x \<longrightarrow> x = s) \<and>
    balances (w_db w') = balances (w_db w) \<and>
    (w_db w' = w_db w \<and>
       time_sub (env_clock (w_env w) (w_tick w + 1)) (WS_LastHeartbeatAt s) \<le> 2 * minute \<or>
     WS_AccumulatedSeconds s = 0 \<and> WS_RewardedSeconds s = 0 \<and>
       (\<forall>x. find_session u c (w_db w) = Some x \<longrightarrow>
         2 * minute < time_sub (env_clock (w_env w) (w_tick w + 1)) (WS_LastHeartbeatAt x)))"
proof -
  let ?d = "w_db w"
  from assms(1) have sok: "sessions_ok ?d" by (simp add: watch_ok_def)
  have ok': "sessions_ok (w_db w')"
    using preservesD [OF preserves_StartSessionContext assms] by (simp add: watch_ok_def)
  have only: "\<forall>x \<in> set (t_watch_sessions (w_db w')). session_key u c x \<longrightarrow> x = s"
    if "find_session u c (w_db w') = Some s"
    using that find_session_iff [OF ok'] session_unique [OF ok'] by blast
  from assms(2) obtain w2 where body: "(bnd (query (find_session u c)) (\<lambda>found.
     case found of
       Some session \<Rightarrow>
         bnd now (\<lambda>t.
         if time_sub t (WS_LastHeartbeatAt session) \<le> staleThreshold then ret session
         else
           bnd now (\<lambda>now'.
           bnd (update_session session (\<lambda>s. s\<lparr>WS_IsActive := False, WS_EndedAt := Some now'\<rparr>)) (\<lambda>_.
           openSession u c)))
     | None \<Rightarrow> openSession u c)) w = (Inr s, w2)" and w': "w_db w' = w_db w2"
    unfolding StartSessionContext_def by (auto dest!: transaction_Inr)
  show ?thesis
  proof (cases "find_session u c ?d")
    case None
    with body have opn: "openSession u c (tick w) = (Inr s, w2)" by (auto simp: run_simps)
    have "find_session u c (w_db (tick w)) = None" using None by simp
    from openSession_Inr [OF opn this] obtain i t at where s: "s = fresh_session i u c t at"
      and db: "w_db w' = t_watch_sessions_update (\<lambda>rows. rows @ [s]) ?d" unfolding w' tick_sel by blast
    have "find_session u c (w_db w') = Some s"
      unfolding db using None by (intro find_session_append)
        (auto simp: find_session_None s fresh_session_def session_key_def)
    with only None db s show ?thesis by (auto simp: fresh_session_def)
  next
    case (Some x)
    show ?thesis
    proof (cases "time_sub (env_clock (w_env w) (w_tick w + 1)) (WS_LastHeartbeatAt x) \<le> staleThreshold")
      case True
      with body Some have "s = x" "w_db w2 = ?d" by (auto simp: run_simps)
      with True Some only w' show ?thesis by (simp add: staleThreshold_def)
    next
      case False
      define d1 where "d1 = t_watch_sessions_update (update_rows (\<lambda>y. WS_ID y = WS_ID x)
        (\<lambda>y. y\<lparr>WS_IsActive := False, WS_EndedAt := Some (env_clock (w_env w) (w_tick w + 2))\<rparr>)) ?d"
      from body False Some obtain w1 where opn: "openSession u c w1 = (Inr s, w2)" and w1: "w_db w1 = d1"
        by (force simp: run_simps d1_def)
      have none: "\<forall>y \<in> set (t_watch_sessions d1). \<not> session_key u c y"
        using find_session_SomeD [OF Some] session_unique [OF sok]
        by (fastforce simp: d1_def set_update_rows session_key_def)
      then have "find_session u c (w_db w1) = None" by (simp add: w1 find_session_None)
      from openSession_Inr [OF opn this] obtain i t at where s: "s = fresh_session i u c t at"
        and db: "w_db w' = t_watch_sessions_update (\<lambda>rows. rows @ [s]) d1"
        unfolding w' w1 by blast
      have "find_session u c (w_db w') = Some s"
        unfolding db using none by (intro find_session_append) (auto simp: s fresh_session_def session_key_def)
      with only False Some s show ?thesis
        by (auto simp: fresh_session_def staleThreshold_def db d1_def)
    qed
  qed
qed

theorem StartSession_active_witness:
  "\<exists>s w'. StartSessionContext 3 ''c'' (start (\<lambda>_. 3 * minute) (watching 0 100 60)) = (Inr s, w') \<and>
     WS_AccumulatedSeconds s = 0 \<and> find_session 3 ''c'' (w_db w') = Some s"
proof -
  let ?w = "start (\<lambda>_. 3 * minute) (watching 0 100 60)"
  have ok: "watch_ok (w_db ?w)" by (simp add: watching_ok max_i64_def)
  have "\<exists>s w'. StartSessionContext 3 ''c'' ?w = (Inr s, w') \<and> WS_AccumulatedSeconds s = 0"
    by (simp add: StartSessionContext_def openSession_def run_defs find_session_def session_key_def
        first_by_def update_session_def update_rows_def dup_if_def session_conflict_def fresh_session_def
        time_sub_def i64_bounds time_units staleThreshold_def watching_def ledger_7_def empty_db_def)
  then obtain s w' where run: "StartSessionContext 3 ''c'' ?w = (Inr s, w')" and "WS_AccumulatedSeconds s = 0" by blast
  with StartSession_active [OF ok run] show ?thesis by auto
qed

end
