(* ===== verification/Streamers.thy ===== *)
theory Streamers
  imports Complex_Main Accounts Watch
begin

text \<open>
  \<^verbatim>\<open>services/agency_service.go\<close> and \<^verbatim>\<open>services/streamer_service.go\<close>: agencies, the channels of
  streamers and who manages them, and the statistics of a channel. The averages of the statistics
  are exact rationals; the code rounds them to a \<open>float64\<close>.
\<close>

section \<open>Agencies\<close>

fun pg_error :: "err \<Rightarrow> (string \<times> string) option" where
  "pg_error (DbE (PgError code con msg)) = Some (code, con)"
| "pg_error (Wrap e s) = pg_error e"
| "pg_error e = None"

definition unique_violation :: "err \<Rightarrow> bool" where
  "unique_violation e \<longleftrightarrow> errors_is e (DbE ErrDuplicatedKey) \<or>
     (case pg_error e of None \<Rightarrow> False | Some (code, con) \<Rightarrow> code = ''23505'')"

definition AgencyCreateContext :: "string \<Rightarrow> string \<Rightarrow> User m" where
  "AgencyCreateContext name email =
     (if RuneCountInString name > 50 then fail (AccountE ErrAgencyNameTooLong)
      else
        bnd (query (count_users (\<lambda>u. U_Email u = Some email))) (\<lambda>count.
        if count > 0 then fail (AccountE ErrAgencyEmailTaken)
        else
          bnd (query (count_users (\<lambda>u. U_Username u = Some name))) (\<lambda>count.
          if count > 0 then fail (AccountE ErrAgencyNameTaken)
          else
            handle (transaction (
                bnd (create_user (new_user (Some name) (Some email) None None RoleAgency True)) (\<lambda>user.
                bnd (create_provider (new_provider (U_ID user) ProviderEmail email)) (\<lambda>_.
                ret user))))
              (\<lambda>e. if unique_violation e then
                 let info = (case pg_error e of None \<Rightarrow> errText e | Some (code, con) \<Rightarrow> con) in
                 if Contains info ''email'' then fail (AccountE ErrAgencyEmailTaken)
                 else fail (AccountE ErrAgencyNameTaken)
               else fail e)
              ret)))"

definition UpdateSettingsContext :: "uuid \<Rightarrow> string \<Rightarrow> unit m" where
  "UpdateSettingsContext agencyID name =
     (if RuneCountInString name > 50 then fail (AccountE ErrAgencyNameTooLong)
      else
        handle (update_users users_check (\<lambda>u. U_ID u = agencyID \<and> U_Role u = RoleAgency) (\<lambda>u. u\<lparr>U_Username := Some name\<rparr>))
          (\<lambda>e. if unique_violation e \<or> Contains (errText e) ''UNIQUE constraint failed''
            then fail (AccountE ErrAgencyNameTaken) else fail e)
          (\<lambda>rowsAffected. if rowsAffected = 0 then fail (AccountE ErrAgencyNotFound) else ret ()))"

text \<open>The agency and whether it has a password, the end of its onboarding.\<close>

definition AgencyGetByIDContext :: "uuid \<Rightarrow> (User \<times> bool) m" where
  "AgencyGetByIDContext uid =
     bnd (orElse (query (\<lambda>d. first_by U_ID (\<lambda>u. U_ID u = uid \<and> U_Role u = RoleAgency \<and> live u) (t_users d)))
       (AccountE ErrAgencyNotFound)) (\<lambda>user.
     ret (user, U_PasswordHash user \<noteq> None))"

definition AgencyOwnsChannelContext :: "uuid \<Rightarrow> string \<Rightarrow> bool m" where
  "AgencyOwnsChannelContext agencyID channelID =
     query (\<lambda>d. length (filter (\<lambda>a. AS_AgencyID a = agencyID \<and> AS_ChannelID a = channelID) (t_agency_streamers d)) > 0)"

definition ListStreamersContext :: "uuid \<Rightarrow> AgencyStreamer list m" where
  "ListStreamersContext agencyID =
     bnd (query (\<lambda>d. sort_key AS_CreatedAt (filter (\<lambda>a. AS_AgencyID a = agencyID) (t_agency_streamers d)))) (\<lambda>streamers.
     if streamers = [] then
       bnd (query (count_users (\<lambda>u. U_ID u = agencyID \<and> U_Role u = RoleAgency))) (\<lambda>count.
       if count = 0 then fail (AccountE ErrAgencyNotFound) else ret streamers)
     else ret streamers)"

fun channel_users :: "(string \<rightharpoonup> uuid) \<Rightarrow> (string \<times> uuid) list \<Rightarrow> err + (string \<rightharpoonup> uuid)" where
  "channel_users m [] = Inr m"
| "channel_users m ((ch, uid) # rows) =
     (if m ch \<noteq> None then Inl (AccountE ErrDuplicateChannelID) else channel_users (m(ch \<mapsto> uid)) rows)"

definition ListStreamerUserIDsContext :: "string list \<Rightarrow> (string \<rightharpoonup> uuid) m" where
  "ListStreamerUserIDsContext channelIDs =
     (if channelIDs = [] then ret Map.empty
      else
        bnd (query (\<lambda>d. map (\<lambda>s. (ST_ChannelID s, ST_UserID s))
          (filter (\<lambda>s. ST_ChannelID s \<in> set channelIDs) (t_streamers d)))) (\<lambda>rows.
        case channel_users Map.empty rows of Inl e \<Rightarrow> fail e | Inr m \<Rightarrow> ret m))"

section \<open>Streamers\<close>

definition streamer_conflict :: "Streamer list \<Rightarrow> Streamer \<Rightarrow> db_error option" where
  "streamer_conflict rows s = first_violation [varchars [(255, ST_ChannelID s), (255, ST_DisplayName s)],
     dup_if (ST_ID s \<in> ST_ID ` set rows \<or>
       list_ex (\<lambda>x. ST_UserID x = ST_UserID s \<and> ST_ChannelID x = ST_ChannelID s) rows)]"

definition streamers_check :: "Streamer list \<Rightarrow> db_error option" where
  "streamers_check rows = varchars (map (\<lambda>s. (255, ST_DisplayName s)) rows)"

definition owns_twitch :: "uuid \<Rightarrow> string \<Rightarrow> db \<Rightarrow> bool" where
  "owns_twitch uid channelID d = list_ex (\<lambda>p. AP_UserID p = uid \<and> AP_Provider p = ProviderTwitch \<and>
     AP_ProviderID p = channelID \<and> live_provider p) (t_auth_providers d)"

text \<open>
  \<open>Where(\<dots>).Assign(\<dots>).FirstOrCreate\<close>: the row of this user and channel is changed by \<open>f\<close>, which only
  sets the fields of the assigned struct that are not zero, or the row is created.
\<close>

definition first_or_create :: "uuid \<Rightarrow> string \<Rightarrow> (Streamer \<Rightarrow> Streamer) \<Rightarrow> (time \<Rightarrow> uuid \<Rightarrow> Streamer) \<Rightarrow> Streamer m" where
  "first_or_create userID channelID f row =
     bnd (query (\<lambda>d. first_by ST_ID (\<lambda>s. ST_UserID s = userID \<and> ST_ChannelID s = channelID) (t_streamers d))) (\<lambda>found.
     case found of
       Some s \<Rightarrow>
         bnd (update_where t_streamers t_streamers_update streamers_check
           (\<lambda>x. ST_ID x = ST_ID s \<and> ST_UserID x = userID \<and> ST_ChannelID x = channelID) (\<lambda>_. f)) (\<lambda>_. ret (f s))
     | None \<Rightarrow> insert_row t_streamers t_streamers_update streamer_conflict row)"

definition StreamerRegisterContext :: "uuid \<Rightarrow> string \<Rightarrow> string \<Rightarrow> Streamer m" where
  "StreamerRegisterContext userID channelID displayName =
     bnd (query (owns_twitch userID channelID)) (\<lambda>owns.
     if \<not> owns then fail (AccountE ErrChannelNotOwned)
     else first_or_create userID channelID
       (\<lambda>s. if displayName \<noteq> [] then s\<lparr>ST_DisplayName := displayName\<rparr> else s)
       (\<lambda>t i. \<lparr>ST_ID = i, ST_UserID = userID, ST_AgencyUserID = None, ST_ChannelID = channelID,
          ST_DisplayName = displayName, ST_CreatedAt = t\<rparr>))"

definition StreamerCreateContext :: "uuid \<Rightarrow> uuid option \<Rightarrow> string \<Rightarrow> Streamer m" where
  "StreamerCreateContext userID agencyUserID channelID =
     bnd (query (owns_twitch userID channelID)) (\<lambda>owns.
     if \<not> owns then fail (AccountE ErrChannelNotOwned)
     else
       bnd (case agencyUserID of
            None \<Rightarrow> ret ()
          | Some aid \<Rightarrow>
              bnd (orElse (query (user_by_id aid)) (AccountE ErrAgencyUserInvalid)) (\<lambda>agency.
              if U_Role agency \<noteq> RoleAgency then fail (AccountE ErrAgencyUserInvalid) else ret ())) (\<lambda>_.
       first_or_create userID channelID
         (\<lambda>s. case agencyUserID of None \<Rightarrow> s | Some aid \<Rightarrow> s\<lparr>ST_AgencyUserID := Some aid\<rparr>)
         (\<lambda>t i. \<lparr>ST_ID = i, ST_UserID = userID, ST_AgencyUserID = agencyUserID, ST_ChannelID = channelID,
            ST_DisplayName = [], ST_CreatedAt = t\<rparr>)))"

definition has_streamer :: "(Streamer \<Rightarrow> bool) \<Rightarrow> db \<Rightarrow> bool" where
  "has_streamer P d = (length (filter P (t_streamers d)) > 0)"

definition StreamerOwnsChannelContext :: "uuid \<Rightarrow> string \<Rightarrow> bool m" where
  "StreamerOwnsChannelContext userID channelID =
     query (has_streamer (\<lambda>s. ST_UserID s = userID \<and> ST_ChannelID s = channelID))"

definition OwnsAgencyChannelContext :: "uuid \<Rightarrow> string \<Rightarrow> bool m" where
  "OwnsAgencyChannelContext agencyUserID channelID =
     query (has_streamer (\<lambda>s. ST_AgencyUserID s = Some agencyUserID \<and> ST_ChannelID s = channelID))"

definition OwnsStreamerContext :: "uuid \<Rightarrow> uuid \<Rightarrow> bool m" where
  "OwnsStreamerContext agencyUserID streamerID =
     query (has_streamer (\<lambda>s. ST_ID s = streamerID \<and> ST_AgencyUserID s = Some agencyUserID))"

definition ListChannelsContext :: "uuid \<Rightarrow> Streamer list m" where
  "ListChannelsContext userID = query (\<lambda>d. sort_key ST_CreatedAt (filter (\<lambda>s. ST_UserID s = userID) (t_streamers d)))"

definition StreamerGetByIDContext :: "uuid \<Rightarrow> Streamer m" where
  "StreamerGetByIDContext sid =
     orElse (query (\<lambda>d. first_by ST_ID (\<lambda>s. ST_ID s = sid) (t_streamers d))) (AccountE ErrStreamerNotFound)"

definition ListAllContext :: "Streamer list m" where
  "ListAllContext = query (\<lambda>d. sort_key ST_CreatedAt (t_streamers d))"

definition ListByAgencyUserIDContext :: "uuid \<Rightarrow> Streamer list m" where
  "ListByAgencyUserIDContext agencyUserID =
     query (\<lambda>d. sort_key ST_CreatedAt (filter (\<lambda>s. ST_AgencyUserID s = Some agencyUserID) (t_streamers d)))"

section \<open>Statistics\<close>

record StreamerStats =
  SS_CurrentSessionSeconds :: int
  SS_DailySeconds :: int
  SS_MonthlySeconds :: int
  SS_YearlySeconds :: int
  SS_UniqueMiners :: int
  SS_AvgSessionSeconds :: rat
  SS_TotalTokenMinted :: int
  SS_SpendableInCirculation :: int

record StreamerSummary =
  SM_DailySeconds :: int
  SM_UniqueMiners :: int
  SM_TotalTokenMinted :: int

text \<open>\<open>SELECT key, agg \<dots> GROUP BY key\<close>, and the loop that puts the rows into the result.\<close>

definition group_by :: "('r \<Rightarrow> string) \<Rightarrow> ('r list \<Rightarrow> int) \<Rightarrow> 'r list \<Rightarrow> (string \<times> int) list" where
  "group_by key agg rows = map (\<lambda>c. (c, agg (filter (\<lambda>r. key r = c) rows))) (remdups (map key rows))"

definition query_groups :: "(db \<Rightarrow> (string \<times> int) list) \<Rightarrow> (string \<times> int) list m" where
  "query_groups f = stmt (\<lambda>_ _ d. if list_all (\<lambda>(c, n). fits n) (f d) then Inr (f d, d) else Inl out_of_range)"

fun fill :: "(int \<Rightarrow> 'a \<Rightarrow> 'a) \<Rightarrow> (string \<times> int) list \<Rightarrow> (string \<rightharpoonup> 'a) \<Rightarrow> (string \<rightharpoonup> 'a)" where
  "fill upd [] result = result"
| "fill upd ((c, n) # rows) result = fill upd rows
     (case result c of None \<Rightarrow> result | Some stat \<Rightarrow> result(c \<mapsto> upd n stat))"

definition distinct_count :: "('r \<Rightarrow> 'k) \<Rightarrow> 'r list \<Rightarrow> int" where
  "distinct_count key rows = int (length (remdups (map key rows)))"

definition sum_of :: "('r \<Rightarrow> int) \<Rightarrow> 'r list \<Rightarrow> int" where
  "sum_of f rows = sum_list (map f rows)"

definition utc_day :: "time \<Rightarrow> time" where
  "utc_day t = t - t mod (24 * hour)"

definition GetSummaryStatsContext :: "string list \<Rightarrow> (string \<rightharpoonup> StreamerSummary) m" where
  "GetSummaryStatsContext channelIDs =
     (let result = (\<lambda>c. if c \<in> set channelIDs
           then Some \<lparr>SM_DailySeconds = 0, SM_UniqueMiners = 0, SM_TotalTokenMinted = 0\<rparr> else None)
      in
      if channelIDs = [] then ret result
      else
        bnd now (\<lambda>t.
        bnd (query_groups (\<lambda>d. group_by BL_ChannelID (sum_of BL_Seconds)
           (filter (\<lambda>l. BL_ChannelID l \<in> set channelIDs \<and> BL_RecordedAt l \<ge> utc_day t) (t_broadcast_time_logs d)))) (\<lambda>dailyRows.
        bnd (query_groups (\<lambda>d. group_by WS_ChannelID (distinct_count WS_UserID)
           (filter (\<lambda>x. WS_ChannelID x \<in> set channelIDs) (t_watch_sessions d)))) (\<lambda>minerRows.
        bnd (query_groups (\<lambda>d. group_by PL_ChannelID (sum_of PL_CumulativeTotal)
           (filter (\<lambda>l. PL_ChannelID l \<in> set channelIDs) (t_points_ledgers d)))) (\<lambda>tokenRows.
        ret (fill (\<lambda>n stat. stat\<lparr>SM_TotalTokenMinted := n\<rparr>) tokenRows
          (fill (\<lambda>n stat. stat\<lparr>SM_UniqueMiners := n\<rparr>) minerRows
            (fill (\<lambda>n stat. stat\<lparr>SM_DailySeconds := n\<rparr>) dailyRows result))))))))"

definition GetChannelStatsContext :: "calendar \<Rightarrow> string \<Rightarrow> BroadcastStats m" where
  "GetChannelStatsContext cal channelID =
     bnd (orElse (query (provider_account ProviderTwitch channelID)) (AccountE ErrStreamerNotFound)) (\<lambda>provider.
     GetBroadcastStatsContext cal (AP_UserID provider) channelID)"

definition average :: "int list \<Rightarrow> rat" where
  "average xs = (if xs = [] then 0 else Fract (sum_list xs) (int (length xs)))"

definition channel_sessions :: "string \<Rightarrow> db \<Rightarrow> WatchSession list" where
  "channel_sessions ch d = filter (\<lambda>x. WS_ChannelID x = ch) (t_watch_sessions d)"

definition channel_ledgers :: "string \<Rightarrow> db \<Rightarrow> PointsLedger list" where
  "channel_ledgers ch d = filter (\<lambda>l. PL_ChannelID l = ch) (t_points_ledgers d)"

definition GetStatsContext :: "calendar \<Rightarrow> uuid \<Rightarrow> StreamerStats m" where
  "GetStatsContext cal streamerID =
     bnd (StreamerGetByIDContext streamerID) (\<lambda>streamer.
     let ch = ST_ChannelID streamer in
     bnd (GetBroadcastStatsContext cal (ST_UserID streamer) ch) (\<lambda>broadcast.
     bnd (query (\<lambda>d. (distinct_count WS_UserID (channel_sessions ch d),
        average (map WS_AccumulatedSeconds (channel_sessions ch d))))) (\<lambda>(miners, avg).
     bnd (stmt (\<lambda>_ _ d. let m = sum_of PL_CumulativeTotal (channel_ledgers ch d); s = sum_of PL_SpendableBalance (channel_ledgers ch d)
        in if fits m \<and> fits s then Inr ((m, s), d) else Inl out_of_range)) (\<lambda>(minted, spendable).
     ret \<lparr>SS_CurrentSessionSeconds = CurrentSessionSeconds broadcast, SS_DailySeconds = DailySeconds broadcast,
        SS_MonthlySeconds = MonthlySeconds broadcast, SS_YearlySeconds = YearlySeconds broadcast,
        SS_UniqueMiners = miners, SS_AvgSessionSeconds = avg, SS_TotalTokenMinted = minted,
        SS_SpendableInCirculation = spendable\<rparr>))))"

end
