(* ===== verification/Extension.thy ===== *)
theory Extension
  imports Auth Points
begin

text \<open>
  \<^verbatim>\<open>services/extension_service.go\<close>: the Twitch extension. A viewer logs in with the JWT that Twitch
  signs, and a purchase is credited once against the receipt that Twitch signs. The JWT library is
  a parameter, the extension's secret is decoded here.
\<close>

record ExtensionClaims =
  EC_UserID :: string
  EC_ChannelID :: string
  EC_Role :: string

record ReceiptClaims =
  RP_TransactionID :: string
  RP_UserID :: string
  RP_SKU :: string
  RP_Amount :: int
  RP_Type :: string

record ExtensionService =
  EX_auth :: AuthService
  EX_secret :: string
  EX_parse :: "string \<Rightarrow> (bool \<Rightarrow> err + w8 list) \<Rightarrow> time \<Rightarrow> err + ExtensionClaims"
  EX_parseReceipt :: "string \<Rightarrow> (bool \<Rightarrow> err + w8 list) \<Rightarrow> time \<Rightarrow> err + ReceiptClaims"

text \<open>\<open>verify parse failed\<close> is the body of both verifications.\<close>

definition verifyJWT :: "ExtensionService \<Rightarrow> (string \<Rightarrow> (bool \<Rightarrow> err + w8 list) \<Rightarrow> time \<Rightarrow> err + 'c) \<Rightarrow> extension_error \<Rightarrow> string \<Rightarrow> 'c m" where
  "verifyJWT s parse failed token =
     (if EX_secret s = [] then fail (ExtensionE ErrExtSecretMissing)
      else (case b64_decode False (EX_secret s) of
          Inl e \<Rightarrow> fail (Wrap e (''decode extension secret: '' @ errText e))
        | Inr rawKey \<Rightarrow>
            bnd now (\<lambda>t.
            case parse token (\<lambda>hmac. if hmac then Inr rawKey else Inl (Errorf ''unexpected signing method'')) t of
              Inl e \<Rightarrow> fail (ExtensionE failed)
            | Inr claims \<Rightarrow> ret claims)))"

definition VerifyExtJWT :: "ExtensionService \<Rightarrow> string \<Rightarrow> ExtensionClaims m" where
  "VerifyExtJWT s token = verifyJWT s (EX_parse s) ErrInvalidExtJWT token"

definition VerifyReceiptJWT :: "ExtensionService \<Rightarrow> string \<Rightarrow> ReceiptClaims m" where
  "VerifyReceiptJWT s receipt = verifyJWT s (EX_parseReceipt s) ErrInvalidReceipt receipt"

definition lookupExtensionUserContext :: "ExtensionClaims \<Rightarrow> User m" where
  "lookupExtensionUserContext claims =
     (if EC_UserID claims = [] then fail (ExtensionE ErrInvalidExtJWT)
      else
        bnd (orElse (query (provider_account ProviderTwitch (EC_UserID claims))) (AuthE ErrUserNotFound)) (\<lambda>provider.
        orElse (query (user_by_id (AP_UserID provider))) RecordNotFound))"

definition loginOrCreateExtensionUserContext :: "AuthService \<Rightarrow> ExtensionClaims \<Rightarrow> (User \<times> TokenPair) m" where
  "loginOrCreateExtensionUserContext auth claims =
     (if EC_UserID claims = [] then fail (ExtensionE ErrInvalidExtJWT)
      else upsertOAuthUser auth ProviderTwitch (EC_UserID claims) [] [] False None None)"

definition LoginWithExtensionContext :: "ExtensionService \<Rightarrow> string \<Rightarrow> (User \<times> TokenPair) m" where
  "LoginWithExtensionContext s extJWT =
     bnd (VerifyExtJWT s extJWT) (\<lambda>claims. loginOrCreateExtensionUserContext (EX_auth s) claims)"

definition isDuplicateExternalTransactionError :: "err \<Rightarrow> bool" where
  "isDuplicateExternalTransactionError e =
     (if errors_is e (DbE ErrDuplicatedKey) then True
      else (case unwrap e of
          DbE (PgError code con msg) \<Rightarrow> code = ''23505'' \<and> con = ''idx_points_transactions_external_transaction_id''
        | _ \<Rightarrow> Contains (errText e) ''UNIQUE constraint failed'' \<and>
            Contains (errText e) ''points_transactions.external_transaction_id''))"

text \<open>What a receipt must satisfy, in the order of the code.\<close>

definition receipt_error :: "ExtensionClaims \<Rightarrow> ReceiptClaims \<Rightarrow> string \<Rightarrow> extension_error option" where
  "receipt_error ext r sku =
     (if RP_SKU r \<noteq> sku then Some ErrInvalidReceipt
      else if RP_UserID r = [] \<or> RP_UserID r \<noteq> EC_UserID ext then Some ErrInvalidReceipt
      else if RP_Type r \<noteq> ''bits'' then Some ErrInvalidReceiptType
      else if RP_Amount r \<le> 0 then Some ErrInvalidReceiptAmount
      else if RP_TransactionID r = [] then Some ErrInvalidReceipt
      else if RuneCountInString sku > 255 \<or> RuneCountInString (RP_TransactionID r) > 255 then Some ErrInvalidReceipt
      else None)"

definition CompleteTPointTransactionContext :: "ExtensionService \<Rightarrow> string \<Rightarrow> string \<Rightarrow> string \<Rightarrow> (User \<times> TokenPair) m" where
  "CompleteTPointTransactionContext s extJWT receipt sku =
     bnd (VerifyExtJWT s extJWT) (\<lambda>ext.
     bnd (VerifyReceiptJWT s receipt) (\<lambda>r.
     case receipt_error ext r sku of
       Some e \<Rightarrow> fail (ExtensionE e)
     | None \<Rightarrow>
         bnd (lookupExtensionUserContext ext) (\<lambda>user.
         handle (AddPointsWithMetaContext (U_ID user) (EC_ChannelID ext) TxSourceTPoint (RP_Amount r)
              \<lparr>PM_SKU = Some sku, PM_Note = None, PM_ExternalTransactionID = Some (RP_TransactionID r)\<rparr>)
           (\<lambda>e. if isDuplicateExternalTransactionError e then fail (ExtensionE ErrDuplicateTransaction) else fail e)
           (\<lambda>_.
            bnd (issueTokenPairTx (EX_auth s) user) (\<lambda>tokens.
            ret (user, tokens))))))"

end
