(* ===== verification/AuthFacts.thy ===== *)
theory AuthFacts
  imports Streamers Extension
begin

text \<open>
  The tables of the accounts stay consistent under every operation of \<^verbatim>\<open>Auth\<close>, \<^verbatim>\<open>EmailAuth\<close> and
  \<^verbatim>\<open>Accounts\<close>: no two users share an address or a name, no provider account that is in use belongs
  to two users, nobody has two wallets, and no token or nonce is stored twice.
\<close>

section \<open>The invariant\<close>

definition users_ok :: "User list \<Rightarrow> bool" where
  "users_ok us \<longleftrightarrow> distinct (map U_ID us) \<and> (\<forall>u \<in> set us. \<forall>v \<in> set us. U_ID u \<noteq> U_ID v \<longrightarrow> \<not> users_clash u v)"

definition providers_ok :: "AuthProvider list \<Rightarrow> bool" where
  "providers_ok ps \<longleftrightarrow> distinct (map AP_ID ps) \<and>
     (\<forall>p \<in> set ps. \<forall>q \<in> set ps. AP_ID p \<noteq> AP_ID q \<longrightarrow> \<not> providers_clash p q)"

definition auth_ok :: "db \<Rightarrow> bool" where
  "auth_ok d \<longleftrightarrow> users_ok (t_users d) \<and> providers_ok (t_auth_providers d) \<and>
     distinct (map RT_ID (t_refresh_tokens d)) \<and> distinct (map RT_TokenHash (t_refresh_tokens d)) \<and>
     distinct (map WN_ID (t_web3_nonces d)) \<and> distinct (map WN_Nonce (t_web3_nonces d)) \<and>
     distinct (map EV_ID (t_email_verifications d)) \<and> distinct (map EV_TokenHash (t_email_verifications d)) \<and>
     distinct (map PR_ID (t_password_resets d)) \<and> distinct (map PR_TokenHash (t_password_resets d))"

lemma clash_sym: "users_clash u v = users_clash v u" "providers_clash p q = providers_clash q p"
  unfolding users_clash_def providers_clash_def by metis+

lemma users_ok_append:
  "users_ok us \<Longrightarrow> U_ID u \<notin> U_ID ` set us \<Longrightarrow> \<not> list_ex (users_clash u) us \<Longrightarrow> users_ok (us @ [u])"
  by (auto simp: users_ok_def list_ex_iff clash_sym)

lemma providers_ok_append:
  "providers_ok ps \<Longrightarrow> AP_ID p \<notin> AP_ID ` set ps \<Longrightarrow> \<not> list_ex (providers_clash p) ps \<Longrightarrow> providers_ok (ps @ [p])"
  by (auto simp: providers_ok_def list_ex_iff clash_sym)

lemma preserves_create_user [preserves_intros]:
  "(\<And>t i. U_ID (row t i) = i) \<Longrightarrow> preserves auth_ok (create_user row)"
  unfolding create_user_def
  by (rule preserves_insert_row) (auto simp: auth_ok_def user_conflict_def intro!: users_ok_append)

lemma preserves_create_provider [preserves_intros]: "preserves auth_ok (create_provider row)"
  unfolding create_provider_def
  by (rule preserves_insert_row) (auto simp: auth_ok_def provider_conflict_def intro!: providers_ok_append)

lemma users_ok_update:
  assumes "users_ok us" and "\<And>u. U_ID (f u) = U_ID u \<and> U_Username (f u) = U_Username u \<and> U_Email (f u) = U_Email u"
  shows "users_ok (update_rows P f us)"
proof -
  have "map U_ID (update_rows P f us) = map U_ID us" by (rule map_update_rows) (simp add: assms)
  moreover have "\<not> users_clash x y" if "x \<in> set (update_rows P f us)" "y \<in> set (update_rows P f us)" "U_ID x \<noteq> U_ID y" for x y
  proof -
    from that(1) obtain u where u: "u \<in> set us" "U_ID x = U_ID u" "U_Username x = U_Username u" "U_Email x = U_Email u"
      using assms(2) by (auto simp: set_update_rows)
    from that(2) obtain v where v: "v \<in> set us" "U_ID y = U_ID v" "U_Username y = U_Username v" "U_Email y = U_Email v"
      using assms(2) by (auto simp: set_update_rows)
    from assms(1) u(1,2) v(1,2) that(3) have "\<not> users_clash u v" by (simp add: users_ok_def)
    then show ?thesis using u v by (simp add: users_clash_def)
  qed
  ultimately show ?thesis using assms(1) by (simp add: users_ok_def)
qed

lemma preserves_update_users:
  "(\<And>u. U_ID (f u) = U_ID u \<and> U_Username (f u) = U_Username u \<and> U_Email (f u) = U_Email u) \<Longrightarrow>
    preserves auth_ok (update_users bad P f)"
  unfolding update_users_def by (rule preserves_update_where) (auto simp: auth_ok_def intro!: users_ok_update)

lemma users_check_None: "users_check us = None \<Longrightarrow> \<forall>u \<in> set us. \<forall>v \<in> set us. U_ID u \<noteq> U_ID v \<longrightarrow> \<not> users_clash u v"
  by (auto simp: users_check_def list_ex_iff)

lemma preserves_update_checked:
  "(\<And>u. P u \<Longrightarrow> U_ID (f u) = U_ID u) \<Longrightarrow> preserves auth_ok (update_users users_check P f)"
  unfolding update_users_def
proof (rule preserves_update_where)
  fix d t assume f: "\<And>u. P u \<Longrightarrow> U_ID (f u) = U_ID u" and ok: "auth_ok d"
    and c: "users_check (update_rows (\<lambda>u. P u \<and> live u) f (t_users d)) = None"
  have "map U_ID (update_rows (\<lambda>u. P u \<and> live u) f (t_users d)) = map U_ID (t_users d)" by (rule map_update_rows) (simp add: f)
  with ok users_check_None [OF c] show "auth_ok (t_users_update (update_rows (\<lambda>u. P u \<and> live u) f) d)"
    by (simp add: auth_ok_def users_ok_def)
qed

text \<open>A provider row may lose its tokens or be deleted.\<close>

lemma providers_ok_update:
  assumes "providers_ok ps" and "\<And>p. P p \<Longrightarrow> AP_ID (f p) = AP_ID p \<and> AP_Provider (f p) = AP_Provider p \<and>
      AP_ProviderID (f p) = AP_ProviderID p \<and> AP_UserID (f p) = AP_UserID p \<and> (AP_DeletedAt (f p) = None \<longrightarrow> AP_DeletedAt p = None)"
  shows "providers_ok (update_rows P f ps)"
proof -
  have "map AP_ID (update_rows P f ps) = map AP_ID ps" by (rule map_update_rows) (simp add: assms)
  moreover have "\<not> providers_clash x y" if "x \<in> set (update_rows P f ps)" "y \<in> set (update_rows P f ps)" "AP_ID x \<noteq> AP_ID y" for x y
  proof -
    from that(1) obtain p where p: "p \<in> set ps" "AP_ID x = AP_ID p" "AP_Provider x = AP_Provider p" "AP_ProviderID x = AP_ProviderID p"
      "AP_UserID x = AP_UserID p" "AP_DeletedAt x = None \<longrightarrow> AP_DeletedAt p = None" using assms(2) by (auto simp: set_update_rows)
    from that(2) obtain q where q: "q \<in> set ps" "AP_ID y = AP_ID q" "AP_Provider y = AP_Provider q" "AP_ProviderID y = AP_ProviderID q"
      "AP_UserID y = AP_UserID q" "AP_DeletedAt y = None \<longrightarrow> AP_DeletedAt q = None" using assms(2) by (auto simp: set_update_rows)
    from assms(1) p(1,2) q(1,2) that(3) have "\<not> providers_clash p q" by (simp add: providers_ok_def)
    then show ?thesis using p q by (auto simp: providers_clash_def)
  qed
  ultimately show ?thesis using assms(1) by (simp add: providers_ok_def)
qed

lemma preserves_delete_providers [preserves_intros]: "preserves auth_ok (delete_providers P)"
  unfolding delete_providers_def by (rule preserves_update_where) (auto simp: auth_ok_def intro!: providers_ok_update)

lemma preserves_deletes [preserves_intros]:
  "preserves auth_ok (delete_tokens P1)" "preserves auth_ok (delete_nonces P2)"
  "preserves auth_ok (delete_verifications P3)" "preserves auth_ok (delete_resets P4)"
  unfolding delete_tokens_def delete_nonces_def delete_verifications_def delete_resets_def
  by (rule preserves_delete_where; simp add: auth_ok_def distinct_map_filter)+

lemma preserves_randomNat [preserves_intros]: "preserves I randomNat"
  by (simp add: preserves_def randomNat_def split: option.split)

lemma preserves_generateNonce [preserves_intros]: "preserves I generateNonce"
  by (simp add: generateNonce_def preserves_bnd preserves_randomNat preserves_ret)

lemma preserves_sum [preserves_intros]:
  "(\<And>e. x = Inl e \<Longrightarrow> preserves I (f e)) \<Longrightarrow> (\<And>a. x = Inr a \<Longrightarrow> preserves I (g a)) \<Longrightarrow>
    preserves I (case x of Inl e \<Rightarrow> f e | Inr a \<Rightarrow> g a)"
  by (cases x) auto

lemma preserves_issue [preserves_intros]: "preserves auth_ok (issueTokenPairTx s u)"
  unfolding issueTokenPairTx_def
  by (intro preserves_intros preserves_insert_row) (auto simp: auth_ok_def refresh_conflict_def)

section \<open>Provider accounts\<close>

lemma provider_accountD:
  "provider_account pr pid d = Some ap \<Longrightarrow> ap \<in> set (t_auth_providers d) \<and> AP_Provider ap = pr \<and> AP_ProviderID ap = pid \<and> live_provider ap"
  using first_by_SomeD(1,2) unfolding provider_account_def by fastforce

lemma assignProviderTokens_Inr:
  assumes "assignProviderTokens s ap pr tok w = (Inr ap', w')"
  shows "w_db w' = w_db w \<and> AP_ID ap' = AP_ID ap \<and> AP_UserID ap' = AP_UserID ap \<and> AP_Provider ap' = AP_Provider ap \<and>
    AP_ProviderID ap' = AP_ProviderID ap \<and> AP_DeletedAt ap' = AP_DeletedAt ap"
  using assms
  by (auto simp: assignProviderTokens_def Let_def bnd_Inr ret_Inr encrypt_Inr split: option.splits if_splits)

lemma preserves_assign [preserves_intros]: "preserves I (assignProviderTokens s ap pr tok)"
  unfolding assignProviderTokens_def encrypt_def Let_def by (intro preserves_intros)

lemma save_provider_ok:
  assumes ok: "auth_ok (w_db w)" and p: "p \<in> set (t_auth_providers (w_db w))"
    and same: "AP_ID ap = AP_ID p" "AP_UserID ap = AP_UserID p" "AP_Provider ap = AP_Provider p"
      "AP_ProviderID ap = AP_ProviderID p" "AP_DeletedAt ap = AP_DeletedAt p"
    and run: "save_provider ap w = (r, w')"
  shows "auth_ok (w_db w')"
proof -
  let ?ps = "t_auth_providers (w_db w)"
  let ?P = "\<lambda>x. AP_ID x = AP_ID ap \<and> live_provider x"
  have uniq: "x = p" if "x \<in> set ?ps" "AP_ID x = AP_ID ap" for x
    using ok p same(1) that distinct_map_unique [of AP_ID ?ps x p] by (simp add: auth_ok_def providers_ok_def)
  let ?f = "\<lambda>x. if x = p then ap else x"
  have eq: "update_rows ?P (\<lambda>_. ap) ?ps = update_rows ?P ?f ?ps"
    unfolding update_rows_def using uniq by (intro map_cong) auto
  have "providers_ok (update_rows ?P ?f ?ps)"
    using ok same by (intro providers_ok_update) (auto simp: auth_ok_def)
  then have "auth_ok (t_auth_providers_update (update_rows ?P (\<lambda>_. ap)) (w_db w))" using ok by (simp add: auth_ok_def eq)
  then show ?thesis
    using run ok by (auto simp: save_provider_def update_where_def stmt_def split: option.splits)
qed

lemma finishExisting_ok:
  assumes ok: "auth_ok (w_db w)" and ap: "ap \<in> set (t_auth_providers (w_db w))"
    and run: "finishExistingOAuthProviderTx s ap pr tok w = (Inr r, w')"
  shows "auth_ok (w_db w')"
proof -
  let ?rest = "\<lambda>ap'. handle (orElse (query (user_by_id (AP_UserID ap'))) RecordNotFound) (\<lambda>_. fail (AuthE ErrUserNotFound)) (\<lambda>user.
     bnd (issueTokenPairTx s user) (\<lambda>tokens. ret (user, tokens)))"
  from run obtain ap' w1 where
    one: "(if tok \<noteq> None then bnd (assignProviderTokens s ap pr tok) (\<lambda>ap'. bnd (save_provider ap') (\<lambda>_. ret ap')) else ret ap) w =
      (Inr ap', w1)" and two: "?rest ap' w1 = (Inr r, w')"
    unfolding finishExistingOAuthProviderTx_def bnd_Inr by blast
  have "auth_ok (w_db w1)"
  proof (cases "tok = None")
    case True
    with one ok show ?thesis by (auto simp: ret_Inr)
  next
    case False
    with one obtain w2 n where a: "assignProviderTokens s ap pr tok w = (Inr ap', w2)" and sv: "save_provider ap' w2 = (n, w1)"
      by (auto simp: bnd_Inr ret_Inr)
    from assignProviderTokens_Inr [OF a] ok ap show ?thesis by (intro save_provider_ok [OF _ _ _ _ _ _ _ sv, of ap]) auto
  qed
  moreover have "preserves auth_ok (?rest ap')" by (intro preserves_intros)
  ultimately show ?thesis using two preservesD by blast
qed

lemma keeps_query:
  assumes "\<And>w r w'. I (w_db w) \<Longrightarrow> g (f (w_db w)) w = (Inr r, w') \<Longrightarrow> I (w_db w')"
  shows "keeps I (bnd (query f) g)"
proof (unfold keeps_def, intro allI impI)
  fix w a w' assume "I (w_db w)" "bnd (query f) g w = (Inr a, w')"
  then have "I (w_db (tick w))" "g (f (w_db (tick w))) (tick w) = (Inr a, w')" by (auto simp: bnd_Inr query_Inr)
  then show "I (w_db w')" by (rule assms)
qed

lemma preserves_oauthUser [preserves_intros]: "preserves auth_ok (oauthUser n e v a)"
  unfolding oauthUser_def by (intro preserves_intros) (simp_all add: new_user_def)

lemma keeps_upsertTx: "keeps auth_ok (upsertOAuthUserTx s pr pid n e v a tok)"
  unfolding upsertOAuthUserTx_def
proof (rule keeps_query)
  let ?new = "bnd (oauthUser n e v a) (\<lambda>user. bnd (assignProviderTokens s (new_provider (U_ID user) pr pid 0 0) pr tok) (\<lambda>newAP.
         bnd (create_provider (\<lambda>t i. newAP\<lparr>AP_ID := i, AP_CreatedAt := t\<rparr>)) (\<lambda>_.
         bnd (issueTokenPairTx s user) (\<lambda>tokens. ret (user, tokens)))))"
  fix w r w' assume ok: "auth_ok (w_db w)" and run: "(case provider_account pr pid (w_db w) of
      None \<Rightarrow> ?new | Some ap \<Rightarrow> finishExistingOAuthProviderTx s ap pr tok) w = (Inr r, w')"
  show "auth_ok (w_db w')"
  proof (cases "provider_account pr pid (w_db w)")
    case None
    have "preserves auth_ok ?new" by (intro preserves_intros)
    with ok run None show ?thesis by (auto dest: preservesD)
  next
    case (Some ap)
    with run have "finishExistingOAuthProviderTx s ap pr tok w = (Inr r, w')" by simp
    with finishExisting_ok [OF ok] provider_accountD [OF Some] show ?thesis by blast
  qed
qed

lemma preserves_recover: "preserves auth_ok (recoverOAuthProviderConflict s pr pid tok)"
  unfolding recoverOAuthProviderConflict_def
proof (rule preserves_transaction)
  fix w a w' assume ok: "auth_ok (w_db w)"
    and "bnd (orElse (query (provider_account pr pid)) RecordNotFound) (\<lambda>ap. finishExistingOAuthProviderTx s ap pr tok) w = (Inr a, w')"
  then obtain ap where "provider_account pr pid (w_db w) = Some ap" "finishExistingOAuthProviderTx s ap pr tok (tick w) = (Inr a, w')"
    by (auto simp: bnd_Inr orElse_query_Inr)
  with finishExisting_ok [of "tick w"] ok provider_accountD show "auth_ok (w_db w')" by (metis tick_sel(1))
qed

lemma preserves_mapError: "preserves I (mapOAuthUserUniqueError n e err)"
  unfolding mapOAuthUserUniqueError_def taken_def by (intro preserves_intros)

lemma preserves_upsert_anon: "preserves auth_ok (upsertOAuthUser s pr pid [] e v a tok)"
  by (subst upsertOAuthUser.simps)
    (intro preserves_handle preserves_bnd preserves_if preserves_fail preserves_ret preserves_transaction_keeps keeps_upsertTx
       preserves_recover preserves_mapError; simp)

lemma preserves_upsert [preserves_intros]: "preserves auth_ok (upsertOAuthUser s pr pid n e v a tok)"
  by (subst upsertOAuthUser.simps)
    (intro preserves_handle preserves_bnd preserves_if preserves_fail preserves_ret preserves_transaction_keeps keeps_upsertTx
       preserves_recover preserves_mapError preserves_upsert_anon)

section \<open>Every request\<close>

datatype auth_request =
  Register RegisterInput
| Login string string
| Refresh string
| Logout string
| CleanUp
| Twitch string
| Google string
| WalletNonce string
| WalletVerify Web3VerifyInput
| Unlink uuid "ProviderType option"
| SendVerification uuid
| Verify string
| Forgot string
| Reset string string
| UpdateProfile uuid UpdateProfileInput
| LinkWallet uuid LinkWalletInput
| CreateAgency string string
| UpdateAgency uuid string
| ExtensionLogin string

text \<open>The services of one server: they share the tables and the library.\<close>

fun auth_op :: "EmailAuthService \<Rightarrow> ExtensionService \<Rightarrow> auth_request \<Rightarrow> unit m" where
  "auth_op em ex (Register i) = void (RegisterContext (EX_auth ex) i)"
| "auth_op em ex (Login e p) = void (LoginContext (EX_auth ex) e p)"
| "auth_op em ex (Refresh raw) = void (RefreshContext (EX_auth ex) raw)"
| "auth_op em ex (Logout raw) = LogoutContext raw"
| "auth_op em ex CleanUp = void DeleteExpiredRefreshTokensContext"
| "auth_op em ex (Twitch code) = void (TwitchCallback (EX_auth ex) code)"
| "auth_op em ex (Google code) = void (GoogleCallback (EX_auth ex) code)"
| "auth_op em ex (WalletNonce a) = void (Web3NonceContext (EX_auth ex) a)"
| "auth_op em ex (WalletVerify i) = void (Web3VerifyContext (EX_auth ex) i)"
| "auth_op em ex (Unlink u p) = UnlinkProviderContext u p"
| "auth_op em ex (SendVerification u) = SendVerificationEmail em u"
| "auth_op em ex (Verify raw) = VerifyEmail raw"
| "auth_op em ex (Forgot e) = ForgotPassword em e"
| "auth_op em ex (Reset raw p) = ResetPassword em raw p"
| "auth_op em ex (UpdateProfile u i) = void (UpdateProfileContext u i)"
| "auth_op em ex (LinkWallet u i) = void (LinkWalletContext (AU_lib (EX_auth ex)) u i)"
| "auth_op em ex (CreateAgency n e) = void (AgencyCreateContext n e)"
| "auth_op em ex (UpdateAgency u n) = UpdateSettingsContext u n"
| "auth_op em ex (ExtensionLogin jwt) = void (LoginWithExtensionContext ex jwt)"

lemma new_user_id [simp]: "U_ID (new_user n e p a r v t i) = i"
  by (simp add: new_user_def)

lemma preserves_register: "preserves auth_ok (RegisterContext s i)"
  unfolding RegisterContext_def register_rows_def
  by (intro preserves_intros preserves_on_success) simp

lemma preserves_login: "preserves auth_ok (LoginContext s e p)"
  unfolding LoginContext_def by (intro preserves_intros)

lemma preserves_refresh: "preserves auth_ok (RefreshContext s raw)"
  unfolding RefreshContext_def rotate_token_def Let_def by (intro preserves_intros preserves_on_success)

lemma preserves_logout: "preserves auth_ok (LogoutContext raw)"
  unfolding LogoutContext_def by (intro preserves_intros)

lemma preserves_cleanup: "preserves auth_ok DeleteExpiredRefreshTokensContext"
  unfolding DeleteExpiredRefreshTokensContext_def by (intro preserves_intros)

lemma preserves_callbacks: "preserves auth_ok (TwitchCallback s c)" "preserves auth_ok (GoogleCallback s c)"
  unfolding TwitchCallback_def GoogleCallback_def by (intro preserves_intros)+

lemma preserves_web3nonce: "preserves auth_ok (Web3NonceContext s a)"
  unfolding Web3NonceContext_def Let_def
  by (intro preserves_intros preserves_on_success preserves_insert_row) (auto simp: auth_ok_def nonce_conflict_def)

lemma preserves_web3verify: "preserves auth_ok (Web3VerifyContext s i)"
  unfolding Web3VerifyContext_def Let_def by (intro preserves_intros preserves_on_success)

lemma preserves_unlink: "preserves auth_ok (UnlinkProviderContext u p)"
  unfolding UnlinkProviderContext_def by (intro preserves_intros)

lemma preserves_email:
  "preserves auth_ok (SendVerificationEmail em u)" "preserves auth_ok (VerifyEmail raw)"
  "preserves auth_ok (ForgotPassword em e)" "preserves auth_ok (ResetPassword em raw p)"
  unfolding SendVerificationEmail_def VerifyEmail_def ForgotPassword_def sendReset_def ResetPassword_def
  by (intro preserves_intros preserves_on_success preserves_insert_row preserves_update_users;
      auto simp: auth_ok_def verification_conflict_def reset_conflict_def)+

lemma preserves_profile: "preserves auth_ok (UpdateProfileContext u i)"
  unfolding UpdateProfileContext_def Let_def save_user_def
  by (intro preserves_intros preserves_update_checked) (auto split: option.splits)

lemma providers_check_None:
  "providers_check ps = None \<Longrightarrow> \<forall>p \<in> set ps. \<forall>q \<in> set ps. AP_ID p \<noteq> AP_ID q \<longrightarrow> \<not> providers_clash p q"
  by (auto simp: providers_check_def list_ex_iff)

lemma preserves_restore:
  "preserves auth_ok (update_where t_auth_providers t_auth_providers_update providers_check P (\<lambda>_ p. p\<lparr>AP_DeletedAt := None\<rparr>))"
proof (rule preserves_update_where)
  fix d t assume ok: "auth_ok d" and c: "providers_check (update_rows P (\<lambda>p. p\<lparr>AP_DeletedAt := None\<rparr>) (t_auth_providers d)) = None"
  have "map AP_ID (update_rows P (\<lambda>p. p\<lparr>AP_DeletedAt := None\<rparr>) (t_auth_providers d)) = map AP_ID (t_auth_providers d)"
    by (rule map_update_rows) simp
  with ok providers_check_None [OF c] show "auth_ok (t_auth_providers_update (update_rows P (\<lambda>p. p\<lparr>AP_DeletedAt := None\<rparr>)) d)"
    by (simp add: auth_ok_def providers_ok_def)
qed

lemma preserves_remove:
  "preserves auth_ok (update_where t_auth_providers t_auth_providers_update bad P (\<lambda>_ p. p\<lparr>AP_DeletedAt := Some t\<rparr>))"
  by (rule preserves_update_where) (auto simp: auth_ok_def intro!: providers_ok_update)

lemma preserves_link: "preserves auth_ok (LinkWalletContext lib u i)"
  unfolding LinkWalletContext_def link_rows_def link_errors_def Let_def
  by (intro preserves_intros preserves_on_success preserves_restore preserves_remove)

lemma preserves_agency: "preserves auth_ok (AgencyCreateContext n e)" "preserves auth_ok (UpdateSettingsContext u n)"
  unfolding AgencyCreateContext_def UpdateSettingsContext_def Let_def
  by (intro preserves_intros preserves_on_success preserves_update_checked; simp)+

lemma preserves_extension: "preserves auth_ok (LoginWithExtensionContext ex jwt)"
  unfolding LoginWithExtensionContext_def VerifyExtJWT_def verifyJWT_def loginOrCreateExtensionUserContext_def
  by (intro preserves_intros)

lemmas auth_preserves = preserves_void preserves_register preserves_login preserves_refresh preserves_logout preserves_cleanup
  preserves_callbacks preserves_web3nonce preserves_web3verify preserves_unlink preserves_email preserves_profile
  preserves_link preserves_agency preserves_extension

lemma auth_op_ok: "preserves auth_ok (auth_op em ex r)"
  by (cases r) (simp_all add: auth_preserves)

interpretation accounts: service "auth_op em ex" auth_ok for em ex
  by unfold_locales (rule auth_op_ok)

end
