(* ===== verification/Settlement.thy ===== *)
theory Settlement
  imports Claims
begin

text \<open>
  What the transactions of a claim do to a user's wealth: the points of all channels, the points
  locked in claims on their way and the tokens. A reservation moves points into a claim, a
  rollback and a compensation move them back, a finalized claim turns them into tokens.
\<close>

section \<open>The invariant and the reservation\<close>

definition claims_ok :: "db \<Rightarrow> bool" where
  "claims_ok d \<longleftrightarrow> ledger_ok d \<and> distinct (map CL_ID (t_claims d)) \<and>
     (\<forall>c \<in> set (t_claims d). 0 < CL_Amount c) \<and>
     distinct (map TB_UserID (t_tachi_balances d)) \<and>
     (\<forall>b \<in> set (t_tachi_balances d). 0 \<le> TB_Balance b \<and> TB_Balance b < max_tachi)"

definition in_flight :: "ClaimStatus \<Rightarrow> bool" where
  "in_flight s \<longleftrightarrow> s = ClaimStatusPending \<or> s = ClaimStatusBroadcast \<or> s = ClaimStatusFinalizeFailed"

definition locked :: "db \<Rightarrow> uuid \<Rightarrow> int" where
  "locked d u = sum_list (map (\<lambda>c. if CL_UserID c = u \<and> in_flight (CL_Status c) then CL_Amount c else 0) (t_claims d))"

definition tachi :: "db \<Rightarrow> uuid \<Rightarrow> int" where
  "tachi d u = (case find_tachi u d of None \<Rightarrow> 0 | Some b \<Rightarrow> TB_Balance b)"

text \<open>What a user owns: points that can be spent, points locked in claims on their way, tokens.\<close>

definition wealth :: "db \<Rightarrow> uuid \<Rightarrow> int" where
  "wealth d u = user_spendable d u + locked d u + tachi d u"

text \<open>The rows a reservation stands for.\<close>

definition item_ok :: "db \<Rightarrow> uuid \<Rightarrow> ClaimReservationItem \<Rightarrow> bool" where
  "item_ok d u i \<longleftrightarrow> 0 < IT_amount i \<and>
     (\<exists>l \<in> set (t_points_ledgers d). PL_ID l = IT_ledgerID i \<and> PL_UserID l = u \<and>
        fits (PL_SpendableBalance l + IT_amount i)) \<and>
     (\<exists>t \<in> set (t_points_transactions d). PT_ID t = IT_transactionID i \<and> PT_LedgerID t = IT_ledgerID i \<and>
        PT_Delta t = - IT_amount i)"

definition items_ok :: "db \<Rightarrow> uuid \<Rightarrow> int \<Rightarrow> ClaimReservationItem list \<Rightarrow> bool" where
  "items_ok d u a items \<longleftrightarrow> sum_list (map IT_amount items) = a \<and>
     distinct (map IT_ledgerID items) \<and> distinct (map IT_transactionID items) \<and>
     (\<forall>i \<in> set items. item_ok d u i)"

definition reserved :: "ClaimStatus \<Rightarrow> db \<Rightarrow> ClaimReservation \<Rightarrow> bool" where
  "reserved s d r \<longleftrightarrow> (\<exists>c \<in> set (t_claims d). CL_ID c = RS_claimID r \<and> CL_UserID c = RS_userID r \<and>
       CL_Amount c = RS_amount r \<and> CL_Status c = s) \<and> 0 < RS_amount r \<and>
     items_ok d (RS_userID r) (RS_amount r) (RS_items r)"

lemma item_ok_cong:
  "t_points_ledgers d = t_points_ledgers d' \<Longrightarrow> t_points_transactions d = t_points_transactions d' \<Longrightarrow>
    item_ok d u i = item_ok d' u i"
  by (simp add: item_ok_def)

text \<open>Another ledger is posted to: the item stays.\<close>

lemma item_ok_other:
  assumes "item_ok d u i" and "IT_ledgerID i \<noteq> lid"
    and "t_points_ledgers d' = update_rows (\<lambda>x. PL_ID x = lid) f (t_points_ledgers d)"
    and "t_points_transactions d' = t_points_transactions d @ ts"
  shows "item_ok d' u i"
proof -
  from assms(1) obtain l t where i: "0 < IT_amount i"
    and l: "l \<in> set (t_points_ledgers d)" "PL_ID l = IT_ledgerID i" "PL_UserID l = u"
      "fits (PL_SpendableBalance l + IT_amount i)"
    and t: "t \<in> set (t_points_transactions d)" "PT_ID t = IT_transactionID i"
      "PT_LedgerID t = IT_ledgerID i" "PT_Delta t = - IT_amount i"
    unfolding item_ok_def by (elim conjE bexE) (rule that)
  have "l \<in> set (t_points_ledgers d')" unfolding assms(3) set_update_rows
    using l(1,2) assms(2) by (intro bexI [of _ l]) simp_all
  moreover have "t \<in> set (t_points_transactions d')" using t(1) by (simp add: assms(4))
  ultimately show ?thesis unfolding item_ok_def using i l(2-4) t(2-4)
    by blast
qed

lemma set_ledger_balance_Inr [run_simps]:
  "set_ledger_balance lid b at w = (Inr n, w') \<longleftrightarrow>
    env_fault (w_env w) (w_tick w) = None \<and>
    n = length (filter (\<lambda>l. PL_ID l = lid) (t_points_ledgers (w_db w))) \<and>
    w' = (tick w)\<lparr>w_db := t_points_ledgers_update (update_rows (\<lambda>l. PL_ID l = lid)
      (\<lambda>l. l\<lparr>PL_SpendableBalance := b, PL_UpdatedAt := at\<rparr>)) (w_db w)\<rparr>"
  by (simp add: set_ledger_balance_def run_simps)

lemma reserveLedgers_Inr:
  assumes "ledger_ok (w_db w)"
    and "\<And>l. l \<in> set ls \<Longrightarrow> l \<in> set (t_points_ledgers (w_db w)) \<and> PL_UserID l = u \<and> 0 < PL_SpendableBalance l"
    and "distinct (map PL_ID ls)"
    and "0 \<le> rem" "rem \<le> sum_list (map PL_SpendableBalance ls)" "fits rem"
    and "reserveLedgers cid u at rem ls w = (Inr items, w')"
  shows "ledger_ok (w_db w') \<and> ledger_keys (w_db w') = ledger_keys (w_db w) \<and>
    (\<forall>v. user_spendable (w_db w') v = user_spendable (w_db w) v - (if v = u then rem else 0)) \<and>
    items_ok (w_db w') u rem items \<and>
    IT_ledgerID ` set items \<subseteq> PL_ID ` set ls \<and>
    IT_transactionID ` set items \<inter> PT_ID ` set (t_points_transactions (w_db w)) = {} \<and>
    (\<forall>i v. IT_ledgerID i \<notin> PL_ID ` set ls \<longrightarrow> item_ok (w_db w) v i \<longrightarrow> item_ok (w_db w') v i) \<and>
    t_claims (w_db w') = t_claims (w_db w) \<and> t_tachi_balances (w_db w') = t_tachi_balances (w_db w) \<and>
    w_env w' = w_env w"
  using assms
proof (induction ls arbitrary: w rem items)
  case Nil
  then show ?case by (auto simp: run_simps items_ok_def)
next
  case (Cons l ls)
  show ?case
  proof (cases "rem = 0")
    case True
    with Cons.prems show ?thesis by (auto simp: run_simps items_ok_def)
  next
    case False
    let ?d = "w_db w"
    define deduct where "deduct = (if PL_SpendableBalance l > rem then rem else PL_SpendableBalance l)"
    define b where "b = PL_SpendableBalance l - deduct"
    from Cons.prems(2) have l: "l \<in> set (t_points_ledgers ?d)" "PL_UserID l = u" "0 < PL_SpendableBalance l" by auto
    note lb = ledger_bounds [OF Cons.prems(1) l(1)]
    from False Cons.prems(4) l(3) have ded: "0 < deduct" "deduct \<le> rem" "deduct \<le> PL_SpendableBalance l"
      by (auto simp: deduct_def)
    have b: "0 \<le> b" "fits b" using ded lb by (auto simp: b_def i64_bounds)
    have ib: "i64 (PL_SpendableBalance l - deduct) = b" "i64 (- deduct) = - deduct" "i64 (rem - deduct) = rem - deduct"
      using b ded lb Cons.prems(4,6) by (auto simp: b_def i64_bounds intro!: i64_fits)
    let ?f = "\<lambda>x. x\<lparr>PL_SpendableBalance := b, PL_UpdatedAt := at\<rparr>"
    let ?d1 = "t_points_ledgers_update (update_rows (\<lambda>x. PL_ID x = PL_ID l) ?f) ?d"
    from Cons.prems(7) False obtain n wa t wb ci w3 rest where
      up: "set_ledger_balance (PL_ID l) b at w = (Inr n, wa)"
      and ptx: "create_ptx (\<lambda>t i. \<lparr>PT_ID = i, PT_LedgerID = PL_ID l, PT_WatchSessionID = None,
           PT_Source = TxSourceClaim, PT_Delta = - deduct, PT_BalanceAfter = b,
           PT_SKU = None, PT_Note = None, PT_ExternalTransactionID = None, PT_CreatedAt = t\<rparr>) wa = (Inr t, wb)"
      and ins: "insert_row t_claim_items t_claim_items_update claim_item_conflict
           (\<lambda>t' i. \<lparr>CI_ID = i, CI_ClaimID = cid, CI_ClaimUserID = u, CI_LedgerID = PL_ID l,
              CI_PointsTransactionID = PT_ID t, CI_Amount = deduct, CI_CreatedAt = t'\<rparr>) wb = (Inr ci, w3)"
      and tail: "reserveLedgers cid u at (rem - deduct) ls w3 = (Inr rest, w')"
      and items: "items = \<lparr>IT_ledgerID = PL_ID l, IT_transactionID = PT_ID t, IT_amount = deduct\<rparr> # rest"
      by (simp add: bnd_Inr ret_Inr deduct_def [symmetric] ib) blast
    from up ptx ins have
      t: "PT_LedgerID t = PL_ID l" "PT_Delta t = - deduct" "PT_ID t \<notin> PT_ID ` set (t_points_transactions ?d)"
      and w3: "t_points_ledgers (w_db w3) = update_rows (\<lambda>x. PL_ID x = PL_ID l) ?f (t_points_ledgers ?d)"
        "t_points_transactions (w_db w3) = t_points_transactions ?d @ [t]"
        "t_claims (w_db w3) = t_claims ?d" "t_tachi_balances (w_db w3) = t_tachi_balances ?d" "w_env w3 = w_env w"
      by (auto simp: run_simps ptx_conflict_def)
    note adj = adjust_step [OF Cons.prems(1) l(1) b t(1) _ t(3) w3(1,2), unfolded t(2) b_def]
    have adj: "ledger_ok (w_db w3)" "ledger_keys (w_db w3) = ledger_keys ?d"
      "\<And>v. user_spendable (w_db w3) v = user_spendable ?d v - (if v = u then deduct else 0)"
      using adj l(2) by auto
    have tl: "x \<in> set (t_points_ledgers (w_db w3)) \<and> PL_UserID x = u \<and> 0 < PL_SpendableBalance x"
      if "x \<in> set ls" for x
    proof -
      have "PL_ID x \<noteq> PL_ID l" using Cons.prems(3) that by (metis distinct.simps(2) list.map(2) set_map imageI)
      with Cons.prems(2) [of x] that show ?thesis
        unfolding w3(1) set_update_rows by (intro conjI bexI [of _ x]) auto
    qed
    have "0 \<le> sum_list (map PL_SpendableBalance ls)" by (rule sum_list_nonneg) (use tl in \<open>auto simp: less_imp_le\<close>)
    then have "rem - deduct \<le> sum_list (map PL_SpendableBalance ls)"
      using Cons.prems(5) by (simp add: deduct_def)
    from Cons.IH [OF adj(1) tl _ _ this _ tail] Cons.prems(3,4,6) ded
    have ih: "ledger_ok (w_db w')" "ledger_keys (w_db w') = ledger_keys (w_db w3)"
      "\<And>v. user_spendable (w_db w') v = user_spendable (w_db w3) v - (if v = u then rem - deduct else 0)"
      "items_ok (w_db w') u (rem - deduct) rest" "IT_ledgerID ` set rest \<subseteq> PL_ID ` set ls"
      "IT_transactionID ` set rest \<inter> PT_ID ` set (t_points_transactions (w_db w3)) = {}"
      "\<And>i v. IT_ledgerID i \<notin> PL_ID ` set ls \<Longrightarrow> item_ok (w_db w3) v i \<Longrightarrow> item_ok (w_db w') v i"
      "t_claims (w_db w') = t_claims (w_db w3)" "t_tachi_balances (w_db w') = t_tachi_balances (w_db w3)"
      "w_env w' = w_env w3"
      by (simp_all add: i64_bounds)
    let ?i = "\<lparr>IT_ledgerID = PL_ID l, IT_transactionID = PT_ID t, IT_amount = deduct\<rparr>"
    have notin: "PL_ID l \<notin> PL_ID ` set ls" using Cons.prems(3) by auto
    have "item_ok (w_db w3) u ?i"
    proof -
      have "?f l \<in> set (t_points_ledgers (w_db w3))" using l(1) by (auto simp: w3(1) set_update_rows)
      moreover have "fits (PL_SpendableBalance (?f l) + deduct)" using lb by (simp add: b_def)
      moreover have "t \<in> set (t_points_transactions (w_db w3))" by (simp add: w3(2))
      ultimately show ?thesis using t ded(1) l(2) unfolding item_ok_def by force
    qed
    then have mine: "item_ok (w_db w') u ?i" using ih(7) notin by simp
    have others: "item_ok (w_db w') v i" if "IT_ledgerID i \<notin> PL_ID ` set (l # ls)" "item_ok ?d v i" for i v
      using ih(7) item_ok_other [OF that(2) _ w3(1,2)] that(1) by simp
    have "items_ok (w_db w') u rem items"
      using ih(4,5,6) mine notin by (auto simp: items_ok_def items w3(2))
    then show ?thesis
      using ih adj w3 others t(3) by (auto simp: items)
  qed
qed

section \<open>The reservation as a whole\<close>

lemma reservedI:
  "c \<in> set (t_claims d) \<Longrightarrow> CL_ID c = RS_claimID r \<Longrightarrow> CL_UserID c = RS_userID r \<Longrightarrow>
    CL_Amount c = RS_amount r \<Longrightarrow> CL_Status c = s \<Longrightarrow> 0 < RS_amount r \<Longrightarrow>
    items_ok d (RS_userID r) (RS_amount r) (RS_items r) \<Longrightarrow> reserved s d r"
  unfolding reserved_def by blast

lemma i64_add_le: "fits t \<Longrightarrow> 0 \<le> x \<Longrightarrow> i64 (t + x) \<le> t + x"
  by (cases "0 \<le> t + x") (auto simp: i64_le_nonneg i64_bounds)

lemma foldl_i64_le:
  "fits t \<Longrightarrow> (\<And>l. l \<in> set ls \<Longrightarrow> 0 \<le> f l) \<Longrightarrow>
    foldl (\<lambda>t l. i64 (t + f l)) t ls \<le> t + sum_list (map f ls) \<and> fits (foldl (\<lambda>t l. i64 (t + f l)) t ls)"
proof (induction ls arbitrary: t)
  case (Cons l ls)
  from Cons.IH [of "i64 (t + f l)"] Cons.prems i64_add_le [of t "f l"] show ?case by force
qed simp

lemma order_asc2_set [simp]: "set (order_asc2 k1 k2 rows) = set rows"
  by (simp add: order_asc2_def)

lemma order_asc2_distinct [simp]:
  "distinct (map k (order_asc2 k1 k2 rows)) = distinct (map k rows)"
  by (simp add: order_asc2_def distinct_map)

lemma resolveWalletAddress_Inr:
  "resolveWalletAddress eth e u w = (Inr a, w') \<Longrightarrow> w_db w' = w_db w \<and> w_env w' = w_env w"
  by (auto simp: resolveWalletAddress_def run_simps split: if_splits)

lemma resolveWalletAddress_db [simp]: "w_db (snd (resolveWalletAddress eth e u w)) = w_db w"
  by (auto simp: resolveWalletAddress_def run_defs split: option.splits)

lemma locked_append [simp]:
  "locked (d\<lparr>t_claims := t_claims d @ [c]\<rparr>) v =
    locked d v + (if CL_UserID c = v \<and> in_flight (CL_Status c) then CL_Amount c else 0)"
  by (simp add: locked_def)

lemma locked_cong: "t_claims d = t_claims d' \<Longrightarrow> locked d v = locked d' v"
  by (simp add: locked_def)

lemma tachi_cong: "t_tachi_balances d = t_tachi_balances d' \<Longrightarrow> tachi d v = tachi d' v"
  by (simp add: tachi_def find_tachi_def)

lemma user_spendable_cong: "t_points_ledgers d = t_points_ledgers d' \<Longrightarrow> user_spendable d v = user_spendable d' v"
  by (simp add: user_spendable_def)

lemma reserveClaim_Inr:
  assumes ok: "claims_ok (w_db w)" and run: "reserveClaim eth u a w = (Inr r, w')"
  shows "claims_ok (w_db w') \<and> reserved ClaimStatusPending (w_db w') r \<and> RS_userID r = u \<and>
    (a \<noteq> 0 \<longrightarrow> RS_amount r = a) \<and> fits (RS_amount r) \<and>
    (\<forall>v. user_spendable (w_db w') v = user_spendable (w_db w) v - (if v = u then RS_amount r else 0)) \<and>
    (\<forall>v. locked (w_db w') v = locked (w_db w) v + (if v = u then RS_amount r else 0)) \<and>
    (\<forall>v. tachi (w_db w') v = tachi (w_db w) v) \<and> w_env w' = w_env w \<and>
    (\<exists>n. RS_claimID r = env_uuid (w_env w) n)"
proof -
  let ?d = "w_db w"
  define ls where "ls = spendable_ledgers u ?d"
  define tot where "tot = foldl (\<lambda>t l. i64 (t + PL_SpendableBalance l)) 0 ls"
  define amt where "amt = (if a = 0 then tot else a)"
  from run have amt: "0 < amt" "amt \<le> tot" and body: "reserveAmount eth u amt ls (tick w) = (Inr r, w')"
    by (auto simp: reserveClaim_def bnd_Inr query_Inr fail_Inr Let_def ls_def tot_def amt_def
        not_le not_less split: if_split_asm)
  from body obtain toAddr w1 c w2 items where
    res: "resolveWalletAddress eth (ClaimE ErrClaimWalletNotLinked) u (tick w) = (Inr toAddr, w1)"
    and ins: "insert_row t_claims t_claims_update claim_conflict
          (\<lambda>t i. \<lparr>CL_ID = i, CL_UserID = u, CL_WalletAddr = toAddr, CL_Amount = amt,
             CL_Status = ClaimStatusPending, CL_TxHash = None, CL_ErrorMessage = None,
             CL_BroadcastAt = None, CL_ConfirmedAt = None, CL_FailedAt = None,
             CL_FinalizeFailedAt = None, CL_CreatedAt = t, CL_UpdatedAt = t\<rparr>) w1 = (Inr c, w2)"
    and items: "reserveLedgers (CL_ID c) u (env_clock (w_env w2) (w_tick w2)) amt ls (tick w2) = (Inr items, w')"
    and r: "r = \<lparr>RS_userID = u, RS_toAddr = toAddr, RS_amount = amt, RS_claimID = CL_ID c, RS_items = items\<rparr>"
    by (simp add: reserveAmount_def bnd_Inr now_Inr ret_Inr) blast
  define w3 where "w3 = tick w2"
  have w3: "w_db w3 = w_db w2" "w_env w3 = w_env w2" by (simp_all add: w3_def)
  note items = items [folded w3_def]
  note w1 = resolveWalletAddress_Inr [OF res]
  from ins w1 have c: "CL_UserID c = u" "CL_Amount c = amt" "CL_Status c = ClaimStatusPending"
      "CL_ID c \<notin> CL_ID ` set (t_claims ?d)" "\<exists>n. CL_ID c = env_uuid (w_env w) n"
    and w2: "w_db w2 = ?d\<lparr>t_claims := t_claims ?d @ [c]\<rparr>" "w_env w2 = w_env w"
    by (auto simp: run_simps claim_conflict_def split: if_splits)
  have lok: "ledger_ok ?d" using ok by (simp add: claims_ok_def)
  then have nn: "0 \<le> PL_SpendableBalance l" if "l \<in> set ls" for l
    using that by (auto simp: ls_def spendable_ledgers_def)
  from lok have dist: "distinct (map PL_ID ls)"
    by (auto simp: ls_def spendable_ledgers_def ledger_ok_def ledgers_ok_def distinct_map_filter)
  from foldl_i64_le [of 0 ls PL_SpendableBalance] nn
  have tot: "tot \<le> sum_list (map PL_SpendableBalance ls)" "fits tot" by (auto simp: tot_def i64_bounds)
  have fits: "fits amt" using amt tot(2) by (auto simp: i64_bounds)
  have sub: "l \<in> set (t_points_ledgers (w_db w3)) \<and> PL_UserID l = u \<and> 0 < PL_SpendableBalance l"
    if "l \<in> set ls" for l using that by (auto simp: ls_def spendable_ledgers_def w3 w2)
  have lok3: "ledger_ok (w_db w3)" using lok by (simp add: w3 w2)
  from amt tot have le: "0 \<le> amt" "amt \<le> sum_list (map PL_SpendableBalance ls)" by auto
  note R = reserveLedgers_Inr [OF lok3 sub dist le fits items]
  from R have cl: "t_claims (w_db w') = t_claims ?d @ [c]" "t_tachi_balances (w_db w') = t_tachi_balances ?d"
    by (simp_all add: w3 w2)
  have "reserved ClaimStatusPending (w_db w') r"
  proof (rule reservedI [of c])
    show "c \<in> set (t_claims (w_db w'))" by (simp add: cl(1))
    show "items_ok (w_db w') (RS_userID r) (RS_amount r) (RS_items r)" using R by (simp add: r)
  qed (use c amt in \<open>simp_all add: r\<close>)
  moreover from R have "ledger_ok (w_db w')" by blast
  then have "claims_ok (w_db w')" using ok c amt unfolding claims_ok_def cl by auto
  moreover have "locked (w_db w') v = locked ?d v + (if v = u then amt else 0)" for v
    using locked_cong [of "w_db w'" "w_db w2"] c by (simp add: cl w2 in_flight_def)
  moreover have "user_spendable (w_db w3) v = user_spendable ?d v" for v
    by (rule user_spendable_cong) (simp add: w3 w2)
  moreover have "tachi (w_db w') v = tachi ?d v" for v by (rule tachi_cong) (rule cl)
  ultimately show ?thesis using R fits c(5) by (auto simp: r amt_def w3 w2)
qed

section \<open>Moving the claim along\<close>

lemma claim_unique:
  "claims_ok d \<Longrightarrow> c \<in> set (t_claims d) \<Longrightarrow> c' \<in> set (t_claims d) \<Longrightarrow> CL_ID c = CL_ID c' \<Longrightarrow> c = c'"
  by (auto simp: claims_ok_def intro: distinct_map_unique)

lemma update_claim_Inr:
  assumes ok: "claims_ok (w_db w)" and res: "reserved s (w_db w) r"
    and f: "\<And>c. CL_ID (f c) = CL_ID c" "\<And>c. CL_UserID (f c) = CL_UserID c"
      "\<And>c. CL_Amount (f c) = CL_Amount c" "\<And>c. CL_Status (f c) = s'"
    and run: "update_claim r P f w = (Inr n, w')"
  shows "claims_ok (w_db w')"
    and "n \<noteq> 0 \<Longrightarrow> reserved s' (w_db w') r \<and> (\<forall>v. locked (w_db w') v = locked (w_db w) v +
      (if v = RS_userID r then (if in_flight s' then RS_amount r else 0) - (if in_flight s then RS_amount r else 0) else 0))"
    and "n = 0 \<Longrightarrow> w_db w' = w_db w"
    and "t_points_ledgers (w_db w') = t_points_ledgers (w_db w)"
      "t_points_transactions (w_db w') = t_points_transactions (w_db w)"
      "t_tachi_balances (w_db w') = t_tachi_balances (w_db w)" "w_env w' = w_env w"
proof -
  let ?d = "w_db w"
  let ?Q = "\<lambda>c. CL_ID c = RS_claimID r \<and> CL_UserID c = RS_userID r \<and> P c"
  from run have n: "n = length (filter ?Q (t_claims ?d))"
    and w': "w_db w' = ?d\<lparr>t_claims := update_rows ?Q f (t_claims ?d)\<rparr>" "w_env w' = w_env w"
    by (auto simp: update_claim_def run_simps)
  show "t_points_ledgers (w_db w') = t_points_ledgers ?d" "t_points_transactions (w_db w') = t_points_transactions ?d"
    "t_tachi_balances (w_db w') = t_tachi_balances ?d" "w_env w' = w_env w"
    by (simp_all add: w')
  have "map CL_ID (update_rows ?Q f (t_claims ?d)) = map CL_ID (t_claims ?d)"
    by (rule map_update_rows) (simp add: f)
  then show "claims_ok (w_db w')" using ok by (auto simp: claims_ok_def w' set_update_rows f)
  { assume "n = 0"
    then have "filter ?Q (t_claims ?d) = []" by (simp add: n)
    then have "update_rows ?Q f (t_claims ?d) = t_claims ?d"
      by (intro update_rows_none) (auto simp: filter_empty_conv)
    then show "w_db w' = ?d" by (simp add: w') }
  assume "n \<noteq> 0"
  from res obtain c where c: "c \<in> set (t_claims ?d)" "CL_ID c = RS_claimID r" "CL_UserID c = RS_userID r"
      "CL_Amount c = RS_amount r" "CL_Status c = s"
    unfolding reserved_def by (elim conjE bexE) (rule that)
  from \<open>n \<noteq> 0\<close> obtain c' where "c' \<in> set (t_claims ?d)" "?Q c'" by (auto simp: n filter_empty_conv)
  with claim_unique [OF ok this(1) c(1)] c(2) have "P c" by auto
  then have "filter ?Q (t_claims ?d) = filter (\<lambda>x. CL_ID x = RS_claimID r) (t_claims ?d)"
    using c(2,3) claim_unique [OF ok _ c(1)] by (intro filter_cong refl) metis
  also have "\<dots> = [c]" using ok c by (intro filter_unique) (auto simp: claims_ok_def)
  finally have F: "filter ?Q (t_claims ?d) = [c]" .
  have "f c \<in> set (t_claims (w_db w'))"
    using c \<open>P c\<close> unfolding w' by (auto simp: set_update_rows)
  moreover have "items_ok (w_db w') (RS_userID r) (RS_amount r) (RS_items r)"
    using res item_ok_cong [of "w_db w'" ?d] by (simp add: reserved_def items_ok_def w')
  ultimately have "reserved s' (w_db w') r"
    using res c f by (intro reservedI [of "f c"]) (simp_all add: reserved_def)
  moreover have "locked (w_db w') v = locked ?d v +
      (if v = RS_userID r then (if in_flight s' then RS_amount r else 0) - (if in_flight s then RS_amount r else 0) else 0)" for v
    by (simp add: locked_def w' sum_update_rows F f c)
  ultimately show "reserved s' (w_db w') r \<and> (\<forall>v. locked (w_db w') v = locked ?d v +
      (if v = RS_userID r then (if in_flight s' then RS_amount r else 0) - (if in_flight s then RS_amount r else 0) else 0))"
    by blast
qed

text \<open>An update whose condition the claim meets.\<close>

lemma update_claim_hits:
  assumes "reserved s (w_db w) r" and "\<And>c. CL_Status c = s \<Longrightarrow> P c" and "update_claim r P f w = (Inr n, w')"
  shows "n \<noteq> 0"
  using assms unfolding reserved_def by (auto simp: update_claim_def run_simps filter_empty_conv)

section \<open>Giving points back\<close>

lemma items_ok_Cons:
  "items_ok d u a (i # is) \<longleftrightarrow> item_ok d u i \<and> IT_ledgerID i \<notin> IT_ledgerID ` set is \<and>
    IT_transactionID i \<notin> IT_transactionID ` set is \<and> items_ok d u (a - IT_amount i) is"
  by (auto simp: items_ok_def)

lemma item_okD:
  assumes "item_ok d u i"
  shows "0 < IT_amount i"
    and "\<exists>l. l \<in> set (t_points_ledgers d) \<and> PL_ID l = IT_ledgerID i \<and> PL_UserID l = u \<and>
      fits (PL_SpendableBalance l + IT_amount i)"
    and "\<exists>t. t \<in> set (t_points_transactions d) \<and> PT_ID t = IT_transactionID i \<and>
      PT_LedgerID t = IT_ledgerID i \<and> PT_Delta t = - IT_amount i"
  using assms unfolding item_ok_def by blast+

lemma item_ok_step:
  assumes i: "item_ok d u i" and "IT_ledgerID i \<noteq> lid"
    and d': "t_points_ledgers d' = update_rows (\<lambda>x. PL_ID x = lid) f (t_points_ledgers d)"
    and ts: "\<And>t. t \<in> set (t_points_transactions d) \<Longrightarrow> PT_ID t = IT_transactionID i \<Longrightarrow> t \<in> set (t_points_transactions d')"
  shows "item_ok d' u i"
proof -
  from item_okD(2) [OF i] obtain l where l: "l \<in> set (t_points_ledgers d)" "PL_ID l = IT_ledgerID i"
    "PL_UserID l = u" "fits (PL_SpendableBalance l + IT_amount i)" by blast
  from item_okD(3) [OF i] obtain t where t: "t \<in> set (t_points_transactions d)" "PT_ID t = IT_transactionID i"
    "PT_LedgerID t = IT_ledgerID i" "PT_Delta t = - IT_amount i" by blast
  have "l \<in> set (t_points_ledgers d')"
    unfolding d' set_update_rows using l(1,2) assms(2) by (intro bexI [of _ l]) simp_all
  then show ?thesis unfolding item_ok_def using item_okD(1) [OF i] l(2-4) ts [OF t(1,2)] t(2-4) by blast
qed

lemma items_ok_step:
  assumes "items_ok d u a is" and "lid \<notin> IT_ledgerID ` set is"
    and "t_points_ledgers d' = update_rows (\<lambda>x. PL_ID x = lid) f (t_points_ledgers d)"
    and "\<And>t. t \<in> set (t_points_transactions d) \<Longrightarrow> PT_ID t \<in> IT_transactionID ` set is \<Longrightarrow> t \<in> set (t_points_transactions d')"
  shows "items_ok d' u a is"
  unfolding items_ok_def
proof (intro conjI ballI)
  fix i assume i: "i \<in> set is"
  show "item_ok d' u i"
    by (rule item_ok_step [OF _ _ assms(3)]) (use assms(1,2,4) i in \<open>auto simp: items_ok_def\<close>)
qed (use assms(1) in \<open>simp_all add: items_ok_def\<close>)

lemma restore_first:
  assumes ok: "ledger_ok d" and items: "items_ok d u a (i # items)"
    and d2: "t_points_ledgers d2 = update_rows (\<lambda>x. PL_ID x = IT_ledgerID i)
        (\<lambda>x. x\<lparr>PL_SpendableBalance := PL_SpendableBalance x + IT_amount i, PL_UpdatedAt := at\<rparr>) (t_points_ledgers d)"
      "t_points_transactions d2 = filter (\<lambda>x. PT_ID x \<noteq> IT_transactionID i) (t_points_transactions d)"
  shows "ledger_ok d2" and "items_ok d2 u (a - IT_amount i) items"
    and "user_spendable d2 v = user_spendable d v + (if v = u then IT_amount i else 0)"
proof -
  note io = items [unfolded items_ok_Cons]
  from io item_okD(2) obtain l where l: "l \<in> set (t_points_ledgers d)" "PL_ID l = IT_ledgerID i"
    "PL_UserID l = u" "fits (PL_SpendableBalance l + IT_amount i)" by blast
  from io item_okD(3) obtain t where t: "t \<in> set (t_points_transactions d)" "PT_ID t = IT_transactionID i"
    "PT_LedgerID t = IT_ledgerID i" "PT_Delta t = - IT_amount i" by blast
  have "PT_LedgerID t = PL_ID l" "0 \<le> IT_amount i" using t l io item_okD(1) by (auto simp: less_imp_le)
  note step = unpost_step [OF ok l(1) t(1) this(1) t(4) this(2) l(4) d2 [folded l(2) t(2)]]
  show "ledger_ok d2" by (rule step)
  show "user_spendable d2 v = user_spendable d v + (if v = u then IT_amount i else 0)" using step(3) l(3) by auto
  show "items_ok d2 u (a - IT_amount i) items"
    by (rule items_ok_step [OF _ _ d2(1)]) (use io d2(2) in \<open>auto simp: rev_image_eqI\<close>)
qed

lemma restoreLedgers_Inr:
  assumes "ledger_ok (w_db w)" and "items_ok (w_db w) u a items" and "restoreLedgers at items w = (Inr x, w')"
  shows "ledger_ok (w_db w') \<and>
    (\<forall>v. user_spendable (w_db w') v = user_spendable (w_db w) v + (if v = u then a else 0)) \<and>
    t_claims (w_db w') = t_claims (w_db w) \<and> t_tachi_balances (w_db w') = t_tachi_balances (w_db w)"
  using assms
proof (induction items arbitrary: w a)
  case Nil
  then show ?case by (auto simp: run_simps items_ok_def)
next
  case (Cons i items)
  let ?f = "\<lambda>x. x\<lparr>PL_SpendableBalance := PL_SpendableBalance x + IT_amount i, PL_UpdatedAt := at\<rparr>"
  from Cons.prems(3) obtain n1 w1 n2 w2 where
    up: "update_where t_points_ledgers t_points_ledgers_update ledgers_in_range
      (\<lambda>l. PL_ID l = IT_ledgerID i) (\<lambda>_. ?f) w = (Inr n1, w1)"
    and del: "delete_where t_points_transactions t_points_transactions_update
      (\<lambda>t. PT_ID t = IT_transactionID i) w1 = (Inr n2, w2)"
    and tail: "restoreLedgers at items w2 = (Inr x, w')"
    by (simp add: bnd_Inr) blast
  from up del have
    w2: "t_points_ledgers (w_db w2) = update_rows (\<lambda>x. PL_ID x = IT_ledgerID i) ?f (t_points_ledgers (w_db w))"
      "t_points_transactions (w_db w2) = filter (\<lambda>x. PT_ID x \<noteq> IT_transactionID i) (t_points_transactions (w_db w))"
      "t_claims (w_db w2) = t_claims (w_db w)" "t_tachi_balances (w_db w2) = t_tachi_balances (w_db w)"
    by (auto simp: run_simps)
  note step = restore_first [OF Cons.prems(1,2) w2(1,2)]
  from Cons.IH [OF step(1,2) tail] step(3) w2(3,4) show ?case by simp
qed

lemma compensateLedgers_Inr:
  assumes "ledger_ok (w_db w)" and "items_ok (w_db w) u a items" and "compensateLedgers cid at items w = (Inr x, w')"
  shows "ledger_ok (w_db w') \<and>
    (\<forall>v. user_spendable (w_db w') v = user_spendable (w_db w) v + (if v = u then a else 0)) \<and>
    t_claims (w_db w') = t_claims (w_db w) \<and> t_tachi_balances (w_db w') = t_tachi_balances (w_db w)"
  using assms
proof (induction items arbitrary: w a)
  case Nil
  then show ?case by (auto simp: run_simps items_ok_def)
next
  case (Cons i items)
  let ?d = "w_db w" and ?a = "IT_amount i"
  note io = Cons.prems(2) [unfolded items_ok_Cons]
  from io item_okD(2) obtain l where l: "l \<in> set (t_points_ledgers ?d)" "PL_ID l = IT_ledgerID i"
    "PL_UserID l = u" "fits (PL_SpendableBalance l + ?a)" by blast
  define b where "b = PL_SpendableBalance l + ?a"
  have bpos: "0 \<le> b" "fits b" using ledger_bounds [OF Cons.prems(1) l(1)] io item_okD(1) l(4)
    by (auto simp: b_def less_imp_le)
  have found: "find (\<lambda>l. PL_ID l = IT_ledgerID i) (t_points_ledgers ?d) = Some l"
    using Cons.prems(1) l(1,2)
    by (intro find_unique) (auto simp: ledger_ok_def ledgers_ok_def intro: distinct_map_unique)
  let ?f = "\<lambda>x. x\<lparr>PL_SpendableBalance := b, PL_UpdatedAt := at\<rparr>"
  from Cons.prems(3) bpos found obtain n w1 t w2 where
    up: "set_ledger_balance (PL_ID l) b at (tick w) = (Inr n, w1)"
    and ptx: "create_ptx (\<lambda>t' i'. \<lparr>PT_ID = i', PT_LedgerID = IT_ledgerID i, PT_WatchSessionID = None,
        PT_Source = TxSourceClaim, PT_Delta = ?a, PT_BalanceAfter = b,
        PT_SKU = None, PT_Note = Some (''claim failed compensation for claim '' @ uuidText cid),
        PT_ExternalTransactionID = None, PT_CreatedAt = t'\<rparr>) w1 = (Inr t, w2)"
    and tail: "compensateLedgers cid at items w2 = (Inr x, w')"
    by (simp add: bnd_Inr orElse_Inr query_Inr Let_def b_def [symmetric]) blast
  from up ptx have
    w2: "t_points_ledgers (w_db w2) = update_rows (\<lambda>x. PL_ID x = PL_ID l) ?f (t_points_ledgers ?d)"
      "t_points_transactions (w_db w2) = t_points_transactions ?d @ [t]"
      "t_claims (w_db w2) = t_claims ?d" "t_tachi_balances (w_db w2) = t_tachi_balances ?d"
    and t: "PT_LedgerID t = PL_ID l" "PT_Delta t = ?a" "PT_ID t \<notin> PT_ID ` set (t_points_transactions ?d)"
    by (auto simp: run_simps l(2) ptx_conflict_def)
  have step: "ledger_ok (w_db w2)"
    "user_spendable (w_db w2) v = user_spendable ?d v + (if v = u then ?a else 0)" for v
    using adjust_step [OF Cons.prems(1) l(1) bpos t(1) _ t(3) w2(1,2)] t(2) l(3)
    by (auto simp: b_def)
  have "items_ok (w_db w2) u (a - ?a) items"
    by (rule items_ok_step [OF _ _ w2(1)]) (use io l(2) w2(2) in \<open>auto\<close>)
  from Cons.IH [OF step(1) this tail] step(2) w2(3,4) show ?case by simp
qed

section \<open>The settling transactions\<close>

lemma rollback_Inr:
  assumes ok: "claims_ok (w_db w)" and res: "reserved s (w_db w) r" and s: "in_flight s" and nz: "RS_claimID r \<noteq> 0"
    and run: "rollbackClaimReservation r w = (Inr x, w')"
  shows "claims_ok (w_db w')" and "wealth (w_db w') v = wealth (w_db w) v"
    and "user_spendable (w_db w') v = user_spendable (w_db w) v + (if v = RS_userID r then RS_amount r else 0)"
    and "tachi (w_db w') v = tachi (w_db w) v"
proof -
  let ?d = "w_db w"
  from res obtain c where c: "c \<in> set (t_claims ?d)" "CL_ID c = RS_claimID r" "CL_UserID c = RS_userID r"
      "CL_Amount c = RS_amount r" "CL_Status c = s"
    unfolding reserved_def by (elim conjE bexE) (rule that)
  from run nz obtain w1 where del: "delete_claim (RS_claimID r) w = (Inr (), w1)"
    and rest: "restoreLedgers (env_clock (w_env w1) (w_tick w1)) (RS_items r) (tick w1) = (Inr x, w')"
    by (simp add: rollbackClaimReservation_def seq_Inr bnd_Inr now_Inr) blast
  from del have
    w1: "t_claims (w_db w1) = filter (\<lambda>c. CL_ID c \<noteq> RS_claimID r) (t_claims ?d)"
      "t_points_ledgers (w_db w1) = t_points_ledgers ?d" "t_points_transactions (w_db w1) = t_points_transactions ?d"
      "t_tachi_balances (w_db w1) = t_tachi_balances ?d"
    by (auto simp: delete_claim_def run_simps)
  have io: "items_ok (w_db (tick w1)) (RS_userID r) (RS_amount r) (RS_items r)"
    using res item_ok_cong [of "w_db w1" ?d] w1 by (simp add: reserved_def items_ok_def)
  have lok: "ledger_ok (w_db (tick w1))" using ok ledger_ok_cong [of "w_db w1" ?d] w1 by (simp add: claims_ok_def)
  note R = restoreLedgers_Inr [OF lok io rest, simplified, folded One_nat_def]
  from R show "claims_ok (w_db w')" using ok by (auto simp: claims_ok_def w1 distinct_map_filter)
  have us: "user_spendable (w_db w1) v = user_spendable ?d v" by (rule user_spendable_cong) (rule w1)
  with R show sp: "user_spendable (w_db w') v = user_spendable ?d v + (if v = RS_userID r then RS_amount r else 0)" by simp
  show ta: "tachi (w_db w') v = tachi ?d v" by (rule tachi_cong) (simp add: R w1)
  have "filter (\<lambda>c. CL_ID c = RS_claimID r) (t_claims ?d) = [c]"
    using ok c by (intro filter_unique) (auto simp: claims_ok_def)
  then have "locked ?d v = locked (w_db w') v + (if v = RS_userID r then RS_amount r else 0)"
    using sum_list_map_filter_split [of "\<lambda>c. if CL_UserID c = v \<and> in_flight (CL_Status c) then CL_Amount c else 0"
        "t_claims ?d" "\<lambda>c. CL_ID c = RS_claimID r"] R c s
    by (simp add: locked_def w1)
  then show "wealth (w_db w') v = wealth ?d v" using sp ta by (simp add: wealth_def)
qed

lemma compensate_Inr:
  assumes ok: "claims_ok (w_db w)" and res: "reserved s (w_db w) r" and s: "in_flight s"
    and run: "markClaimFailedAndCompensate r h e w = (Inr x, w')"
  shows "claims_ok (w_db w')" and "wealth (w_db w') v = wealth (w_db w) v"
    and "user_spendable (w_db w') v = user_spendable (w_db w) v + (if v = RS_userID r then RS_amount r else 0)"
    and "tachi (w_db w') v = tachi (w_db w) v"
proof -
  let ?d = "w_db w"
  from run obtain t n w1 where
    up: "update_claim r (\<lambda>_. True) (\<lambda>c. c\<lparr>CL_Status := ClaimStatusFailed, CL_TxHash := Some h,
        CL_ErrorMessage := Some (errText e), CL_FailedAt := Some t, CL_UpdatedAt := t\<rparr>) (tick w) = (Inr n, w1)"
    and rest: "compensateLedgers (RS_claimID r) t (RS_items r) w1 = (Inr x, w')"
    by (simp add: markClaimFailedAndCompensate_def bnd_Inr now_Inr) blast
  have w0: "w_db (tick w) = ?d" by simp
  note U = update_claim_Inr [OF ok [folded w0] res [folded w0] _ _ _ _ up, of ClaimStatusFailed, simplified, unfolded w0]
  have n: "n \<noteq> 0" by (rule update_claim_hits [OF res [folded w0] _ up]) simp
  have io: "items_ok (w_db w1) (RS_userID r) (RS_amount r) (RS_items r)"
    using U(2) n by (simp add: reserved_def)
  have lok: "ledger_ok (w_db w1)" using U(1) by (simp add: claims_ok_def)
  note R = compensateLedgers_Inr [OF lok io rest]
  from R U(1) show "claims_ok (w_db w')" by (simp add: claims_ok_def)
  have us: "user_spendable (w_db w1) v = user_spendable ?d v" by (rule user_spendable_cong) (rule U)
  with R show sp: "user_spendable (w_db w') v = user_spendable ?d v + (if v = RS_userID r then RS_amount r else 0)" by simp
  show ta: "tachi (w_db w') v = tachi ?d v" by (rule tachi_cong) (simp add: R U)
  have "locked (w_db w') v = locked (w_db w1) v" by (rule locked_cong) (simp add: R)
  then have "locked ?d v = locked (w_db w') v + (if v = RS_userID r then RS_amount r else 0)"
    using U(2) n s by (simp add: in_flight_def)
  then show "wealth (w_db w') v = wealth ?d v" using sp ta by (simp add: wealth_def)
qed

lemma markBroadcast_Inr:
  assumes ok: "claims_ok (w_db w)" and res: "reserved s (w_db w) r" and s: "in_flight s"
    and run: "markClaimBroadcast r h w = (Inr x, w')"
  shows "claims_ok (w_db w')" and "reserved ClaimStatusBroadcast (w_db w') r"
    and "wealth (w_db w') v = wealth (w_db w) v"
    and "user_spendable (w_db w') v = user_spendable (w_db w) v" and "tachi (w_db w') v = tachi (w_db w) v"
proof -
  from run obtain t n where
    up: "update_claim r (\<lambda>_. True) (\<lambda>c. c\<lparr>CL_Status := ClaimStatusBroadcast, CL_TxHash := Some h,
        CL_BroadcastAt := Some t, CL_ErrorMessage := None, CL_UpdatedAt := t\<rparr>) (tick w) = (Inr n, w')"
    by (simp add: markClaimBroadcast_def bnd_Inr now_Inr ret_Inr) blast
  have w0: "w_db (tick w) = w_db w" by simp
  note U = update_claim_Inr [OF ok [folded w0] res [folded w0] _ _ _ _ up, of ClaimStatusBroadcast, simplified, unfolded w0]
  have n: "n \<noteq> 0" by (rule update_claim_hits [OF res [folded w0] _ up]) simp
  show "claims_ok (w_db w')" by (rule U)
  show "reserved ClaimStatusBroadcast (w_db w') r" using U(2) n by blast
  show sp: "user_spendable (w_db w') v = user_spendable (w_db w) v" by (rule user_spendable_cong) (rule U)
  show ta: "tachi (w_db w') v = tachi (w_db w) v" by (rule tachi_cong) (rule U)
  show "wealth (w_db w') v = wealth (w_db w) v" using U(2) n s sp ta by (simp add: wealth_def in_flight_def)
qed

lemma receiptUnknown_Inr:
  assumes ok: "claims_ok (w_db w)" and res: "reserved s (w_db w) r" and s: "in_flight s"
    and run: "recordClaimReceiptUnknown r h e w = (Inr x, w')"
  shows "claims_ok (w_db w')" and "reserved ClaimStatusBroadcast (w_db w') r"
    and "wealth (w_db w') v = wealth (w_db w) v"
    and "user_spendable (w_db w') v = user_spendable (w_db w) v" and "tachi (w_db w') v = tachi (w_db w) v"
proof -
  from run obtain t n where
    up: "update_claim r (\<lambda>_. True) (\<lambda>c. c\<lparr>CL_Status := ClaimStatusBroadcast, CL_TxHash := Some h,
        CL_ErrorMessage := Some (errText e), CL_UpdatedAt := t\<rparr>) (tick w) = (Inr n, w')"
    by (simp add: recordClaimReceiptUnknown_def bnd_Inr now_Inr ret_Inr) blast
  have w0: "w_db (tick w) = w_db w" by simp
  note U = update_claim_Inr [OF ok [folded w0] res [folded w0] _ _ _ _ up, of ClaimStatusBroadcast, simplified, unfolded w0]
  have n: "n \<noteq> 0" by (rule update_claim_hits [OF res [folded w0] _ up]) simp
  show "claims_ok (w_db w')" by (rule U)
  show "reserved ClaimStatusBroadcast (w_db w') r" using U(2) n by blast
  show sp: "user_spendable (w_db w') v = user_spendable (w_db w) v" by (rule user_spendable_cong) (rule U)
  show ta: "tachi (w_db w') v = tachi (w_db w) v" by (rule tachi_cong) (rule U)
  show "wealth (w_db w') v = wealth (w_db w) v" using U(2) n s sp ta by (simp add: wealth_def in_flight_def)
qed

lemma finalizeFailed_Inr:
  assumes ok: "claims_ok (w_db w)" and res: "reserved ClaimStatusBroadcast (w_db w) r"
    and run: "markFinalizeFailedClaim r h e w = (Inr x, w')"
  shows "claims_ok (w_db w')" and "wealth (w_db w') v = wealth (w_db w) v"
    and "user_spendable (w_db w') v = user_spendable (w_db w) v" and "tachi (w_db w') v = tachi (w_db w) v"
proof -
  from run obtain t n w1 where
    up: "update_claim r (settleable h) (\<lambda>c. c\<lparr>CL_Status := ClaimStatusFinalizeFailed,
        CL_ErrorMessage := Some (errText e), CL_FinalizeFailedAt := Some t, CL_UpdatedAt := t,
        CL_TxHash := (if h \<noteq> [] then Some h else CL_TxHash c)\<rparr>) (tick w) = (Inr n, w1)"
    and w1: "w_db w' = w_db w1"
    by (auto simp: markFinalizeFailedClaim_def bnd_Inr now_Inr ret_Inr fail_Inr handle_Inr orElse_Inr query_Inr
        split: if_split_asm)
  have w0: "w_db (tick w) = w_db w" by simp
  note U = update_claim_Inr [OF ok [folded w0] res [folded w0] _ _ _ _ up, of ClaimStatusFinalizeFailed,
      simplified, unfolded w0, folded w1]
  show "claims_ok (w_db w')" by (rule U)
  show sp: "user_spendable (w_db w') v = user_spendable (w_db w) v" by (rule user_spendable_cong) (rule U)
  show ta: "tachi (w_db w') v = tachi (w_db w) v" by (rule tachi_cong) (rule U)
  show "wealth (w_db w') v = wealth (w_db w) v"
    using U(2,3) sp ta by (cases "n = 0") (simp_all add: wealth_def in_flight_def)
qed

section \<open>Tokens\<close>

lemma upsert_tachi_Inr:
  assumes ok: "distinct (map TB_UserID (t_tachi_balances (w_db w)))"
    "\<forall>b \<in> set (t_tachi_balances (w_db w)). 0 \<le> TB_Balance b \<and> TB_Balance b < max_tachi"
    and run: "upsert_tachi i u a at w = (Inr x, w')"
  shows "distinct (map TB_UserID (t_tachi_balances (w_db w')))"
    and "\<forall>b \<in> set (t_tachi_balances (w_db w')). 0 \<le> TB_Balance b \<and> TB_Balance b < max_tachi"
    and "tachi (w_db w') v = tachi (w_db w) v + (if v = u then a else 0)"
    and "find_tachi u (w_db w') \<noteq> None"
    and "t_claims (w_db w') = t_claims (w_db w)" "t_points_ledgers (w_db w') = t_points_ledgers (w_db w)"
      "t_points_transactions (w_db w') = t_points_transactions (w_db w)"
proof -
  let ?bs = "t_tachi_balances (w_db w)"
  let ?f = "\<lambda>b. b\<lparr>TB_Balance := TB_Balance b + a, TB_UpdatedAt := at\<rparr>"
  show "t_claims (w_db w') = t_claims (w_db w)" "t_points_ledgers (w_db w') = t_points_ledgers (w_db w)"
      "t_points_transactions (w_db w') = t_points_transactions (w_db w)"
    using run by (auto simp: upsert_tachi_def stmt_Inr split: option.splits if_splits)
  have goal: "distinct (map TB_UserID (t_tachi_balances (w_db w'))) \<and>
    (\<forall>b \<in> set (t_tachi_balances (w_db w')). 0 \<le> TB_Balance b \<and> TB_Balance b < max_tachi) \<and>
    tachi (w_db w') v = tachi (w_db w) v + (if v = u then a else 0) \<and> find_tachi u (w_db w') \<noteq> None"
  proof (cases "find_tachi u (w_db w)")
    case None
    then have no: "u \<notin> TB_UserID ` set ?bs" by (auto simp: find_tachi_def find_None_iff)
    from run None have bs: "t_tachi_balances (w_db w') =
        ?bs @ [\<lparr>TB_ID = i, TB_UserID = u, TB_Balance = a, TB_UpdatedAt = at\<rparr>]"
      and a: "0 \<le> a" "a < max_tachi"
      by (auto simp: upsert_tachi_def stmt_Inr split: if_splits)
    have fa: "find P (xs @ [y]) = (case find P xs of None \<Rightarrow> if P y then Some y else None | Some z \<Rightarrow> Some z)" for P :: "TachiBalance \<Rightarrow> bool" and xs y
      by (induction xs) auto
    show ?thesis using None no ok a by (auto simp: bs tachi_def find_tachi_def fa split: option.splits)
  next
    case (Some b)
    then have b: "b \<in> set ?bs" "TB_UserID b = u" by (auto simp: find_tachi_def dest: find_SomeD)
    from run Some have bs: "t_tachi_balances (w_db w') = update_rows (\<lambda>b. TB_UserID b = u) ?f ?bs"
      and a: "0 \<le> TB_Balance b + a" "TB_Balance b + a < max_tachi"
      by (auto simp: upsert_tachi_def stmt_Inr split: if_splits)
    have only: "x = b" if "x \<in> set ?bs" "TB_UserID x = u" for x
      using distinct_map_unique [OF ok(1) that(1) b(1)] that b by simp
    have fu: "find (\<lambda>b. TB_UserID b = v) (update_rows (\<lambda>b. TB_UserID b = u) ?f xs) =
        map_option (\<lambda>b. if TB_UserID b = u then ?f b else b) (find (\<lambda>b. TB_UserID b = v) xs)" for v xs
      by (induction xs) (auto simp: update_rows_def)
    have "map TB_UserID (update_rows (\<lambda>b. TB_UserID b = u) ?f ?bs) = map TB_UserID ?bs"
      by (rule map_update_rows) simp
    moreover have "0 \<le> TB_Balance x \<and> TB_Balance x < max_tachi"
      if "x \<in> set (update_rows (\<lambda>b. TB_UserID b = u) ?f ?bs)" for x
      using that ok(2) a only unfolding set_update_rows by fastforce
    moreover have "tachi (w_db w') v = tachi (w_db w) v + (if v = u then a else 0)"
    proof (cases "v = u")
      case True
      with Some show ?thesis by (simp add: tachi_def find_tachi_def bs fu b(2))
    next
      case False
      then show ?thesis
        by (auto simp: tachi_def find_tachi_def bs fu split: option.splits dest!: find_SomeD)
    qed
    ultimately show ?thesis using ok Some by (simp add: bs find_tachi_def fu)
  qed
  then show "distinct (map TB_UserID (t_tachi_balances (w_db w')))"
    and "\<forall>b \<in> set (t_tachi_balances (w_db w')). 0 \<le> TB_Balance b \<and> TB_Balance b < max_tachi"
    and "tachi (w_db w') v = tachi (w_db w) v + (if v = u then a else 0)"
    and "find_tachi u (w_db w') \<noteq> None" by blast+
qed

lemma loadTachi_Inr [run_simps]:
  "loadTachiBalanceValue u w = (Inr b, w') \<longleftrightarrow> env_fault (w_env w) (w_tick w) = None \<and>
    (\<exists>x. find_tachi u (w_db w) = Some x \<and> b = TB_Balance x) \<and> w' = tick w"
  by (auto simp: loadTachiBalanceValue_def run_simps) metis

lemma finalizeSkipped_Inr:
  "finalizeSkipped r h w = (Inr b, w') \<Longrightarrow>
    \<exists>c. find_claim r (w_db w) = Some c \<and> CL_Status c = ClaimStatusConfirmed"
  by (cases "find_claim r (w_db w)")
    (auto simp: finalizeSkipped_def handle_Inr fail_Inr orElse_Inr query_Inr split: if_split_asm)

lemma creditTachi_Inr:
  "creditTachi r t w = (Inr b, w') \<Longrightarrow>
    \<exists>i y w2 x. upsert_tachi i (RS_userID r) (RS_amount r) t (tick w) = (Inr y, w2) \<and>
      find_tachi (RS_userID r) (w_db w2) = Some x \<and> b = TB_Balance x \<and> w' = tick w2"
  unfolding creditTachi_def bnd_Inr newUUID_Inr seq_Inr loadTachi_Inr by blast

lemma find_claim_reserved:
  assumes "claims_ok d" and "reserved s d r" and "find_claim r d = Some c"
  shows "CL_Status c = s"
proof -
  from assms(2) obtain c' where c': "c' \<in> set (t_claims d)" "CL_ID c' = RS_claimID r" "CL_Status c' = s"
    unfolding reserved_def by (elim conjE bexE) (rule that)
  from find_SomeD [OF assms(3) [unfolded find_claim_def]] have "c \<in> set (t_claims d)" "CL_ID c = RS_claimID r" by auto
  with claim_unique [OF assms(1) this(1) c'(1)] c' show ?thesis by simp
qed

lemma finalize_Inr:
  assumes ok: "claims_ok (w_db w)" and res: "reserved ClaimStatusBroadcast (w_db w) r"
    and run: "finalizeClaim r h w = (Inr b, w')"
  shows "claims_ok (w_db w')" and "wealth (w_db w') v = wealth (w_db w) v"
    and "user_spendable (w_db w') v = user_spendable (w_db w) v"
    and "tachi (w_db w') v = tachi (w_db w) v + (if v = RS_userID r then RS_amount r else 0)"
    and "b = tachi (w_db w') (RS_userID r)"
proof -
  let ?f = "\<lambda>t c. c\<lparr>CL_Status := ClaimStatusConfirmed, CL_ConfirmedAt := Some t, CL_ErrorMessage := None,
        CL_UpdatedAt := t, CL_TxHash := (if h \<noteq> [] then Some h else CL_TxHash c)\<rparr>"
  from run obtain t n w1 where
    up: "update_claim r (settleable h) (?f t) (tick w) = (Inr n, w1)"
    and rest: "(if n = 0 then finalizeSkipped r h else creditTachi r t) w1 = (Inr b, w')"
    unfolding finalizeClaim_def bnd_Inr now_Inr by blast
  have w0: "w_db (tick w) = w_db w" by simp
  note U = update_claim_Inr [OF ok [folded w0] res [folded w0] _ _ _ _ up, of ClaimStatusConfirmed,
      simplified, unfolded w0]
  have n: "n \<noteq> 0"
  proof
    assume "n = 0"
    with rest finalizeSkipped_Inr [of r h w1] U(3) obtain c where
      "find_claim r (w_db w) = Some c" "CL_Status c = ClaimStatusConfirmed" by auto
    with find_claim_reserved [OF ok res] show False by fastforce
  qed
  with rest have "creditTachi r t w1 = (Inr b, w')" by simp
  from creditTachi_Inr [OF this] obtain i w2 x y where
    ups: "upsert_tachi i (RS_userID r) (RS_amount r) t (tick w1) = (Inr y, w2)"
    and x: "find_tachi (RS_userID r) (w_db w2) = Some x" "b = TB_Balance x" and w': "w' = tick w2" by blast
  have bs: "distinct (map TB_UserID (t_tachi_balances (w_db (tick w1))))"
    "\<forall>b \<in> set (t_tachi_balances (w_db (tick w1))). 0 \<le> TB_Balance b \<and> TB_Balance b < max_tachi"
    using U(1) by (simp_all add: claims_ok_def)
  note T = upsert_tachi_Inr [OF bs ups, unfolded tick_sel]
  show "claims_ok (w_db w')"
    using U(1) T(1,2) ledger_ok_cong [of "w_db w2" "w_db w1", OF T(6,7)] by (simp add: claims_ok_def w' T)
  show sp: "user_spendable (w_db w') v = user_spendable (w_db w) v"
    by (rule user_spendable_cong) (simp add: w' T U)
  have "tachi (w_db w1) v = tachi (w_db w) v" by (rule tachi_cong) (rule U)
  then show ta: "tachi (w_db w') v = tachi (w_db w) v + (if v = RS_userID r then RS_amount r else 0)"
    using T(3) [of v] by (simp add: w')
  have "locked (w_db w') v = locked (w_db w1) v" by (rule locked_cong) (simp add: w' T)
  then show "wealth (w_db w') v = wealth (w_db w) v"
    using U(2) n sp ta by (simp add: wealth_def in_flight_def)
  show "b = tachi (w_db w') (RS_userID r)" using x by (simp add: tachi_def w')
qed

section \<open>Claims\<close>

definition conserved :: "db \<Rightarrow> db \<Rightarrow> bool" where
  "conserved d d' \<longleftrightarrow> claims_ok d' \<and> (\<forall>v. wealth d' v = wealth d v)"

lemma conserved_trans: "conserved d d1 \<Longrightarrow> conserved d1 d2 \<Longrightarrow> conserved d d2"
  by (simp add: conserved_def)

lemma conserved_refl: "claims_ok d \<Longrightarrow> conserved d d"
  by (simp add: conserved_def)

text \<open>What a step of a claim may do: settle it, for the user \<open>u\<close> and the amount \<open>a\<close>, or not.\<close>

definition paid_out :: "db \<Rightarrow> db \<Rightarrow> uuid \<Rightarrow> int \<Rightarrow> bool" where
  "paid_out d d' u a \<longleftrightarrow> (\<forall>v. user_spendable d' v = user_spendable d v) \<and>
     (\<forall>v. tachi d' v = tachi d v + (if v = u then a else 0))"

definition not_paid :: "db \<Rightarrow> db \<Rightarrow> bool" where
  "not_paid d d' \<longleftrightarrow> (\<forall>v. tachi d' v = tachi d v)"

lemma settleClaim_run:
  assumes ok: "claims_ok (w_db w)" and res: "reserved ClaimStatusBroadcast (w_db w) r"
    and run: "settleClaim caller r h w = (x, w')"
  shows "conserved (w_db w) (w_db w') \<and>
    (case x of Inr b \<Rightarrow> paid_out (w_db w) (w_db w') (RS_userID r) (RS_amount r) \<and> b = tachi (w_db w') (RS_userID r)
     | Inl e \<Rightarrow> not_paid (w_db w) (w_db w'))"
proof -
  have fl: "in_flight ClaimStatusBroadcast" by (simp add: in_flight_def)
  have w1: "w_db (tick w) = w_db w" by simp
  have fails: "conserved (w_db w) (w_db w2) \<and> not_paid (w_db w) (w_db w2)"
    if run: "transaction (y :: unit m) wf = (z, w2)" and same: "w_db wf = w_db w"
      and Y: "\<And>u w3. y wf = (Inr u, w3) \<Longrightarrow> claims_ok (w_db w3) \<and>
         (\<forall>v. wealth (w_db w3) v = wealth (w_db w) v \<and> tachi (w_db w3) v = tachi (w_db w) v)" for y wf z w2
    using run ok Y by (cases rule: transaction_cases) (auto simp: conserved_def not_paid_def same)
  consider (failed) e where "errors_is e (ClaimE ErrMintReceiptStatusFailed)"
      "handle (transaction (markClaimFailedAndCompensate r h e))
            (\<lambda>failedErr. fail (Wrap e (errText e @ ''; mark claim failed: '' @ errText failedErr)))
            (\<lambda>_. fail e) (tick w) = (x, w')"
    | (unknown) e where "handle (transaction (recordClaimReceiptUnknown r h e))
            (\<lambda>recordErr. fail (Wrap e (errText e @ ''; record claim receipt unknown: '' @ errText recordErr)))
            (\<lambda>_. fail e) (tick w) = (x, w')"
    | (mined) "handle (transaction (finalizeClaim r h))
          (\<lambda>finalizeErr.
           handle (transaction (markFinalizeFailedClaim r h finalizeErr))
             (\<lambda>markErr. fail (Wrap finalizeErr (errText finalizeErr @ ''; mark finalize failed: '' @ errText markErr)))
             (\<lambda>_. fail finalizeErr))
          ret (tick w) = (x, w')"
    using run unfolding settleClaim_def handle_run [of "external _"] external_run
    by (auto split: if_split_asm)
  then show ?thesis
  proof cases
    case failed
    then obtain z where "transaction (markClaimFailedAndCompensate r h e) (tick w) = (z, w')" "\<exists>e. x = Inl e"
      by (auto simp: handle_run fail_run)
    with fails [OF this(1) w1] compensate_Inr [OF ok [folded w1] res [folded w1] fl] show ?thesis by auto
  next
    case unknown
    then obtain z where "transaction (recordClaimReceiptUnknown r h e) (tick w) = (z, w')" "\<exists>e. x = Inl e"
      by (auto simp: handle_run fail_run)
    with fails [OF this(1) w1] receiptUnknown_Inr [OF ok [folded w1] res [folded w1] fl] show ?thesis by auto
  next
    case mined
    then consider (settled) b where "transaction (finalizeClaim r h) (tick w) = (Inr b, w')" "x = Inr b"
      | (broken) e w2 z where "transaction (finalizeClaim r h) (tick w) = (Inl e, w2)"
        "transaction (markFinalizeFailedClaim r h e) w2 = (z, w')" "\<exists>e. x = Inl e"
      by (auto simp: handle_run fail_run ret_run)
    then show ?thesis
    proof cases
      case settled
      from transaction_Inr [OF this(1)] obtain w2 where "finalizeClaim r h (tick w) = (Inr b, w2)" "w_db w' = w_db w2" by blast
      with finalize_Inr [OF ok [folded w1] res [folded w1] this(1)] show ?thesis
        by (simp add: settled conserved_def paid_out_def)
    next
      case broken
      from transaction_Inl [OF broken(1)] have w2: "w_db w2 = w_db w" by simp
      with fails [OF broken(2) w2] finalizeFailed_Inr [OF ok [folded w2] res [folded w2]] broken(3)
      show ?thesis by auto
    qed
  qed
qed

text \<open>Everything a claim can end in.\<close>

lemma Claim_run:
  assumes ok: "claims_ok (w_db w)" and ids: "\<And>n. env_uuid (w_env w) n \<noteq> 0"
    and run: "Claim eth caller u a w = (x, w')"
  shows "conserved (w_db w) (w_db w') \<and>
    (case x of
       Inr b \<Rightarrow> b = tachi (w_db w') u \<and> (\<exists>m > 0. (a \<noteq> 0 \<longrightarrow> m = a) \<and>
         (\<forall>v. user_spendable (w_db w') v = user_spendable (w_db w) v - (if v = u then m else 0)) \<and>
         (\<forall>v. tachi (w_db w') v = tachi (w_db w) v + (if v = u then m else 0)))
     | Inl e \<Rightarrow> not_paid (w_db w) (w_db w'))"
proof -
  let ?d = "w_db w"
  have fl: "in_flight ClaimStatusPending" by (simp add: in_flight_def)
  consider (refused) e where "transaction (reserveClaim eth u a) w = (Inl e, w')" "x = Inl e"
    | (reserved) r w1 where "transaction (reserveClaim eth u a) w = (Inr r, w1)"
      "(\<exists>e. (\<exists>z. transaction (rollbackClaimReservation r) (tick w1) = (z, w')) \<and> x = Inl e) \<or>
       (\<exists>h. (\<exists>e. transaction (markClaimBroadcast r h) (tick w1) = (Inl e, w') \<and> (\<exists>e'. x = Inl e')) \<or>
            (\<exists>y w2. transaction (markClaimBroadcast r h) (tick w1) = (Inr y, w2) \<and> settleClaim caller r h w2 = (x, w')))"
  proof -
    obtain y w1 where t: "transaction (reserveClaim eth u a) w = (y, w1)" by fastforce
    show thesis
    proof (cases y)
      case (Inl e)
      with run t refused show thesis by (simp add: Claim_def bnd_def)
    next
      case (Inr r)
      note t = t [unfolded this]
      show thesis
      proof (cases "MintBroadcastOnChain caller (RS_toAddr r) (RS_amount r) (w_tick w1)")
        case (Inl err)
        obtain z w2 where z: "transaction (rollbackClaimReservation r) (tick w1) = (z, w2)" by fastforce
        with run t Inl have "w' = w2" "\<exists>e. x = Inl e"
          by (auto simp: Claim_def bnd_def handle_def external_def fail_def split: sum.splits)
        with z t reserved show thesis by blast
      next
        case h: (Inr h)
        obtain z w2 where z: "transaction (markClaimBroadcast r h) (tick w1) = (z, w2)" by fastforce
        show thesis
        proof (cases z)
          case (Inl e)
          with run t h z have "w' = w2" "\<exists>e. x = Inl e"
            by (auto simp: Claim_def bnd_def handle_def external_def fail_def)
          with z t Inl reserved show thesis by blast
        next
          case (Inr y)
          with run t h z have "settleClaim caller r h w2 = (x, w')"
            by (auto simp: Claim_def bnd_def handle_def external_def)
          with z t Inr reserved show thesis by blast
        qed
      qed
    qed
  qed
  then show ?thesis
  proof cases
    case refused
    with transaction_Inl [OF refused(1)] ok show ?thesis by (simp add: conserved_refl not_paid_def)
  next
    case reserved
    from transaction_Inr [OF reserved(1)] obtain w0 where w0: "reserveClaim eth u a w = (Inr r, w0)" "w_db w1 = w_db w0" by blast
    note R = reserveClaim_Inr [OF ok w0(1), folded w0(2)]
    from R ids have nz: "RS_claimID r \<noteq> 0" by (metis)
    from R have ok1: "claims_ok (w_db (tick w1))" and res: "reserved ClaimStatusPending (w_db (tick w1)) r"
      and u: "RS_userID r = u" and m: "0 < RS_amount r" "a \<noteq> 0 \<Longrightarrow> RS_amount r = a"
      and sp: "user_spendable (w_db w1) v = user_spendable ?d v - (if v = u then RS_amount r else 0)"
      and ta: "tachi (w_db w1) v = tachi ?d v" and wl: "wealth (w_db w1) v = wealth ?d v" for v
      by (auto simp: reserved_def wealth_def)
    have c1: "conserved ?d (w_db w1)" using ok1 wl by (simp add: conserved_def)
    from reserved(2) consider
        (rolled) e z where "transaction (rollbackClaimReservation r) (tick w1) = (z, w')" "x = Inl e"
      | (unrecorded) h e e' where "transaction (markClaimBroadcast r h) (tick w1) = (Inl e, w')" "x = Inl e'"
      | (sent) h y w2 where "transaction (markClaimBroadcast r h) (tick w1) = (Inr y, w2)" "settleClaim caller r h w2 = (x, w')"
      by blast
    then show ?thesis
    proof cases
      case rolled
      from this(1) have "conserved (w_db w1) (w_db w') \<and> not_paid (w_db w1) (w_db w')"
      proof (cases rule: transaction_cases)
        case (1 e)
        with ok1 show ?thesis by (simp add: conserved_refl not_paid_def)
      next
        case (2 b w3)
        with rollback_Inr [OF ok1 res fl nz 2(2)] show ?thesis by (simp add: conserved_def not_paid_def)
      qed
      with c1 ta rolled(2) show ?thesis by (auto intro: conserved_trans simp: not_paid_def)
    next
      case unrecorded
      with transaction_Inl [OF unrecorded(1)] c1 ta show ?thesis by (simp add: not_paid_def)
    next
      case sent
      from transaction_Inr [OF sent(1)] obtain w3 where
        w3: "markClaimBroadcast r h (tick w1) = (Inr y, w3)" "w_db w2 = w_db w3" by blast
      note B = markBroadcast_Inr [OF ok1 res fl w3(1), folded w3(2)]
      note S = settleClaim_run [OF B(1,2) sent(2)]
      have "conserved ?d (w_db w')"
        using c1 B(1,3) S by (auto simp: conserved_def)
      moreover have "case x of
           Inr b \<Rightarrow> b = tachi (w_db w') u \<and>
             (\<forall>v. user_spendable (w_db w') v = user_spendable ?d v - (if v = u then RS_amount r else 0)) \<and>
             (\<forall>v. tachi (w_db w') v = tachi ?d v + (if v = u then RS_amount r else 0))
         | Inl e \<Rightarrow> not_paid ?d (w_db w')"
        using S B(4,5) sp ta u by (auto simp: paid_out_def not_paid_def split: sum.splits)
      ultimately show ?thesis using m by (auto split: sum.splits)
    qed
  qed
qed

section \<open>Properties\<close>

text \<open>C3. Nothing is lost in a claim: whatever step of it fails, and whatever the chain answers,
  every user's wealth (points that can be spent, points locked in claims on their way, tokens)
  is what it was, and the ledger, the claims and the token balances stay well-formed.\<close>

theorem Claim_conserves_wealth:
  assumes "claims_ok (w_db w)" and "\<And>n. env_uuid (w_env w) n \<noteq> 0"
    and "Claim eth caller u a w = (x, w')"
  shows "claims_ok (w_db w') \<and> (\<forall>v. wealth (w_db w') v = wealth (w_db w) v)"
  using Claim_run [OF assms] by (simp add: conserved_def)

definition claimable :: db where
  "claimable = ledger_7\<lparr>t_auth_providers := [\<lparr>AP_ID = 4, AP_UserID = 3, AP_Provider = ProviderWeb3,
     AP_ProviderID = ''0xA'', AP_AccessToken = None, AP_RefreshToken = None, AP_TokenExpiresAt = None,
     AP_CreatedAt = 0, AP_DeletedAt = None\<rparr>]\<rparr>"

lemma claimable_ok: "claims_ok claimable"
  using ledger_7_ok by (simp add: claims_ok_def claimable_def) (simp add: ledger_7_def empty_db_def)

definition toy_eth :: EthLib where
  "toy_eth = \<lparr>IsHexAddress = (\<lambda>s. HasPrefix s ''0x''), HexToAddress = length, AddressHex = (\<lambda>n. ''0xA''),
     HexToECDSA = (\<lambda>s. Inr 1)\<rparr>"

definition minting :: MintCaller where
  "minting = \<lparr>MintBroadcastOnChain = (\<lambda>_ _ _. Inr ''0xfeed''), WaitMintReceiptOnChain = (\<lambda>_ _. Inr ())\<rparr>"

lemma claimable_run:
  "fst (Claim toy_eth minting 3 5 (start (\<lambda>n. int n) claimable)) = Inr 5"
  by (simp add: Claim_def settleClaim_def minting_def toy_eth_def claimable_def ledger_7_def empty_db_def
      reserveClaim_def i64_def spendable_ledgers_def reserveAmount_def resolveWalletAddress_def
      web3_provider_def order_asc2_def
      claim_conflict_def claim_item_conflict_def set_ledger_balance_def create_ptx_def ptx_conflict_def
      markClaimBroadcast_def update_claim_def claims_check_def finalizeClaim_def settleable_def creditTachi_def
      upsert_tachi_def find_tachi_def max_tachi_def loadTachiBalanceValue_def run_defs update_rows_def
      dup_if_def no_check_def Let_def)

theorem Claim_conserves_wealth_witness:
  "wealth (w_db (snd (Claim toy_eth minting 3 5 (start (\<lambda>n. int n) claimable)))) 3 = 7"
proof -
  let ?w = "start (\<lambda>n. int n) claimable"
  obtain x w' where run: "Claim toy_eth minting 3 5 ?w = (x, w')" by fastforce
  have "claims_ok (w_db ?w)" by (simp add: claimable_ok)
  from Claim_conserves_wealth [OF this _ run] have "wealth (w_db w') 3 = wealth claimable 3" by simp
  also have "\<dots> = 7" by (simp add: wealth_def user_spendable_def locked_def tachi_def find_tachi_def claimable_def ledger_7_def empty_db_def)
  finally show ?thesis by (simp add: run)
qed

text \<open>C4. A claim that returns a balance has paid: it took exactly the claimed amount (all points
  when the request says 0) from the user's spendable points, added it to the user's tokens,
  returned the new number of tokens and touched no other user. A claim that returns an error has
  paid no tokens to anyone.\<close>

theorem Claim_pays_exactly:
  assumes "claims_ok (w_db w)" and "\<And>n. env_uuid (w_env w) n \<noteq> 0"
    and "Claim eth caller u a w = (x, w')"
  shows "case x of
       Inr b \<Rightarrow> b = tachi (w_db w') u \<and> (\<exists>m > 0. (a \<noteq> 0 \<longrightarrow> m = a) \<and>
         (\<forall>v. user_spendable (w_db w') v = user_spendable (w_db w) v - (if v = u then m else 0)) \<and>
         (\<forall>v. tachi (w_db w') v = tachi (w_db w) v + (if v = u then m else 0)))
     | Inl e \<Rightarrow> \<forall>v. tachi (w_db w') v = tachi (w_db w) v"
  using Claim_run [OF assms] by (auto simp: not_paid_def split: sum.splits)

theorem Claim_pays_exactly_witness:
  "\<exists>w'. Claim toy_eth minting 3 5 (start (\<lambda>n. int n) claimable) = (Inr 5, w') \<and>
     user_spendable (w_db w') 3 = 2 \<and> tachi (w_db w') 3 = 5"
proof -
  let ?w = "start (\<lambda>n. int n) claimable"
  obtain w' where run: "Claim toy_eth minting 3 5 ?w = (Inr 5, w')"
    using claimable_run by (metis prod.collapse)
  have "claims_ok (w_db ?w)" by (simp add: claimable_ok)
  from Claim_pays_exactly [OF this _ run] have
    "user_spendable (w_db w') 3 = user_spendable claimable 3 - 5" "5 = tachi (w_db w') 3" by auto
  then show ?thesis using run by (simp add: user_spendable_def claimable_def ledger_7_def)
qed

lemma restoreLedgers_calm:
  assumes "no_faults w" and "ledger_ok (w_db w)" and "items_ok (w_db w) u a items"
  shows "\<exists>w'. restoreLedgers at items w = (Inr (), w') \<and> w_env w' = w_env w"
  using assms
proof (induction items arbitrary: w a)
  case Nil
  then show ?case by (simp add: ret_def)
next
  case (Cons i items)
  let ?d = "w_db w"
  let ?f = "\<lambda>x. x\<lparr>PL_SpendableBalance := PL_SpendableBalance x + IT_amount i, PL_UpdatedAt := at\<rparr>"
  let ?ls = "update_rows (\<lambda>x. PL_ID x = IT_ledgerID i) ?f (t_points_ledgers ?d)"
  define w2 where "w2 = tick (tick w)\<lparr>w_db := t_points_transactions_update
    (filter (\<lambda>x. PT_ID x \<noteq> IT_transactionID i))
    (t_points_ledgers_update (update_rows (\<lambda>x. PL_ID x = IT_ledgerID i) ?f) ?d)\<rparr>"
  have "ledger_ok (w_db w2)" "items_ok (w_db w2) u (a - IT_amount i) items"
    by (rule restore_first [OF Cons.prems(2,3)]; simp add: w2_def)+
  moreover from this(1) have "ledgers_in_range ?ls = None"
    by (auto simp: ledgers_in_range_def ledger_ok_def ledgers_ok_def w2_def list_ex_iff)
  then have "restoreLedgers at (i # items) w = restoreLedgers at items w2"
    using Cons.prems(1) by (simp add: bnd_def update_where_def delete_where_def stmt_def w2_def tick_def)
  moreover have "no_faults w2" using Cons.prems(1) by (simp add: w2_def no_faults_def)
  ultimately show ?case using Cons.IH [of w2 "a - IT_amount i"] by (simp add: w2_def)
qed

lemma rollback_calm:
  assumes ok: "claims_ok (w_db w)" and res: "reserved s (w_db w) r" and "no_faults w"
  shows "\<exists>w'. rollbackClaimReservation r w = (Inr (), w') \<and> w_env w' = w_env w"
proof -
  define w1 where "w1 = (if RS_claimID r \<noteq> 0 then tick w\<lparr>w_db := w_db w\<lparr>
     t_claims := filter (\<lambda>c. CL_ID c \<noteq> RS_claimID r) (t_claims (w_db w)),
     t_claim_items := filter (\<lambda>i. CI_ClaimID i \<noteq> RS_claimID r) (t_claim_items (w_db w))\<rparr>\<rparr> else w)"
  have same: "t_points_ledgers (w_db w1) = t_points_ledgers (w_db w)"
    "t_points_transactions (w_db w1) = t_points_transactions (w_db w)" "no_faults w1" "w_env w1 = w_env w"
    using assms(3) by (simp_all add: w1_def no_faults_def)
  have "ledger_ok (w_db (tick w1))" using ok ledger_ok_cong [OF same(1,2)] by (simp add: claims_ok_def)
  moreover have "items_ok (w_db (tick w1)) (RS_userID r) (RS_amount r) (RS_items r)"
    using res item_ok_cong [OF same(1,2)] by (simp add: reserved_def items_ok_def)
  ultimately obtain w' where
    "restoreLedgers (env_clock (w_env w1) (w_tick w1)) (RS_items r) (tick w1) = (Inr (), w')" "w_env w' = w_env w"
    using restoreLedgers_calm [of "tick w1"] same(3,4) by fastforce
  moreover have "rollbackClaimReservation r w = restoreLedgers (env_clock (w_env w1) (w_tick w1)) (RS_items r) (tick w1)"
    using assms(3) by (simp add: rollbackClaimReservation_def w1_def seq_def bnd_def delete_claim_def stmt_def ret_def now_def tick_def)
  ultimately show ?thesis by simp
qed

section \<open>A rollback puts the rows back\<close>

text \<open>The tables without the time stamps of the ledgers, which every change of a ledger renews.\<close>

definition stampless :: "db \<Rightarrow> db" where
  "stampless d = d\<lparr>t_points_ledgers := map (\<lambda>l. l\<lparr>PL_UpdatedAt := 0\<rparr>) (t_points_ledgers d)\<rparr>"

text \<open>What \<open>restoreLedgers\<close> does to the tables, row by row.\<close>

definition restore_item :: "time \<Rightarrow> ClaimReservationItem \<Rightarrow> db \<Rightarrow> db" where
  "restore_item at i d = d\<lparr>
     t_points_ledgers := update_rows (\<lambda>l. PL_ID l = IT_ledgerID i)
       (\<lambda>l. l\<lparr>PL_SpendableBalance := PL_SpendableBalance l + IT_amount i, PL_UpdatedAt := at\<rparr>) (t_points_ledgers d),
     t_points_transactions := filter (\<lambda>t. PT_ID t \<noteq> IT_transactionID i) (t_points_transactions d)\<rparr>"

definition without_items :: "uuid \<Rightarrow> db \<Rightarrow> db" where
  "without_items cid d = d\<lparr>t_claim_items := filter (\<lambda>i. CI_ClaimID i \<noteq> cid) (t_claim_items d)\<rparr>"

lemma restoreLedgers_rows: "restoreLedgers at items w = (Inr x, w') \<Longrightarrow> w_db w' = fold (restore_item at) items (w_db w)"
proof (induction items arbitrary: w)
  case (Cons i items)
  let ?f = "\<lambda>l. l\<lparr>PL_SpendableBalance := PL_SpendableBalance l + IT_amount i, PL_UpdatedAt := at\<rparr>"
  from Cons.prems obtain n1 w1 n2 w2 where
    up: "update_where t_points_ledgers t_points_ledgers_update ledgers_in_range
      (\<lambda>l. PL_ID l = IT_ledgerID i) (\<lambda>_. ?f) w = (Inr n1, w1)"
    and del: "delete_where t_points_transactions t_points_transactions_update
      (\<lambda>t. PT_ID t = IT_transactionID i) w1 = (Inr n2, w2)"
    and tail: "restoreLedgers at items w2 = (Inr x, w')"
    by (simp add: bnd_Inr) blast
  from up del have "w_db w2 = restore_item at i (w_db w)"
    by (cases "w_db w") (auto simp: run_simps restore_item_def)
  with Cons.IH [OF tail] show ?case by simp
qed (simp add: ret_Inr)

lemma restore_commute: "restore_item at i (restore_item at j d) = restore_item at j (restore_item at i d)"
proof -
  have "filter P (filter Q xs) = filter Q (filter P xs)" for P Q and xs :: "'a list"
    unfolding filter_filter by (rule filter_cong) auto
  then show ?thesis
    by (cases d) (auto simp: restore_item_def update_rows_def algebra_simps simp del: filter_filter)
qed

lemma restore_last: "fold (restore_item at) (i # items) d = restore_item at i (fold (restore_item at) items d)"
proof (induction items arbitrary: d)
  case (Cons j items)
  from Cons.IH [of "restore_item at j d"] show ?case by (simp add: restore_commute [of at j i d])
qed simp

lemma stampless_restore: "stampless (restore_item at i d) = restore_item 0 i (stampless d)"
  by (cases d) (simp add: stampless_def restore_item_def update_rows_def)

text \<open>Restoring an item gives its ledger row back, and takes its entry out of the log.\<close>

lemma restore_reserved:
  assumes "distinct (map PL_ID (t_points_ledgers d))" and "l \<in> set (t_points_ledgers d)"
    and "PT_ID t \<notin> PT_ID ` set (t_points_transactions d)" and "CI_ClaimID ci = cid"
    and "b + a = PL_SpendableBalance l"
    and d1: "d1 = d\<lparr>t_points_ledgers := update_rows (\<lambda>x. PL_ID x = PL_ID l)
        (\<lambda>x. x\<lparr>PL_SpendableBalance := b, PL_UpdatedAt := at\<rparr>) (t_points_ledgers d),
      t_points_transactions := t_points_transactions d @ [t], t_claim_items := t_claim_items d @ [ci]\<rparr>"
  shows "restore_item 0 \<lparr>IT_ledgerID = PL_ID l, IT_transactionID = PT_ID t, IT_amount = a\<rparr> (stampless (without_items cid d1)) =
    stampless (without_items cid d)"
proof -
  have "x = l" if "x \<in> set (t_points_ledgers d)" "PL_ID x = PL_ID l" for x
    using distinct_map_unique [OF assms(1) that(1) assms(2) that(2)] .
  moreover have "x\<lparr>PL_SpendableBalance := PL_SpendableBalance x, PL_UpdatedAt := 0\<rparr> = x\<lparr>PL_UpdatedAt := 0\<rparr>"
    for x :: PointsLedger by (cases x) simp
  ultimately have "x\<lparr>PL_SpendableBalance := PL_SpendableBalance l, PL_UpdatedAt := 0\<rparr> = x\<lparr>PL_UpdatedAt := 0\<rparr>"
    if "x \<in> set (t_points_ledgers d)" "PL_ID x = PL_ID l" for x
    using that by metis
  then have "map (\<lambda>x. x\<lparr>PL_UpdatedAt := 0\<rparr>) (t_points_ledgers d) = update_rows (\<lambda>x. PL_ID x = PL_ID l)
      (\<lambda>x. x\<lparr>PL_SpendableBalance := PL_SpendableBalance x + a, PL_UpdatedAt := 0\<rparr>)
      (map (\<lambda>x. x\<lparr>PL_UpdatedAt := 0\<rparr>) (update_rows (\<lambda>x. PL_ID x = PL_ID l)
        (\<lambda>x. x\<lparr>PL_SpendableBalance := b, PL_UpdatedAt := at\<rparr>) (t_points_ledgers d)))"
    using assms(5) by (auto simp: update_rows_def)
  moreover have "filter (\<lambda>x. PT_ID x \<noteq> PT_ID t) (t_points_transactions d) = t_points_transactions d"
    using assms(3) by (auto simp: filter_id_conv image_iff)
  ultimately show ?thesis using assms(4)
    by (cases d) (simp add: d1 stampless_def restore_item_def without_items_def)
qed

lemma reserveLedgers_undo:
  assumes "distinct (map PL_ID (t_points_ledgers (w_db w)))"
    and "\<And>l. l \<in> set ls \<Longrightarrow> l \<in> set (t_points_ledgers (w_db w)) \<and> 0 < PL_SpendableBalance l \<and> fits (PL_SpendableBalance l)"
    and "distinct (map PL_ID ls)" and "0 \<le> rem" "fits rem"
    and "reserveLedgers cid u at rem ls w = (Inr items, w')"
  shows "stampless (fold (restore_item t) items (without_items cid (w_db w'))) = stampless (without_items cid (w_db w)) \<and>
    t_claims (w_db w') = t_claims (w_db w)"
  using assms
proof (induction ls arbitrary: w rem items)
  case Nil
  then show ?case by (auto simp: ret_Inr)
next
  case (Cons l ls)
  show ?case
  proof (cases "rem = 0")
    case True
    with Cons.prems show ?thesis by (auto simp: ret_Inr)
  next
    case False
    define deduct where "deduct = (if PL_SpendableBalance l > rem then rem else PL_SpendableBalance l)"
    define b where "b = PL_SpendableBalance l - deduct"
    from Cons.prems(2) [of l] have l: "l \<in> set (t_points_ledgers (w_db w))" "0 < PL_SpendableBalance l" "fits (PL_SpendableBalance l)"
      by auto
    from False Cons.prems(4) l(2) have ded: "0 < deduct" "deduct \<le> rem" "deduct \<le> PL_SpendableBalance l"
      by (auto simp: deduct_def)
    have ib: "i64 (PL_SpendableBalance l - deduct) = b" "i64 (rem - deduct) = rem - deduct" "fits (rem - deduct)"
      using ded l(3) Cons.prems(4,5) by (auto simp: b_def i64_bounds intro!: i64_fits)
    from Cons.prems(6) False obtain n wa p wb ci w3 rest where
      steps: "set_ledger_balance (PL_ID l) b at w = (Inr n, wa)"
      "create_ptx (\<lambda>t i. \<lparr>PT_ID = i, PT_LedgerID = PL_ID l, PT_WatchSessionID = None,
           PT_Source = TxSourceClaim, PT_Delta = i64 (- deduct), PT_BalanceAfter = b,
           PT_SKU = None, PT_Note = None, PT_ExternalTransactionID = None, PT_CreatedAt = t\<rparr>) wa = (Inr p, wb)"
      "insert_row t_claim_items t_claim_items_update claim_item_conflict
           (\<lambda>t' i. \<lparr>CI_ID = i, CI_ClaimID = cid, CI_ClaimUserID = u, CI_LedgerID = PL_ID l,
              CI_PointsTransactionID = PT_ID p, CI_Amount = deduct, CI_CreatedAt = t'\<rparr>) wb = (Inr ci, w3)"
      and tail: "reserveLedgers cid u at (rem - deduct) ls w3 = (Inr rest, w')"
      and items: "items = \<lparr>IT_ledgerID = PL_ID l, IT_transactionID = PT_ID p, IT_amount = deduct\<rparr> # rest"
      by (simp add: bnd_Inr ret_Inr deduct_def [symmetric] ib) blast
    let ?f = "\<lambda>x. x\<lparr>PL_SpendableBalance := b, PL_UpdatedAt := at\<rparr>"
    from steps have p: "PT_ID p \<notin> PT_ID ` set (t_points_transactions (w_db w))" "CI_ClaimID ci = cid"
      and w3: "w_db w3 = (w_db w)\<lparr>t_points_ledgers := update_rows (\<lambda>x. PL_ID x = PL_ID l) ?f (t_points_ledgers (w_db w)),
        t_points_transactions := t_points_transactions (w_db w) @ [p], t_claim_items := t_claim_items (w_db w) @ [ci]\<rparr>"
      by (auto simp: run_simps ptx_conflict_def)
    have tl: "x \<in> set (t_points_ledgers (w_db w3)) \<and> 0 < PL_SpendableBalance x \<and> fits (PL_SpendableBalance x)"
      if "x \<in> set ls" for x
    proof -
      have "PL_ID x \<noteq> PL_ID l" using Cons.prems(3) that by (metis distinct.simps(2) list.map(2) set_map imageI)
      with Cons.prems(2) [of x] that show ?thesis by (auto simp: w3 set_update_rows)
    qed
    have "distinct (map PL_ID (t_points_ledgers (w_db w3)))" using Cons.prems(1) by (simp add: w3 map_update_rows)
    from Cons.IH [OF this tl _ _ ib(3) tail] Cons.prems(3) ded have
      ih: "stampless (fold (restore_item t) rest (without_items cid (w_db w'))) = stampless (without_items cid (w_db w3))"
      "t_claims (w_db w') = t_claims (w_db w3)" by auto
    have "b + deduct = PL_SpendableBalance l" by (simp add: b_def)
    note undo = restore_reserved [OF Cons.prems(1) l(1) p this w3]
    have "stampless (fold (restore_item t) items (without_items cid (w_db w'))) = stampless (without_items cid (w_db w))"
      unfolding items restore_last stampless_restore ih(1) by (rule undo)
    with ih(2) show ?thesis by (simp add: w3)
  qed
qed

text \<open>The reservation and its rollback together.\<close>

lemma rollback_rows:
  assumes ok: "claims_ok (w_db w)" and fk: "CI_ClaimID ` set (t_claim_items (w_db w)) \<subseteq> CL_ID ` set (t_claims (w_db w))"
    and res: "reserveClaim eth u a w = (Inr r, w0)" and w1: "w_db w1 = w_db w0" and nz: "RS_claimID r \<noteq> 0"
    and rb: "rollbackClaimReservation r w1 = (Inr x, w')"
  shows "stampless (w_db w') = stampless (w_db w)"
proof -
  let ?d = "w_db w"
  define ls where "ls = spendable_ledgers u ?d"
  define tot where "tot = foldl (\<lambda>t l. i64 (t + PL_SpendableBalance l)) 0 ls"
  define amt where "amt = (if a = 0 then tot else a)"
  from res have amt: "0 < amt" "amt \<le> tot" and body: "reserveAmount eth u amt ls (tick w) = (Inr r, w0)"
    by (auto simp: reserveClaim_def bnd_Inr query_Inr fail_Inr Let_def ls_def tot_def amt_def
        not_le not_less split: if_split_asm)
  from body obtain toAddr w3 c w4 items where
    addr: "resolveWalletAddress eth (ClaimE ErrClaimWalletNotLinked) u (tick w) = (Inr toAddr, w3)"
    and ins: "insert_row t_claims t_claims_update claim_conflict
          (\<lambda>t i. \<lparr>CL_ID = i, CL_UserID = u, CL_WalletAddr = toAddr, CL_Amount = amt,
             CL_Status = ClaimStatusPending, CL_TxHash = None, CL_ErrorMessage = None,
             CL_BroadcastAt = None, CL_ConfirmedAt = None, CL_FailedAt = None,
             CL_FinalizeFailedAt = None, CL_CreatedAt = t, CL_UpdatedAt = t\<rparr>) w3 = (Inr c, w4)"
    and items: "reserveLedgers (CL_ID c) u (env_clock (w_env w4) (w_tick w4)) amt ls (tick w4) = (Inr items, w0)"
    and r: "r = \<lparr>RS_userID = u, RS_toAddr = toAddr, RS_amount = amt, RS_claimID = CL_ID c, RS_items = items\<rparr>"
    by (simp add: reserveAmount_def bnd_Inr now_Inr ret_Inr) blast
  from ins resolveWalletAddress_Inr [OF addr] have c: "CL_ID c \<notin> CL_ID ` set (t_claims ?d)"
    and w4: "w_db w4 = ?d\<lparr>t_claims := t_claims ?d @ [c]\<rparr>"
    by (auto simp: run_simps claim_conflict_def split: if_splits)
  have led: "ledger_ok ?d" using ok by (simp add: claims_ok_def)
  have sub: "l \<in> set (t_points_ledgers (w_db (tick w4))) \<and> 0 < PL_SpendableBalance l \<and> fits (PL_SpendableBalance l)"
    if "l \<in> set ls" for l
    using that ledger_bounds [OF led, of l] by (auto simp: ls_def spendable_ledgers_def w4)
  have dist: "distinct (map PL_ID ls)" "distinct (map PL_ID (t_points_ledgers (w_db (tick w4))))"
    using led by (auto simp: ls_def spendable_ledgers_def ledger_ok_def ledgers_ok_def distinct_map_filter w4)
  have "fits tot" unfolding tot_def
    using foldl_i64_le [of 0 ls PL_SpendableBalance] sub by (force simp: i64_bounds less_imp_le)
  with amt have fits: "0 \<le> amt" "fits amt" by (auto simp: i64_bounds)
  from rb nz obtain w5 where del: "delete_claim (CL_ID c) w1 = (Inr (), w5)"
    and rest: "restoreLedgers (env_clock (w_env w5) (w_tick w5)) items (tick w5) = (Inr x, w')"
    by (simp add: rollbackClaimReservation_def seq_Inr bnd_Inr now_Inr r) blast
  define t where "t = env_clock (w_env w5) (w_tick w5)"
  from del have w5: "w_db (tick w5) = (w_db w0)\<lparr>t_claims := filter (\<lambda>x. CL_ID x \<noteq> CL_ID c) (t_claims (w_db w0)),
      t_claim_items := filter (\<lambda>i. CI_ClaimID i \<noteq> CL_ID c) (t_claim_items (w_db w0))\<rparr>"
    by (auto simp: delete_claim_def stmt_Inr w1)
  note undo = reserveLedgers_undo [OF dist(2) sub dist(1) fits items, of t]
  have "restore_item t i (d\<lparr>t_claims := cs\<rparr>) = (restore_item t i d)\<lparr>t_claims := cs\<rparr>" for i d cs
    by (cases d) (simp add: restore_item_def)
  then have other: "fold (restore_item t) is (d\<lparr>t_claims := cs\<rparr>) = (fold (restore_item t) is d)\<lparr>t_claims := cs\<rparr>" for "is" d cs
    by (induction "is" arbitrary: d) simp_all
  have cs: "filter (\<lambda>x. CL_ID x \<noteq> CL_ID c) (t_claims (w_db w0)) = t_claims ?d"
    using undo [THEN conjunct2] c by (auto simp: w4 filter_id_conv image_iff)
  have ci: "filter (\<lambda>i. CI_ClaimID i \<noteq> CL_ID c) (t_claim_items ?d) = t_claim_items ?d"
  proof -
    have "CI_ClaimID i \<in> CL_ID ` set (t_claims ?d)" if "i \<in> set (t_claim_items ?d)" for i using fk that by auto
    with c show ?thesis by (metis (mono_tags, lifting) filter_id_conv)
  qed
  have "w_db (tick w5) = (without_items (CL_ID c) (w_db w0))\<lparr>t_claims := t_claims ?d\<rparr>"
    unfolding w5 cs by (cases "w_db w0") (simp add: without_items_def)
  then have "w_db w' = fold (restore_item t) items ((without_items (CL_ID c) (w_db w0))\<lparr>t_claims := t_claims ?d\<rparr>)"
    using restoreLedgers_rows [OF rest] by (simp only: t_def)
  then have "stampless (w_db w') = (stampless (fold (restore_item t) items (without_items (CL_ID c) (w_db w0))))\<lparr>t_claims := t_claims ?d\<rparr>"
    by (simp add: other stampless_def)
  also have "\<dots> = (stampless (without_items (CL_ID c) (w_db (tick w4))))\<lparr>t_claims := t_claims ?d\<rparr>"
    by (simp only: undo)
  also have "\<dots> = stampless ?d" by (simp add: w4 stampless_def without_items_def ci)
  finally show ?thesis .
qed

text \<open>C22. When the chain does not take the mint and nothing else fails, the claim is undone row by row: the
  caller gets an error, every ledger has its points back, the entries of the log, the claim and its items are gone, and
  nothing in any table differs from before but the time stamps of the ledgers; so the points, the claims on their way and the
  tokens of every user are what they were. The items on record belong to claims on record, as the foreign key demands.\<close>

theorem Claim_refused_is_undone:
  assumes ok: "claims_ok (w_db w)" and ids: "\<And>n. env_uuid (w_env w) n \<noteq> 0" and nf: "no_faults w"
    and fk: "CI_ClaimID ` set (t_claim_items (w_db w)) \<subseteq> CL_ID ` set (t_claims (w_db w))"
    and mint: "\<And>to m n. \<exists>e. MintBroadcastOnChain caller to m n = Inl e"
    and run: "Claim eth caller u a w = (x, w')"
  shows "(\<exists>e. x = Inl e) \<and> stampless (w_db w') = stampless (w_db w) \<and> (\<forall>v. user_spendable (w_db w') v = user_spendable (w_db w) v \<and>
     locked (w_db w') v = locked (w_db w) v \<and> tachi (w_db w') v = tachi (w_db w) v)"
proof (cases "reserveClaim eth u a w")
  case (Pair y w0)
  show ?thesis
  proof (cases y)
    case (Inl e)
    with Pair have "transaction (reserveClaim eth u a) w = (Inl e, w0\<lparr>w_db := w_db w\<rparr>)"
      by (simp add: transaction_def bnd_def)
    with run have "x = Inl e" "w_db w' = w_db w" by (auto simp: Claim_def bnd_def)
    then show ?thesis by simp
  next
    case (Inr r)
    with Pair have R: "reserveClaim eth u a w = (Inr r, w0)" by simp
    note res = reserveClaim_Inr [OF ok R]
    then have nf0: "no_faults w0" using nf by (simp add: no_faults_def)
    define w1 where "w1 = tick (tick w0)"
    have w1: "claims_ok (w_db w1)" "reserved ClaimStatusPending (w_db w1) r" "no_faults w1" "w_db w1 = w_db w0"
      using res nf0 by (simp_all add: w1_def)
    from rollback_calm [OF w1(1-3)] obtain w2 where
      rb: "rollbackClaimReservation r w1 = (Inr (), w2)" and env: "w_env w2 = w_env w1" by blast
    from env w1(3) have "no_faults w2" by (simp add: no_faults_def)
    note T = transaction_calm [where x = "rollbackClaimReservation r", OF rb this]
    obtain e where "MintBroadcastOnChain caller (RS_toAddr r) (RS_amount r) (w_tick (tick w0)) = Inl e" using mint by blast
    with run T transaction_calm [where x = "reserveClaim eth u a", OF R nf0] have x: "x = Inl e" "w' = tick w2"
      by (auto simp: Claim_def bnd_def handle_def external_def fail_def w1_def)
    have nz: "RS_claimID r \<noteq> 0" using res ids by metis
    note B = rollback_Inr [OF w1(1,2) _ nz rb, simplified in_flight_def, simplified]
    have "user_spendable (w_db w2) v = user_spendable (w_db w) v" "tachi (w_db w2) v = tachi (w_db w) v"
      "wealth (w_db w2) v = wealth (w_db w) v" for v
      using B res by (auto simp: w1(4) wealth_def)
    moreover have "stampless (w_db w2) = stampless (w_db w)" by (rule rollback_rows [OF ok fk R w1(4) nz rb])
    ultimately show ?thesis using x by (simp add: wealth_def)
  qed
qed

theorem Claim_refused_is_undone_witness:
  "stampless (w_db (snd (Claim toy_eth (minting\<lparr>MintBroadcastOnChain := (\<lambda>_ _ _. Inl (Errorf ''nonce''))\<rparr>)
     3 5 (start (\<lambda>n. int n) claimable)))) = stampless claimable \<and>
   user_spendable (w_db (snd (Claim toy_eth (minting\<lparr>MintBroadcastOnChain := (\<lambda>_ _ _. Inl (Errorf ''nonce''))\<rparr>)
     3 5 (start (\<lambda>n. int n) claimable)))) 3 = 7"
proof -
  let ?w = "start (\<lambda>n. int n) claimable"
  let ?c = "minting\<lparr>MintBroadcastOnChain := (\<lambda>_ _ _. Inl (Errorf ''nonce''))\<rparr>"
  obtain x w' where run: "Claim toy_eth ?c 3 5 ?w = (x, w')" by fastforce
  have "claims_ok (w_db ?w)" "CI_ClaimID ` set (t_claim_items (w_db ?w)) \<subseteq> CL_ID ` set (t_claims (w_db ?w))"
    by (simp_all add: claimable_ok) (simp add: claimable_def ledger_7_def empty_db_def)
  from Claim_refused_is_undone [OF this(1) _ _ this(2) _ run] have "user_spendable (w_db w') 3 = user_spendable claimable 3"
    "stampless (w_db w') = stampless claimable" by simp_all
  moreover have "user_spendable claimable 3 = 7" by (simp add: user_spendable_def claimable_def ledger_7_def)
  ultimately show ?thesis by (simp add: run)
qed

end
