(* ===== verification/AuthProps.thy ===== *)
theory AuthProps
  imports AuthFacts Settlement
begin

text \<open>
  The properties of the accounts: refresh tokens rotate, access tokens validate, no sequence of
  requests breaks the uniqueness of accounts, registration and login check what they must, and a wallet is
  linked to one user.
\<close>

section \<open>The library and a few accounts\<close>

text \<open>The documented behaviour of the JWT library: a token that was signed with a key is parsed with the key before it expires.\<close>

definition jwt_sound :: "AuthLib \<Rightarrow> bool" where
  "jwt_sound lib \<longleftrightarrow> (\<forall>key c token keyfunc t. LB_jwtSign lib key c = Inr token \<longrightarrow> keyfunc True = Inr key \<longrightarrow>
     t < AC_ExpiresAt c \<longrightarrow> LB_jwtParse lib token keyfunc t = Inr (c, True))"

section \<open>Refresh tokens\<close>

lemma generateNonce_Inr [run_simps]:
  "generateNonce w = (Inr s, w') \<longleftrightarrow> env_fault (w_env w) (w_tick w) = None \<and>
    s = hexDigits 64 (env_rand (w_env w) (w_tick w)) \<and> w' = tick w"
  by (auto simp: generateNonce_def bnd_Inr randomNat_Inr ret_Inr)

definition access_claims :: "User \<Rightarrow> time \<Rightarrow> time \<Rightarrow> AccessClaims" where
  "access_claims u expires issued = \<lparr>AC_UserID = uuidText (U_ID u), AC_Role = U_Role u, AC_ExpiresAt = expires,
     AC_IssuedAt = issued, AC_Subject = uuidText (U_ID u)\<rparr>"

lemma issue_Inr:
  assumes "issueTokenPairTx s u w = (Inr tp, w')"
  shows "\<exists>new n. RT_UserID new = U_ID u \<and> RT_TokenHash new = hashToken (TP_RefreshToken tp) \<and>
    RT_ExpiresAt new = env_clock (w_env w) (Suc (Suc (Suc (w_tick w)))) + AU_refreshTTL s \<and>
    LB_jwtSign (AU_lib s) (AU_accessSecret s)
      (access_claims u (numeric_date (env_clock (w_env w) (w_tick w) + AU_accessTTL s)) n) = Inr (TP_AccessToken tp) \<and>
    refresh_conflict (t_refresh_tokens (w_db w)) new = None \<and>
    w_db w' = (w_db w)\<lparr>t_refresh_tokens := t_refresh_tokens (w_db w) @ [new]\<rparr> \<and> w_env w' = w_env w"
proof -
  let ?t = "w_tick w"
  let ?new = "\<lparr>RT_ID = env_uuid (w_env w) (Suc (Suc (Suc (Suc ?t)))), RT_UserID = U_ID u,
     RT_TokenHash = hashToken (hexDigits 64 (env_rand (w_env w) (Suc (Suc ?t)))),
     RT_ExpiresAt = env_clock (w_env w) (Suc (Suc (Suc ?t))) + AU_refreshTTL s, RT_CreatedAt = env_clock (w_env w) (Suc (Suc (Suc (Suc ?t))))\<rparr>"
  let ?c = "access_claims u (numeric_date (env_clock (w_env w) ?t + AU_accessTTL s)) (numeric_date (env_clock (w_env w) (Suc ?t)))"
  from assms obtain access where a: "LB_jwtSign (AU_lib s) (AU_accessSecret s) ?c = Inr access"
    by (auto simp: issueTokenPairTx_def access_claims_def bnd_Inr now_Inr fail_Inr split: sum.splits)
  with assms have tp: "tp = \<lparr>TP_AccessToken = access, TP_RefreshToken = hexDigits 64 (env_rand (w_env w) (Suc (Suc ?t))),
      TP_ExpiresIn = AU_accessTTL s sdiv second\<rparr>"
    and rest: "refresh_conflict (t_refresh_tokens (w_db w)) ?new = None"
      "w_db w' = (w_db w)\<lparr>t_refresh_tokens := t_refresh_tokens (w_db w) @ [?new]\<rparr>" "w_env w' = w_env w"
    by (simp_all add: issueTokenPairTx_def access_claims_def bnd_Inr now_Inr ret_Inr generateNonce_Inr insert_row_Inr)
  show ?thesis
    by (intro exI [of _ ?new] exI [of _ "numeric_date (env_clock (w_env w) (Suc ?t))"] conjI) (use a tp rest in simp_all)
qed

lemma user_by_idD: "user_by_id uid d = Some u \<Longrightarrow> u \<in> set (t_users d) \<and> U_ID u = uid \<and> live u"
  using first_by_SomeD(1,2) unfolding user_by_id_def by fastforce

lemma Refresh_Inr:
  assumes "RefreshContext s raw w = (Inr tp, w')"
  shows "\<exists>old u w1 n. refresh_by_hash (hashToken raw) (w_db w) = Some old \<and> env_clock (w_env w) n \<le> RT_ExpiresAt old \<and>
    user_by_id (RT_UserID old) (w_db w) = Some u \<and>
    w_db w1 = (w_db w)\<lparr>t_refresh_tokens := filter (\<lambda>r. RT_ID r \<noteq> RT_ID old) (t_refresh_tokens (w_db w))\<rparr> \<and>
    (\<exists>w2. issueTokenPairTx s u w1 = (Inr tp, w2) \<and> w_db w' = w_db w2)"
proof -
  from assms have "transaction (rotate_token s (hashToken raw)) w = (Inr tp, w')"
    by (auto simp: RefreshContext_def Let_def handle_Inr bnd_Inr fail_Inr ret_Inr split: if_split_asm)
  from transaction_Inr [OF this] obtain w2 where run: "rotate_token s (hashToken raw) w = (Inr tp, w2)" "w_db w' = w_db w2" by blast
  from run(1) obtain old u where o: "refresh_by_hash (hashToken raw) (w_db w) = Some old"
    "env_clock (w_env w) (Suc (w_tick w)) \<le> RT_ExpiresAt old" "user_by_id (RT_UserID old) (w_db w) = Some u"
    and i: "issueTokenPairTx s u ((tick (tick (tick (tick w))))\<lparr>w_db := t_refresh_tokens_update
       (filter (\<lambda>r. RT_ID r \<noteq> RT_ID old)) (w_db w)\<rparr>) = (Inr tp, w2)"
    by (auto simp: rotate_token_def handle_Inr orElse_query_Inr bnd_Inr fail_Inr now_Inr delete_tokens_def delete_where_Inr
        split: if_split_asm)
  show ?thesis
    by (rule exI [of _ old], rule exI [of _ u], rule exI, rule exI [of _ "Suc (w_tick w)"], intro conjI exI)
      (use o i run(2) in auto)
qed

text \<open>C29. A refresh token works once: it must be on record and not expired, it is replaced by a new one of the
  same user and nothing else changes, and presenting it again fails as long as no other token has
  the same digest.\<close>

theorem Refresh_rotates:
  assumes "auth_ok (w_db w)" and "RefreshContext s raw w = (Inr tp, w')"
  shows "\<exists>old u new. old \<in> set (t_refresh_tokens (w_db w)) \<and> RT_TokenHash old = hashToken raw \<and>
    (\<exists>n. env_clock (w_env w) n \<le> RT_ExpiresAt old) \<and>
    u \<in> set (t_users (w_db w)) \<and> U_ID u = RT_UserID old \<and> live u \<and>
    RT_UserID new = RT_UserID old \<and> RT_TokenHash new = hashToken (TP_RefreshToken tp) \<and>
    w_db w' = (w_db w)\<lparr>t_refresh_tokens :=
      filter (\<lambda>r. RT_TokenHash r \<noteq> hashToken raw) (t_refresh_tokens (w_db w)) @ [new]\<rparr> \<and>
    (hashToken (TP_RefreshToken tp) \<noteq> hashToken raw \<longrightarrow>
      (\<forall>w2. w_db w2 = w_db w' \<longrightarrow> (\<exists>e. fst (RefreshContext s raw w2) = Inl e)))"
proof -
  let ?ts = "t_refresh_tokens (w_db w)"
  from Refresh_Inr [OF assms(2)] obtain old u w1 w2 n where
    old: "refresh_by_hash (hashToken raw) (w_db w) = Some old" and n: "env_clock (w_env w) n \<le> RT_ExpiresAt old"
    and u: "user_by_id (RT_UserID old) (w_db w) = Some u"
    and w1: "w_db w1 = (w_db w)\<lparr>t_refresh_tokens := filter (\<lambda>r. RT_ID r \<noteq> RT_ID old) ?ts\<rparr>"
    and i: "issueTokenPairTx s u w1 = (Inr tp, w2)" "w_db w' = w_db w2" by blast
  from first_by_SomeD(1,2) [OF old [unfolded refresh_by_hash_def]] have o: "old \<in> set ?ts" "RT_TokenHash old = hashToken raw" .
  from issue_Inr [OF i(1)] obtain new where new: "RT_UserID new = U_ID u" "RT_TokenHash new = hashToken (TP_RefreshToken tp)"
    "w_db w2 = (w_db w1)\<lparr>t_refresh_tokens := t_refresh_tokens (w_db w1) @ [new]\<rparr>" by blast
  have "filter (\<lambda>r. RT_ID r \<noteq> RT_ID old) ?ts = filter (\<lambda>r. RT_TokenHash r \<noteq> hashToken raw) ?ts"
  proof (rule filter_cong [OF refl])
    fix r assume "r \<in> set ?ts"
    with o assms(1) distinct_map_unique [of RT_ID ?ts r old] distinct_map_unique [of RT_TokenHash ?ts r old]
    show "(RT_ID r \<noteq> RT_ID old) = (RT_TokenHash r \<noteq> hashToken raw)" by (auto simp: auth_ok_def)
  qed
  then have d: "w_db w' = (w_db w)\<lparr>t_refresh_tokens := filter (\<lambda>r. RT_TokenHash r \<noteq> hashToken raw) ?ts @ [new]\<rparr>"
    by (simp add: i(2) new(3) w1)
  have again: "\<exists>e. fst (RefreshContext s raw w3) = Inl e"
    if "hashToken (TP_RefreshToken tp) \<noteq> hashToken raw" "w_db w3 = w_db w'" for w3
  proof (cases "RefreshContext s raw w3")
    case (Pair y w4)
    show ?thesis
    proof (cases y)
      case (Inr tp2)
      from Refresh_Inr [OF Pair [unfolded Inr]] that(2) obtain old2 where
        "refresh_by_hash (hashToken raw) (w_db w') = Some old2" by metis
      from first_by_SomeD(1,2) [OF this [unfolded refresh_by_hash_def]] that(1) new(2) have False by (auto simp: d)
      then show ?thesis ..
    qed (simp add: Pair)
  qed
  from user_by_idD [OF u] have "u \<in> set (t_users (w_db w))" "U_ID u = RT_UserID old" "live u" by simp_all
  with o n new(1,2) d again show ?thesis by (intro exI [of _ old] exI [of _ u] exI [of _ new]) auto
qed

text \<open>A user with a refresh token, a library that signs the claims of a viewer at time 0, and the services.\<close>

definition toy_claims :: "string \<Rightarrow> AccessClaims" where
  "toy_claims uid = \<lparr>AC_UserID = uid, AC_Role = RoleViewer, AC_ExpiresAt = 900 * second, AC_IssuedAt = 0, AC_Subject = uid\<rparr>"

lemma toy_claims_expire: "c = toy_claims (AC_UserID c) \<Longrightarrow> AC_ExpiresAt c = 900 * second"
  by (cases c) (simp add: toy_claims_def)

definition toy_lib :: AuthLib where
  "toy_lib = \<lparr>LB_eth = toy_eth, LB_bcryptHash = (\<lambda>p n. Inr (''h'' @ p)), LB_bcryptCompare = (\<lambda>h p. h = ''h'' @ p),
     LB_jwtSign = (\<lambda>key c. if c = toy_claims (AC_UserID c) then Inr (AC_UserID c) else Inl Panic),
     LB_jwtParse = (\<lambda>token k t. case k True of Inl e \<Rightarrow> Inl e
       | Inr key \<Rightarrow> if t < 900 * second then Inr (toy_claims token, True) else Inl Panic),
     LB_recover = (\<lambda>m s. Some ''0xA''), LB_rfc3339 = (\<lambda>t. []), LB_twitchExchange = (\<lambda>c n. Inl Panic),
     LB_googleExchange = (\<lambda>c n. Inl Panic), LB_twitchUsers = (\<lambda>t n. Inl Panic), LB_googleUserinfo = (\<lambda>t n. Inl Panic)\<rparr>"

definition toy_auth :: AuthService where
  "toy_auth = \<lparr>AU_lib = toy_lib, AU_accessSecret = ''a'', AU_refreshSecret = ''r'', AU_accessTTL = 900 * second, AU_refreshTTL = 9999,
     AU_tokenEncryptionKey = []\<rparr>"

definition account_3 :: db where
  "account_3 = empty_db\<lparr>t_users := [new_user (Some ''ann'') (Some ''a@x'') None None RoleViewer True 0 3],
     t_refresh_tokens := [\<lparr>RT_ID = 9, RT_UserID = 3, RT_TokenHash = hashToken ''old'', RT_ExpiresAt = 99, RT_CreatedAt = 0\<rparr>]\<rparr>"

lemma account_3_ok: "auth_ok account_3"
  by (simp add: auth_ok_def users_ok_def providers_ok_def account_3_def empty_db_def)

theorem Refresh_rotates_witness:
  "\<exists>tp w'. RefreshContext toy_auth ''old'' (start (\<lambda>n. 0) account_3) = (Inr tp, w') \<and>
     map RT_UserID (t_refresh_tokens (w_db w')) = [3]"
proof -
  let ?w = "start (\<lambda>n. 0) account_3"
  have "\<exists>tp w'. RefreshContext toy_auth ''old'' ?w = (Inr tp, w')"
    by (simp add: RefreshContext_def rotate_token_def issueTokenPairTx_def numeric_date_def second_def refresh_by_hash_def user_by_id_def first_by_def
      delete_tokens_def generateNonce_def randomNat_def refresh_conflict_def dup_if_def run_defs
      account_3_def empty_db_def new_user_def live_def toy_auth_def toy_lib_def toy_claims_def Let_def del: hexDigits.simps)
  then obtain tp w' where run: "RefreshContext toy_auth ''old'' ?w = (Inr tp, w')" by blast
  from Refresh_rotates [OF _ run] show ?thesis
    by (auto simp: account_3_ok run) (auto simp: account_3_def empty_db_def)
qed

section \<open>Access tokens\<close>

text \<open>The access token of a pair validates, until the whole second in which it expires, as the user and role it was issued for.\<close>

theorem token_pair_validates:
  assumes "jwt_sound (AU_lib s)" and "issueTokenPairTx s u w = (Inr tp, w')"
    and "env_clock (w_env w2) (w_tick w2) < numeric_date (env_clock (w_env w) (w_tick w) + AU_accessTTL s)"
  shows "\<exists>c. ValidateAccessToken s (TP_AccessToken tp) w2 = (Inr c, tick w2) \<and>
    AC_UserID c = uuidText (U_ID u) \<and> AC_Subject c = uuidText (U_ID u) \<and> AC_Role c = U_Role u"
proof -
  from issue_Inr [OF assms(2)] obtain n where "LB_jwtSign (AU_lib s) (AU_accessSecret s)
      (access_claims u (numeric_date (env_clock (w_env w) (w_tick w) + AU_accessTTL s)) n) = Inr (TP_AccessToken tp)" by blast
  with assms(1,3) have "LB_jwtParse (AU_lib s) (TP_AccessToken tp)
      (\<lambda>hmac. if hmac then Inr (AU_accessSecret s) else Inl (Errorf ''unexpected signing method'')) (env_clock (w_env w2) (w_tick w2)) =
      Inr (access_claims u (numeric_date (env_clock (w_env w) (w_tick w) + AU_accessTTL s)) n, True)"
    unfolding jwt_sound_def by (simp add: access_claims_def)
  then show ?thesis by (simp add: ValidateAccessToken_def bnd_def now_def ret_def access_claims_def)
qed

theorem token_pair_validates_witness:
  "\<exists>tp w' c. issueTokenPairTx toy_auth (new_user None None None None RoleViewer True 0 3) (start (\<lambda>n. 0) empty_db) = (Inr tp, w') \<and>
     ValidateAccessToken toy_auth (TP_AccessToken tp) w' = (Inr c, tick w') \<and> AC_Role c = RoleViewer"
proof -
  let ?w = "start (\<lambda>n. 0) empty_db" and ?u = "new_user None None None None RoleViewer True 0 3"
  have "\<exists>tp w'. issueTokenPairTx toy_auth ?u ?w = (Inr tp, w')"
    by (simp add: issueTokenPairTx_def numeric_date_def second_def generateNonce_def randomNat_def refresh_conflict_def dup_if_def run_defs
      empty_db_def new_user_def toy_auth_def toy_lib_def toy_claims_def del: hexDigits.simps)
  then obtain tp w' where run: "issueTokenPairTx toy_auth ?u ?w = (Inr tp, w')" by blast
  have "jwt_sound (AU_lib toy_auth)"
    by (auto simp: jwt_sound_def toy_auth_def toy_lib_def split: if_splits dest: toy_claims_expire)
  moreover from issue_Inr [OF run] have "w_env w' = w_env ?w" by blast
  then have "env_clock (w_env w') (w_tick w') < numeric_date (env_clock (w_env ?w) (w_tick ?w) + AU_accessTTL toy_auth)"
    by (simp add: toy_auth_def numeric_date_def second_def)
  ultimately show ?thesis using token_pair_validates [OF _ run, of w'] run by (auto simp: new_user_def)
qed

section \<open>Sequences of requests\<close>

text \<open>Whatever account requests are served and whatever fails in them: no two users share an email address
  or a name, no provider account in use belongs to two rows, and nobody has two wallets.\<close>

lemma auth_requests_invariant:
  assumes "auth_ok (w_db w)"
  shows "let d = w_db (serve (auth_op em ex) rs w) in auth_ok d \<and>
    (\<forall>u \<in> set (t_users d). \<forall>v \<in> set (t_users d). U_Email u \<noteq> None \<and> U_Email u = U_Email v \<longrightarrow> u = v) \<and>
    (\<forall>p \<in> set (t_auth_providers d). \<forall>q \<in> set (t_auth_providers d). live_provider p \<and> live_provider q \<and>
       AP_Provider p = AP_Provider q \<and> (AP_ProviderID p = AP_ProviderID q \<or> AP_Provider p = ProviderWeb3 \<and> AP_UserID p = AP_UserID q) \<longrightarrow>
       p = q)"
proof -
  let ?d = "w_db (serve (auth_op em ex) rs w)"
  have ok: "auth_ok ?d" by (rule accounts.serve_inv [OF assms])
  have u: "u = v" if "u \<in> set (t_users ?d)" "v \<in> set (t_users ?d)" "U_Email u \<noteq> None" "U_Email u = U_Email v" for u v
  proof -
    have "users_clash u v" unfolding users_clash_def using that(3,4) by blast
    with ok that(1,2) have "U_ID u = U_ID v" unfolding auth_ok_def users_ok_def by blast
    with ok that(1,2) distinct_map_unique [of U_ID "t_users ?d" u v] show ?thesis by (simp add: auth_ok_def users_ok_def)
  qed
  have p: "p = q" if "p \<in> set (t_auth_providers ?d)" "q \<in> set (t_auth_providers ?d)" "providers_clash p q" for p q
  proof -
    from ok that have "AP_ID p = AP_ID q" unfolding auth_ok_def providers_ok_def by blast
    with ok that(1,2) distinct_map_unique [of AP_ID "t_auth_providers ?d" p q] show ?thesis by (simp add: auth_ok_def providers_ok_def)
  qed
  show ?thesis unfolding Let_def using ok u p unfolding providers_clash_def live_provider_def by blast
qed

definition toy_mail :: EmailAuthService where
  "toy_mail = \<lparr>ES_auth = toy_lib, ES_frontendURL = ''https://t'', ES_send = (\<lambda>_ _ _ _. Inr ())\<rparr>"

definition toy_extension :: ExtensionService where
  "toy_extension = \<lparr>EX_auth = toy_auth, EX_secret = ''czNjcjN0'',
     EX_parse = (\<lambda>token k t. case k True of Inl e \<Rightarrow> Inl e | Inr key \<Rightarrow> Inr \<lparr>EC_UserID = token, EC_ChannelID = ''c'', EC_Role = ''viewer''\<rparr>),
     EX_parseReceipt = (\<lambda>receipt k t. case k True of Inl e \<Rightarrow> Inl e | Inr key \<Rightarrow>
       Inr \<lparr>RP_TransactionID = ''x1'', RP_UserID = receipt, RP_SKU = ''s'', RP_Amount = 30, RP_Type = ''bits''\<rparr>)\<rparr>"

section \<open>Registration and login\<close>

definition email_taken :: "string \<Rightarrow> db \<Rightarrow> bool" where
  "email_taken email d \<longleftrightarrow> (\<exists>u \<in> set (t_users d). live u \<and> U_Email u = Some email)"

definition username_taken :: "string \<Rightarrow> db \<Rightarrow> bool" where
  "username_taken name d \<longleftrightarrow> (\<exists>u \<in> set (t_users d). live u \<and> U_Username u = Some name)"

lemma count_taken:
  "0 < count_users (\<lambda>u. U_Email u = Some email) d \<longleftrightarrow> email_taken email d"
  "0 < count_users (\<lambda>u. U_Username u = Some name) d \<longleftrightarrow> username_taken name d"
  by (auto simp: count_users_def email_taken_def username_taken_def filter_empty_conv)

lemma query_calm: "no_faults w \<Longrightarrow> query f w = (Inr (f (w_db w)), tick w)"
  by (simp add: query_def stmt_def tick_def)

lemma query_same: "query f w = (y, w') \<Longrightarrow> w_db w' = w_db w"
  by (auto simp: query_def stmt_def split: option.splits)

text \<open>The rows of a new account.\<close>

lemma register_rows_Inr:
  assumes "register_rows s i hash w = (Inr (u, tp), w')"
  shows "\<exists>ap rt. u = new_user (Some (RI_Username i)) (Some (RI_Email i)) (Some hash) None RoleViewer False (U_CreatedAt u) (U_ID u) \<and>
    ap = new_provider (U_ID u) ProviderEmail (RI_Email i) (AP_CreatedAt ap) (AP_ID ap) \<and>
    RT_UserID rt = U_ID u \<and> RT_TokenHash rt = hashToken (TP_RefreshToken tp) \<and>
    w_db w' = (w_db w)\<lparr>t_users := t_users (w_db w) @ [u], t_auth_providers := t_auth_providers (w_db w) @ [ap],
      t_refresh_tokens := t_refresh_tokens (w_db w) @ [rt]\<rparr>"
proof -
  from assms obtain w1 ap w2 where
    u: "create_user (new_user (Some (RI_Username i)) (Some (RI_Email i)) (Some hash) None RoleViewer False) w = (Inr u, w1)"
    and ap: "create_provider (new_provider (U_ID u) ProviderEmail (RI_Email i)) w1 = (Inr ap, w2)"
    and t: "issueTokenPairTx s u w2 = (Inr tp, w')"
    by (auto simp: register_rows_def bnd_Inr ret_Inr)
  from issue_Inr [OF t] obtain rt where rt: "RT_UserID rt = U_ID u" "RT_TokenHash rt = hashToken (TP_RefreshToken tp)"
    "w_db w' = (w_db w2)\<lparr>t_refresh_tokens := t_refresh_tokens (w_db w2) @ [rt]\<rparr>" by blast
  from u ap rt show ?thesis
    by (intro exI [of _ ap] exI [of _ rt]) (cases "w_db w"; auto simp: create_user_def create_provider_def insert_row_Inr new_user_def new_provider_def)
qed

lemma Register_decides:
  assumes "RegisterContext s i w = (out, w')"
  shows "(\<forall>e. out = Inl e \<longrightarrow> w_db w' = w_db w) \<and>
    (no_faults w \<and> email_taken (RI_Email i) (w_db w) \<longrightarrow> out = Inl (AuthE ErrEmailExists)) \<and>
    (no_faults w \<and> \<not> email_taken (RI_Email i) (w_db w) \<and> username_taken (RI_Username i) (w_db w) \<longrightarrow>
       out = Inl (AuthE ErrUsernameExists)) \<and>
    (\<forall>u tp. out = Inr (u, tp) \<longrightarrow> \<not> email_taken (RI_Email i) (w_db w) \<and> \<not> username_taken (RI_Username i) (w_db w) \<and>
       (\<exists>hash n w1 w2. LB_bcryptHash (AU_lib s) (RI_Password i) n = Inr hash \<and> w_db w1 = w_db w \<and>
          register_rows s i hash w1 = (Inr (u, tp), w2) \<and> w_db w' = w_db w2))"
proof (intro conjI allI impI)
  fix e assume "out = Inl e"
  with assms show "w_db w' = w_db w"
    by (auto simp: RegisterContext_def bnd_run fail_run external_run dest!: query_same transaction_Inl split: if_split_asm)
next
  assume "no_faults w \<and> email_taken (RI_Email i) (w_db w)"
  with assms show "out = Inl (AuthE ErrEmailExists)"
    by (auto simp: RegisterContext_def bnd_run fail_run query_calm count_taken)
next
  assume "no_faults w \<and> \<not> email_taken (RI_Email i) (w_db w) \<and> username_taken (RI_Username i) (w_db w)"
  with assms show "out = Inl (AuthE ErrUsernameExists)"
    by (auto simp: RegisterContext_def bnd_run fail_run query_calm count_taken)
next
  fix u tp assume out: "out = Inr (u, tp)"
  with assms obtain hash where h: "LB_bcryptHash (AU_lib s) (RI_Password i) (Suc (Suc (w_tick w))) = Inr hash"
    and t: "transaction (register_rows s i hash) (tick (tick (tick w))) = (Inr (u, tp), w')"
    and free: "\<not> email_taken (RI_Email i) (w_db w)" "\<not> username_taken (RI_Username i) (w_db w)"
    by (auto simp: RegisterContext_def run_simps count_taken [symmetric] split: if_split_asm)
  from free show "\<not> email_taken (RI_Email i) (w_db w)" "\<not> username_taken (RI_Username i) (w_db w)" .
  from transaction_Inr [OF t] h show "\<exists>hash n w1 w2. LB_bcryptHash (AU_lib s) (RI_Password i) n = Inr hash \<and> w_db w1 = w_db w \<and>
          register_rows s i hash w1 = (Inr (u, tp), w2) \<and> w_db w' = w_db w2" by (metis tick_sel(1))
qed

text \<open>Login: only the account of the address, only with its password; otherwise always the same answer.\<close>

definition opens :: "AuthLib \<Rightarrow> string \<Rightarrow> string \<Rightarrow> User \<Rightarrow> bool" where
  "opens lib email password u \<longleftrightarrow> live u \<and> U_Email u = Some email \<and>
     (\<exists>hash. U_PasswordHash u = Some hash \<and> LB_bcryptCompare lib hash password)"

lemma user_by_email_unique:
  assumes "auth_ok d" and "u \<in> set (t_users d)" and "live u" and "U_Email u = Some email"
  shows "user_by_email email d = Some u"
  unfolding user_by_email_def
proof (rule first_by_unique)
  fix v assume v: "v \<in> set (t_users d)" "U_Email v = Some email \<and> live v"
  with assms have "users_clash u v" by (simp add: users_clash_def)
  with assms(1,2) v(1) have "U_ID u = U_ID v" unfolding auth_ok_def users_ok_def by blast
  with assms(1,2) v(1) distinct_map_unique [of U_ID "t_users d" v u] show "v = u" by (simp add: auth_ok_def users_ok_def)
qed (use assms in auto)

lemma orElse_query_run:
  "orElse (query f) e w = (y, w') \<Longrightarrow> w_db w' = w_db w"
  by (auto simp: orElse_def bnd_def query_def stmt_def ret_def fail_def tick_def split: option.splits sum.splits prod.splits if_splits)

lemma issue_Inl: "issueTokenPairTx s u w = (Inl e, w') \<Longrightarrow> w_db w' = w_db w"
  by (auto simp: issueTokenPairTx_def generateNonce_def randomNat_def now_def insert_row_def stmt_def bnd_run fail_run ret_run
      split: sum.splits option.splits if_splits)

lemma Login_fails: "LoginContext s email pw w = (Inl e, w') \<Longrightarrow> w_db w' = w_db w"
  by (auto simp: LoginContext_def handle_run bnd_run fail_run ret_run split: option.splits if_splits dest!: orElse_query_run issue_Inl)

lemma Login_Inr:
  assumes "LoginContext s email pw w = (Inr (u, tp), w')"
  shows "u \<in> set (t_users (w_db w)) \<and> opens (AU_lib s) email pw u \<and> issueTokenPairTx s u (tick w) = (Inr tp, w')"
proof -
  from assms obtain hash where u: "user_by_email email (w_db w) = Some u" and h: "U_PasswordHash u = Some hash"
    "LB_bcryptCompare (AU_lib s) hash pw" and i: "issueTokenPairTx s u (tick w) = (Inr tp, w')"
    unfolding LoginContext_def handle_Inr orElse_query_Inr
    by (auto simp: fail_Inr bnd_Inr ret_Inr split: option.split_asm if_split_asm)
  from first_by_SomeD(1,2) [OF u [unfolded user_by_email_def]] h i show ?thesis by (auto simp: opens_def)
qed

lemma Login_calm:
  assumes "auth_ok (w_db w)" and "u \<in> set (t_users (w_db w))" and "opens (AU_lib s) email pw u" and "no_faults w"
    and "LoginContext s email pw w = (out, w')"
  shows "out = (case fst (issueTokenPairTx s u (tick w)) of Inl e \<Rightarrow> Inl e | Inr tp \<Rightarrow> Inr (u, tp))"
proof -
  from assms(3) have "live u" "U_Email u = Some email" by (auto simp: opens_def)
  from user_by_email_unique [OF assms(1,2) this] assms(3,4,5) show ?thesis
    by (auto simp: LoginContext_def handle_def orElse_def bnd_def query_calm ret_def opens_def split: prod.splits sum.splits)
qed

lemma Login_refuses:
  assumes "\<nexists>u. u \<in> set (t_users (w_db w)) \<and> opens (AU_lib s) email pw u" and "LoginContext s email pw w = (out, w')"
  shows "out = Inl (AuthE ErrInvalidCredentials)"
proof (cases "orElse (query (user_by_email email)) RecordNotFound w")
  case (Pair y w1)
  show ?thesis
  proof (cases y)
    case (Inl e)
    with Pair assms(2) show ?thesis by (simp add: LoginContext_def handle_run fail_run)
  next
    case (Inr u)
    with Pair have "user_by_email email (w_db w) = Some u" by (simp add: orElse_query_Inr)
    from first_by_SomeD(1,2) [OF this [unfolded user_by_email_def]] assms(1)
    have "U_PasswordHash u = Some h \<Longrightarrow> \<not> LB_bcryptCompare (AU_lib s) h pw" for h by (auto simp: opens_def)
    with Pair Inr assms(2) show ?thesis by (auto simp: LoginContext_def handle_run fail_run split: option.splits)
  qed
qed

lemma Login_row:
  assumes row: "live u" "U_Email u = Some email" "U_PasswordHash u = Some hash"
    and ok: "auth_ok (w_db w2)" and u: "u \<in> set (t_users (w_db w2))"
  shows "(\<not> LB_bcryptCompare (AU_lib s) hash pw \<longrightarrow> fst (LoginContext s email pw w2) = Inl (AuthE ErrInvalidCredentials) \<and>
       w_db (snd (LoginContext s email pw w2)) = w_db w2) \<and>
    (no_faults w2 \<longrightarrow> LB_bcryptCompare (AU_lib s) hash pw \<longrightarrow> fst (LoginContext s email pw w2) =
       (case fst (issueTokenPairTx s u (tick w2)) of Inl e \<Rightarrow> Inl e | Inr tp' \<Rightarrow> Inr (u, tp'))) \<and>
    (\<forall>v tp'. fst (LoginContext s email pw w2) = Inr (v, tp') \<longrightarrow> v = u \<and> LB_bcryptCompare (AU_lib s) hash pw \<and>
       (\<exists>rt'. RT_UserID rt' = U_ID u \<and> RT_TokenHash rt' = hashToken (TP_RefreshToken tp') \<and>
          w_db (snd (LoginContext s email pw w2)) =
            (w_db w2)\<lparr>t_refresh_tokens := t_refresh_tokens (w_db w2) @ [rt']\<rparr>))"
proof (cases "LoginContext s email pw w2")
  case (Pair out w')
  have only: "v = u" if "v \<in> set (t_users (w_db w2))" "opens (AU_lib s) email pw v" for v
  proof -
    from that(2) have "live v" "U_Email v = Some email" by (auto simp: opens_def)
    from user_by_email_unique [OF ok that(1) this] user_by_email_unique [OF ok u row(1,2)] show ?thesis by simp
  qed
  have opens: "opens (AU_lib s) email pw u \<longleftrightarrow> LB_bcryptCompare (AU_lib s) hash pw" using row by (auto simp: opens_def)
  have "out = Inl (AuthE ErrInvalidCredentials) \<and> w_db w' = w_db w2" if "\<not> LB_bcryptCompare (AU_lib s) hash pw"
  proof -
    have "\<nexists>v. v \<in> set (t_users (w_db w2)) \<and> opens (AU_lib s) email pw v" using only opens that by blast
    from Login_refuses [OF this Pair] Login_fails Pair show ?thesis by blast
  qed
  moreover have "out = (case fst (issueTokenPairTx s u (tick w2)) of Inl e \<Rightarrow> Inl e | Inr tp' \<Rightarrow> Inr (u, tp'))"
    if "no_faults w2" "LB_bcryptCompare (AU_lib s) hash pw"
    using Login_calm [OF ok u _ that(1) Pair] opens that(2) by blast
  moreover have "v = u \<and> LB_bcryptCompare (AU_lib s) hash pw \<and> (\<exists>rt'. RT_UserID rt' = U_ID u \<and>
      RT_TokenHash rt' = hashToken (TP_RefreshToken tp') \<and> w_db w' = (w_db w2)\<lparr>t_refresh_tokens := t_refresh_tokens (w_db w2) @ [rt']\<rparr>)"
    if "out = Inr (v, tp')" for v tp'
  proof -
    from Login_Inr [OF Pair [unfolded that]] have v: "v \<in> set (t_users (w_db w2))" "opens (AU_lib s) email pw v"
      "issueTokenPairTx s v (tick w2) = (Inr tp', w')" by simp_all
    from only [OF v(1,2)] have "v = u" .
    with v(2) opens issue_Inr [OF v(3)] show ?thesis by auto
  qed
  ultimately show ?thesis unfolding Pair fst_conv snd_conv by blast
qed

text \<open>C31. Registration makes an account only when no account in use has the address or the name, and says which one is taken
  when nothing else fails; the account is a viewer's with the digest of the password, an address that is not verified and one
  refresh token; a registration that fails changes nothing. Afterwards, as long as the row of the account is as it was, its address opens
  it with a password that the digest accepts and is refused, without any change, with every other one.\<close>

theorem Register_then_Login:
  assumes "RegisterContext s i w = (out, w')"
  shows "(\<forall>e. out = Inl e \<longrightarrow> w_db w' = w_db w) \<and>
    (no_faults w \<longrightarrow> (\<exists>v \<in> set (t_users (w_db w)). live v \<and> U_Email v = Some (RI_Email i)) \<longrightarrow> out = Inl (AuthE ErrEmailExists)) \<and>
    (no_faults w \<longrightarrow> \<not> (\<exists>v \<in> set (t_users (w_db w)). live v \<and> U_Email v = Some (RI_Email i)) \<longrightarrow>
       (\<exists>v \<in> set (t_users (w_db w)). live v \<and> U_Username v = Some (RI_Username i)) \<longrightarrow> out = Inl (AuthE ErrUsernameExists)) \<and>
    (\<forall>u tp. out = Inr (u, tp) \<longrightarrow>
       (\<forall>v \<in> set (t_users (w_db w)). live v \<longrightarrow> U_Email v \<noteq> Some (RI_Email i) \<and> U_Username v \<noteq> Some (RI_Username i)) \<and>
       (\<exists>hash n ap rt. LB_bcryptHash (AU_lib s) (RI_Password i) n = Inr hash \<and>
          u = new_user (Some (RI_Username i)) (Some (RI_Email i)) (Some hash) None RoleViewer False (U_CreatedAt u) (U_ID u) \<and>
          ap = new_provider (U_ID u) ProviderEmail (RI_Email i) (AP_CreatedAt ap) (AP_ID ap) \<and>
          RT_UserID rt = U_ID u \<and> RT_TokenHash rt = hashToken (TP_RefreshToken tp) \<and>
          w_db w' = (w_db w)\<lparr>t_users := t_users (w_db w) @ [u], t_auth_providers := t_auth_providers (w_db w) @ [ap],
            t_refresh_tokens := t_refresh_tokens (w_db w) @ [rt]\<rparr> \<and>
          (\<forall>w2 pw. auth_ok (w_db w2) \<longrightarrow> u \<in> set (t_users (w_db w2)) \<longrightarrow>
             (\<not> LB_bcryptCompare (AU_lib s) hash pw \<longrightarrow> fst (LoginContext s (RI_Email i) pw w2) = Inl (AuthE ErrInvalidCredentials) \<and>
                w_db (snd (LoginContext s (RI_Email i) pw w2)) = w_db w2) \<and>
             (no_faults w2 \<longrightarrow> LB_bcryptCompare (AU_lib s) hash pw \<longrightarrow> fst (LoginContext s (RI_Email i) pw w2) =
                (case fst (issueTokenPairTx s u (tick w2)) of Inl e \<Rightarrow> Inl e | Inr tp' \<Rightarrow> Inr (u, tp'))) \<and>
             (\<forall>v tp'. fst (LoginContext s (RI_Email i) pw w2) = Inr (v, tp') \<longrightarrow> v = u \<and> LB_bcryptCompare (AU_lib s) hash pw \<and>
                (\<exists>rt'. RT_UserID rt' = U_ID u \<and> RT_TokenHash rt' = hashToken (TP_RefreshToken tp') \<and>
                   w_db (snd (LoginContext s (RI_Email i) pw w2)) =
                     (w_db w2)\<lparr>t_refresh_tokens := t_refresh_tokens (w_db w2) @ [rt']\<rparr>)))))"
  (is "_ \<and> _ \<and> _ \<and> (\<forall>u tp. _ \<longrightarrow> _ \<and> (\<exists>hash n ap rt. ?account u tp hash n ap rt))" is "_ \<and> _ \<and> _ \<and> ?made")
proof -
  note D = Register_decides [OF assms, unfolded email_taken_def username_taken_def]
  note R = D [THEN conjunct1] D [THEN conjunct2, THEN conjunct1] D [THEN conjunct2, THEN conjunct2, THEN conjunct1]
    D [THEN conjunct2, THEN conjunct2, THEN conjunct2]
  have ?made
  proof (intro allI impI)
    fix u tp assume out: "out = Inr (u, tp)"
    with R(4) obtain hash n w1 w2 where free: "\<forall>v \<in> set (t_users (w_db w)). live v \<longrightarrow> U_Email v \<noteq> Some (RI_Email i) \<and>
        U_Username v \<noteq> Some (RI_Username i)" and h: "LB_bcryptHash (AU_lib s) (RI_Password i) n = Inr hash"
      and w: "w_db w1 = w_db w" "w_db w' = w_db w2" and rows: "register_rows s i hash w1 = (Inr (u, tp), w2)" by blast
    from register_rows_Inr [OF rows] obtain ap rt where
      u: "u = new_user (Some (RI_Username i)) (Some (RI_Email i)) (Some hash) None RoleViewer False (U_CreatedAt u) (U_ID u)"
      and ap: "ap = new_provider (U_ID u) ProviderEmail (RI_Email i) (AP_CreatedAt ap) (AP_ID ap)"
      and rt: "RT_UserID rt = U_ID u" "RT_TokenHash rt = hashToken (TP_RefreshToken tp)"
      and d: "w_db w' = (w_db w)\<lparr>t_users := t_users (w_db w) @ [u], t_auth_providers := t_auth_providers (w_db w) @ [ap],
            t_refresh_tokens := t_refresh_tokens (w_db w) @ [rt]\<rparr>" unfolding w by blast
    have row: "live u" "U_Email u = Some (RI_Email i)" "U_PasswordHash u = Some hash"
      by (subst u, simp add: new_user_def live_def)+
    have "\<exists>hash n ap rt. ?account u tp hash n ap rt"
      by (rule exI [of _ hash], rule exI [of _ n], rule exI [of _ ap], rule exI [of _ rt], (rule conjI, fact)+, intro allI impI,
          rule Login_row [OF row])
    with free show "(\<forall>v \<in> set (t_users (w_db w)). live v \<longrightarrow> U_Email v \<noteq> Some (RI_Email i) \<and> U_Username v \<noteq> Some (RI_Username i)) \<and>
      (\<exists>hash n ap rt. ?account u tp hash n ap rt)" by (rule conjI)
  qed
  with R(1-3) show ?thesis by (intro conjI) (assumption | blast)+
qed

definition bob :: RegisterInput where
  "bob = \<lparr>RI_Username = ''bob'', RI_Email = ''b@x'', RI_Password = ''pw''\<rparr>"

definition user_3 :: db where
  "user_3 = account_3\<lparr>t_refresh_tokens := []\<rparr>"

theorem Register_then_Login_witness:
  "\<exists>u tp w'. RegisterContext toy_auth bob (start (\<lambda>n. 0) user_3) = (Inr (u, tp), w') \<and>
     fst (LoginContext toy_auth ''b@x'' ''pv'' w') = Inl (AuthE ErrInvalidCredentials) \<and>
     fst (RegisterContext toy_auth bob w') = Inl (AuthE ErrEmailExists)"
proof -
  let ?w = "start (\<lambda>n. 0) user_3"
  have "\<exists>u tp w'. RegisterContext toy_auth bob ?w = (Inr (u, tp), w') \<and> no_faults w'"
    by (simp add: RegisterContext_def register_rows_def count_users_def create_user_def create_provider_def user_conflict_def
      user_widths_def users_clash_def provider_conflict_def provider_widths_def varchars_def opt_width_def dup_if_def cont_def
      issueTokenPairTx_def numeric_date_def second_def generateNonce_def randomNat_def refresh_conflict_def run_defs no_faults_def bob_def user_3_def
      account_3_def empty_db_def new_user_def new_provider_def live_def toy_auth_def toy_lib_def toy_claims_def Let_def del: hexDigits.simps)
  then obtain u tp w' where run: "RegisterContext toy_auth bob ?w = (Inr (u, tp), w')" and nf: "no_faults w'" by blast
  have ok: "auth_ok (w_db w')" by (rule preservesD [OF preserves_register _ run]) (use account_3_ok in \<open>simp add: user_3_def auth_ok_def\<close>)
  have toy: "LB_bcryptHash (AU_lib toy_auth) p n = Inr (''h'' @ p)" "LB_bcryptCompare (AU_lib toy_auth) h p \<longleftrightarrow> h = ''h'' @ p" for h p n
    by (simp_all add: toy_auth_def toy_lib_def)
  note made = Register_then_Login [OF run, THEN conjunct2, THEN conjunct2, THEN conjunct2, THEN spec, THEN spec, THEN mp, OF refl,
    THEN conjunct2]
  from made obtain t j where u: "u = new_user (Some ''bob'') (Some ''b@x'') (Some ''hpw'') None RoleViewer False t j"
    and mem: "u \<in> set (t_users (w_db w'))" unfolding toy by (elim exE conjE) (simp add: bob_def)
  from made obtain hash where "Inr (''h'' @ RI_Password bob) = (Inr hash :: err + string)"
    and "\<forall>w2 pw. auth_ok (w_db w2) \<longrightarrow> u \<in> set (t_users (w_db w2)) \<longrightarrow> hash \<noteq> ''h'' @ pw \<longrightarrow>
      fst (LoginContext toy_auth (RI_Email bob) pw w2) = Inl (AuthE ErrInvalidCredentials)"
    unfolding toy by (elim exE conjE) (rule that, assumption, blast)
  from this(2) [rule_format, OF ok mem, of "''pv''"] this(1)
  have refused: "fst (LoginContext toy_auth ''b@x'' ''pv'' w') = Inl (AuthE ErrInvalidCredentials)" by (auto simp: bob_def)
  obtain out w2 where again: "RegisterContext toy_auth bob w' = (out, w2)" by (cases "RegisterContext toy_auth bob w'")
  have "\<exists>v \<in> set (t_users (w_db w')). live v \<and> U_Email v = Some (RI_Email bob)"
    using mem by (rule bexI [rotated]) (simp add: u new_user_def live_def bob_def)
  with Register_then_Login [OF again, THEN conjunct2, THEN conjunct1] nf have "out = Inl (AuthE ErrEmailExists)" by blast
  with run refused again show ?thesis by auto
qed

section \<open>Linking a wallet\<close>

lemma link_errors_Inr: "link_errors x w = (Inr u, w') \<longleftrightarrow> (\<exists>a. x w = (Inr a, w'))"
  by (auto simp: link_errors_def handle_Inr fail_Inr ret_Inr split: if_split_asm)

lemma link_rows_Inr:
  assumes "link_rows u nonce lookup addr w = (Inr x, w')"
  shows "(\<exists>p \<in> set (t_auth_providers (w_db w')). live_provider p \<and> AP_Provider p = ProviderWeb3 \<and> AP_UserID p = u \<and> AP_ProviderID p = addr) \<and>
    t_users (w_db w') = t_users (w_db w) \<and>
    t_web3_nonces (w_db w') = filter (\<lambda>n. \<not> (WN_Nonce n = nonce \<and> WN_Address n = lookup)) (t_web3_nonces (w_db w))"
proof -
  let ?found = "\<lambda>d. first_by AP_ID (\<lambda>p. AP_UserID p = u \<and> AP_Provider p = ProviderWeb3 \<and> AP_ProviderID p = addr) (t_auth_providers d)"
  define fin where "fin = (\<lambda>found :: AuthProvider option. case found of
       Some ap \<Rightarrow> link_errors (update_where t_auth_providers t_auth_providers_update providers_check
         (\<lambda>p. AP_ID p = AP_ID ap) (\<lambda>_ p. p\<lparr>AP_DeletedAt := None\<rparr>))
     | None \<Rightarrow> link_errors (create_provider (new_provider u ProviderWeb3 addr)))"
  from assms obtain w1 where
    w1: "t_web3_nonces (w_db w1) = filter (\<lambda>n. \<not> (WN_Nonce n = nonce \<and> WN_Address n = lookup)) (t_web3_nonces (w_db w))"
      "t_users (w_db w1) = t_users (w_db w)"
    and run0: "fin (?found (w_db w1)) w1 = (Inr x, w')"
  proof -
    assume goal: "\<And>w1. \<lbrakk>t_web3_nonces (w_db w1) = filter (\<lambda>n. \<not> (WN_Nonce n = nonce \<and> WN_Address n = lookup)) (t_web3_nonces (w_db w));
      t_users (w_db w1) = t_users (w_db w); fin (?found (w_db w1)) w1 = (Inr x, w')\<rbrakk> \<Longrightarrow> thesis"
    define clear where "clear = (\<lambda>a. bnd (update_where t_auth_providers t_auth_providers_update no_check
            (\<lambda>p. AP_UserID p = u \<and> AP_Provider p = ProviderWeb3 \<and> live_provider p)
            (\<lambda>_ p. p\<lparr>AP_DeletedAt := Some a\<rparr>)) (\<lambda>_. bnd (query ?found) fin))"
    from assms [unfolded link_rows_def fin_def [symmetric], folded clear_def] obtain a w2 where
      a: "clear a w2 = (Inr x, w')" and
      w2: "w_db w2 = t_web3_nonces_update (filter (\<lambda>n. \<not> (WN_Nonce n = nonce \<and> WN_Address n = lookup))) (w_db w)"
      by (simp only: bnd_Inr delete_nonces_def delete_where_Inr query_Inr now_Inr fail_Inr split: if_split_asm) fastforce
    note a = a [unfolded clear_def]
    from a obtain n w3 where w3: "update_where t_auth_providers t_auth_providers_update no_check
            (\<lambda>p. AP_UserID p = u \<and> AP_Provider p = ProviderWeb3 \<and> live_provider p)
            (\<lambda>_ p. p\<lparr>AP_DeletedAt := Some a\<rparr>) w2 = (Inr n, w3)" and f: "bnd (query ?found) fin w3 = (Inr x, w')"
      by (auto simp only: bnd_Inr)
    from f have f: "fin (?found (w_db (tick w3))) (tick w3) = (Inr x, w')" by (simp add: bnd_Inr query_Inr)
    show thesis by (rule goal [OF _ _ f]) (use w2 w3 in \<open>auto simp: update_where_Inr\<close>)
  qed
  note run = run0 [unfolded fin_def]
  show ?thesis
  proof (cases "?found (w_db w1)")
    case None
    with run w1 show ?thesis
      by (auto simp: link_errors_Inr create_provider_def insert_row_Inr new_provider_def live_provider_def)
  next
    case (Some ap)
    from first_by_SomeD(1,2) [OF Some] have ap: "ap \<in> set (t_auth_providers (w_db w1))" "AP_UserID ap = u"
      "AP_Provider ap = ProviderWeb3" "AP_ProviderID ap = addr" by auto
    from run Some have w': "w_db w' = t_auth_providers_update (update_rows (\<lambda>p. AP_ID p = AP_ID ap) (\<lambda>p. p\<lparr>AP_DeletedAt := None\<rparr>)) (w_db w1)"
      by (auto simp: link_errors_Inr update_where_Inr)
    have "ap\<lparr>AP_DeletedAt := None\<rparr> \<in> set (t_auth_providers (w_db w'))"
      unfolding w' by (simp add: set_update_rows) (use ap(1) in blast)
    with ap w1 w' show ?thesis by (intro conjI bexI [of _ "ap\<lparr>AP_DeletedAt := None\<rparr>"]) (simp_all add: live_provider_def)
  qed
qed

text \<open>C32. Linking a wallet needs a signature over an unexpired nonce of this address; it uses the nonce up, makes the
  wallet the only one of the user, and no wallet is in use by two users.\<close>

theorem LinkWallet_links:
  assumes "auth_ok (w_db w)" and "LinkWalletContext lib u i w = (Inr addr, w')"
  shows "(\<exists>n k. n \<in> set (t_web3_nonces (w_db w)) \<and> WN_Nonce n = LW_Nonce i \<and> WN_Address n = ToLower addr \<and>
       env_clock (w_env w) k \<le> WN_ExpiresAt n \<and>
       verifyEthSignature lib (siweMessage addr (LW_Nonce i) (LB_rfc3339 lib (WN_CreatedAt n))) (LW_Signature i) addr) \<and>
    t_web3_nonces (w_db w') = filter (\<lambda>n. \<not> (WN_Nonce n = LW_Nonce i \<and> WN_Address n = ToLower addr)) (t_web3_nonces (w_db w)) \<and>
    (\<forall>p \<in> set (t_auth_providers (w_db w')). live_provider p \<and> AP_Provider p = ProviderWeb3 \<longrightarrow>
       (AP_UserID p = u \<longleftrightarrow> AP_ProviderID p = addr)) \<and>
    (\<exists>p \<in> set (t_auth_providers (w_db w')). live_provider p \<and> AP_Provider p = ProviderWeb3 \<and> AP_UserID p = u) \<and>
    t_users (w_db w') = t_users (w_db w)"
proof -
  from assms(2) obtain n w1 where n: "nonce_of (LW_Nonce i) (ToLower addr) (w_db w) = Some n"
    "env_clock (w_env w) (Suc (w_tick w)) \<le> WN_ExpiresAt n"
    "verifyEthSignature lib (siweMessage addr (LW_Nonce i) (LB_rfc3339 lib (WN_CreatedAt n))) (LW_Signature i) addr"
    and tr: "transaction (link_rows u (LW_Nonce i) (ToLower addr) addr) (tick (tick w)) = (Inr (), w')"
    by (auto simp: LinkWalletContext_def Let_def bnd_Inr orElse_query_Inr now_Inr fail_Inr ret_Inr split: if_split_asm)
  from transaction_Inr [OF tr] obtain w2 where l: "link_rows u (LW_Nonce i) (ToLower addr) addr (tick (tick w)) = (Inr (), w2)"
    "w_db w' = w_db w2" by blast
  note L = link_rows_Inr [OF l(1), folded l(2)]
  from L obtain p0 where p0: "p0 \<in> set (t_auth_providers (w_db w'))" "live_provider p0" "AP_Provider p0 = ProviderWeb3"
    "AP_UserID p0 = u" "AP_ProviderID p0 = addr" by blast
  have ok: "auth_ok (w_db w')" using preservesD [OF preserves_link assms] .
  have "AP_UserID p = u \<longleftrightarrow> AP_ProviderID p = addr" if "p \<in> set (t_auth_providers (w_db w'))" "live_provider p" "AP_Provider p = ProviderWeb3" for p
  proof (cases "AP_ID p = AP_ID p0")
    case True
    with ok that(1) p0 distinct_map_unique [of AP_ID "t_auth_providers (w_db w')" p p0] show ?thesis
      by (auto simp: auth_ok_def providers_ok_def)
  next
    case False
    with ok that(1) p0(1) have "\<not> providers_clash p p0" by (simp add: auth_ok_def providers_ok_def)
    with that p0 show ?thesis by (auto simp: providers_clash_def live_provider_def)
  qed
  moreover have "n \<in> set (t_web3_nonces (w_db w))" "WN_Nonce n = LW_Nonce i" "WN_Address n = ToLower addr"
    using first_by_SomeD(1,2) [OF n(1) [unfolded nonce_of_def]] by auto
  ultimately show ?thesis using n(2,3) L p0(1-4) by auto
qed

definition wallet_account_3 :: db where
  "wallet_account_3 = account_3\<lparr>t_web3_nonces := [\<lparr>WN_ID = 12, WN_Nonce = ''n1'', WN_Address = ''0xa'', WN_ExpiresAt = 300, WN_CreatedAt = 0\<rparr>]\<rparr>"

definition signed_nonce :: LinkWalletInput where
  "signed_nonce = \<lparr>LW_Address = ''0xA'', LW_Nonce = ''n1'', LW_Signature = replicate 130 (CHR ''1'')\<rparr>"

lemma hexDecode_ones: "hexDecodeString (replicate (2 * n) (CHR ''1'')) = Some (replicate n 17)"
  by (induction n) (simp_all add: hex_value_def cont_def)

lemma signed_nonce_verifies: "verifyEthSignature toy_lib m (replicate 130 (CHR ''1'')) ''0xA''"
proof -
  have "hexDecodeString (replicate 130 (CHR ''1'')) = Some (replicate 65 17)" using hexDecode_ones [of 65] by simp
  moreover have "TrimPrefix (replicate 130 (CHR ''1'')) ''0x'' = replicate 130 (CHR ''1'')"
    by (simp add: TrimPrefix_def numeral_eq_Suc)
  ultimately show ?thesis by (simp add: verifyEthSignature_def toy_lib_def)
qed

theorem LinkWallet_links_witness:
  "\<exists>w'. LinkWalletContext toy_lib 3 signed_nonce (start (\<lambda>n. 0) wallet_account_3) = (Inr ''0xA'', w') \<and> t_web3_nonces (w_db w') = []"
proof -
  let ?w = "start (\<lambda>n. 0) wallet_account_3"
  have ok: "auth_ok (w_db ?w)" using account_3_ok by (simp add: auth_ok_def wallet_account_3_def)
  have "ToLower ''0xA'' = ''0xa''" by code_simp
  moreover have "IsHexAddress (LB_eth toy_lib) ''0xA''" "AddressHex (LB_eth toy_lib) (HexToAddress (LB_eth toy_lib) ''0xA'') = ''0xA''"
    by (simp_all add: toy_lib_def toy_eth_def cont_def)
  ultimately have "\<exists>w'. LinkWalletContext toy_lib 3 signed_nonce ?w = (Inr ''0xA'', w')"
    using signed_nonce_verifies
    by (simp add: LinkWalletContext_def link_rows_def link_errors_def nonce_of_def first_by_def delete_nonces_def create_provider_def
      provider_conflict_def provider_widths_def varchars_def dup_if_def run_defs Let_def signed_nonce_def
      wallet_account_3_def account_3_def empty_db_def new_provider_def cont_def update_rows_def)
  then obtain w' where run: "LinkWalletContext toy_lib 3 signed_nonce ?w = (Inr ''0xA'', w')" by blast
  from LinkWallet_links [OF ok run] have "t_web3_nonces (w_db w') = []"
    by (simp add: wallet_account_3_def signed_nonce_def ToLower_def lower_char_def cont_def)
  with run show ?thesis by blast
qed

end
