(* ===== verification/AccountProps.thy ===== *)
theory AccountProps
  imports AuthProps
begin

text \<open>
  Correctness of the reset of a password and its throttle, of shipping addresses and of purchases through the Twitch extension.
\<close>

section \<open>Password reset\<close>

lemma reset_by_hashD: "reset_by_hash h d = Some r \<Longrightarrow> r \<in> set (t_password_resets d) \<and> PR_TokenHash r = h"
  using first_by_SomeD(1,2) unfolding reset_by_hash_def by fastforce

lemma ResetPassword_Inr:
  assumes "ResetPassword s raw pw w = (Inr (), w')"
  shows "\<exists>r n m hashed. reset_by_hash (hashToken raw) (w_db w) = Some r \<and> env_clock (w_env w) n \<le> PR_ExpiresAt r \<and>
    LB_bcryptHash (ES_auth s) pw m = Inr hashed \<and>
    w_db w' = (w_db w)\<lparr>
      t_users := update_rows (\<lambda>u. U_Email u = Some (PR_Email r) \<and> live u) (\<lambda>u. u\<lparr>U_PasswordHash := Some hashed\<rparr>) (t_users (w_db w)),
      t_password_resets := filter (\<lambda>x. PR_ID x \<noteq> PR_ID r) (t_password_resets (w_db w))\<rparr>"
proof -
  from assms obtain r hashed where r: "reset_by_hash (hashToken raw) (w_db w) = Some r"
    "env_clock (w_env w) (Suc (w_tick w)) \<le> PR_ExpiresAt r" "LB_bcryptHash (ES_auth s) pw (Suc (Suc (w_tick w))) = Inr hashed"
    and tr: "transaction (bnd (update_users passwords_check (\<lambda>u. U_Email u = Some (PR_Email r))
           (\<lambda>u. u\<lparr>U_PasswordHash := Some hashed\<rparr>)) (\<lambda>_.
         bnd (delete_resets (\<lambda>r'. PR_ID r' = PR_ID r)) (\<lambda>_. ret ()))) (tick (tick (tick w))) = (Inr (), w')"
    by (auto simp: ResetPassword_def bnd_Inr orElse_query_Inr now_Inr fail_Inr external_def split: if_split_asm)
  from transaction_Inr [OF tr] have "w_db w' = (w_db w)\<lparr>
      t_users := update_rows (\<lambda>u. U_Email u = Some (PR_Email r) \<and> live u) (\<lambda>u. u\<lparr>U_PasswordHash := Some hashed\<rparr>) (t_users (w_db w)),
      t_password_resets := filter (\<lambda>x. PR_ID x \<noteq> PR_ID r) (t_password_resets (w_db w))\<rparr>"
    by (auto simp: bnd_Inr update_users_def update_where_Inr delete_resets_def delete_where_Inr ret_Inr)
  with r show ?thesis by blast
qed

text \<open>C36. A password reset needs a token on record that is not expired, sets the password of the token's address
  and nothing else, and uses the token up: it never works again.\<close>

theorem ResetPassword_once:
  assumes "auth_ok (w_db w)" and "ResetPassword s raw pw w = (Inr (), w')"
  shows "\<exists>r n m hashed. r \<in> set (t_password_resets (w_db w)) \<and> PR_TokenHash r = hashToken raw \<and>
    env_clock (w_env w) n \<le> PR_ExpiresAt r \<and> LB_bcryptHash (ES_auth s) pw m = Inr hashed \<and>
    w_db w' = (w_db w)\<lparr>
      t_users := map (\<lambda>u. if U_Email u = Some (PR_Email r) \<and> live u then u\<lparr>U_PasswordHash := Some hashed\<rparr> else u) (t_users (w_db w)),
      t_password_resets := filter (\<lambda>x. PR_TokenHash x \<noteq> hashToken raw) (t_password_resets (w_db w))\<rparr> \<and>
    (\<forall>pw2 w2. t_password_resets (w_db w2) = t_password_resets (w_db w') \<longrightarrow> (\<exists>e. fst (ResetPassword s raw pw2 w2) = Inl e))"
proof -
  let ?rs = "t_password_resets (w_db w)"
  from ResetPassword_Inr [OF assms(2)] obtain r n m hashed where
    r: "reset_by_hash (hashToken raw) (w_db w) = Some r" and x: "env_clock (w_env w) n \<le> PR_ExpiresAt r"
      "LB_bcryptHash (ES_auth s) pw m = Inr hashed"
    and d: "w_db w' = (w_db w)\<lparr>
      t_users := update_rows (\<lambda>u. U_Email u = Some (PR_Email r) \<and> live u) (\<lambda>u. u\<lparr>U_PasswordHash := Some hashed\<rparr>) (t_users (w_db w)),
      t_password_resets := filter (\<lambda>x. PR_ID x \<noteq> PR_ID r) ?rs\<rparr>" by blast
  from reset_by_hashD [OF r] have m: "r \<in> set ?rs" "PR_TokenHash r = hashToken raw" by simp_all
  have f: "filter (\<lambda>x. PR_ID x \<noteq> PR_ID r) ?rs = filter (\<lambda>x. PR_TokenHash x \<noteq> hashToken raw) ?rs"
  proof (rule filter_cong [OF refl])
    fix q assume "q \<in> set ?rs"
    with m assms(1) distinct_map_unique [of PR_ID ?rs q r] distinct_map_unique [of PR_TokenHash ?rs q r]
    show "(PR_ID q \<noteq> PR_ID r) = (PR_TokenHash q \<noteq> hashToken raw)" by (auto simp: auth_ok_def)
  qed
  have again: "\<exists>e. fst (ResetPassword s raw pw2 w2) = Inl e" if "t_password_resets (w_db w2) = t_password_resets (w_db w')" for pw2 w2
  proof (cases "ResetPassword s raw pw2 w2")
    case (Pair y w3)
    show ?thesis
    proof (cases y)
      case (Inr u)
      from ResetPassword_Inr [OF Pair [unfolded Inr, simplified]] obtain r2 where "reset_by_hash (hashToken raw) (w_db w2) = Some r2" by blast
      from reset_by_hashD [OF this] that have False by (simp add: d f)
      then show ?thesis ..
    qed (simp add: Pair)
  qed
  show ?thesis
    by (rule exI [of _ r], rule exI [of _ n], rule exI, rule exI [of _ hashed], intro conjI)
      (use m x d f again in \<open>auto simp: update_rows_def\<close>)
qed

definition reset_account_3 :: db where
  "reset_account_3 = account_3\<lparr>t_password_resets :=
     [\<lparr>PR_ID = 21, PR_Email = ''a@x'', PR_TokenHash = hashToken ''tok'', PR_ExpiresAt = 3600, PR_CreatedAt = 0\<rparr>]\<rparr>"

lemma reset_account_3_ok: "auth_ok reset_account_3"
  using account_3_ok by (simp add: auth_ok_def reset_account_3_def)

theorem ResetPassword_once_witness:
  "\<exists>w'. ResetPassword toy_mail ''tok'' ''pw'' (start (\<lambda>n. 0) reset_account_3) = (Inr (), w') \<and> t_password_resets (w_db w') = []"
proof -
  let ?w = "start (\<lambda>n. 0) reset_account_3"
  have "\<exists>w'. ResetPassword toy_mail ''tok'' ''pw'' ?w = (Inr (), w')"
    by (simp add: ResetPassword_def reset_by_hash_def first_by_def update_users_def delete_resets_def passwords_check_def
      varchars_def opt_width_def run_defs reset_account_3_def account_3_def empty_db_def new_user_def live_def toy_mail_def
      toy_lib_def update_rows_def del: hexDigits.simps)
  then obtain w' where run: "ResetPassword toy_mail ''tok'' ''pw'' ?w = (Inr (), w')" by blast
  from ResetPassword_once [OF _ run] show ?thesis
    by (auto simp: reset_account_3_ok run) (auto simp: reset_account_3_def)
qed


text \<open>The throttle of the requests for a reset.\<close>

lemma last_reset_latest:
  assumes "r \<in> set (t_password_resets d)" and "PR_Email r = email"
  shows "\<exists>l. last_reset email d = Some l \<and> PR_CreatedAt r \<le> PR_CreatedAt l"
proof -
  let ?s = "sort_key PR_CreatedAt (filter (\<lambda>r. PR_Email r = email) (t_password_resets d))"
  have mem: "r \<in> set ?s" using assms by simp
  then have ne: "?s \<noteq> []" by force
  then obtain xs y where "?s = xs @ [y]" using rev_exhaust by blast
  then have l: "last_reset email d = Some (last ?s)" by (simp add: last_reset_def)
  have "sorted (map PR_CreatedAt ?s)" by simp
  moreover from mem obtain i where i: "i < length ?s" "r = ?s ! i" unfolding in_set_conv_nth by blast
  ultimately have "PR_CreatedAt r \<le> PR_CreatedAt (last ?s)"
    using sorted_nth_mono [of "map PR_CreatedAt ?s" i "length ?s - 1"] ne
    by (simp add: last_conv_nth del: sorted_sort_key)
  with l show ?thesis by blast
qed

lemma sendReset_Inr:
  assumes "sendReset s email w = (Inr (), w')"
  shows "\<exists>new raw n. PR_Email new = email \<and> PR_TokenHash new = hashToken raw \<and> PR_ID new \<notin> PR_ID ` set (t_password_resets (w_db w)) \<and>
    ES_send s email ''Reset your Tachigo password'' (ES_frontendURL s @ ''/reset-password?token='' @ raw) n = Inr () \<and>
    w_db w' = (w_db w)\<lparr>t_password_resets := filter (\<lambda>r. PR_Email r \<noteq> email) (t_password_resets (w_db w)) @ [new]\<rparr>"
proof -
  let ?t = "w_tick w" and ?e = "w_env w" and ?rs = "t_password_resets (w_db w)"
  let ?raw = "hexDigits 64 (env_rand ?e ?t)"
  let ?new = "\<lparr>PR_ID = env_uuid ?e (Suc (Suc ?t)), PR_Email = email, PR_TokenHash = hashToken ?raw,
     PR_ExpiresAt = env_clock ?e (Suc ?t) + resetTokenTTL, PR_CreatedAt = env_clock ?e (Suc (Suc ?t))\<rparr>"
  have upd: "t_password_resets_update f d = d\<lparr>t_password_resets := f (t_password_resets d)\<rparr>" for f d by (cases d) simp
  from assms have i: "PR_ID ?new \<notin> PR_ID ` set ?rs"
    and m: "ES_send s email ''Reset your Tachigo password'' (ES_frontendURL s @ ''/reset-password?token='' @ ?raw) (Suc (Suc (Suc ?t))) = Inr ()"
    and d: "w_db w' = t_password_resets_update (filter (\<lambda>r. \<not> (PR_Email r = email \<and> PR_ID r \<noteq> PR_ID ?new)) \<circ> (\<lambda>rows. rows @ [?new])) (w_db w)"
    by (auto simp: sendReset_def bnd_Inr generateNonce_Inr now_Inr insert_row_Inr handle_Inr external_def fail_Inr ret_Inr
      delete_resets_def delete_where_Inr reset_conflict_def dup_if_def split: if_split_asm)
  have "filter (\<lambda>r. \<not> (PR_Email r = email \<and> PR_ID r \<noteq> PR_ID ?new)) ?rs = filter (\<lambda>r. PR_Email r \<noteq> email) ?rs"
    by (rule filter_cong [OF refl]) (use i in \<open>auto simp: rev_image_eqI\<close>)
  with i d m show ?thesis by (intro exI [of _ ?new] exI [of _ ?raw] exI) (simp add: upd [of "filter _ \<circ> _"])
qed

text \<open>A mail that is not accepted takes its token with it.\<close>

lemma sendReset_Inl:
  assumes "sendReset s email w = (Inl e, w')" and "no_faults w" and "\<And>n. env_detached (w_env w) n = None"
  shows "w_db w' = w_db w"
proof -
  let ?rs = "t_password_resets (w_db w)"
  have "filter (\<lambda>r. PR_ID r \<noteq> PR_ID new) (?rs @ [new]) = ?rs" if "PR_ID new \<notin> PR_ID ` set ?rs" for new
    using that by (auto simp: filter_id_conv rev_image_eqI)
  moreover have "t_password_resets_update (\<lambda>_. ?rs) (w_db w) = w_db w" by (cases "w_db w") simp
  ultimately show ?thesis using assms
    by (cases "w_db w") (auto simp: sendReset_def generateNonce_def randomNat_def now_def insert_row_def stmt_def bnd_def handle_def external_def
        detached_def delete_resets_def delete_where_def reset_conflict_def dup_if_def fail_def ret_def rev_image_eqI filter_id_conv
        split: sum.splits option.splits if_splits)
qed

definition throttled :: "string \<Rightarrow> world \<Rightarrow> bool" where
  "throttled email w \<longleftrightarrow> (\<exists>r \<in> set (t_password_resets (w_db w)). PR_Email r = email \<and>
     time_sub (env_clock (w_env w) (w_tick w + 2)) (PR_CreatedAt r) < passwordResetCooldown)"

lemma throttled_last:
  "throttled email w \<longleftrightarrow> (\<exists>l. last_reset email (w_db w) = Some l \<and>
     time_sub (env_clock (w_env w) (w_tick w + 2)) (PR_CreatedAt l) < passwordResetCooldown)"
proof
  assume "throttled email w"
  then obtain r where r: "r \<in> set (t_password_resets (w_db w))" "PR_Email r = email"
    "time_sub (env_clock (w_env w) (w_tick w + 2)) (PR_CreatedAt r) < passwordResetCooldown" by (auto simp: throttled_def)
  from last_reset_latest [OF r(1,2)] obtain l where l: "last_reset email (w_db w) = Some l" "PR_CreatedAt r \<le> PR_CreatedAt l" by blast
  have "time_sub t (PR_CreatedAt l) \<le> time_sub t (PR_CreatedAt r)" for t using l(2) by (auto simp: time_sub_def)
  from order.strict_trans1 [OF this r(3)] l(1) show "\<exists>l. last_reset email (w_db w) = Some l \<and>
     time_sub (env_clock (w_env w) (w_tick w + 2)) (PR_CreatedAt l) < passwordResetCooldown" by blast
next
  assume "\<exists>l. last_reset email (w_db w) = Some l \<and>
     time_sub (env_clock (w_env w) (w_tick w + 2)) (PR_CreatedAt l) < passwordResetCooldown"
  then obtain l rest where l: "rev (sort_key PR_CreatedAt (filter (\<lambda>r. PR_Email r = email) (t_password_resets (w_db w)))) = l # rest"
    "time_sub (env_clock (w_env w) (w_tick w + 2)) (PR_CreatedAt l) < passwordResetCooldown"
    by (auto simp: last_reset_def split: list.splits)
  from arg_cong [OF l(1), of set] have "l \<in> set (t_password_resets (w_db w))" "PR_Email l = email" by auto
  with l(2) show "throttled email w" by (auto simp: throttled_def)
qed

lemma no_account: "\<not> (\<exists>u \<in> set (t_users d). live u \<and> U_Email u = Some email) \<Longrightarrow> user_by_email email d = None"
  by (auto simp: user_by_email_def)

text \<open>The run that ends before the mail.\<close>

lemma ForgotPassword_quiet:
  assumes "throttled email w \<or> user_by_email email (w_db w) = None" and "ForgotPassword s email w = (out, w')"
  shows "w_db w' = w_db w \<and> w_tick w' \<le> w_tick w + 3 \<and> (\<forall>s'. ForgotPassword s' email w = (out, w')) \<and> (no_faults w \<longrightarrow> out = Inr ())"
  using assms unfolding throttled_last
  by (cases "user_by_email email (w_db w)")
    (auto simp: ForgotPassword_def query_def stmt_def bnd_def now_def ret_def split: option.splits)

lemma ForgotPassword_sends:
  assumes "user_by_email email (w_db w) = Some u" and "\<not> throttled email w" and "ForgotPassword s email w = (out, w')"
  shows "(\<exists>w1. w_db w1 = w_db w \<and> w_env w1 = w_env w \<and> sendReset s email w1 = (out, w')) \<or> (\<exists>e. out = Inl e) \<and> w_db w' = w_db w \<and> \<not> no_faults w"
proof (cases "env_fault (w_env w) (w_tick w) = None \<and> env_fault (w_env w) (Suc (w_tick w)) = None")
  case True
  with assms(1) have q: "query (user_by_email email) w = (Inr (Some u), tick w)"
    "query (last_reset email) (tick w) = (Inr (last_reset email (w_db w)), tick (tick w))"
    by (simp_all add: query_def stmt_def tick_def)
  have "\<exists>w1. w_db w1 = w_db w \<and> w_env w1 = w_env w \<and> sendReset s email w1 = (out, w')"
  proof (cases "last_reset email (w_db w)")
    case None
    with assms(3) q have "sendReset s email (tick (tick w)) = (out, w')" by (simp add: ForgotPassword_def bnd_def ret_def)
    then show ?thesis by (intro exI [of _ "tick (tick w)"]) simp
  next
    case (Some l)
    with assms(2,3) q have "sendReset s email (tick (tick (tick w))) = (out, w')"
      unfolding throttled_last by (simp add: ForgotPassword_def bnd_def now_def ret_def)
    then show ?thesis by (intro exI [of _ "tick (tick (tick w))"]) simp
  qed
  then show ?thesis ..
next
  case False
  then have "\<not> no_faults w" by (auto simp: no_faults_def)
  moreover from False assms(1,3) have "(\<exists>e. out = Inl e) \<and> w_db w' = w_db w"
    by (cases "env_fault (w_env w) (w_tick w)") (auto simp: ForgotPassword_def query_def stmt_def bnd_def)
  ultimately show ?thesis by blast
qed

text \<open>C37. Asking for a password reset sends no mail, changes nothing and succeeds in silence while a token for the address that is on
  record is younger than the cooldown, and also when no account in use has the address: the run is the two look-ups and a reading of
  the clock, the same for every mailer. Otherwise it succeeds only when the mailer took a mail to the address with the
  link to a new token, which is then the only one of the address, and a mail that the mailer does not take leaves no token. The cooldown
  is that of the tokens on record: one that was used for a reset no longer counts.\<close>

theorem ForgotPassword_throttled:
  assumes "ForgotPassword s email w = (out, w')"
  shows "if (\<exists>r \<in> set (t_password_resets (w_db w)). PR_Email r = email \<and>
          time_sub (env_clock (w_env w) (w_tick w + 2)) (PR_CreatedAt r) < passwordResetCooldown) \<or>
        \<not> (\<exists>u \<in> set (t_users (w_db w)). live u \<and> U_Email u = Some email)
     then w_db w' = w_db w \<and> w_tick w' \<le> w_tick w + 3 \<and> (\<forall>s'. ForgotPassword s' email w = (out, w')) \<and> (no_faults w \<longrightarrow> out = Inr ())
     else (out = Inr () \<longrightarrow> (\<exists>new raw n. PR_Email new = email \<and> PR_TokenHash new = hashToken raw \<and>
         ES_send s email ''Reset your Tachigo password'' (ES_frontendURL s @ ''/reset-password?token='' @ raw) n = Inr () \<and>
         w_db w' = (w_db w)\<lparr>t_password_resets := filter (\<lambda>r. PR_Email r \<noteq> email) (t_password_resets (w_db w)) @ [new]\<rparr>)) \<and>
       (\<forall>e. out = Inl e \<longrightarrow> no_faults w \<longrightarrow> (\<forall>n. env_detached (w_env w) n = None) \<longrightarrow> w_db w' = w_db w)"
proof (cases "throttled email w \<or> \<not> (\<exists>u \<in> set (t_users (w_db w)). live u \<and> U_Email u = Some email)")
  case True
  then have "throttled email w \<or> user_by_email email (w_db w) = None" by (rule disj_forward) (assumption, rule no_account)
  from ForgotPassword_quiet [OF this assms] show ?thesis by (subst if_P [OF True [unfolded throttled_def]])
next
  case False
  then obtain u where u: "u \<in> set (t_users (w_db w))" "live u \<and> U_Email u = Some email" "\<not> throttled email w" by blast
  then obtain v where "user_by_email email (w_db w) = Some v" by (cases "user_by_email email (w_db w)") (auto simp: user_by_email_def)
  from ForgotPassword_sends [OF this u(3) assms]
  have "(out = Inr () \<longrightarrow> (\<exists>new raw n. PR_Email new = email \<and> PR_TokenHash new = hashToken raw \<and>
         ES_send s email ''Reset your Tachigo password'' (ES_frontendURL s @ ''/reset-password?token='' @ raw) n = Inr () \<and>
         w_db w' = (w_db w)\<lparr>t_password_resets := filter (\<lambda>r. PR_Email r \<noteq> email) (t_password_resets (w_db w)) @ [new]\<rparr>)) \<and>
       (\<forall>e. out = Inl e \<longrightarrow> no_faults w \<longrightarrow> (\<forall>n. env_detached (w_env w) n = None) \<longrightarrow> w_db w' = w_db w)"
  proof (elim disjE exE conjE)
    fix w1 assume w1: "w_db w1 = w_db w" "w_env w1 = w_env w" "sendReset s email w1 = (out, w')"
    show ?thesis
    proof (intro conjI allI impI)
      assume "out = Inr ()"
      from sendReset_Inr [OF w1(3) [unfolded this]] show "\<exists>new raw n. PR_Email new = email \<and> PR_TokenHash new = hashToken raw \<and>
         ES_send s email ''Reset your Tachigo password'' (ES_frontendURL s @ ''/reset-password?token='' @ raw) n = Inr () \<and>
         w_db w' = (w_db w)\<lparr>t_password_resets := filter (\<lambda>r. PR_Email r \<noteq> email) (t_password_resets (w_db w)) @ [new]\<rparr>"
        unfolding w1 by blast
    next
      fix e assume "out = Inl e" and f: "no_faults w" "\<forall>n. env_detached (w_env w) n = None"
      from sendReset_Inl [OF w1(3) [unfolded this(1)]] f w1 show "w_db w' = w_db w" by (simp add: no_faults_def)
    qed
  qed auto
  then show ?thesis by (subst if_not_P [OF False [unfolded throttled_def]])
qed

theorem ForgotPassword_throttled_witness:
  "\<exists>w'. (\<forall>s. ForgotPassword s ''a@x'' (start (\<lambda>n. 9) reset_account_3) = (Inr (), w')) \<and> w_db w' = reset_account_3"
proof -
  let ?w = "start (\<lambda>n. 9) reset_account_3"
  obtain out w' where run: "ForgotPassword toy_mail ''a@x'' ?w = (out, w')" by fastforce
  have "\<exists>r \<in> set (t_password_resets (w_db ?w)). PR_Email r = ''a@x'' \<and>
      time_sub (env_clock (w_env ?w) (w_tick ?w + 2)) (PR_CreatedAt r) < passwordResetCooldown"
    by (simp add: reset_account_3_def passwordResetCooldown_def time_sub_def i64_bounds minute_def second_def)
  with ForgotPassword_throttled [OF run] have "w_db w' = w_db ?w" "\<forall>s'. ForgotPassword s' ''a@x'' ?w = (out, w')" "out = Inr ()"
    by (simp_all only: simp_thms if_True start_sel)
  then show ?thesis by (intro exI [of _ w']) simp
qed

section \<open>Shipping addresses\<close>

definition one_default :: "ShippingAddress list \<Rightarrow> bool" where
  "one_default rows \<longleftrightarrow> (\<forall>a \<in> set rows. \<forall>b \<in> set rows.
     live_address a \<and> live_address b \<and> SA_UserID a = SA_UserID b \<and> SA_IsDefault a \<and> SA_IsDefault b \<longrightarrow> SA_ID a = SA_ID b)"

definition addresses_ok :: "db \<Rightarrow> bool" where
  "addresses_ok d \<longleftrightarrow> distinct (map SA_ID (t_shipping_addresses d)) \<and> one_default (t_shipping_addresses d)"

lemma one_defaultI:
  "(\<And>a b. a \<in> set rows \<Longrightarrow> b \<in> set rows \<Longrightarrow> live_address a \<Longrightarrow> live_address b \<Longrightarrow> SA_UserID a = SA_UserID b \<Longrightarrow>
     SA_IsDefault a \<Longrightarrow> SA_IsDefault b \<Longrightarrow> SA_ID a = SA_ID b) \<Longrightarrow> one_default rows"
  unfolding one_default_def by blast

lemma one_defaultD:
  "one_default rows \<Longrightarrow> a \<in> set rows \<Longrightarrow> b \<in> set rows \<Longrightarrow> live_address a \<Longrightarrow> live_address b \<Longrightarrow> SA_UserID a = SA_UserID b \<Longrightarrow>
     SA_IsDefault a \<Longrightarrow> SA_IsDefault b \<Longrightarrow> SA_ID a = SA_ID b"
  unfolding one_default_def by blast

datatype address_request =
    CreateAddress uuid AddressInput
  | UpdateAddress uuid uuid AddressInput
  | DeleteAddress uuid uuid
  | MakeDefault uuid uuid

fun address_op :: "address_request \<Rightarrow> unit m" where
  "address_op (CreateAddress u i) = void (AddressCreateContext u i)"
| "address_op (UpdateAddress u a i) = void (AddressUpdateContext u a i)"
| "address_op (DeleteAddress u a) = AddressDeleteContext u a"
| "address_op (MakeDefault u a) = void (SetDefaultContext u a)"

text \<open>What the two statements of a change do to the rows.\<close>

definition cleared :: "uuid \<Rightarrow> (ShippingAddress \<Rightarrow> bool) \<Rightarrow> ShippingAddress list \<Rightarrow> ShippingAddress list" where
  "cleared u P = update_rows (\<lambda>a. (SA_UserID a = u \<and> P a) \<and> live_address a) (\<lambda>a. a\<lparr>SA_IsDefault := False\<rparr>)"

definition saved :: "ShippingAddress \<Rightarrow> ShippingAddress list \<Rightarrow> ShippingAddress list" where
  "saved addr = update_rows (\<lambda>a. SA_ID a = SA_ID addr \<and> live_address a) (\<lambda>_. addr)"

lemma find_addressD:
  "find_address u i d = Some a \<Longrightarrow> a \<in> set (t_shipping_addresses d) \<and> SA_ID a = i \<and> SA_UserID a = u \<and> live_address a"
  using first_by_SomeD(1,2) unfolding find_address_def by fastforce

lemma map_cleared [simp]: "map SA_ID (cleared u P rows) = map SA_ID rows"
  unfolding cleared_def by (rule map_update_rows) simp

lemma map_saved [simp]: "map SA_ID (saved addr rows) = map SA_ID rows"
  unfolding saved_def by (rule map_update_rows) simp

lemma in_cleared:
  "b \<in> set (cleared u P rows) \<Longrightarrow> \<exists>a \<in> set rows. SA_ID b = SA_ID a \<and> SA_UserID b = SA_UserID a \<and>
     (live_address b = live_address a) \<and> (SA_IsDefault b \<longrightarrow> SA_IsDefault a \<and> (live_address a \<longrightarrow> SA_UserID a = u \<longrightarrow> \<not> P a))"
  by (auto simp: cleared_def set_update_rows live_address_def)

lemma in_saved: "b \<in> set (saved addr rows) \<Longrightarrow> b = addr \<or> b \<in> set rows \<and> (live_address b \<longrightarrow> SA_ID b \<noteq> SA_ID addr)"
  by (auto simp: saved_def set_update_rows)

text \<open>One default per user among rows; saving a row that is the only default, or none.\<close>

lemma one_default_saved:
  assumes "one_default rows"
    and "\<And>a. SA_IsDefault addr \<Longrightarrow> a \<in> set rows \<Longrightarrow> live_address a \<Longrightarrow> SA_UserID a = SA_UserID addr \<Longrightarrow> SA_IsDefault a \<Longrightarrow>
      SA_ID a = SA_ID addr"
  shows "one_default (saved addr rows)"
proof (rule one_defaultI)
  fix a b assume ab: "a \<in> set (saved addr rows)" "b \<in> set (saved addr rows)"
    and c: "live_address a" "live_address b" "SA_UserID a = SA_UserID b" "SA_IsDefault a" "SA_IsDefault b"
  from in_saved [OF ab(1)] in_saved [OF ab(2)] show "SA_ID a = SA_ID b"
  proof (elim disjE)
    assume "a = addr" "b \<in> set rows \<and> (live_address b \<longrightarrow> SA_ID b \<noteq> SA_ID addr)"
    then show ?thesis using c assms(2) [of b] by auto
  next
    assume "a \<in> set rows \<and> (live_address a \<longrightarrow> SA_ID a \<noteq> SA_ID addr)" "b = addr"
    then show ?thesis using c assms(2) [of a] by auto
  next
    assume "a \<in> set rows \<and> (live_address a \<longrightarrow> SA_ID a \<noteq> SA_ID addr)" "b \<in> set rows \<and> (live_address b \<longrightarrow> SA_ID b \<noteq> SA_ID addr)"
    then show ?thesis using c one_defaultD [OF assms(1)] by blast
  qed simp
qed

lemma one_default_cleared: "one_default rows \<Longrightarrow> one_default (cleared u P rows)"
proof (rule one_defaultI)
  fix a b assume ok: "one_default rows" and ab: "a \<in> set (cleared u P rows)" "b \<in> set (cleared u P rows)"
    and c: "live_address a" "live_address b" "SA_UserID a = SA_UserID b" "SA_IsDefault a" "SA_IsDefault b"
  from in_cleared [OF ab(1)] in_cleared [OF ab(2)] obtain a' b' where
    "a' \<in> set rows" "SA_ID a = SA_ID a'" "SA_UserID a = SA_UserID a'" "live_address a'" "SA_IsDefault a'"
    "b' \<in> set rows" "SA_ID b = SA_ID b'" "SA_UserID b = SA_UserID b'" "live_address b'" "SA_IsDefault b'" using c by blast
  with one_defaultD [OF ok, of a' b'] c(3) show "SA_ID a = SA_ID b" by simp
qed

lemma one_default_append:
  assumes "one_default rows" and "\<And>a. SA_IsDefault r \<Longrightarrow> a \<in> set rows \<Longrightarrow> live_address a \<Longrightarrow> SA_UserID a = SA_UserID r \<Longrightarrow> \<not> SA_IsDefault a"
  shows "one_default (rows @ [r])"
proof (rule one_defaultI)
  fix a b assume ab: "a \<in> set (rows @ [r])" "b \<in> set (rows @ [r])"
    and c: "live_address a" "live_address b" "SA_UserID a = SA_UserID b" "SA_IsDefault a" "SA_IsDefault b"
  show "SA_ID a = SA_ID b"
  proof (cases "a \<in> set rows \<and> b \<in> set rows")
    case True
    with c one_defaultD [OF assms(1)] show ?thesis by blast
  next
    case False
    with ab c assms(2) [of a] assms(2) [of b] show ?thesis by auto
  qed
qed

lemma AddressCreate_Inr:
  assumes "AddressCreateContext u i w = (Inr a, w')"
  shows "t_shipping_addresses (w_db w') = (if AI_IsDefault i then cleared u (\<lambda>_. True) else id) (t_shipping_addresses (w_db w)) @ [a] \<and>
    SA_ID a \<notin> SA_ID ` set (t_shipping_addresses (w_db w)) \<and> SA_UserID a = u \<and> SA_IsDefault a = AI_IsDefault i"
proof -
  have [simp]: "SA_ID ` set (update_rows (\<lambda>a. SA_UserID a = u \<and> live_address a) (SA_IsDefault_update (\<lambda>_. False)) rows) = SA_ID ` set rows"
    for rows using arg_cong [OF map_cleared [of u "\<lambda>_. True" rows], of set] by (simp add: cleared_def)
  show ?thesis using assms
  by (auto simp: AddressCreateContext_def Let_def cleared_def bnd_Inr update_addresses_def update_where_Inr
    insert_row_Inr ret_Inr address_conflict_def dup_if_def dest!: transaction_Inr split: if_split_asm)
qed

lemma AddressUpdate_Inr:
  assumes "AddressUpdateContext u i input w = (Inr addr', w')"
  shows "\<exists>addr. find_address u i (w_db w) = Some addr \<and> SA_ID addr' = SA_ID addr \<and> SA_UserID addr' = SA_UserID addr \<and>
    SA_IsDefault addr' = AI_IsDefault input \<and>
    t_shipping_addresses (w_db w') = saved addr' ((if AI_IsDefault input \<and> \<not> SA_IsDefault addr then cleared u (\<lambda>a. SA_ID a \<noteq> i) else id)
      (t_shipping_addresses (w_db w)))"
proof -
  define change where "change = (\<lambda>addr :: ShippingAddress. addr\<lparr>SA_RecipientName := AI_RecipientName input, SA_Phone := AI_Phone input,
    SA_AddressLine1 := AI_AddressLine1 input, SA_AddressLine2 := AI_AddressLine2 input, SA_City := AI_City input,
    SA_District := AI_District input, SA_PostalCode := AI_PostalCode input,
    SA_Country := (if AI_Country input \<noteq> [] then AI_Country input else SA_Country addr), SA_IsDefault := AI_IsDefault input\<rparr>)"
  define clear where "clear = (\<lambda>addr :: ShippingAddress. if AI_IsDefault input \<and> \<not> SA_IsDefault addr
     then update_addresses (\<lambda>a. SA_UserID a = u \<and> SA_ID a \<noteq> i) (\<lambda>_ a. a\<lparr>SA_IsDefault := False\<rparr>) else ret 0)"
  have "AddressUpdateContext u i input = bnd (orElse (query (find_address u i)) (AccountE ErrAddressNotFound)) (\<lambda>addr.
     transaction (bnd (clear addr) (\<lambda>_. bnd (save_address (change addr)) (\<lambda>_. ret (change addr)))))"
    by (simp add: AddressUpdateContext_def Let_def change_def clear_def)
  with assms obtain addr where f: "find_address u i (w_db w) = Some addr"
    and tr: "transaction (bnd (clear addr) (\<lambda>_. bnd (save_address (change addr)) (\<lambda>_. ret (change addr)))) (tick w) = (Inr addr', w')"
    by (auto simp: bnd_Inr orElse_query_Inr)
  from transaction_Inr [OF tr] obtain w1 n where c: "clear addr (tick w) = (Inr n, w1)" and a: "addr' = change addr"
    and s: "t_shipping_addresses (w_db w') = saved addr' (t_shipping_addresses (w_db w1))"
    by (auto simp: bnd_Inr ret_Inr save_address_def update_addresses_def update_where_Inr saved_def)
  from c have "t_shipping_addresses (w_db w1) = (if AI_IsDefault input \<and> \<not> SA_IsDefault addr then cleared u (\<lambda>a. SA_ID a \<noteq> i) else id)
      (t_shipping_addresses (w_db w))"
    by (auto simp: clear_def update_addresses_def update_where_Inr ret_Inr cleared_def split: if_split_asm)
  with f a s show ?thesis by (intro exI [of _ addr]) (simp add: change_def)
qed

lemma SetDefault_Inr:
  assumes "SetDefaultContext u i w = (Inr addr', w')"
  shows "\<exists>addr. find_address u i (w_db w) = Some addr \<and> addr' = addr\<lparr>SA_IsDefault := True\<rparr> \<and>
    t_shipping_addresses (w_db w') = saved addr' (cleared u (\<lambda>a. SA_ID a \<noteq> i) (t_shipping_addresses (w_db w)))"
  using assms
  by (auto simp: SetDefaultContext_def cleared_def saved_def save_address_def bnd_Inr orElse_query_Inr update_addresses_def
    update_where_Inr ret_Inr dest!: transaction_Inr)

lemma preserves_cases:
  assumes "\<And>w e w'. x w = (Inl e, w') \<Longrightarrow> w_db w' = w_db w"
    and "\<And>w a w'. I (w_db w) \<Longrightarrow> x w = (Inr a, w') \<Longrightarrow> I (w_db w')"
  shows "preserves I x"
  unfolding preserves_def
proof (intro allI impI)
  fix w :: world assume "I (w_db w)"
  then show "I (w_db (snd (x w)))" using assms by (cases "x w"; cases "fst (x w)") auto
qed

lemma preserves_create_address: "preserves addresses_ok (AddressCreateContext u i)"
proof (rule preserves_cases)
  fix w :: world and e w' assume "AddressCreateContext u i w = (Inl e, w')"
  then show "w_db w' = w_db w" by (auto simp: AddressCreateContext_def Let_def dest: transaction_Inl)
next
  fix w :: world and a w' assume ok: "addresses_ok (w_db w)" and run: "AddressCreateContext u i w = (Inr a, w')"
  let ?rows = "(if AI_IsDefault i then cleared u (\<lambda>_. True) else id) (t_shipping_addresses (w_db w))"
  from AddressCreate_Inr [OF run] have a: "t_shipping_addresses (w_db w') = ?rows @ [a]" "SA_UserID a = u" "SA_IsDefault a = AI_IsDefault i"
    "SA_ID a \<notin> set (map SA_ID (t_shipping_addresses (w_db w)))" by auto
  have m: "map SA_ID ?rows = map SA_ID (t_shipping_addresses (w_db w))" by simp
  have "one_default ?rows" using ok by (simp add: addresses_ok_def one_default_cleared)
  then have "one_default (?rows @ [a])" by (rule one_default_append) (use a in \<open>auto dest!: in_cleared\<close>)
  with ok m a(1,4) show "addresses_ok (w_db w')" unfolding addresses_ok_def by (simp del: set_map)
qed

lemma default_after_clear:
  "a \<in> set (cleared u (\<lambda>a. SA_ID a \<noteq> i) rows) \<Longrightarrow> live_address a \<Longrightarrow> SA_UserID a = u \<Longrightarrow> SA_IsDefault a \<Longrightarrow> SA_ID a = i"
  using in_cleared by fastforce

lemma preserves_update_address: "preserves addresses_ok (AddressUpdateContext u i input)"
proof (rule preserves_cases)
  fix w :: world and e w' assume "AddressUpdateContext u i input w = (Inl e, w')"
  then show "w_db w' = w_db w"
    by (auto simp: AddressUpdateContext_def Let_def bnd_run dest!: transaction_Inl orElse_query_run)
next
  fix w :: world and a w' assume ok: "addresses_ok (w_db w)" and run: "AddressUpdateContext u i input w = (Inr a, w')"
  from AddressUpdate_Inr [OF run] obtain addr where f: "find_address u i (w_db w) = Some addr"
    and a: "SA_ID a = SA_ID addr" "SA_UserID a = SA_UserID addr" "SA_IsDefault a = AI_IsDefault input"
    and rows: "t_shipping_addresses (w_db w') = saved a ((if AI_IsDefault input \<and> \<not> SA_IsDefault addr
      then cleared u (\<lambda>a. SA_ID a \<noteq> i) else id) (t_shipping_addresses (w_db w)))" by blast
  from find_addressD [OF f] have addr: "addr \<in> set (t_shipping_addresses (w_db w))" "SA_ID addr = i" "SA_UserID addr = u" "live_address addr"
    by simp_all
  have ok': "one_default (t_shipping_addresses (w_db w))" using ok by (simp add: addresses_ok_def)
  have "one_default (t_shipping_addresses (w_db w'))"
  proof (cases "AI_IsDefault input \<and> \<not> SA_IsDefault addr")
    case True
    have "one_default (saved a (cleared u (\<lambda>a. SA_ID a \<noteq> i) (t_shipping_addresses (w_db w))))"
      by (rule one_default_saved [OF one_default_cleared [OF ok']]) (use a addr default_after_clear in metis)
    with True show ?thesis by (simp add: rows)
  next
    case False
    have "one_default (saved a (t_shipping_addresses (w_db w)))"
      by (rule one_default_saved [OF ok']) (use a addr False one_defaultD [OF ok'] in metis)
    then show ?thesis unfolding rows if_not_P [OF False] id_apply .
  qed
  with ok show "addresses_ok (w_db w')" by (simp add: addresses_ok_def rows)
qed

lemma preserves_set_default: "preserves addresses_ok (SetDefaultContext u i)"
proof (rule preserves_cases)
  fix w :: world and e w' assume "SetDefaultContext u i w = (Inl e, w')"
  then show "w_db w' = w_db w" by (auto simp: SetDefaultContext_def bnd_run dest!: transaction_Inl orElse_query_run)
next
  fix w :: world and a w' assume ok: "addresses_ok (w_db w)" and run: "SetDefaultContext u i w = (Inr a, w')"
  from SetDefault_Inr [OF run] obtain addr where f: "find_address u i (w_db w) = Some addr" and a: "a = addr\<lparr>SA_IsDefault := True\<rparr>"
    and rows: "t_shipping_addresses (w_db w') = saved a (cleared u (\<lambda>a. SA_ID a \<noteq> i) (t_shipping_addresses (w_db w)))" by blast
  have "one_default (t_shipping_addresses (w_db w))" using ok by (simp add: addresses_ok_def)
  note c = one_default_cleared [OF this]
  from find_addressD [OF f] a have "SA_ID a = i" "SA_UserID a = u" by simp_all
  then have "one_default (saved a (cleared u (\<lambda>a. SA_ID a \<noteq> i) (t_shipping_addresses (w_db w))))"
    by (intro one_default_saved [OF c]) (metis default_after_clear)
  with ok show "addresses_ok (w_db w')" by (simp add: addresses_ok_def rows)
qed

lemma preserves_delete_address: "preserves addresses_ok (AddressDeleteContext u i)"
  unfolding AddressDeleteContext_def update_addresses_def
proof (intro preserves_intros preserves_update_where)
  fix d t assume "addresses_ok d"
  then show "addresses_ok (t_shipping_addresses_update (update_rows (\<lambda>a. (SA_ID a = i \<and> SA_UserID a = u) \<and> live_address a)
      (\<lambda>a. a\<lparr>SA_DeletedAt := Some t\<rparr>)) d)"
    unfolding addresses_ok_def
    by (auto simp: map_update_rows set_update_rows live_address_def intro!: one_defaultI)
      (rule one_defaultD [of "t_shipping_addresses d"]; simp add: live_address_def)+
qed

interpretation addresses: service address_op addresses_ok
proof
  show "preserves addresses_ok (address_op r)" for r
    by (cases r) (simp_all add: preserves_void preserves_create_address preserves_update_address preserves_delete_address preserves_set_default)
qed

text \<open>C38. Whatever address requests are served and whatever fails in them, a user never has two default addresses;
  and an address that was made the default is the only default address of its user.\<close>

theorem address_requests_one_default:
  assumes "addresses_ok (w_db w)"
  shows "let d = w_db (serve address_op rs w) in addresses_ok d \<and>
    (\<forall>a \<in> set (t_shipping_addresses d). \<forall>b \<in> set (t_shipping_addresses d).
       live_address a \<and> live_address b \<and> SA_UserID a = SA_UserID b \<and> SA_IsDefault a \<and> SA_IsDefault b \<longrightarrow> a = b) \<and>
    (\<forall>w1 u i a w2. w_db w1 = d \<and> SetDefaultContext u i w1 = (Inr a, w2) \<longrightarrow>
       {b \<in> set (t_shipping_addresses (w_db w2)). live_address b \<and> SA_UserID b = u \<and> SA_IsDefault b} = {a})"
proof -
  have one: "a = b" if "addresses_ok d" "a \<in> set (t_shipping_addresses d)" "b \<in> set (t_shipping_addresses d)"
    "live_address a" "live_address b" "SA_UserID a = SA_UserID b" "SA_IsDefault a" "SA_IsDefault b" for a b d
    using that one_defaultD [of "t_shipping_addresses d" a b] distinct_map_unique [of SA_ID "t_shipping_addresses d" a b]
    unfolding addresses_ok_def by blast
  have ok: "addresses_ok (w_db (serve address_op rs w))" by (rule addresses.serve_inv [OF assms])
  have set_default: "{b \<in> set (t_shipping_addresses (w_db w2)). live_address b \<and> SA_UserID b = u \<and> SA_IsDefault b} = {a}"
    if ok1: "addresses_ok (w_db w1)" and run: "SetDefaultContext u i w1 = (Inr a, w2)" for w1 u i a w2
  proof -
    from SetDefault_Inr [OF run] obtain addr where f: "find_address u i (w_db w1) = Some addr" and a: "a = addr\<lparr>SA_IsDefault := True\<rparr>"
      and rows: "t_shipping_addresses (w_db w2) = saved a (cleared u (\<lambda>a. SA_ID a \<noteq> i) (t_shipping_addresses (w_db w1)))" by blast
    note addr = find_addressD [OF f]
    from addr have "addr \<in> set (cleared u (\<lambda>a. SA_ID a \<noteq> i) (t_shipping_addresses (w_db w1)))"
      by (auto simp: cleared_def set_update_rows)
    with addr a have "a \<in> set (t_shipping_addresses (w_db w2))" unfolding rows saved_def by (auto simp: set_update_rows)
    moreover have "live_address a" "SA_UserID a = u" "SA_IsDefault a" using a addr by (simp_all add: live_address_def)
    moreover have "addresses_ok (w_db w2)" using preservesD [OF preserves_set_default ok1 run] .
    ultimately show ?thesis using one by blast
  qed
  show ?thesis unfolding Let_def
  proof (intro conjI ballI allI impI)
    fix w1 u i a w2
    assume "w_db w1 = w_db (serve address_op rs w) \<and> SetDefaultContext u i w1 = (Inr a, w2)"
    with ok show "{b \<in> set (t_shipping_addresses (w_db w2)). live_address b \<and> SA_UserID b = u \<and> SA_IsDefault b} = {a}"
      using set_default [of w1 u i a w2] by simp
  qed (use ok one [OF ok] in blast)+
qed

definition toy_address :: AddressInput where
  "toy_address = \<lparr>AI_RecipientName = ''ann'', AI_Phone = None, AI_AddressLine1 = ''1 st'', AI_AddressLine2 = None, AI_City = ''x'',
     AI_District = None, AI_PostalCode = Some ''1'', AI_Country = [], AI_IsDefault = True\<rparr>"

theorem address_requests_one_default_witness:
  "addresses_ok (w_db (serve address_op [CreateAddress 3 toy_address, CreateAddress 3 toy_address, MakeDefault 3 1] (start (\<lambda>n. 0) empty_db)))"
proof -
  have "addresses_ok (w_db (start (\<lambda>n. 0) empty_db))" by (simp add: addresses_ok_def one_default_def empty_db_def)
  from address_requests_one_default [OF this] show ?thesis unfolding Let_def by blast
qed

section \<open>Purchases through the Twitch extension\<close>

lemma verifyJWT_run:
  assumes "verifyJWT s parse failed tok w = (y, w')"
  shows "w_db w' = w_db w \<and> w_env w' = w_env w \<and> (\<forall>c. y = Inr c \<longrightarrow> EX_secret s \<noteq> [] \<and>
    (\<exists>key n. b64_decode False (EX_secret s) = Inr key \<and>
       parse tok (\<lambda>hmac. if hmac then Inr key else Inl (Errorf ''unexpected signing method'')) n = Inr c))"
  using assms
  by (auto simp: verifyJWT_def fail_def bnd_def now_def ret_def split: if_split_asm sum.split_asm)

text \<open>Tokens that were read from texts signed with the secret of the extension.\<close>

definition twitch_signed :: "ExtensionService \<Rightarrow> (string \<Rightarrow> (bool \<Rightarrow> err + w8 list) \<Rightarrow> time \<Rightarrow> err + 'c) \<Rightarrow> string \<Rightarrow> 'c \<Rightarrow> bool" where
  "twitch_signed s parse token c \<longleftrightarrow> EX_secret s \<noteq> [] \<and> (\<exists>key n. b64_decode False (EX_secret s) = Inr key \<and>
     parse token (\<lambda>hmac. if hmac then Inr key else Inl (Errorf ''unexpected signing method'')) n = Inr c)"

lemma lookup_run:
  assumes "lookupExtensionUserContext c w = (y, w')"
  shows "w_db w' = w_db w \<and> (\<forall>u. y = Inr u \<longrightarrow> (\<exists>p \<in> set (t_auth_providers (w_db w)). live_provider p \<and> AP_Provider p = ProviderTwitch \<and>
      AP_ProviderID p = EC_UserID c \<and> AP_UserID p = U_ID u) \<and> u \<in> set (t_users (w_db w)) \<and> live u)"
proof (cases y)
  case (Inl e)
  with assms show ?thesis
    by (auto simp: lookupExtensionUserContext_def fail_def bnd_run split: if_split_asm
      dest!: orElse_query_run)
next
  case (Inr u)
  with assms obtain p where p: "provider_account ProviderTwitch (EC_UserID c) (w_db w) = Some p"
    "user_by_id (AP_UserID p) (w_db w) = Some u" "w_db w' = w_db w"
    by (auto simp: lookupExtensionUserContext_def fail_def bnd_Inr orElse_query_Inr split: if_split_asm)
  with provider_accountD [OF p(1)] user_by_idD [OF p(2)] Inr show ?thesis by auto
qed

lemma issue_points:
  assumes "issueTokenPairTx s u w = (y, w')"
  shows "t_points_ledgers (w_db w') = t_points_ledgers (w_db w) \<and> t_points_transactions (w_db w') = t_points_transactions (w_db w)"
proof -
  have "preserves (\<lambda>d. t_points_ledgers d = t_points_ledgers (w_db w) \<and> t_points_transactions d = t_points_transactions (w_db w)) (issueTokenPairTx s u)"
    unfolding issueTokenPairTx_def by (intro preserves_intros preserves_insert_row) auto
  from preservesD [OF this _ assms] show ?thesis by simp
qed

lemma AddPointsWithMeta_log:
  assumes "AddPointsWithMetaContext u c src a meta w = (Inr x, w')" and "PM_ExternalTransactionID meta = Some x1"
  shows "\<forall>t \<in> set (t_points_transactions (w_db w)). PT_ExternalTransactionID t \<noteq> Some x1"
proof -
  from AddPointsWithMetaContext_Inr [OF assms(1)] obtain w1 w2 where
    run: "addPointsWithMeta u c src a meta w1 = (Inr x, w2)" and w1: "w_db w1 = w_db w" by metis
  show ?thesis
  proof (intro ballI notI)
    fix t assume "t \<in> set (t_points_transactions (w_db w))" "PT_ExternalTransactionID t = Some x1"
    with run assms(2) w1 show False
      by (auto simp: addPointsWithMeta_def addPointsWithMetaAt_def run_simps ptx_conflict_def rev_image_eqI)
  qed
qed

definition complete_rest :: "ExtensionService \<Rightarrow> string \<Rightarrow> ExtensionClaims \<Rightarrow> ReceiptClaims \<Rightarrow> User \<Rightarrow> (User \<times> TokenPair) m" where
  "complete_rest s sku ext r u = handle (AddPointsWithMetaContext (U_ID u) (EC_ChannelID ext) TxSourceTPoint (RP_Amount r)
      \<lparr>PM_SKU = Some sku, PM_Note = None, PM_ExternalTransactionID = Some (RP_TransactionID r)\<rparr>)
    (\<lambda>e. if isDuplicateExternalTransactionError e then fail (ExtensionE ErrDuplicateTransaction) else fail e)
    (\<lambda>_. bnd (issueTokenPairTx (EX_auth s) u) (\<lambda>tokens. ret (u, tokens)))"

lemma Complete_run:
  assumes "CompleteTPointTransactionContext s jwt receipt sku w = (y, w')"
  obtains (verify) e where "y = Inl e" "w_db w' = w_db w"
  | (add) ext r u w1 w2 where "twitch_signed s (EX_parse s) jwt ext" "twitch_signed s (EX_parseReceipt s) receipt r"
      "receipt_error ext r sku = None" "lookupExtensionUserContext ext w1 = (Inr u, w2)" "w_db w1 = w_db w"
      "complete_rest s sku ext r u w2 = (y, w')"
proof -
  note run = assms [unfolded CompleteTPointTransactionContext_def complete_rest_def [symmetric]]
  from run [unfolded bnd_run [of "VerifyExtJWT s jwt"]] show thesis
  proof (elim disjE exE conjE, goal_cases)
    case (1 e)
    then show thesis using verifyJWT_run [of s "EX_parse s"] by (intro verify [of e]) (auto simp: VerifyExtJWT_def)
  next
    case (2 ext w0)
    then have v1: "twitch_signed s (EX_parse s) jwt ext" "w_db w0 = w_db w"
      using verifyJWT_run [of s "EX_parse s" _ jwt w "Inr ext" w0] by (auto simp: VerifyExtJWT_def twitch_signed_def)
    from 2(2) [unfolded bnd_run [of "VerifyReceiptJWT s receipt"]] show thesis
    proof (elim disjE exE conjE, goal_cases)
      case (1 e)
      then show thesis using verifyJWT_run [of s "EX_parseReceipt s"] v1 by (intro verify [of e]) (auto simp: VerifyReceiptJWT_def)
    next
      case (2 r w1)
      then have v2: "twitch_signed s (EX_parseReceipt s) receipt r" "w_db w1 = w_db w"
        using verifyJWT_run [of s "EX_parseReceipt s" _ receipt w0 "Inr r" w1] v1 by (auto simp: VerifyReceiptJWT_def twitch_signed_def)
      show thesis
      proof (cases "receipt_error ext r sku")
        case (Some e)
        with 2(2) v2 show thesis by (intro verify) (auto simp: fail_def)
      next
        case None
        with 2(2) have "bnd (lookupExtensionUserContext ext) (complete_rest s sku ext r) w1 = (y, w')" by simp
        then show thesis unfolding bnd_run
          using lookup_run [of ext w1] v1 v2 None by (elim disjE exE conjE) (auto intro: verify add)
      qed
    qed
  qed
qed

text \<open>C35. A purchase is credited only against a receipt that Twitch signed, for bits, for this product and for the
  account of the viewer, with the amount of the receipt, and never twice for one transaction of Twitch;
  otherwise, and whenever an error comes first, the points are unchanged.\<close>

theorem TPoint_credited_once:
  assumes "ledger_ok (w_db w)" and "CompleteTPointTransactionContext s jwt receipt sku w = (y, w')"
  shows "(\<exists>e. y = Inl e) \<and> t_points_ledgers (w_db w') = t_points_ledgers (w_db w) \<and>
      t_points_transactions (w_db w') = t_points_transactions (w_db w) \<or>
    (\<exists>ext r u p t. twitch_signed s (EX_parse s) jwt ext \<and> twitch_signed s (EX_parseReceipt s) receipt r \<and>
      RP_SKU r = sku \<and> RP_UserID r = EC_UserID ext \<and> RP_Type r = ''bits'' \<and> 0 < RP_Amount r \<and>
      u \<in> set (t_users (w_db w)) \<and> live u \<and> p \<in> set (t_auth_providers (w_db w)) \<and> live_provider p \<and>
      AP_Provider p = ProviderTwitch \<and> AP_ProviderID p = EC_UserID ext \<and> AP_UserID p = U_ID u \<and>
      (\<forall>t' \<in> set (t_points_transactions (w_db w)). PT_ExternalTransactionID t' \<noteq> Some (RP_TransactionID r)) \<and>
      balances (w_db w') = credit (U_ID u) (EC_ChannelID ext) (RP_Amount r) (balances (w_db w)) \<and>
      t_points_transactions (w_db w') = t_points_transactions (w_db w) @ [t] \<and> PT_Delta t = RP_Amount r \<and>
      PT_Source t = TxSourceTPoint \<and> PT_ExternalTransactionID t = Some (RP_TransactionID r))"
    (is "?no \<or> ?yes")
  using assms(2)
proof (cases rule: Complete_run)
    case verify
    then show ?thesis by simp
  next
    case (add ext r u w1 w2)
    from lookup_run [OF add(4)] add(5) obtain p where p: "p \<in> set (t_auth_providers (w_db w))" "live_provider p" "AP_Provider p = ProviderTwitch"
      "AP_ProviderID p = EC_UserID ext" "AP_UserID p = U_ID u" "u \<in> set (t_users (w_db w))" "live u" and d: "w_db w2 = w_db w" by auto
    let ?meta = "\<lambda>r. \<lparr>PM_SKU = Some sku, PM_Note = None, PM_ExternalTransactionID = Some (RP_TransactionID r)\<rparr>"
    note rest = add(6) [unfolded complete_rest_def]
    have rc: "RP_SKU r = sku" "RP_UserID r = EC_UserID ext" "RP_Type r = ''bits''" "0 < RP_Amount r"
      using add(3) by (auto simp: receipt_error_def split: if_split_asm)
    obtain z w3 where a: "AddPointsWithMetaContext (U_ID u) (EC_ChannelID ext) TxSourceTPoint (RP_Amount r) (?meta r) w2 = (z, w3)"
      by fastforce
    show ?thesis
    proof (cases z)
      case (Inl e)
      have "w_db w3 = w_db w2" using a Inl
        by (auto simp: AddPointsWithMetaContext_def seq_def bnd_def validatePositivePointsAmount_def
          fail_def ret_def split: if_splits dest: transaction_Inl)
      with rest a Inl d show ?thesis by (auto simp: handle_def fail_def split: if_split_asm)
    next
      case (Inr v)
      note once = AddPointsWithMeta_log [OF a [unfolded Inr], simplified]
      from AddPointsWithMetaContext_Inr [OF a [unfolded Inr]] obtain w4 w5 where
        run: "addPointsWithMeta (U_ID u) (EC_ChannelID ext) TxSourceTPoint (RP_Amount r) (?meta r) w4 = (Inr v, w5)"
        and w: "w_db w4 = w_db w2" "w_db w3 = w_db w5" by metis
      from run obtain tm where run: "addPointsWithMetaAt tm (U_ID u) (EC_ChannelID ext) TxSourceTPoint (RP_Amount r) (?meta r) (tick w4) = (Inr v, w5)"
        by (auto simp: addPointsWithMeta_def run_simps)
      from addPointsWithMetaAt_Inr [OF run] obtain t where cr: "credited (U_ID u) (EC_ChannelID ext) (RP_Amount r) tm t (w_db w) (w_db w3)"
        and t: "PT_Source t = TxSourceTPoint" "PT_ExternalTransactionID t = Some (RP_TransactionID r)"
        using w d by (metis tick_sel(1) PointsCreditMeta.select_convs(3))
      from credited_other_tables(1) [OF cr] credited_find [OF assms(1) cr] cr
      have c: "balances (w_db w3) = credit (U_ID u) (EC_ChannelID ext) (RP_Amount r) (balances (w_db w))"
        "t_points_transactions (w_db w3) = t_points_transactions (w_db w) @ [t]" "PT_Delta t = RP_Amount r"
        by (auto simp: credited_def spendable_def)
      obtain v2 w6 where i: "issueTokenPairTx (EX_auth s) u w3 = (v2, w6)" by fastforce
      from rest a Inr i have "w' = w6" by (auto simp: handle_def bnd_def ret_def split: sum.split_asm)
      with issue_points [OF i] have pt: "t_points_ledgers (w_db w') = t_points_ledgers (w_db w3)"
        "t_points_transactions (w_db w') = t_points_transactions (w_db w3)" by simp_all
      then have "balances (w_db w') = balances (w_db w3)"
        by (simp add: balances_def fun_eq_iff spendable_def cumulative_def find_ledger_def)
      with c pt t rc add(1,2) p once d have ?yes
        by (intro exI [of _ ext] exI [of _ r] exI [of _ u] exI [of _ p] exI [of _ t]) simp
      then show ?thesis ..
    qed
qed

definition viewer_account :: db where
  "viewer_account = empty_db\<lparr>t_users := [new_user (Some ''ann'') None None None RoleViewer True 0 3],
     t_auth_providers := [new_provider 3 ProviderTwitch ''t9'' 0 6]\<rparr>"

theorem TPoint_credited_once_witness:
  "\<exists>y w'. CompleteTPointTransactionContext toy_extension ''t9'' ''t9'' ''s'' (start (\<lambda>n. 0) viewer_account) = (Inr y, w') \<and>
     balances (w_db w') (3, ''c'') = (30, 30)"
proof -
  let ?w = "start (\<lambda>n. 0) viewer_account"
  have ok: "ledger_ok (w_db ?w)" by (simp add: ledger_ok_def ledgers_ok_def viewer_account_def empty_db_def)
  have key: "\<exists>key. b64_decode False ''czNjcjN0'' = Inr key"
    by (simp add: b64_decode_def b64_value_def cont_def)
  have "\<exists>y w'. CompleteTPointTransactionContext toy_extension ''t9'' ''t9'' ''s'' ?w = (Inr y, w')"
    using key
    by (elim exE) (simp add: CompleteTPointTransactionContext_def VerifyExtJWT_def VerifyReceiptJWT_def verifyJWT_def toy_extension_def
      receipt_error_def lookupExtensionUserContext_def provider_account_def user_by_id_def first_by_def live_def live_provider_def
      AddPointsWithMetaContext_def validatePositive_run addPointsWithMeta_def
        addPointsWithMetaAt_def upsert_ledger_def create_ptx_def ptx_conflict_def run_defs empty_db_def
        find_ledger_def ledger_key_def fresh_ledger_def dup_if_def viewer_account_def new_user_def new_provider_def
      issueTokenPairTx_def numeric_date_def second_def generateNonce_def randomNat_def refresh_conflict_def toy_auth_def toy_lib_def toy_claims_def
      del: hexDigits.simps)
  then obtain y w' where run: "CompleteTPointTransactionContext toy_extension ''t9'' ''t9'' ''s'' ?w = (Inr y, w')" by blast
  from TPoint_credited_once [OF ok run] obtain ext r and u :: User and p where
    "twitch_signed toy_extension (EX_parse toy_extension) ''t9'' ext" "twitch_signed toy_extension (EX_parseReceipt toy_extension) ''t9'' r"
    "p \<in> set (t_auth_providers (w_db ?w))" "AP_UserID p = U_ID u"
    "balances (w_db w') = credit (U_ID u) (EC_ChannelID ext) (RP_Amount r) (balances (w_db ?w))" by auto
  then have "balances (w_db w') = credit 3 ''c'' 30 (balances viewer_account)"
    by (auto simp: twitch_signed_def toy_extension_def viewer_account_def new_provider_def)
  then have "balances (w_db w') (3, ''c'') = (30, 30)"
    by (simp add: credit_def balances_def spendable_def cumulative_def viewer_account_def empty_db_def find_ledger_def first_by_def)
  with run show ?thesis by blast
qed

end
