(* ===== verification/Middleware.thy ===== *)
theory Middleware
  imports AuthProps "HOL-Library.AList"
begin

text \<open>
  \<^verbatim>\<open>middleware/\<close>: the rate limiter, the checks of tokens, roles and shared secrets, and the sanitising of
  what is logged. The limiter's map is an association list with distinct keys; the lock makes its
  operations atomic, so a history of requests is a sequence.
\<close>

section \<open>Rate limiter\<close>

record rateLimitEntry =
  RL_windowStart :: time
  RL_count :: int

type_synonym rate_entries = "(string \<times> rateLimitEntry) list"

definition cleanupLocked :: "time \<Rightarrow> int \<Rightarrow> rate_entries \<Rightarrow> rate_entries" where
  "cleanupLocked t window entries =
     (if length entries < 10000 then entries
      else filter (\<lambda>(key, entry). \<not> time_sub t (RL_windowStart entry) \<ge> window) entries)"

definition allow :: "time \<Rightarrow> string \<Rightarrow> int \<Rightarrow> int \<Rightarrow> rate_entries \<Rightarrow> (bool \<times> int) \<times> rate_entries" where
  "allow t key limit window entries =
     (let fresh = cleanupLocked t window (AList.update key \<lparr>RL_windowStart = t, RL_count = 1\<rparr> entries) in
      case map_of entries key of
        None \<Rightarrow> ((True, 0), fresh)
      | Some entry \<Rightarrow>
          if time_sub t (RL_windowStart entry) \<ge> window then ((True, 0), fresh)
          else if RL_count entry \<ge> limit then ((False, time_sub (RL_windowStart entry + window) t), entries)
          else ((True, 0), AList.update key (entry\<lparr>RL_count := RL_count entry + 1\<rparr>) entries))"

definition retryAfterSeconds :: "int \<Rightarrow> string" where
  "retryAfterSeconds d =
     (let seconds = i64 (i64 (d + second) - 1) sdiv second in intText (if seconds < 1 then 1 else seconds))"

text \<open>A sequence of requests \<open>(key, time)\<close> under one limit: the answers.\<close>

primrec run_limiter :: "int \<Rightarrow> int \<Rightarrow> (string \<times> time) list \<Rightarrow> rate_entries \<Rightarrow> (string \<times> time \<times> bool) list" where
  "run_limiter limit window [] entries = []"
| "run_limiter limit window (r # rs) entries =
     (case allow (snd r) (fst r) limit window entries of ((ok, retry), entries') \<Rightarrow>
        (fst r, snd r, ok) # run_limiter limit window rs entries')"

definition allowed_times :: "string \<Rightarrow> (string \<times> time \<times> bool) list \<Rightarrow> time list" where
  "allowed_times key answers = map (\<lambda>(k, t, ok). t) (filter (\<lambda>(k, t, ok). k = key \<and> ok) answers)"

text \<open>
  The windows that were opened for one key, the last one first: when, and at what times a request was
  let through.
\<close>

fun windows_ok :: "int \<Rightarrow> int \<Rightarrow> (time \<times> time list) list \<Rightarrow> bool" where
  "windows_ok limit window [] = True"
| "windows_ok limit window ((s, ts) # ws) \<longleftrightarrow> int (length ts) \<le> limit \<and> (\<forall>t \<in> set ts. s \<le> t \<and> t < s + window) \<and>
     (\<forall>w \<in> set ws. fst w + window \<le> s) \<and> windows_ok limit window ws"

text \<open>How the limiter's entry of the key reflects its windows at time \<open>t\<close>.\<close>

definition reflects :: "int \<Rightarrow> time \<Rightarrow> rateLimitEntry option \<Rightarrow> (time \<times> time list) list \<Rightarrow> bool" where
  "reflects window t entry ws \<longleftrightarrow> (case entry of
     None \<Rightarrow> (\<forall>w \<in> set ws. fst w + window \<le> t)
   | Some e \<Rightarrow> (\<exists>ts ws'. ws = (RL_windowStart e, ts) # ws' \<and> RL_count e = int (length ts)) \<and> RL_windowStart e \<le> t)"

definition count_in :: "time \<Rightarrow> int \<Rightarrow> time list \<Rightarrow> nat" where
  "count_in s window ts = length (filter (\<lambda>t. s \<le> t \<and> t < s + window) ts)"

lemma count_in_append [simp]: "count_in s window (xs @ ys) = count_in s window xs + count_in s window ys"
  by (simp add: count_in_def)

lemma count_in_Cons: "count_in s window (t # ts) = count_in s window ts + count_in s window [t]"
  by (simp add: count_in_def)

lemma count_in_none:
  "windows_ok limit window ws \<Longrightarrow> \<forall>w \<in> set ws. fst w + window \<le> s \<Longrightarrow> count_in s window (concat (map snd ws)) = 0"
proof (induction ws)
  case (Cons w ws)
  have "count_in s window (snd w) = 0" using Cons.prems by (cases w) (fastforce simp: count_in_def filter_empty_conv)
  with Cons show ?case by (cases w) simp
qed (simp add: count_in_def)

lemma count_in_le: "int (length ts) \<le> limit \<Longrightarrow> int (count_in s window ts) \<le> limit"
  unfolding count_in_def using length_filter_le [of _ ts] by (meson of_nat_le_iff order_trans)

text \<open>No interval as long as a window meets more than two of them.\<close>

lemma count_in_two_windows:
  "windows_ok limit window ws \<Longrightarrow> 0 < window \<Longrightarrow> 0 \<le> limit \<Longrightarrow> int (count_in s window (concat (map snd ws))) \<le> 2 * limit"
proof (induction ws)
  case (Cons w ws)
  obtain a ts where w: "w = (a, ts)" by fastforce
  show ?case
  proof (cases "a < s + window")
    case False
    with Cons.prems w have "count_in s window ts = 0" by (auto simp: count_in_def filter_empty_conv)
    with Cons w show ?thesis by simp
  next
    case True
    show ?thesis
    proof (cases ws)
      case Nil
      then show ?thesis using count_in_le [of ts limit s window] Cons.prems w by simp
    next
      case (Cons v vs)
      obtain b us where v: "v = (b, us)" by fastforce
      from \<open>windows_ok limit window (w # ws)\<close> w v Cons have ok: "windows_ok limit window vs" "int (length us) \<le> limit"
        "int (length ts) \<le> limit" "\<forall>x \<in> set vs. fst x + window \<le> b" "b + window \<le> a" by auto
      from ok True have "\<forall>x \<in> set vs. fst x + window \<le> s" by auto
      from count_in_none [OF ok(1) this] show ?thesis
        using count_in_le [OF ok(2), of s window] count_in_le [OF ok(3), of s window] w v Cons by simp
    qed
  qed
qed (simp add: count_in_def)


lemma time_sub_less: "fits window \<Longrightarrow> 0 < window \<Longrightarrow> (window \<le> time_sub t u) = (window \<le> t - u)"
  by (auto simp: time_sub_def i64_bounds)

lemma map_of_filter_values:
  "distinct (map fst xs) \<Longrightarrow> map_of (filter (\<lambda>(k, v). P v) xs) key =
    (case map_of xs key of None \<Rightarrow> None | Some v \<Rightarrow> if P v then Some v else None)"
  by (induction xs) (auto split: option.splits simp: map_of_eq_None_iff)

lemma map_of_cleanup:
  "distinct (map fst es) \<Longrightarrow> map_of (cleanupLocked t window es) key =
    (case map_of es key of None \<Rightarrow> None | Some e \<Rightarrow> if length es \<ge> 10000 \<and> time_sub t (RL_windowStart e) \<ge> window then None else Some e)"
  by (auto simp: cleanupLocked_def map_of_filter_values [where P = "\<lambda>e. \<not> window \<le> time_sub t (RL_windowStart e)"] split: option.split)

lemma distinct_allow:
  "distinct (map fst es) \<Longrightarrow> distinct (map fst (snd (allow t key limit window es)))"
  by (auto simp: allow_def Let_def cleanupLocked_def distinct_update distinct_map_filter split: option.split)

lemma reflects_later: "reflects window t e ws \<Longrightarrow> t \<le> t' \<Longrightarrow> reflects window t' e ws"
  by (auto simp: reflects_def split: option.splits)

lemma allow_step:
  assumes lim: "0 < limit" "0 < window" "fits window"
    and es: "distinct (map fst es)" "windows_ok limit window ws" "reflects window t0 (map_of es key) ws" "t0 \<le> t"
    and run: "allow t k limit window es = ((ok, retry), es')"
  shows "\<exists>ws'. windows_ok limit window ws' \<and> reflects window t (map_of es' key) ws' \<and>
    (\<forall>s. count_in s window (concat (map snd ws')) = count_in s window (concat (map snd ws)) +
       count_in s window (if k = key \<and> ok then [t] else []))"
proof -
  note r = reflects_later [OF es(3,4)]
  have cleaned: "reflects window t (map_of (cleanupLocked t window es2) key) ws2"
    if "distinct (map fst es2)" "reflects window t (map_of es2 key) ws2" "windows_ok limit window ws2" for es2 ws2
    using that lim by (fastforce simp: map_of_cleanup time_sub_less reflects_def split: option.split if_split)
  consider (other) "k \<noteq> key" | (fresh) "k = key" "map_of es key = None"
    | (expired) e where "k = key" "map_of es key = Some e" "window \<le> t - RL_windowStart e"
    | (full) e where "k = key" "map_of es key = Some e" "\<not> window \<le> t - RL_windowStart e" "limit \<le> RL_count e"
    | (more) e where "k = key" "map_of es key = Some e" "\<not> window \<le> t - RL_windowStart e" "\<not> limit \<le> RL_count e"
    by (cases "k = key"; cases "map_of es key") blast+
  then show ?thesis
  proof cases
    case other
    from run other have "reflects window t (map_of es' key) ws"
      using r cleaned [OF _ _ es(2), of "AList.update k \<lparr>RL_windowStart = t, RL_count = 1\<rparr> es"] es(1)
      by (auto simp: allow_def Let_def update_conv' distinct_update split: option.splits if_splits)
    with es(2) other show ?thesis by (intro exI [of _ ws]) (auto simp: count_in_def)
  next
    case fresh
    have w: "windows_ok limit window ((t, [t]) # ws)" using lim es(2) r fresh by (auto simp: reflects_def)
    have "reflects window t (map_of (AList.update key \<lparr>RL_windowStart = t, RL_count = 1\<rparr> es) key) ((t, [t]) # ws)"
      by (simp add: reflects_def update_conv')
    from cleaned [OF _ this w] run fresh w es(1) show ?thesis
      by (intro exI [of _ "(t, [t]) # ws"]) (auto simp: allow_def Let_def distinct_update count_in_Cons [of _ _ _ "concat _"])
  next
    case (expired e)
    have w: "windows_ok limit window ((t, [t]) # ws)" using lim es(2) r expired by (fastforce simp: reflects_def)
    have "reflects window t (map_of (AList.update key \<lparr>RL_windowStart = t, RL_count = 1\<rparr> es) key) ((t, [t]) # ws)"
      by (simp add: reflects_def update_conv')
    from cleaned [OF _ this w] run expired w es(1) lim show ?thesis
      by (intro exI [of _ "(t, [t]) # ws"]) (auto simp: allow_def Let_def distinct_update time_sub_less count_in_Cons [of _ _ _ "concat _"])
  next
    case (full e)
    with run r es(2) lim show ?thesis by (intro exI [of _ ws]) (auto simp: allow_def Let_def time_sub_less count_in_def)
  next
    case (more e)
    with r obtain ts ws0 where ws: "ws = (RL_windowStart e, ts) # ws0" "RL_count e = int (length ts)" "RL_windowStart e \<le> t"
      by (auto simp: reflects_def)
    have "windows_ok limit window ((RL_windowStart e, ts @ [t]) # ws0)" using es(2) ws more by auto
    moreover from run more lim have "es' = AList.update key (e\<lparr>RL_count := RL_count e + 1\<rparr>) es" "ok"
      by (auto simp: allow_def Let_def time_sub_less)
    then have "reflects window t (map_of es' key) ((RL_windowStart e, ts @ [t]) # ws0)"
      using ws by (simp add: reflects_def update_conv')
    ultimately show ?thesis using more(1) ws(1) \<open>ok\<close> by (intro exI [of _ "(RL_windowStart e, ts @ [t]) # ws0"])
      (simp add: count_in_Cons [of _ _ _ "concat _"])
  qed
qed

lemma run_limiter_bound:
  assumes "0 < limit" "0 < window" "fits window"
  shows "sorted (map snd rs) \<Longrightarrow> \<forall>r \<in> set rs. t0 \<le> snd r \<Longrightarrow> distinct (map fst es) \<Longrightarrow> windows_ok limit window ws \<Longrightarrow>
    reflects window t0 (map_of es key) ws \<Longrightarrow>
    int (count_in s window (concat (map snd ws)) + count_in s window (allowed_times key (run_limiter limit window rs es))) \<le> 2 * limit"
proof (induction rs arbitrary: t0 es ws)
  case Nil
  then show ?case using count_in_two_windows [of limit window ws s] assms by (simp add: allowed_times_def count_in_def)
next
  case (Cons r rs)
  obtain ok retry es' where a: "allow (snd r) (fst r) limit window es = ((ok, retry), es')" by (metis prod.exhaust)
  from Cons.prems(2) have t: "t0 \<le> snd r" by simp
  from allow_step [OF assms Cons.prems(3-5) t a] obtain ws' where ws': "windows_ok limit window ws'"
    "reflects window (snd r) (map_of es' key) ws'"
    "count_in s window (concat (map snd ws')) = count_in s window (concat (map snd ws)) + count_in s window (if fst r = key \<and> ok then [snd r] else [])"
    by blast
  have "distinct (map fst es')" using distinct_allow [OF Cons.prems(3), of "snd r" "fst r" limit window] a by simp
  from Cons.IH [OF _ _ this ws'(1,2)] Cons.prems(1)
  have "int (count_in s window (concat (map snd ws')) + count_in s window (allowed_times key (run_limiter limit window rs es'))) \<le> 2 * limit"
    by simp
  moreover have "allowed_times key (run_limiter limit window (r # rs) es) =
      (if fst r = key \<and> ok then [snd r] else []) @ allowed_times key (run_limiter limit window rs es')"
    by (simp add: a allowed_times_def)
  ultimately show ?case using ws'(3) by simp
qed

lemma retryAfterSeconds_enough:
  assumes "0 < d" and "d + second \<le> max_i64"
  shows "\<exists>n. retryAfterSeconds d = intText n \<and> d \<le> n * second \<and> 1 \<le> n \<and> n * second < d + second"
proof -
  have i: "i64 (i64 (d + second) - 1) = d + second - 1"
    using assms by (simp add: i64_bounds second_def)
  have n: "(d + second - 1) sdiv second = (d + second - 1) div second" using assms by (simp add: sdiv_nonneg second_def)
  have "1 \<le> (d + second - 1) div second" "d \<le> (d + second - 1) div second * second"
    "(d + second - 1) div second * second < d + second" using assms unfolding second_def by auto
  then show ?thesis by (intro exI [of _ "(d + second - 1) div second"]) (simp add: retryAfterSeconds_def i n)
qed

text \<open>C39. Whatever the requests are, the limiter lets at most twice the limit through for a key in any interval as
  long as the window, however it forgets expired entries; and a refused client that waits as many
  seconds as the answer says is let through.\<close>

theorem rate_limit_bound:
  assumes "0 < limit" and "0 < window" and "window + second \<le> max_i64" and "sorted (map snd rs)"
  shows "int (length (filter (\<lambda>t. s \<le> t \<and> t < s + window) (allowed_times key (run_limiter limit window rs [])))) \<le> 2 * limit \<and>
    (\<forall>es e t retry es'. map_of es key = Some e \<and> RL_windowStart e \<le> t \<and> allow t key limit window es = ((False, retry), es') \<longrightarrow>
       (\<exists>n. retryAfterSeconds retry = intText n \<and> n * second < window + second \<and>
          (\<forall>t'. t + n * second \<le> t' \<longrightarrow> fst (fst (allow t' key limit window es')))))"
proof
  have fit: "fits window" using assms(2,3) by (simp add: i64_bounds second_def)
  have t0: "\<forall>r \<in> set rs. (if rs = [] then 0 else snd (hd rs)) \<le> snd r"
    using assms(4) by (cases rs) auto
  from run_limiter_bound [OF assms(1,2) fit assms(4) t0, where es = "[]" and ws = "[]" and s = s and key = key]
  show "int (length (filter (\<lambda>t. s \<le> t \<and> t < s + window) (allowed_times key (run_limiter limit window rs [])))) \<le> 2 * limit"
    by (simp add: reflects_def count_in_def)
  show "\<forall>es e t retry es'. map_of es key = Some e \<and> RL_windowStart e \<le> t \<and> allow t key limit window es = ((False, retry), es') \<longrightarrow>
       (\<exists>n. retryAfterSeconds retry = intText n \<and> n * second < window + second \<and>
          (\<forall>t'. t + n * second \<le> t' \<longrightarrow> fst (fst (allow t' key limit window es'))))"
  proof (intro allI impI, elim conjE)
    fix es e t retry es'
    assume e: "map_of es key = Some e" "RL_windowStart e \<le> t" and run: "allow t key limit window es = ((False, retry), es')"
    from run e have x: "es' = es" "\<not> window \<le> t - RL_windowStart e" "retry = time_sub (RL_windowStart e + window) t"
      using time_sub_less [OF fit assms(2)] by (auto simp: allow_def Let_def split: if_split_asm)
    have r: "retry = RL_windowStart e + window - t" using x(2,3) e(2) assms(2,3) by (auto simp: time_sub_def i64_bounds second_def)
    have "0 < retry" "retry + second \<le> max_i64" "retry \<le> window" using r x(2) e(2) assms(3) by auto
    from retryAfterSeconds_enough [OF this(1,2)] this(3) obtain n where n: "retryAfterSeconds retry = intText n"
      "retry \<le> n * second" "n * second < window + second" by auto
    have "fst (fst (allow t' key limit window es'))" if "t + n * second \<le> t'" for t'
    proof -
      from that n r have "window \<le> t' - RL_windowStart e" by simp
      then show ?thesis using e time_sub_less [OF fit assms(2)] by (simp add: x(1) allow_def Let_def)
    qed
    with n show "\<exists>n. retryAfterSeconds retry = intText n \<and> n * second < window + second \<and>
          (\<forall>t'. t + n * second \<le> t' \<longrightarrow> fst (fst (allow t' key limit window es')))" by blast
  qed
qed

text \<open>Two requests a window: the fourth of five is refused, and the bound is reached across the border of two windows.\<close>

theorem rate_limit_bound_witness:
  "let rs = [(''k'', 0), (''k'', 9), (''k'', 9), (''k'', 10), (''k'', 11)] in
     map (\<lambda>(k, t, ok). ok) (run_limiter 2 10 rs []) = [True, True, False, True, True] \<and>
     int (length (filter (\<lambda>t. 5 \<le> t \<and> t < 5 + 10) (allowed_times ''k'' (run_limiter 2 10 rs [])))) \<le> 2 * 2"
proof -
  let ?rs = "[(''k'', 0), (''k'', 9), (''k'', 9), (''k'', 10), (''k'', 11)] :: (string \<times> time) list"
  have "map (\<lambda>(k, t, ok). ok) (run_limiter 2 10 ?rs []) = [True, True, False, True, True]"
    by (simp add: allow_def cleanupLocked_def time_sub_def i64_bounds)
  with rate_limit_bound [of 2 10 ?rs 5 "''k''"] show ?thesis by (simp add: Let_def i64_bounds second_def)
qed

section \<open>Checks before the handlers\<close>

text \<open>What a middleware decides about a request: an answer with this status and message, or on to the next.\<close>

datatype 'a verdict = Next 'a | Abort nat string

definition JWTAuth :: "AuthService \<Rightarrow> string \<Rightarrow> AccessClaims verdict m" where
  "JWTAuth auth header =
     (if \<not> HasPrefix header ''Bearer '' then ret (Abort 401 ''authorization header required'')
      else handle (ValidateAccessToken auth (TrimPrefix header ''Bearer ''))
        (\<lambda>e. ret (Abort 401 ''invalid or expired token'')) (\<lambda>claims. ret (Next claims)))"

text \<open>\<open>MustClaims\<close> panics without a token; \<open>gin.Recovery\<close> answers 500.\<close>

definition RequireRole :: "UserRole list \<Rightarrow> AccessClaims option \<Rightarrow> unit verdict" where
  "RequireRole roles claims = (case claims of
     None \<Rightarrow> Abort 500 []
   | Some c \<Rightarrow> if AC_Role c \<notin> set roles then Abort 403 ''forbidden'' else Next ())"

definition TachiyaInternalAuth :: "string \<Rightarrow> string \<Rightarrow> unit verdict" where
  "TachiyaInternalAuth expected actual =
     (if expected = [] \<or> actual = [] \<or> actual \<noteq> expected then Abort 401 ''invalid internal secret'' else Next ())"

text \<open>\<^verbatim>\<open>http_metrics.go\<close>.\<close>

definition MetricsBearerGuard :: "string \<Rightarrow> string \<Rightarrow> bool" where
  "MetricsBearerGuard token header \<longleftrightarrow> token = [] \<or> HasPrefix header ''Bearer '' \<and> TrimPrefix header ''Bearer '' = token"

text \<open>\<open>net.SplitHostPort\<close>: the host, when the text is well-formed.\<close>

definition last_colon :: "string \<Rightarrow> nat option" where
  "last_colon s = (if CHR '':'' \<in> set s then Some (length s - 1 - length (takeWhile (\<lambda>c. c \<noteq> CHR '':'') (rev s))) else None)"

definition SplitHostPort :: "string \<Rightarrow> string option" where
  "SplitHostPort s = (case last_colon s of
     None \<Rightarrow> None
   | Some i \<Rightarrow>
       if s ! 0 = CHR ''['' then
         let e = length (takeWhile (\<lambda>c. c \<noteq> CHR '']'') s) in
         if e = length s \<or> e + 1 \<noteq> i then None
         else if CHR ''['' \<in> set (drop 1 s) \<or> CHR '']'' \<in> set (drop (e + 1) s) then None
         else Some (take (e - 1) (drop 1 s))
       else
         let host = take i s in
         if CHR '':'' \<in> set host \<or> CHR ''['' \<in> set s \<or> CHR '']'' \<in> set s then None else Some host)"

text \<open>\<open>clientIP\<close> is what gin derives from the connection and the trusted proxies.\<close>

definition ClientIPRateLimitKey :: "string \<Rightarrow> string \<Rightarrow> string" where
  "ClientIPRateLimitKey clientIP remoteAddr =
     (if clientIP \<noteq> [] then clientIP
      else (case SplitHostPort remoteAddr of
          Some host \<Rightarrow> if host \<noteq> [] then host else if remoteAddr \<noteq> [] then remoteAddr else ''unknown''
        | None \<Rightarrow> if remoteAddr \<noteq> [] then remoteAddr else ''unknown''))"

definition Limit :: "string \<Rightarrow> int \<Rightarrow> int \<Rightarrow> string \<Rightarrow> time \<Rightarrow> rate_entries \<Rightarrow> (nat \<times> string) option \<times> rate_entries" where
  "Limit name limit window keyFunc t entries =
     (if limit \<le> 0 \<or> window \<le> 0 then (None, entries)
      else (case allow t (name @ ''|'' @ keyFunc) limit window entries of ((allowed, retryAfter), entries') \<Rightarrow>
        if \<not> allowed then (Some (429, retryAfterSeconds retryAfter), entries') else (None, entries')))"

section \<open>What is logged\<close>

definition isSafeRequestID :: "string \<Rightarrow> bool" where
  "isSafeRequestID value =
     (if value = [] \<or> length value > 128 then False
      else list_all (\<lambda>r. cont 97 122 r \<or> cont 65 90 r \<or> cont 48 57 r \<or> r \<in> set ''-_.:'') value)"

text \<open>A request gets an identifier of its own unless it brings one that is safe to log.\<close>

definition RequestID :: "string \<Rightarrow> nat \<Rightarrow> string" where
  "RequestID header fresh = (if \<not> isSafeRequestID header then hexDigits 32 fresh else header)"

definition log_char :: "char \<Rightarrow> char" where
  "log_char r = (if r \<in> {CHR '' '', CHR 0x09, CHR 0x0A, CHR 0x0D, CHR 0x22, CHR 0x27} then CHR ''_'' else r)"

text \<open>
  \<open>strings.Map\<close> goes through the runes of the text: a rune of several bytes is kept, a byte that starts
  none becomes the replacement character.
\<close>

definition rune_width :: "string \<Rightarrow> nat" where
  "rune_width s = (if cont 0 127 (hd s) then 1
     else case filter (\<lambda>n. n \<le> length s \<and> RuneCountInString (take n s) = 1) [2, 3, 4] of n # _ \<Rightarrow> n | [] \<Rightarrow> 0)"

function log_runes :: "string \<Rightarrow> string" where
  "log_runes [] = []"
| "log_runes (c # s) =
     (let n = rune_width (c # s) in
      if n = 0 then [CHR 0xEF, CHR 0xBF, CHR 0xBD] @ log_runes s
      else if n = 1 then log_char c # log_runes s
      else take n (c # s) @ log_runes (drop (n - 1) s))"
  by pat_completeness auto
termination by (relation "measure length") auto

definition safeLogToken :: "string \<Rightarrow> string" where
  "safeLogToken value =
     (let v = TrimSpace value in if v = [] then ''-'' else
      let v' = log_runes v in if length v' > 256 then take 256 v' else v')"

definition breaks_log :: "char \<Rightarrow> bool" where
  "breaks_log c \<longleftrightarrow> c \<in> {CHR '' '', CHR 0x09, CHR 0x0A, CHR 0x0D, CHR 0x22, CHR 0x27}"

lemma high_byte: "cont a b x \<Longrightarrow> 128 \<le> a \<Longrightarrow> \<not> breaks_log x"
  by (auto simp: cont_def breaks_log_def)

lemma RuneCount_pos: "s \<noteq> [] \<Longrightarrow> 0 < RuneCountInString s"
  by (cases s rule: RuneCountInString.cases) auto

lemma one_rune:
  "RuneCountInString [a, b] = 1 \<Longrightarrow> cont 194 223 a \<and> cont 128 191 b"
  "RuneCountInString [a, b, c] = 1 \<Longrightarrow> cont 224 239 a \<and> cont 128 191 b \<and> cont 128 191 c"
  "RuneCountInString [a, b, c, d] = 1 \<Longrightarrow> cont 240 244 a \<and> cont 128 191 b \<and> cont 128 191 c \<and> cont 128 191 d"
proof -
  note pos = RuneCount_pos [of "[c]"] RuneCount_pos [of "[b, c]"] RuneCount_pos [of "[c, d]"] RuneCount_pos [of "[d]"] RuneCount_pos [of "[b, c, d]"]
  show "RuneCountInString [a, b] = 1 \<Longrightarrow> cont 194 223 a \<and> cont 128 191 b" by (simp split: if_split_asm)
  show "RuneCountInString [a, b, c] = 1 \<Longrightarrow> cont 224 239 a \<and> cont 128 191 b \<and> cont 128 191 c"
    unfolding RuneCountInString.simps(3) using pos
    by (auto simp del: RuneCountInString.simps split: if_split_asm) (auto simp: cont_def)
  show "RuneCountInString [a, b, c, d] = 1 \<Longrightarrow> cont 240 244 a \<and> cont 128 191 b \<and> cont 128 191 c \<and> cont 128 191 d"
    unfolding RuneCountInString.simps(2) using pos
    by (auto simp del: RuneCountInString.simps split: if_split_asm) (auto simp: cont_def)
qed

lemma rune_bytes:
  assumes "rune_width (c # s) = n" "n \<noteq> 0" "n \<noteq> 1"
  shows "\<forall>x \<in> set (take n (c # s)). \<not> breaks_log x"
proof -
  from assms have n: "n \<in> {2, 3, 4}" "n \<le> length (c # s)" "RuneCountInString (take n (c # s)) = 1"
    by (auto simp: rune_width_def filter_eq_Cons_iff simp del: RuneCountInString.simps split: list.split_asm if_split_asm)
  then consider a where "take n (c # s) = [c, a]" | a b where "take n (c # s) = [c, a, b]" | a b d where "take n (c # s) = [c, a, b, d]"
    by (cases s; cases "tl s"; cases "tl (tl s)") (auto simp: numeral_eq_Suc simp del: RuneCountInString.simps)
  then show ?thesis
  proof cases
    case (1 a)
    with one_rune(1) [of c a] n(3) show ?thesis by (simp only: high_byte list.set ball_simps simp_thms) (auto simp: high_byte)
  next
    case (2 a b)
    with one_rune(2) [of c a b] n(3) show ?thesis by (simp only: high_byte list.set ball_simps simp_thms) (auto simp: high_byte)
  next
    case (3 a b d)
    with one_rune(3) [of c a b d] n(3) show ?thesis by (simp only: high_byte list.set ball_simps simp_thms) (auto simp: high_byte)
  qed
qed

lemma log_runes_safe: "x \<in> set (log_runes s) \<Longrightarrow> \<not> breaks_log x"
proof (induction s rule: log_runes.induct)
  case (2 c s)
  show ?case
  proof (cases "rune_width (c # s) \<le> 1")
    case True
    with 2 show ?thesis
      by (auto simp: Let_def le_Suc_eq breaks_log_def log_char_def split: if_split_asm)
  next
    case False
    with 2 rune_bytes [OF refl, of c s] show ?thesis by (auto simp: Let_def simp del: take_Cons')
  qed
qed simp

lemma log_runes_Cons: "log_runes (c # s) \<noteq> []"
  by (simp add: Let_def)

text \<open>C0. A value from a request is logged as one token: never empty, at most 256 bytes, and without blanks, quotes
  and line breaks, so that it can forge neither a field nor a line of the log.\<close>

theorem safeLogToken_safe:
  "safeLogToken v \<noteq> [] \<and> length (safeLogToken v) \<le> 256 \<and> list_all (\<lambda>c. \<not> breaks_log c) (safeLogToken v)"
proof -
  have "log_runes (TrimSpace v) \<noteq> []" if "TrimSpace v \<noteq> []"
    using that log_runes_Cons by (cases "TrimSpace v") auto
  then show ?thesis
    using log_runes_safe [of _ "TrimSpace v"]
    by (auto simp: safeLogToken_def Let_def list_all_iff breaks_log_def dest: in_set_takeD)
qed

end
