(* ===== verification/Http.thy ===== *)
theory Http
  imports Complex_Main Accounts
begin

text \<open>
  What the handlers of \<^verbatim>\<open>handlers/\<close> share: \<^verbatim>\<open>response.go\<close>, the claims of the caller and the binding of a
  body. A handler gets the request's parameters and what gin decoded from the body as arguments; its
  answer is a status with data or with an error text. Log lines are not modelled.
\<close>

text \<open>
  \<open>H_parse\<close> is \<^verbatim>\<open>uuid.Parse\<close>, \<open>H_email\<close> the validator's rule \<open>email\<close>, \<open>H_bindError\<close> the text of a failed
  validation. A decoded body is checked here against the rules of the struct's \<open>binding\<close> tags.
\<close>

record HttpLib =
  H_parse :: "string \<Rightarrow> uuid option"
  H_email :: "string \<Rightarrow> bool"
  H_bindError :: string

text \<open>\<open>Refuse\<close> carries further fields of the answer by name.\<close>

datatype 'd response = Reply nat 'd | Refuse nat string "(string \<times> string) list"

definition okR :: "'d \<Rightarrow> 'd response" where
  "okR d = Reply 200 d"

definition created :: "'d \<Rightarrow> 'd response" where
  "created d = Reply 201 d"

definition refuse :: "nat \<Rightarrow> string \<Rightarrow> 'd response" where
  "refuse status msg = Refuse status msg []"

definition badRequest :: "string \<Rightarrow> 'd response" where
  "badRequest msg = refuse 400 msg"

definition unauthorized :: "string \<Rightarrow> 'd response" where
  "unauthorized msg = refuse 401 msg"

definition forbidden :: "string \<Rightarrow> 'd response" where
  "forbidden msg = refuse 403 msg"

definition notFound :: "string \<Rightarrow> 'd response" where
  "notFound msg = refuse 404 msg"

definition conflict :: "string \<Rightarrow> 'd response" where
  "conflict msg = refuse 409 msg"

definition unprocessableEntity :: "string \<Rightarrow> 'd response" where
  "unprocessableEntity msg = refuse 422 msg"

definition serviceUnavailable :: "string \<Rightarrow> 'd response" where
  "serviceUnavailable msg = refuse 503 msg"

definition internal :: "'d response" where
  "internal = refuse 500 ''internal server error''"

text \<open>The first matching case of a chain of \<open>errors.Is\<close>, and of a \<open>switch\<close> on the error itself.\<close>

fun matching :: "(err \<Rightarrow> err \<Rightarrow> bool) \<Rightarrow> (err \<times> 'd response) list \<Rightarrow> err \<Rightarrow> 'd response" where
  "matching same [] e = internal"
| "matching same ((x, r) # cases) e = (if same e x then r else matching same cases e)"

definition on_error :: "(err \<times> 'd response) list \<Rightarrow> err \<Rightarrow> 'd response m" where
  "on_error cases e = ret (matching errors_is cases e)"

definition on_exact :: "(err \<times> 'd response) list \<Rightarrow> err \<Rightarrow> 'd response m" where
  "on_exact cases e = ret (matching (=) cases e)"

text \<open>\<open>MustClaims\<close>, and the parsing of its user.\<close>

definition mustClaims :: "AccessClaims option \<Rightarrow> (AccessClaims \<Rightarrow> 'a m) \<Rightarrow> 'a m" where
  "mustClaims claims k = (case claims of None \<Rightarrow> fail Panic | Some c \<Rightarrow> k c)"

definition parseID :: "HttpLib \<Rightarrow> string \<Rightarrow> string \<Rightarrow> (uuid \<Rightarrow> 'd response m) \<Rightarrow> 'd response m" where
  "parseID h text msg k = (case H_parse h text of None \<Rightarrow> ret (badRequest msg) | Some u \<Rightarrow> k u)"

definition caller :: "HttpLib \<Rightarrow> AccessClaims option \<Rightarrow> (uuid \<Rightarrow> 'd response m) \<Rightarrow> 'd response m" where
  "caller h claims k = mustClaims claims (\<lambda>c. parseID h (AC_UserID c) ''invalid user id'' k)"

text \<open>\<open>userID, _ := uuid.Parse(\<dots>)\<close>: a text that is no UUID is the zero UUID.\<close>

definition parseOrNil :: "HttpLib \<Rightarrow> string \<Rightarrow> uuid" where
  "parseOrNil h text = (case H_parse h text of None \<Rightarrow> 0 | Some u \<Rightarrow> u)"

definition me :: "HttpLib \<Rightarrow> AccessClaims option \<Rightarrow> (uuid \<Rightarrow> 'd response m) \<Rightarrow> 'd response m" where
  "me h claims k = mustClaims claims (\<lambda>c. k (parseOrNil h (AC_UserID c)))"

text \<open>\<open>ShouldBindJSON\<close>: the body as it was decoded, and the rules of its fields.\<close>

definition bindJSON :: "HttpLib \<Rightarrow> err + 'b \<Rightarrow> ('b \<Rightarrow> bool) \<Rightarrow> ('b \<Rightarrow> 'd response m) \<Rightarrow> 'd response m" where
  "bindJSON h json valid k = (case json of
     Inl e \<Rightarrow> ret (badRequest (errText e))
   | Inr body \<Rightarrow> if valid body then k body else ret (badRequest (H_bindError h)))"

definition orInternal :: "'a m \<Rightarrow> ('a \<Rightarrow> 'd response m) \<Rightarrow> 'd response m" where
  "orInternal x k = handle x (\<lambda>e. ret internal) k"

record BrowserTokenPair =
  BT_AccessToken :: string
  BT_ExpiresIn :: int

text \<open>The refresh token goes into a cookie, never into a body.\<close>

definition browserTokenPair :: "TokenPair \<Rightarrow> BrowserTokenPair" where
  "browserTokenPair tokens = \<lparr>BT_AccessToken = TP_AccessToken tokens, BT_ExpiresIn = TP_ExpiresIn tokens\<rparr>"

end
