(* ===== verification/Airdrop.thy ===== *)
theory Airdrop
  imports Watch "HOL-Library.Multiset"
begin

text \<open>
  \<^verbatim>\<open>services/airdrop_service.go\<close>: an amount of points is shared among the viewers that are
  watching a channel, in proportion to their watched seconds, within a daily limit. The
  model covers the snapshot of the viewers, the limit, the largest-remainder distribution
  and the retry loop around the serializable transaction.
\<close>

section \<open>The distribution\<close>

record AirdropViewer =
  AV_UserID :: uuid
  AV_AccumulatedSeconds :: int
  AV_Share :: int
  AV_Remainder :: int

text \<open>
  \<open>distributeAirdrop\<close> mutates the slice; here it returns the new one. Go's arithmetic wraps,
  and the last loop panics when \<open>remaining\<close> exceeds the number of viewers. The identifier
  order of \<open>UserID.String()\<close> is the order of the identifiers themselves.
\<close>

definition positive_total :: "AirdropViewer list \<Rightarrow> int" where
  "positive_total viewers = foldl (\<lambda>t v. if AV_AccumulatedSeconds v > 0
     then i64 (t + AV_AccumulatedSeconds v) else t) 0 viewers"

fun equal_shares :: "int \<Rightarrow> int \<Rightarrow> int \<Rightarrow> AirdropViewer list \<Rightarrow> AirdropViewer list" where
  "equal_shares base remainder i [] = []"
| "equal_shares base remainder i (v # vs) =
     v\<lparr>AV_Share := (if i < remainder then i64 (base + 1) else base)\<rparr> #
     equal_shares base remainder (i + 1) vs"

definition weigh :: "int \<Rightarrow> int \<Rightarrow> AirdropViewer \<Rightarrow> AirdropViewer" where
  "weigh amount totalAccumulated v =
     (let weighted = i64 (amount * AV_AccumulatedSeconds v)
      in v\<lparr>AV_Share := i64 (weighted sdiv totalAccumulated), AV_Remainder := weighted smod totalAccumulated\<rparr>)"

definition by_remainder :: "AirdropViewer list \<Rightarrow> AirdropViewer list" where
  "by_remainder vs = sort_key (\<lambda>v. - AV_Remainder v)
     (sort_key (\<lambda>v. - AV_AccumulatedSeconds v) (sort_key AV_UserID vs))"

definition top_up :: "int \<Rightarrow> AirdropViewer list \<Rightarrow> err + AirdropViewer list" where
  "top_up remaining vs =
     (if remaining > int (length vs) then Inl Panic
      else Inr (map (\<lambda>v. v\<lparr>AV_Share := i64 (AV_Share v + 1)\<rparr>) (take (nat remaining) vs) @
                drop (nat remaining) vs))"

definition distributeAirdrop :: "AirdropViewer list \<Rightarrow> int \<Rightarrow> err + AirdropViewer list" where
  "distributeAirdrop viewers amount =
     (if amount \<le> 0 \<or> viewers = [] then Inr viewers
      else
        let totalAccumulated = positive_total viewers in
        if totalAccumulated = 0 then
          Inr (equal_shares (amount sdiv int (length viewers)) (amount smod int (length viewers)) 0 viewers)
        else
          let weighed = map (weigh amount totalAccumulated) viewers;
              remaining = foldl (\<lambda>r v. i64 (r - AV_Share v)) amount weighed
          in top_up remaining (by_remainder weighed))"

section \<open>The airdrop\<close>

definition defaultDailyAirdropLimit :: int where
  "defaultDailyAirdropLimit = 5000"

definition maxAirdropTxRetries :: nat where
  "maxAirdropTxRetries = 5"

record AirdropRequest =
  AQ_ChannelID :: string
  AQ_Amount :: int
  AQ_Note :: string

record AirdropRecipient =
  AR_UserID :: uuid
  AR_AllocatedPoints :: int

record AirdropResult =
  AX_AffectedCount :: int
  AX_Distribution :: "AirdropRecipient list"

definition utc_day :: "time \<Rightarrow> time" where
  "utc_day at = at - at mod (24 * hour)"

definition airdrop_total :: "string \<Rightarrow> time \<Rightarrow> db \<Rightarrow> int" where
  "airdrop_total ch at d = sum_list (concat (map (\<lambda>t.
     map (\<lambda>_. PT_Delta t) (filter (\<lambda>l. PL_ID l = PT_LedgerID t \<and> PL_ChannelID l = ch) (t_points_ledgers d)))
     (filter (\<lambda>t. PT_Source t = TxSourceAirdrop \<and> utc_day at \<le> PT_CreatedAt t \<and>
        PT_CreatedAt t < utc_day at + 24 * hour) (t_points_transactions d))))"

definition todayTotal :: "string \<Rightarrow> time \<Rightarrow> int m" where
  "todayTotal ch at = query_sum (airdrop_total ch at)"

definition TodayTotalContext :: "string \<Rightarrow> int m" where
  "TodayTotalContext ch = bnd now (\<lambda>at. todayTotal ch at)"

definition activeViewersInTx :: "string \<Rightarrow> AirdropViewer list m" where
  "activeViewersInTx ch =
     bnd now (\<lambda>t.
     let freshCutoff = t - staleThreshold in
     query (\<lambda>d. sort_key (\<lambda>v. - AV_AccumulatedSeconds v) (sort_key AV_UserID
       (map (\<lambda>s. \<lparr>AV_UserID = WS_UserID s, AV_AccumulatedSeconds = WS_AccumulatedSeconds s,
                  AV_Share = 0, AV_Remainder = 0\<rparr>)
         (filter (\<lambda>s. WS_ChannelID s = ch \<and> WS_IsActive s \<and> WS_LastHeartbeatAt s > freshCutoff)
            (t_watch_sessions d))))))"

definition dailyLimitInTx :: "string \<Rightarrow> int m" where
  "dailyLimitInTx ch =
     bnd (query (find_config ch)) (\<lambda>found.
     case found of
       None \<Rightarrow> ret defaultDailyAirdropLimit
     | Some cfg \<Rightarrow> ret (if CC_DailyAirdropLimit cfg \<le> 0 then defaultDailyAirdropLimit
                       else CC_DailyAirdropLimit cfg))"

fun payShares :: "(uuid \<Rightarrow> int \<Rightarrow> unit m) \<Rightarrow> AirdropViewer list \<Rightarrow> AirdropRecipient list m" where
  "payShares pay [] = ret []"
| "payShares pay (v # vs) =
     (if AV_Share v \<le> 0 then payShares pay vs
      else
        seq (pay (AV_UserID v) (AV_Share v)) (
        bnd (payShares pay vs) (\<lambda>rest.
        ret (\<lparr>AR_UserID = AV_UserID v, AR_AllocatedPoints = AV_Share v\<rparr> # rest))))"

definition isRetryableAirdropTxError :: "err \<Rightarrow> bool" where
  "isRetryableAirdropTxError e =
     (case unwrap e of
        DbE (PgError code con msg) \<Rightarrow> code = ''40001'' \<or> code = ''40P01''
      | _ \<Rightarrow> let msg = ToLower (errText e) in
          Contains msg ''database is locked'' \<or> Contains msg ''database table is locked'')"

text \<open>One attempt: the transaction of the loop body.\<close>

definition airdropAttempt :: "AirdropRequest \<Rightarrow> PointsCreditMeta \<Rightarrow> time \<Rightarrow> AirdropResult m" where
  "airdropAttempt req meta airdropAt = transaction (
     bnd (activeViewersInTx (AQ_ChannelID req)) (\<lambda>viewers.
     if viewers = [] then fail (AirdropE ErrNoActiveViewers)
     else
       bnd (dailyLimitInTx (AQ_ChannelID req)) (\<lambda>limit.
       bnd (todayTotal (AQ_ChannelID req) airdropAt) (\<lambda>today.
       if today > limit \<or> AQ_Amount req > i64 (limit - today)
       then
         let remaining = i64 (limit - today);
             remaining = (if remaining < 0 then 0 else remaining)
         in fail (AirdropE (DailyAirdropExceededError limit today (AQ_Amount req) remaining))
       else
         (case distributeAirdrop viewers (AQ_Amount req) of
            Inl e \<Rightarrow> fail e
          | Inr shares \<Rightarrow>
              bnd (payShares (\<lambda>u a. addPointsWithMetaAt airdropAt u (AQ_ChannelID req) TxSourceAirdrop a meta)
                shares) (\<lambda>recipients.
              ret \<lparr>AX_AffectedCount = int (length recipients), AX_Distribution = recipients\<rparr>))))))"

fun airdropLoop :: "AirdropRequest \<Rightarrow> PointsCreditMeta \<Rightarrow> nat \<Rightarrow> err \<Rightarrow> AirdropResult m" where
  "airdropLoop req meta 0 lastErr = fail lastErr"
| "airdropLoop req meta (Suc attempts) lastErr =
     bnd now (\<lambda>airdropAt.
     handle (airdropAttempt req meta airdropAt)
       (\<lambda>e. if \<not> isRetryableAirdropTxError e then fail e else airdropLoop req meta attempts e)
       ret)"

definition ExecuteContext :: "AirdropRequest \<Rightarrow> AirdropResult m" where
  "ExecuteContext req =
     (if AQ_Amount req \<le> 0 then fail (PointsE ErrInvalidPointsAmount)
      else
        let meta = (if AQ_Note req = [] then no_meta else no_meta\<lparr>PM_Note := Some (AQ_Note req)\<rparr>)
        in airdropLoop req meta maxAirdropTxRetries Panic)"

section \<open>The distribution is exact\<close>

definition distributable :: "AirdropViewer list \<Rightarrow> int \<Rightarrow> bool" where
  "distributable vs amount \<longleftrightarrow> 0 < amount \<and> amount \<le> max_i64 \<and> vs \<noteq> [] \<and> int (length vs) \<le> max_i64 \<and>
     sum_list (map AV_AccumulatedSeconds vs) \<le> max_i64 \<and>
     (\<forall>v \<in> set vs. 0 \<le> AV_AccumulatedSeconds v \<and> amount * AV_AccumulatedSeconds v \<le> max_i64)"

definition quota :: "AirdropViewer list \<Rightarrow> int \<Rightarrow> AirdropViewer \<Rightarrow> int" where
  "quota vs amount v =
     (let tot = sum_list (map AV_AccumulatedSeconds vs)
      in if tot = 0 then amount div int (length vs) else amount * AV_AccumulatedSeconds v div tot)"

lemma sum_list_nonneg_int: "(\<And>x. x \<in> set xs \<Longrightarrow> 0 \<le> f x) \<Longrightarrow> 0 \<le> sum_list (map f xs)"
  for f :: "'a \<Rightarrow> int"
  by (induction xs) auto

lemma member_le_sum_list_int: "x \<in> set xs \<Longrightarrow> (\<And>x. x \<in> set xs \<Longrightarrow> 0 \<le> f x) \<Longrightarrow> f x \<le> sum_list (map f xs)"
  for f :: "'a \<Rightarrow> int"
  by (induction xs) (auto simp: add_increasing add_increasing2 sum_list_nonneg_int)

lemma sum_list_cong_mset: "mset xs = mset ys \<Longrightarrow> sum_list (map f xs) = sum_list (map f ys)"
  for f :: "'a \<Rightarrow> int"
  by (metis mset_map sum_mset_sum_list)

lemma positive_total_from:
  "0 \<le> t \<Longrightarrow> (\<And>v. v \<in> set vs \<Longrightarrow> 0 \<le> AV_AccumulatedSeconds v) \<Longrightarrow>
    t + sum_list (map AV_AccumulatedSeconds vs) \<le> max_i64 \<Longrightarrow>
    foldl (\<lambda>t v. if AV_AccumulatedSeconds v > 0 then i64 (t + AV_AccumulatedSeconds v) else t) t vs =
      t + sum_list (map AV_AccumulatedSeconds vs)"
proof (induction vs arbitrary: t)
  case (Cons v vs)
  have "0 \<le> sum_list (map AV_AccumulatedSeconds vs)" using Cons.prems by (intro sum_list_nonneg_int) auto
  with Cons.prems have le: "t + AV_AccumulatedSeconds v \<le> max_i64" and v: "0 \<le> AV_AccumulatedSeconds v" by auto
  have "i64 (t + AV_AccumulatedSeconds v) = t + AV_AccumulatedSeconds v"
    using le v Cons.prems(1) by (intro i64_fits) (simp add: i64_bounds)
  moreover have "foldl (\<lambda>t v. if AV_AccumulatedSeconds v > 0 then i64 (t + AV_AccumulatedSeconds v) else t)
      (t + AV_AccumulatedSeconds v) vs = t + AV_AccumulatedSeconds v + sum_list (map AV_AccumulatedSeconds vs)"
    using Cons.prems v by (intro Cons.IH) auto
  moreover have "0 < AV_AccumulatedSeconds v \<or> AV_AccumulatedSeconds v = 0" using v by linarith
  ultimately show ?case by auto
qed simp

lemma remaining_from:
  "r \<le> max_i64 \<Longrightarrow> (\<And>v. v \<in> set vs \<Longrightarrow> 0 \<le> AV_Share v) \<Longrightarrow> sum_list (map AV_Share vs) \<le> r \<Longrightarrow>
    foldl (\<lambda>r v. i64 (r - AV_Share v)) r vs = r - sum_list (map AV_Share vs)"
proof (induction vs arbitrary: r)
  case (Cons v vs)
  have "0 \<le> sum_list (map AV_Share vs)" using Cons.prems by (intro sum_list_nonneg_int) auto
  moreover have v: "0 \<le> AV_Share v" using Cons.prems by simp
  ultimately have "i64 (r - AV_Share v) = r - AV_Share v"
    using Cons.prems(1,3) v unfolding i64_bounds by (intro i64_fits) (simp add: i64_bounds)
  moreover have "r - AV_Share v \<le> max_i64" using Cons.prems(1) v by simp
  ultimately show ?case using Cons.IH [of "r - AV_Share v"] Cons.prems by auto
qed simp

lemma mset_by_remainder [simp]: "mset (by_remainder vs) = mset vs"
  by (simp add: by_remainder_def)

lemma set_by_remainder [simp]: "set (by_remainder vs) = set vs"
  by (metis mset_by_remainder set_mset_mset)

lemma length_by_remainder [simp]: "length (by_remainder vs) = length vs"
  by (metis mset_by_remainder size_mset)

lemma equal_shares_sum:
  "0 \<le> i \<Longrightarrow> (0 < r \<Longrightarrow> fits (base + 1)) \<Longrightarrow>
    sum_list (map AV_Share (equal_shares base r i vs)) =
      base * int (length vs) + max 0 (min (r - i) (int (length vs)))"
  by (induction vs arbitrary: i) (auto simp: algebra_simps)

lemma equal_shares_set:
  "x \<in> set (equal_shares base r i vs) \<Longrightarrow> 0 \<le> i \<Longrightarrow> (0 < r \<Longrightarrow> fits (base + 1)) \<Longrightarrow>
    AV_Share x = base \<or> AV_Share x = base + 1"
  by (induction vs arbitrary: i) (auto split: if_splits)

lemma equal_shares_keys:
  "map (\<lambda>v. (AV_UserID v, AV_AccumulatedSeconds v)) (equal_shares base r i vs) =
    map (\<lambda>v. (AV_UserID v, AV_AccumulatedSeconds v)) vs"
  by (induction vs arbitrary: i) auto

lemma weigh_sel [simp]:
  "AV_UserID (weigh a t v) = AV_UserID v" "AV_AccumulatedSeconds (weigh a t v) = AV_AccumulatedSeconds v"
  by (simp_all add: weigh_def Let_def)

lemma weigh_exact:
  assumes "0 \<le> a * AV_AccumulatedSeconds v" "a * AV_AccumulatedSeconds v \<le> max_i64" "0 < t"
  shows "AV_Share (weigh a t v) = a * AV_AccumulatedSeconds v div t"
    and "AV_Remainder (weigh a t v) = a * AV_AccumulatedSeconds v mod t"
proof -
  from assms have w: "i64 (a * AV_AccumulatedSeconds v) = a * AV_AccumulatedSeconds v"
    by (intro i64_fits) (auto simp: i64_bounds)
  have "0 \<le> a * AV_AccumulatedSeconds v div t" using assms by (simp add: pos_imp_zdiv_nonneg_iff)
  moreover have "a * AV_AccumulatedSeconds v div t \<le> a * AV_AccumulatedSeconds v"
    using assms by (smt (verit) div_by_1 zdiv_mono2)
  ultimately have "fits (a * AV_AccumulatedSeconds v div t)" using assms(2) by (auto simp: i64_bounds)
  with assms w show "AV_Share (weigh a t v) = a * AV_AccumulatedSeconds v div t"
    "AV_Remainder (weigh a t v) = a * AV_AccumulatedSeconds v mod t"
    by (simp_all add: weigh_def Let_def sdiv_nonneg smod_nonneg)
qed

text \<open>The floors of the proportional shares leave less than one point per viewer.\<close>

lemma floors_leave:
  assumes "0 < t" and "t = sum_list (map f vs)"
  shows "sum_list (map (\<lambda>v. a * f v div t) vs) \<le> a"
    and "vs \<noteq> [] \<Longrightarrow> a - sum_list (map (\<lambda>v. a * f v div t) vs) < int (length vs)"
proof -
  have eq: "a * t = t * sum_list (map (\<lambda>v. a * f v div t) vs) + sum_list (map (\<lambda>v. a * f v mod t) vs)"
  proof -
    have "a * sum_list (map f vs) = t * sum_list (map (\<lambda>v. a * f v div t) vs) + sum_list (map (\<lambda>v. a * f v mod t) vs)"
      by (induction vs) (auto simp: algebra_simps)
    then show ?thesis using assms(2) by simp
  qed
  have nonneg: "0 \<le> sum_list (map (\<lambda>v. a * f v mod t) vs)"
    using assms(1) by (intro sum_list_nonneg_int) auto
  then have "t * sum_list (map (\<lambda>v. a * f v div t) vs) \<le> t * a" using eq by (simp add: mult.commute)
  then show "sum_list (map (\<lambda>v. a * f v div t) vs) \<le> a" using assms(1) by simp
  assume "vs \<noteq> []"
  then have "sum_list (map (\<lambda>v. a * f v mod t) vs) < t * int (length vs)"
  proof (induction vs rule: list_nonempty_induct)
    case (cons x xs)
    have "a * f x mod t < t" using assms(1) by simp
    with cons show ?case by (simp add: algebra_simps)
  qed (use assms(1) in simp)
  with eq have "t * (a - sum_list (map (\<lambda>v. a * f v div t) vs)) < t * int (length vs)"
    by (simp add: algebra_simps)
  then show "a - sum_list (map (\<lambda>v. a * f v div t) vs) < int (length vs)" using assms(1) by simp
qed

lemma distributable_quota_nonneg: "distributable vs amount \<Longrightarrow> v \<in> set vs \<Longrightarrow> 0 \<le> quota vs amount v"
proof -
  assume d: "distributable vs amount" and v: "v \<in> set vs"
  then have "0 \<le> sum_list (map AV_AccumulatedSeconds vs)"
    by (intro sum_list_nonneg_int) (auto simp: distributable_def)
  with d v show ?thesis
    by (auto simp: quota_def Let_def distributable_def pos_imp_zdiv_nonneg_iff)
qed

text \<open>The weighted case: what is left after the floors is handed out one by one.\<close>

lemma distribute_weighted:
  assumes d: "distributable vs amount" and pos: "sum_list (map AV_AccumulatedSeconds vs) \<noteq> 0"
  defines "tot \<equiv> sum_list (map AV_AccumulatedSeconds vs)"
  defines "ws \<equiv> by_remainder (map (weigh amount tot) vs)"
  defines "left \<equiv> amount - sum_list (map AV_Share ws)"
  shows "0 \<le> left" and "left < int (length ws)" and "length ws = length vs"
    and "distributeAirdrop vs amount =
      Inr (map (\<lambda>v. v\<lparr>AV_Share := AV_Share v + 1\<rparr>) (take (nat left) ws) @ drop (nat left) ws)"
    and "\<And>w. w \<in> set ws \<Longrightarrow> AV_Share w = amount * AV_AccumulatedSeconds w div tot \<and>
      AV_Remainder w = amount * AV_AccumulatedSeconds w mod tot"
    and "\<And>w. w \<in> set ws \<Longrightarrow> AV_Share w \<le> amount - left"
    and "mset (map (\<lambda>v. (AV_UserID v, AV_AccumulatedSeconds v)) ws) =
      mset (map (\<lambda>v. (AV_UserID v, AV_AccumulatedSeconds v)) vs)"
proof -
  have acc: "0 \<le> AV_AccumulatedSeconds v" "amount * AV_AccumulatedSeconds v \<le> max_i64" if "v \<in> set vs" for v
    using d that by (auto simp: distributable_def)
  have a: "0 < amount" "amount \<le> max_i64" "vs \<noteq> []" "tot \<le> max_i64"
    using d by (auto simp: distributable_def tot_def)
  have t0: "0 < tot"
    using pos sum_list_nonneg_int [of vs AV_AccumulatedSeconds] acc(1) by (auto simp: tot_def)
  have total: "positive_total vs = tot"
    using positive_total_from [of 0 vs] acc(1) a(4) by (simp add: positive_total_def tot_def)
  have w: "AV_Share (weigh amount tot v) = amount * AV_AccumulatedSeconds v div tot"
    "AV_Remainder (weigh amount tot v) = amount * AV_AccumulatedSeconds v mod tot" if "v \<in> set vs" for v
    using weigh_exact acc that a(1) t0 by simp_all
  then have sum_w: "sum_list (map AV_Share (map (weigh amount tot) vs)) =
      sum_list (map (\<lambda>v. amount * AV_AccumulatedSeconds v div tot) vs)"
    by (simp add: o_def cong: map_cong)
  have sum_ws: "sum_list (map AV_Share ws) = sum_list (map AV_Share (map (weigh amount tot) vs))"
    unfolding ws_def by (rule sum_list_cong_mset) simp
  show len: "length ws = length vs" by (simp add: ws_def)
  have "tot = sum_list (map AV_AccumulatedSeconds vs)" by (simp add: tot_def)
  from floors_leave [OF t0 this, of amount] a(3)
  show l0: "0 \<le> left" and ln: "left < int (length ws)"
    unfolding left_def sum_ws sum_w len by simp_all
  show shares: "AV_Share w = amount * AV_AccumulatedSeconds w div tot \<and>
      AV_Remainder w = amount * AV_AccumulatedSeconds w mod tot" if "w \<in> set ws" for w
    using that w by (auto simp: ws_def)
  have nonneg: "0 \<le> AV_Share v" if "v \<in> set (map (weigh amount tot) vs)" for v
    using that w acc a(1) t0 by (auto simp: pos_imp_zdiv_nonneg_iff)
  have left: "foldl (\<lambda>r v. i64 (r - AV_Share v)) amount (map (weigh amount tot) vs) = left"
    unfolding left_def sum_ws by (rule remaining_from [OF a(2) nonneg]) (use l0 in \<open>auto simp: left_def sum_ws\<close>)
  have bound: "AV_Share v \<le> amount - left" if "v \<in> set ws" for v
  proof -
    have "AV_Share v \<le> sum_list (map AV_Share ws)"
      using that nonneg by (intro member_le_sum_list_int) (auto simp: ws_def)
    then show ?thesis by (simp add: left_def)
  qed
  then show "AV_Share w \<le> amount - left" if "w \<in> set ws" for w using that .
  have inc: "i64 (AV_Share v + 1) = AV_Share v + 1" if "v \<in> set (take (nat left) ws)" for v
  proof -
    from that have "v \<in> set ws" and "nat left \<noteq> 0" by (auto dest: in_set_takeD)
    with bound nonneg a(2) have "0 \<le> AV_Share v" "AV_Share v + 1 \<le> max_i64"
      by (force simp: ws_def)+
    then show ?thesis by (intro i64_fits) (simp add: i64_bounds)
  qed
  have "map (\<lambda>v. v\<lparr>AV_Share := i64 (AV_Share v + 1)\<rparr>) (take (nat left) ws) =
      map (\<lambda>v. v\<lparr>AV_Share := AV_Share v + 1\<rparr>) (take (nat left) ws)"
    using inc by (intro map_cong) auto
  with a t0 ln l0 show "distributeAirdrop vs amount =
      Inr (map (\<lambda>v. v\<lparr>AV_Share := AV_Share v + 1\<rparr>) (take (nat left) ws) @ drop (nat left) ws)"
    by (simp add: distributeAirdrop_def total Let_def left top_up_def ws_def [symmetric] len)
  show "mset (map (\<lambda>v. (AV_UserID v, AV_AccumulatedSeconds v)) ws) =
      mset (map (\<lambda>v. (AV_UserID v, AV_AccumulatedSeconds v)) vs)"
    by (simp add: ws_def multiset.map_comp o_def)
qed

lemma distribute_equal:
  assumes d: "distributable vs amount" and zero: "sum_list (map AV_AccumulatedSeconds vs) = 0"
  shows "distributeAirdrop vs amount =
      Inr (equal_shares (amount div int (length vs)) (amount mod int (length vs)) 0 vs)"
    and "\<And>v. v \<in> set vs \<Longrightarrow> AV_AccumulatedSeconds v = 0"
proof -
  show acc: "AV_AccumulatedSeconds v = 0" if "v \<in> set vs" for v
    using member_le_sum_list_int [OF that, of AV_AccumulatedSeconds] zero d that
    by (auto simp: distributable_def)
  from d have a: "0 < amount" "vs \<noteq> []" "0 < int (length vs)" by (auto simp: distributable_def)
  have "positive_total vs = 0"
    using positive_total_from [of 0 vs] acc zero by (simp add: positive_total_def max_i64_def)
  with a show "distributeAirdrop vs amount =
      Inr (equal_shares (amount div int (length vs)) (amount mod int (length vs)) 0 vs)"
    by (simp add: distributeAirdrop_def Let_def sdiv_nonneg smod_nonneg)
qed

lemma sum_take_drop_inc:
  "k \<le> length ws \<Longrightarrow> sum_list (map AV_Share (map (\<lambda>v. v\<lparr>AV_Share := AV_Share v + 1\<rparr>) (take k ws) @ drop k ws)) =
    sum_list (map AV_Share ws) + int k"
proof (induction ws arbitrary: k)
  case (Cons w ws)
  then show ?case by (cases k) auto
qed simp

lemma map_take_drop_inc:
  "(\<And>v. g (v\<lparr>AV_Share := AV_Share v + 1\<rparr>) = g v) \<Longrightarrow>
    map g (map (\<lambda>v. v\<lparr>AV_Share := AV_Share v + 1\<rparr>) (take k ws) @ drop k ws) = map g ws"
proof (induction ws arbitrary: k)
  case (Cons w ws)
  then show ?case by (cases k) auto
qed simp

lemma distribute_sound:
  assumes d: "distributable vs amount"
  shows "\<exists>vs'. distributeAirdrop vs amount = Inr vs' \<and>
    mset (map (\<lambda>v. (AV_UserID v, AV_AccumulatedSeconds v)) vs') =
      mset (map (\<lambda>v. (AV_UserID v, AV_AccumulatedSeconds v)) vs) \<and>
    sum_list (map AV_Share vs') = amount \<and>
    (\<forall>v \<in> set vs'. quota vs amount v \<le> AV_Share v \<and> AV_Share v \<le> quota vs amount v + 1)"
proof (cases "sum_list (map AV_AccumulatedSeconds vs) = 0")
  case False
  define tot where "tot = sum_list (map AV_AccumulatedSeconds vs)"
  define ws where "ws = by_remainder (map (weigh amount tot) vs)"
  define left where "left = amount - sum_list (map AV_Share ws)"
  note w = distribute_weighted [OF d False, folded tot_def, folded ws_def, folded left_def]
  let ?inc = "map (\<lambda>v. v\<lparr>AV_Share := AV_Share v + 1\<rparr>) (take (nat left) ws)"
  have keys: "map (\<lambda>v. (AV_UserID v, AV_AccumulatedSeconds v)) (?inc @ drop (nat left) ws) =
      map (\<lambda>v. (AV_UserID v, AV_AccumulatedSeconds v)) ws"
    by (rule map_take_drop_inc) simp
  have "sum_list (map AV_Share (?inc @ drop (nat left) ws)) = amount"
    using w(1,2) by (subst sum_take_drop_inc) (auto simp: left_def)
  moreover have "quota vs amount v \<le> AV_Share v \<and> AV_Share v \<le> quota vs amount v + 1"
    if "v \<in> set (?inc @ drop (nat left) ws)" for v
    using that w(5) False by (auto simp: quota_def tot_def [symmetric] Let_def dest: in_set_takeD in_set_dropD)
  moreover have "mset (map (\<lambda>v. (AV_UserID v, AV_AccumulatedSeconds v)) (?inc @ drop (nat left) ws)) =
      mset (map (\<lambda>v. (AV_UserID v, AV_AccumulatedSeconds v)) vs)"
    unfolding keys by (rule w(7))
  ultimately show ?thesis using w(4) by blast
next
  case True
  let ?n = "int (length vs)"
  from d have a: "0 < amount" "amount \<le> max_i64" "vs \<noteq> []" "0 < ?n" by (auto simp: distributable_def)
  have base: "0 \<le> amount div ?n" using a by (simp add: pos_imp_zdiv_nonneg_iff)
  have rem: "0 \<le> amount mod ?n" "amount mod ?n < ?n" using a by simp_all
  have fit: "fits (amount div ?n + 1)" if "0 < amount mod ?n"
  proof -
    have "?n \<noteq> 1" using that by auto
    with a have "2 \<le> ?n" by linarith
    then have "amount div ?n \<le> amount div 2" using a by (intro zdiv_mono2) auto
    moreover have "amount div 2 + 1 \<le> max_i64" using a(2) by (simp add: max_i64_def)
    ultimately show ?thesis using base by (simp add: i64_bounds)
  qed
  let ?vs = "equal_shares (amount div ?n) (amount mod ?n) 0 vs"
  note distribute_equal(1) [OF d True]
  moreover have "sum_list (map AV_Share ?vs) = amount"
    using rem fit by (subst equal_shares_sum) (auto simp: mult.commute)
  moreover have "quota vs amount v = amount div ?n" for v using True by (simp add: quota_def)
  ultimately show ?thesis
    using equal_shares_set [of _ "amount div ?n" "amount mod ?n" 0 vs] fit
    by (fastforce simp: equal_shares_keys)
qed

definition viewers_3 :: "AirdropViewer list" where
  "viewers_3 = [\<lparr>AV_UserID = 1, AV_AccumulatedSeconds = 90, AV_Share = 0, AV_Remainder = 0\<rparr>,
     \<lparr>AV_UserID = 2, AV_AccumulatedSeconds = 60, AV_Share = 0, AV_Remainder = 0\<rparr>,
     \<lparr>AV_UserID = 3, AV_AccumulatedSeconds = 20, AV_Share = 0, AV_Remainder = 0\<rparr>]"

text \<open>C7. The distribution is exact and fair: when the products of the amount with the watched seconds stay in range,
  the loop over the viewers cannot panic, every viewer is in the result once, the shares add up
  to exactly the amount, and each viewer gets the floor of the proportional share or one more
  (an equal share when nobody has watched time).\<close>

theorem distributeAirdrop_exact:
  assumes d: "distributable vs amount"
  shows "\<exists>vs'. distributeAirdrop vs amount = Inr vs' \<and>
    mset (map (\<lambda>v. (AV_UserID v, AV_AccumulatedSeconds v)) vs') =
      mset (map (\<lambda>v. (AV_UserID v, AV_AccumulatedSeconds v)) vs) \<and>
    sum_list (map AV_Share vs') = amount \<and>
    (\<forall>v \<in> set vs'. quota vs amount v \<le> AV_Share v \<and> AV_Share v \<le> quota vs amount v + 1)"
  using d by (rule distribute_sound)

theorem distributeAirdrop_exact_witness:
  "\<exists>vs'. distributeAirdrop viewers_3 100 = Inr vs' \<and> sum_list (map AV_Share vs') = 100"
proof -
  have "distributable viewers_3 100" by (simp add: distributable_def viewers_3_def max_i64_def)
  from distributeAirdrop_exact [OF this] show ?thesis by blast
qed

lemma by_remainder_sorted: "sorted (map (\<lambda>v. - AV_Remainder v) (by_remainder vs))"
  by (simp add: by_remainder_def)

text \<open>Who has watched longer never gets less: the points handed out after the floors go to the viewers with
  the largest remainders.\<close>

theorem distributeAirdrop_monotone:
  assumes d: "distributable vs amount" and run: "distributeAirdrop vs amount = Inr vs'"
    and v: "v1 \<in> set vs'" "v2 \<in> set vs'" and gt: "AV_AccumulatedSeconds v2 < AV_AccumulatedSeconds v1"
  shows "AV_Share v2 \<le> AV_Share v1"
proof (cases "sum_list (map AV_AccumulatedSeconds vs) = 0")
  case True
  let ?vs = "equal_shares (amount div int (length vs)) (amount mod int (length vs)) 0 vs"
  from distribute_equal(1) [OF d True] run have "vs' = ?vs" by simp
  with v have "v1 \<in> set ?vs" "v2 \<in> set ?vs" by simp_all
  moreover have "AV_AccumulatedSeconds v = 0" if "v \<in> set ?vs" for v
  proof -
    have "(AV_UserID v, AV_AccumulatedSeconds v) \<in> set (map (\<lambda>v. (AV_UserID v, AV_AccumulatedSeconds v)) ?vs)"
      using that by auto
    with distribute_equal(2) [OF d True] show ?thesis by (auto simp: equal_shares_keys)
  qed
  ultimately show ?thesis using gt by simp
next
  case False
  define tot where "tot = sum_list (map AV_AccumulatedSeconds vs)"
  define ws where "ws = by_remainder (map (weigh amount tot) vs)"
  define left where "left = amount - sum_list (map AV_Share ws)"
  note w = distribute_weighted [OF d False, folded tot_def, folded ws_def, folded left_def]
  define k where "k = nat left"
  have vs': "vs' = map (\<lambda>v. v\<lparr>AV_Share := AV_Share v + 1\<rparr>) (take k ws) @ drop k ws"
    using run w(4) by (simp add: k_def)
  have at: "\<exists>i < length ws. AV_AccumulatedSeconds v = AV_AccumulatedSeconds (ws ! i) \<and>
      AV_Share v = AV_Share (ws ! i) + (if i < k then 1 else 0)" if "v \<in> set vs'" for v
  proof -
    from that obtain i where i: "i < length vs'" "v = vs' ! i" by (auto simp: in_set_conv_nth)
    with vs' show ?thesis by (intro exI [of _ i]) (auto simp: nth_append)
  qed
  from at [OF v(1)] obtain i where i: "i < length ws" "AV_AccumulatedSeconds v1 = AV_AccumulatedSeconds (ws ! i)"
    "AV_Share v1 = AV_Share (ws ! i) + (if i < k then 1 else 0)" by blast
  from at [OF v(2)] obtain j where j: "j < length ws" "AV_AccumulatedSeconds v2 = AV_AccumulatedSeconds (ws ! j)"
    "AV_Share v2 = AV_Share (ws ! j) + (if j < k then 1 else 0)" by blast
  have i': "AV_Share (ws ! i) = amount * AV_AccumulatedSeconds v1 div tot"
    "AV_Remainder (ws ! i) = amount * AV_AccumulatedSeconds v1 mod tot"
    using w(5) [of "ws ! i"] i by auto
  have j': "AV_Share (ws ! j) = amount * AV_AccumulatedSeconds v2 div tot"
    "AV_Remainder (ws ! j) = amount * AV_AccumulatedSeconds v2 mod tot"
    using w(5) [of "ws ! j"] j by auto
  have lt: "amount * AV_AccumulatedSeconds v2 < amount * AV_AccumulatedSeconds v1"
    using gt d by (simp add: distributable_def)
  have tot: "0 < tot" using False d sum_list_nonneg_int [of vs AV_AccumulatedSeconds]
    by (auto simp: distributable_def tot_def)
  have le: "AV_Share (ws ! j) \<le> AV_Share (ws ! i)"
    unfolding i' j' using lt tot by (intro zdiv_mono1) auto
  show ?thesis
  proof (cases "AV_Share (ws ! j) < AV_Share (ws ! i)")
    case True
    then show ?thesis using i(3) j(3) by simp
  next
    case False
    with le have eq: "AV_Share (ws ! j) = AV_Share (ws ! i)" by simp
    then have "AV_Remainder (ws ! j) < AV_Remainder (ws ! i)"
      using lt i' j' by (metis add_less_cancel_left mult_div_mod_eq)
    moreover have "- AV_Remainder (ws ! j) \<le> - AV_Remainder (ws ! i)" if "j \<le> i"
      using sorted_nth_mono [OF by_remainder_sorted, of j i "map (weigh amount tot) vs"] that i(1) j(1)
      by (simp add: ws_def [symmetric])
    ultimately have "i < j" by (meson linorder_not_less neg_le_iff_le)
    with eq i(3) j(3) show ?thesis by auto
  qed
qed

lemma distribute_viewers_3:
  "distributeAirdrop viewers_3 100 = Inr
    [\<lparr>AV_UserID = 1, AV_AccumulatedSeconds = 90, AV_Share = 53, AV_Remainder = 160\<rparr>,
     \<lparr>AV_UserID = 3, AV_AccumulatedSeconds = 20, AV_Share = 12, AV_Remainder = 130\<rparr>,
     \<lparr>AV_UserID = 2, AV_AccumulatedSeconds = 60, AV_Share = 35, AV_Remainder = 50\<rparr>]"
  by (simp add: distributeAirdrop_def positive_total_def viewers_3_def Let_def weigh_def sdiv_nonneg smod_nonneg
      i64_def by_remainder_def top_up_def)

theorem distributeAirdrop_monotone_witness:
  "\<exists>vs' v1 v2. distributeAirdrop viewers_3 100 = Inr vs' \<and> v1 \<in> set vs' \<and> v2 \<in> set vs' \<and>
     AV_UserID v1 = 1 \<and> AV_UserID v2 = 2 \<and> AV_Share v2 \<le> AV_Share v1"
proof -
  have d: "distributable viewers_3 100" by (simp add: distributable_def viewers_3_def max_i64_def)
  let ?v = "\<lparr>AV_UserID = 1, AV_AccumulatedSeconds = 90, AV_Share = 53, AV_Remainder = 160\<rparr>"
  let ?v' = "\<lparr>AV_UserID = 2, AV_AccumulatedSeconds = 60, AV_Share = 35, AV_Remainder = 50\<rparr>"
  have "AV_Share ?v' \<le> AV_Share ?v"
    by (rule distributeAirdrop_monotone [OF d distribute_viewers_3]) simp_all
  with distribute_viewers_3 show ?thesis by force
qed

section \<open>The payment loop\<close>

text \<open>
  What the loop over the viewers needs of the operation that pays one of them: it keeps an
  invariant, acts on an abstract state by \<open>step\<close>, and adds to a running total. The client
  of the contract is \<open>payShares\<close>, over any list of payments.
\<close>

locale payout =
  fixes pay :: "uuid \<Rightarrow> int \<Rightarrow> unit m"
    and inv :: "db \<Rightarrow> bool"
    and state :: "db \<Rightarrow> 's"
    and step :: "uuid \<Rightarrow> int \<Rightarrow> 's \<Rightarrow> 's"
    and paid :: "db \<Rightarrow> int"
  assumes pay_inv: "inv (w_db w) \<Longrightarrow> 0 < a \<Longrightarrow> fits a \<Longrightarrow> pay u a w = (Inr (), w') \<Longrightarrow> inv (w_db w')"
    and pay_state: "inv (w_db w) \<Longrightarrow> 0 < a \<Longrightarrow> fits a \<Longrightarrow> pay u a w = (Inr (), w') \<Longrightarrow>
      state (w_db w') = step u a (state (w_db w))"
    and pay_paid: "inv (w_db w) \<Longrightarrow> 0 < a \<Longrightarrow> fits a \<Longrightarrow> pay u a w = (Inr (), w') \<Longrightarrow>
      paid (w_db w') = paid (w_db w) + a"
begin

lemma payShares_sound:
  "inv (w_db w) \<Longrightarrow> (\<And>v. v \<in> set vs \<Longrightarrow> fits (AV_Share v)) \<Longrightarrow> payShares pay vs w = (Inr rs, w') \<Longrightarrow>
    inv (w_db w') \<and>
    rs = map (\<lambda>v. \<lparr>AR_UserID = AV_UserID v, AR_AllocatedPoints = AV_Share v\<rparr>)
      (filter (\<lambda>v. 0 < AV_Share v) vs) \<and>
    state (w_db w') = fold (\<lambda>r. step (AR_UserID r) (AR_AllocatedPoints r)) rs (state (w_db w)) \<and>
    paid (w_db w') = paid (w_db w) + sum_list (map AR_AllocatedPoints rs)"
proof (induction vs arbitrary: w rs)
  case (Cons v vs)
  show ?case
  proof (cases "0 < AV_Share v")
    case True
    with Cons.prems(3) obtain w1 rest where
      head: "pay (AV_UserID v) (AV_Share v) w = (Inr (), w1)"
      and tail: "payShares pay vs w1 = (Inr rest, w')"
      and rs: "rs = \<lparr>AR_UserID = AV_UserID v, AR_AllocatedPoints = AV_Share v\<rparr> # rest"
      by (auto simp: run_simps)
    have fit: "fits (AV_Share v)" using Cons.prems(2) by simp
    note one = pay_inv [OF Cons.prems(1) True fit head] pay_state [OF Cons.prems(1) True fit head]
      pay_paid [OF Cons.prems(1) True fit head]
    from Cons.IH [OF one(1) _ tail] Cons.prems(2) one rs True show ?thesis by simp
  next
    case False
    with Cons show ?thesis by simp
  qed
qed (auto simp: run_simps)

end

section \<open>The running total of a day\<close>

definition ledger_count :: "string \<Rightarrow> PointsLedger list \<Rightarrow> PointsTransaction \<Rightarrow> int" where
  "ledger_count ch ls t = int (length (filter (\<lambda>l. PL_ID l = PT_LedgerID t \<and> PL_ChannelID l = ch) ls))"

lemma airdrop_total_eq:
  "airdrop_total ch at d = sum_list (map (\<lambda>t. PT_Delta t * ledger_count ch (t_points_ledgers d) t)
     (filter (\<lambda>t. PT_Source t = TxSourceAirdrop \<and> utc_day at \<le> PT_CreatedAt t \<and>
        PT_CreatedAt t < utc_day at + 24 * hour) (t_points_transactions d)))"
proof -
  have "sum_list (map (\<lambda>_. c) xs) = c * int (length xs)" for c :: int and xs :: "PointsLedger list"
    by (simp add: sum_list_triv)
  moreover have "sum_list (concat xss) = sum_list (map sum_list xss)" for xss :: "int list list"
    by (induction xss) auto
  ultimately show ?thesis
    by (simp add: airdrop_total_def ledger_count_def o_def)
qed

lemma ledger_count_update:
  "(\<And>l. PL_ID (f l) = PL_ID l) \<Longrightarrow> (\<And>l. PL_ChannelID (f l) = PL_ChannelID l) \<Longrightarrow>
    ledger_count ch (update_rows P f ls) t = ledger_count ch ls t"
  by (induction ls) (auto simp: ledger_count_def update_rows_def)

lemma ledger_count_append:
  "ledger_count ch (ls @ [l]) t = ledger_count ch ls t +
    (if PL_ID l = PT_LedgerID t \<and> PL_ChannelID l = ch then 1 else 0)"
  by (simp add: ledger_count_def)

lemma ledger_count_own:
  assumes "ledger_ok d" and "l \<in> set (t_points_ledgers d)" and "PT_LedgerID t = PL_ID l" and "PL_ChannelID l = ch"
  shows "ledger_count ch (t_points_ledgers d) t = 1"
proof -
  have "filter (\<lambda>x. PL_ID x = PL_ID l) (t_points_ledgers d) = [l]"
    using assms by (intro filter_unique) (auto simp: ledger_ok_def ledgers_ok_def)
  then have "filter (\<lambda>x. PL_ChannelID x = ch) (filter (\<lambda>x. PL_ID x = PL_ID l) (t_points_ledgers d)) = [l]"
    using assms(4) by simp
  then show ?thesis by (simp add: ledger_count_def assms(3) conj_commute)
qed

lemma utc_day_window: "utc_day at \<le> at" "at < utc_day at + 24 * hour"
  by (simp_all add: utc_day_def time_units)

lemma credited_airdrop_total:
  assumes ok: "ledger_ok d" "ledger_ok d'" and cr: "credited u ch a at' t d d'"
    and t: "PT_Source t = TxSourceAirdrop" "PT_CreatedAt t = at"
  shows "airdrop_total ch at d' = airdrop_total ch at d + a"
proof -
  let ?ls = "t_points_ledgers d" and ?ls' = "t_points_ledgers d'" and ?ts = "t_points_transactions d"
  have tx: "t_points_transactions d' = ?ts @ [t]" by (rule credited_other_tables(1) [OF cr])
  have old: "ledger_count ch ?ls' x = ledger_count ch ?ls x" if "x \<in> set ?ts" for x
  proof -
    from that ok(1) have "PT_LedgerID x \<in> PL_ID ` set ?ls" by (auto simp: ledger_ok_def ledgers_ok_def)
    with cr show ?thesis
      unfolding credited_def by (auto simp: ledger_count_update ledger_count_append)
  qed
  from cr obtain l where l: "find_ledger u ch d' = Some l" "PT_LedgerID t = PL_ID l" and a: "PT_Delta t = a"
    by (auto simp: credited_def)
  have new: "ledger_count ch ?ls' t = 1"
    using find_ledger_SomeD [OF l(1)] l(2) by (intro ledger_count_own [OF ok(2)]) auto
  have same: "sum_list (map (\<lambda>x. PT_Delta x * ledger_count ch ?ls' x) (filter Q ?ts)) =
      sum_list (map (\<lambda>x. PT_Delta x * ledger_count ch ?ls x) (filter Q ?ts))" for Q
    using old by (intro arg_cong [where f = sum_list] map_cong) auto
  show ?thesis
    unfolding airdrop_total_eq tx filter_append map_append sum_list_append same
    using new a t utc_day_window [of at] by simp
qed

interpretation airdrop: payout "\<lambda>u a. addPointsWithMetaAt at u ch TxSourceAirdrop a meta" ledger_ok balances
  "\<lambda>u a. credit u ch a" "airdrop_total ch at" for at ch meta
proof
  fix w w' :: world and u a
  assume ok: "ledger_ok (w_db w)" and a: "0 < a" "fits a"
    and run: "addPointsWithMetaAt at u ch TxSourceAirdrop a meta w = (Inr (), w')"
  show ok': "ledger_ok (w_db w')" using addPointsWithMetaAt_ledger_ok [OF ok run] a by simp
  show "balances (w_db w') = credit u ch a (balances (w_db w))"
    by (rule addPointsWithMetaAt_balances [OF ok run])
  show "airdrop_total ch at (w_db w') = airdrop_total ch at (w_db w) + a"
    using addPointsWithMetaAt_Inr [OF run] credited_airdrop_total [OF ok ok'] by metis
qed

section \<open>The whole airdrop\<close>

definition channel_watched :: "string \<Rightarrow> db \<Rightarrow> int" where
  "channel_watched ch d = sum_list (map WS_AccumulatedSeconds
     (filter (\<lambda>s. WS_ChannelID s = ch \<and> WS_IsActive s) (t_watch_sessions d)))"

definition airdrop_limit :: "string \<Rightarrow> db \<Rightarrow> int" where
  "airdrop_limit ch d = (case find_config ch d of None \<Rightarrow> 5000
     | Some cfg \<Rightarrow> if CC_DailyAirdropLimit cfg \<le> 0 then 5000 else CC_DailyAirdropLimit cfg)"

definition snapshot :: "string \<Rightarrow> time \<Rightarrow> db \<Rightarrow> AirdropViewer list" where
  "snapshot ch cutoff d = sort_key (\<lambda>v. - AV_AccumulatedSeconds v) (sort_key AV_UserID
       (map (\<lambda>s. \<lparr>AV_UserID = WS_UserID s, AV_AccumulatedSeconds = WS_AccumulatedSeconds s,
                  AV_Share = 0, AV_Remainder = 0\<rparr>)
         (filter (\<lambda>s. WS_ChannelID s = ch \<and> WS_IsActive s \<and> WS_LastHeartbeatAt s > cutoff)
            (t_watch_sessions d))))"

lemma activeViewersInTx_Inr:
  "activeViewersInTx ch w = (Inr vs, w') \<Longrightarrow>
    vs = snapshot ch (env_clock (w_env w) (w_tick w) - staleThreshold) (w_db w) \<and> w_db w' = w_db w"
  by (auto simp: activeViewersInTx_def Let_def run_simps snapshot_def)

lemma dailyLimitInTx_Inr:
  "dailyLimitInTx ch w = (Inr l, w') \<Longrightarrow> l = airdrop_limit ch (w_db w) \<and> w_db w' = w_db w"
  by (auto simp: dailyLimitInTx_def run_simps airdrop_limit_def defaultDailyAirdropLimit_def split: option.splits)

lemma todayTotal_Inr:
  "todayTotal ch at w = (Inr t, w') \<Longrightarrow> t = airdrop_total ch at (w_db w) \<and> fits t \<and> w_db w' = w_db w"
  by (auto simp: todayTotal_def run_simps)

lemma sum_list_filter_le:
  "(\<And>x. x \<in> set xs \<Longrightarrow> 0 \<le> f x) \<Longrightarrow> sum_list (map f (filter P xs)) \<le> sum_list (map f xs)"
  for f :: "'a \<Rightarrow> int"
  by (induction xs) (auto simp: add_increasing)

lemma sum_list_filter_pos:
  "(\<And>x. x \<in> set xs \<Longrightarrow> 0 \<le> f x) \<Longrightarrow> sum_list (map f (filter (\<lambda>x. 0 < f x) xs)) = sum_list (map f xs)"
  for f :: "'a \<Rightarrow> int"
  by (induction xs) (auto simp: less_le)

lemma set_snapshot:
  "v \<in> set (snapshot ch cutoff d) \<Longrightarrow> \<exists>s \<in> set (t_watch_sessions d). WS_UserID s = AV_UserID v \<and>
     WS_ChannelID s = ch \<and> WS_IsActive s \<and> cutoff < WS_LastHeartbeatAt s \<and>
     AV_AccumulatedSeconds v = WS_AccumulatedSeconds s"
  by (auto simp: snapshot_def)

lemma snapshot_distributable:
  assumes ok: "sessions_ok d" and ne: "snapshot ch cutoff d \<noteq> []" and a: "0 < amount" "amount \<le> max_i64"
    and small: "amount * channel_watched ch d \<le> max_i64" "int (length (t_watch_sessions d)) \<le> max_i64"
  shows "distributable (snapshot ch cutoff d) amount"
proof -
  let ?vs = "snapshot ch cutoff d"
  have acc: "0 \<le> AV_AccumulatedSeconds v" if "v \<in> set ?vs" for v
    using set_snapshot [OF that] ok by (auto dest: sessions_okD)
  have nn: "0 \<le> WS_AccumulatedSeconds s" if "s \<in> set (t_watch_sessions d)" for s
    using sessions_okD [OF ok that] by simp
  have "sum_list (map AV_AccumulatedSeconds ?vs) = sum_list (map WS_AccumulatedSeconds
      (filter (\<lambda>s. cutoff < WS_LastHeartbeatAt s) (filter (\<lambda>s. WS_ChannelID s = ch \<and> WS_IsActive s) (t_watch_sessions d))))"
  proof -
    have "sum_list (map AV_AccumulatedSeconds ?vs) = sum_list (map AV_AccumulatedSeconds
       (map (\<lambda>s. \<lparr>AV_UserID = WS_UserID s, AV_AccumulatedSeconds = WS_AccumulatedSeconds s,
                  AV_Share = 0, AV_Remainder = 0\<rparr>)
         (filter (\<lambda>s. WS_ChannelID s = ch \<and> WS_IsActive s \<and> WS_LastHeartbeatAt s > cutoff)
            (t_watch_sessions d))))"
      unfolding snapshot_def by (rule sum_list_cong_mset) simp
    then show ?thesis by (simp add: o_def conj_assoc)
  qed
  also have "\<dots> \<le> channel_watched ch d"
    unfolding channel_watched_def by (rule sum_list_filter_le) (use nn in auto)
  finally have sum: "sum_list (map AV_AccumulatedSeconds ?vs) \<le> channel_watched ch d" .
  moreover have cw: "0 \<le> channel_watched ch d"
    unfolding channel_watched_def by (rule sum_list_nonneg_int) (use nn in auto)
  moreover have "channel_watched ch d \<le> amount * channel_watched ch d"
    using mult_right_mono [of 1 amount, OF _ cw] a by simp
  ultimately have "sum_list (map AV_AccumulatedSeconds ?vs) \<le> max_i64" using small by linarith
  moreover have "amount * AV_AccumulatedSeconds v \<le> max_i64" if "v \<in> set ?vs" for v
  proof -
    have "AV_AccumulatedSeconds v \<le> channel_watched ch d"
      using order_trans [OF member_le_sum_list_int [OF that acc] sum] by blast
    then have "amount * AV_AccumulatedSeconds v \<le> amount * channel_watched ch d"
      using a by (intro mult_left_mono) auto
    with small show ?thesis by linarith
  qed
  moreover have "length ?vs \<le> length (t_watch_sessions d)"
    by (simp add: snapshot_def)
  ultimately show ?thesis using ne a acc small(2) by (auto simp: distributable_def)
qed

lemma keeps_payShares: "(\<And>u a. keeps I (pay u a)) \<Longrightarrow> keeps I (payShares pay vs)"
  by (induction vs) (auto intro!: keeps_intros)

lemma keeps_addPoints_sessions:
  "keeps (\<lambda>d. t_watch_sessions d = ss) (addPointsWithMetaAt at u ch src a meta)"
  unfolding keeps_def using addPointsWithMetaAt_Inr credited_sessions(1) by metis

lemma sessions_ok_cong: "t_watch_sessions d = t_watch_sessions d' \<Longrightarrow> sessions_ok d = sessions_ok d'"
  by (simp add: sessions_ok_def)

lemma airdropAttempt_steps:
  assumes "airdropAttempt req meta at w = (Inr res, w')"
  obtains cutoff shares w1 w2 where
    "snapshot (AQ_ChannelID req) cutoff (w_db w) \<noteq> []"
    "w_db w1 = w_db w" "w_db w2 = w_db w'"
    "\<not> airdrop_total (AQ_ChannelID req) at (w_db w) > airdrop_limit (AQ_ChannelID req) (w_db w)"
    "\<not> AQ_Amount req > i64 (airdrop_limit (AQ_ChannelID req) (w_db w) - airdrop_total (AQ_ChannelID req) at (w_db w))"
    "distributeAirdrop (snapshot (AQ_ChannelID req) cutoff (w_db w)) (AQ_Amount req) = Inr shares"
    "payShares (\<lambda>u a. addPointsWithMetaAt at u (AQ_ChannelID req) TxSourceAirdrop a meta) shares w1 =
      (Inr (AX_Distribution res), w2)"
    "AX_AffectedCount res = int (length (AX_Distribution res))"
    "fits (airdrop_total (AQ_ChannelID req) at (w_db w))"
proof -
  from assms obtain vs wa limit wb today wc shares recipients w2 where
    vs: "activeViewersInTx (AQ_ChannelID req) w = (Inr vs, wa)" "vs \<noteq> []"
    and limit: "dailyLimitInTx (AQ_ChannelID req) wa = (Inr limit, wb)"
    and today: "todayTotal (AQ_ChannelID req) at wb = (Inr today, wc)"
    and guard: "\<not> today > limit" "\<not> AQ_Amount req > i64 (limit - today)"
    and shares: "distributeAirdrop vs (AQ_Amount req) = Inr shares"
    and pay: "payShares (\<lambda>u a. addPointsWithMetaAt at u (AQ_ChannelID req) TxSourceAirdrop a meta) shares wc =
      (Inr recipients, w2)"
    and res: "res = \<lparr>AX_AffectedCount = int (length recipients), AX_Distribution = recipients\<rparr>"
    and w2: "w_db w' = w_db w2"
    by (auto simp: airdropAttempt_def run_simps Let_def split: if_splits sum.splits dest!: transaction_Inr)
  from activeViewersInTx_Inr [OF vs(1)] dailyLimitInTx_Inr [OF limit] todayTotal_Inr [OF today]
    vs(2) guard shares pay res w2
  show thesis by (intro that [of _ wc w2 shares]) auto
qed

lemma airdropAttempt_Inr:
  assumes ok: "watch_ok (w_db w)" and run: "airdropAttempt req meta at w = (Inr res, w')"
    and a: "0 < AQ_Amount req" "AQ_Amount req \<le> max_i64"
    and small: "AQ_Amount req * channel_watched (AQ_ChannelID req) (w_db w) \<le> max_i64"
      "int (length (t_watch_sessions (w_db w))) \<le> max_i64"
  shows "watch_ok (w_db w') \<and>
    sum_list (map AR_AllocatedPoints (AX_Distribution res)) = AQ_Amount req \<and>
    AX_AffectedCount res = int (length (AX_Distribution res)) \<and>
    (\<forall>r \<in> set (AX_Distribution res). 0 < AR_AllocatedPoints r \<and>
      (\<exists>s \<in> set (t_watch_sessions (w_db w)). session_key (AR_UserID r) (AQ_ChannelID req) s)) \<and>
    balances (w_db w') = fold (\<lambda>r. credit (AR_UserID r) (AQ_ChannelID req) (AR_AllocatedPoints r))
      (AX_Distribution res) (balances (w_db w)) \<and>
    airdrop_total (AQ_ChannelID req) at (w_db w') = airdrop_total (AQ_ChannelID req) at (w_db w) + AQ_Amount req \<and>
    airdrop_total (AQ_ChannelID req) at (w_db w') \<le> airdrop_limit (AQ_ChannelID req) (w_db w)"
proof -
  let ?ch = "AQ_ChannelID req" and ?d = "w_db w"
  from airdropAttempt_steps [OF run] obtain cutoff shares w1 w2 where
    ne: "snapshot ?ch cutoff ?d \<noteq> []" and w: "w_db w1 = ?d" "w_db w2 = w_db w'"
    and guard: "\<not> airdrop_total ?ch at ?d > airdrop_limit ?ch ?d"
      "\<not> AQ_Amount req > i64 (airdrop_limit ?ch ?d - airdrop_total ?ch at ?d)"
    and shares: "distributeAirdrop (snapshot ?ch cutoff ?d) (AQ_Amount req) = Inr shares"
    and pay: "payShares (\<lambda>u a. addPointsWithMetaAt at u ?ch TxSourceAirdrop a meta) shares w1 =
      (Inr (AX_Distribution res), w2)"
    and cnt: "AX_AffectedCount res = int (length (AX_Distribution res))" .
  from ok have sok: "sessions_ok ?d" and lok: "ledger_ok ?d" by (simp_all add: watch_ok_def)
  note d = snapshot_distributable [OF sok ne a small]
  from distribute_sound [OF d] shares have
    keys: "mset (map (\<lambda>v. (AV_UserID v, AV_AccumulatedSeconds v)) shares) =
      mset (map (\<lambda>v. (AV_UserID v, AV_AccumulatedSeconds v)) (snapshot ?ch cutoff ?d))"
    and all: "sum_list (map AV_Share shares) = AQ_Amount req"
    and quotas: "\<And>v. v \<in> set shares \<Longrightarrow> quota (snapshot ?ch cutoff ?d) (AQ_Amount req) v \<le> AV_Share v"
    by auto
  have users: "\<exists>v' \<in> set (snapshot ?ch cutoff ?d). AV_UserID v' = AV_UserID v \<and>
      AV_AccumulatedSeconds v' = AV_AccumulatedSeconds v" if "v \<in> set shares" for v
  proof -
    have "(AV_UserID v, AV_AccumulatedSeconds v) \<in> set (map (\<lambda>v. (AV_UserID v, AV_AccumulatedSeconds v)) shares)"
      using that by auto
    then have "(AV_UserID v, AV_AccumulatedSeconds v) \<in>
        set (map (\<lambda>v. (AV_UserID v, AV_AccumulatedSeconds v)) (snapshot ?ch cutoff ?d))"
      using arg_cong [OF keys, of set_mset] unfolding set_mset_mset by simp
    then show ?thesis by auto
  qed
  have nn: "0 \<le> AV_Share v" if "v \<in> set shares" for v
  proof -
    from users [OF that] obtain v' where v': "v' \<in> set (snapshot ?ch cutoff ?d)"
      "AV_AccumulatedSeconds v' = AV_AccumulatedSeconds v" by auto
    have "quota (snapshot ?ch cutoff ?d) (AQ_Amount req) v' = quota (snapshot ?ch cutoff ?d) (AQ_Amount req) v"
      unfolding quota_def v'(2) ..
    with distributable_quota_nonneg [OF d v'(1)] quotas [OF that] show ?thesis by simp
  qed
  have fit: "fits (AV_Share v)" if "v \<in> set shares" for v
  proof -
    have "AV_Share v \<le> sum_list (map AV_Share shares)" using that nn by (rule member_le_sum_list_int)
    with nn [OF that] all a(2) show ?thesis by (simp add: i64_bounds)
  qed
  have lok1: "ledger_ok (w_db w1)" using lok w by simp
  note paid = airdrop.payShares_sound [OF lok1 fit pay, unfolded w]
  have "sum_list (map AR_AllocatedPoints (AX_Distribution res)) = sum_list (map AV_Share (filter (\<lambda>v. 0 < AV_Share v) shares))"
    using paid by (simp add: o_def)
  also have "\<dots> = sum_list (map AV_Share shares)"
    by (rule sum_list_filter_pos) (rule nn)
  finally have sum: "sum_list (map AR_AllocatedPoints (AX_Distribution res)) = AQ_Amount req" using all by simp
  have sess: "t_watch_sessions (w_db w') = t_watch_sessions ?d"
    using keepsD [OF keeps_payShares [OF keeps_addPoints_sessions], OF _ pay] w by simp
  have "watch_ok (w_db w')"
    using paid sok sessions_ok_cong [OF sess] by (simp add: watch_ok_def)
  moreover have "\<exists>s \<in> set (t_watch_sessions ?d). session_key (AR_UserID r) ?ch s"
    if "r \<in> set (AX_Distribution res)" for r
  proof -
    from that paid obtain v where "v \<in> set shares" "AR_UserID r = AV_UserID v" by auto
    with users set_snapshot show ?thesis unfolding session_key_def by metis
  qed
  moreover have "\<forall>r \<in> set (AX_Distribution res). 0 < AR_AllocatedPoints r"
    using paid by auto
  moreover have "airdrop_total ?ch at ?d + AQ_Amount req \<le> airdrop_limit ?ch ?d"
    using guard i64_le_nonneg [of "airdrop_limit ?ch ?d - airdrop_total ?ch at ?d"] by simp
  ultimately show ?thesis using paid sum cnt by auto
qed

lemma airdropAttempt_Inl: "airdropAttempt req meta at w = (Inl e, w') \<Longrightarrow> w_db w' = w_db w"
  unfolding airdropAttempt_def by (rule transaction_Inl)

lemma airdropLoop_cases:
  assumes "airdropLoop req meta n e0 w = (r, w')"
  shows "case r of
      Inr res \<Rightarrow> (\<exists>w1 at. w_db w1 = w_db w \<and> airdropAttempt req meta at w1 = (Inr res, w'))
    | Inl e \<Rightarrow> w_db w' = w_db w \<and> (n = 0 \<and> e = e0 \<or>
        (\<exists>w1 w2 at. w_db w1 = w_db w \<and> airdropAttempt req meta at w1 = (Inl e, w2)))"
  using assms
proof (induction n arbitrary: e0 w)
  case 0
  then show ?case by (auto simp: fail_def)
next
  case (Suc n)
  define at where "at = env_clock (w_env w) (w_tick w)"
  obtain x w1 where att: "airdropAttempt req meta at (tick w) = (x, w1)" by fastforce
  show ?case
  proof (cases x)
    case (Inr res)
    with att Suc.prems show ?thesis
      by (auto simp: bnd_def now_def handle_def ret_def at_def split: sum.splits) (metis tick_sel(1))
  next
    case (Inl e)
    with att have db: "w_db w1 = w_db w" by (auto dest: airdropAttempt_Inl)
    show ?thesis
    proof (cases "isRetryableAirdropTxError e")
      case True
      with Suc.prems att Inl have "airdropLoop req meta n e w1 = (r, w')"
        by (simp add: bnd_def now_def handle_def at_def)
      from Suc.IH [OF this] db att Inl show ?thesis
        by (auto split: sum.splits) (metis tick_sel(1))+
    next
      case False
      with Suc.prems att Inl db show ?thesis
        by (auto simp: bnd_def now_def handle_def at_def fail_def) (metis tick_sel(1))
    qed
  qed
qed

text \<open>C1. A whole airdrop, retries and failures included: either nothing has changed, or exactly the requested amount
  has been shared among viewers with an active session in that channel, each of them credited
  what the result lists and nobody else, and the channel's total for that day has grown by the
  amount without passing the daily limit.\<close>

theorem ExecuteContext_pays_exactly:
  assumes "watch_ok (w_db w)" and "AQ_Amount req \<le> max_i64"
    and "AQ_Amount req * channel_watched (AQ_ChannelID req) (w_db w) \<le> max_i64"
    and "int (length (t_watch_sessions (w_db w))) \<le> max_i64"
    and "ExecuteContext req w = (r, w')"
  shows "case r of
      Inl e \<Rightarrow> w_db w' = w_db w
    | Inr res \<Rightarrow> watch_ok (w_db w') \<and> 0 < AQ_Amount req \<and>
        sum_list (map AR_AllocatedPoints (AX_Distribution res)) = AQ_Amount req \<and>
        AX_AffectedCount res = int (length (AX_Distribution res)) \<and>
        (\<forall>r \<in> set (AX_Distribution res). 0 < AR_AllocatedPoints r \<and>
          (\<exists>s \<in> set (t_watch_sessions (w_db w)). session_key (AR_UserID r) (AQ_ChannelID req) s)) \<and>
        balances (w_db w') = fold (\<lambda>r. credit (AR_UserID r) (AQ_ChannelID req) (AR_AllocatedPoints r))
          (AX_Distribution res) (balances (w_db w)) \<and>
        (\<exists>at. airdrop_total (AQ_ChannelID req) at (w_db w') =
            airdrop_total (AQ_ChannelID req) at (w_db w) + AQ_Amount req \<and>
          airdrop_total (AQ_ChannelID req) at (w_db w') \<le> airdrop_limit (AQ_ChannelID req) (w_db w))"
proof (cases "AQ_Amount req \<le> 0")
  case True
  with assms(5) show ?thesis by (auto simp: ExecuteContext_def fail_def)
next
  case False
  then obtain meta where loop: "airdropLoop req meta maxAirdropTxRetries Panic w = (r, w')"
    using assms(5) by (auto simp: ExecuteContext_def Let_def)
  show ?thesis
  proof (cases r)
    case (Inl e)
    with airdropLoop_cases [OF loop] show ?thesis by simp
  next
    case (Inr res)
    with airdropLoop_cases [OF loop] obtain w1 at where w1: "w_db w1 = w_db w"
      and att: "airdropAttempt req meta at w1 = (Inr res, w')" by auto
    have "0 < AQ_Amount req" using False by simp
    from airdropAttempt_Inr [OF _ att this assms(2), unfolded w1] assms(1,3,4) this
    show ?thesis unfolding Inr sum.case by metis
  qed
qed

theorem ExecuteContext_pays_exactly_witness:
  "\<exists>res w'. ExecuteContext \<lparr>AQ_ChannelID = ''c'', AQ_Amount = 50, AQ_Note = []\<rparr>
      (start (\<lambda>_. 30 * second) (watching 0 100 60)) = (Inr res, w') \<and>
     balances (w_db w') = fold (\<lambda>r. credit (AR_UserID r) ''c'' (AR_AllocatedPoints r))
       (AX_Distribution res) (balances (watching 0 100 60)) \<and>
     sum_list (map AR_AllocatedPoints (AX_Distribution res)) = 50"
proof -
  let ?w = "start (\<lambda>_. 30 * second) (watching 0 100 60)"
  let ?req = "\<lparr>AQ_ChannelID = ''c'', AQ_Amount = 50, AQ_Note = []\<rparr>"
  have ok: "watch_ok (w_db ?w)" by (simp add: watching_ok max_i64_def)
  have "\<exists>res w'. ExecuteContext ?req ?w = (Inr res, w')"
    by (simp add: ExecuteContext_def maxAirdropTxRetries_def eval_nat_numeral(2,3) airdropAttempt_def
        activeViewersInTx_def dailyLimitInTx_def todayTotal_def airdrop_total_def run_defs Let_def
        find_config_def defaultDailyAirdropLimit_def utc_day_def distributeAirdrop_def positive_total_def
        weigh_def sdiv_nonneg smod_nonneg i64_def by_remainder_def top_up_def staleThreshold_def time_units
        addPointsWithMetaAt_def upsert_ledger_def find_ledger_def ledger_key_def first_by_def i64_bounds
        update_rows_def create_ptx_def ptx_conflict_def dup_if_def credit_row_def no_meta_def
        watching_def ledger_7_def empty_db_def)
  then obtain res w' where run: "ExecuteContext ?req ?w = (Inr res, w')" by blast
  have "channel_watched ''c'' (w_db ?w) = 100"
    by (simp add: channel_watched_def watching_def)
  with ExecuteContext_pays_exactly [OF ok _ _ _ run] run show ?thesis
    by (auto simp: max_i64_def watching_def)
qed

text \<open>The error returned is always one that an attempt on the unchanged database met.\<close>

lemma ExecuteContext_error_origin:
  assumes "ExecuteContext req w = (Inl e, w')"
  shows "AQ_Amount req \<le> 0 \<and> e = PointsE ErrInvalidPointsAmount \<or>
    (\<exists>w1 w2 meta at. w_db w1 = w_db w \<and> airdropAttempt req meta at w1 = (Inl e, w2))"
proof (cases "AQ_Amount req \<le> 0")
  case True
  with assms show ?thesis by (auto simp: ExecuteContext_def fail_def)
next
  case False
  then obtain meta where loop: "airdropLoop req meta maxAirdropTxRetries Panic w = (Inl e, w')"
    using assms by (auto simp: ExecuteContext_def Let_def)
  from airdropLoop_cases [OF loop] show ?thesis by (auto simp: maxAirdropTxRetries_def)
qed

end
