(* ===== verification/Contract.thy ===== *)
theory Contract
  imports Claims
begin

text \<open>
  \<^verbatim>\<open>contract/tachi_token.go\<close>: minting and burning on the token contract. The client of
  the blockchain node and the cryptography of go-ethereum are parameters. A call of the node
  is numbered by when it is made, so every call may be answered differently. Waiting for
  a receipt polls the node without a bound of its own, so it is a partial function.
\<close>

section \<open>The node and the library\<close>

record CallMsg =
  CM_From :: nat
  CM_GasFeeCap :: int
  CM_GasTipCap :: int
  CM_Data :: string

record DynamicFeeTx =
  DX_ChainID :: int
  DX_Nonce :: nat
  DX_GasTipCap :: int
  DX_GasFeeCap :: int
  DX_Gas :: nat
  DX_Data :: string

record EthClient =
  ChainID :: "nat \<Rightarrow> err + int"
  PendingNonceAt :: "nat \<Rightarrow> nat \<Rightarrow> err + nat"
  SuggestGasTipCap :: "nat \<Rightarrow> err + int"
  HeaderBaseFee :: "nat \<Rightarrow> err + int option"
  EstimateGas :: "CallMsg \<Rightarrow> nat \<Rightarrow> err + nat"
  SendTransaction :: "string \<Rightarrow> nat \<Rightarrow> err + unit"
  TransactionReceipt :: "string \<Rightarrow> nat \<Rightarrow> err + nat"
  WaitMined :: "string \<Rightarrow> nat \<Rightarrow> err + nat"
  ErrNotFound :: err
  ctxDone :: "nat \<Rightarrow> err option"

text \<open>\<open>SignTx\<close> yields the signed transaction; its \<open>Hash().Hex()\<close> is \<open>TxHash\<close>.\<close>

record EthCrypto =
  PubkeyToAddress :: "nat \<Rightarrow> nat"
  PackMint :: "nat \<Rightarrow> int \<Rightarrow> err + string"
  PackBurn :: "nat \<Rightarrow> int \<Rightarrow> err + string"
  SignTx :: "DynamicFeeTx \<Rightarrow> nat \<Rightarrow> err + string"
  TxHash :: "string \<Rightarrow> string"
  IsHexHash :: "string \<Rightarrow> bool"

record TachiToken =
  TK_crypto :: EthCrypto
  TK_client :: "EthClient option"

definition ReceiptStatusSuccessful :: nat where
  "ReceiptStatusSuccessful = 1"

section \<open>Sending a transaction\<close>

text \<open>\<open>fmt.Errorf("\<dots>: %w", err)\<close> around a step that may fail.\<close>

definition wrapped :: "string \<Rightarrow> err + 'a \<Rightarrow> ('a \<Rightarrow> err + 'b) \<Rightarrow> err + 'b" where
  "wrapped what x f = (case x of Inl e \<Rightarrow> Inl (Wrap e (what @ '': '' @ errText e)) | Inr a \<Rightarrow> f a)"

text \<open>
  The common part of \<open>MintBroadcast\<close> and \<open>Burn\<close>, from the chain id to the sent
  transaction: \<open>name\<close> is \<^verbatim>\<open>mint\<close> or \<^verbatim>\<open>burn\<close>, \<open>data\<close> the packed call. The nonce, the fees
  and the gas are asked for in this order; the signed transaction is sent last.
\<close>

definition sendCall :: "EthCrypto \<Rightarrow> EthClient \<Rightarrow> string \<Rightarrow> string \<Rightarrow> nat \<Rightarrow> nat \<Rightarrow> err + string" where
  "sendCall cr c name data signerKey at =
     (let fromAddr = PubkeyToAddress cr signerKey in
     wrapped ''get chain ID'' (ChainID c at) (\<lambda>chainID.
     wrapped ''get pending nonce'' (PendingNonceAt c fromAddr (at + 1)) (\<lambda>nonce.
     wrapped ''suggest gas tip cap'' (SuggestGasTipCap c (at + 2)) (\<lambda>tipCap.
     wrapped ''get latest header'' (HeaderBaseFee c (at + 3)) (\<lambda>baseFee.
     case baseFee of
       None \<Rightarrow> Inl (Errorf ''latest header missing base fee'')
     | Some fee \<Rightarrow>
         let feeCap = fee * 2 + tipCap in
         wrapped ''estimate gas'' (EstimateGas c \<lparr>CM_From = fromAddr, CM_GasFeeCap = feeCap,
             CM_GasTipCap = tipCap, CM_Data = data\<rparr> (at + 4)) (\<lambda>gasLimit.
         wrapped (''sign '' @ name @ '' tx'') (SignTx cr \<lparr>DX_ChainID = chainID, DX_Nonce = nonce,
             DX_GasTipCap = tipCap, DX_GasFeeCap = feeCap, DX_Gas = gasLimit, DX_Data = data\<rparr> signerKey) (\<lambda>signedTx.
         wrapped (''send '' @ name @ '' tx'') (SendTransaction c signedTx (at + 5)) (\<lambda>_.
         Inr signedTx))))))))"

definition TachiMintBroadcast :: "TachiToken \<Rightarrow> nat \<Rightarrow> nat \<Rightarrow> int \<Rightarrow> nat option \<Rightarrow> err + string" where
  "TachiMintBroadcast t at toAddr amount signerKey =
     (case TK_client t of
        None \<Rightarrow> Inl (Errorf ''eth client is nil'')
      | Some c \<Rightarrow>
          case signerKey of
            None \<Rightarrow> Inl (Errorf ''signer key is nil'')
          | Some key \<Rightarrow>
              if amount \<le> 0 then Inl (Errorf ''amount must be greater than zero'')
              else
                wrapped ''pack mint calldata'' (PackMint (TK_crypto t) toAddr amount) (\<lambda>data.
                case sendCall (TK_crypto t) c ''mint'' data key at of
                  Inl e \<Rightarrow> Inl e
                | Inr signedTx \<Rightarrow> Inr (TxHash (TK_crypto t) signedTx)))"

text \<open>\<open>Burn\<close> answers with a hash even when it fails, if the transaction may have been mined.\<close>

definition TachiBurn :: "TachiToken \<Rightarrow> nat \<Rightarrow> nat \<Rightarrow> int \<Rightarrow> nat option \<Rightarrow> string \<times> err option" where
  "TachiBurn t at fromAddr amount signerKey =
     (case TK_client t of
        None \<Rightarrow> ([], Some (Errorf ''eth client is nil''))
      | Some c \<Rightarrow>
          case signerKey of
            None \<Rightarrow> ([], Some (Errorf ''signer key is nil''))
          | Some key \<Rightarrow>
              if amount \<le> 0 then ([], Some (Errorf ''amount must be greater than zero''))
              else
                case wrapped ''pack burn calldata'' (PackBurn (TK_crypto t) fromAddr amount) (\<lambda>data.
                  sendCall (TK_crypto t) c ''burn'' data key at) of
                  Inl e \<Rightarrow> ([], Some e)
                | Inr signedTx \<Rightarrow>
                    case WaitMined c signedTx (at + 6) of
                      Inl e \<Rightarrow> (TxHash (TK_crypto t) signedTx, Some (Wrap e (''wait burn receipt: '' @ errText e)))
                    | Inr status \<Rightarrow>
                        if status \<noteq> ReceiptStatusSuccessful
                        then ([], Some (Errorf (''burn tx failed: '' @ TxHash (TK_crypto t) signedTx)))
                        else (TxHash (TK_crypto t) signedTx, None))"

section \<open>Waiting for a receipt\<close>

definition wrapMintReceiptError :: "string \<Rightarrow> string \<Rightarrow> err \<Rightarrow> err" where
  "wrapMintReceiptError txHash op e = Wrap e (op @ '' (txHash='' @ txHash @ ''): '' @ errText e)"

text \<open>
  The poll of \<open>waitMinedByHash\<close>, one tick of its ticker per step: \<open>ctxDone\<close> says whether the
  context is over when the select runs. It returns \<open>None\<close> when it never returns.
\<close>

partial_function (option) waitMinedByHash :: "EthClient \<Rightarrow> string \<Rightarrow> nat \<Rightarrow> (err + nat) option" where
  "waitMinedByHash c txHash at =
     (case TransactionReceipt c txHash at of
        Inr receipt \<Rightarrow> Some (Inr receipt)
      | Inl e \<Rightarrow>
          if \<not> errors_is e (ErrNotFound c) then Some (Inl e)
          else (case ctxDone c at of
                  Some err \<Rightarrow> Some (Inl err)
                | None \<Rightarrow> waitMinedByHash c txHash (Suc at)))"

declare waitMinedByHash.simps [code]

definition TachiWaitMintReceipt :: "TachiToken \<Rightarrow> string \<Rightarrow> nat \<Rightarrow> (err + unit) option" where
  "TachiWaitMintReceipt t txHash at =
     (case TK_client t of
        None \<Rightarrow> Some (Inl (Errorf ''eth client is nil''))
      | Some c \<Rightarrow>
          if \<not> IsHexHash (TK_crypto t) txHash then Some (Inl (Errorf (''invalid tx hash: '' @ txHash)))
          else
            case waitMinedByHash c txHash at of
              None \<Rightarrow> None
            | Some (Inl e) \<Rightarrow> Some (Inl (wrapMintReceiptError txHash ''wait mint receipt'' e))
            | Some (Inr status) \<Rightarrow>
                if status \<noteq> ReceiptStatusSuccessful
                then Some (Inl (wrapMintReceiptError txHash ''mint tx failed'' (ClaimE ErrMintReceiptStatusFailed)))
                else Some (Inr ()))"

section \<open>Properties\<close>

lemma wrapped_Inr: "wrapped s x f = Inr b \<longleftrightarrow> (\<exists>a. x = Inr a \<and> f a = Inr b)"
  by (auto simp: wrapped_def split: sum.splits)

text \<open>C20. Waiting for a receipt ends when its context does: if from some point on the context is
  over at every poll, the wait returns, and a receipt it returns is one that the node gave at one
  of the polls.\<close>

theorem waitMinedByHash_returns:
  assumes "\<And>n. N \<le> n \<Longrightarrow> ctxDone c n \<noteq> None"
  shows "\<exists>r. waitMinedByHash c h at = Some r \<and>
    (\<forall>status. r = Inr status \<longrightarrow> (\<exists>n \<ge> at. TransactionReceipt c h n = Inr status))"
proof (induction "N - at" arbitrary: at)
  case 0
  then have "N \<le> at" by simp
  with assms obtain e where "ctxDone c at = Some e" by blast
  then show ?case by (subst waitMinedByHash.simps) (auto split: sum.splits)
next
  case (Suc k)
  then have "k = N - Suc at" by simp
  from Suc.hyps(1) [OF this] show ?case
    by (subst waitMinedByHash.simps) (auto split: sum.splits option.splits dest: Suc_leD)
qed

definition toy_node :: "(nat \<Rightarrow> err + nat) \<Rightarrow> EthClient" where
  "toy_node receipt = \<lparr>ChainID = (\<lambda>_. Inr 7), PendingNonceAt = (\<lambda>_ _. Inr 3), SuggestGasTipCap = (\<lambda>_. Inr 2),
     HeaderBaseFee = (\<lambda>_. Inr (Some 10)), EstimateGas = (\<lambda>_ _. Inr 21000), SendTransaction = (\<lambda>_ _. Inr ()),
     TransactionReceipt = (\<lambda>_. receipt), WaitMined = (\<lambda>_. receipt), ErrNotFound = Errorf ''not found'',
     ctxDone = (\<lambda>n. if n \<ge> 30 then Some (Errorf ''context deadline exceeded'') else None)\<rparr>"

theorem waitMinedByHash_returns_witness:
  "\<exists>r. waitMinedByHash (toy_node (\<lambda>n. if n < 12 then Inl (Errorf ''not found'') else Inr 1)) ''0x1'' 4 = Some r"
  using waitMinedByHash_returns [of 30 "toy_node (\<lambda>n. if n < 12 then Inl (Errorf ''not found'') else Inr 1)" "''0x1''" 4]
  by (auto simp: toy_node_def)

text \<open>
  The chain may have burned the tokens: the signed transaction was accepted by the node, and no
  receipt says that it failed.
\<close>

definition may_have_burned :: "TachiToken \<Rightarrow> nat \<Rightarrow> nat \<Rightarrow> int \<Rightarrow> nat \<Rightarrow> bool" where
  "may_have_burned t at fromAddr amount key =
     (case TK_client t of
        None \<Rightarrow> False
      | Some c \<Rightarrow>
          (case PackBurn (TK_crypto t) fromAddr amount of
             Inl e \<Rightarrow> False
           | Inr data \<Rightarrow>
               (case sendCall (TK_crypto t) c ''burn'' data key at of
                  Inl e \<Rightarrow> False
                | Inr signedTx \<Rightarrow>
                    (case WaitMined c signedTx (at + 6) of
                       Inl e \<Rightarrow> True
                     | Inr status \<Rightarrow> status = ReceiptStatusSuccessful))))"

lemma TachiBurn_may:
  assumes "0 < amount" and "\<And>x. TxHash (TK_crypto t) x \<noteq> []"
  shows "may_have_burned t at fromAddr amount key \<longleftrightarrow> fst (TachiBurn t at fromAddr amount (Some key)) \<noteq> []"
  using assms
  by (auto simp: TachiBurn_def may_have_burned_def wrapped_def split: option.splits sum.splits if_splits)

text \<open>C21. The answer of a burn tells whether the tokens may be gone: a hash is returned exactly when the
  node accepted the transaction and no receipt says that it failed, and there is no error only
  if its receipt says that it succeeded.\<close>

theorem TachiBurn_hash_iff_sent:
  assumes "0 < amount" and "\<And>x. TxHash (TK_crypto t) x \<noteq> []"
    and "TachiBurn t at fromAddr amount (Some key) = (hash, result)"
  shows "(hash \<noteq> [] \<longleftrightarrow> may_have_burned t at fromAddr amount key) \<and>
    (result = None \<longrightarrow> (\<exists>c signedTx. TK_client t = Some c \<and> hash = TxHash (TK_crypto t) signedTx \<and>
       SendTransaction c signedTx (at + 5) = Inr () \<and> WaitMined c signedTx (at + 6) = Inr ReceiptStatusSuccessful))"
proof
  show "hash \<noteq> [] \<longleftrightarrow> may_have_burned t at fromAddr amount key"
    using TachiBurn_may [OF assms(1,2)] assms(3) by simp
  have sent: "SendTransaction c x (at + 5) = Inr ()"
    if "sendCall cr c n data k at = Inr x" for cr c n data k x
    using that unfolding sendCall_def Let_def wrapped_Inr by (auto split: option.splits simp: wrapped_Inr)
  show "result = None \<longrightarrow> (\<exists>c signedTx. TK_client t = Some c \<and> hash = TxHash (TK_crypto t) signedTx \<and>
       SendTransaction c signedTx (at + 5) = Inr () \<and> WaitMined c signedTx (at + 6) = Inr ReceiptStatusSuccessful)"
    using assms(1,3)
    by (auto simp: TachiBurn_def wrapped_Inr dest: sent split: option.splits sum.splits if_splits)
qed

definition toy_token :: "(nat \<Rightarrow> err + nat) \<Rightarrow> TachiToken" where
  "toy_token receipt = \<lparr>TK_crypto = \<lparr>PubkeyToAddress = id, PackMint = (\<lambda>a m. Inr ''m''), PackBurn = (\<lambda>a m. Inr ''b''),
     SignTx = (\<lambda>tx k. Inr (DX_Data tx)), TxHash = (\<lambda>x. ''0x'' @ x), IsHexHash = (\<lambda>_. True)\<rparr>,
     TK_client = Some (toy_node receipt)\<rparr>"

theorem TachiBurn_hash_iff_sent_witness:
  "\<not> may_have_burned (toy_token (\<lambda>_. Inr 0)) 4 5 100 6 \<and>
   may_have_burned (toy_token (\<lambda>_. Inl (Errorf ''deadline''))) 4 5 100 6"
proof -
  have "TachiBurn (toy_token (\<lambda>_. Inr 0)) 4 5 100 (Some 6) = ([], Some (Errorf ''burn tx failed: 0xb''))"
    "TachiBurn (toy_token (\<lambda>_. Inl (Errorf ''deadline''))) 4 5 100 (Some 6) =
      (''0xb'', Some (Wrap (Errorf ''deadline'') ''wait burn receipt: deadline''))"
    by (simp_all add: TachiBurn_def toy_token_def toy_node_def sendCall_def wrapped_def ReceiptStatusSuccessful_def)
  from TachiBurn_hash_iff_sent [OF _ _ this(1)] TachiBurn_hash_iff_sent [OF _ _ this(2)]
  show ?thesis by (simp add: toy_token_def)
qed

end
