(* ===== verification/Spend.thy ===== *)
theory Spend
  imports Contract Settlement
begin

text \<open>
  \<^verbatim>\<open>services/spend_service.go\<close>: tokens are burned for a coupon. The balance is reduced in one
  transaction, the burn is sent to the chain, the redemption is recorded, and the coupon is
  fetched from Tachiya. Three outside answers decide what happens: the burn may not be sent,
  may be sent with an unknown outcome, or may succeed, and Tachiya may refuse.
\<close>

section \<open>The service\<close>

record SpendReservation =
  SR_fromAddr :: string
  SR_amount :: int
  SR_newBalance :: int

text \<open>\<open>BurnCaller\<close> answers with a hash and an error, \<open>TachiyaClient\<close> with a voucher.\<close>

type_synonym BurnCaller = "string \<Rightarrow> int \<Rightarrow> nat \<Rightarrow> string \<times> err option"
type_synonym TachiyaClient = "string \<Rightarrow> int \<Rightarrow> nat \<Rightarrow> err + string"

record SpendService =
  SS_eth :: EthLib
  SS_signerKey :: string
  SS_tachiToken :: "TokenContract option"

definition BurnOnChain :: "SpendService \<Rightarrow> BurnCaller" where
  "BurnOnChain s fromAddr amount at =
     (case SS_tachiToken s of
        None \<Rightarrow> ([], Some (SpendE ErrSpendContractConfig))
      | Some token \<Rightarrow>
          if \<not> IsHexAddress (SS_eth s) fromAddr then ([], Some (Errorf (''invalid wallet address: '' @ fromAddr)))
          else if amount \<le> 0 then ([], Some (SpendE ErrSpendAmountInvalid))
          else
            (case parseSignerKey (SS_eth s) (SS_signerKey s) of
               Inl e \<Rightarrow> ([], Some e)
             | Inr signerKey \<Rightarrow>
                 Burn token at (HexToAddress (SS_eth s) fromAddr) (tachiWholeTokensToRawUnits amount) signerKey))"

text \<open>The contract of \<^verbatim>\<open>contract/tachi_token.go\<close> as the services see it.\<close>

definition tokenContract :: "TachiToken \<Rightarrow> TokenContract" where
  "tokenContract t = \<lparr>MintBroadcast = (\<lambda>at toAddr amount key. TachiMintBroadcast t at toAddr amount (Some key)),
     WaitMintReceipt = (\<lambda>h at. the (TachiWaitMintReceipt t h at)),
     Burn = (\<lambda>at fromAddr amount key. TachiBurn t at fromAddr amount (Some key))\<rparr>"

section \<open>The reservation\<close>

text \<open>Constraints of \<^verbatim>\<open>tachi_balances\<close> and of \<^verbatim>\<open>coupon_redemptions\<close>.\<close>

definition tachi_check :: "TachiBalance list \<Rightarrow> db_error option" where
  "tachi_check rows =
     (if list_ex (\<lambda>b. \<bar>TB_Balance b\<bar> \<ge> max_tachi) rows then Some (PgError ''22003'' [] ''numeric field overflow'')
      else if list_ex (\<lambda>b. TB_Balance b < 0) rows then Some (check_fails ''chk_tachi_balance_gte_0'')
      else None)"

definition value_too_long :: db_error where
  "value_too_long = PgError ''22001'' [] ''value too long for type character varying(255)''"

definition coupon_conflict :: "CouponRedemption list \<Rightarrow> CouponRedemption \<Rightarrow> db_error option" where
  "coupon_conflict rows r =
     (if RuneCountInString (CR_CouponID r) > 255 \<or> RuneCountInString (CR_TxHash r) > 255 then Some value_too_long
      else if CR_Amount r \<le> 0 then Some (check_fails ''chk_coupon_redemptions_amount_gt_0'')
      else dup_if (CR_ID r \<in> CR_ID ` set rows))"

definition reserveSpend :: "EthLib \<Rightarrow> uuid \<Rightarrow> int \<Rightarrow> SpendReservation m" where
  "reserveSpend eth userID amount =
     bnd (orElse (query (find_tachi userID)) (SpendE ErrSpendInsufficientBalance)) (\<lambda>tb.
     if TB_Balance tb < amount then fail (SpendE ErrSpendInsufficientBalance)
     else
       bnd (resolveWalletAddress eth (SpendE ErrSpendWalletNotLinked) userID) (\<lambda>fromAddr.
       let newBalance = i64 (TB_Balance tb - amount) in
       bnd now (\<lambda>t.
       bnd (update_where t_tachi_balances t_tachi_balances_update tachi_check (\<lambda>b. TB_UserID b = userID)
          (\<lambda>_ b. b\<lparr>TB_Balance := newBalance, TB_UpdatedAt := t\<rparr>)) (\<lambda>_.
       ret \<lparr>SR_fromAddr = fromAddr, SR_amount = amount, SR_newBalance = newBalance\<rparr>))))"

definition rollbackSpendReservation :: "uuid \<Rightarrow> int \<Rightarrow> unit m" where
  "rollbackSpendReservation userID amount =
     bnd now (\<lambda>t.
     bnd (update_where t_tachi_balances t_tachi_balances_update tachi_check (\<lambda>b. TB_UserID b = userID)
        (\<lambda>_ b. b\<lparr>TB_Balance := TB_Balance b + amount, TB_UpdatedAt := t\<rparr>)) (\<lambda>rowsAffected.
     if rowsAffected = 0 then fail (Errorf (''rollback found no balance row for user '' @ uuidText userID))
     else ret ()))"

definition createPendingCouponRedemption :: "uuid \<Rightarrow> string \<Rightarrow> int \<Rightarrow> string \<Rightarrow> CouponRedemption m" where
  "createPendingCouponRedemption userID couponID amount txHash =
     insert_row t_coupon_redemptions t_coupon_redemptions_update coupon_conflict
       (\<lambda>t i. \<lparr>CR_ID = i, CR_UserID = userID, CR_CouponID = couponID, CR_Amount = amount, CR_TxHash = txHash,
          CR_Status = CouponRedemptionPending, CR_VoucherCode = None, CR_ErrorMessage = None,
          CR_CreatedAt = t, CR_UpdatedAt = t\<rparr>)"

definition update_redemption :: "CouponRedemption \<Rightarrow> (CouponRedemption \<Rightarrow> CouponRedemption) \<Rightarrow> nat m" where
  "update_redemption rec f =
     bnd now (\<lambda>t.
     update_where t_coupon_redemptions t_coupon_redemptions_update no_check (\<lambda>r. CR_ID r = CR_ID rec)
       (\<lambda>_ r. (f r)\<lparr>CR_UpdatedAt := t\<rparr>))"

section \<open>Redeeming\<close>

text \<open>After the burn: record the redemption and fetch the coupon.\<close>

definition finishRedeem :: "TachiyaClient option \<Rightarrow> uuid \<Rightarrow> string \<Rightarrow> int \<Rightarrow> SpendReservation \<Rightarrow> string \<Rightarrow> (int \<times> string) m" where
  "finishRedeem tachiyaClient userID couponID amount reservation txHash =
     handle (createPendingCouponRedemption userID couponID amount txHash)
       (\<lambda>e. fail (Wrap e (''failed to record coupon_redemption before tachiya call (burn tx_hash='' @ txHash @
          '' coupon_id='' @ couponID @ ''): '' @ errText e)))
       (\<lambda>rec.
        case tachiyaClient of
          None \<Rightarrow>
            handle (update_redemption rec (\<lambda>r. r\<lparr>CR_Status := CouponRedemptionRedeemed\<rparr>))
              (\<lambda>_. ret (SR_newBalance reservation, []))
              (\<lambda>_. ret (SR_newBalance reservation, []))
        | Some redeemCoupon \<Rightarrow>
            handle (external (redeemCoupon couponID (SR_amount reservation)))
              (\<lambda>tachiyaErr.
               handle (update_redemption rec (\<lambda>r. r\<lparr>CR_Status := CouponRedemptionCompensationNeeded,
                    CR_ErrorMessage := Some (errText tachiyaErr)\<rparr>))
                 (\<lambda>dbErr. fail (Wrap (SpendE ErrTachiyaRedeemFailed) (spend_error_text ErrTachiyaRedeemFailed @
                    '' (coupon_id='' @ couponID @ ''): tachiya_err='' @ errText tachiyaErr @
                    '', db_update_err='' @ errText dbErr)))
                 (\<lambda>_. fail (Wrap (SpendE ErrTachiyaRedeemFailed) (spend_error_text ErrTachiyaRedeemFailed @
                    '' (coupon_id='' @ couponID @ ''): '' @ errText tachiyaErr))))
              (\<lambda>voucherCode.
               handle (update_redemption rec (\<lambda>r. r\<lparr>CR_Status := CouponRedemptionRedeemed,
                    CR_VoucherCode := Some voucherCode\<rparr>))
                 (\<lambda>e. fail (Wrap e (''failed to persist redeemed voucher id='' @ uuidText (CR_ID rec) @
                    '' coupon_id='' @ couponID @ '': '' @ errText e)))
                 (\<lambda>_. ret (SR_newBalance reservation, voucherCode))))"

text \<open>The burn failed: with a hash the outcome is unknown and the tokens stay taken.\<close>

definition burnFailed :: "uuid \<Rightarrow> string \<Rightarrow> SpendReservation \<Rightarrow> string \<Rightarrow> err \<Rightarrow> (int \<times> string) m" where
  "burnFailed userID couponID reservation txHash e =
     (if txHash \<noteq> [] then
        handle (createPendingCouponRedemption userID couponID (SR_amount reservation) txHash)
          (\<lambda>createErr. fail (Wrap createErr (''failed to record coupon_redemption for broadcast-unknown burn (burn tx_hash='' @
             txHash @ '' coupon_id='' @ couponID @ ''): '' @ errText createErr @ ''; receipt_err='' @ errText e)))
          (\<lambda>_. fail (Wrap e (''burn tx broadcast (txHash='' @ txHash @ '') but receipt unknown: '' @ errText e)))
      else
        handle (transaction (rollbackSpendReservation userID (SR_amount reservation)))
          (\<lambda>rollbackErr. fail (Wrap e (errText e @ ''; rollback spend reservation: '' @ errText rollbackErr)))
          (\<lambda>_. fail e))"

definition Redeem :: "EthLib \<Rightarrow> BurnCaller \<Rightarrow> TachiyaClient option \<Rightarrow> uuid \<Rightarrow> string \<Rightarrow> int \<Rightarrow> (int \<times> string) m" where
  "Redeem eth burnCaller tachiyaClient userID couponID amount =
     (if amount \<le> 0 then fail (SpendE ErrSpendAmountInvalid)
      else
        bnd (transaction (reserveSpend eth userID amount)) (\<lambda>reservation.
        bnd (external (\<lambda>at. Inr (burnCaller (SR_fromAddr reservation) (SR_amount reservation) at))) (\<lambda>(txHash, burnErr).
        case burnErr of
          Some e \<Rightarrow> burnFailed userID couponID reservation txHash e
        | None \<Rightarrow> finishRedeem tachiyaClient userID couponID amount reservation txHash)))"

section \<open>What a redemption does to the tokens\<close>

definition tachi_ok :: "db \<Rightarrow> bool" where
  "tachi_ok d \<longleftrightarrow> distinct (map TB_UserID (t_tachi_balances d)) \<and>
     (\<forall>b \<in> set (t_tachi_balances d). 0 \<le> TB_Balance b \<and> TB_Balance b < max_tachi)"

lemma tachi_check_None: "tachi_check rows = None \<Longrightarrow> b \<in> set rows \<Longrightarrow> 0 \<le> TB_Balance b \<and> TB_Balance b < max_tachi"
  by (fastforce simp: tachi_check_def list_ex_iff not_le split: if_splits)

lemma tachi_update:
  assumes "find_tachi u d = Some b" and f: "\<And>x. TB_UserID (f x) = TB_UserID x"
    and d': "t_tachi_balances d' = update_rows (\<lambda>b. TB_UserID b = u) f (t_tachi_balances d)"
  shows "tachi d' v = (if v = u then TB_Balance (f b) else tachi d v)"
    and "find_tachi u d' = Some (f b)"
proof -
  have "find (\<lambda>b. TB_UserID b = v) (update_rows (\<lambda>b. TB_UserID b = u) f xs) =
      map_option (\<lambda>b. if TB_UserID b = u then f b else b) (find (\<lambda>b. TB_UserID b = v) xs)" for v xs
    by (induction xs) (auto simp: update_rows_def f)
  then have fd: "find_tachi v d' = map_option (\<lambda>b. if TB_UserID b = u then f b else b) (find_tachi v d)" for v
    by (simp add: find_tachi_def d')
  have "TB_UserID b = u" using assms(1) by (auto simp: find_tachi_def dest: find_SomeD)
  with fd [of u] assms(1) show "find_tachi u d' = Some (f b)" by simp
  show "tachi d' v = (if v = u then TB_Balance (f b) else tachi d v)"
  proof (cases "v = u")
    case True
    with \<open>find_tachi u d' = Some (f b)\<close> show ?thesis by (simp add: tachi_def)
  next
    case False
    have "TB_UserID y = v" if "find_tachi v d = Some y" for y
      using that by (auto simp: find_tachi_def dest: find_SomeD)
    with False show ?thesis by (cases "find_tachi v d") (auto simp: tachi_def fd)
  qed
qed

lemma tachi_ok_update:
  assumes "tachi_ok d" and f: "\<And>x. TB_UserID (f x) = TB_UserID x"
    and d': "t_tachi_balances d' = update_rows P f (t_tachi_balances d)"
    and "tachi_check (t_tachi_balances d') = None"
  shows "tachi_ok d'"
proof -
  have "map TB_UserID (update_rows P f (t_tachi_balances d)) = map TB_UserID (t_tachi_balances d)"
    by (rule map_update_rows) (rule f)
  with assms(1,4) tachi_check_None show ?thesis by (auto simp: tachi_ok_def d')
qed

lemma reserveSpend_Inr:
  assumes ok: "tachi_ok (w_db w)" and a: "0 < a" and run: "reserveSpend eth u a w = (Inr r, w')"
  shows "tachi_ok (w_db w') \<and> SR_amount r = a \<and> SR_newBalance r = tachi (w_db w') u \<and>
    find_tachi u (w_db w') \<noteq> None \<and>
    (\<forall>v. tachi (w_db w') v = tachi (w_db w) v - (if v = u then a else 0)) \<and>
    t_coupon_redemptions (w_db w') = t_coupon_redemptions (w_db w)"
proof -
  from run obtain tb fromAddr w1 n w2 where
    tb: "find_tachi u (w_db w) = Some tb" and enough: "a \<le> TB_Balance tb"
    and res: "resolveWalletAddress eth (SpendE ErrSpendWalletNotLinked) u (tick w) = (Inr fromAddr, w1)"
    and up: "update_where t_tachi_balances t_tachi_balances_update tachi_check (\<lambda>b. TB_UserID b = u)
        (\<lambda>_ b. b\<lparr>TB_Balance := i64 (TB_Balance tb - a), TB_UpdatedAt := env_clock (w_env w1) (w_tick w1)\<rparr>) (tick w1) = (Inr n, w2)"
    and r: "r = \<lparr>SR_fromAddr = fromAddr, SR_amount = a, SR_newBalance = i64 (TB_Balance tb - a)\<rparr>" "w' = w2"
    unfolding reserveSpend_def
    by (auto simp: bnd_Inr orElse_query_Inr now_Inr ret_Inr fail_Inr Let_def not_less split: if_split_asm)
  note w1 = resolveWalletAddress_Inr [OF res]
  from tb have "tb \<in> set (t_tachi_balances (w_db w))" by (auto simp: find_tachi_def dest: find_SomeD)
  with ok enough a have b: "i64 (TB_Balance tb - a) = TB_Balance tb - a"
    by (intro i64_fits) (auto simp: tachi_ok_def max_tachi_def i64_bounds)
  let ?f = "\<lambda>b. b\<lparr>TB_Balance := TB_Balance tb - a, TB_UpdatedAt := env_clock (w_env w1) (w_tick w1)\<rparr>"
  from up have w2: "t_tachi_balances (w_db w2) = update_rows (\<lambda>b. TB_UserID b = u) ?f (t_tachi_balances (w_db w))"
    "tachi_check (t_tachi_balances (w_db w2)) = None" "t_coupon_redemptions (w_db w2) = t_coupon_redemptions (w_db w)"
    by (auto simp: update_where_Inr b w1)
  note T = tachi_update [OF tb _ w2(1), simplified]
  have "tachi_ok (w_db w2)" by (rule tachi_ok_update [OF ok _ w2(1,2)]) simp
  moreover have "tachi (w_db w) u = TB_Balance tb" using tb by (simp add: tachi_def)
  ultimately show ?thesis using T w2(3) by (simp add: r b)
qed

lemma rollbackSpend_Inr:
  assumes ok: "tachi_ok (w_db w)" and b: "find_tachi u (w_db w) \<noteq> None"
    and run: "rollbackSpendReservation u a w = (Inr x, w')"
  shows "tachi_ok (w_db w') \<and> (\<forall>v. tachi (w_db w') v = tachi (w_db w) v + (if v = u then a else 0)) \<and>
    t_coupon_redemptions (w_db w') = t_coupon_redemptions (w_db w)"
proof -
  from b obtain tb where tb: "find_tachi u (w_db w) = Some tb" by blast
  let ?f = "\<lambda>b. b\<lparr>TB_Balance := TB_Balance b + a, TB_UpdatedAt := env_clock (w_env w) (w_tick w)\<rparr>"
  from run have w': "t_tachi_balances (w_db w') = update_rows (\<lambda>b. TB_UserID b = u) ?f (t_tachi_balances (w_db w))"
    "tachi_check (t_tachi_balances (w_db w')) = None" "t_coupon_redemptions (w_db w') = t_coupon_redemptions (w_db w)"
    by (auto simp: rollbackSpendReservation_def run_simps split: if_split_asm)
  note T = tachi_update [OF tb _ w'(1), simplified]
  have "tachi_ok (w_db w')" by (rule tachi_ok_update [OF ok _ w'(1,2)]) simp
  moreover have "tachi (w_db w) u = TB_Balance tb" using tb by (simp add: tachi_def)
  ultimately show ?thesis using T w'(3) by simp
qed

text \<open>The steps that only write \<^verbatim>\<open>coupon_redemptions\<close>.\<close>

definition same_tachi :: "db \<Rightarrow> db \<Rightarrow> bool" where
  "same_tachi d d' \<longleftrightarrow> t_tachi_balances d' = t_tachi_balances d"

lemma same_tachiD: "same_tachi d d' \<Longrightarrow> tachi d' v = tachi d v" "same_tachi d d' \<Longrightarrow> tachi_ok d' = tachi_ok d"
  by (simp_all add: same_tachi_def tachi_def find_tachi_def tachi_ok_def)

lemma preserves_createPending:
  "(\<And>d f. I (t_coupon_redemptions_update f d) = I d) \<Longrightarrow> preserves I (createPendingCouponRedemption u c a h)"
  unfolding createPendingCouponRedemption_def by (rule preserves_insert_row) simp

lemma preserves_update_redemption:
  "(\<And>d f. I (t_coupon_redemptions_update f d) = I d) \<Longrightarrow> preserves I (update_redemption r f)"
  unfolding update_redemption_def by (intro preserves_intros preserves_update_where) simp

lemma preserves_finishRedeem:
  "(\<And>d f. I (t_coupon_redemptions_update f d) = I d) \<Longrightarrow> preserves I (finishRedeem client u c a r h)"
  unfolding finishRedeem_def
  by (intro preserves_intros preserves_createPending preserves_update_redemption)

lemma finishRedeem_tachi: "finishRedeem client u c a r h w = (x, w') \<Longrightarrow> same_tachi (w_db w) (w_db w')"
  by (rule preservesD [OF preserves_finishRedeem]) (simp_all add: same_tachi_def)

text \<open>A finished redemption is on record, with the voucher if there is one.\<close>

lemma finishRedeem_Inr:
  assumes "finishRedeem client u c a r h w = (Inr (b, code), w')"
  shows "b = SR_newBalance r \<and> (\<exists>rec \<in> set (t_coupon_redemptions (w_db w')). CR_UserID rec = u \<and> CR_CouponID rec = c \<and>
    CR_Amount rec = a \<and> CR_TxHash rec = h \<and>
    (client \<noteq> None \<longrightarrow> CR_Status rec = CouponRedemptionRedeemed \<and> CR_VoucherCode rec = Some code))"
proof -
  from assms obtain rec w1 where ins: "createPendingCouponRedemption u c a h w = (Inr rec, w1)"
    and rest: "(case client of
          None \<Rightarrow>
            handle (update_redemption rec (\<lambda>r. r\<lparr>CR_Status := CouponRedemptionRedeemed\<rparr>))
              (\<lambda>_. ret (SR_newBalance r, []))
              (\<lambda>_. ret (SR_newBalance r, []))
        | Some redeemCoupon \<Rightarrow>
            handle (external (redeemCoupon c (SR_amount r)))
              (\<lambda>tachiyaErr.
               handle (update_redemption rec (\<lambda>r. r\<lparr>CR_Status := CouponRedemptionCompensationNeeded,
                    CR_ErrorMessage := Some (errText tachiyaErr)\<rparr>))
                 (\<lambda>dbErr. fail (Wrap (SpendE ErrTachiyaRedeemFailed) (spend_error_text ErrTachiyaRedeemFailed @
                    '' (coupon_id='' @ c @ ''): tachiya_err='' @ errText tachiyaErr @
                    '', db_update_err='' @ errText dbErr)))
                 (\<lambda>_. fail (Wrap (SpendE ErrTachiyaRedeemFailed) (spend_error_text ErrTachiyaRedeemFailed @
                    '' (coupon_id='' @ c @ ''): '' @ errText tachiyaErr))))
              (\<lambda>voucherCode.
               handle (update_redemption rec (\<lambda>r. r\<lparr>CR_Status := CouponRedemptionRedeemed,
                    CR_VoucherCode := Some voucherCode\<rparr>))
                 (\<lambda>e. fail (Wrap e (''failed to persist redeemed voucher id='' @ uuidText (CR_ID rec) @
                    '' coupon_id='' @ c @ '': '' @ errText e)))
                 (\<lambda>_. ret (SR_newBalance r, voucherCode)))) w1 = (Inr (b, code), w')"
    unfolding finishRedeem_def handle_Inr [of "createPendingCouponRedemption _ _ _ _"] by (auto simp: fail_Inr)
  from ins have rec: "CR_UserID rec = u" "CR_CouponID rec = c" "CR_Amount rec = a" "CR_TxHash rec = h"
    "rec \<in> set (t_coupon_redemptions (w_db w1))"
    by (auto simp: createPendingCouponRedemption_def run_simps)
  show ?thesis
  proof (cases client)
    case None
    with rest consider e where "update_redemption rec (\<lambda>r. r\<lparr>CR_Status := CouponRedemptionRedeemed\<rparr>) w1 = (Inl e, w')"
        "b = SR_newBalance r"
      | n where "update_redemption rec (\<lambda>r. r\<lparr>CR_Status := CouponRedemptionRedeemed\<rparr>) w1 = (Inr n, w')"
        "b = SR_newBalance r"
      by (auto simp: handle_Inr ret_Inr)
    then show ?thesis
    proof cases
      case (1 e)
      from 1(1) have "w_db w' = w_db w1"
        by (auto simp: update_redemption_def update_where_def bnd_def now_def stmt_def no_check_def split: option.splits)
      with rec None 1(2) show ?thesis by auto
    next
      case (2 n)
      then have "rec\<lparr>CR_Status := CouponRedemptionRedeemed, CR_UpdatedAt := env_clock (w_env w1) (w_tick w1)\<rparr>
          \<in> set (t_coupon_redemptions (w_db w'))"
        using rec(5) by (auto simp: update_redemption_def run_simps set_update_rows)
      from 2(2) bexI [OF _ this] rec None show ?thesis by simp
    qed
  next
    case (Some redeemCoupon)
    with rest obtain w2 n where
      up: "update_redemption rec (\<lambda>r. r\<lparr>CR_Status := CouponRedemptionRedeemed, CR_VoucherCode := Some code\<rparr>) w2 = (Inr n, w')"
      and w2: "w2 = tick w1" "b = SR_newBalance r"
      by (auto simp: handle_Inr ret_Inr fail_Inr external_Inr)
    from up have "rec\<lparr>CR_Status := CouponRedemptionRedeemed, CR_VoucherCode := Some code,
        CR_UpdatedAt := env_clock (w_env w2) (w_tick w2)\<rparr> \<in> set (t_coupon_redemptions (w_db w'))"
      using rec(5) by (auto simp: update_redemption_def run_simps set_update_rows w2)
    from w2(2) bexI [OF _ this] rec show ?thesis by simp
  qed
qed

lemma burnFailed_run:
  assumes ok: "tachi_ok (w_db w)" and b: "find_tachi u (w_db w) \<noteq> None"
    and run: "burnFailed u c r h e w = (x, w')"
  shows "tachi_ok (w_db w') \<and> (\<exists>e'. x = Inl e') \<and>
    ((\<forall>v. tachi (w_db w') v = tachi (w_db w) v) \<or>
     h = [] \<and> (\<forall>v. tachi (w_db w') v = tachi (w_db w) v + (if v = u then SR_amount r else 0)))"
proof (cases "h = []")
  case True
  obtain z w1 where tr: "transaction (rollbackSpendReservation u (SR_amount r)) w = (z, w1)" by fastforce
  with run True have x: "\<exists>e'. x = Inl e'" "w' = w1"
    by (auto simp: burnFailed_def handle_def fail_def split: sum.splits)
  from tr show ?thesis
  proof (cases rule: transaction_cases)
    case (1 e)
    with ok x show ?thesis by (simp add: tachi_def find_tachi_def)
  next
    case (2 a w2)
    from rollbackSpend_Inr [OF ok b 2(2)] 2(3) x True show ?thesis by simp
  qed
next
  case False
  obtain z w1 where tr: "createPendingCouponRedemption u c (SR_amount r) h w = (z, w1)" by fastforce
  with run False have x: "\<exists>e'. x = Inl e'" "w' = w1"
    by (auto simp: burnFailed_def handle_def fail_def split: sum.splits)
  have "same_tachi (w_db w) (w_db w1)"
    by (rule preservesD [OF preserves_createPending _ tr]) (simp_all add: same_tachi_def)
  with ok x same_tachiD show ?thesis by simp
qed

lemma Redeem_run:
  assumes ok: "tachi_ok (w_db w)" and run: "Redeem eth burn client u c a w = (x, w')"
  shows "tachi_ok (w_db w') \<and> (\<forall>v. v \<noteq> u \<longrightarrow> tachi (w_db w') v = tachi (w_db w) v) \<and>
    (case x of
       Inr (b, code) \<Rightarrow> 0 < a \<and> b = tachi (w_db w') u \<and> tachi (w_db w') u = tachi (w_db w) u - a \<and>
         (\<exists>rec \<in> set (t_coupon_redemptions (w_db w')). CR_UserID rec = u \<and> CR_CouponID rec = c \<and> CR_Amount rec = a \<and>
            (client \<noteq> None \<longrightarrow> CR_Status rec = CouponRedemptionRedeemed \<and> CR_VoucherCode rec = Some code))
     | Inl e \<Rightarrow> tachi (w_db w') u = tachi (w_db w) u \<or> 0 < a \<and> tachi (w_db w') u = tachi (w_db w) u - a) \<and>
    (\<forall>r w1. 0 < a \<longrightarrow> transaction (reserveSpend eth u a) w = (Inr r, w1) \<longrightarrow>
       fst (burn (SR_fromAddr r) a (w_tick w1)) \<noteq> [] \<or> snd (burn (SR_fromAddr r) a (w_tick w1)) = None \<longrightarrow>
       tachi (w_db w') u = tachi (w_db w) u - a)"
proof (cases "a \<le> 0")
  case True
  with run ok show ?thesis by (auto simp: Redeem_def fail_def)
next
  case False
  then have a: "0 < a" by simp
  obtain y w1 where tr: "transaction (reserveSpend eth u a) w = (y, w1)" by fastforce
  show ?thesis
  proof (cases y)
    case (Inl e)
    with run False tr have "x = Inl e" "w' = w1" by (auto simp: Redeem_def bnd_def)
    with transaction_Inl [of "reserveSpend eth u a" w] tr Inl ok show ?thesis by auto
  next
    case (Inr r)
    note tr = tr [unfolded this]
    from transaction_Inr [OF tr] obtain w0 where w0: "reserveSpend eth u a w = (Inr r, w0)" "w_db w1 = w_db w0" by blast
    note R = reserveSpend_Inr [OF ok a w0(1), folded w0(2)]
    obtain h be where burn: "burn (SR_fromAddr r) a (w_tick w1) = (h, be)" by fastforce
    show ?thesis
    proof (cases be)
      case None
      with run a tr burn R have fin: "finishRedeem client u c a r h (tick w1) = (x, w')"
        by (simp add: Redeem_def bnd_def external_def not_le)
      have same: "tachi_ok (w_db w')" "tachi (w_db w') v = tachi (w_db w1) v" for v
        using same_tachiD [OF finishRedeem_tachi [OF fin]] R by simp_all
      show ?thesis
      proof (cases x)
        case (Inl e)
        with same R a show ?thesis by simp
      next
        case (Inr p)
        obtain b code where p: "p = (b, code)" by fastforce
        from finishRedeem_Inr [OF fin [unfolded Inr p]] obtain rec where
          "b = SR_newBalance r" "rec \<in> set (t_coupon_redemptions (w_db w'))" "CR_UserID rec = u" "CR_CouponID rec = c"
          "CR_Amount rec = a" "client \<noteq> None \<longrightarrow> CR_Status rec = CouponRedemptionRedeemed \<and> CR_VoucherCode rec = Some code"
          by blast
        with same R a show ?thesis unfolding Inr p by auto
      qed
    next
      case (Some e)
      with run a tr burn R have "burnFailed u c r h e (tick w1) = (x, w')"
        by (simp add: Redeem_def bnd_def external_def not_le)
      from burnFailed_run [OF _ _ this] R a burn Some tr show ?thesis by auto
    qed
  qed
qed

section \<open>Properties\<close>

text \<open>C6. What a redemption costs: when it returns, exactly the amount has left the user's tokens, the
  answer is the balance that is left, and a redemption of that user, coupon and amount is on
  record, with the returned voucher when Tachiya issued one. When it fails, either all or none
  of the amount has left. No other user's tokens change, under any failures.\<close>

theorem Redeem_costs:
  assumes "tachi_ok (w_db w)" and "Redeem eth burn client u c a w = (x, w')"
  shows "tachi_ok (w_db w') \<and> (\<forall>v. v \<noteq> u \<longrightarrow> tachi (w_db w') v = tachi (w_db w) v) \<and>
    (case x of
       Inr (b, code) \<Rightarrow> 0 < a \<and> b = tachi (w_db w') u \<and> tachi (w_db w') u = tachi (w_db w) u - a \<and>
         (\<exists>rec \<in> set (t_coupon_redemptions (w_db w')). CR_UserID rec = u \<and> CR_CouponID rec = c \<and> CR_Amount rec = a \<and>
            (client \<noteq> None \<longrightarrow> CR_Status rec = CouponRedemptionRedeemed \<and> CR_VoucherCode rec = Some code))
     | Inl e \<Rightarrow> tachi (w_db w') u = tachi (w_db w) u \<or> 0 < a \<and> tachi (w_db w') u = tachi (w_db w) u - a)"
  using Redeem_run [OF assms] by blast

definition wallet_9 :: db where
  "wallet_9 = claimable\<lparr>t_tachi_balances := [\<lparr>TB_ID = 8, TB_UserID = 3, TB_Balance = 9, TB_UpdatedAt = 0\<rparr>]\<rparr>"

lemma wallet_9_ok: "tachi_ok wallet_9" "tachi wallet_9 3 = 9"
  by (simp_all add: tachi_ok_def wallet_9_def max_tachi_def tachi_def find_tachi_def)

lemmas redeem_defs = Redeem_def reserveSpend_def finishRedeem_def burnFailed_def wallet_9_def claimable_def
  ledger_7_def empty_db_def find_tachi_def resolveWalletAddress_def web3_provider_def order_asc2_def toy_eth_def
  i64_def tachi_check_def max_tachi_def createPendingCouponRedemption_def coupon_conflict_def
  update_redemption_def run_defs update_rows_def dup_if_def no_check_def Let_def cont_def

lemma wallet_9_run:
  "fst (Redeem toy_eth (\<lambda>_ _ _. (''0xb'', None)) (Some (\<lambda>_ _ _. Inr ''V'')) 3 ''cup'' 4 (start (\<lambda>n. int n) wallet_9)) =
    Inr (5, ''V'')"
  by (simp add: redeem_defs)

theorem Redeem_costs_witness:
  "\<exists>w'. Redeem toy_eth (\<lambda>_ _ _. (''0xb'', None)) (Some (\<lambda>_ _ _. Inr ''V'')) 3 ''cup'' 4 (start (\<lambda>n. int n) wallet_9) =
      (Inr (5, ''V''), w') \<and> tachi (w_db w') 3 = 5"
proof -
  let ?w = "start (\<lambda>n. int n) wallet_9"
  obtain w' where run: "Redeem toy_eth (\<lambda>_ _ _. (''0xb'', None)) (Some (\<lambda>_ _ _. Inr ''V'')) 3 ''cup'' 4 ?w = (Inr (5, ''V''), w')"
    using wallet_9_run by (metis prod.collapse)
  have "tachi_ok (w_db ?w)" by (simp add: wallet_9_ok)
  from Redeem_costs [OF this run] wallet_9_ok have "tachi (w_db w') 3 = 5" by simp
  with run show ?thesis by blast
qed

text \<open>C5. Tokens that the chain may have burned are never given back: once the balance is reduced and the
  contract's burn was accepted by the node without a receipt that says it failed, the amount
  stays taken, whatever happens afterwards.\<close>

theorem Redeem_never_refunds_burned:
  assumes ok: "tachi_ok (w_db w)" and a: "0 < a"
    and token: "SS_tachiToken s = Some (tokenContract t)" and hash: "\<And>x. TxHash (TK_crypto t) x \<noteq> []"
    and reserved: "transaction (reserveSpend (SS_eth s) u a) w = (Inr r, w1)"
    and key: "parseSignerKey (SS_eth s) (SS_signerKey s) = Inr key"
    and addr: "IsHexAddress (SS_eth s) (SR_fromAddr r)"
    and burned: "may_have_burned t (w_tick w1) (HexToAddress (SS_eth s) (SR_fromAddr r)) (tachiWholeTokensToRawUnits a) key"
    and run: "Redeem (SS_eth s) (BurnOnChain s) client u c a w = (x, w')"
  shows "tachi (w_db w') u = tachi (w_db w) u - a"
proof -
  have pos: "0 < tachiWholeTokensToRawUnits a" using a by (simp add: tachiWholeTokensToRawUnits_def tachiTokenRawUnit_def)
  have "fst (BurnOnChain s (SR_fromAddr r) a (w_tick w1)) \<noteq> []"
    using TachiBurn_may [OF pos hash] burned token key addr a by (simp add: BurnOnChain_def tokenContract_def)
  with Redeem_run [OF ok run] reserved a show ?thesis by blast
qed

definition toy_spend :: SpendService where
  "toy_spend = \<lparr>SS_eth = toy_eth, SS_signerKey = ''0x1'',
     SS_tachiToken = Some (tokenContract (toy_token (\<lambda>_. Inl (Errorf ''deadline''))))\<rparr>"

theorem Redeem_never_refunds_burned_witness:
  "tachi (w_db (snd (Redeem toy_eth (BurnOnChain toy_spend) None 3 ''cup'' 4 (start (\<lambda>n. int n) wallet_9)))) 3 = 5"
proof -
  let ?w = "start (\<lambda>n. int n) wallet_9" and ?t = "toy_token (\<lambda>_. Inl (Errorf ''deadline''))"
  obtain x w' where run: "Redeem (SS_eth toy_spend) (BurnOnChain toy_spend) None 3 ''cup'' 4 ?w = (x, w')" by fastforce
  have "\<exists>r w1. transaction (reserveSpend (SS_eth toy_spend) 3 4) ?w = (Inr r, w1) \<and> SR_fromAddr r = ''0xA''"
    by (simp add: redeem_defs toy_spend_def)
  then obtain r w1 where res: "transaction (reserveSpend (SS_eth toy_spend) 3 4) ?w = (Inr r, w1)" "SR_fromAddr r = ''0xA''"
    by blast
  have "may_have_burned ?t (w_tick w1) (HexToAddress (SS_eth toy_spend) (SR_fromAddr r)) (tachiWholeTokensToRawUnits 4) 1"
    by (simp add: may_have_burned_def toy_token_def toy_node_def sendCall_def wrapped_def)
  from Redeem_never_refunds_burned [OF _ _ _ _ res(1) _ _ this run] res(2)
  have "tachi (w_db w') 3 = tachi wallet_9 3 - 4"
    by (simp add: wallet_9_ok toy_spend_def toy_eth_def toy_token_def parseSignerKey_def)
  with run show ?thesis by (simp add: wallet_9_ok toy_spend_def)
qed

end
