(* ===== verification/HandlersPoints.thy ===== *)
theory HandlersPoints
  imports Http Airdrop Spend Streamers
begin

text \<open>
  The handlers of watching, points, claims, spending, airdrops and channel settings:
  \<^verbatim>\<open>watch_handler.go\<close>, \<^verbatim>\<open>points_handler.go\<close>, \<^verbatim>\<open>internal_points_handler.go\<close>, \<^verbatim>\<open>claim_handler.go\<close>,
  \<^verbatim>\<open>spend_handler.go\<close>, \<^verbatim>\<open>airdrop_handler.go\<close> and \<^verbatim>\<open>channel_config_handler.go\<close>.
\<close>

section \<open>Watching\<close>

text \<open>A \<open>watchBody\<close> is its channel.\<close>

definition watching :: "HttpLib \<Rightarrow> AccessClaims option \<Rightarrow> err + string \<Rightarrow> (uuid \<Rightarrow> string \<Rightarrow> 'd response m) \<Rightarrow> 'd response m" where
  "watching h claims json k = mustClaims claims (\<lambda>c. bindJSON h json (\<lambda>channelID. channelID \<noteq> []) (\<lambda>channelID.
     parseID h (AC_UserID c) ''invalid user id'' (\<lambda>userID. k userID channelID)))"

definition StartSessionH :: "HttpLib \<Rightarrow> AccessClaims option \<Rightarrow> err + string \<Rightarrow> WatchSession response m" where
  "StartSessionH h claims json = watching h claims json (\<lambda>userID channelID.
     orInternal (StartSessionContext userID channelID) (\<lambda>session. ret (okR session)))"

record WatchHeartbeatResponse =
  WR_Session :: WatchSession
  WR_PointsEarned :: int
  WR_SpendableBalance :: int
  WR_CumulativeTotal :: int

definition HeartbeatH :: "HttpLib \<Rightarrow> AccessClaims option \<Rightarrow> err + string \<Rightarrow> WatchHeartbeatResponse response m" where
  "HeartbeatH h claims json = watching h claims json (\<lambda>userID channelID.
     handle (HeartbeatContext userID channelID)
       (on_error [(WatchE ErrNoActiveSession, badRequest ''no active session'')]) (\<lambda>result.
     orInternal (if HR_DeltaSeconds result > 0 then AddHeartbeatTimeContext userID channelID (HR_DeltaSeconds result)
       else ret ()) (\<lambda>_.
     orInternal (watchGetBalance userID channelID) (\<lambda>(spendable, cumulative).
     ret (okR \<lparr>WR_Session = HR_Session result, WR_PointsEarned = HR_PointsEarned result,
        WR_SpendableBalance = spendable, WR_CumulativeTotal = cumulative\<rparr>)))))"

definition EndSessionH :: "HttpLib \<Rightarrow> AccessClaims option \<Rightarrow> err + string \<Rightarrow> bool response m" where
  "EndSessionH h claims json = watching h claims json (\<lambda>userID channelID.
     orInternal (EndSessionContext userID channelID) (\<lambda>_. ret (okR True)))"

definition click_error :: "err \<Rightarrow> 'd response" where
  "click_error e = (if errors_is e (WatchE ErrNoActiveSession) then badRequest ''no active session''
     else (case unwrap e of
         WatchE (ErrClickOnCooldown ms) \<Rightarrow> Refuse 429 ''on_cooldown'' [(''retry_after_ms'', intText ms)]
       | _ \<Rightarrow> internal))"

definition ClickH :: "HttpLib \<Rightarrow> AccessClaims option \<Rightarrow> err + string \<Rightarrow> ClickResult response m" where
  "ClickH h claims json = watching h claims json (\<lambda>userID channelID.
     handle (RecordClickContext userID channelID) (\<lambda>e. ret (click_error e)) (\<lambda>result. ret (okR result)))"

text \<open>The balance of a channel in the query of the request.\<close>

definition of_channel :: "HttpLib \<Rightarrow> AccessClaims option \<Rightarrow> string \<Rightarrow> (uuid \<Rightarrow> 'd response m) \<Rightarrow> 'd response m" where
  "of_channel h claims channelID k = mustClaims claims (\<lambda>c.
     if channelID = [] then ret (badRequest ''channel_id is required'')
     else parseID h (AC_UserID c) ''invalid user id'' k)"

definition watchGetBalanceH :: "HttpLib \<Rightarrow> AccessClaims option \<Rightarrow> string \<Rightarrow> (int \<times> int) response m" where
  "watchGetBalanceH h claims channelID = of_channel h claims channelID (\<lambda>userID.
     orInternal (watchGetBalance userID channelID) (\<lambda>b. ret (okR b)))"

section \<open>Points\<close>

definition GetBalanceH :: "HttpLib \<Rightarrow> AccessClaims option \<Rightarrow> string \<Rightarrow> PointsBalance response m" where
  "GetBalanceH h claims channelID = of_channel h claims channelID (\<lambda>userID.
     orInternal (GetBalanceContext userID channelID) (\<lambda>balance. ret (okR balance)))"

record PointsHistoryItem =
  PH_Type :: string
  PH_Amount :: int
  PH_SKU :: "string option"
  PH_Note :: "string option"
  PH_CreatedAt :: time

text \<open>A delta whose negation is out of range is left out.\<close>

definition history_item :: "PointsTransaction \<Rightarrow> PointsHistoryItem option" where
  "history_item tx =
     (if PT_Delta tx < 0 \<and> PT_Delta tx = min_i64 then None
      else Some \<lparr>PH_Type = (if PT_Delta tx < 0 then if PT_Source tx = TxSourceClaim then ''claim'' else ''spend'' else ''earn''),
        PH_Amount = (if PT_Delta tx < 0 then i64 (- PT_Delta tx) else PT_Delta tx),
        PH_SKU = PT_SKU tx, PH_Note = PT_Note tx, PH_CreatedAt = PT_CreatedAt tx\<rparr>)"

definition GetHistoryH :: "HttpLib \<Rightarrow> AccessClaims option \<Rightarrow> string \<Rightarrow> PointsHistoryItem list response m" where
  "GetHistoryH h claims channelID = of_channel h claims channelID (\<lambda>userID.
     orInternal (ListTransactionsContext userID channelID) (\<lambda>txs. ret (okR (List.map_filter history_item txs))))"

text \<open>For another service: the balance of a user over all channels, by address.\<close>

definition GetUserPointsBalanceH :: "string \<Rightarrow> (uuid \<times> string option \<times> int \<times> int) response m" where
  "GetUserPointsBalanceH query_email =
     (let email = ToLower (TrimSpace query_email) in
      if email = [] then ret (badRequest ''email is required'')
      else
        handle (orElse (query (\<lambda>d. first_by U_ID (\<lambda>u. (case U_Email u of None \<Rightarrow> False | Some e \<Rightarrow> ToLower e = email) \<and> live u)
            (t_users d))) RecordNotFound)
          (on_error [(RecordNotFound, notFound ''user not found'')]) (\<lambda>user.
        orInternal (stmt (\<lambda>_ _ d.
            let ls = filter (\<lambda>l. PL_UserID l = U_ID user) (t_points_ledgers d);
                s = sum_of PL_SpendableBalance ls; c = sum_of PL_CumulativeTotal ls
            in if fits s \<and> fits c then Inr ((s, c), d) else Inl out_of_range)) (\<lambda>(s, c).
        ret (okR (U_ID user, U_Email user, s, c)))))"

section \<open>Claims and spending\<close>

text \<open>An empty body (\<open>io.EOF\<close>) claims everything; the amount is decoded as an \<open>int64\<close>.\<close>

datatype claim_body = NoBody | BadBody err | ClaimBody int

definition ClaimH :: "HttpLib \<Rightarrow> EthLib \<Rightarrow> MintCaller \<Rightarrow> AccessClaims option \<Rightarrow> claim_body \<Rightarrow> int response m" where
  "ClaimH h eth minter claims body = caller h claims (\<lambda>userID.
     case body of
       BadBody e \<Rightarrow> ret (badRequest (''invalid request body: '' @ errText e))
     | _ \<Rightarrow>
         let amount = (case body of ClaimBody a \<Rightarrow> a | _ \<Rightarrow> 0) in
         if amount < 0 then ret (badRequest ''amount must be >= 0'')
         else handle (Claim eth minter userID amount)
           (\<lambda>e. on_error [(ClaimE ErrClaimInsufficientBalance, unprocessableEntity (errText e)),
              (ClaimE ErrClaimWalletNotLinked, unprocessableEntity (errText e)),
              (ClaimE ErrClaimAmountInvalid, badRequest (errText e))] e)
           (\<lambda>newBalance. ret (okR newBalance)))"

definition GetTachiBalanceH :: "HttpLib \<Rightarrow> AccessClaims option \<Rightarrow> int response m" where
  "GetTachiBalanceH h claims = caller h claims (\<lambda>userID.
     orInternal (GetTachiBalanceContext userID) (\<lambda>balance. ret (okR balance)))"

record redeemRequest =
  RD_CouponID :: string
  RD_Amount :: int

definition RedeemH :: "HttpLib \<Rightarrow> EthLib \<Rightarrow> BurnCaller \<Rightarrow> TachiyaClient option \<Rightarrow> AccessClaims option \<Rightarrow> err + redeemRequest \<Rightarrow>
    (int \<times> string) response m" where
  "RedeemH h eth burner tachiya claims json = caller h claims (\<lambda>userID.
     case json of
       Inl e \<Rightarrow> ret (badRequest (''invalid request body: '' @ errText e))
     | Inr req \<Rightarrow>
         if \<not> (RD_CouponID req \<noteq> [] \<and> RD_Amount req \<noteq> 0 \<and> RD_Amount req \<ge> 1)
         then ret (badRequest (''invalid request body: '' @ H_bindError h))
         else handle (Redeem eth burner tachiya userID (RD_CouponID req) (RD_Amount req))
           (\<lambda>e. on_error [(SpendE ErrSpendInsufficientBalance, badRequest (errText e)),
              (SpendE ErrSpendWalletNotLinked, badRequest (errText e)), (SpendE ErrSpendAmountInvalid, badRequest (errText e)),
              (SpendE ErrTachiyaRedeemFailed, serviceUnavailable ''tachiya coupon redeem failed'')] e)
           (\<lambda>result. ret (okR result)))"

section \<open>Airdrops\<close>

record AirdropBody =
  AB_Amount :: int
  AB_Note :: string

definition airdropAuthorize :: "HttpLib \<Rightarrow> AccessClaims \<Rightarrow> string \<Rightarrow> bool m" where
  "airdropAuthorize h claims channelID = (case AC_Role claims of
     RoleAdmin \<Rightarrow> ret True
   | RoleViewer \<Rightarrow> ret False
   | _ \<Rightarrow> (case H_parse h (AC_UserID claims) of
         None \<Rightarrow> fail (Errorf ''invalid UUID'')
       | Some userID \<Rightarrow>
           if AC_Role claims = RoleStreamer then StreamerOwnsChannelContext userID channelID
           else AgencyOwnsChannelContext userID channelID))"

definition airdrop_error_response :: "err \<Rightarrow> 'd response" where
  "airdrop_error_response e =
     (if errors_is e (AirdropE ErrNoActiveViewers) then badRequest (errText e)
      else (case unwrap e of
          AirdropE (DailyAirdropExceededError limit today requested remaining) \<Rightarrow>
            Refuse 400 (errText e) [(''remaining'', intText remaining)]
        | _ \<Rightarrow> if errors_is e (PointsE ErrInvalidPointsAmount) then badRequest (errText e) else internal))"

definition AirdropH :: "HttpLib \<Rightarrow> AccessClaims option \<Rightarrow> string \<Rightarrow> err + AirdropBody \<Rightarrow> AirdropResult response m" where
  "AirdropH h claims channelID json = bindJSON h json (\<lambda>b. AB_Amount b \<noteq> 0 \<and> AB_Amount b \<ge> 1) (\<lambda>body.
     if channelID = [] then ret (badRequest ''channel_id is required'')
     else mustClaims claims (\<lambda>c.
       orInternal (airdropAuthorize h c channelID) (\<lambda>allowed.
       if \<not> allowed then ret (forbidden ''forbidden'')
       else handle (ExecuteContext \<lparr>AQ_ChannelID = channelID, AQ_Amount = AB_Amount body, AQ_Note = AB_Note body\<rparr>)
         (\<lambda>e. ret (airdrop_error_response e)) (\<lambda>result. ret (okR result)))))"

section \<open>Channel settings\<close>

text \<open>\<open>Some r\<close> is the answer of a refusal that was already written, \<open>None\<close> lets the caller go on.\<close>

definition authorizeChannelAccess :: "HttpLib \<Rightarrow> AccessClaims option \<Rightarrow> string \<Rightarrow> 'd response option m" where
  "authorizeChannelAccess h claims channelID =
     (if channelID = [] then ret (Some (badRequest ''channel_id is required''))
      else mustClaims claims (\<lambda>c.
        let owner = (\<lambda>owns. case H_parse h (AC_UserID c) of
            None \<Rightarrow> ret (Some (badRequest ''invalid user id''))
          | Some userID \<Rightarrow> handle (owns userID channelID) (\<lambda>e. ret (Some internal))
              (\<lambda>b. ret (if \<not> b then Some (forbidden ''forbidden'') else None)))
        in (case AC_Role c of
            RoleAdmin \<Rightarrow> ret None
          | RoleAgency \<Rightarrow> owner OwnsAgencyChannelContext
          | RoleStreamer \<Rightarrow> owner StreamerOwnsChannelContext
          | RoleViewer \<Rightarrow> ret (Some (forbidden ''forbidden'')))))"

definition GetChannelConfigH :: "HttpLib \<Rightarrow> AccessClaims option \<Rightarrow> string \<Rightarrow> ChannelConfig response m" where
  "GetChannelConfigH h claims channelID = bnd (authorizeChannelAccess h claims channelID) (\<lambda>denied.
     case denied of
       Some r \<Rightarrow> ret r
     | None \<Rightarrow> orInternal (GetContext channelID) (\<lambda>cfg. ret (okR (case cfg of
           Some x \<Rightarrow> x
         | None \<Rightarrow> \<lparr>CC_ChannelID = channelID, CC_SecondsPerPoint = DefaultSecondsPerPoint, CC_Multiplier = 1,
             CC_DailyAirdropLimit = 0, CC_CreatedAt = 0\<rparr>))))"

definition UpdateChannelConfigH :: "HttpLib \<Rightarrow> AccessClaims option \<Rightarrow> string \<Rightarrow> err + int \<times> int \<Rightarrow> ChannelConfig response m" where
  "UpdateChannelConfigH h claims channelID json =
     bindJSON h json (\<lambda>(secondsPerPoint, multiplier). 0 \<le> secondsPerPoint \<and> secondsPerPoint \<le> 86400 \<and>
        0 \<le> multiplier \<and> multiplier \<le> 10) (\<lambda>(secondsPerPoint, multiplier).
     if secondsPerPoint = 0 \<and> multiplier = 0 then ret (badRequest ''at least one field must be a positive value'')
     else bnd (authorizeChannelAccess h claims channelID) (\<lambda>denied.
       case denied of
         Some r \<Rightarrow> ret r
       | None \<Rightarrow> orInternal (UpdateChannelConfigContext channelID secondsPerPoint multiplier) (\<lambda>cfg. ret (okR cfg))))"

end
