(* ===== verification/HandlersAccount.thy ===== *)
theory HandlersAccount
  imports Http EmailAuth Extension Streamers
begin

text \<open>
  The handlers of profiles, addresses, email tokens, the extension, agencies and streamers:
  \<^verbatim>\<open>user_handler.go\<close>, \<^verbatim>\<open>address_handler.go\<close>, \<^verbatim>\<open>email_auth_handler.go\<close>, \<^verbatim>\<open>extension_handler.go\<close>,
  \<^verbatim>\<open>agency_handler.go\<close> and \<^verbatim>\<open>streamer_handler.go\<close>.
\<close>

section \<open>Profiles\<close>

definition MeH :: "HttpLib \<Rightarrow> AccessClaims option \<Rightarrow> User response m" where
  "MeH h claims = me h claims (\<lambda>userID.
     handle (UserGetByIDContext userID) (\<lambda>e. ret (notFound ''user not found'')) (\<lambda>user. ret (okR user)))"

text \<open>The input has no \<open>binding\<close> rules.\<close>

definition UpdateMeH :: "HttpLib \<Rightarrow> AccessClaims option \<Rightarrow> err + UpdateProfileInput \<Rightarrow> User response m" where
  "UpdateMeH h claims json = me h claims (\<lambda>userID.
     bindJSON h json (\<lambda>_. True) (\<lambda>input.
     handle (UpdateProfileContext userID input)
       (on_exact [(AuthE ErrUsernameExists, conflict ''username already taken'')]) (\<lambda>user. ret (okR user))))"

definition LinkWalletH :: "HttpLib \<Rightarrow> AuthLib \<Rightarrow> AccessClaims option \<Rightarrow> err + LinkWalletInput \<Rightarrow> string response m" where
  "LinkWalletH h lib claims json = me h claims (\<lambda>userID.
     bindJSON h json (\<lambda>input. LW_Address input \<noteq> [] \<and> LW_Nonce input \<noteq> [] \<and> LW_Signature input \<noteq> []) (\<lambda>input.
     handle (LinkWalletContext lib userID input)
       (on_exact [(AuthE ErrInvalidWalletAddress, badRequest ''invalid wallet address''),
          (AuthE ErrInvalidNonce, unauthorized ''invalid or expired nonce''),
          (AuthE ErrInvalidSignature, unauthorized ''invalid wallet signature''),
          (AuthE ErrProviderLinked, conflict ''wallet already linked to another account'')])
       (\<lambda>addr. ret (okR addr))))"

definition ListProvidersH :: "HttpLib \<Rightarrow> AccessClaims option \<Rightarrow> AuthProvider list response m" where
  "ListProvidersH h claims = me h claims (\<lambda>userID.
     orInternal (ListProvidersContext userID) (\<lambda>providers. ret (okR providers)))"

section \<open>Addresses\<close>

definition AddressListH :: "HttpLib \<Rightarrow> AccessClaims option \<Rightarrow> ShippingAddress list response m" where
  "AddressListH h claims = me h claims (\<lambda>userID.
     orInternal (AddressListContext userID) (\<lambda>addrs. ret (okR addrs)))"

definition address_input_ok :: "AddressInput \<Rightarrow> bool" where
  "address_input_ok input \<longleftrightarrow> AI_RecipientName input \<noteq> [] \<and> AI_AddressLine1 input \<noteq> [] \<and> AI_City input \<noteq> []"

definition AddressCreateH :: "HttpLib \<Rightarrow> AccessClaims option \<Rightarrow> err + AddressInput \<Rightarrow> ShippingAddress response m" where
  "AddressCreateH h claims json = me h claims (\<lambda>userID. bindJSON h json address_input_ok (\<lambda>input.
     orInternal (AddressCreateContext userID input) (\<lambda>addr. ret (created addr))))"

definition AddressUpdateH :: "HttpLib \<Rightarrow> AccessClaims option \<Rightarrow> string \<Rightarrow> err + AddressInput \<Rightarrow> ShippingAddress response m" where
  "AddressUpdateH h claims id_param json = me h claims (\<lambda>userID.
     parseID h id_param ''invalid address id'' (\<lambda>addrID. bindJSON h json address_input_ok (\<lambda>input.
     handle (AddressUpdateContext userID addrID input)
       (on_exact [(AccountE ErrAddressNotFound, notFound ''address not found'')]) (\<lambda>addr. ret (okR addr)))))"

definition AddressDeleteH :: "HttpLib \<Rightarrow> AccessClaims option \<Rightarrow> string \<Rightarrow> string response m" where
  "AddressDeleteH h claims id_param = me h claims (\<lambda>userID.
     parseID h id_param ''invalid address id'' (\<lambda>addrID.
     handle (AddressDeleteContext userID addrID)
       (on_exact [(AccountE ErrAddressNotFound, notFound ''address not found'')]) (\<lambda>_. ret (okR ''address deleted''))))"

definition SetDefaultH :: "HttpLib \<Rightarrow> AccessClaims option \<Rightarrow> string \<Rightarrow> ShippingAddress response m" where
  "SetDefaultH h claims id_param = me h claims (\<lambda>userID.
     parseID h id_param ''invalid address id'' (\<lambda>addrID.
     handle (SetDefaultContext userID addrID)
       (on_exact [(AccountE ErrAddressNotFound, notFound ''address not found'')]) (\<lambda>addr. ret (okR addr))))"

section \<open>Email tokens\<close>

definition SendVerificationH :: "HttpLib \<Rightarrow> EmailAuthService \<Rightarrow> AccessClaims option \<Rightarrow> string response m" where
  "SendVerificationH h emailAuth claims = me h claims (\<lambda>userID.
     handle (SendVerificationEmail emailAuth userID)
       (on_exact [(AuthE ErrAlreadyVerified, badRequest ''email already verified''),
          (AuthE ErrUserNotFound, notFound ''user not found'')]) (\<lambda>_. ret (okR ''verification email sent'')))"

definition ConfirmVerificationH :: "HttpLib \<Rightarrow> err + string \<Rightarrow> string response m" where
  "ConfirmVerificationH h json = bindJSON h json (\<lambda>token. token \<noteq> []) (\<lambda>token.
     handle (VerifyEmail token)
       (on_exact [(AuthE ErrInvalidVerifyToken, badRequest ''invalid or expired verification token'')])
       (\<lambda>_. ret (okR ''email verified'')))"

text \<open>The answer is the same whatever the service returned.\<close>

definition ForgotPasswordH :: "HttpLib \<Rightarrow> EmailAuthService \<Rightarrow> err + string \<Rightarrow> string response m" where
  "ForgotPasswordH h emailAuth json = bindJSON h json (\<lambda>email. email \<noteq> [] \<and> H_email h email) (\<lambda>email.
     let answer = ret (okR ''if that email is registered, a reset link has been sent'')
     in handle (ForgotPassword emailAuth email) (\<lambda>_. answer) (\<lambda>_. answer))"

record ResetBody =
  RB_Token :: string
  RB_NewPassword :: string

definition ResetPasswordH :: "HttpLib \<Rightarrow> EmailAuthService \<Rightarrow> err + ResetBody \<Rightarrow> string response m" where
  "ResetPasswordH h emailAuth json = bindJSON h json (\<lambda>b. RB_Token b \<noteq> [] \<and> RB_NewPassword b \<noteq> [] \<and>
       RuneCountInString (RB_NewPassword b) \<ge> 8) (\<lambda>body.
     handle (ResetPassword emailAuth (RB_Token body) (RB_NewPassword body))
       (on_exact [(AuthE ErrInvalidResetToken, badRequest ''invalid or expired reset token'')])
       (\<lambda>_. ret (okR ''password reset successfully'')))"

section \<open>The extension\<close>

definition ExtensionLoginH :: "HttpLib \<Rightarrow> ExtensionService \<Rightarrow> err + string \<Rightarrow> (User \<times> BrowserTokenPair) response m" where
  "ExtensionLoginH h s json = bindJSON h json (\<lambda>jwt. jwt \<noteq> []) (\<lambda>jwt.
     handle (LoginWithExtensionContext s jwt)
       (on_exact [(ExtensionE ErrInvalidExtJWT, unauthorized ''invalid extension JWT''),
          (AuthE ErrUserNotFound, unauthorized (''tachigo account not found '' @ [CHR 0xE2, CHR 0x80, CHR 0x94] @
             '' please sign up at tachigo and link your Twitch account''))])
       (\<lambda>(user, tokens). ret (okR (user, browserTokenPair tokens))))"

record TPointBody =
  TP_ExtensionJWT :: string
  TP_TransactionReceipt :: string
  TP_SKU :: string

definition TPointCompleteH :: "HttpLib \<Rightarrow> ExtensionService \<Rightarrow> err + TPointBody \<Rightarrow> (User \<times> BrowserTokenPair) response m" where
  "TPointCompleteH h s json = bindJSON h json (\<lambda>b. TP_ExtensionJWT b \<noteq> [] \<and> TP_TransactionReceipt b \<noteq> [] \<and> TP_SKU b \<noteq> []) (\<lambda>body.
     handle (CompleteTPointTransactionContext s (TP_ExtensionJWT body) (TP_TransactionReceipt body) (TP_SKU body))
       (on_exact [(ExtensionE ErrInvalidExtJWT, unauthorized ''invalid extension JWT''),
          (ExtensionE ErrInvalidReceipt, badRequest ''invalid transaction receipt''),
          (ExtensionE ErrInvalidReceiptAmount, badRequest ''invalid transaction receipt''),
          (ExtensionE ErrInvalidReceiptType, badRequest ''invalid transaction receipt''),
          (ExtensionE ErrDuplicateTransaction, conflict ''transaction already processed'')])
       (\<lambda>(user, tokens). ret (okR (user, browserTokenPair tokens))))"

section \<open>Agencies\<close>

record createAgencyRequest =
  CA_Name :: string
  CA_Email :: string

record createAgencyResponse =
  AR_ID :: uuid
  AR_Name :: string
  AR_Email :: string

text \<open>A mail that fails is logged; the agency stays created.\<close>

definition AgencyCreateH :: "HttpLib \<Rightarrow> EmailAuthService \<Rightarrow> err + createAgencyRequest \<Rightarrow> createAgencyResponse response m" where
  "AgencyCreateH h emailAuth json = bindJSON h json (\<lambda>r. CA_Name r \<noteq> [] \<and> CA_Email r \<noteq> [] \<and> H_email h (CA_Email r)) (\<lambda>req.
     handle (AgencyCreateContext (CA_Name req) (CA_Email req))
       (\<lambda>e. on_error [(AccountE ErrAgencyEmailTaken, conflict (errText e)), (AccountE ErrAgencyNameTaken, conflict (errText e)),
          (AccountE ErrAgencyNameTooLong, badRequest (errText e))] e) (\<lambda>user.
     case U_Email user of
       None \<Rightarrow> fail Panic
     | Some email \<Rightarrow>
         let answer = ret (created \<lparr>AR_ID = U_ID user, AR_Name = CA_Name req, AR_Email = CA_Email req\<rparr>)
         in handle (ForgotPassword emailAuth email) (\<lambda>_. answer) (\<lambda>_. answer)))"

text \<open>An agency only reaches its own pages, an administrator all.\<close>

definition own_agency :: "AccessClaims option \<Rightarrow> uuid \<Rightarrow> 'd response m \<Rightarrow> 'd response m" where
  "own_agency claims agencyID k = mustClaims claims (\<lambda>c.
     if AC_Role c = RoleAgency \<and> AC_UserID c \<noteq> uuidText agencyID then ret (forbidden ''forbidden'') else k)"

record getAgencyResponse =
  GA_ID :: uuid
  GA_Name :: string
  GA_Email :: string
  GA_OnboardingComplete :: bool

definition AgencyGetH :: "HttpLib \<Rightarrow> AccessClaims option \<Rightarrow> string \<Rightarrow> getAgencyResponse response m" where
  "AgencyGetH h claims id_param = parseID h id_param ''invalid agency id'' (\<lambda>agencyID. own_agency claims agencyID (
     handle (AgencyGetByIDContext agencyID) (on_error [(AccountE ErrAgencyNotFound, notFound ''agency not found'')])
       (\<lambda>(user, complete). ret (okR \<lparr>GA_ID = U_ID user,
          GA_Name = (case U_Username user of None \<Rightarrow> [] | Some n \<Rightarrow> n),
          GA_Email = (case U_Email user of None \<Rightarrow> [] | Some e \<Rightarrow> e), GA_OnboardingComplete = complete\<rparr>))))"

definition ResendSetupH :: "HttpLib \<Rightarrow> EmailAuthService \<Rightarrow> string \<Rightarrow> string response m" where
  "ResendSetupH h emailAuth id_param = parseID h id_param ''invalid agency id'' (\<lambda>agencyID.
     handle (AgencyGetByIDContext agencyID) (on_error [(AccountE ErrAgencyNotFound, notFound ''agency not found'')])
       (\<lambda>(user, complete).
        if complete then ret (conflict ''agency has already completed onboarding'')
        else (case U_Email user of
            None \<Rightarrow> ret internal
          | Some email \<Rightarrow> handle (ForgotPassword emailAuth email)
              (\<lambda>_. ret (refuse 500 ''failed to send setup email'')) (\<lambda>_. ret (okR ''setup email sent'')))))"

definition UpdateSettingsH :: "HttpLib \<Rightarrow> AccessClaims option \<Rightarrow> string \<Rightarrow> err + string \<Rightarrow> string response m" where
  "UpdateSettingsH h claims id_param json = parseID h id_param ''invalid agency id'' (\<lambda>agencyID. own_agency claims agencyID (
     bindJSON h json (\<lambda>name. name \<noteq> []) (\<lambda>name.
     handle (UpdateSettingsContext agencyID name)
       (\<lambda>e. on_error [(AccountE ErrAgencyNotFound, notFound ''agency not found''),
          (AccountE ErrAgencyNameTaken, conflict (errText e)), (AccountE ErrAgencyNameTooLong, badRequest (errText e))] e)
       (\<lambda>_. ret (okR name)))))"

text \<open>A channel without a streamer user is an error of the whole list.\<close>

definition agency_rows :: "(string \<rightharpoonup> uuid) \<Rightarrow> AgencyStreamer list \<Rightarrow> (string \<times> uuid) list option" where
  "agency_rows users streamers =
     (if list_all (\<lambda>s. users (AS_ChannelID s) \<noteq> None) streamers
      then Some (map (\<lambda>s. (AS_ChannelID s, the (users (AS_ChannelID s)))) streamers) else None)"

definition ListStreamersH :: "HttpLib \<Rightarrow> AccessClaims option \<Rightarrow> string \<Rightarrow> (string \<times> uuid) list response m" where
  "ListStreamersH h claims id_param = parseID h id_param ''invalid agency id'' (\<lambda>agencyID. own_agency claims agencyID (
     handle (ListStreamersContext agencyID) (on_error [(AccountE ErrAgencyNotFound, notFound ''agency not found'')]) (\<lambda>streamers.
     orInternal (ListStreamerUserIDsContext (map AS_ChannelID streamers)) (\<lambda>users.
     case agency_rows users streamers of None \<Rightarrow> ret internal | Some rows \<Rightarrow> ret (okR rows)))))"

section \<open>Streamers\<close>

record RegisterBody =
  RG_ChannelID :: string
  RG_DisplayName :: string

definition StreamerRegisterH :: "HttpLib \<Rightarrow> AccessClaims option \<Rightarrow> err + RegisterBody \<Rightarrow> Streamer response m" where
  "StreamerRegisterH h claims json = caller h claims (\<lambda>userID.
     bindJSON h json (\<lambda>b. RG_ChannelID b \<noteq> []) (\<lambda>body.
     handle (StreamerRegisterContext userID (RG_ChannelID body) (RG_DisplayName body))
       (on_error [(AccountE ErrChannelNotOwned, forbidden ''channel_id does not match your Twitch account'')])
       (\<lambda>streamer. ret (okR streamer))))"

record CreateStreamerBody =
  CB_UserID :: string
  CB_AgencyUserID :: "string option"
  CB_ChannelID :: string

definition StreamerCreateH :: "HttpLib \<Rightarrow> err + CreateStreamerBody \<Rightarrow> Streamer response m" where
  "StreamerCreateH h json = bindJSON h json (\<lambda>b. CB_UserID b \<noteq> [] \<and> CB_ChannelID b \<noteq> []) (\<lambda>body.
     parseID h (CB_UserID body) ''invalid user_id'' (\<lambda>userID.
     let create = (\<lambda>agencyUserID. handle (StreamerCreateContext userID agencyUserID (CB_ChannelID body))
       (on_error [(AccountE ErrChannelNotOwned, forbidden (''channel_id does not match user'' @ [CHR 0x27] @ ''s Twitch account'')),
          (AccountE ErrAgencyUserInvalid, badRequest ''agency_user_id must reference an agency user'')])
       (\<lambda>streamer. ret (okR streamer)))
     in (case CB_AgencyUserID body of
         None \<Rightarrow> create None
       | Some text \<Rightarrow> parseID h text ''invalid agency_user_id'' (\<lambda>aid. create (Some aid)))))"

definition ListChannelsH :: "HttpLib \<Rightarrow> AccessClaims option \<Rightarrow> Streamer list response m" where
  "ListChannelsH h claims = caller h claims (\<lambda>userID.
     orInternal (ListChannelsContext userID) (\<lambda>channels. ret (okR channels)))"

text \<open>A streamer with its summary; one without has zeros.\<close>

definition streamerWithSummary :: "(string \<rightharpoonup> StreamerSummary) \<Rightarrow> Streamer \<Rightarrow> Streamer \<times> StreamerSummary" where
  "streamerWithSummary summaries s = (s, case summaries (ST_ChannelID s) of
     Some sm \<Rightarrow> sm | None \<Rightarrow> \<lparr>SM_DailySeconds = 0, SM_UniqueMiners = 0, SM_TotalTokenMinted = 0\<rparr>)"

definition StreamerListH :: "HttpLib \<Rightarrow> AccessClaims option \<Rightarrow> (Streamer \<times> StreamerSummary) list response m" where
  "StreamerListH h claims = mustClaims claims (\<lambda>c.
     let rest = (\<lambda>list. orInternal list (\<lambda>streamers.
         orInternal (GetSummaryStatsContext (map ST_ChannelID streamers)) (\<lambda>summaryMap.
         ret (okR (map (streamerWithSummary summaryMap) streamers)))))
     in (case AC_Role c of
         RoleAdmin \<Rightarrow> rest ListAllContext
       | RoleAgency \<Rightarrow> parseID h (AC_UserID c) ''invalid user id'' (\<lambda>aid. rest (ListByAgencyUserIDContext aid))
       | _ \<Rightarrow> ret (forbidden ''forbidden'')))"

definition GetChannelStatsH :: "HttpLib \<Rightarrow> calendar \<Rightarrow> AccessClaims option \<Rightarrow> string \<Rightarrow> BroadcastStats response m" where
  "GetChannelStatsH h cal claims channelID =
     (if channelID = [] then ret (badRequest ''channel_id is required'')
      else mustClaims claims (\<lambda>c.
        let stats = handle (GetChannelStatsContext cal channelID)
              (on_error [(AccountE ErrStreamerNotFound, notFound ''streamer not found'')]) (\<lambda>stats. ret (okR stats))
        in if AC_Role c \<noteq> RoleAdmin
           then parseID h (AC_UserID c) ''invalid user id'' (\<lambda>userID.
             orInternal (StreamerOwnsChannelContext userID channelID) (\<lambda>owns.
             if \<not> owns then ret (forbidden ''forbidden'') else stats))
           else stats))"

definition GetStatsH :: "HttpLib \<Rightarrow> calendar \<Rightarrow> AccessClaims option \<Rightarrow> string \<Rightarrow> (StreamerStats \<times> string) response m" where
  "GetStatsH h cal claims id_param = parseID h id_param ''invalid streamer_id'' (\<lambda>streamerID.
     handle (StreamerGetByIDContext streamerID)
       (on_error [(AccountE ErrStreamerNotFound, notFound ''streamer not found'')]) (\<lambda>streamer.
     mustClaims claims (\<lambda>c.
       let stats = handle (GetStatsContext cal (ST_ID streamer))
             (on_error [(AccountE ErrStreamerNotFound, notFound ''streamer not found'')])
             (\<lambda>stats. ret (okR (stats, ST_ChannelID streamer)))
       in (case AC_Role c of
           RoleStreamer \<Rightarrow> if AC_UserID c \<noteq> uuidText (ST_UserID streamer) then ret (notFound ''streamer not found'') else stats
         | RoleAgency \<Rightarrow> parseID h (AC_UserID c) ''invalid user id'' (\<lambda>aid.
             orInternal (OwnsStreamerContext aid streamerID) (\<lambda>owns.
             if \<not> owns then ret (notFound ''streamer not found'') else stats))
         | RoleAdmin \<Rightarrow> stats
         | RoleViewer \<Rightarrow> ret (forbidden ''forbidden'')))))"

end
