(* ===== verification/HandlersRaffle.thy ===== *)
theory HandlersRaffle
  imports Http Extension RaffleSync
begin

text \<open>
  \<^verbatim>\<open>handlers/raffle_handler.go\<close>: the pages of the streamer, the public pages of a raffle and its
  claims, and joining from the extension. The import from Twitch may not return, so its handler is
  \<open>None\<close> when the loop over the pages does not end.
\<close>

section \<open>Requests on a raffle\<close>

text \<open>The caller and the raffle in the path.\<close>

definition of_raffle :: "HttpLib \<Rightarrow> AccessClaims option \<Rightarrow> string \<Rightarrow> (uuid \<Rightarrow> uuid \<Rightarrow> 'd response m) \<Rightarrow> 'd response m" where
  "of_raffle h claims id_param k = caller h claims (\<lambda>userID.
     parseID h id_param ''invalid raffle id'' (\<lambda>raffleID. k raffleID userID))"

definition of_tier :: "HttpLib \<Rightarrow> AccessClaims option \<Rightarrow> string \<Rightarrow> string \<Rightarrow> (uuid \<Rightarrow> uuid \<Rightarrow> uuid \<Rightarrow> 'd response m) \<Rightarrow> 'd response m" where
  "of_tier h claims id_param tier_param k = of_raffle h claims id_param (\<lambda>raffleID userID.
     parseID h tier_param ''invalid tier id'' (\<lambda>tierID. k raffleID tierID userID))"

definition raffle_owner_errors :: "(err \<times> 'd response) list" where
  "raffle_owner_errors = [(RaffleE ErrRaffleNotFound, notFound ''raffle not found''), (RaffleE ErrRaffleForbidden, forbidden ''forbidden'')]"

definition RaffleCreateH :: "HttpLib \<Rightarrow> AccessClaims option \<Rightarrow> err + string \<Rightarrow> Raffle response m" where
  "RaffleCreateH h claims json = caller h claims (\<lambda>userID. bindJSON h json (\<lambda>title. title \<noteq> []) (\<lambda>title.
     orInternal (RaffleCreateContext userID title) (\<lambda>raffle. ret (created raffle))))"

definition RaffleListH :: "HttpLib \<Rightarrow> AccessClaims option \<Rightarrow> Raffle list response m" where
  "RaffleListH h claims = caller h claims (\<lambda>userID.
     orInternal (ListByStreamerContext userID) (\<lambda>raffles. ret (okR raffles)))"

definition RaffleGetH :: "HttpLib \<Rightarrow> AccessClaims option \<Rightarrow> string \<Rightarrow> Raffle response m" where
  "RaffleGetH h claims id_param = of_raffle h claims id_param (\<lambda>raffleID userID.
     handle (GetByIDContext raffleID userID) (on_error raffle_owner_errors) (\<lambda>raffle. ret (okR raffle)))"

section \<open>Importing a file\<close>

definition maxRaffleCSVFileBytes :: nat where
  "maxRaffleCSVFileBytes = push_bit 20 1"

definition maxRaffleCSVImportRequestBytes :: nat where
  "maxRaffleCSVImportRequestBytes = maxRaffleCSVFileBytes + 64 * 1024"

text \<open>
  What \<^verbatim>\<open>FormFile\<close> makes of the body under \<^verbatim>\<open>MaxBytesReader\<close>: the limit was hit, another failure, or the
  size of the file and its content.
\<close>

datatype upload = BodyTooLarge | NoFile err | Upload nat string

definition isRequestBodyTooLarge :: "upload \<Rightarrow> bool" where
  "isRequestBodyTooLarge u \<longleftrightarrow> u = BodyTooLarge"

definition raffleCSVTooLarge :: "'d response" where
  "raffleCSVTooLarge = refuse 413 ''csv upload is too large''"

definition ImportCSVH :: "HttpLib \<Rightarrow> AccessClaims option \<Rightarrow> string \<Rightarrow> (nat \<Rightarrow> upload) \<Rightarrow> ImportCSVResult response m" where
  "ImportCSVH h claims id_param form = of_raffle h claims id_param (\<lambda>raffleID userID.
     case form maxRaffleCSVImportRequestBytes of
       Upload n content \<Rightarrow>
         if n > maxRaffleCSVFileBytes then ret raffleCSVTooLarge
         else handle (ImportCSVContext raffleID userID content)
           (\<lambda>e. on_error (raffle_owner_errors @ [(RaffleE ErrRaffleNotDraft, conflict (errText e))]) e)
           (\<lambda>result. ret (okR result))
     | u \<Rightarrow> if isRequestBodyTooLarge u then ret raffleCSVTooLarge else ret (badRequest ''file is required''))"

section \<open>Draws and states\<close>

text \<open>The jobs that follow a draw run after the answer.\<close>

definition DrawNextH :: "HttpLib \<Rightarrow> bool \<Rightarrow> AccessClaims option \<Rightarrow> string \<Rightarrow> (DrawResult \<times> Job list) response m" where
  "DrawNextH h hasMailer claims id_param = of_raffle h claims id_param (\<lambda>raffleID userID.
     handle (DrawNext hasMailer raffleID userID)
       (on_error (raffle_owner_errors @ [(RaffleE ErrRaffleExhausted, conflict ''all entries have been drawn''),
          (RaffleE ErrRaffleCompleted, conflict ''raffle is already completed'')]))
       (\<lambda>draw. ret (created draw)))"

definition ListDrawsH :: "HttpLib \<Rightarrow> AccessClaims option \<Rightarrow> string \<Rightarrow> (RaffleDraw \<times> RaffleEntry option) list response m" where
  "ListDrawsH h claims id_param = of_raffle h claims id_param (\<lambda>raffleID userID.
     handle (ListDrawsContext raffleID userID) (on_error raffle_owner_errors) (\<lambda>draws. ret (okR draws)))"

definition CompleteH :: "HttpLib \<Rightarrow> AccessClaims option \<Rightarrow> string \<Rightarrow> Raffle response m" where
  "CompleteH h claims id_param = of_raffle h claims id_param (\<lambda>raffleID userID.
     handle (CompleteContext raffleID userID) (on_error raffle_owner_errors) (\<lambda>raffle. ret (okR raffle)))"

definition ActivateH :: "HttpLib \<Rightarrow> AccessClaims option \<Rightarrow> string \<Rightarrow> Raffle response m" where
  "ActivateH h claims id_param = of_raffle h claims id_param (\<lambda>raffleID userID.
     handle (ActivateContext raffleID userID)
       (\<lambda>e. on_error (raffle_owner_errors @ [(RaffleE ErrRaffleNotDraft, conflict (errText e))]) e)
       (\<lambda>raffle. ret (okR raffle)))"

definition DiscordWebhookConfigured :: "Raffle \<Rightarrow> bool" where
  "DiscordWebhookConfigured r \<longleftrightarrow> RF_DiscordWebhookURL r \<noteq> None"

definition SetDiscordWebhookH :: "HttpLib \<Rightarrow> AccessClaims option \<Rightarrow> string \<Rightarrow> err + string option \<Rightarrow> (Raffle \<times> bool) response m" where
  "SetDiscordWebhookH h claims id_param json = of_raffle h claims id_param (\<lambda>raffleID userID.
     bindJSON h json (\<lambda>_. True) (\<lambda>body.
     case body of
       None \<Rightarrow> ret (badRequest ''discord_webhook_url is required (pass empty string to clear)'')
     | Some url \<Rightarrow> handle (SetDiscordWebhookContext raffleID userID url)
         (\<lambda>e. on_error [(RaffleE ErrRaffleNotFound, notFound (errText e)), (RaffleE ErrRaffleForbidden, forbidden (errText e)),
            (RaffleE ErrInvalidDiscordWebhookURL, badRequest (errText e))] e)
         (\<lambda>raffle. ret (okR (raffle, DiscordWebhookConfigured raffle)))))"

section \<open>The winner's claim\<close>

definition gone :: "string \<Rightarrow> 'd response" where
  "gone msg = refuse 410 msg"

definition GetClaimH :: "string \<Rightarrow> (RaffleDraw \<times> RaffleEntry option) response m" where
  "GetClaimH token = handle (GetDrawByTokenContext token)
     (on_error [(RaffleE ErrClaimNotFound, notFound ''claim not found''),
        (RaffleE ErrClaimTokenExpired, gone ''claim token has expired'')]) (\<lambda>draw. ret (okR draw))"

definition SubmitClaimH :: "HttpLib \<Rightarrow> AccessClaims option \<Rightarrow> string \<Rightarrow> err + ClaimInput \<Rightarrow> RaffleClaim response m" where
  "SubmitClaimH h claims token json = mustClaims claims (\<lambda>c.
     case H_parse h (AC_UserID c) of
       None \<Rightarrow> ret (unauthorized ''invalid user identity'')
     | Some userID \<Rightarrow>
         bindJSON h json (\<lambda>i. CN_RecipientName i \<noteq> [] \<and> CN_AddressLine1 i \<noteq> [] \<and> CN_City i \<noteq> []) (\<lambda>input.
         handle (SubmitClaimContext token userID input)
           (on_error [(RaffleE ErrClaimNotFound, notFound ''claim not found''),
              (RaffleE ErrClaimTokenExpired, gone ''claim token has expired''),
              (RaffleE ErrClaimForbidden, forbidden ''forbidden''),
              (RaffleE ErrClaimAlreadyDone, conflict ''claim already submitted'')])
           (\<lambda>claim. ret (okR claim))))"

section \<open>The import from Twitch\<close>

definition handle_loop :: "'a looping \<Rightarrow> (err \<Rightarrow> 'b m) \<Rightarrow> ('a \<Rightarrow> 'b m) \<Rightarrow> 'b looping" where
  "handle_loop x f g w = (case x w of
     None \<Rightarrow> None
   | Some (Inl e, w') \<Rightarrow> Some (f e w')
   | Some (Inr a, w') \<Rightarrow> Some (g a w'))"

definition returns :: "'a m \<Rightarrow> 'a looping" where
  "returns x w = Some (x w)"

definition snapshot_error :: "err \<Rightarrow> 'd response m" where
  "snapshot_error = on_error (raffle_owner_errors @
     [(RaffleE ErrTwitchTokenMissing, badRequest ''no twitch access token: streamer must log in via twitch''),
      (RaffleE ErrTwitchInsufficientScope, Refuse 403 ''twitch token lacks required scopes; streamer must re-authorize''
         [(''code'', ''twitch_reauth_required'')]),
      (RaffleE ErrUnsupportedRaffleSource, badRequest ''raffle source must be twitch_api to use snapshot sync'')])"

definition SnapshotH :: "HttpLib \<Rightarrow> RaffleServices \<Rightarrow> AccessClaims option \<Rightarrow> string \<Rightarrow> err + string \<Rightarrow>
    SyncFromTwitchResult response looping" where
  "SnapshotH h s claims id_param json = (case claims of
     None \<Rightarrow> returns (fail Panic)
   | Some c \<Rightarrow> (case H_parse h (AC_UserID c) of
       None \<Rightarrow> returns (ret (badRequest ''invalid user id''))
     | Some userID \<Rightarrow> (case H_parse h id_param of
         None \<Rightarrow> returns (ret (badRequest ''invalid raffle id''))
       | Some raffleID \<Rightarrow> (case json of
           Inl e \<Rightarrow> returns (ret (badRequest (errText e)))
         | Inr source \<Rightarrow>
             if source = [] then returns (ret (badRequest (H_bindError h)))
             else if source \<noteq> sourceText RaffleSourceTwitchAPI
             then returns (ret (badRequest ''unsupported source: must be twitch_api''))
             else handle_loop (SyncFromTwitchAPI s raffleID userID) snapshot_error (\<lambda>result. ret (okR result))))))"

section \<open>Prize tiers\<close>

definition CreatePrizeTierH :: "HttpLib \<Rightarrow> AccessClaims option \<Rightarrow> string \<Rightarrow> err + CreatePrizeTierInput \<Rightarrow> RafflePrizeTier response m" where
  "CreatePrizeTierH h claims id_param json = of_raffle h claims id_param (\<lambda>raffleID userID.
     bindJSON h json (\<lambda>_. True) (\<lambda>body.
     handle (CreatePrizeTierContext raffleID userID body)
       (on_error (raffle_owner_errors @ [(RaffleE ErrPrizeTierInvalidCount, badRequest ''winner_count must be at least 1'')]))
       (\<lambda>tier. ret (created tier))))"

definition ListPrizeTiersH :: "HttpLib \<Rightarrow> AccessClaims option \<Rightarrow> string \<Rightarrow> RafflePrizeTier list response m" where
  "ListPrizeTiersH h claims id_param = of_raffle h claims id_param (\<lambda>raffleID userID.
     handle (ListPrizeTiersContext raffleID userID) (on_error raffle_owner_errors) (\<lambda>tiers. ret (okR tiers)))"

definition tier_errors :: "(err \<times> 'd response) list" where
  "tier_errors = [(RaffleE ErrRaffleNotFound, notFound ''not found''), (RaffleE ErrPrizeTierNotFound, notFound ''not found''),
     (RaffleE ErrRaffleForbidden, forbidden ''forbidden'')]"

definition UpdatePrizeTierH :: "HttpLib \<Rightarrow> AccessClaims option \<Rightarrow> string \<Rightarrow> string \<Rightarrow> err + UpdatePrizeTierInput \<Rightarrow>
    RafflePrizeTier response m" where
  "UpdatePrizeTierH h claims id_param tier_param json = of_tier h claims id_param tier_param (\<lambda>raffleID tierID userID.
     bindJSON h json (\<lambda>_. True) (\<lambda>body.
     handle (UpdatePrizeTierContext raffleID tierID userID body)
       (on_error (tier_errors @ [(RaffleE ErrPrizeTierInvalidCount, badRequest ''invalid winner_count'')]))
       (\<lambda>tier. ret (okR tier))))"

definition DeletePrizeTierH :: "HttpLib \<Rightarrow> AccessClaims option \<Rightarrow> string \<Rightarrow> string \<Rightarrow> unit response m" where
  "DeletePrizeTierH h claims id_param tier_param = of_tier h claims id_param tier_param (\<lambda>raffleID tierID userID.
     handle (DeletePrizeTierContext raffleID tierID userID)
       (on_error (tier_errors @ [(RaffleE ErrPrizeTierHasDraws, conflict ''cannot delete a tier with existing draws'')]))
       (\<lambda>_. ret (okR ())))"

definition DrawFromTierH :: "HttpLib \<Rightarrow> bool \<Rightarrow> AccessClaims option \<Rightarrow> string \<Rightarrow> string \<Rightarrow> (DrawResult \<times> Job list) response m" where
  "DrawFromTierH h hasMailer claims id_param tier_param = of_tier h claims id_param tier_param (\<lambda>raffleID tierID userID.
     handle (DrawFromTierContext hasMailer raffleID tierID userID)
       (on_error (tier_errors @ [(RaffleE ErrRaffleNotActive, conflict ''raffle is not active''),
          (RaffleE ErrPrizeTierExhausted, conflict ''no more entries available''),
          (RaffleE ErrRaffleExhausted, conflict ''no more entries available'')]))
       (\<lambda>draw. ret (created draw)))"

section \<open>Who may join\<close>

text \<open>The errors of the owner with their own texts.\<close>

definition owner_errors :: "err \<Rightarrow> (err \<times> 'd response) list" where
  "owner_errors e = [(RaffleE ErrRaffleNotFound, notFound (errText e)), (RaffleE ErrRaffleForbidden, forbidden (errText e))]"

text \<open>A \<open>RaffleMode\<close> is a string in the code; \<open>raffle_mode\<close> reads the two that exist.\<close>

definition raffle_mode :: "string \<Rightarrow> RaffleMode option" where
  "raffle_mode s = (if s = ''public'' then Some RaffleModePublic
     else if s = ''subscribers_only'' then Some RaffleModeSubscribers else None)"

definition SetModeH :: "HttpLib \<Rightarrow> AccessClaims option \<Rightarrow> string \<Rightarrow> err + string \<Rightarrow> Raffle response m" where
  "SetModeH h claims id_param json = of_raffle h claims id_param (\<lambda>raffleID userID.
     bindJSON h json (\<lambda>s. s \<noteq> []) (\<lambda>s.
     case raffle_mode s of
       None \<Rightarrow> ret (badRequest (''mode must be '' @ [CHR 0x27] @ ''public'' @ [CHR 0x27] @ '' or '' @ [CHR 0x27] @
         ''subscribers_only'' @ [CHR 0x27]))
     | Some mode \<Rightarrow> handle (SetModeContext raffleID userID mode)
         (\<lambda>e. on_error (owner_errors e @ [(RaffleE ErrRaffleNotDraft, conflict (errText e))]) e)
         (\<lambda>raffle. ret (okR raffle))))"

definition SetEntryOpenH :: "HttpLib \<Rightarrow> AccessClaims option \<Rightarrow> string \<Rightarrow> err + bool option \<Rightarrow> Raffle response m" where
  "SetEntryOpenH h claims id_param json = of_raffle h claims id_param (\<lambda>raffleID userID.
     bindJSON h json (\<lambda>_. True) (\<lambda>body.
     case body of
       None \<Rightarrow> ret (badRequest ''entry_open is required'')
     | Some entryOpen \<Rightarrow> handle (SetEntryOpenContext raffleID userID entryOpen)
         (\<lambda>e. on_error (owner_errors e @ [(RaffleE ErrRaffleNotActive, conflict (errText e))]) e)
         (\<lambda>raffle. ret (okR raffle))))"

definition GetEntryStatsH :: "HttpLib \<Rightarrow> AccessClaims option \<Rightarrow> string \<Rightarrow> EntryStats response m" where
  "GetEntryStatsH h claims id_param = of_raffle h claims id_param (\<lambda>raffleID userID.
     handle (GetEntryStatsContext raffleID userID) (\<lambda>e. on_error (owner_errors e) e) (\<lambda>stats. ret (okR stats)))"

section \<open>Results and joining\<close>

record publicDrawView =
  PV_ID :: string
  PV_RaffleID :: string
  PV_DrawnAt :: string
  PV_EntryID :: string
  PV_TwitchLogin :: string
  PV_DisplayName :: string

text \<open>
  The public view has neither the token nor the user of a draw. An entry that was not loaded is the
  zero value. \<open>format\<close> is the formatting of the time in UTC.
\<close>

definition public_view :: "(time \<Rightarrow> string) \<Rightarrow> RaffleDraw \<times> RaffleEntry option \<Rightarrow> publicDrawView" where
  "public_view format x = (case x of (d, entry) \<Rightarrow>
     \<lparr>PV_ID = uuidText (RD_ID d), PV_RaffleID = uuidText (RD_RaffleID d), PV_DrawnAt = format (RD_DrawnAt d),
      PV_EntryID = uuidText (case entry of None \<Rightarrow> 0 | Some e \<Rightarrow> RE_ID e),
      PV_TwitchLogin = (case entry of None \<Rightarrow> [] | Some e \<Rightarrow> RE_TwitchLogin e),
      PV_DisplayName = (case entry of None \<Rightarrow> [] | Some e \<Rightarrow> RE_DisplayName e)\<rparr>)"

definition GetResultH :: "HttpLib \<Rightarrow> (time \<Rightarrow> string) \<Rightarrow> string \<Rightarrow> publicDrawView list response m" where
  "GetResultH h format id_param = parseID h id_param ''invalid raffle id'' (\<lambda>raffleID.
     orInternal (GetDrawsByRafflePublicContext raffleID) (\<lambda>draws. ret (okR (map (public_view format) draws))))"

definition RaffleJoinH :: "HttpLib \<Rightarrow> ExtensionService option \<Rightarrow> RaffleServices \<Rightarrow> string \<Rightarrow> err + string \<Rightarrow>
    RaffleEntry response m" where
  "RaffleJoinH h extSvc s id_param json = parseID h id_param ''invalid raffle id'' (\<lambda>raffleID.
     bindJSON h json (\<lambda>jwt. jwt \<noteq> []) (\<lambda>jwt.
     case extSvc of
       None \<Rightarrow> ret internal
     | Some ext \<Rightarrow> handle (VerifyExtJWT ext jwt) (\<lambda>e. ret (unauthorized ''invalid extension jwt'')) (\<lambda>claims.
         handle (JoinRaffle s raffleID (EC_UserID claims))
           (\<lambda>e. on_error [(RaffleE ErrEntryNotOpen, badRequest ''raffle entry not open''),
              (RaffleE ErrAlreadyJoined, conflict ''already joined''),
              (RaffleE ErrNotSubscriber, Refuse 403 ''not a subscriber'' [(''code'', ''not_subscriber'')]),
              (RaffleE ErrRaffleNotFound, notFound ''not found''), (RaffleE ErrViewerNotLinked, notFound ''not found''),
              (RaffleE ErrTwitchTokenMissing, badRequest (errText e)),
              (RaffleE ErrTwitchInsufficientScope, badRequest (errText e))] e)
           (\<lambda>entry. ret (okR entry)))))"

end
