(* ===== verification/HandlersAuth.thy ===== *)
theory HandlersAuth
  imports Http EmailAuth Claims
begin

text \<open>
  \<^verbatim>\<open>handlers/auth_handler.go\<close>: registration, login, the refresh cookie, the OAuth round trips with their
  state cookie, which both callbacks are guarded by, and the check of the target a login may redirect to. An answer comes with the cookies it sets and
  the users that are sent a verification mail after it.
\<close>

section \<open>Cookies and answers\<close>

datatype SameSite = SameSiteLaxMode | SameSiteNoneMode

record cookie =
  CK_Name :: string
  CK_Value :: string
  CK_MaxAge :: int
  CK_Path :: string
  CK_SameSite :: SameSite
  CK_Secure :: bool
  CK_HttpOnly :: bool

datatype 'd answer = Answer "'d response" | Redirect string

record 'd web =
  WB_Cookies :: "cookie list"
  WB_Mails :: "uuid list"
  WB_Answer :: "'d answer"

definition plain :: "'d response \<Rightarrow> 'd web" where
  "plain r = \<lparr>WB_Cookies = [], WB_Mails = [], WB_Answer = Answer r\<rparr>"

definition with_cookies :: "cookie list \<Rightarrow> 'd response \<Rightarrow> 'd web" where
  "with_cookies cs r = \<lparr>WB_Cookies = cs, WB_Mails = [], WB_Answer = Answer r\<rparr>"

definition redirect :: "cookie list \<Rightarrow> string \<Rightarrow> 'd web" where
  "redirect cs url = \<lparr>WB_Cookies = cs, WB_Mails = [], WB_Answer = Redirect url\<rparr>"

definition bindWeb :: "HttpLib \<Rightarrow> err + 'b \<Rightarrow> ('b \<Rightarrow> bool) \<Rightarrow> ('b \<Rightarrow> 'd web m) \<Rightarrow> 'd web m" where
  "bindWeb h json valid k = (case json of
     Inl e \<Rightarrow> ret (plain (badRequest (errText e)))
   | Inr body \<Rightarrow> if valid body then k body else ret (plain (badRequest (H_bindError h))))"

text \<open>
  The handler. \<open>AH_twitchURL\<close> and \<open>AH_googleURL\<close> are the addresses of the OAuth clients for a state,
  \<open>AH_urlString\<close> prints a scheme and a host as a URL, \<open>AH_schemeHost\<close> reads both back and
  \<open>AH_registrable\<close> is the public suffix list.
\<close>

record WebConfig =
  CF_Env :: string
  CF_FrontendURL :: string
  CF_RefreshTTL :: int

record AuthHandler =
  AH_auth :: AuthService
  AH_cfg :: "WebConfig option"
  AH_emailAuth :: "EmailAuthService option"
  AH_twitchURL :: "string \<Rightarrow> string"
  AH_googleURL :: "string \<Rightarrow> string"
  AH_urlString :: "string \<Rightarrow> string \<Rightarrow> string"
  AH_schemeHost :: "string \<Rightarrow> (string \<times> string) option"
  AH_registrable :: "string \<Rightarrow> string option"
  AH_authority :: "string \<Rightarrow> string option"

text \<open>What the site of a request is computed from.\<close>

record peer =
  PE_ForwardedProto :: string
  PE_ForwardedHost :: string
  PE_URL :: "(string \<times> string) option"
  PE_TLS :: bool
  PE_Host :: string

section \<open>The site of a cookie\<close>

definition requestScheme :: "peer \<Rightarrow> string" where
  "requestScheme r =
     (let proto = TrimSpace (PE_ForwardedProto r) in
      if proto \<noteq> [] then ToLower proto
      else (case PE_URL r of
          Some (scheme, _) \<Rightarrow> if scheme \<noteq> [] then ToLower scheme else if PE_TLS r then ''https'' else ''http''
        | None \<Rightarrow> if PE_TLS r then ''https'' else ''http''))"

definition requestHost :: "peer \<Rightarrow> string" where
  "requestHost r =
     (let forwarded = TrimSpace (PE_ForwardedHost r); host = TrimSpace (PE_Host r) in
      if forwarded \<noteq> [] then forwarded
      else if host \<noteq> [] then host
      else (case PE_URL r of Some (_, h) \<Rightarrow> h | None \<Rightarrow> []))"

definition schemefulSite :: "AuthHandler \<Rightarrow> string \<Rightarrow> string option" where
  "schemefulSite a rawURL = (case AH_schemeHost a rawURL of
     None \<Rightarrow> None
   | Some (scheme, hostname) \<Rightarrow>
       if scheme = [] \<or> hostname = [] then None
       else
         let host = ToLower hostname;
             site = (case AH_registrable a host of Some d \<Rightarrow> d | None \<Rightarrow> host)
         in Some (ToLower scheme @ ''://'' @ site))"

definition refreshCookieMaxAge :: "AuthHandler \<Rightarrow> int" where
  "refreshCookieMaxAge a = (case AH_cfg a of
     None \<Rightarrow> 0
   | Some cfg \<Rightarrow> if CF_RefreshTTL cfg \<le> 0 then 0 else CF_RefreshTTL cfg sdiv second)"

definition refreshCookieSecure :: "AuthHandler \<Rightarrow> bool" where
  "refreshCookieSecure a = (case AH_cfg a of
     None \<Rightarrow> False
   | Some cfg \<Rightarrow> let env = ToLower (CF_Env cfg) in env = ''production'' \<or> env = ''prod'')"

definition refreshCookieSameSite :: "AuthHandler \<Rightarrow> peer \<Rightarrow> SameSite" where
  "refreshCookieSameSite a r = (case AH_cfg a of
     None \<Rightarrow> SameSiteLaxMode
   | Some cfg \<Rightarrow>
       if \<not> refreshCookieSecure a \<or> CF_FrontendURL cfg = [] then SameSiteLaxMode
       else (case schemefulSite a (CF_FrontendURL cfg) of
           None \<Rightarrow> SameSiteLaxMode
         | Some frontendSite \<Rightarrow> (case schemefulSite a (AH_urlString a (requestScheme r) (requestHost r)) of
               None \<Rightarrow> SameSiteLaxMode
             | Some requestSite \<Rightarrow> if frontendSite \<noteq> requestSite then SameSiteNoneMode else SameSiteLaxMode)))"

text \<open>The cookies: the refresh token, the state of an OAuth login and the target after it.\<close>

definition refreshCookie :: "AuthHandler \<Rightarrow> peer \<Rightarrow> string \<Rightarrow> int \<Rightarrow> cookie" where
  "refreshCookie a r v age = \<lparr>CK_Name = ''refresh_token'', CK_Value = v, CK_MaxAge = age, CK_Path = ''/api/v1/auth'',
     CK_SameSite = refreshCookieSameSite a r, CK_Secure = refreshCookieSecure a, CK_HttpOnly = True\<rparr>"

definition setRefreshCookie :: "AuthHandler \<Rightarrow> peer \<Rightarrow> string \<Rightarrow> cookie" where
  "setRefreshCookie a r refreshToken = refreshCookie a r refreshToken (refreshCookieMaxAge a)"

definition clearRefreshCookie :: "AuthHandler \<Rightarrow> peer \<Rightarrow> cookie" where
  "clearRefreshCookie a r = refreshCookie a r [] (- 1)"

definition oauthCookie :: "AuthHandler \<Rightarrow> string \<Rightarrow> string \<Rightarrow> int \<Rightarrow> cookie" where
  "oauthCookie a name v age = \<lparr>CK_Name = name, CK_Value = v, CK_MaxAge = age, CK_Path = ''/'',
     CK_SameSite = SameSiteLaxMode, CK_Secure = refreshCookieSecure a, CK_HttpOnly = True\<rparr>"

definition setOAuthStateCookie :: "AuthHandler \<Rightarrow> string \<Rightarrow> cookie" where
  "setOAuthStateCookie a state = oauthCookie a ''oauth_state'' state 300"

definition clearOAuthStateCookie :: "AuthHandler \<Rightarrow> cookie" where
  "clearOAuthStateCookie a = oauthCookie a ''oauth_state'' [] (- 1)"

definition setOAuthRedirectCookie :: "AuthHandler \<Rightarrow> string \<Rightarrow> cookie" where
  "setOAuthRedirectCookie a redirectTo = oauthCookie a ''oauth_redirect'' redirectTo 300"

definition clearOAuthRedirectCookie :: "AuthHandler \<Rightarrow> cookie" where
  "clearOAuthRedirectCookie a = oauthCookie a ''oauth_redirect'' [] (- 1)"

section \<open>The target of a redirect\<close>

text \<open>\<^verbatim>\<open>url.Parse\<close> of the Go library; \<open>authority\<close> is its reading of the part between \<^verbatim>\<open>//\<close> and the path.\<close>

fun unescape :: "bool \<Rightarrow> string \<Rightarrow> string option" where
  "unescape in_query [] = Some []"
| "unescape in_query (c # s) =
     (if c = CHR ''%'' then (case s of
          a # b # t \<Rightarrow> (case (hex_value a, hex_value b) of
              (Some x, Some y) \<Rightarrow> map_option (\<lambda>u. char_of (16 * x + y) # u) (unescape in_query t)
            | _ \<Rightarrow> None)
        | _ \<Rightarrow> None)
      else map_option (\<lambda>u. (if in_query \<and> c = CHR ''+'' then CHR '' '' else c) # u) (unescape in_query s))"

text \<open>\<open>strings.Cut\<close> at a character.\<close>

definition cut :: "char \<Rightarrow> string \<Rightarrow> string \<times> string" where
  "cut c s = (takeWhile (\<lambda>x. x \<noteq> c) s, drop 1 (dropWhile (\<lambda>x. x \<noteq> c) s))"

definition scheme_char :: "char \<Rightarrow> bool" where
  "scheme_char c \<longleftrightarrow> cont 97 122 c \<or> cont 65 90 c \<or> cont 48 57 c \<or> c \<in> set ''+-.''"

definition getScheme :: "string \<Rightarrow> (string \<times> string) option" where
  "getScheme rawURL =
     (let i = length (takeWhile scheme_char rawURL) in
      if i < length rawURL \<and> rawURL ! i = CHR '':'' then
        if i = 0 then None
        else if cont 97 122 (hd rawURL) \<or> cont 65 90 (hd rawURL) then Some (take i rawURL, drop (i + 1) rawURL)
        else Some ([], rawURL)
      else Some ([], rawURL))"

record URL =
  UR_Scheme :: string
  UR_Opaque :: string
  UR_Host :: string
  UR_Path :: string
  UR_RawQuery :: string
  UR_Fragment :: string

definition stringContainsCTLByte :: "string \<Rightarrow> bool" where
  "stringContainsCTLByte s \<longleftrightarrow> list_ex (\<lambda>c. cont 0 31 c \<or> cont 127 127 c) s"

definition parse_path :: "(string \<Rightarrow> string option) \<Rightarrow> string \<Rightarrow> string \<Rightarrow> string \<Rightarrow> URL option" where
  "parse_path authority scheme rest rawQuery =
     (if \<not> HasPrefix rest ''/'' \<and> scheme \<noteq> [] then
        Some \<lparr>UR_Scheme = scheme, UR_Opaque = rest, UR_Host = [], UR_Path = [], UR_RawQuery = rawQuery, UR_Fragment = []\<rparr>
      else if \<not> HasPrefix rest ''/'' \<and> CHR '':'' \<in> set (fst (cut CHR ''/'' rest)) then None
      else
        let is_authority = (scheme \<noteq> [] \<or> \<not> HasPrefix rest ''///'') \<and> HasPrefix rest ''//'';
            auth = (if is_authority then takeWhile (\<lambda>c. c \<noteq> CHR ''/'') (drop 2 rest) else []);
            rest' = (if is_authority then dropWhile (\<lambda>c. c \<noteq> CHR ''/'') (drop 2 rest) else rest)
        in (case (if is_authority then authority auth else Some [], unescape False rest') of
            (Some host, Some path) \<Rightarrow> Some \<lparr>UR_Scheme = scheme, UR_Opaque = [], UR_Host = host, UR_Path = path,
               UR_RawQuery = rawQuery, UR_Fragment = []\<rparr>
          | _ \<Rightarrow> None))"

definition parse_url :: "(string \<Rightarrow> string option) \<Rightarrow> string \<Rightarrow> URL option" where
  "parse_url authority rawURL =
     (if stringContainsCTLByte rawURL then None
      else if rawURL = ''*'' then
        Some \<lparr>UR_Scheme = [], UR_Opaque = [], UR_Host = [], UR_Path = ''*'', UR_RawQuery = [], UR_Fragment = []\<rparr>
      else (case getScheme rawURL of
          None \<Rightarrow> None
        | Some (scheme, rest) \<Rightarrow> (case cut CHR ''?'' rest of (rest', rawQuery) \<Rightarrow>
            parse_path authority (ToLower scheme) rest' rawQuery)))"

definition Parse :: "(string \<Rightarrow> string option) \<Rightarrow> string \<Rightarrow> URL option" where
  "Parse authority rawURL = (case cut CHR ''#'' rawURL of (u, frag) \<Rightarrow>
     (case parse_url authority u of
        None \<Rightarrow> None
      | Some url \<Rightarrow> if frag = [] then Some url
          else map_option (\<lambda>f. url\<lparr>UR_Fragment := f\<rparr>) (unescape False frag)))"

definition hasUnsafeRedirectChar :: "string \<Rightarrow> bool" where
  "hasUnsafeRedirectChar s \<longleftrightarrow> CHR 0x5C \<in> set s \<or> list_ex (\<lambda>c. cont 0 31 c \<or> cont 127 127 c) s"

definition isValidRedirectTo :: "(string \<Rightarrow> string option) \<Rightarrow> string \<Rightarrow> bool" where
  "isValidRedirectTo authority s =
     (if s = [] \<or> HasPrefix s ''//'' \<or> hasUnsafeRedirectChar s then False
      else (case Parse authority s of
          None \<Rightarrow> False
        | Some parsed \<Rightarrow>
            if UR_Scheme parsed \<noteq> [] \<or> UR_Host parsed \<noteq> [] \<or> UR_Opaque parsed \<noteq> [] then False
            else if UR_Fragment parsed \<noteq> [] \<or> hasUnsafeRedirectChar (UR_Path parsed) then False
            else if UR_RawQuery parsed \<noteq> [] \<and> (case unescape True (UR_RawQuery parsed) of
                None \<Rightarrow> True | Some decodedQuery \<Rightarrow> hasUnsafeRedirectChar decodedQuery) then False
            else HasPrefix (UR_Path parsed) ''/'' \<and> \<not> HasPrefix (UR_Path parsed) ''//''))"

section \<open>Registration and login\<close>

definition RegisterH :: "HttpLib \<Rightarrow> AuthHandler \<Rightarrow> peer \<Rightarrow> err + RegisterInput \<Rightarrow> (User \<times> BrowserTokenPair) web m" where
  "RegisterH h a r json = bindWeb h json (\<lambda>i. RI_Username i \<noteq> [] \<and> 3 \<le> RuneCountInString (RI_Username i) \<and>
       RuneCountInString (RI_Username i) \<le> 50 \<and> RI_Email i \<noteq> [] \<and> H_email h (RI_Email i) \<and>
       RI_Password i \<noteq> [] \<and> 8 \<le> RuneCountInString (RI_Password i)) (\<lambda>input.
     handle (RegisterContext (AH_auth a) input)
       (\<lambda>e. ret (plain (matching (=) [(AuthE ErrEmailExists, conflict ''email already registered''),
          (AuthE ErrUsernameExists, conflict ''username already taken'')] e)))
       (\<lambda>(user, tokens). ret \<lparr>WB_Cookies = [setRefreshCookie a r (TP_RefreshToken tokens)],
          WB_Mails = (if AH_emailAuth a \<noteq> None then [U_ID user] else []),
          WB_Answer = Answer (created (user, browserTokenPair tokens))\<rparr>))"

record LoginInput =
  LI_Email :: string
  LI_Password :: string

definition LoginH :: "HttpLib \<Rightarrow> AuthHandler \<Rightarrow> peer \<Rightarrow> err + LoginInput \<Rightarrow> (User \<times> BrowserTokenPair) web m" where
  "LoginH h a r json = bindWeb h json (\<lambda>i. LI_Email i \<noteq> [] \<and> H_email h (LI_Email i) \<and> LI_Password i \<noteq> []) (\<lambda>input.
     handle (LoginContext (AH_auth a) (LI_Email input) (LI_Password input))
       (\<lambda>e. ret (plain (matching errors_is [(AuthE ErrInvalidCredentials, unauthorized ''invalid email or password'')] e)))
       (\<lambda>(user, tokens). ret (with_cookies [setRefreshCookie a r (TP_RefreshToken tokens)] (okR (user, browserTokenPair tokens)))))"

text \<open>The cookie, and otherwise the body.\<close>

definition refreshTokenFromRequest :: "string option \<Rightarrow> err + string \<Rightarrow> err + string" where
  "refreshTokenFromRequest cookie json =
     (let from_body = (case json of
          Inl e \<Rightarrow> Inl (Errorf ''refresh token is required'')
        | Inr token \<Rightarrow> if token = [] then Inl (Errorf ''refresh token is required'') else Inr token)
      in case cookie of
          None \<Rightarrow> from_body
        | Some token \<Rightarrow> if token \<noteq> [] then Inr token else from_body)"

definition RefreshH :: "AuthHandler \<Rightarrow> peer \<Rightarrow> string option \<Rightarrow> err + string \<Rightarrow> BrowserTokenPair web m" where
  "RefreshH a r cookie json = (case refreshTokenFromRequest cookie json of
     Inl e \<Rightarrow> ret (plain (badRequest (errText e)))
   | Inr refreshToken \<Rightarrow>
       handle (RefreshContext (AH_auth a) refreshToken)
         (\<lambda>e. ret (plain (matching errors_is [(AuthE ErrInvalidToken, unauthorized ''invalid or expired refresh token''),
            (AuthE ErrUserNotFound, unauthorized ''invalid or expired refresh token'')] e)))
         (\<lambda>tokens. ret (with_cookies [setRefreshCookie a r (TP_RefreshToken tokens)] (okR (browserTokenPair tokens)))))"

text \<open>A failing logout is not reported.\<close>

definition LogoutH :: "AuthHandler \<Rightarrow> peer \<Rightarrow> string option \<Rightarrow> err + string \<Rightarrow> string web m" where
  "LogoutH a r cookie json = (case refreshTokenFromRequest cookie json of
     Inl e \<Rightarrow> ret (plain (badRequest (errText e)))
   | Inr refreshToken \<Rightarrow>
       let answer = ret (with_cookies [clearRefreshCookie a r] (okR ''logged out''))
       in handle (LogoutContext refreshToken) (\<lambda>_. answer) (\<lambda>_. answer))"

section \<open>OAuth\<close>

text \<open>The error of \<open>rand.Read\<close> is not looked at.\<close>

definition oauthState :: "string m" where
  "oauthState w = (Inr (hexDigits 32 (env_rand (w_env w) (w_tick w))), tick w)"

definition TwitchLoginH :: "AuthHandler \<Rightarrow> string option \<Rightarrow> unit web m" where
  "TwitchLoginH a redirect_to =
     (if (case redirect_to of None \<Rightarrow> False | Some s \<Rightarrow> \<not> isValidRedirectTo (AH_authority a) s)
      then ret (plain (badRequest ''invalid redirect_to parameter''))
      else bnd oauthState (\<lambda>state.
        ret (redirect [case redirect_to of None \<Rightarrow> clearOAuthRedirectCookie a | Some s \<Rightarrow> setOAuthRedirectCookie a s,
            setOAuthStateCookie a state] (AH_twitchURL a state))))"

definition GoogleLoginH :: "AuthHandler \<Rightarrow> unit web m" where
  "GoogleLoginH a = bnd oauthState (\<lambda>state. ret (redirect [setOAuthStateCookie a state] (AH_googleURL a state)))"

text \<open>The cookie and the \<open>state\<close> of the query; a parameter that is missing is empty.\<close>

definition validateOAuthState :: "string option \<Rightarrow> string \<Rightarrow> bool" where
  "validateOAuthState cookie state = (case cookie of None \<Rightarrow> False | Some v \<Rightarrow> v = state)"

definition handleOAuthCallbackError :: "cookie list \<Rightarrow> err \<Rightarrow> 'd web m" where
  "handleOAuthCallbackError cs e = ret (with_cookies cs
     (matching errors_is [(AuthE ErrEmailExists, conflict ''email already registered'')] e))"

definition TwitchCallbackH :: "AuthHandler \<Rightarrow> peer \<Rightarrow> string option \<Rightarrow> string \<Rightarrow> string option \<Rightarrow> string \<Rightarrow>
    (User \<times> BrowserTokenPair) web m" where
  "TwitchCallbackH a r state_cookie state redirect_cookie code =
     (let cleared = [clearOAuthStateCookie a, clearOAuthRedirectCookie a];
          redirectTo = (case redirect_cookie of None \<Rightarrow> [] | Some s \<Rightarrow> s) in
      if \<not> validateOAuthState state_cookie state then ret (with_cookies cleared (badRequest ''invalid state parameter''))
      else handle (TwitchCallback (AH_auth a) code) (handleOAuthCallbackError cleared) (\<lambda>(user, tokens).
        let cs = cleared @ [setRefreshCookie a r (TP_RefreshToken tokens)] in
        if redirectTo \<noteq> [] \<and> isValidRedirectTo (AH_authority a) redirectTo then
          (case AH_cfg a of
             None \<Rightarrow> fail Panic
           | Some cfg \<Rightarrow> ret (redirect cs (TrimRightSlash (CF_FrontendURL cfg) @ redirectTo)))
        else ret (with_cookies cs (okR (user, browserTokenPair tokens)))))"

definition GoogleCallbackH :: "AuthHandler \<Rightarrow> peer \<Rightarrow> string option \<Rightarrow> string \<Rightarrow> string \<Rightarrow>
    (User \<times> BrowserTokenPair) web m" where
  "GoogleCallbackH a r state_cookie state code =
     (let cleared = [clearOAuthStateCookie a] in
      if \<not> validateOAuthState state_cookie state then ret (with_cookies cleared (badRequest ''invalid state parameter''))
      else handle (GoogleCallback (AH_auth a) code) (handleOAuthCallbackError cleared) (\<lambda>(user, tokens).
        ret (with_cookies (cleared @ [setRefreshCookie a r (TP_RefreshToken tokens)]) (okR (user, browserTokenPair tokens)))))"

section \<open>Wallets and providers\<close>

definition Web3NonceH :: "HttpLib \<Rightarrow> AuthHandler \<Rightarrow> err + string \<Rightarrow> (string \<times> string) response m" where
  "Web3NonceH h a json = bindJSON h json (\<lambda>address. address \<noteq> []) (\<lambda>address.
     orInternal (Web3NonceContext (AH_auth a) address) (\<lambda>(nonce, issuedAt).
     ret (okR (nonce, LB_rfc3339 (AU_lib (AH_auth a)) issuedAt))))"

definition Web3VerifyH :: "HttpLib \<Rightarrow> AuthHandler \<Rightarrow> peer \<Rightarrow> err + Web3VerifyInput \<Rightarrow> (User \<times> BrowserTokenPair) web m" where
  "Web3VerifyH h a r json = bindWeb h json (\<lambda>i. VI_Address i \<noteq> [] \<and> VI_Signature i \<noteq> [] \<and> VI_Nonce i \<noteq> []) (\<lambda>input.
     handle (Web3VerifyContext (AH_auth a) input)
       (\<lambda>e. ret (plain (matching (=) [(AuthE ErrInvalidNonce, unauthorized ''invalid or expired nonce''),
          (AuthE ErrInvalidSignature, unauthorized ''invalid wallet signature'')] e)))
       (\<lambda>(user, tokens). ret (with_cookies [setRefreshCookie a r (TP_RefreshToken tokens)] (okR (user, browserTokenPair tokens)))))"

definition provider_named :: "string \<Rightarrow> ProviderType option" where
  "provider_named s = map_of [(''twitch'', ProviderTwitch), (''google'', ProviderGoogle), (''web3'', ProviderWeb3),
     (''email'', ProviderEmail)] s"

definition UnlinkProviderH :: "HttpLib \<Rightarrow> AccessClaims option \<Rightarrow> string \<Rightarrow> string response m" where
  "UnlinkProviderH h claims provider = me h claims (\<lambda>userID.
     handle (UnlinkProviderContext userID (provider_named provider))
       (on_exact [(AuthE ErrLastProvider, badRequest ''cannot unlink the only login method'')])
       (\<lambda>_. ret (okR ''provider unlinked'')))"

section \<open>What the handlers guarantee\<close>

lemma cut_fst_hd: "HasPrefix (fst (cut c s)) p \<Longrightarrow> HasPrefix s p"
  unfolding HasPrefix_iff cut_def by (metis append.assoc fst_conv takeWhile_dropWhile_id)

lemma unescape_first:
  "unescape False s = Some t \<Longrightarrow> HasPrefix t ''/'' \<Longrightarrow> HasPrefix s ''/'' \<or> HasPrefix s ''%2f'' \<or> HasPrefix s ''%2F''"
proof (cases s)
  case (Cons c r)
  assume u: "unescape False s = Some t" and p: "HasPrefix t ''/''"
  show ?thesis
  proof (cases "c = CHR ''%''")
    case False
    with u p Cons show ?thesis by (auto simp: HasPrefix_iff)
  next
    case True
    with u Cons obtain a b r' x y v where r: "r = a # b # r'" and x: "hex_value a = Some x" "hex_value b = Some y"
      and t: "t = char_of (16 * x + y) # v"
      by (auto split: list.splits option.splits)
    from t p have "(char_of (16 * x + y) :: char) = CHR ''/''" by (simp add: HasPrefix_iff)
    from arg_cong [OF this, of "of_char :: char \<Rightarrow> nat"] have m: "(16 * x + y) mod 256 = 47" by simp
    have "x < 16" "y < 16" using x by (auto simp: hex_value_def cont_def split: if_splits)
    then have "16 * x + y < 256" by linarith
    with m have "16 * x + y = 47" by simp
    with \<open>y < 16\<close> have x2: "x = 2" by linarith
    with \<open>16 * x + y = 47\<close> have xy: "x = 2" "y = 15" by simp_all
    have "of_char a = (50 :: nat)" "of_char b = (102 :: nat) \<or> of_char b = (70 :: nat)"
      using x xy by (auto simp: hex_value_def cont_def split: if_splits)
    then have "a = CHR ''2''" "b = CHR ''f'' \<or> b = CHR ''F''"
      using of_char_eq_iff [of a "CHR ''2''", where ?'a = nat] of_char_eq_iff [of b "CHR ''f''", where ?'a = nat]
        of_char_eq_iff [of b "CHR ''F''", where ?'a = nat] by simp_all
    with r Cons True show ?thesis by (auto simp: HasPrefix_iff)
  qed
qed simp

lemma Parse_path:
  assumes "Parse authority s = Some url" "UR_Scheme url = []" "UR_Host url = []" "\<not> HasPrefix s ''//''"
    and "HasPrefix (UR_Path url) ''/''"
  shows "\<exists>raw rest. s = raw @ rest \<and> unescape False raw = Some (UR_Path url)"
proof -
  obtain u frag where c: "cut CHR ''#'' s = (u, frag)" by fastforce
  obtain fraglit where s: "s = u @ fraglit" using c by (metis cut_def fst_conv takeWhile_dropWhile_id)
  from assms(1) c obtain url0 where p: "parse_url authority u = Some url0" "UR_Scheme url0 = UR_Scheme url"
    "UR_Path url0 = UR_Path url" by (auto simp: Parse_def split: option.splits if_splits)
  from p(3) assms(5) have "u \<noteq> ''*''" using p(1) by (auto simp: parse_url_def HasPrefix_iff split: if_splits)
  with p obtain scheme rest rest' q where g: "getScheme u = Some (scheme, rest)" "cut CHR ''?'' rest = (rest', q)"
    "parse_path authority (ToLower scheme) rest' q = Some url0"
    by (auto simp: parse_url_def split: option.splits if_splits prod.splits)
  from g(3) p(2) assms(2) have scheme: "scheme = []"
    by (auto simp: parse_path_def Let_def ToLower_def split: if_splits option.splits)
  with g(1) have rest: "rest = u" by (auto simp: getScheme_def Let_def split: if_splits)
  obtain more where u: "u = rest' @ more" using g(2) rest by (metis cut_def fst_conv takeWhile_dropWhile_id)
  from assms(4) s u have "\<not> HasPrefix rest' ''//''" by (auto simp: HasPrefix_iff)
  with g(3) scheme have "unescape False rest' = Some (UR_Path url0)"
    by (auto simp: parse_path_def Let_def ToLower_def split: if_splits option.splits)
  with s u p(3) show ?thesis by auto
qed

text \<open>A target that is accepted has no backslash and no control character, its decoded path starts with
  one slash and not with two, and so a target that starts with a slash stays on the host it is appended
  to. Only the decoded path is looked at: the slash may also be the escape \<^verbatim>\<open>%2F\<close>.\<close>

theorem isValidRedirectTo_local:
  assumes "isValidRedirectTo authority s"
  shows "\<not> hasUnsafeRedirectChar s \<and>
    (HasPrefix s ''%2f'' \<or> HasPrefix s ''%2F'' \<or>
     (\<exists>t. s = CHR ''/'' # t \<and> (t = [] \<or> hd t \<noteq> CHR ''/'' \<and> hd t \<noteq> CHR 0x5C)))"
proof -
  from assms obtain url where s: "\<not> HasPrefix s ''//''" "\<not> hasUnsafeRedirectChar s" and p: "Parse authority s = Some url"
    "UR_Scheme url = []" "UR_Host url = []" "HasPrefix (UR_Path url) ''/''"
    by (auto simp: isValidRedirectTo_def split: if_splits option.splits)
  from Parse_path [OF p(1-3) s(1) p(4)] obtain raw rest where "s = raw @ rest" "unescape False raw = Some (UR_Path url)" by blast
  with unescape_first [OF _ p(4)] have "HasPrefix s ''/'' \<or> HasPrefix s ''%2f'' \<or> HasPrefix s ''%2F''"
    by (fastforce simp: HasPrefix_iff)
  moreover have "t = [] \<or> hd t \<noteq> CHR ''/'' \<and> hd t \<noteq> CHR 0x5C" if "s = CHR ''/'' # t" for t
    using that s by (cases t) (auto simp: HasPrefix_iff hasUnsafeRedirectChar_def)
  ultimately show ?thesis using s(2) by (auto simp: HasPrefix_iff)
qed

theorem isValidRedirectTo_local_witness:
  "isValidRedirectTo (\<lambda>a. None) ''/a?b=1'' \<and> \<not> hasUnsafeRedirectChar ''/a?b=1'' \<and> \<not> isValidRedirectTo (\<lambda>a. None) ''//a''"
proof -
  have "isValidRedirectTo (\<lambda>a. None) ''/a?b=1''" "\<not> isValidRedirectTo (\<lambda>a. None) ''//a''" by code_simp+
  with isValidRedirectTo_local [OF this(1)] show ?thesis by simp
qed

text \<open>The target \<^verbatim>\<open>%2F@host\<close> is accepted: the login redirects with it in the cookie, and appended to the front
  end's address it makes that address the user part of another host.\<close>

theorem redirect_escaped_slash:
  "(\<exists>w'. TwitchLoginH a (Some ''%2F@evil.example'') w =
     (Inr (redirect [setOAuthRedirectCookie a ''%2F@evil.example'', setOAuthStateCookie a (hexDigits 32 (env_rand (w_env w) (w_tick w)))]
        (AH_twitchURL a (hexDigits 32 (env_rand (w_env w) (w_tick w))))), w')) \<and>
   TrimRightSlash ''https://app.example/'' @ ''%2F@evil.example'' = ''https://app.example%2F@evil.example''"
proof -
  have "isValidRedirectTo authority ''%2F@evil.example''" for authority by code_simp
  then show ?thesis by (simp add: TwitchLoginH_def oauthState_def bnd_def ret_def)
qed

lemma stateless_callback:
  assumes "state_cookie \<noteq> Some state"
  shows "TwitchCallbackH a r state_cookie state redirect_cookie code w =
      (Inr (with_cookies [clearOAuthStateCookie a, clearOAuthRedirectCookie a] (badRequest ''invalid state parameter'')), w)"
    and "GoogleCallbackH a r state_cookie state code w =
      (Inr (with_cookies [clearOAuthStateCookie a] (badRequest ''invalid state parameter'')), w)"
  using assms by (auto simp: TwitchCallbackH_def GoogleCallbackH_def validateOAuthState_def Let_def ret_def split: option.splits)

text \<open>The ways a callback with the right state ends.\<close>

lemma TwitchCallbackH_cases:
  assumes "TwitchCallbackH a r (Some state) state redirect_cookie code w = (Inr out, w')"
  shows "(\<exists>resp. out = with_cookies [clearOAuthStateCookie a, clearOAuthRedirectCookie a] resp) \<or>
    (\<exists>u tokens. TwitchCallback (AH_auth a) code w = (Inr (u, tokens), w') \<and>
      WB_Cookies out = [clearOAuthStateCookie a, clearOAuthRedirectCookie a, setRefreshCookie a r (TP_RefreshToken tokens)] \<and>
      (\<forall>url. WB_Answer out = Redirect url \<longrightarrow> (\<exists>cfg t. AH_cfg a = Some cfg \<and> redirect_cookie = Some t \<and>
         isValidRedirectTo (AH_authority a) t \<and> url = TrimRightSlash (CF_FrontendURL cfg) @ t)))"
proof (cases "TwitchCallback (AH_auth a) code w")
  case (Pair x v)
  with assms show ?thesis
    by (cases x) (auto simp: TwitchCallbackH_def validateOAuthState_def Let_def handle_def ret_def fail_def with_cookies_def redirect_def
      handleOAuthCallbackError_def split: option.splits if_splits prod.splits)
qed

lemma GoogleCallbackH_cases:
  assumes "GoogleCallbackH a r (Some state) state code w = (Inr out, w')"
  shows "(\<exists>resp. out = with_cookies [clearOAuthStateCookie a] resp) \<or>
    (\<exists>u tokens resp. GoogleCallback (AH_auth a) code w = (Inr (u, tokens), w') \<and>
      out = with_cookies [clearOAuthStateCookie a, setRefreshCookie a r (TP_RefreshToken tokens)] resp)"
proof (cases "GoogleCallback (AH_auth a) code w")
  case (Pair x v)
  with assms show ?thesis
    by (cases x) (auto simp: GoogleCallbackH_def validateOAuthState_def Let_def handle_def ret_def handleOAuthCallbackError_def)
qed

lemmas oauth_cookies = clearOAuthStateCookie_def clearOAuthRedirectCookie_def oauthCookie_def setRefreshCookie_def refreshCookie_def
  with_cookies_def

text \<open>C40. The callbacks of Twitch and of Google touch nothing and refuse the request unless the state of the query is the one in
  the cookie of this browser, and each use takes that cookie away. They give out a refresh token only after the provider's
  login succeeded in this state, and only in a cookie that scripts cannot read. Only Twitch's callback redirects: to the address of the
  front end with the target of the cookie appended, which has no backslash and starts with a slash that no second one follows, or
  with the escape \<^verbatim>\<open>%2F\<close>, which the check lets through.\<close>

theorem OAuthCallbacks_guarded:
  assumes "TwitchCallbackH a r state_cookie state redirect_cookie code w = (Inr out, w')"
    and "GoogleCallbackH a r state_cookie state code v = (Inr gout, v')"
  shows "(state_cookie \<noteq> Some state \<longrightarrow> w' = w \<and> v' = v \<and>
      WB_Answer out = Answer (Refuse 400 ''invalid state parameter'' []) \<and> WB_Answer gout = Answer (Refuse 400 ''invalid state parameter'' [])) \<and>
    (\<forall>url. WB_Answer out = Redirect url \<longrightarrow> (\<exists>cfg t. AH_cfg a = Some cfg \<and> redirect_cookie = Some t \<and>
       url = TrimRightSlash (CF_FrontendURL cfg) @ t \<and> CHR 0x5C \<notin> set t \<and>
       (HasPrefix t ''%2f'' \<or> HasPrefix t ''%2F'' \<or> HasPrefix t ''/'' \<and> \<not> HasPrefix t ''//''))) \<and>
    (\<forall>url. WB_Answer gout \<noteq> Redirect url) \<and>
    (\<forall>cs \<in> {WB_Cookies out, WB_Cookies gout}. (\<exists>c \<in> set cs. CK_Name c = ''oauth_state'' \<and> CK_Value c = [] \<and> CK_MaxAge c < 0) \<and>
       (\<forall>c \<in> set cs. CK_HttpOnly c)) \<and>
    (\<forall>c \<in> set (WB_Cookies out). CK_Name c = ''refresh_token'' \<longrightarrow> state_cookie = Some state \<and>
       (\<exists>u tokens. TwitchCallback (AH_auth a) code w = (Inr (u, tokens), w') \<and> CK_Value c = TP_RefreshToken tokens)) \<and>
    (\<forall>c \<in> set (WB_Cookies gout). CK_Name c = ''refresh_token'' \<longrightarrow> state_cookie = Some state \<and>
       (\<exists>u tokens. GoogleCallback (AH_auth a) code v = (Inr (u, tokens), v') \<and> CK_Value c = TP_RefreshToken tokens))"
proof (cases "state_cookie = Some state")
  case False
  from assms [unfolded stateless_callback [OF False]] show ?thesis
    by (auto simp: oauth_cookies badRequest_def refuse_def)
next
  case True
  from GoogleCallbackH_cases [OF assms(2) [unfolded True]] have g: "\<forall>url. WB_Answer gout \<noteq> Redirect url"
    "\<exists>c \<in> set (WB_Cookies gout). CK_Name c = ''oauth_state'' \<and> CK_Value c = [] \<and> CK_MaxAge c < 0" "\<forall>c \<in> set (WB_Cookies gout). CK_HttpOnly c"
    "\<forall>c \<in> set (WB_Cookies gout). CK_Name c = ''refresh_token'' \<longrightarrow>
       (\<exists>u tokens. GoogleCallback (AH_auth a) code v = (Inr (u, tokens), v') \<and> CK_Value c = TP_RefreshToken tokens)"
    by (auto simp: oauth_cookies)
  note T = TwitchCallbackH_cases [OF assms(1) [unfolded True]]
  then have t: "\<exists>c \<in> set (WB_Cookies out). CK_Name c = ''oauth_state'' \<and> CK_Value c = [] \<and> CK_MaxAge c < 0" "\<forall>c \<in> set (WB_Cookies out). CK_HttpOnly c"
    "\<forall>c \<in> set (WB_Cookies out). CK_Name c = ''refresh_token'' \<longrightarrow>
       (\<exists>u tokens. TwitchCallback (AH_auth a) code w = (Inr (u, tokens), w') \<and> CK_Value c = TP_RefreshToken tokens)"
    by (auto simp: oauth_cookies)
  have "\<exists>cfg t. AH_cfg a = Some cfg \<and> redirect_cookie = Some t \<and> url = TrimRightSlash (CF_FrontendURL cfg) @ t \<and> CHR 0x5C \<notin> set t \<and>
       (HasPrefix t ''%2f'' \<or> HasPrefix t ''%2F'' \<or> HasPrefix t ''/'' \<and> \<not> HasPrefix t ''//'')" if "WB_Answer out = Redirect url" for url
  proof -
    from T that obtain cfg t where x: "AH_cfg a = Some cfg" "redirect_cookie = Some t" "isValidRedirectTo (AH_authority a) t"
      "url = TrimRightSlash (CF_FrontendURL cfg) @ t" by (fastforce simp: with_cookies_def)
    from isValidRedirectTo_local [OF x(3)] x show ?thesis
      by (intro exI [of _ cfg] exI [of _ t]) (auto simp: hasUnsafeRedirectChar_def HasPrefix_iff)
  qed
  with True g t show ?thesis by (intro conjI) (assumption | blast)+
qed

definition web_example :: "AuthService \<Rightarrow> AuthHandler" where
  "web_example s = \<lparr>AH_auth = s, AH_cfg = None, AH_emailAuth = None, AH_twitchURL = (\<lambda>s. s), AH_googleURL = (\<lambda>s. s),
     AH_urlString = (\<lambda>s h. s @ h), AH_schemeHost = (\<lambda>u. None), AH_registrable = (\<lambda>h. None), AH_authority = (\<lambda>s. None)\<rparr>"

theorem OAuthCallbacks_guarded_witness:
  "\<forall>s r w. \<exists>out gout. TwitchCallbackH (web_example s) r (Some ''a'') ''b'' None ''c'' w = (Inr out, w) \<and>
     GoogleCallbackH (web_example s) r (Some ''a'') ''b'' ''c'' w = (Inr gout, w) \<and>
     WB_Answer out = Answer (Refuse 400 ''invalid state parameter'' []) \<and> WB_Answer gout \<noteq> Redirect []"
proof (intro allI)
  fix s r and w :: world
  have "Some ''a'' \<noteq> Some ''b''" by simp
  from stateless_callback [OF this] obtain out gout where
    run: "TwitchCallbackH (web_example s) r (Some ''a'') ''b'' None ''c'' w = (Inr out, w)"
      "GoogleCallbackH (web_example s) r (Some ''a'') ''b'' ''c'' w = (Inr gout, w)" by blast
  from OAuthCallbacks_guarded [OF this]
  have "WB_Answer out = Answer (Refuse 400 ''invalid state parameter'' [])" "WB_Answer gout \<noteq> Redirect []" by simp_all
  with run show "\<exists>out gout. TwitchCallbackH (web_example s) r (Some ''a'') ''b'' None ''c'' w = (Inr out, w) \<and>
     GoogleCallbackH (web_example s) r (Some ''a'') ''b'' ''c'' w = (Inr gout, w) \<and>
     WB_Answer out = Answer (Refuse 400 ''invalid state parameter'' []) \<and> WB_Answer gout \<noteq> Redirect []" by blast
qed

end
