(* ===== verification/Router.thy ===== *)
theory Router
  imports Middleware HandlersPoints HandlersAccount HandlersRaffle HandlersAuth
begin

text \<open>
  \<^verbatim>\<open>router/router.go\<close>: the table of routes with the checks in front of each handler, and a request through it.
  The table is built by groups as the code builds it. A handler is a function of the services, the request, the
  parameters of its path and the claims that \<^verbatim>\<open>JWTAuth\<close> stored; of its answer the status, the error text, the
  cookies and the target of a redirect are kept.
\<close>

section \<open>Requests and services\<close>

text \<open>
  A body, decoded as the struct each handler binds it to. The fields do not depend on each other, so whatever
  \<^verbatim>\<open>encoding/json\<close> makes of a body is one of these.
\<close>

record bodies =
  JB_watch :: "err + string"
  JB_claim :: claim_body
  JB_redeem :: "err + redeemRequest"
  JB_airdrop :: "err + AirdropBody"
  JB_config :: "err + int \<times> int"
  JB_profile :: "err + UpdateProfileInput"
  JB_wallet :: "err + LinkWalletInput"
  JB_address :: "err + AddressInput"
  JB_token :: "err + string"
  JB_email :: "err + string"
  JB_reset :: "err + ResetBody"
  JB_extension :: "err + string"
  JB_tpoint :: "err + TPointBody"
  JB_agency :: "err + createAgencyRequest"
  JB_settings :: "err + string"
  JB_channel :: "err + RegisterBody"
  JB_streamer :: "err + CreateStreamerBody"
  JB_title :: "err + string"
  JB_webhook :: "err + string option"
  JB_winner :: "err + ClaimInput"
  JB_source :: "err + string"
  JB_tier :: "err + CreatePrizeTierInput"
  JB_edit :: "err + UpdatePrizeTierInput"
  JB_mode :: "err + string"
  JB_entry_open :: "err + bool option"
  JB_join :: "err + string"
  JB_register :: "err + RegisterInput"
  JB_login :: "err + LoginInput"
  JB_refresh :: "err + string"
  JB_nonce :: "err + string"
  JB_verify :: "err + Web3VerifyInput"
  JB_file :: "nat \<Rightarrow> upload"

record request =
  RQ_Method :: string
  RQ_Path :: "string list"
  RQ_Query :: "string \<Rightarrow> string option"
  RQ_Header :: "string \<Rightarrow> string"
  RQ_Cookie :: "string \<Rightarrow> string option"
  RQ_ClientIP :: string
  RQ_RemoteAddr :: string
  RQ_Peer :: peer
  RQ_Body :: bodies

record reply =
  RY_Status :: nat
  RY_Error :: string
  RY_Cookies :: "cookie list"
  RY_Location :: "string option"

text \<open>
  What \<^verbatim>\<open>New\<close> is given. \<open>SR_cors\<close> is the decision of the CORS package, which may answer by itself; \<open>SR_secret\<close> is
  empty when the internal routes are not configured, \<open>SR_metrics\<close> the bearer token of the metrics when they are.
\<close>

record server =
  SR_http :: HttpLib
  SR_web :: AuthHandler
  SR_email :: EmailAuthService
  SR_ext :: ExtensionService
  SR_eth :: EthLib
  SR_minter :: MintCaller
  SR_burner :: BurnCaller
  SR_tachiya :: "TachiyaClient option"
  SR_raffle :: RaffleServices
  SR_hasMailer :: bool
  SR_calendar :: calendar
  SR_format :: "time \<Rightarrow> string"
  SR_db :: bool
  SR_secret :: string
  SR_metrics :: "string option"
  SR_cors :: "request \<Rightarrow> reply option"

definition auth_of :: "server \<Rightarrow> AuthService" where
  "auth_of srv = AH_auth (SR_web srv)"

definition answer :: "nat \<Rightarrow> string \<Rightarrow> reply" where
  "answer status msg = \<lparr>RY_Status = status, RY_Error = msg, RY_Cookies = [], RY_Location = None\<rparr>"

definition of_response :: "'d response \<Rightarrow> reply" where
  "of_response r = (case r of Reply status d \<Rightarrow> answer status [] | Refuse status msg data \<Rightarrow> answer status msg)"

definition of_web :: "'d web \<Rightarrow> reply" where
  "of_web x = (case WB_Answer x of
     Answer r \<Rightarrow> (of_response r)\<lparr>RY_Cookies := WB_Cookies x\<rparr>
   | Redirect url \<Rightarrow> \<lparr>RY_Status = 302, RY_Error = [], RY_Cookies = WB_Cookies x, RY_Location = Some url\<rparr>)"

text \<open>A panic is turned into 500 by \<^verbatim>\<open>gin.Recovery\<close>.\<close>

definition json :: "'d response m \<Rightarrow> reply looping" where
  "json x w = Some (case x w of (Inl e, w') \<Rightarrow> (Inr (answer 500 []), w') | (Inr r, w') \<Rightarrow> (Inr (of_response r), w'))"

definition web_json :: "'d web m \<Rightarrow> reply looping" where
  "web_json x w = Some (case x w of (Inl e, w') \<Rightarrow> (Inr (answer 500 []), w') | (Inr r, w') \<Rightarrow> (Inr (of_web r), w'))"

definition loop_json :: "'d response looping \<Rightarrow> reply looping" where
  "loop_json x w = (case x w of
     None \<Rightarrow> None
   | Some (Inl e, w') \<Rightarrow> Some (Inr (answer 500 []), w')
   | Some (Inr r, w') \<Rightarrow> Some (Inr (of_response r), w'))"

section \<open>Routes\<close>

datatype check = NeedToken | NeedRole "UserRole list" | PublicRateLimit string | NeedSecret | NeedMetricsToken string

type_synonym handler = "server \<Rightarrow> request \<Rightarrow> (string \<Rightarrow> string) \<Rightarrow> AccessClaims option \<Rightarrow> reply looping"

record route =
  RT_Method :: string
  RT_Path :: "string list"
  RT_Checks :: "check list"
  RT_Handler :: handler

text \<open>The segments of a path.\<close>

function segments :: "string \<Rightarrow> string list" where
  "segments [] = []"
| "segments (c # s) = (if c = CHR ''/'' then segments s
     else (c # takeWhile (\<lambda>x. x \<noteq> CHR ''/'') s) # segments (dropWhile (\<lambda>x. x \<noteq> CHR ''/'') s))"
  by pat_completeness auto
termination by (relation "measure length") (auto simp: le_imp_less_Suc length_dropWhile_le)

definition route :: "string \<Rightarrow> string \<Rightarrow> check list \<Rightarrow> handler \<Rightarrow> route" where
  "route mth path checks h = \<lparr>RT_Method = mth, RT_Path = segments path, RT_Checks = checks, RT_Handler = h\<rparr>"

definition group :: "string \<Rightarrow> check list \<Rightarrow> route list \<Rightarrow> route list" where
  "group prefix checks rs = map (\<lambda>r. r\<lparr>RT_Path := segments prefix @ RT_Path r, RT_Checks := checks @ RT_Checks r\<rparr>) rs"

abbreviation channel_query :: "request \<Rightarrow> string" where
  "channel_query rq \<equiv> (case RQ_Query rq ''channel_id'' of None \<Rightarrow> [] | Some c \<Rightarrow> c)"

abbreviation query_or_empty :: "request \<Rightarrow> string \<Rightarrow> string" where
  "query_or_empty rq k \<equiv> (case RQ_Query rq k of None \<Rightarrow> [] | Some c \<Rightarrow> c)"

text \<open>Health: the ping of the database is a statement that may fail.\<close>

definition databaseStatus :: "server \<Rightarrow> bool m" where
  "databaseStatus srv = (if \<not> SR_db srv then ret False else handle (query (\<lambda>_. ())) (\<lambda>e. ret False) (\<lambda>_. ret True))"

definition healthHandler :: "server \<Rightarrow> bool response m" where
  "healthHandler srv = bnd (databaseStatus srv) (\<lambda>ok. ret (okR ok))"

definition readinessHandler :: "server \<Rightarrow> bool response m" where
  "readinessHandler srv = bnd (databaseStatus srv) (\<lambda>ok.
     ret (if \<not> ok then Refuse 503 [] [(''status'', ''unavailable''), (''db'', ''unavailable'')] else okR ok))"

definition notImplemented :: handler where
  "notImplemented srv rq p c = json (ret (refuse 501 ''not implemented'' :: unit response))"

definition auth_routes :: "route list" where
  "auth_routes = group ''/auth'' []
    [route ''POST'' ''/register'' [PublicRateLimit ''auth_register''] (\<lambda>srv rq p c. web_json (RegisterH (SR_http srv) (SR_web srv) (RQ_Peer rq) (JB_register (RQ_Body rq)))),
     route ''POST'' ''/login'' [PublicRateLimit ''auth_login''] (\<lambda>srv rq p c. web_json (LoginH (SR_http srv) (SR_web srv) (RQ_Peer rq) (JB_login (RQ_Body rq)))),
     route ''POST'' ''/refresh'' [] (\<lambda>srv rq p c. web_json (RefreshH (SR_web srv) (RQ_Peer rq) (RQ_Cookie rq ''refresh_token'') (JB_refresh (RQ_Body rq)))),
     route ''POST'' ''/logout'' [] (\<lambda>srv rq p c. web_json (LogoutH (SR_web srv) (RQ_Peer rq) (RQ_Cookie rq ''refresh_token'') (JB_refresh (RQ_Body rq)))),
     route ''GET'' ''/twitch'' [] (\<lambda>srv rq p c. web_json (TwitchLoginH (SR_web srv) (RQ_Query rq ''redirect_to''))),
     route ''GET'' ''/twitch/callback'' [] (\<lambda>srv rq p c. web_json (TwitchCallbackH (SR_web srv) (RQ_Peer rq) (RQ_Cookie rq ''oauth_state'')
        (query_or_empty rq ''state'') (RQ_Cookie rq ''oauth_redirect'') (query_or_empty rq ''code''))),
     route ''GET'' ''/google'' [] (\<lambda>srv rq p c. web_json (GoogleLoginH (SR_web srv))),
     route ''GET'' ''/google/callback'' [] (\<lambda>srv rq p c. web_json (GoogleCallbackH (SR_web srv) (RQ_Peer rq) (RQ_Cookie rq ''oauth_state'')
        (query_or_empty rq ''state'') (query_or_empty rq ''code''))),
     route ''POST'' ''/web3/nonce'' [PublicRateLimit ''auth_web3_nonce''] (\<lambda>srv rq p c. json (Web3NonceH (SR_http srv) (SR_web srv) (JB_nonce (RQ_Body rq)))),
     route ''POST'' ''/web3/verify'' [PublicRateLimit ''auth_web3_verify''] (\<lambda>srv rq p c. web_json (Web3VerifyH (SR_http srv) (SR_web srv) (RQ_Peer rq) (JB_verify (RQ_Body rq)))),
     route ''POST'' ''/verify-email/confirm'' [] (\<lambda>srv rq p c. json (ConfirmVerificationH (SR_http srv) (JB_token (RQ_Body rq)))),
     route ''POST'' ''/forgot-password'' [PublicRateLimit ''auth_forgot_password''] (\<lambda>srv rq p c. json (ForgotPasswordH (SR_http srv) (SR_email srv) (JB_email (RQ_Body rq)))),
     route ''POST'' ''/reset-password'' [PublicRateLimit ''auth_reset_password''] (\<lambda>srv rq p c. json (ResetPasswordH (SR_http srv) (SR_email srv) (JB_reset (RQ_Body rq))))]"

definition claim_routes :: "route list" where
  "claim_routes = route ''GET'' ''/claim/:token'' [] (\<lambda>srv rq p c. json (GetClaimH (p ''token''))) #
    group ''/claim'' [NeedToken]
      [route ''POST'' ''/:token'' [] (\<lambda>srv rq p c. json (SubmitClaimH (SR_http srv) c (p ''token'') (JB_winner (RQ_Body rq))))]"

definition watch_routes :: "route list" where
  "watch_routes = group ''/watch'' [NeedToken]
    [route ''POST'' ''/start'' [] (\<lambda>srv rq p c. json (StartSessionH (SR_http srv) c (JB_watch (RQ_Body rq)))),
     route ''POST'' ''/heartbeat'' [] (\<lambda>srv rq p c. json (HeartbeatH (SR_http srv) c (JB_watch (RQ_Body rq)))),
     route ''POST'' ''/click'' [] (\<lambda>srv rq p c. json (ClickH (SR_http srv) c (JB_watch (RQ_Body rq)))),
     route ''POST'' ''/end'' [] (\<lambda>srv rq p c. json (EndSessionH (SR_http srv) c (JB_watch (RQ_Body rq)))),
     route ''GET'' ''/balance'' [] (\<lambda>srv rq p c. json (watchGetBalanceH (SR_http srv) c (channel_query rq)))]"

definition extension_routes :: "route list" where
  "extension_routes = group ''/extension'' []
    ([route ''POST'' ''/auth/login'' [] (\<lambda>srv rq p c. json (ExtensionLoginH (SR_http srv) (SR_ext srv) (JB_extension (RQ_Body rq)))),
      route ''POST'' ''/t-point/complete'' [PublicRateLimit ''extension_t_point_complete''] (\<lambda>srv rq p c. json (TPointCompleteH (SR_http srv) (SR_ext srv) (JB_tpoint (RQ_Body rq)))),
      route ''POST'' ''/bits/complete'' [PublicRateLimit ''extension_bits_complete''] (\<lambda>srv rq p c. json (TPointCompleteH (SR_http srv) (SR_ext srv) (JB_tpoint (RQ_Body rq)))),
      route ''GET'' ''/raffles/:id/result'' [] (\<lambda>srv rq p c. json (GetResultH (SR_http srv) (SR_format srv) (p ''id''))),
      route ''POST'' ''/raffles/:id/join'' [] (\<lambda>srv rq p c. json (RaffleJoinH (SR_http srv) (Some (SR_ext srv)) (SR_raffle srv) (p ''id'') (JB_join (RQ_Body rq))))]
     @ watch_routes)"

definition address_routes :: "route list" where
  "address_routes = group ''users/me/addresses'' []
    [route ''GET'' [] [] (\<lambda>srv rq p c. json (AddressListH (SR_http srv) c)),
     route ''POST'' [] [] (\<lambda>srv rq p c. json (AddressCreateH (SR_http srv) c (JB_address (RQ_Body rq)))),
     route ''PUT'' ''/:id'' [] (\<lambda>srv rq p c. json (AddressUpdateH (SR_http srv) c (p ''id'') (JB_address (RQ_Body rq)))),
     route ''DELETE'' ''/:id'' [] (\<lambda>srv rq p c. json (AddressDeleteH (SR_http srv) c (p ''id''))),
     route ''PUT'' ''/:id/default'' [] (\<lambda>srv rq p c. json (SetDefaultH (SR_http srv) c (p ''id'')))]"

definition protected_routes :: "route list" where
  "protected_routes = group ''/'' [NeedToken]
    ([route ''GET'' ''users/me/points'' [] (\<lambda>srv rq p c. json (GetBalanceH (SR_http srv) c (channel_query rq))),
      route ''GET'' ''users/me/points/history'' [] (\<lambda>srv rq p c. json (GetHistoryH (SR_http srv) c (channel_query rq))),
      route ''POST'' ''users/me/points/claim'' [] (\<lambda>srv rq p c. json (ClaimH (SR_http srv) (SR_eth srv) (SR_minter srv) c (JB_claim (RQ_Body rq)))),
      route ''GET'' ''users/me/tachi/balance'' [] (\<lambda>srv rq p c. json (GetTachiBalanceH (SR_http srv) c)),
      route ''POST'' ''spend/redeem'' [] (\<lambda>srv rq p c. json (RedeemH (SR_http srv) (SR_eth srv) (SR_burner srv) (SR_tachiya srv) c (JB_redeem (RQ_Body rq)))),
      route ''GET'' ''users/me'' [] (\<lambda>srv rq p c. json (MeH (SR_http srv) c)),
      route ''PUT'' ''users/me'' [] (\<lambda>srv rq p c. json (UpdateMeH (SR_http srv) c (JB_profile (RQ_Body rq)))),
      route ''POST'' ''users/me/wallet'' [] (\<lambda>srv rq p c. json (LinkWalletH (SR_http srv) (AU_lib (auth_of srv)) c (JB_wallet (RQ_Body rq)))),
      route ''GET'' ''users/me/providers'' [] (\<lambda>srv rq p c. json (ListProvidersH (SR_http srv) c)),
      route ''DELETE'' ''auth/providers/:provider'' [] (\<lambda>srv rq p c. json (UnlinkProviderH (SR_http srv) c (p ''provider''))),
      route ''POST'' ''auth/verify-email/send'' [] (\<lambda>srv rq p c. json (SendVerificationH (SR_http srv) (SR_email srv) c))]
     @ address_routes)"

definition streamer_routes :: "route list" where
  "streamer_routes =
    [route ''POST'' ''/streamers'' [NeedRole [RoleAdmin]] (\<lambda>srv rq p c. json (StreamerCreateH (SR_http srv) (JB_streamer (RQ_Body rq)))),
     route ''GET'' ''/streamers'' [NeedRole [RoleAgency, RoleAdmin]] (\<lambda>srv rq p c. json (StreamerListH (SR_http srv) c)),
     route ''GET'' ''/streamers/:streamer_id/stats'' [NeedRole [RoleStreamer, RoleAgency, RoleAdmin]] (\<lambda>srv rq p c. json (GetStatsH (SR_http srv) (SR_calendar srv) c (p ''streamer_id''))),
     route ''POST'' ''/streamers/register'' [NeedRole [RoleStreamer]] (\<lambda>srv rq p c. json (StreamerRegisterH (SR_http srv) c (JB_channel (RQ_Body rq)))),
     route ''GET'' ''/streamers/channels'' [NeedRole [RoleStreamer]] (\<lambda>srv rq p c. json (ListChannelsH (SR_http srv) c)),
     route ''GET'' ''/channels/:channel_id/stats'' [NeedRole [RoleAdmin, RoleStreamer]] (\<lambda>srv rq p c. json (GetChannelStatsH (SR_http srv) (SR_calendar srv) c (p ''channel_id''))),
     route ''GET'' ''/channels/:channel_id/config'' [NeedRole [RoleAdmin, RoleStreamer, RoleAgency]] (\<lambda>srv rq p c. json (GetChannelConfigH (SR_http srv) c (p ''channel_id''))),
     route ''PUT'' ''/channels/:channel_id/config'' [NeedRole [RoleAdmin, RoleStreamer]] (\<lambda>srv rq p c. json (UpdateChannelConfigH (SR_http srv) c (p ''channel_id'') (JB_config (RQ_Body rq))))]"

definition raffle_routes :: "route list" where
  "raffle_routes =
    [route ''POST'' ''/raffles'' [NeedRole [RoleStreamer]] (\<lambda>srv rq p c. json (RaffleCreateH (SR_http srv) c (JB_title (RQ_Body rq)))),
     route ''GET'' ''/raffles'' [NeedRole [RoleStreamer]] (\<lambda>srv rq p c. json (RaffleListH (SR_http srv) c)),
     route ''GET'' ''/raffles/:id'' [NeedRole [RoleStreamer]] (\<lambda>srv rq p c. json (RaffleGetH (SR_http srv) c (p ''id''))),
     route ''POST'' ''/raffles/:id/entries/import-csv'' [NeedRole [RoleStreamer]] (\<lambda>srv rq p c. json (ImportCSVH (SR_http srv) c (p ''id'') (JB_file (RQ_Body rq)))),
     route ''POST'' ''/raffles/:id/draws'' [NeedRole [RoleStreamer]] (\<lambda>srv rq p c. json (DrawNextH (SR_http srv) (SR_hasMailer srv) c (p ''id''))),
     route ''GET'' ''/raffles/:id/draws'' [NeedRole [RoleStreamer]] (\<lambda>srv rq p c. json (ListDrawsH (SR_http srv) c (p ''id''))),
     route ''POST'' ''/raffles/:id/activate'' [NeedRole [RoleStreamer]] (\<lambda>srv rq p c. json (ActivateH (SR_http srv) c (p ''id''))),
     route ''POST'' ''/raffles/:id/complete'' [NeedRole [RoleStreamer]] (\<lambda>srv rq p c. json (CompleteH (SR_http srv) c (p ''id''))),
     route ''PATCH'' ''/raffles/:id/discord-webhook'' [NeedRole [RoleStreamer]] (\<lambda>srv rq p c. json (SetDiscordWebhookH (SR_http srv) c (p ''id'') (JB_webhook (RQ_Body rq)))),
     route ''POST'' ''/raffles/:id/snapshot'' [NeedRole [RoleStreamer]] (\<lambda>srv rq p c. loop_json (SnapshotH (SR_http srv) (SR_raffle srv) c (p ''id'') (JB_source (RQ_Body rq)))),
     route ''POST'' ''/raffles/:id/prize-tiers'' [NeedRole [RoleStreamer]] (\<lambda>srv rq p c. json (CreatePrizeTierH (SR_http srv) c (p ''id'') (JB_tier (RQ_Body rq)))),
     route ''GET'' ''/raffles/:id/prize-tiers'' [NeedRole [RoleStreamer]] (\<lambda>srv rq p c. json (ListPrizeTiersH (SR_http srv) c (p ''id''))),
     route ''PATCH'' ''/raffles/:id/prize-tiers/:tier_id'' [NeedRole [RoleStreamer]] (\<lambda>srv rq p c. json (UpdatePrizeTierH (SR_http srv) c (p ''id'') (p ''tier_id'') (JB_edit (RQ_Body rq)))),
     route ''DELETE'' ''/raffles/:id/prize-tiers/:tier_id'' [NeedRole [RoleStreamer]] (\<lambda>srv rq p c. json (DeletePrizeTierH (SR_http srv) c (p ''id'') (p ''tier_id''))),
     route ''POST'' ''/raffles/:id/prize-tiers/:tier_id/draws'' [NeedRole [RoleStreamer]] (\<lambda>srv rq p c. json (DrawFromTierH (SR_http srv) (SR_hasMailer srv) c (p ''id'') (p ''tier_id''))),
     route ''PATCH'' ''/raffles/:id/mode'' [NeedRole [RoleStreamer]] (\<lambda>srv rq p c. json (SetModeH (SR_http srv) c (p ''id'') (JB_mode (RQ_Body rq)))),
     route ''PATCH'' ''/raffles/:id/entry'' [NeedRole [RoleStreamer]] (\<lambda>srv rq p c. json (SetEntryOpenH (SR_http srv) c (p ''id'') (JB_entry_open (RQ_Body rq)))),
     route ''GET'' ''/raffles/:id/entry-stats'' [NeedRole [RoleStreamer]] (\<lambda>srv rq p c. json (GetEntryStatsH (SR_http srv) c (p ''id'')))]"

definition dashboard_routes :: "route list" where
  "dashboard_routes =
     group ''/dashboard'' [NeedToken, NeedRole [RoleAdmin, RoleStreamer, RoleAgency]] (streamer_routes @ raffle_routes) @
     group ''/dashboard/channels/:channel_id'' [NeedToken, NeedRole [RoleAdmin, RoleStreamer, RoleAgency]]
       [route ''POST'' ''/airdrop'' [] (\<lambda>srv rq p c. json (AirdropH (SR_http srv) c (p ''channel_id'') (JB_airdrop (RQ_Body rq))))]"

definition internal_routes :: "server \<Rightarrow> route list" where
  "internal_routes srv = (if SR_db srv \<and> SR_secret srv \<noteq> [] then
     group ''/internal/tachiya'' [NeedSecret]
       [route ''GET'' ''/users/points/balance'' [] (\<lambda>srv rq p c. json (GetUserPointsBalanceH (query_or_empty rq ''email'')))]
     else [])"

definition agency_routes :: "route list" where
  "agency_routes = group ''/agencies'' [NeedToken]
    [route ''POST'' [] [NeedRole [RoleAdmin]] (\<lambda>srv rq p c. json (AgencyCreateH (SR_http srv) (SR_email srv) (JB_agency (RQ_Body rq)))),
     route ''GET'' ''/:id'' [NeedRole [RoleAgency, RoleAdmin]] (\<lambda>srv rq p c. json (AgencyGetH (SR_http srv) c (p ''id''))),
     route ''PUT'' ''/:id/settings'' [NeedRole [RoleAgency, RoleAdmin]] (\<lambda>srv rq p c. json (UpdateSettingsH (SR_http srv) c (p ''id'') (JB_settings (RQ_Body rq)))),
     route ''GET'' ''/:id/streamers'' [NeedRole [RoleAgency, RoleAdmin]] (\<lambda>srv rq p c. json (ListStreamersH (SR_http srv) c (p ''id''))),
     route ''POST'' ''/:id/resend-setup'' [NeedRole [RoleAdmin]] (\<lambda>srv rq p c. json (ResendSetupH (SR_http srv) (SR_email srv) (p ''id'')))]"

definition event_routes :: "route list" where
  "event_routes =
     group ''/events'' [NeedToken, NeedRole [RoleStreamer, RoleAgency, RoleAdmin]]
       [route ''POST'' ''/create'' [] notImplemented, route ''POST'' ''/:id/settle'' [] notImplemented] @
     group ''/admin'' [NeedToken, NeedRole [RoleAdmin]] [route ''GET'' ''/users'' [] notImplemented]"

definition operations_routes :: "server \<Rightarrow> route list" where
  "operations_routes srv =
     [route ''GET'' ''/health'' [] (\<lambda>srv rq p c. json (healthHandler srv)),
      route ''GET'' ''/readyz'' [] (\<lambda>srv rq p c. json (readinessHandler srv))] @
     (case SR_metrics srv of None \<Rightarrow> []
      | Some token \<Rightarrow> [route ''GET'' ''/metrics'' [NeedMetricsToken token] (\<lambda>srv rq p c. json (ret (okR ())))])"

definition api_routes :: "server \<Rightarrow> route list" where
  "api_routes srv = operations_routes srv @
     group ''/api/v1'' [] (auth_routes @ claim_routes @ extension_routes @ protected_routes @ dashboard_routes @
       internal_routes srv @ agency_routes @ event_routes)"

section \<open>A request through the router\<close>

definition is_param :: "string \<Rightarrow> bool" where
  "is_param s \<longleftrightarrow> s \<noteq> [] \<and> hd s = CHR '':''"

text \<open>gin matches segment by segment; a parameter takes any segment.\<close>

fun path_matches :: "string list \<Rightarrow> string list \<Rightarrow> bool" where
  "path_matches [] [] = True"
| "path_matches (p # ps) (s # ss) = ((is_param p \<and> s \<noteq> [] \<or> p = s) \<and> path_matches ps ss)"
| "path_matches _ _ = False"

definition path_params :: "string list \<Rightarrow> string list \<Rightarrow> string \<Rightarrow> string" where
  "path_params pattern path name =
     (case map_of (filter (\<lambda>(p, s). is_param p) (zip pattern path)) (CHR '':'' # name) of None \<Rightarrow> [] | Some s \<Rightarrow> s)"

definition find_route :: "server \<Rightarrow> request \<Rightarrow> route option" where
  "find_route srv rq = find (\<lambda>r. RT_Method r = RQ_Method rq \<and> path_matches (RT_Path r) (RQ_Path rq)) (api_routes srv)"

type_synonym state = "world \<times> rate_entries"

text \<open>One check: the claims from then on, or the answer.\<close>

definition run_check :: "server \<Rightarrow> request \<Rightarrow> check \<Rightarrow> AccessClaims option \<Rightarrow> state \<Rightarrow> (reply + AccessClaims option) \<times> state" where
  "run_check srv rq chk claims st = (case st of (w, es) \<Rightarrow> (case chk of
     NeedToken \<Rightarrow> (case JWTAuth (auth_of srv) (RQ_Header rq ''Authorization'') w of
         (Inl e, w') \<Rightarrow> (Inl (answer 500 []), (w', es))
       | (Inr (Abort status msg), w') \<Rightarrow> (Inl (answer status msg), (w', es))
       | (Inr (Next c), w') \<Rightarrow> (Inr (Some c), (w', es)))
   | NeedRole roles \<Rightarrow> (case RequireRole roles claims of
         Abort status msg \<Rightarrow> (Inl (answer status msg), st)
       | Next _ \<Rightarrow> (Inr claims, st))
   | PublicRateLimit name \<Rightarrow> (case Limit name 60 minute (ClientIPRateLimitKey (RQ_ClientIP rq) (RQ_RemoteAddr rq))
           (env_clock (w_env w) (w_tick w)) es of
         (Some (status, retry), es') \<Rightarrow> (Inl (answer status ''rate limit exceeded''), (tick w, es'))
       | (None, es') \<Rightarrow> (Inr claims, (tick w, es')))
   | NeedSecret \<Rightarrow> (case TachiyaInternalAuth (SR_secret srv) (RQ_Header rq ''X-Tachiya-Internal-Secret'') of
         Abort status msg \<Rightarrow> (Inl (answer status msg), st)
       | Next _ \<Rightarrow> (Inr claims, st))
   | NeedMetricsToken token \<Rightarrow>
       if MetricsBearerGuard token (RQ_Header rq ''Authorization'') then (Inr claims, st) else (Inl (answer 401 []), st)))"

fun run_checks :: "server \<Rightarrow> request \<Rightarrow> check list \<Rightarrow> AccessClaims option \<Rightarrow> state \<Rightarrow> (reply + AccessClaims option) \<times> state" where
  "run_checks srv rq [] claims st = (Inr claims, st)"
| "run_checks srv rq (k # ks) claims st = (case run_check srv rq k claims st of
     (Inl a, st') \<Rightarrow> (Inl a, st')
   | (Inr claims', st') \<Rightarrow> run_checks srv rq ks claims' st')"

text \<open>
  A path that no route answers while the path with or without a slash at its end is one: gin answers with a
  redirect to that path (the query string it appends is not modelled), and no middleware and no handler runs.
\<close>

definition other_slash :: "string list \<Rightarrow> string list" where
  "other_slash path = (if path \<noteq> [] \<and> last path = [] then butlast path else path @ [[]])"

definition slash_redirect :: "server \<Rightarrow> request \<Rightarrow> reply option" where
  "slash_redirect srv rq =
     (if RQ_Path rq = [] \<or> find_route srv rq \<noteq> None then None
      else (case find_route srv (rq\<lparr>RQ_Path := other_slash (RQ_Path rq)\<rparr>) of
          None \<Rightarrow> None
        | Some _ \<Rightarrow> Some \<lparr>RY_Status = (if RQ_Method rq = ''GET'' then 301 else 307), RY_Error = [], RY_Cookies = [],
            RY_Location = Some (concat (map (\<lambda>s. ''/'' @ s) (other_slash (RQ_Path rq))))\<rparr>))"

text \<open>\<open>None\<close>: the handler does not return.\<close>

definition ServeHTTP :: "server \<Rightarrow> request \<Rightarrow> state \<Rightarrow> (reply \<times> state) option" where
  "ServeHTTP srv rq st = (case slash_redirect srv rq of
     Some a \<Rightarrow> Some (a, st)
   | None \<Rightarrow> (case SR_cors srv rq of
     Some a \<Rightarrow> Some (a, st)
   | None \<Rightarrow> (case find_route srv rq of
       None \<Rightarrow> Some (answer 404 [], st)
     | Some r \<Rightarrow> (case run_checks srv rq (RT_Checks r) None st of
         (Inl a, st') \<Rightarrow> Some (a, st')
       | (Inr claims, (w, es)) \<Rightarrow>
           (case RT_Handler r srv rq (path_params (RT_Path r) (RQ_Path rq)) claims w of
              None \<Rightarrow> None
            | Some (Inl e, w') \<Rightarrow> Some (answer 500 [], (w', es))
            | Some (Inr a, w') \<Rightarrow> Some (a, (w', es)))))))"

end
