(* ===== verification/RouterProps.thy ===== *)
theory RouterProps
  imports Router
begin

text \<open>
  What the route table promises: no two routes answer the same request, and a request reaches a handler of an
  authenticated, dashboard, admin or internal path only with the credentials its group asks for.
\<close>

section \<open>The table\<close>

fun paths_overlap :: "string list \<Rightarrow> string list \<Rightarrow> bool" where
  "paths_overlap [] [] = True"
| "paths_overlap (p # ps) (q # qs) = ((is_param p \<or> is_param q \<or> p = q) \<and> paths_overlap ps qs)"
| "paths_overlap _ _ = False"

definition clash :: "string \<times> string list \<Rightarrow> string \<times> string list \<Rightarrow> bool" where
  "clash k k' \<longleftrightarrow> fst k = fst k' \<and> paths_overlap (snd k) (snd k')"

fun no_clash :: "(string \<times> string list) list \<Rightarrow> bool" where
  "no_clash [] = True"
| "no_clash (k # ks) = (list_all (\<lambda>k'. \<not> clash k k') ks \<and> no_clash ks)"

definition route_key :: "route \<Rightarrow> string \<times> string list" where
  "route_key r = (RT_Method r, RT_Path r)"

text \<open>The table with everything that can be configured.\<close>

definition all_routes :: "string \<Rightarrow> route list" where
  "all_routes token = [route ''GET'' ''/health'' [] (\<lambda>srv rq p c. json (healthHandler srv)),
      route ''GET'' ''/readyz'' [] (\<lambda>srv rq p c. json (readinessHandler srv)),
      route ''GET'' ''/metrics'' [NeedMetricsToken token] (\<lambda>srv rq p c. json (ret (okR ())))] @
     group ''/api/v1'' [] (auth_routes @ claim_routes @ extension_routes @ protected_routes @ dashboard_routes @
       group ''/internal/tachiya'' [NeedSecret]
         [route ''GET'' ''/users/points/balance'' [] (\<lambda>srv rq p c. json (GetUserPointsBalanceH (query_or_empty rq ''email'')))] @
       agency_routes @ event_routes)"

lemma set_group_mono: "set rs \<subseteq> set rs' \<Longrightarrow> set (group p cs rs) \<subseteq> set (group p cs rs')"
  by (auto simp: group_def)

lemma set_if_subset: "set (if b then xs else []) \<subseteq> set xs"
  by auto

lemma api_routes_subset: "\<exists>token. set (api_routes srv) \<subseteq> set (all_routes token)"
proof -
  have "set (internal_routes srv) \<subseteq> set (group ''/internal/tachiya'' [NeedSecret]
         [route ''GET'' ''/users/points/balance'' [] (\<lambda>srv rq p c. json (GetUserPointsBalanceH (query_or_empty rq ''email'')))])"
    unfolding internal_routes_def by (rule set_if_subset)
  then have "set (group ''/api/v1'' [] (auth_routes @ claim_routes @ extension_routes @ protected_routes @ dashboard_routes @
       internal_routes srv @ agency_routes @ event_routes)) \<subseteq> set (group ''/api/v1'' [] (auth_routes @ claim_routes @ extension_routes @ protected_routes @ dashboard_routes @
       group ''/internal/tachiya'' [NeedSecret]
         [route ''GET'' ''/users/points/balance'' [] (\<lambda>srv rq p c. json (GetUserPointsBalanceH (query_or_empty rq ''email'')))] @
       agency_routes @ event_routes))"
    by (intro set_group_mono) (simp only: set_append, blast)
  then show ?thesis
    by (cases "SR_metrics srv") (auto simp: api_routes_def all_routes_def operations_routes_def)
qed

lemmas route_tables = auth_routes_def claim_routes_def watch_routes_def extension_routes_def address_routes_def
  protected_routes_def streamer_routes_def raffle_routes_def dashboard_routes_def agency_routes_def event_routes_def

lemma route_key_group: "map route_key (group p cs rs) = map (\<lambda>(mth, path). (mth, segments p @ path)) (map route_key rs)"
  by (simp add: group_def route_key_def)

lemma route_key_route [simp]: "route_key (route mth path cs h) = (mth, segments path)"
  by (simp add: route_key_def route_def)

lemma all_routes_no_clash: "no_clash (map route_key (all_routes token))"
  unfolding all_routes_def route_tables map_append route_key_group list.map route_key_route
  by code_simp


lemma no_clash_eq:
  "no_clash (map key rs) \<Longrightarrow> r \<in> set rs \<Longrightarrow> r' \<in> set rs \<Longrightarrow> clash (key r) (key r') \<Longrightarrow> r = r'"
proof (induction rs)
  case (Cons x rs)
  have "paths_overlap ps qs \<Longrightarrow> paths_overlap qs ps" for ps qs
    by (induction ps qs rule: paths_overlap.induct) auto
  then have sym: "clash k k' \<Longrightarrow> clash k' k" for k k' by (simp add: clash_def)
  from Cons show ?case by (auto simp: list_all_iff dest: sym)
qed simp

lemma both_match: "path_matches ps path \<Longrightarrow> path_matches qs path \<Longrightarrow> paths_overlap ps qs"
proof (induction ps path arbitrary: qs rule: path_matches.induct)
  case 1 then show ?case by (cases qs) auto
next
  case (2 p ps s ss) then show ?case by (cases qs) auto
qed auto

lemma one_route:
  assumes "r \<in> set (api_routes srv)" and "r' \<in> set (api_routes srv)" and "RT_Method r = RT_Method r'"
    and "path_matches (RT_Path r) path" and "path_matches (RT_Path r') path"
  shows "r = r'"
proof -
  obtain token where "set (api_routes srv) \<subseteq> set (all_routes token)" using api_routes_subset by blast
  moreover have "clash (route_key r) (route_key r')" using assms both_match by (auto simp: clash_def route_key_def)
  ultimately show ?thesis using no_clash_eq [OF all_routes_no_clash] assms(1,2) by blast
qed

lemma find_routeI:
  assumes "r \<in> set (api_routes srv)" and "RT_Method r = RQ_Method rq" and "path_matches (RT_Path r) (RQ_Path rq)"
  shows "find_route srv rq = Some r"
proof (cases "find_route srv rq")
  case None
  with assms show ?thesis by (auto simp: find_route_def find_None_iff)
next
  case (Some r')
  then have "r' \<in> set (api_routes srv)" "RT_Method r' = RQ_Method rq" "path_matches (RT_Path r') (RQ_Path rq)"
    by (auto simp: find_route_def find_Some_iff)
  with Some one_route [OF _ assms(1) _ _ assms(3)] assms(2) show ?thesis by simp
qed

text \<open>C0. A request matches one route at most, so the order of the table decides nothing.\<close>

theorem routes_unambiguous:
  assumes "r \<in> set (api_routes srv)" and "RT_Method r = RQ_Method rq" and "path_matches (RT_Path r) (RQ_Path rq)"
  shows "find_route srv rq = Some r \<and>
    (\<forall>r' \<in> set (api_routes srv). RT_Method r' = RQ_Method rq \<and> path_matches (RT_Path r') (RQ_Path rq) \<longrightarrow> r' = r)"
  using find_routeI [OF assms] one_route [OF _ assms(1) _ _ assms(3)] assms(2) by auto

section \<open>Access\<close>

text \<open>
  Who may reach what, as lower bounds over prefixes of the path; an empty method stands for all methods.
\<close>

definition access_policy :: "(string \<times> string \<times> UserRole list) list" where
  "access_policy =
    [([], ''/api/v1/admin'', [RoleAdmin]),
     ([], ''/api/v1/dashboard'', [RoleStreamer, RoleAgency, RoleAdmin]),
     ([], ''/api/v1/dashboard/raffles'', [RoleStreamer]),
     (''PUT'', ''/api/v1/dashboard/channels'', [RoleStreamer, RoleAdmin]),
     ([], ''/api/v1/agencies'', [RoleAgency, RoleAdmin]),
     (''POST'', ''/api/v1/agencies'', [RoleAdmin]),
     ([], ''/api/v1/events'', [RoleStreamer, RoleAgency, RoleAdmin]),
     ([], ''/api/v1/users'', [RoleViewer, RoleStreamer, RoleAgency, RoleAdmin]),
     ([], ''/api/v1/spend'', [RoleViewer, RoleStreamer, RoleAgency, RoleAdmin]),
     ([], ''/api/v1/extension/watch'', [RoleViewer, RoleStreamer, RoleAgency, RoleAdmin]),
     ([], ''/api/v1/auth/providers'', [RoleViewer, RoleStreamer, RoleAgency, RoleAdmin]),
     ([], ''/api/v1/auth/verify-email/send'', [RoleViewer, RoleStreamer, RoleAgency, RoleAdmin]),
     (''POST'', ''/api/v1/claim'', [RoleViewer, RoleStreamer, RoleAgency, RoleAdmin])]"

definition admits_only :: "UserRole list \<Rightarrow> check \<Rightarrow> bool" where
  "admits_only roles k = (case k of NeedRole rs \<Rightarrow> list_all (\<lambda>r. r \<in> set roles) rs | _ \<Rightarrow> False)"

definition is_token_check :: "check \<Rightarrow> bool" where
  "is_token_check k = (case k of NeedToken \<Rightarrow> True | _ \<Rightarrow> False)"

definition enforces :: "UserRole list \<Rightarrow> check list \<Rightarrow> bool" where
  "enforces roles ks = (case ks of [] \<Rightarrow> False
     | k # ks' \<Rightarrow> is_token_check k \<and> \<not> list_ex is_token_check ks' \<and>
        (list_ex (admits_only roles) ks' \<or> list_all (\<lambda>r. r \<in> set roles) [RoleViewer, RoleStreamer, RoleAgency, RoleAdmin]))"

definition route_guard :: "route \<Rightarrow> string \<times> string list \<times> check list" where
  "route_guard r = (RT_Method r, RT_Path r, RT_Checks r)"

definition obeys :: "string \<times> string list \<times> check list \<Rightarrow> string \<times> string \<times> UserRole list \<Rightarrow> bool" where
  "obeys g rule = (case g of (mth, path, checks) \<Rightarrow> (case rule of (m, pre, roles) \<Rightarrow>
     (m = [] \<or> m = mth) \<and> paths_overlap (take (length (segments pre)) path) (segments pre) \<longrightarrow> enforces roles checks))"

lemma route_guard_group: "map route_guard (group p cs rs) = map (\<lambda>(mth, path, ks). (mth, segments p @ path, cs @ ks)) (map route_guard rs)"
  by (simp add: group_def route_guard_def)

lemma route_guard_route [simp]: "route_guard (route mth path cs h) = (mth, segments path, cs)"
  by (simp add: route_guard_def route_def)

lemma all_routes_obey: "list_all (\<lambda>g. list_all (obeys g) access_policy) (map route_guard (all_routes token))"
  unfolding all_routes_def route_tables map_append route_guard_group list.map route_guard_route
  by code_simp

lemma path_matches_take: "path_matches ps ss \<Longrightarrow> path_matches (take n ps) (take n ss)"
proof (induction ps ss arbitrary: n rule: path_matches.induct)
  case (2 p ps s ss) then show ?case by (cases n) auto
qed auto

lemma matches_overlap: "path_matches ps ss \<Longrightarrow> paths_overlap ps ss"
  by (induction ps ss rule: path_matches.induct) auto

lemma route_enforces:
  assumes "(m, pre, roles) \<in> set access_policy" and "r \<in> set (api_routes srv)" and "m = [] \<or> m = RT_Method r"
    and "path_matches (RT_Path r) path" and "take (length (segments pre)) path = segments pre"
  shows "enforces roles (RT_Checks r)"
proof -
  obtain token where "r \<in> set (all_routes token)" using api_routes_subset assms(2) by blast
  with all_routes_obey [of token] assms(1) have "obeys (route_guard r) (m, pre, roles)" by (auto simp: list_all_iff)
  with assms(3) matches_overlap [OF path_matches_take [OF assms(4)], of "length (segments pre)"] assms(5) show ?thesis
    by (simp add: obeys_def route_guard_def)
qed

text \<open>What the checks leave behind: the claims of the token in the header, and a role each of them admits.\<close>

definition token_of :: "server \<Rightarrow> request \<Rightarrow> AccessClaims \<Rightarrow> bool" where
  "token_of srv rq c \<longleftrightarrow> (\<exists>token t. RQ_Header rq ''Authorization'' = ''Bearer '' @ token \<and>
     LB_jwtParse (AU_lib (auth_of srv)) token
       (\<lambda>hmac. if hmac then Inr (AU_accessSecret (auth_of srv)) else Inl (Errorf ''unexpected signing method'')) t = Inr (c, True))"

lemma run_check_token:
  "run_check srv rq NeedToken claims st = (Inr claims', st') \<Longrightarrow> \<exists>c. claims' = Some c \<and> token_of srv rq c"
  by (auto simp: run_check_def JWTAuth_def ValidateAccessToken_def ret_def fail_def now_def bnd_def handle_def token_of_def
    HasPrefix_iff TrimPrefix_def split: prod.splits if_splits sum.splits)

lemma run_check_other:
  "run_check srv rq k claims st = (Inr claims', st') \<Longrightarrow> \<not> is_token_check k \<Longrightarrow> claims' = claims \<and>
     (\<forall>rs. k = NeedRole rs \<longrightarrow> (\<exists>c. claims = Some c \<and> AC_Role c \<in> set rs))"
  by (auto simp: run_check_def is_token_check_def RequireRole_def split: check.splits prod.splits if_splits option.splits verdict.splits)

lemma run_checks_others:
  "run_checks srv rq ks claims st = (Inr claims', st') \<Longrightarrow> \<not> list_ex is_token_check ks \<Longrightarrow> claims' = claims \<and>
     (\<forall>rs. NeedRole rs \<in> set ks \<longrightarrow> (\<exists>c. claims = Some c \<and> AC_Role c \<in> set rs))"
proof (induction srv rq ks claims st rule: run_checks.induct)
  case (2 srv rq k ks claims st)
  from 2(2,3) obtain c1 st1 where k: "run_check srv rq k claims st = (Inr c1, st1)" and "run_checks srv rq ks c1 st1 = (Inr claims', st')"
    by (auto split: prod.splits sum.splits)
  with run_check_other [OF k] 2(3) 2(1) [OF k [symmetric] refl] show ?case by auto
qed simp

lemma admits_only_iff: "admits_only roles k \<longleftrightarrow> (\<exists>rs. k = NeedRole rs \<and> set rs \<subseteq> set roles)"
  by (cases k) (auto simp: admits_only_def list_all_iff)

lemma checks_enforce:
  assumes "run_checks srv rq ks None st = (Inr claims, st')" and "enforces roles ks"
  shows "\<exists>c. claims = Some c \<and> token_of srv rq c \<and> AC_Role c \<in> set roles"
proof -
  from assms(2) obtain ks' where ks: "ks = NeedToken # ks'" "\<not> list_ex is_token_check ks'"
    and roles: "list_ex (admits_only roles) ks' \<or> {RoleViewer, RoleStreamer, RoleAgency, RoleAdmin} \<subseteq> set roles"
    by (auto simp: enforces_def is_token_check_def split: list.splits check.splits)
  from assms(1) ks(1) obtain c1 st1 where k: "run_check srv rq NeedToken None st = (Inr c1, st1)" "run_checks srv rq ks' c1 st1 = (Inr claims, st')"
    by (auto split: prod.splits sum.splits)
  from run_check_token [OF k(1)] run_checks_others [OF k(2) ks(2)] obtain c where c: "claims = Some c" "token_of srv rq c"
    "\<forall>rs. NeedRole rs \<in> set ks' \<longrightarrow> AC_Role c \<in> set rs" by auto
  have "AC_Role c \<in> set roles"
  proof (cases "list_ex (admits_only roles) ks'")
    case True
    then obtain rs where "NeedRole rs \<in> set ks'" "set rs \<subseteq> set roles"
      by (auto simp: list_ex_iff admits_only_iff)
    with c(3) show ?thesis by blast
  next
    case False
    with roles show ?thesis by (cases "AC_Role c") auto
  qed
  with c show ?thesis by blast
qed

lemma run_check_db: "run_check srv rq k claims st = (x, st') \<Longrightarrow> w_db (fst st') = w_db (fst st)"
  by (auto simp: run_check_def JWTAuth_def ValidateAccessToken_def ret_def fail_def now_def bnd_def handle_def tick_def
    split: check.splits prod.splits if_splits sum.splits option.splits verdict.splits)

lemma run_check_refuses: "run_check srv rq k claims st = (Inl a, st') \<Longrightarrow> 400 \<le> RY_Status a"
  by (auto simp: run_check_def JWTAuth_def ValidateAccessToken_def RequireRole_def TachiyaInternalAuth_def Limit_def ret_def fail_def now_def
    bnd_def handle_def answer_def Let_def split: check.splits prod.splits if_splits sum.splits option.splits verdict.splits)

lemma run_checks_refused:
  "run_checks srv rq ks claims st = (Inl a, st') \<Longrightarrow> w_db (fst st') = w_db (fst st) \<and> 400 \<le> RY_Status a"
proof (induction srv rq ks claims st rule: run_checks.induct)
  case (2 srv rq k ks claims st)
  then show ?case
    by (auto split: prod.splits sum.splits dest: run_check_db run_check_refuses)
qed simp

text \<open>C33. Behind the prefixes of the policy nothing is read or written without a token that validates for a role
  of the policy: an answer that is not an error, or any change of the tables, needs one. The only exception is
  the router's own redirect of a path with a slash too many to the path without it, which reaches no handler.\<close>

theorem access_controlled:
  assumes "(m, pre, roles) \<in> set access_policy" and "m = [] \<or> m = RQ_Method rq"
    and "take (length (segments pre)) (RQ_Path rq) = segments pre" and "SR_cors srv rq = None"
    and run: "ServeHTTP srv rq (w, es) = Some (a, (w', es'))"
    and "RY_Status a < 400 \<and> slash_redirect srv rq = None \<or> w_db w' \<noteq> w_db w"
  shows "\<exists>c token t. RQ_Header rq ''Authorization'' = ''Bearer '' @ token \<and> AC_Role c \<in> set roles \<and>
    LB_jwtParse (AU_lib (auth_of srv)) token
      (\<lambda>hmac. if hmac then Inr (AU_accessSecret (auth_of srv)) else Inl (Errorf ''unexpected signing method'')) t = Inr (c, True)"
proof -
  from run assms(6) have slash: "slash_redirect srv rq = None" by (auto simp: ServeHTTP_def split: option.splits)
  with run assms(4,6) obtain r where r: "find_route srv rq = Some r"
    by (auto simp: ServeHTTP_def answer_def split: option.splits)
  then have mem: "r \<in> set (api_routes srv)" "RT_Method r = RQ_Method rq" "path_matches (RT_Path r) (RQ_Path rq)"
    by (auto simp: find_route_def find_Some_iff)
  from run assms(4) r slash have "\<exists>claims st'. run_checks srv rq (RT_Checks r) None (w, es) = (Inr claims, st')"
    using run_checks_refused [of srv rq "RT_Checks r" None "(w, es)"] assms(6)
    by (cases "run_checks srv rq (RT_Checks r) None (w, es)"; cases "fst (run_checks srv rq (RT_Checks r) None (w, es))")
      (fastforce simp: ServeHTTP_def)+
  with checks_enforce route_enforces [OF assms(1) mem(1) _ mem(3) assms(3)] assms(2) mem(2)
  obtain c where "token_of srv rq c" "AC_Role c \<in> set roles" by metis
  then show ?thesis unfolding token_of_def by blast
qed

definition providers_request :: "peer \<Rightarrow> bodies \<Rightarrow> request" where
  "providers_request p b = \<lparr>RQ_Method = ''GET'', RQ_Path = [''api'', ''v1'', ''users'', ''me'', ''providers''], RQ_Query = Map.empty,
     RQ_Header = (\<lambda>k. if k = ''Authorization'' then ''Bearer t'' else []), RQ_Cookie = Map.empty, RQ_ClientIP = [],
     RQ_RemoteAddr = [], RQ_Peer = p, RQ_Body = b\<rparr>"

definition example_server :: "server \<Rightarrow> server" where
  "example_server srv = srv\<lparr>SR_web := (SR_web srv)\<lparr>AH_auth := toy_auth\<rparr>, SR_cors := \<lambda>rq. None\<rparr>"

definition providers_route :: route where
  "providers_route = route ''GET'' ''/api/v1/users/me/providers'' [NeedToken] (\<lambda>srv rq p c. json (ListProvidersH (SR_http srv) c))"

lemma in_group: "r \<in> set rs \<Longrightarrow> r\<lparr>RT_Path := segments p @ RT_Path r, RT_Checks := cs @ RT_Checks r\<rparr> \<in> set (group p cs rs)"
  by (simp add: group_def)

lemma providers_route_in: "providers_route \<in> set (api_routes srv)"
proof -
  let ?r = "route ''GET'' ''users/me/providers'' [] (\<lambda>srv rq p c. json (ListProvidersH (SR_http srv) c))"
  have "?r\<lparr>RT_Path := segments ''/'' @ RT_Path ?r, RT_Checks := [NeedToken] @ RT_Checks ?r\<rparr> \<in> set protected_routes"
    unfolding protected_routes_def by (rule in_group) (simp only: set_append list.set Un_iff insert_iff, blast)
  then have "?r\<lparr>RT_Path := segments ''/'' @ RT_Path ?r, RT_Checks := [NeedToken] @ RT_Checks ?r\<rparr> \<in>
      set (auth_routes @ claim_routes @ extension_routes @ protected_routes @ dashboard_routes @
       internal_routes srv @ agency_routes @ event_routes)" by (simp only: set_append Un_iff) blast
  from in_group [OF this, where p = "''/api/v1''" and cs = "[]"] show ?thesis
    unfolding api_routes_def by (simp add: providers_route_def route_def)
qed

theorem routes_unambiguous_witness:
  "\<forall>srv p b. find_route srv (providers_request p b) = Some providers_route"
proof (intro allI)
  fix srv p b
  have "RT_Method providers_route = RQ_Method (providers_request p b)"
    "path_matches (RT_Path providers_route) (RQ_Path (providers_request p b))"
    by (simp_all add: providers_route_def providers_request_def route_def is_param_def)
  from routes_unambiguous [OF providers_route_in this] show "find_route srv (providers_request p b) = Some providers_route"
    by blast
qed

theorem access_controlled_witness:
  "\<forall>srv p b. \<exists>a w' es' token. ServeHTTP (example_server srv) (providers_request p b) (start (\<lambda>n. 0) account_3, []) = Some (a, (w', es')) \<and>
     RY_Status a = 200 \<and> RQ_Header (providers_request p b) ''Authorization'' = ''Bearer '' @ token"
proof (intro allI)
  fix srv p b
  let ?srv = "example_server srv" and ?rq = "providers_request p b"
  have r: "find_route ?srv ?rq = Some providers_route"
    by (intro find_routeI providers_route_in) (simp_all add: providers_route_def providers_request_def route_def is_param_def)
  have cors: "SR_cors ?srv ?rq = None" by (simp add: example_server_def)
  have slash: "slash_redirect ?srv ?rq = None" by (simp add: slash_redirect_def r)
  have "\<exists>a w' es'. ServeHTTP ?srv ?rq (start (\<lambda>n. 0) account_3, []) = Some (a, (w', es')) \<and> RY_Status a = 200"
    by (simp add: ServeHTTP_def r cors slash) (simp add: providers_route_def route_def run_check_def JWTAuth_def ValidateAccessToken_def auth_of_def
      example_server_def toy_auth_def toy_lib_def toy_claims_def second_def TrimPrefix_def providers_request_def json_def of_response_def answer_def ListProvidersH_def
      me_def mustClaims_def orInternal_def ListProvidersContext_def okR_def run_defs)
  then obtain a w' es' where run: "ServeHTTP ?srv ?rq (start (\<lambda>n. 0) account_3, []) = Some (a, (w', es'))" "RY_Status a = 200" by blast
  have rule: "([], ''/api/v1/users'', [RoleViewer, RoleStreamer, RoleAgency, RoleAdmin]) \<in> set access_policy"
    by (simp add: access_policy_def)
  from access_controlled [OF rule _ _ cors run(1)] run(2) slash
  have "\<exists>token. RQ_Header ?rq ''Authorization'' = ''Bearer '' @ token" by (auto simp: providers_request_def)
  with run show "\<exists>a w' es' token. ServeHTTP ?srv ?rq (start (\<lambda>n. 0) account_3, []) = Some (a, (w', es')) \<and>
     RY_Status a = 200 \<and> RQ_Header ?rq ''Authorization'' = ''Bearer '' @ token" by blast
qed

end
