(* ===== verification/Startup.thy ===== *)
theory Startup
  imports Router
begin

text \<open>
  \<open>internal/config/config.go\<close> and the start of \<open>cmd/server\<close>: the settings read from the environment, the checks that stop
  a start with unsafe settings, the repair of old claim tokens, and the services that are built from the settings.

  The environment is the function that \<open>os.Getenv\<close> is, empty for a variable that is not set. A \<open>float64\<close> is a number or
  one of the special values; how \<open>strconv.ParseFloat\<close> rounds a decimal text is a parameter.
\<close>

section \<open>Reading values\<close>

type_synonym environ = "string \<Rightarrow> string"

datatype float64 = NaN | PosInf | NegInf | Finite rat

fun parse_uint :: "nat \<Rightarrow> string \<Rightarrow> nat option" where
  "parse_uint n [] = Some n"
| "parse_uint n (c # s) =
     (if \<not> cont 48 57 c then None
      else let m = 10 * n + (of_char c - 48) in if m > 18446744073709551615 then Some 18446744073709551615 else parse_uint m s)"

text \<open>\<open>strconv.Atoi\<close>: the value, and whether there was no error. A text out of range gives the nearest \<open>int\<close>.\<close>

definition Atoi :: "string \<Rightarrow> int \<times> bool" where
  "Atoi s =
     (let neg = (s \<noteq> [] \<and> hd s = CHR ''-'');
          digits = (if s \<noteq> [] \<and> (hd s = CHR ''-'' \<or> hd s = CHR ''+'') then tl s else s)
      in if digits = [] then (0, False)
         else (case parse_uint 0 digits of
             None \<Rightarrow> (0, False)
           | Some n \<Rightarrow> let v = (if neg then - int n else int n) in
               if v > max_i64 then (max_i64, False) else if v < min_i64 then (min_i64, False) else (v, True)))"

definition ParseBool :: "string \<Rightarrow> bool option" where
  "ParseBool s = (if s \<in> {''1'', ''t'', ''T'', ''TRUE'', ''true'', ''True''} then Some True
     else if s \<in> {''0'', ''f'', ''F'', ''FALSE'', ''false'', ''False''} then Some False else None)"

fun split_comma :: "string \<Rightarrow> string list" where
  "split_comma [] = [[]]"
| "split_comma (c # s) = (if c = CHR '','' then [] # split_comma s else (case split_comma s of p # ps \<Rightarrow> (c # p) # ps | [] \<Rightarrow> [[c]]))"

text \<open>\<open>strings.Cut(s, "=")\<close>.\<close>

definition cut_equals :: "string \<Rightarrow> (string \<times> string) option" where
  "cut_equals s = (if CHR ''='' \<in> set s
     then Some (takeWhile (\<lambda>c. c \<noteq> CHR ''='') s, tl (dropWhile (\<lambda>c. c \<noteq> CHR ''='') s)) else None)"

definition getEnvWithPresence :: "environ \<Rightarrow> string \<Rightarrow> string \<Rightarrow> string \<times> bool" where
  "getEnvWithPresence env key fallback = (if env key \<noteq> [] then (env key, True) else (fallback, False))"

definition getEnv :: "environ \<Rightarrow> string \<Rightarrow> string \<Rightarrow> string" where
  "getEnv env key fallback = fst (getEnvWithPresence env key fallback)"

definition getBoolEnvWithPresence :: "environ \<Rightarrow> string \<Rightarrow> bool \<Rightarrow> bool \<times> bool" where
  "getBoolEnvWithPresence env key fallback =
     (case getEnvWithPresence env key [] of (raw, ok) \<Rightarrow>
        if \<not> ok then (fallback, False)
        else (case ParseBool raw of None \<Rightarrow> (fallback, True) | Some v \<Rightarrow> (v, True)))"

definition getBoolEnv :: "environ \<Rightarrow> string \<Rightarrow> bool \<Rightarrow> bool" where
  "getBoolEnv env key fallback =
     (if env key = [] then fallback else (case ParseBool (env key) of None \<Rightarrow> fallback | Some b \<Rightarrow> b))"

definition getPositiveIntEnv :: "environ \<Rightarrow> string \<Rightarrow> int \<Rightarrow> int" where
  "getPositiveIntEnv env key fallback =
     (if env key = [] then fallback
      else (case Atoi (env key) of (v, ok) \<Rightarrow> if \<not> ok \<or> v \<le> 0 then fallback else v))"

definition getFloatEnv :: "(string \<Rightarrow> float64 option) \<Rightarrow> environ \<Rightarrow> string \<Rightarrow> float64 \<Rightarrow> float64" where
  "getFloatEnv ParseFloat env key fallback =
     (if env key = [] then fallback else (case ParseFloat (env key) of None \<Rightarrow> fallback | Some v \<Rightarrow> v))"

definition getCommaEnv :: "environ \<Rightarrow> string \<Rightarrow> string list \<Rightarrow> string list" where
  "getCommaEnv env key fallback = (if env key = [] then fallback else map TrimSpace (split_comma (env key)))"

text \<open>A Go map that is nil reads like an empty one.\<close>

definition put_pair :: "string \<Rightarrow> (string \<rightharpoonup> string) \<Rightarrow> (string \<rightharpoonup> string)" where
  "put_pair part vs = (case cut_equals part of
     None \<Rightarrow> vs
   | Some (n, v) \<Rightarrow> if TrimSpace n = [] \<or> TrimSpace v = [] then vs else vs(TrimSpace n \<mapsto> TrimSpace v))"

definition getMapEnv :: "environ \<Rightarrow> string \<Rightarrow> (string \<rightharpoonup> string)" where
  "getMapEnv env key =
     (let raw = TrimSpace (env key) in if raw = [] then Map.empty else fold put_pair (split_comma raw) Map.empty)"

section \<open>The settings\<close>

record ContractConfig =
  CC_TachiContractAddress :: string
  CC_SepoliaSignerKey :: string
  CC_RPCEndpoint :: string

record InternalConfig =
  IC_TachiyaSharedSecret :: string
  IC_TachiyaBaseURL :: string

record TracingConfig =
  TC_Enabled :: bool
  TC_ServiceName :: string
  TC_Environment :: string
  TC_SampleRatio :: float64
  TC_OTLPTracesEndpoint :: string
  TC_OTLPInsecure :: bool
  TC_OTLPHeaders :: "string \<rightharpoonup> string"

record MetricsConfig =
  MC_EnableMetrics :: bool
  MC_BearerToken :: string

record SMTPConfig =
  SM_Host :: string
  SM_Port :: int
  SM_Username :: string
  SM_Password :: string
  SM_From :: string

record AppConfig =
  AP_FrontendURL :: string

record ServerConfig =
  SV_Port :: string
  SV_Env :: string
  SV_EnvSet :: bool
  SV_LogLevel :: string
  SV_EnableSwagger :: bool
  SV_EnableSwaggerSet :: bool
  SV_EnableAutoMigrate :: bool
  SV_EnableScheduler :: bool
  SV_AllowedOrigins :: "string list"
  SV_GinMode :: string
  SV_TrustedProxies :: "string list"
  SV_RequestTimeout :: int

record JWTConfig =
  JW_AccessSecret :: string
  JW_RefreshSecret :: string
  JW_AccessTTL :: int
  JW_RefreshTTL :: int

record TwitchConfig =
  TW_ClientID :: string
  TW_ClientSecret :: string
  TW_RedirectURL :: string
  TW_ExtensionSecret :: string

record GoogleConfig =
  GO_ClientID :: string
  GO_ClientSecret :: string
  GO_RedirectURL :: string

record OAuthConfig =
  OA_Twitch :: TwitchConfig
  OA_Google :: GoogleConfig
  OA_TokenEncryptionKey :: string

record Config =
  CF_Server :: ServerConfig
  CF_DSN :: string
  CF_JWT :: JWTConfig
  CF_OAuth :: OAuthConfig
  CF_SMTP :: SMTPConfig
  CF_App :: AppConfig
  CF_Contract :: ContractConfig
  CF_Internal :: InternalConfig
  CF_Tracing :: TracingConfig
  CF_Metrics :: MetricsConfig

definition defaultJWTAccessSecret :: string where
  "defaultJWTAccessSecret = ''change-me-access-secret''"

definition defaultJWTRefreshSecret :: string where
  "defaultJWTRefreshSecret = ''change-me-refresh-secret''"

text \<open>The \<open>float64\<close> nearest to 0.05.\<close>

definition defaultSampleRatio :: float64 where
  "defaultSampleRatio = Finite (3602879701896397 / 72057594037927936)"

text \<open>A product of \<open>time.Duration\<close> is computed modulo \<open>2 ^ 64\<close>; an error of \<open>Atoi\<close> is ignored for the lifetimes and the mail port.\<close>

definition serverConfig :: "environ \<Rightarrow> ServerConfig" where
  "serverConfig env =
     (case getEnvWithPresence env ''APP_ENV'' ''development'' of (appEnv, appEnvSet) \<Rightarrow>
      let isProduction = (appEnvSet \<and> appEnv = ''production'') in
      case getBoolEnvWithPresence env ''ENABLE_SWAGGER'' (\<not> isProduction) of (swagger, swaggerSet) \<Rightarrow>
      \<lparr>SV_Port = getEnv env ''PORT'' ''8080'', SV_Env = appEnv, SV_EnvSet = appEnvSet,
       SV_LogLevel = getEnv env ''LOG_LEVEL'' ''info'', SV_EnableSwagger = swagger, SV_EnableSwaggerSet = swaggerSet,
       SV_EnableAutoMigrate = getBoolEnv env ''ENABLE_AUTOMIGRATE'' True, SV_EnableScheduler = getBoolEnv env ''ENABLE_SCHEDULER'' True,
       SV_AllowedOrigins = getCommaEnv env ''ALLOWED_ORIGINS'' [''http://localhost:3000'', ''http://localhost:5173''],
       SV_GinMode = getEnv env ''GIN_MODE'' (if isProduction then ''release'' else ''debug''),
       SV_TrustedProxies = getCommaEnv env ''TRUSTED_PROXIES'' [],
       SV_RequestTimeout = i64 (getPositiveIntEnv env ''REQUEST_TIMEOUT_SECONDS'' 30 * second)\<rparr>)"

definition jwtConfig :: "environ \<Rightarrow> JWTConfig" where
  "jwtConfig env =
     \<lparr>JW_AccessSecret = getEnv env ''JWT_ACCESS_SECRET'' defaultJWTAccessSecret,
      JW_RefreshSecret = getEnv env ''JWT_REFRESH_SECRET'' defaultJWTRefreshSecret,
      JW_AccessTTL = i64 (fst (Atoi (getEnv env ''JWT_ACCESS_TTL_MINUTES'' ''15'')) * minute),
      JW_RefreshTTL = i64 (i64 (fst (Atoi (getEnv env ''JWT_REFRESH_TTL_DAYS'' ''30'')) * 24) * hour)\<rparr>"

definition oauthConfig :: "environ \<Rightarrow> OAuthConfig" where
  "oauthConfig env =
     \<lparr>OA_Twitch = \<lparr>TW_ClientID = getEnv env ''TWITCH_CLIENT_ID'' [], TW_ClientSecret = getEnv env ''TWITCH_CLIENT_SECRET'' [],
        TW_RedirectURL = getEnv env ''TWITCH_REDIRECT_URL'' ''http://localhost:8080/api/v1/auth/twitch/callback'',
        TW_ExtensionSecret = getEnv env ''TWITCH_EXTENSION_SECRET'' []\<rparr>,
      OA_Google = \<lparr>GO_ClientID = getEnv env ''GOOGLE_CLIENT_ID'' [], GO_ClientSecret = getEnv env ''GOOGLE_CLIENT_SECRET'' [],
        GO_RedirectURL = getEnv env ''GOOGLE_REDIRECT_URL'' ''http://localhost:8080/api/v1/auth/google/callback''\<rparr>,
      OA_TokenEncryptionKey = getEnv env ''OAUTH_TOKEN_ENCRYPTION_KEY'' []\<rparr>"

definition tracingConfig :: "(string \<Rightarrow> float64 option) \<Rightarrow> environ \<Rightarrow> TracingConfig" where
  "tracingConfig ParseFloat env =
     \<lparr>TC_Enabled = getBoolEnv env ''TRACING_ENABLED'' False, TC_ServiceName = getEnv env ''OTEL_SERVICE_NAME'' ''tachigo-api'',
      TC_Environment = getEnv env ''OTEL_ENVIRONMENT'' (fst (getEnvWithPresence env ''APP_ENV'' ''development'')),
      TC_SampleRatio = getFloatEnv ParseFloat env ''OTEL_TRACES_SAMPLE_RATIO'' defaultSampleRatio,
      TC_OTLPTracesEndpoint = getEnv env ''OTEL_EXPORTER_OTLP_TRACES_ENDPOINT'' [],
      TC_OTLPInsecure = getBoolEnv env ''OTEL_EXPORTER_OTLP_TRACES_INSECURE'' False,
      TC_OTLPHeaders = getMapEnv env ''OTEL_EXPORTER_OTLP_HEADERS''\<rparr>"

definition Load :: "(string \<Rightarrow> float64 option) \<Rightarrow> environ \<Rightarrow> Config" where
  "Load ParseFloat env =
     \<lparr>CF_Server = serverConfig env,
      CF_DSN = getEnv env ''DATABASE_URL'' ''host=localhost user=postgres password=postgres dbname=tachigo port=5432 sslmode=disable'',
      CF_JWT = jwtConfig env,
      CF_OAuth = oauthConfig env,
      CF_SMTP = \<lparr>SM_Host = getEnv env ''SMTP_HOST'' [], SM_Port = fst (Atoi (getEnv env ''SMTP_PORT'' ''587'')),
        SM_Username = getEnv env ''SMTP_USERNAME'' [], SM_Password = getEnv env ''SMTP_PASSWORD'' [],
        SM_From = getEnv env ''SMTP_FROM'' ''noreply@tachigo.io''\<rparr>,
      CF_App = \<lparr>AP_FrontendURL = getEnv env ''FRONTEND_URL'' ''http://localhost:3000''\<rparr>,
      CF_Contract = \<lparr>CC_TachiContractAddress = getEnv env ''TACHI_CONTRACT_ADDRESS'' [],
        CC_SepoliaSignerKey = getEnv env ''SEPOLIA_SIGNER_KEY'' [],
        CC_RPCEndpoint = getEnv env ''SEPOLIA_RPC_URL'' ''https://ethereum-sepolia-rpc.publicnode.com''\<rparr>,
      CF_Internal = \<lparr>IC_TachiyaSharedSecret = getEnv env ''TACHIYA_INTERNAL_SHARED_SECRET'' [],
        IC_TachiyaBaseURL = getEnv env ''TACHIYA_BASE_URL'' ''http://localhost:8001''\<rparr>,
      CF_Tracing = tracingConfig ParseFloat env,
      CF_Metrics = \<lparr>MC_EnableMetrics = getBoolEnv env ''ENABLE_METRICS'' False,
        MC_BearerToken = TrimSpace (getEnv env ''METRICS_BEARER_TOKEN'' [])\<rparr>\<rparr>"

section \<open>Checks\<close>

text \<open>A check answers the message of its error.\<close>

definition ShouldValidateProductionSecrets :: "Config option \<Rightarrow> bool" where
  "ShouldValidateProductionSecrets c = (case c of
     None \<Rightarrow> True
   | Some cfg \<Rightarrow> \<not> SV_EnvSet (CF_Server cfg) \<or> SV_Env (CF_Server cfg) \<noteq> ''development'')"

definition ShouldEnableSwagger :: "Config option \<Rightarrow> bool" where
  "ShouldEnableSwagger c = (case c of
     None \<Rightarrow> True
   | Some cfg \<Rightarrow>
       if SV_EnableSwaggerSet (CF_Server cfg) then SV_EnableSwagger (CF_Server cfg)
       else ToLower (SV_Env (CF_Server cfg)) \<in> {[], ''development'', ''dev'', ''local''})"

definition validateJWTSecret :: "string \<Rightarrow> string \<Rightarrow> string \<Rightarrow> string option" where
  "validateJWTSecret name v fallback =
     (if v = [] then Some (name @ '' must not be empty'')
      else if v = fallback then Some (name @ '' must not use the default value'')
      else if length v < 32 then Some (name @ '' must be at least 32 characters'')
      else None)"

definition validateRequiredProductionValue :: "string \<Rightarrow> string \<Rightarrow> string \<Rightarrow> string option" where
  "validateRequiredProductionValue name v flow =
     (if TrimSpace v = [] then Some (name @ '' must be configured when '' @ flow @ '' in production'') else None)"

text \<open>The ratio: not finite, or outside the interval.\<close>

definition bad_ratio :: "float64 \<Rightarrow> bool" where
  "bad_ratio r = (case r of Finite q \<Rightarrow> q < 0 \<or> q > 1 | _ \<Rightarrow> True)"

definition ValidateTracing :: "TracingConfig \<Rightarrow> string option" where
  "ValidateTracing t =
     (if \<not> TC_Enabled t then None
      else if bad_ratio (TC_SampleRatio t)
        then Some ''OTEL_TRACES_SAMPLE_RATIO must be a finite value between 0 and 1 when tracing is enabled''
      else if TrimSpace (TC_OTLPTracesEndpoint t) = []
        then Some ''OTEL_EXPORTER_OTLP_TRACES_ENDPOINT must be configured when tracing is enabled''
      else if TrimSpace (TC_ServiceName t) = [] then Some ''OTEL_SERVICE_NAME must be configured when tracing is enabled''
      else None)"

text \<open>The first error of a sequence of checks.\<close>

fun first_error :: "string option list \<Rightarrow> string option" where
  "first_error [] = None"
| "first_error (Some e # es) = Some e"
| "first_error (None # es) = first_error es"

definition requiredValues :: "Config \<Rightarrow> (string \<times> string \<times> string) list" where
  "requiredValues cfg =
     [(''TWITCH_CLIENT_ID'', TW_ClientID (OA_Twitch (CF_OAuth cfg)), ''Twitch OAuth and raffle snapshot flows are enabled''),
      (''TWITCH_CLIENT_SECRET'', TW_ClientSecret (OA_Twitch (CF_OAuth cfg)), ''Twitch OAuth is enabled''),
      (''TWITCH_EXTENSION_SECRET'', TW_ExtensionSecret (OA_Twitch (CF_OAuth cfg)), ''Twitch Extension auth is enabled''),
      (''GOOGLE_CLIENT_ID'', GO_ClientID (OA_Google (CF_OAuth cfg)), ''Google OAuth is enabled''),
      (''GOOGLE_CLIENT_SECRET'', GO_ClientSecret (OA_Google (CF_OAuth cfg)), ''Google OAuth is enabled''),
      (''TACHIYA_INTERNAL_SHARED_SECRET'', IC_TachiyaSharedSecret (CF_Internal cfg), ''Tachiya coupon handoff is enabled''),
      (''OAUTH_TOKEN_ENCRYPTION_KEY'', OA_TokenEncryptionKey (CF_OAuth cfg), ''OAuth token persistence is enabled'')]"

definition ValidateProductionSecrets :: "Config option \<Rightarrow> string option" where
  "ValidateProductionSecrets c = (case c of
     None \<Rightarrow> Some ''config is required''
   | Some cfg \<Rightarrow> first_error ([
       validateJWTSecret ''JWT_ACCESS_SECRET'' (JW_AccessSecret (CF_JWT cfg)) defaultJWTAccessSecret,
       validateJWTSecret ''JWT_REFRESH_SECRET'' (JW_RefreshSecret (CF_JWT cfg)) defaultJWTRefreshSecret,
       (if JW_AccessSecret (CF_JWT cfg) = JW_RefreshSecret (CF_JWT cfg)
        then Some ''JWT_ACCESS_SECRET and JWT_REFRESH_SECRET must be different'' else None),
       (if SM_Host (CF_SMTP cfg) = []
        then Some ''SMTP_HOST must be configured when email-dependent production flows are enabled'' else None),
       ValidateTracing (CF_Tracing cfg),
       (if MC_EnableMetrics (CF_Metrics cfg) \<and> TrimSpace (MC_BearerToken (CF_Metrics cfg)) = []
        then Some ''METRICS_BEARER_TOKEN must be configured when ENABLE_METRICS is true in production'' else None)] @
       map (\<lambda>(name, v, flow). validateRequiredProductionValue name v flow) (requiredValues cfg)))"

section \<open>The start of the server\<close>

text \<open>\<open>length(claim_token)\<close> counts characters; a row whose token was stored raw gets its hash.
  The cast to \<^verbatim>\<open>bytea\<close> is the identity on a text without backslashes, as the raw tokens, which are UUIDs, all are.\<close>

definition legacy_token :: "RaffleDraw \<Rightarrow> bool" where
  "legacy_token x \<longleftrightarrow> RuneCountInString (RD_ClaimToken x) = 36"

definition draws_check :: "RaffleDraw list \<Rightarrow> db_error option" where
  "draws_check rows = dup_if (\<not> distinct (map RD_ClaimToken rows))"

definition hashLegacyRaffleClaimTokens :: "nat m" where
  "hashLegacyRaffleClaimTokens =
     update_where t_raffle_draws t_raffle_draws_update draws_check legacy_token
       (\<lambda>_ x. x\<lparr>RD_ClaimToken := hashClaimToken (RD_ClaimToken x)\<rparr>)"

text \<open>Mail is sent only when a host is configured; the no-op mailer only logs.\<close>

datatype Mailer = NoOpMailer | SMTPMailer SMTPConfig

definition NewMailer :: "SMTPConfig \<Rightarrow> Mailer" where
  "NewMailer smtp = (if SM_Host smtp = [] then NoOpMailer else SMTPMailer smtp)"

text \<open>The secret under which provider tokens are stored.\<close>

definition oauthTokenSecret :: "Config \<Rightarrow> string" where
  "oauthTokenSecret cfg =
     (if OA_TokenEncryptionKey (CF_OAuth cfg) = [] then JW_RefreshSecret (CF_JWT cfg) else OA_TokenEncryptionKey (CF_OAuth cfg))"

definition startRaffleScheduler :: "Config \<Rightarrow> bool" where
  "startRaffleScheduler cfg = SV_EnableScheduler (CF_Server cfg)"

text \<open>\<open>/metrics\<close> is mounted with its token when metrics are enabled.\<close>

definition metricsRoute :: "Config \<Rightarrow> string option" where
  "metricsRoute cfg = (if MC_EnableMetrics (CF_Metrics cfg) then Some (MC_BearerToken (CF_Metrics cfg)) else None)"

text \<open>
  \<open>main\<close> up to the server that listens: the settings it runs with, or the message it stops with. The exporter of traces
  is outside the repository: \<open>exporter\<close> answers its error.
\<close>

definition checkSecrets :: "Config \<Rightarrow> string option" where
  "checkSecrets cfg = (if ShouldValidateProductionSecrets (Some cfg) then ValidateProductionSecrets (Some cfg) else None)"

definition ConfigureProvider :: "(TracingConfig \<Rightarrow> string option) \<Rightarrow> TracingConfig \<Rightarrow> string option" where
  "ConfigureProvider exporter t =
     (if \<not> TC_Enabled t then None
      else (case ValidateTracing t of Some e \<Rightarrow> Some e | None \<Rightarrow> exporter t))"

definition main :: "(string \<Rightarrow> float64 option) \<Rightarrow> (TracingConfig \<Rightarrow> string option) \<Rightarrow> environ \<Rightarrow> (string + Config) m" where
  "main ParseFloat exporter env =
     (let cfg = Load ParseFloat env in
      case checkSecrets cfg of
        Some e \<Rightarrow> ret (Inl (''invalid secrets: '' @ e))
      | None \<Rightarrow> bnd hashLegacyRaffleClaimTokens (\<lambda>_.
          case ConfigureProvider exporter (CF_Tracing cfg) of
            Some e \<Rightarrow> ret (Inl (''invalid tracing config: '' @ e))
          | None \<Rightarrow>
              if SV_Env (CF_Server cfg) = ''production'' \<and> TW_ClientID (OA_Twitch (CF_OAuth cfg)) = []
              then ret (Inl ''TWITCH_CLIENT_ID is required in production for raffle snapshot sync'')
              else ret (Inr cfg)))"

end
