(* ===== verification/StartupProps.thy ===== *)
theory StartupProps
  imports Startup RaffleProps
begin

text \<open>
  What the start of the server promises: outside development it runs only with safe settings, and the repair of old claim
  tokens keeps the links in the winners' hands working.
\<close>

section \<open>Safe settings\<close>

lemma first_error_None: "first_error es = None \<longleftrightarrow> (\<forall>e \<in> set es. e = None)"
  by (induction es rule: first_error.induct) auto

lemma validateJWTSecret_None:
  "validateJWTSecret name v fallback = None \<longleftrightarrow> v \<noteq> fallback \<and> 32 \<le> length v"
  by (auto simp: validateJWTSecret_def)

lemma guard_header: "MetricsBearerGuard token header \<Longrightarrow> token \<noteq> [] \<Longrightarrow> header = ''Bearer '' @ token"
  by (auto simp: MetricsBearerGuard_def HasPrefix_iff TrimPrefix_def HasPrefix_append)

lemma validated:
  assumes "ValidateProductionSecrets (Some cfg) = None"
  shows "JW_AccessSecret (CF_JWT cfg) \<noteq> defaultJWTAccessSecret \<and> 32 \<le> length (JW_AccessSecret (CF_JWT cfg))"
    and "JW_RefreshSecret (CF_JWT cfg) \<noteq> defaultJWTRefreshSecret \<and> 32 \<le> length (JW_RefreshSecret (CF_JWT cfg))"
    and "JW_AccessSecret (CF_JWT cfg) \<noteq> JW_RefreshSecret (CF_JWT cfg)"
    and "SM_Host (CF_SMTP cfg) \<noteq> []" and "ValidateTracing (CF_Tracing cfg) = None"
    and "MC_EnableMetrics (CF_Metrics cfg) \<Longrightarrow> TrimSpace (MC_BearerToken (CF_Metrics cfg)) \<noteq> []"
    and "(name, v, flow) \<in> set (requiredValues cfg) \<Longrightarrow> TrimSpace v \<noteq> []"
  using assms
  by (auto simp: ValidateProductionSecrets_def first_error_None validateJWTSecret_None validateRequiredProductionValue_def
      split: if_splits)

lemma main_Inr:
  "main pf ex env w = (Inr (Inr cfg), w') \<Longrightarrow> cfg = Load pf env \<and> checkSecrets cfg = None \<and>
    ConfigureProvider ex (CF_Tracing cfg) = None \<and> (\<exists>n. hashLegacyRaffleClaimTokens w = (Inr n, w'))"
  by (auto simp: main_def Let_def run_simps split: option.splits if_splits)

lemma TrimSpace_Nil [simp]: "TrimSpace [] = []"
  by (simp add: TrimSpace_def strip_front.simps)

lemma Load_sel:
  "CF_Server (Load pf env) = serverConfig env" "CF_JWT (Load pf env) = jwtConfig env" "CF_OAuth (Load pf env) = oauthConfig env"
  "CF_Tracing (Load pf env) = tracingConfig pf env" "SM_Host (CF_SMTP (Load pf env)) = env ''SMTP_HOST''"
  "IC_TachiyaSharedSecret (CF_Internal (Load pf env)) = env ''TACHIYA_INTERNAL_SHARED_SECRET''"
  "MC_BearerToken (CF_Metrics (Load pf env)) = TrimSpace (env ''METRICS_BEARER_TOKEN'')"
  "MC_EnableMetrics (CF_Metrics (Load pf env)) = getBoolEnv env ''ENABLE_METRICS'' False"
  by (simp_all add: Load_def getEnv_def getEnvWithPresence_def)

lemma oauth_sel:
  "TW_ClientID (OA_Twitch (oauthConfig env)) = env ''TWITCH_CLIENT_ID''"
  "TW_ClientSecret (OA_Twitch (oauthConfig env)) = env ''TWITCH_CLIENT_SECRET''"
  "TW_ExtensionSecret (OA_Twitch (oauthConfig env)) = env ''TWITCH_EXTENSION_SECRET''"
  "GO_ClientID (OA_Google (oauthConfig env)) = env ''GOOGLE_CLIENT_ID''"
  "GO_ClientSecret (OA_Google (oauthConfig env)) = env ''GOOGLE_CLIENT_SECRET''"
  "OA_TokenEncryptionKey (oauthConfig env) = env ''OAUTH_TOKEN_ENCRYPTION_KEY''"
  by (simp_all add: oauthConfig_def getEnv_def getEnvWithPresence_def)

text \<open>C25. A server that starts outside development has safe settings: two different signing secrets of at least 32 bytes, neither
  of them the published default; the Twitch client's name and secret, the Twitch extension's secret, the Google client's name and
  secret, the secret shared with Tachiya and the key for stored provider tokens come from their seven variables and none of these is
  blank; mail that is really sent; the provider tokens encrypted with their own key; traces with a valid sampling ratio; and
  metrics that nobody reads without the token.\<close>

theorem main_starts_safely:
  assumes "main pf ex env w = (Inr (Inr cfg), w')" and "env ''APP_ENV'' \<noteq> ''development''"
  shows "32 \<le> length (JW_AccessSecret (CF_JWT cfg)) \<and> 32 \<le> length (JW_RefreshSecret (CF_JWT cfg)) \<and>
    JW_AccessSecret (CF_JWT cfg) \<noteq> JW_RefreshSecret (CF_JWT cfg) \<and>
    JW_AccessSecret (CF_JWT cfg) \<noteq> defaultJWTAccessSecret \<and> JW_RefreshSecret (CF_JWT cfg) \<noteq> defaultJWTRefreshSecret \<and>
    (\<forall>(name, setting) \<in> {(''TWITCH_CLIENT_ID'', TW_ClientID (OA_Twitch (CF_OAuth cfg))),
        (''TWITCH_CLIENT_SECRET'', TW_ClientSecret (OA_Twitch (CF_OAuth cfg))),
        (''TWITCH_EXTENSION_SECRET'', TW_ExtensionSecret (OA_Twitch (CF_OAuth cfg))),
        (''GOOGLE_CLIENT_ID'', GO_ClientID (OA_Google (CF_OAuth cfg))),
        (''GOOGLE_CLIENT_SECRET'', GO_ClientSecret (OA_Google (CF_OAuth cfg))),
        (''TACHIYA_INTERNAL_SHARED_SECRET'', IC_TachiyaSharedSecret (CF_Internal cfg)),
        (''OAUTH_TOKEN_ENCRYPTION_KEY'', OA_TokenEncryptionKey (CF_OAuth cfg))}. setting = env name \<and> TrimSpace (env name) \<noteq> []) \<and>
    NewMailer (CF_SMTP cfg) = SMTPMailer (CF_SMTP cfg) \<and>
    oauthTokenSecret cfg = env ''OAUTH_TOKEN_ENCRYPTION_KEY'' \<and>
    (TC_Enabled (CF_Tracing cfg) \<longrightarrow> (\<exists>q. TC_SampleRatio (CF_Tracing cfg) = Finite q \<and> 0 \<le> q \<and> q \<le> 1)) \<and>
    (\<forall>token header. metricsRoute cfg = Some token \<longrightarrow> MetricsBearerGuard token header \<longrightarrow>
      token \<noteq> [] \<and> header = ''Bearer '' @ token)"
proof -
  from main_Inr [OF assms(1)] have cfg: "cfg = Load pf env" and "checkSecrets cfg = None" by auto
  with assms(2) have "ValidateProductionSecrets (Some cfg) = None"
    by (auto simp: checkSecrets_def ShouldValidateProductionSecrets_def Load_def serverConfig_def Let_def
        getEnvWithPresence_def split: if_splits prod.splits)
  note v = validated [OF this]
  have req: "TrimSpace x \<noteq> []" if "x \<in> (\<lambda>(name, v, flow). v) ` set (requiredValues cfg)" for x
    using that v(7) by auto
  have named: "TrimSpace (env name) \<noteq> []" if "name \<in> {''TWITCH_CLIENT_ID'', ''TWITCH_CLIENT_SECRET'', ''TWITCH_EXTENSION_SECRET'',
      ''GOOGLE_CLIENT_ID'', ''GOOGLE_CLIENT_SECRET'', ''TACHIYA_INTERNAL_SHARED_SECRET'', ''OAUTH_TOKEN_ENCRYPTION_KEY''}" for name
    by (rule req) (use that in \<open>auto simp: requiredValues_def cfg Load_sel oauth_sel\<close>)
  from named [of "''OAUTH_TOKEN_ENCRYPTION_KEY''"] have "env ''OAUTH_TOKEN_ENCRYPTION_KEY'' \<noteq> []" by auto
  then have secret: "oauthTokenSecret cfg = env ''OAUTH_TOKEN_ENCRYPTION_KEY''"
    by (simp add: oauthTokenSecret_def cfg Load_sel oauth_sel)
  have settings: "\<forall>(name, setting) \<in> {(''TWITCH_CLIENT_ID'', TW_ClientID (OA_Twitch (CF_OAuth cfg))),
      (''TWITCH_CLIENT_SECRET'', TW_ClientSecret (OA_Twitch (CF_OAuth cfg))),
      (''TWITCH_EXTENSION_SECRET'', TW_ExtensionSecret (OA_Twitch (CF_OAuth cfg))),
      (''GOOGLE_CLIENT_ID'', GO_ClientID (OA_Google (CF_OAuth cfg))),
      (''GOOGLE_CLIENT_SECRET'', GO_ClientSecret (OA_Google (CF_OAuth cfg))),
      (''TACHIYA_INTERNAL_SHARED_SECRET'', IC_TachiyaSharedSecret (CF_Internal cfg)),
      (''OAUTH_TOKEN_ENCRYPTION_KEY'', OA_TokenEncryptionKey (CF_OAuth cfg))}. setting = env name \<and> TrimSpace (env name) \<noteq> []"
    unfolding cfg Load_sel oauth_sel by (simp add: named)
  have "MC_BearerToken (CF_Metrics cfg) \<noteq> []" if "MC_EnableMetrics (CF_Metrics cfg)"
    using v(6) [OF that] by (rule contrapos_nn) simp
  then have metrics: "\<forall>token header. metricsRoute cfg = Some token \<longrightarrow> MetricsBearerGuard token header \<longrightarrow>
      token \<noteq> [] \<and> header = ''Bearer '' @ token"
    by (auto simp: metricsRoute_def dest: guard_header split: if_splits)
  have traces: "TC_Enabled (CF_Tracing cfg) \<longrightarrow> (\<exists>q. TC_SampleRatio (CF_Tracing cfg) = Finite q \<and> 0 \<le> q \<and> q \<le> 1)"
    using v(5) by (auto simp: ValidateTracing_def bad_ratio_def not_less split: if_splits float64.splits)
  have mail: "NewMailer (CF_SMTP cfg) = SMTPMailer (CF_SMTP cfg)" using v(4) by (simp add: NewMailer_def)
  show ?thesis
    by (intro conjI v(1) [THEN conjunct1] v(1) [THEN conjunct2] v(2) [THEN conjunct1] v(2) [THEN conjunct2] v(3) settings mail secret
        traces metrics)
qed

definition live_env :: environ where
  "live_env = (\<lambda>_. [])(''APP_ENV'' := ''production'',
     ''JWT_ACCESS_SECRET'' := ''0123456789abcdef0123456789abcdef'', ''JWT_REFRESH_SECRET'' := ''fedcba9876543210fedcba9876543210'',
     ''SMTP_HOST'' := ''smtp.example'', ''ENABLE_METRICS'' := ''true'', ''METRICS_BEARER_TOKEN'' := ''m'',
     ''TWITCH_CLIENT_ID'' := ''t'', ''TWITCH_CLIENT_SECRET'' := ''t'', ''TWITCH_EXTENSION_SECRET'' := ''t'',
     ''GOOGLE_CLIENT_ID'' := ''g'', ''GOOGLE_CLIENT_SECRET'' := ''g'', ''TACHIYA_INTERNAL_SHARED_SECRET'' := ''s'',
     ''OAUTH_TOKEN_ENCRYPTION_KEY'' := ''k'')"

lemma TrimSpace_letter: "\<not> ascii_space c \<Longrightarrow> TrimSpace [c] = [c]"
  by (simp add: TrimSpace_def strip_front.simps leading_space_def trailing_space_def)

lemma jwt_sel:
  "JW_AccessSecret (jwtConfig env) = getEnv env ''JWT_ACCESS_SECRET'' defaultJWTAccessSecret"
  "JW_RefreshSecret (jwtConfig env) = getEnv env ''JWT_REFRESH_SECRET'' defaultJWTRefreshSecret"
  "JW_AccessTTL (jwtConfig env) = i64 (fst (Atoi (getEnv env ''JWT_ACCESS_TTL_MINUTES'' ''15'')) * minute)"
  by (simp_all add: jwtConfig_def)

lemma checked:
  assumes "env ''SMTP_HOST'' \<noteq> []" and "\<not> getBoolEnv env ''TRACING_ENABLED'' False"
    and "TrimSpace (env ''METRICS_BEARER_TOKEN'') = ''m''"
    and "getEnv env ''JWT_ACCESS_SECRET'' defaultJWTAccessSecret = a" "getEnv env ''JWT_REFRESH_SECRET'' defaultJWTRefreshSecret = r"
    and "a \<noteq> r" "a \<noteq> defaultJWTAccessSecret" "r \<noteq> defaultJWTRefreshSecret" "32 \<le> length a" "32 \<le> length r"
    and "\<forall>v \<in> env ` {''TWITCH_CLIENT_ID'', ''TWITCH_CLIENT_SECRET'', ''TWITCH_EXTENSION_SECRET'', ''GOOGLE_CLIENT_ID'',
      ''GOOGLE_CLIENT_SECRET'', ''TACHIYA_INTERNAL_SHARED_SECRET'', ''OAUTH_TOKEN_ENCRYPTION_KEY''}. TrimSpace v \<noteq> []"
  shows "checkSecrets (Load pf env) = None"
proof -
  have "TrimSpace ''m'' = ''m''" by (simp add: TrimSpace_letter ascii_space_def cont_def)
  then have "ValidateProductionSecrets (Some (Load pf env)) = None"
    unfolding ValidateProductionSecrets_def option.case first_error_None using assms
    by (simp add: validateJWTSecret_None requiredValues_def validateRequiredProductionValue_def Load_sel jwt_sel oauth_sel
        ValidateTracing_def tracingConfig_def)
  then show ?thesis by (simp add: checkSecrets_def)
qed

lemma live_values:
  "live_env ''SMTP_HOST'' = ''smtp.example''" "live_env ''METRICS_BEARER_TOKEN'' = ''m''" "live_env ''ENABLE_METRICS'' = ''true''"
  "live_env ''TRACING_ENABLED'' = []"
  "live_env ''JWT_ACCESS_SECRET'' = ''0123456789abcdef0123456789abcdef''" "live_env ''JWT_REFRESH_SECRET'' = ''fedcba9876543210fedcba9876543210''"
  "live_env ''TWITCH_CLIENT_ID'' = ''t''" "live_env ''TWITCH_CLIENT_SECRET'' = ''t''" "live_env ''TWITCH_EXTENSION_SECRET'' = ''t''"
  "live_env ''GOOGLE_CLIENT_ID'' = ''g''" "live_env ''GOOGLE_CLIENT_SECRET'' = ''g''"
  "live_env ''TACHIYA_INTERNAL_SHARED_SECRET'' = ''s''" "live_env ''OAUTH_TOKEN_ENCRYPTION_KEY'' = ''k''"
  by (simp_all add: live_env_def)

lemma live_checked: "checkSecrets (Load pf (live_env(''JWT_ACCESS_TTL_MINUTES'' := ttl))) = None"
  by (rule checked [where a = "''0123456789abcdef0123456789abcdef''" and r = "''fedcba9876543210fedcba9876543210''"])
    (simp_all add: live_values getEnv_def getEnvWithPresence_def getBoolEnv_def TrimSpace_letter ascii_space_def cont_def
      defaultJWTAccessSecret_def defaultJWTRefreshSecret_def)

lemma live_settings:
  "checkSecrets (Load pf live_env) = None" "TC_Enabled (CF_Tracing (Load pf live_env)) = False"
  "TW_ClientID (OA_Twitch (CF_OAuth (Load pf live_env))) = ''t''" "metricsRoute (Load pf live_env) = Some ''m''"
  "oauthTokenSecret (Load pf live_env) = ''k''"
proof -
  show "checkSecrets (Load pf live_env) = None"
    using live_checked [of pf "live_env ''JWT_ACCESS_TTL_MINUTES''"] by (simp only: fun_upd_triv)
qed (simp_all add: Load_sel oauth_sel tracingConfig_def getBoolEnv_def ParseBool_def metricsRoute_def oauthTokenSecret_def live_values
    TrimSpace_letter ascii_space_def cont_def)

theorem main_starts_safely_witness:
  "\<exists>cfg w'. main (\<lambda>_. None) (\<lambda>_. None) live_env (start (\<lambda>n. int n) empty_db) = (Inr (Inr cfg), w') \<and>
     oauthTokenSecret cfg = ''k'' \<and> metricsRoute cfg = Some ''m'' \<and> JW_AccessSecret (CF_JWT cfg) \<noteq> JW_RefreshSecret (CF_JWT cfg)"
proof -
  let ?w = "start (\<lambda>n. int n) empty_db" and ?cfg = "Load (\<lambda>_. None) live_env"
  have "\<exists>n w'. hashLegacyRaffleClaimTokens ?w = (Inr n, w')"
    by (simp add: hashLegacyRaffleClaimTokens_def update_where_Inr draws_check_def empty_db_def)
  then obtain n w' where "hashLegacyRaffleClaimTokens ?w = (Inr n, w')" by blast
  then have run: "main (\<lambda>_. None) (\<lambda>_. None) live_env ?w = (Inr (Inr ?cfg), w')"
    by (simp add: main_def Let_def live_settings ConfigureProvider_def bnd_def ret_def)
  have "live_env ''APP_ENV'' \<noteq> ''development''" by (simp add: live_env_def)
  from main_starts_safely [OF run this] have "JW_AccessSecret (CF_JWT ?cfg) \<noteq> JW_RefreshSecret (CF_JWT ?cfg)" by (elim conjE)
  with run live_settings show ?thesis by blast
qed

section \<open>Old claim tokens\<close>

lemma RuneCount_ascii: "\<forall>c \<in> set s. of_char c < (128::nat) \<Longrightarrow> RuneCountInString s = length s"
  by (induction s rule: RuneCountInString.induct) (auto simp: cont_def)

lemma ascii_hexDigits: "c \<in> set (hexDigits k n) \<Longrightarrow> of_char c < (128::nat)"
  by (induction k arbitrary: n) (auto simp: of_char_of)

lemma ascii_hexWord: "c \<in> set (hexWord k w) \<Longrightarrow> of_char c < (128::nat)"
  by (induction k) (auto dest: ascii_hexDigits simp del: hexDigits.simps)

lemma RuneCount_sha256_hex [simp]: "RuneCountInString (sha256_hex s) = 64"
proof -
  have "\<forall>c \<in> set (sha256_hex s). of_char c < (128::nat)" by (auto simp: sha256_hex_def dest: ascii_hexWord simp del: hexWord.simps)
  from RuneCount_ascii [OF this] show ?thesis by simp
qed

lemma hashLegacy_Inr:
  "hashLegacyRaffleClaimTokens w = (Inr n, w') \<Longrightarrow>
    n = length (filter legacy_token (t_raffle_draws (w_db w))) \<and>
    t_raffle_draws (w_db w') = update_rows legacy_token (\<lambda>x. x\<lparr>RD_ClaimToken := hashClaimToken (RD_ClaimToken x)\<rparr>) (t_raffle_draws (w_db w)) \<and>
    distinct (map RD_ClaimToken (t_raffle_draws (w_db w'))) \<and>
    w_db w' = t_raffle_draws_update (\<lambda>_. t_raffle_draws (w_db w')) (w_db w)"
  by (auto simp: hashLegacyRaffleClaimTokens_def update_where_Inr draws_check_def)

lemma hashed_not_legacy: "\<not> legacy_token (x\<lparr>RD_ClaimToken := hashClaimToken tok\<rparr>)"
  by (simp add: legacy_token_def hashClaimToken_def)

lemma hash_fields [simp]:
  "RD_ID (if legacy_token x then x\<lparr>RD_ClaimToken := t\<rparr> else x) = RD_ID x"
  "RD_RaffleID (if legacy_token x then x\<lparr>RD_ClaimToken := t\<rparr> else x) = RD_RaffleID x"
  "RD_EntryID (if legacy_token x then x\<lparr>RD_ClaimToken := t\<rparr> else x) = RD_EntryID x"
  "RD_PrizeTierID (if legacy_token x then x\<lparr>RD_ClaimToken := t\<rparr> else x) = RD_PrizeTierID x"
  by simp_all

lemma raffle_ok_hashed:
  assumes "raffle_ok d" and "distinct (map RD_ClaimToken (update_rows legacy_token (\<lambda>x. x\<lparr>RD_ClaimToken := f x\<rparr>) (t_raffle_draws d)))"
  shows "raffle_ok (t_raffle_draws_update (update_rows legacy_token (\<lambda>x. x\<lparr>RD_ClaimToken := f x\<rparr>)) d)"
  using assms
  by (simp add: raffle_ok_def draws_ok_def tiers_ok_def tier_draws_def update_rows_def comp_def image_image filter_map) auto

text \<open>C26. The repair at the start of the server keeps every claim link working: afterwards no token is stored raw, the link that
  carries the old token finds its draw, the tables stay well-formed, and a second start changes nothing.\<close>

theorem legacy_tokens_repaired:
  assumes "raffle_ok (w_db w)" and "hashLegacyRaffleClaimTokens w = (Inr n, w')"
  shows "raffle_ok (w_db w') \<and> (\<forall>x \<in> set (t_raffle_draws (w_db w')). \<not> legacy_token x) \<and>
    (\<forall>x \<in> set (t_raffle_draws (w_db w)). legacy_token x \<longrightarrow>
      (\<exists>x'. first_by RD_ID (\<lambda>y. RD_ClaimToken y = hashClaimToken (RD_ClaimToken x)) (t_raffle_draws (w_db w')) = Some x' \<and>
        RD_ID x' = RD_ID x \<and> RD_RaffleID x' = RD_RaffleID x \<and> RD_EntryID x' = RD_EntryID x)) \<and>
    (\<forall>m w''. hashLegacyRaffleClaimTokens w' = (Inr m, w'') \<longrightarrow> m = 0 \<and> w_db w'' = w_db w')"
proof -
  let ?f = "\<lambda>x. x\<lparr>RD_ClaimToken := hashClaimToken (RD_ClaimToken x)\<rparr>"
  let ?ds = "t_raffle_draws (w_db w)" and ?ds' = "t_raffle_draws (w_db w')"
  from hashLegacy_Inr [OF assms(2)] have ds': "?ds' = update_rows legacy_token ?f ?ds"
    and dist: "distinct (map RD_ClaimToken ?ds')" and db: "w_db w' = t_raffle_draws_update (\<lambda>_. ?ds') (w_db w)" by blast+
  have "raffle_ok (t_raffle_draws_update (update_rows legacy_token ?f) (w_db w))"
    by (rule raffle_ok_hashed [OF assms(1)]) (use dist ds' in simp)
  then have ok: "raffle_ok (w_db w')" using db ds' by (cases "w_db w") simp
  have none: "\<not> legacy_token x" if "x \<in> set ?ds'" for x
    using that by (auto simp: ds' set_update_rows hashed_not_legacy)
  have "\<exists>x'. first_by RD_ID (\<lambda>y. RD_ClaimToken y = hashClaimToken (RD_ClaimToken x)) ?ds' = Some x' \<and>
      RD_ID x' = RD_ID x \<and> RD_RaffleID x' = RD_RaffleID x \<and> RD_EntryID x' = RD_EntryID x"
    if "x \<in> set ?ds" "legacy_token x" for x
  proof (intro exI conjI)
    from that have "?f x \<in> set ?ds'" by (auto simp: ds' set_update_rows)
    then show "first_by RD_ID (\<lambda>y. RD_ClaimToken y = hashClaimToken (RD_ClaimToken x)) ?ds' = Some (?f x)"
      using distinct_map_unique [OF dist] by (intro first_by_unique) auto
  qed simp_all
  moreover have "m = 0 \<and> w_db w'' = w_db w'" if "hashLegacyRaffleClaimTokens w' = (Inr m, w'')" for m w''
  proof -
    from none have e: "filter legacy_token ?ds' = []" "update_rows legacy_token ?f ?ds' = ?ds'"
      by (auto simp: filter_empty_conv intro: update_rows_none)
    from hashLegacy_Inr [OF that] e show ?thesis by (cases "w_db w'") simp
  qed
  ultimately show ?thesis using ok none by blast
qed

definition raw_token :: string where
  "raw_token = ''01890a5d-ac96-774b-bcce-b302099a8057''"

definition legacy_7 :: db where
  "legacy_7 = raffle_7\<lparr>t_raffle_draws := [\<lparr>RD_ID = 60, RD_RaffleID = 7, RD_EntryID = RE_ID (t_raffle_entries raffle_7 ! 0),
     RD_ClaimToken = raw_token, RD_ClaimExpiresAt = 0, RD_DrawnAt = 0, RD_PrizeTierID = None\<rparr>]\<rparr>"

theorem legacy_tokens_repaired_witness:
  "\<exists>n w' x'. hashLegacyRaffleClaimTokens (start (\<lambda>n. int n) legacy_7) = (Inr n, w') \<and>
     first_by RD_ID (\<lambda>y. RD_ClaimToken y = hashClaimToken raw_token) (t_raffle_draws (w_db w')) = Some x' \<and> RD_ID x' = 60"
proof -
  let ?w = "start (\<lambda>n. int n) legacy_7"
  have "\<exists>n w'. hashLegacyRaffleClaimTokens ?w = (Inr n, w')"
    by (simp add: hashLegacyRaffleClaimTokens_def update_where_Inr draws_check_def legacy_7_def update_rows_def)
  then obtain n w' where run: "hashLegacyRaffleClaimTokens ?w = (Inr n, w')" by blast
  have ok: "raffle_ok (w_db ?w)"
    by (simp add: legacy_7_def raffle_ok_def entries_ok_def draws_ok_def tiers_ok_def tier_draws_def raffle_7_def empty_db_def new_entry_def)
  have "legacy_token (t_raffle_draws legacy_7 ! 0)"
    by (simp add: legacy_token_def legacy_7_def raw_token_def cont_def)
  with legacy_tokens_repaired [OF ok run] run show ?thesis by (auto simp: legacy_7_def)
qed

section \<open>Settings that do not mean what they say\<close>

text \<open>Outside production an unreadable switch counts as set and turns the API documentation on, which is off in staging
  when the switch is not set.\<close>

theorem swagger_off_turns_on:
  "ShouldEnableSwagger (Some (Load pf ((\<lambda>_. [])(''APP_ENV'' := ''staging'', ''ENABLE_SWAGGER'' := ''off'')))) \<and>
   \<not> ShouldEnableSwagger (Some (Load pf ((\<lambda>_. [])(''APP_ENV'' := ''staging''))))"
proof -
  have "ToLower ''staging'' \<notin> {[], ''development'', ''dev'', ''local''}" by code_simp
  then show ?thesis
    by (simp add: ShouldEnableSwagger_def Load_sel serverConfig_def getEnvWithPresence_def getBoolEnvWithPresence_def ParseBool_def)
qed

text \<open>A lifetime that is not a number of minutes is taken as zero, and the server starts with access tokens that expire as
  they are issued.\<close>

theorem token_lifetime_unreadable:
  "checkSecrets (Load pf (live_env(''JWT_ACCESS_TTL_MINUTES'' := ''15m''))) = None \<and>
   JW_AccessTTL (CF_JWT (Load pf (live_env(''JWT_ACCESS_TTL_MINUTES'' := ''15m'')))) = 0"
proof -
  have "Atoi ''15m'' = (0, False)" by (simp add: Atoi_def cont_def)
  then show ?thesis
    by (simp add: live_checked Load_sel jwt_sel getEnv_def getEnvWithPresence_def i64_def)
qed

end
