(* ===== verification/Metrics.thy ===== *)
theory Metrics
  imports Router "HOL-Library.List_Lexorder" "HOL-Library.Char_ord" "HOL-Library.AList" "HOL-Library.Multiset"
begin

text \<open>
  \<open>internal/metrics/collector.go\<close>: the counters and histograms of the server and their text for a scraper.

  The collector's maps are association lists, in any order; counts are 64-bit words. The numbers of a histogram are
  Go's \<open>float64\<close>: any type with an order, a zero and an addition, of which no law is used. \<open>FL_seconds\<close> is \<open>Duration.Seconds\<close>,
  \<open>FL_const\<close> the number nearest to a decimal constant, \<open>FL_g\<close> and \<open>FL_q\<close> the verbs \<^verbatim>\<open>%g\<close> and \<^verbatim>\<open>%q\<close> of \<^verbatim>\<open>fmt\<close>.
\<close>

section \<open>Keys\<close>

datatype httpKey = HttpKey (HK_route: string) (HK_statusFamily: string)

text \<open>The comparison that \<open>writeHTTPMetrics\<close> sorts by, and the order it gives.\<close>

definition httpKeyLess :: "httpKey \<Rightarrow> httpKey \<Rightarrow> bool" where
  "httpKeyLess i j = (if HK_route i = HK_route j then HK_statusFamily i < HK_statusFamily j else HK_route i < HK_route j)"

instantiation httpKey :: linorder
begin

definition less_httpKey :: "httpKey \<Rightarrow> httpKey \<Rightarrow> bool" where
  "less_httpKey i j = httpKeyLess i j"

definition less_eq_httpKey :: "httpKey \<Rightarrow> httpKey \<Rightarrow> bool" where
  "less_eq_httpKey i j = (i = j \<or> i < j)"

instance
  by standard (auto simp: less_httpKey_def less_eq_httpKey_def httpKeyLess_def httpKey.expand split: if_splits)

end

definition statusFamily :: "int \<Rightarrow> string" where
  "statusFamily status = (if status < 100 \<or> status > 599 then ''unknown'' else char_of (48 + nat (status div 100)) # ''xx'')"

definition safeRoute :: "string \<Rightarrow> string" where
  "safeRoute r = (if TrimSpace r = [] then ''__unmatched__'' else TrimSpace r)"

definition safeResult :: "string \<Rightarrow> string" where
  "safeResult r = (if r \<in> {''success'', ''partial_failure'', ''failure''} then r else ''unknown'')"

section \<open>Histograms\<close>

type_synonym w64 = "64 word"

record 'f histogram =
  HI_count :: w64
  HI_sum :: 'f
  HI_buckets :: "w64 list"

definition newHistogram :: "nat \<Rightarrow> 'f::zero histogram" where
  "newHistogram n = \<lparr>HI_count = 0, HI_sum = 0, HI_buckets = replicate n 0\<rparr>"

text \<open>The loop over the bounds; \<open>None\<close> is the panic of an index out of range.\<close>

fun bump :: "'f::linorder list \<Rightarrow> nat \<Rightarrow> 'f \<Rightarrow> w64 list \<Rightarrow> w64 list option" where
  "bump [] i v bs = Some bs"
| "bump (b # rest) i v bs =
     (if v \<le> b then (if i < length bs then bump rest (Suc i) v (bs[i := bs ! i + 1]) else None)
      else bump rest (Suc i) v bs)"

definition observe :: "'f::{linorder,zero,plus} list \<Rightarrow> 'f \<Rightarrow> 'f histogram \<Rightarrow> 'f histogram option" where
  "observe bounds value h =
     (let v = (if value < 0 then 0 else value) in
      case bump bounds 0 v (HI_buckets h) of
        None \<Rightarrow> None
      | Some bs \<Rightarrow> Some \<lparr>HI_count = HI_count h + 1, HI_sum = HI_sum h + v, HI_buckets = bs\<rparr>)"

record 'f floats =
  FL_seconds :: "int \<Rightarrow> 'f"
  FL_const :: "rat \<Rightarrow> 'f"
  FL_g :: "'f \<Rightarrow> string"
  FL_q :: "string \<Rightarrow> string"

definition httpDurationBuckets :: "'f floats \<Rightarrow> 'f list" where
  "httpDurationBuckets fl = map (FL_const fl) [5/1000, 1/100, 25/1000, 5/100, 1/10, 1/4, 1/2, 1, 5/2, 5, 10]"

definition schedulerDurationBuckets :: "'f floats \<Rightarrow> 'f list" where
  "schedulerDurationBuckets fl = map (FL_const fl) [1/10, 1/2, 1, 5/2, 5, 10, 30, 60, 120, 300]"

section \<open>The collector\<close>

record 'f Collector =
  CO_httpRequests :: "(httpKey \<times> 'f histogram) list"
  CO_scheduler :: "(string \<times> 'f histogram) list"

definition NewCollector :: "'f Collector" where
  "NewCollector = \<lparr>CO_httpRequests = [], CO_scheduler = []\<rparr>"

text \<open>The histogram of a key, made when it is missing, with one more value.\<close>

definition observe_key :: "'f::{linorder,zero,plus} list \<Rightarrow> 'k \<Rightarrow> 'f \<Rightarrow> ('k \<times> 'f histogram) list \<Rightarrow> ('k \<times> 'f histogram) list option" where
  "observe_key bounds k v hs =
     (let h = (case map_of hs k of None \<Rightarrow> newHistogram (length bounds) | Some h \<Rightarrow> h) in
      map_option (\<lambda>h'. AList.update k h' hs) (observe bounds v h))"

text \<open>A nil collector observes nothing; the outer option is the panic.\<close>

definition ObserveHTTPRequest :: "'f::{linorder,zero,plus} floats \<Rightarrow> string \<Rightarrow> int \<Rightarrow> int \<Rightarrow> 'f Collector option \<Rightarrow> 'f Collector option option" where
  "ObserveHTTPRequest fl path status duration col = (case col of
     None \<Rightarrow> Some None
   | Some c \<Rightarrow> (case observe_key (httpDurationBuckets fl) (HttpKey (safeRoute path) (statusFamily status)) (FL_seconds fl duration) (CO_httpRequests c) of
         None \<Rightarrow> None
       | Some hs \<Rightarrow> Some (Some (c\<lparr>CO_httpRequests := hs\<rparr>))))"

definition ObserveRaffleSchedulerRun :: "'f::{linorder,zero,plus} floats \<Rightarrow> string \<Rightarrow> int \<Rightarrow> 'f Collector option \<Rightarrow> 'f Collector option option" where
  "ObserveRaffleSchedulerRun fl outcome duration col = (case col of
     None \<Rightarrow> Some None
   | Some c \<Rightarrow> (case observe_key (schedulerDurationBuckets fl) (safeResult outcome) (FL_seconds fl duration) (CO_scheduler c) of
         None \<Rightarrow> None
       | Some hs \<Rightarrow> Some (Some (c\<lparr>CO_scheduler := hs\<rparr>))))"

text \<open>The middleware: the answer of the rest of the chain is observed under the pattern of its route.\<close>

definition HTTPMetrics :: "'f::{linorder,zero,plus} floats \<Rightarrow> 'f Collector option \<Rightarrow> string \<Rightarrow> ('s \<Rightarrow> reply \<times> 's) \<Rightarrow> int \<Rightarrow> 's \<Rightarrow>
    (reply \<times> 's) \<times> 'f Collector option option" where
  "HTTPMetrics fl col fullPath next_handler elapsed st = (case col of
     None \<Rightarrow> (next_handler st, Some None)
   | Some c \<Rightarrow> (case next_handler st of (rep, st') \<Rightarrow>
       ((rep, st'), ObserveHTTPRequest fl fullPath (int (RY_Status rep)) elapsed (Some c))))"

section \<open>The text\<close>

fun decimal :: "nat \<Rightarrow> string" where
  "decimal n = (if n < 10 then [char_of (48 + n)] else decimal (n div 10) @ [char_of (48 + n mod 10)])"

declare decimal.simps [simp del]

definition replace_char :: "char \<Rightarrow> string \<Rightarrow> string \<Rightarrow> string" where
  "replace_char c r s = concat (map (\<lambda>x. if x = c then r else [x]) s)"

definition escapeLabelValue :: "string \<Rightarrow> string" where
  "escapeLabelValue s =
     replace_char CHR 0x22 [CHR 0x5C, CHR 0x22] (replace_char CHR 0x0A [CHR 0x5C, CHR ''n''] (replace_char CHR 0x5C [CHR 0x5C, CHR 0x5C] s))"

definition newline :: string where
  "newline = [CHR 0x0A]"

definition word_text :: "w64 \<Rightarrow> string" where
  "word_text n = decimal (unat n)"

definition http_labels :: "'f floats \<Rightarrow> httpKey \<Rightarrow> string" where
  "http_labels fl k = ''route='' @ FL_q fl (escapeLabelValue (HK_route k)) @ '',status_family='' @ FL_q fl (HK_statusFamily k)"

definition series :: "string \<Rightarrow> string \<Rightarrow> string \<Rightarrow> string" where
  "series name labels n = name @ ''{'' @ labels @ ''} '' @ n @ newline"

definition header :: "string \<Rightarrow> string \<Rightarrow> string \<Rightarrow> string" where
  "header name doc kind = ''# HELP '' @ name @ '' '' @ doc @ newline @ ''# TYPE '' @ name @ '' '' @ kind @ newline"

text \<open>The lines of one histogram: its buckets, the whole, the sum and the count.\<close>

definition histogram_lines :: "'f floats \<Rightarrow> string \<Rightarrow> string \<Rightarrow> 'f list \<Rightarrow> 'f histogram \<Rightarrow> string" where
  "histogram_lines fl name labels bounds h =
     concat (map (\<lambda>(i, b). series (name @ ''_bucket'') (labels @ '',le='' @ FL_q fl (FL_g fl b)) (word_text (HI_buckets h ! i))) (enumerate 0 bounds)) @
     series (name @ ''_bucket'') (labels @ '',le='' @ [CHR 0x22] @ ''+Inf'' @ [CHR 0x22]) (word_text (HI_count h)) @
     series (name @ ''_sum'') labels (FL_g fl (HI_sum h)) @
     series (name @ ''_count'') labels (word_text (HI_count h))"

definition writeHTTPHistogram :: "'f floats \<Rightarrow> httpKey list \<Rightarrow> (httpKey \<rightharpoonup> 'f histogram) \<Rightarrow> string" where
  "writeHTTPHistogram fl keys hs =
     header ''tachigo_http_request_duration_seconds'' ''HTTP request duration by route pattern and status family.'' ''histogram'' @
     concat (map (\<lambda>k. histogram_lines fl ''tachigo_http_request_duration_seconds'' (http_labels fl k) (httpDurationBuckets fl) (the (hs k))) keys)"

definition writeHTTPMetrics :: "'f floats \<Rightarrow> (httpKey \<times> 'f histogram) list \<Rightarrow> string" where
  "writeHTTPMetrics fl metrics =
     (let keys = sort (map fst metrics); hs = map_of metrics in
      header ''tachigo_http_requests_total'' ''HTTP requests by route pattern and status family.'' ''counter'' @
      concat (map (\<lambda>k. series ''tachigo_http_requests_total'' (http_labels fl k) (word_text (HI_count (the (hs k))))) keys) @
      header ''tachigo_http_request_errors_total'' ''HTTP 5xx responses by route pattern and status family.'' ''counter'' @
      concat (map (\<lambda>k. series ''tachigo_http_request_errors_total'' (http_labels fl k) (word_text (HI_count (the (hs k)))))
        (filter (\<lambda>k. HK_statusFamily k = ''5xx'') keys)) @
      writeHTTPHistogram fl keys hs)"

definition writeSchedulerMetrics :: "'f floats \<Rightarrow> (string \<times> 'f histogram) list \<Rightarrow> string" where
  "writeSchedulerMetrics fl metrics =
     (let results = sort (map fst metrics); hs = map_of metrics; labels = (\<lambda>r. ''result='' @ FL_q fl r) in
      header ''tachigo_raffle_scheduler_runs_total'' ''Raffle scheduler runs by result.'' ''counter'' @
      concat (map (\<lambda>r. series ''tachigo_raffle_scheduler_runs_total'' (labels r) (word_text (HI_count (the (hs r))))) results) @
      header ''tachigo_raffle_scheduler_failures_total'' ''Raffle scheduler failed runs.'' ''counter'' @
      concat (map (\<lambda>r. series ''tachigo_raffle_scheduler_failures_total'' (labels r) (word_text (HI_count (the (hs r)))))
        (filter (\<lambda>r. r = ''failure'') results)) @
      header ''tachigo_raffle_scheduler_duration_seconds'' ''Raffle scheduler run duration by result.'' ''histogram'' @
      concat (map (\<lambda>r. histogram_lines fl ''tachigo_raffle_scheduler_duration_seconds'' (labels r) (schedulerDurationBuckets fl) (the (hs r))) results))"

definition RenderPrometheus :: "'f floats \<Rightarrow> 'f Collector option \<Rightarrow> string" where
  "RenderPrometheus fl col = (case col of
     None \<Rightarrow> []
   | Some c \<Rightarrow> writeHTTPMetrics fl (CO_httpRequests c) @ writeSchedulerMetrics fl (CO_scheduler c))"

section \<open>What the collector counts\<close>

definition seen :: "'f::{linorder,zero} \<Rightarrow> 'f" where
  "seen v = (if v < 0 then 0 else v)"

text \<open>The histogram of a list of values, without the loop.\<close>

definition summary :: "'f::{linorder,zero,plus} list \<Rightarrow> 'f list \<Rightarrow> 'f histogram" where
  "summary bounds vs = \<lparr>HI_count = of_nat (length vs), HI_sum = foldl (\<lambda>s v. s + seen v) 0 vs,
     HI_buckets = map (\<lambda>b. of_nat (length (filter (\<lambda>v. seen v \<le> b) vs))) bounds\<rparr>"

lemma bump_total:
  "i + length bounds \<le> length bs \<Longrightarrow> bump bounds i v bs =
    Some (take i bs @ map (\<lambda>(b, n). if v \<le> b then n + 1 else n) (zip bounds (drop i bs)) @ drop (i + length bounds) bs)"
proof (induction bounds arbitrary: i bs)
  case (Cons b rest)
  then have i: "i < length bs" and le: "Suc i + length rest \<le> length bs" by simp_all
  have d: "drop i bs = bs ! i # drop (Suc i) bs" using i by (rule Cons_nth_drop_Suc [symmetric])
  show ?case
  proof (cases "v \<le> b")
    case True
    from Cons.IH [of "Suc i" "bs[i := bs ! i + 1]"] le True i show ?thesis
      by (simp add: d take_Suc_conv_app_nth)
  next
    case False
    from Cons.IH [OF le] False i show ?thesis by (simp add: d take_Suc_conv_app_nth)
  qed
qed simp

lemma observe_summary: "observe bounds v (summary bounds vs) = Some (summary bounds (vs @ [v]))"
proof -
  have "map (\<lambda>(b, n). if seen v \<le> b then n + 1 else n) (zip bounds (map (\<lambda>b. of_nat (length (filter (\<lambda>v. seen v \<le> b) vs)) :: w64) bounds)) =
      map (\<lambda>b. of_nat (length (filter (\<lambda>v. seen v \<le> b) (vs @ [v])))) bounds"
    by (auto simp: zip_map2 zip_same_conv_map intro!: map_cong)
  then show ?thesis
    by (simp add: observe_def Let_def bump_total summary_def flip: seen_def)
qed

lemma newHistogram_summary: "newHistogram (length bounds) = summary bounds []"
  by (simp add: newHistogram_def summary_def map_replicate_const)

text \<open>The requests of a server: path, status and duration.\<close>

fun observe_all :: "'f::{linorder,zero,plus} floats \<Rightarrow> (string \<times> int \<times> int) list \<Rightarrow> 'f Collector option \<Rightarrow> 'f Collector option option" where
  "observe_all fl [] col = Some col"
| "observe_all fl ((path, status, d) # rs) col =
     (case ObserveHTTPRequest fl path status d col of None \<Rightarrow> None | Some col' \<Rightarrow> observe_all fl rs col')"

definition request_key :: "string \<times> int \<times> int \<Rightarrow> httpKey" where
  "request_key r = (case r of (path, status, d) \<Rightarrow> HttpKey (safeRoute path) (statusFamily status))"

definition request_seconds :: "'f floats \<Rightarrow> (string \<times> int \<times> int) list \<Rightarrow> httpKey \<Rightarrow> 'f list" where
  "request_seconds fl rs k = map (\<lambda>(path, status, d). FL_seconds fl d) (filter (\<lambda>r. request_key r = k) rs)"

definition reflects_requests :: "'f::{linorder,zero,plus} floats \<Rightarrow> (string \<times> int \<times> int) list \<Rightarrow> 'f Collector \<Rightarrow> bool" where
  "reflects_requests fl rs c \<longleftrightarrow> distinct (map fst (CO_httpRequests c)) \<and>
     (\<forall>k. map_of (CO_httpRequests c) k =
       (if request_seconds fl rs k = [] then None else Some (summary (httpDurationBuckets fl) (request_seconds fl rs k))))"

lemma reflects_step:
  assumes "reflects_requests fl rs c"
  shows "\<exists>c'. ObserveHTTPRequest fl path status d (Some c) = Some (Some c') \<and> reflects_requests fl (rs @ [(path, status, d)]) c'"
proof -
  let ?k = "HttpKey (safeRoute path) (statusFamily status)" and ?b = "httpDurationBuckets fl" and ?v = "FL_seconds fl d"
  have "(case map_of (CO_httpRequests c) ?k of None \<Rightarrow> newHistogram (length ?b) | Some h \<Rightarrow> h) = summary ?b (request_seconds fl rs ?k)"
    using assms by (auto simp: reflects_requests_def newHistogram_summary split: if_splits)
  then have "observe_key ?b ?k ?v (CO_httpRequests c) =
      Some (AList.update ?k (summary ?b (request_seconds fl rs ?k @ [?v])) (CO_httpRequests c))"
    by (simp add: observe_key_def Let_def observe_summary)
  moreover have "reflects_requests fl (rs @ [(path, status, d)])
      (c\<lparr>CO_httpRequests := AList.update ?k (summary ?b (request_seconds fl rs ?k @ [?v])) (CO_httpRequests c)\<rparr>)"
    using assms by (auto simp: reflects_requests_def request_seconds_def request_key_def distinct_update update_conv)
  ultimately show ?thesis by (simp add: ObserveHTTPRequest_def)
qed

lemma observe_all_reflects:
  "reflects_requests fl rs0 c \<Longrightarrow> \<exists>c'. observe_all fl rs (Some c) = Some (Some c') \<and> reflects_requests fl (rs0 @ rs) c'"
proof (induction rs arbitrary: rs0 c)
  case (Cons r rs)
  obtain path status d where r: "r = (path, status, d)" by (cases r)
  from reflects_step [OF Cons.prems] obtain c1 where "ObserveHTTPRequest fl path status d (Some c) = Some (Some c1)"
    "reflects_requests fl (rs0 @ [(path, status, d)]) c1" by blast
  with Cons.IH [OF this(2)] show ?case by (simp add: r)
qed auto

lemma reflects_new: "reflects_requests fl [] NewCollector"
  by (simp add: reflects_requests_def request_seconds_def NewCollector_def)

text \<open>C27. The counters are the reference count: whatever requests a server has answered, the collector did not panic, and the
  histogram of a route and status family is the one of the durations of exactly the requests that had them: their number, the
  sum, and for each bound the number not above it.\<close>

theorem collector_counts_requests:
  "\<exists>c. observe_all fl rs (Some NewCollector) = Some (Some c) \<and>
    (\<forall>path family. map_of (CO_httpRequests c) (HttpKey path family) =
      (let vs = map (\<lambda>(p, s, d). FL_seconds fl d) (filter (\<lambda>(p, s, d). safeRoute p = path \<and> statusFamily s = family) rs) in
       if vs = [] then None
       else Some \<lparr>HI_count = of_nat (length vs), HI_sum = foldl (\<lambda>s v. s + seen v) 0 vs,
         HI_buckets = map (\<lambda>b. of_nat (length (filter (\<lambda>v. seen v \<le> b) vs))) (httpDurationBuckets fl)\<rparr>))"
proof -
  have "(\<lambda>r. request_key r = HttpKey path family) = (\<lambda>(p, s, d). safeRoute p = path \<and> statusFamily s = family)" for path family
    by (auto simp: request_key_def fun_eq_iff)
  then have eq: "request_seconds fl rs (HttpKey path family) =
      map (\<lambda>(p, s, d). FL_seconds fl d) (filter (\<lambda>(p, s, d). safeRoute p = path \<and> statusFamily s = family) rs)" for path family
    by (simp add: request_seconds_def)
  from observe_all_reflects [OF reflects_new, of fl rs] obtain c where
    run: "observe_all fl rs (Some NewCollector) = Some (Some c)" and r: "reflects_requests fl rs c" by auto
  show ?thesis
  proof (intro exI conjI allI)
    show "observe_all fl rs (Some NewCollector) = Some (Some c)" by (rule run)
    fix path family
    show "map_of (CO_httpRequests c) (HttpKey path family) =
      (let vs = map (\<lambda>(p, s, d). FL_seconds fl d) (filter (\<lambda>(p, s, d). safeRoute p = path \<and> statusFamily s = family) rs) in
       if vs = [] then None
       else Some \<lparr>HI_count = of_nat (length vs), HI_sum = foldl (\<lambda>s v. s + seen v) 0 vs,
         HI_buckets = map (\<lambda>b. of_nat (length (filter (\<lambda>v. seen v \<le> b) vs))) (httpDurationBuckets fl)\<rparr>)"
      using r unfolding reflects_requests_def eq [symmetric] Let_def by (simp add: summary_def)
  qed
qed

section \<open>Shapes\<close>

definition shaped :: "nat \<Rightarrow> ('k \<times> 'f histogram) list \<Rightarrow> bool" where
  "shaped n hs \<longleftrightarrow> distinct (map fst hs) \<and> (\<forall>h \<in> snd ` set hs. length (HI_buckets h) = n)"

definition collector_ok :: "'f floats \<Rightarrow> 'f Collector \<Rightarrow> bool" where
  "collector_ok fl c \<longleftrightarrow> shaped (length (httpDurationBuckets fl)) (CO_httpRequests c) \<and>
     shaped (length (schedulerDurationBuckets fl)) (CO_scheduler c)"

datatype observation = HTTPRequest string int int | SchedulerRun string int

fun observe_one :: "'f::{linorder,zero,plus} floats \<Rightarrow> observation \<Rightarrow> 'f Collector option \<Rightarrow> 'f Collector option option" where
  "observe_one fl (HTTPRequest path status d) = ObserveHTTPRequest fl path status d"
| "observe_one fl (SchedulerRun outcome d) = ObserveRaffleSchedulerRun fl outcome d"

lemma snd_update: "snd ` set (AList.update k v xs) \<subseteq> insert v (snd ` set xs)"
  by (induction xs) auto

lemma shaped_observe:
  assumes "shaped (length bounds) hs"
  shows "\<exists>hs'. observe_key bounds k v hs = Some hs' \<and> shaped (length bounds) hs'"
proof -
  let ?h = "case map_of hs k of None \<Rightarrow> newHistogram (length bounds) | Some h \<Rightarrow> h"
  have "length (HI_buckets ?h) = length bounds"
    using assms by (auto simp: shaped_def newHistogram_def split: option.splits dest!: map_of_SomeD intro: rev_image_eqI)
  then obtain h' where "observe bounds v ?h = Some h'" and "length (HI_buckets h') = length bounds"
    by (auto simp: observe_def Let_def bump_total)
  with assms snd_update [of k h' hs] show ?thesis
    by (fastforce simp: observe_key_def Let_def shaped_def distinct_update)
qed

text \<open>C28. The shape of the collector: every histogram has one bucket per bound and every key one histogram. Both observers keep it,
  and in this shape neither of them, nor the text that is made of it, reaches beyond a bucket list.\<close>

theorem collector_shape_kept:
  assumes "collector_ok fl c"
  shows "\<exists>c'. observe_one fl x (Some c) = Some (Some c') \<and> collector_ok fl c' \<and>
    (\<forall>(k, h) \<in> set (CO_httpRequests c'). length (HI_buckets h) = 11) \<and>
    (\<forall>(k, h) \<in> set (CO_scheduler c'). length (HI_buckets h) = 10)"
proof -
  have "\<exists>c'. observe_one fl x (Some c) = Some (Some c') \<and> collector_ok fl c'"
  proof (cases x)
    case (HTTPRequest path status d)
    from assms have "shaped (length (httpDurationBuckets fl)) (CO_httpRequests c)" by (simp add: collector_ok_def)
    from shaped_observe [OF this, of "HttpKey (safeRoute path) (statusFamily status)" "FL_seconds fl d"] assms HTTPRequest
    show ?thesis by (auto simp: collector_ok_def ObserveHTTPRequest_def)
  next
    case (SchedulerRun outcome d)
    from assms have "shaped (length (schedulerDurationBuckets fl)) (CO_scheduler c)" by (simp add: collector_ok_def)
    from shaped_observe [OF this, of "safeResult outcome" "FL_seconds fl d"] assms SchedulerRun
    show ?thesis by (auto simp: collector_ok_def ObserveRaffleSchedulerRun_def)
  qed
  then show ?thesis
    by (force simp: collector_ok_def shaped_def httpDurationBuckets_def schedulerDurationBuckets_def)
qed

theorem collector_shape_kept_witness:
  "\<forall>fl :: int floats. \<exists>c'. observe_one fl (HTTPRequest ''/health'' 200 5) (Some NewCollector) = Some (Some c') \<and> collector_ok fl c'"
proof
  fix fl :: "int floats"
  have "collector_ok fl NewCollector" by (simp add: collector_ok_def shaped_def NewCollector_def)
  from collector_shape_kept [OF this, of "HTTPRequest ''/health'' 200 5"]
  show "\<exists>c'. observe_one fl (HTTPRequest ''/health'' 200 5) (Some NewCollector) = Some (Some c') \<and> collector_ok fl c'" by blast
qed

lemma map_of_mset:
  assumes "mset xs = mset ys" and "distinct (map fst xs)"
  shows "map_of xs = map_of ys"
proof -
  have "distinct (map fst ys)" using assms by (metis mset_eq_imp_distinct_iff mset_map)
  moreover have "set xs = set ys" using assms(1) by (rule mset_eq_setD)
  ultimately show ?thesis using assms(2) by (metis map_of_inject_set)
qed

text \<open>The text a scraper gets does not depend on the order in which Go walks a map.\<close>

lemma RenderPrometheus_order_free:
  assumes "mset (CO_httpRequests c) = mset (CO_httpRequests c')" "mset (CO_scheduler c) = mset (CO_scheduler c')"
    and "collector_ok fl c"
  shows "RenderPrometheus fl (Some c) = RenderPrometheus fl (Some c')"
proof -
  have "map_of (CO_httpRequests c) = map_of (CO_httpRequests c')" "map_of (CO_scheduler c) = map_of (CO_scheduler c')"
    using assms by (auto intro!: map_of_mset simp: collector_ok_def shaped_def)
  moreover have "sort (map fst (CO_httpRequests c)) = sort (map fst (CO_httpRequests c'))"
    "sort (map fst (CO_scheduler c)) = sort (map fst (CO_scheduler c'))"
    using assms(1,2) by (intro properties_for_sort; simp; metis mset_map)+
  ultimately show ?thesis by (simp add: RenderPrometheus_def writeHTTPMetrics_def writeSchedulerMetrics_def)
qed

end
