(* ===== verification/ChannelAccess.thy ===== *)
theory ChannelAccess
  imports HandlersPoints
begin

text \<open>
  Who may give away points in a channel or change its settings: an admin, the streamer of the channel, and an agency, for
  which airdrops and settings look in different tables.
\<close>

section \<open>Refusals\<close>

text \<open>A handler that changes nothing and does not answer with success, on the tables \<open>d0\<close>.\<close>

definition refused :: "db \<Rightarrow> 'd response m \<Rightarrow> bool" where
  "refused d0 x \<longleftrightarrow> (\<forall>w. w_db w = d0 \<longrightarrow> w_db (snd (x w)) = d0 \<and> (\<forall>status d. fst (x w) \<noteq> Inr (Reply status d)))"

named_theorems refused_intros \<open>rules for refusals\<close>

lemma refused_ret [refused_intros]: "refused d0 (ret (Refuse status msg data))"
  by (simp add: refused_def ret_def)

lemma refused_answers [refused_intros]:
  "refused d0 (ret (badRequest msg))" "refused d0 (ret internal)" "refused d0 (ret (forbidden msg))"
  by (simp_all add: badRequest_def internal_def forbidden_def refuse_def refused_intros)

lemma refused_fail [refused_intros]: "refused d0 (fail e)"
  by (simp add: refused_def fail_def)

lemma refused_handle_query [refused_intros]:
  "refused d0 (g (f d0)) \<Longrightarrow> (\<And>e. refused d0 (h e)) \<Longrightarrow> refused d0 (handle (query f) h g)"
  by (auto simp: refused_def handle_def query_def stmt_def split: option.split)

lemma refused_if [refused_intros]: "(b \<Longrightarrow> refused d0 x) \<Longrightarrow> (\<not> b \<Longrightarrow> refused d0 y) \<Longrightarrow> refused d0 (if b then x else y)"
  by simp

lemma refused_bindJSON [refused_intros]: "(\<And>b. refused d0 (k b)) \<Longrightarrow> refused d0 (bindJSON h json valid k)"
  by (auto simp: bindJSON_def intro!: refused_intros split: sum.split)

lemma refused_mustClaims [refused_intros]: "(\<And>c. claims = Some c \<Longrightarrow> refused d0 (k c)) \<Longrightarrow> refused d0 (mustClaims claims k)"
  by (auto simp: mustClaims_def intro!: refused_intros split: option.split)

section \<open>Channels\<close>

definition streams :: "db \<Rightarrow> uuid \<Rightarrow> string \<Rightarrow> bool" where
  "streams d u ch \<longleftrightarrow> (\<exists>s \<in> set (t_streamers d). ST_UserID s = u \<and> ST_ChannelID s = ch)"

text \<open>The agency of a channel, as the dashboard assigns it and as the older table had it.\<close>

definition represents :: "db \<Rightarrow> uuid \<Rightarrow> string \<Rightarrow> bool" where
  "represents d u ch \<longleftrightarrow> (\<exists>s \<in> set (t_streamers d). ST_AgencyUserID s = Some u \<and> ST_ChannelID s = ch)"

definition legacy_represents :: "db \<Rightarrow> uuid \<Rightarrow> string \<Rightarrow> bool" where
  "legacy_represents d u ch \<longleftrightarrow> (\<exists>a \<in> set (t_agency_streamers d). AS_AgencyID a = u \<and> AS_ChannelID a = ch)"

text \<open>The role that lets the caller act on the channel, if there is one; \<open>agency\<close> says what an agency needs.\<close>

definition may_manage :: "(uuid \<Rightarrow> string \<Rightarrow> bool) \<Rightarrow> HttpLib \<Rightarrow> db \<Rightarrow> AccessClaims \<Rightarrow> string \<Rightarrow> bool" where
  "may_manage agency h d c ch \<longleftrightarrow> AC_Role c = RoleAdmin \<or>
     (\<exists>u. H_parse h (AC_UserID c) = Some u \<and> (AC_Role c = RoleStreamer \<and> streams d u ch \<or> AC_Role c = RoleAgency \<and> agency u ch))"

lemma refused_airdrop:
  assumes "\<And>c. claims = Some c \<Longrightarrow> \<not> may_manage (legacy_represents d0) h d0 c ch"
  shows "refused d0 (AirdropH h claims ch json)"
  unfolding AirdropH_def
proof (intro refused_intros)
  fix b c
  assume "claims = Some c"
  note no = assms [OF this]
  show "refused d0 (orInternal (airdropAuthorize h c ch) (\<lambda>allowed. if \<not> allowed then ret (forbidden ''forbidden'')
      else handle (ExecuteContext \<lparr>AQ_ChannelID = ch, AQ_Amount = AB_Amount b, AQ_Note = AB_Note b\<rparr>)
        (\<lambda>e. ret (airdrop_error_response e)) (\<lambda>result. ret (okR result))))"
  proof (cases "AC_Role c = RoleViewer \<or> H_parse h (AC_UserID c) = None")
    case True
    with no show ?thesis
      by (auto simp: may_manage_def orInternal_def airdropAuthorize_def handle_def refused_def ret_def fail_def
          forbidden_def internal_def refuse_def split: UserRole.split)
  next
    case False
    with no show ?thesis
      by (auto simp: may_manage_def streams_def legacy_represents_def orInternal_def airdropAuthorize_def filter_empty_conv
          StreamerOwnsChannelContext_def AgencyOwnsChannelContext_def has_streamer_def list_ex_iff
          intro!: refused_intros split: UserRole.split)
  qed
qed

text \<open>A check that writes the refusal itself.\<close>

definition refusing :: "db \<Rightarrow> 'd response option m \<Rightarrow> bool" where
  "refusing d0 x \<longleftrightarrow> (\<forall>w. w_db w = d0 \<longrightarrow> w_db (snd (x w)) = d0 \<and>
     (case fst (x w) of Inl e \<Rightarrow> True | Inr None \<Rightarrow> False | Inr (Some r) \<Rightarrow> \<forall>status d. r \<noteq> Reply status d))"

lemma refusing_bnd: "refusing d0 x \<Longrightarrow> refused d0 (bnd x (\<lambda>denied. case denied of Some r \<Rightarrow> ret r | None \<Rightarrow> k))"
  unfolding refused_def
proof (intro allI impI)
  fix w :: world
  assume x: "refusing d0 x" and w: "w_db w = d0"
  obtain y w1 where "x w = (y, w1)" by fastforce
  with x w show "w_db (snd (bnd x (\<lambda>denied. case denied of Some r \<Rightarrow> ret r | None \<Rightarrow> k) w)) = d0 \<and>
      (\<forall>status d. fst (bnd x (\<lambda>denied. case denied of Some r \<Rightarrow> ret r | None \<Rightarrow> k) w) \<noteq> Inr (Reply status d))"
    by (cases y) (auto simp: refusing_def bnd_def ret_def split: option.splits)
qed

lemma refusing_access:
  assumes "\<And>c. claims = Some c \<Longrightarrow> \<not> may_manage (represents d0) h d0 c ch"
  shows "refusing d0 (authorizeChannelAccess h claims ch)"
proof (cases claims)
  case None
  then show ?thesis
    by (auto simp: authorizeChannelAccess_def mustClaims_def refusing_def ret_def fail_def badRequest_def refuse_def)
next
  case (Some c)
  note no = assms [OF this]
  have q: "refusing d0 (handle (query f) (\<lambda>e. ret (Some internal)) (\<lambda>b. ret (if \<not> b then Some (forbidden ''forbidden'') else None)))"
    if "\<not> f d0" for f :: "db \<Rightarrow> bool"
    using that by (auto simp: refusing_def handle_def query_def stmt_def ret_def internal_def forbidden_def refuse_def split: option.split)
  have r: "refusing d0 (ret (Some (refuse status msg)))" for status msg
    by (simp add: refusing_def ret_def refuse_def)
  from no show ?thesis
    by (auto simp: authorizeChannelAccess_def mustClaims_def Some Let_def may_manage_def streams_def represents_def
        OwnsAgencyChannelContext_def StreamerOwnsChannelContext_def has_streamer_def filter_empty_conv badRequest_def forbidden_def
        intro!: q r q [unfolded forbidden_def] split: UserRole.split option.split)
qed

lemma refused_settings:
  "(\<And>c. claims = Some c \<Longrightarrow> \<not> may_manage (represents d0) h d0 c ch) \<Longrightarrow> refused d0 (UpdateChannelConfigH h claims ch json)"
  unfolding UpdateChannelConfigH_def
  by (intro refused_bindJSON) (auto split: prod.split intro!: refused_intros refusing_bnd refusing_access)

text \<open>C34. Nobody but an admin, the channel's streamer or its agency gives away points in a channel or changes its
  settings: for every other caller both requests leave every table as it was and do not answer with success.\<close>

theorem channel_access_enforced:
  assumes "\<And>c. claims = Some c \<Longrightarrow> \<not> may_manage (\<lambda>u ch. legacy_represents (w_db w) u ch \<or> represents (w_db w) u ch) h (w_db w) c ch"
  shows "(\<forall>x w'. AirdropH h claims ch body w = (x, w') \<longrightarrow> w_db w' = w_db w \<and> (\<forall>status d. x \<noteq> Inr (Reply status d))) \<and>
    (\<forall>x w'. UpdateChannelConfigH h claims ch settings w = (x, w') \<longrightarrow> w_db w' = w_db w \<and> (\<forall>status d. x \<noteq> Inr (Reply status d)))"
proof -
  have "refused (w_db w) (AirdropH h claims ch body)" by (rule refused_airdrop) (use assms in \<open>auto simp: may_manage_def\<close>)
  moreover have "refused (w_db w) (UpdateChannelConfigH h claims ch settings)"
    by (rule refused_settings) (use assms in \<open>auto simp: may_manage_def\<close>)
  ultimately show ?thesis unfolding refused_def by (metis fst_conv snd_conv)
qed

definition stranger :: AccessClaims where
  "stranger = \<lparr>AC_UserID = ''u'', AC_Role = RoleStreamer, AC_ExpiresAt = 0, AC_IssuedAt = 0, AC_Subject = ''u''\<rparr>"

theorem channel_access_enforced_witness:
  "\<forall>h. w_db (snd (AirdropH h (Some stranger) ''c'' (Inr \<lparr>AB_Amount = 5, AB_Note = []\<rparr>) (start (\<lambda>n. int n) empty_db))) = empty_db \<and>
     w_db (snd (UpdateChannelConfigH h (Some stranger) ''c'' (Inr (30, 2)) (start (\<lambda>n. int n) empty_db))) = empty_db"
proof
  fix h
  let ?w = "start (\<lambda>n. int n) empty_db"
  have "\<not> may_manage (\<lambda>u ch. legacy_represents (w_db ?w) u ch \<or> represents (w_db ?w) u ch) h (w_db ?w) c ''c''" if "Some stranger = Some c" for c
    using that by (auto simp: may_manage_def stranger_def streams_def empty_db_def)
  from channel_access_enforced [OF this] show "w_db (snd (AirdropH h (Some stranger) ''c'' (Inr \<lparr>AB_Amount = 5, AB_Note = []\<rparr>) ?w)) = empty_db \<and>
     w_db (snd (UpdateChannelConfigH h (Some stranger) ''c'' (Inr (30, 2)) ?w)) = empty_db"
    by (metis prod.collapse start_sel(1))
qed

text \<open>An agency that the dashboard assigned to a channel may change its settings, but its airdrops are refused as long as the
  older table is empty, which no operation of the program fills.\<close>

theorem agency_airdrops_refused:
  assumes "t_agency_streamers (w_db w) = []" and "AC_Role c = RoleAgency" and "AirdropH h (Some c) ch body w = (x, w')"
  shows "w_db w' = w_db w \<and> (\<forall>status d. x \<noteq> Inr (Reply status d))"
proof -
  have "refused (w_db w) (AirdropH h (Some c) ch body)"
    by (rule refused_airdrop) (use assms(1,2) in \<open>auto simp: may_manage_def legacy_represents_def\<close>)
  with assms(3) show ?thesis unfolding refused_def by (metis fst_conv snd_conv)
qed

end
